(* ===== verification/Prelude.thy ===== *)
theory Prelude
  imports Main "HOL-Library.Word"
begin

unbundle bit_operations_syntax

text \<open>
  Shared vocabulary of the development: the machine integers of the C++ code, exceptions as
  values, the state-and-exception programs every stateful operation is written in, and raw byte
  memory with little-endian encoding.

  A C++ member function that may throw is a program of type \<open>('s, 'a) prog\<close>: it takes the
  state (the object's members, and the globals it uses), and returns either the exception or
  the value, together with the state reached. A \<open>throw\<close> keeps the member writes made before
  it, as in C++. The exception value carries the format string of the \<open>FrmwkEx\<close> (the empty
  string for \<open>FrmwkEx(HERE)\<close>); behaviour the C++ standard leaves undefined (a store outside an
  allocation, a use of an invalid iterator) is the exception value \<open>UB\<close>, so that a theorem that an
  operation returns normally also says that it is memory safe.
\<close>

section \<open>Machine integers\<close>

type_synonym u8 = "8 word"
type_synonym u16 = "16 word"
type_synonym u32 = "32 word"
type_synonym u64 = "64 word"

text \<open>Widening a byte and cutting it back.\<close>

lemma unat_ucast_u8_u16 [simp]: "unat (ucast (p :: u8) :: u16) = unat p"
  by transfer (simp add: take_bit_take_bit)

lemma unat_ucast_u8_u32 [simp]: "unat (ucast (p :: u8) :: u32) = unat p"
  by transfer (simp add: take_bit_take_bit)

lemma unat_ucast_u16_u32 [simp]: "unat (ucast (p :: u16) :: u32) = unat p"
  by transfer (simp add: take_bit_take_bit)

lemma ucast_u8_u64_u16 [simp]: "ucast (ucast (p :: u8) :: u64) = (ucast p :: u16)"
  by transfer (simp add: take_bit_take_bit min_def)

lemma ucast_u8_u64_u8 [simp]: "ucast (ucast (p :: u8) :: u64) = p"
  by (rule bit_word_eqI) (simp add: bit_simps)

lemma ucast_u8_u64_0_iff [simp]: "(ucast (p :: u8) :: u64) = 0 \<longleftrightarrow> p = 0"
  by (metis ucast_u8_u64_u8 ucast_0)

named_theorems prog_simps \<open>unfolding rules of the program combinators\<close>
named_theorems wf_intros \<open>introduction rules that preserve the components' invariants\<close>

section \<open>Exceptions and programs\<close>

datatype ex =
    FrmwkEx string      \<comment> \<open>\<open>throw FrmwkEx(...)\<close>\<close>
  | FrmwkExPtr string   \<comment> \<open>\<open>throw new FrmwkEx(...)\<close>: the thrown value is a pointer\<close>
  | UB string           \<comment> \<open>undefined behaviour of C++\<close>
  | Diverges            \<comment> \<open>a loop that does not end\<close>

type_synonym ('s, 'a) prog = "'s \<Rightarrow> (ex + 'a) \<times> 's"

definition ret :: "'a \<Rightarrow> ('s, 'a) prog" where
  "ret x = (\<lambda>s. (Inr x, s))"

definition raise :: "ex \<Rightarrow> ('s, 'a) prog" where
  "raise e = (\<lambda>s. (Inl e, s))"

definition bnd :: "('s, 'a) prog \<Rightarrow> ('a \<Rightarrow> ('s, 'b) prog) \<Rightarrow> ('s, 'b) prog" where
  "bnd m k = (\<lambda>s. case m s of (Inl e, s') \<Rightarrow> (Inl e, s') | (Inr x, s') \<Rightarrow> k x s')"

definition sq :: "('s, unit) prog \<Rightarrow> ('s, 'b) prog \<Rightarrow> ('s, 'b) prog" where
  "sq m k = bnd m (\<lambda>_. k)"

definition gets :: "('s \<Rightarrow> 'a) \<Rightarrow> ('s, 'a) prog" where
  "gets f = (\<lambda>s. (Inr (f s), s))"

definition modify :: "('s \<Rightarrow> 's) \<Rightarrow> ('s, unit) prog" where
  "modify f = (\<lambda>s. (Inr (), f s))"

definition throw_if :: "bool \<Rightarrow> ex \<Rightarrow> ('s, unit) prog" where
  "throw_if b e = (if b then raise e else ret ())"

definition lift_result :: "ex + 'a \<Rightarrow> ('s, 'a) prog" where
  "lift_result r = (\<lambda>s. (r, s))"

text \<open>Running a program of a sub-object inside a larger state.\<close>

definition zoom :: "('s \<Rightarrow> 't) \<Rightarrow> ('t \<Rightarrow> 's \<Rightarrow> 's) \<Rightarrow> ('t, 'a) prog \<Rightarrow> ('s, 'a) prog" where
  "zoom get put m = (\<lambda>s. case m (get s) of (r, t) \<Rightarrow> (r, put t s))"

lemma ret_apply [simp, prog_simps]: "ret x s = (Inr x, s)"
  by (simp add: ret_def)

lemma raise_apply [simp, prog_simps]: "raise e s = (Inl e, s)"
  by (simp add: raise_def)

lemma gets_apply [simp, prog_simps]: "gets f s = (Inr (f s), s)"
  by (simp add: gets_def)

lemma modify_apply [simp, prog_simps]: "modify f s = (Inr (), f s)"
  by (simp add: modify_def)

lemma lift_result_apply [simp, prog_simps]: "lift_result r s = (r, s)"
  by (simp add: lift_result_def)

lemma throw_if_apply [simp, prog_simps]:
  "throw_if b e s = (if b then (Inl e, s) else (Inr (), s))"
  by (simp add: throw_if_def)

lemma bnd_apply [prog_simps]:
  "bnd m k s = (case m s of (Inl e, s') \<Rightarrow> (Inl e, s') | (Inr x, s') \<Rightarrow> k x s')"
  by (simp add: bnd_def)

lemma sq_apply [prog_simps]:
  "sq m k s = (case m s of (Inl e, s') \<Rightarrow> (Inl e, s') | (Inr x, s') \<Rightarrow> k s')"
  by (simp add: sq_def bnd_def)

lemma zoom_apply [prog_simps]:
  "zoom get put m s = (case m (get s) of (r, t) \<Rightarrow> (r, put t s))"
  by (simp add: zoom_def)

lemma bnd_ret [simp]: "bnd (ret x) k = k x"
  by (simp add: fun_eq_iff bnd_def)

lemma bnd_gets [simp]: "bnd (gets f) k s = k (f s) s"
  by (simp add: bnd_def)

lemma sq_modify [simp]: "sq (modify f) k s = k (f s)"
  by (simp add: sq_def bnd_def)

lemma sq_throw_if [simp]:
  "sq (throw_if b e) k s = (if b then (Inl e, s) else k s)"
  by (simp add: sq_def bnd_def)

lemma bnd_Inr_iff:
  "bnd m k s = (Inr y, t) \<longleftrightarrow> (\<exists>x u. m s = (Inr x, u) \<and> k x u = (Inr y, t))"
  by (auto simp: bnd_def split: prod.splits sum.splits)

lemma sq_Inr_iff:
  "sq m k s = (Inr y, t) \<longleftrightarrow> (\<exists>u. m s = (Inr (), u) \<and> k u = (Inr y, t))"
  by (auto simp: sq_def bnd_def split: prod.splits sum.splits)

section \<open>Predicates every run keeps\<close>

text \<open>\<open>keeps I m\<close>: whatever way \<open>m\<close> ends, it ends in a state satisfying \<open>I\<close>.\<close>

definition keeps :: "('s \<Rightarrow> bool) \<Rightarrow> ('s, 'a) prog \<Rightarrow> bool" where
  "keeps I m \<longleftrightarrow> (\<forall>s. I s \<longrightarrow> I (snd (m s)))"

lemma keepsD: "keeps I m \<Longrightarrow> I s \<Longrightarrow> I (snd (m s))"
  by (simp add: keeps_def)

lemma keeps_ret [wf_intros]: "keeps I (ret x)"
  by (simp add: keeps_def)

lemma keeps_raise [wf_intros]: "keeps I (raise e)"
  by (simp add: keeps_def)

lemma keeps_gets [wf_intros]: "keeps I (gets f)"
  by (simp add: keeps_def)

lemma keeps_throw_if [wf_intros]: "keeps I (throw_if b e)"
  by (simp add: keeps_def)

lemma keeps_lift_result [wf_intros]: "keeps I (lift_result r)"
  by (simp add: keeps_def)

lemma keeps_modify [wf_intros]: "(\<And>s. I s \<Longrightarrow> I (f s)) \<Longrightarrow> keeps I (modify f)"
  by (simp add: keeps_def)

lemma keeps_bnd [wf_intros]:
  "keeps I m \<Longrightarrow> (\<And>x. keeps I (k x)) \<Longrightarrow> keeps I (bnd m k)"
proof (unfold keeps_def, intro allI impI)
  fix s assume m: "\<forall>s. I s \<longrightarrow> I (snd (m s))" and "I s"
  assume k: "\<And>x. \<forall>s. I s \<longrightarrow> I (snd (k x s))"
  obtain r t where r: "m s = (r, t)" by (cases "m s")
  with m \<open>I s\<close> have "I t" by force
  with k r show "I (snd (bnd m k s))" by (cases r) (simp_all add: bnd_def)
qed

lemma keeps_sq [wf_intros]: "keeps I m \<Longrightarrow> keeps I k \<Longrightarrow> keeps I (sq m k)"
  unfolding sq_def by (rule keeps_bnd)

lemma keeps_if [wf_intros]: "keeps I m \<Longrightarrow> keeps I k \<Longrightarrow> keeps I (if b then m else k)"
  by simp

section \<open>The C library, as far as its results are not determined\<close>

text \<open>
  \<open>pagesize\<close> is \<open>sysconf(_SC_PAGESIZE)\<close>, \<open>memfail n\<close> says that the heap cannot satisfy a
  request of \<open>n\<close> bytes, \<open>junk i\<close> is the indeterminate content of byte \<open>i\<close> of fresh memory,
  \<open>undef64\<close> that of an uninitialised 64-bit local variable.
\<close>

record libc =
  pagesize :: int
  memfail :: "nat \<Rightarrow> bool"
  junk :: "nat \<Rightarrow> u8"
  undef64 :: u64

text \<open>A C library for examples: 4 KiB pages, memory never short and always zero.\<close>

definition ex_libc :: libc where
  "ex_libc = \<lparr>pagesize = 4096, memfail = (\<lambda>_. False), junk = (\<lambda>_. 0), undef64 = 0\<rparr>"

definition fresh :: "libc \<Rightarrow> nat \<Rightarrow> u8 list" where
  "fresh C n = map (junk C) [0..<n]"

lemma length_fresh [simp]: "length (fresh C n) = n"
  by (simp add: fresh_def)

text \<open>
  \<open>posix_memalign\<close>: error 22 (EINVAL) unless the alignment is a power of two and a multiple of
  the pointer size, error 12 (ENOMEM) when memory is short, otherwise a fresh block.
\<close>

definition posix_memalign :: "libc \<Rightarrow> u32 \<Rightarrow> u32 \<Rightarrow> int + u8 list" where
  "posix_memalign C align nbytes =
     (if align = 0 \<or> align AND (align - 1) \<noteq> 0 \<or> unat align mod 8 \<noteq> 0 then Inl 22
      else if memfail C (unat nbytes) then Inl 12
      else Inr (fresh C (unat nbytes)))"

lemma posix_memalign_Inr:
  "posix_memalign C align nbytes = Inr m \<Longrightarrow> m = fresh C (unat nbytes)"
  by (auto simp: posix_memalign_def split: if_splits)

section \<open>Raw memory\<close>

text \<open>A store of the bytes \<open>xs\<close> at index \<open>p\<close> of an allocation; \<open>None\<close> when it leaves it.\<close>

definition poke :: "nat \<Rightarrow> 'a list \<Rightarrow> 'a list \<Rightarrow> 'a list option" where
  "poke p xs m =
     (if p + length xs \<le> length m
      then Some (take p m @ xs @ drop (p + length xs) m) else None)"

definition peek :: "nat \<Rightarrow> nat \<Rightarrow> 'a list \<Rightarrow> 'a list option" where
  "peek p n m = (if p + n \<le> length m then Some (take n (drop p m)) else None)"

lemma length_poke: "poke p xs m = Some m' \<Longrightarrow> length m' = length m"
  by (auto simp: poke_def split: if_splits)

lemma peek_poke_same: "poke p xs m = Some m' \<Longrightarrow> peek p (length xs) m' = Some xs"
  by (auto simp: poke_def peek_def split: if_splits)

lemma nth_poke:
  "poke p xs m = Some m' \<Longrightarrow> i < length m \<Longrightarrow>
     m' ! i = (if p \<le> i \<and> i < p + length xs then xs ! (i - p) else m ! i)"
  by (auto simp: poke_def nth_append split: if_splits)

lemma peek_poke_disjoint:
  assumes "poke p xs m = Some m'" and "q + n \<le> p \<or> p + length xs \<le> q"
  shows "peek q n m' = peek q n m"
proof -
  have len: "length m' = length m" by (rule length_poke [OF assms(1)])
  show ?thesis
  proof (cases "q + n \<le> length m")
    case True
    have "take n (drop q m') = take n (drop q m)"
      by (rule nth_equalityI) (use True len assms nth_poke [OF assms(1)] in auto)
    then show ?thesis using len by (simp add: peek_def)
  next
    case False
    then show ?thesis using len by (simp add: peek_def)
  qed
qed

lemma peek_length: "peek p n m = Some xs \<Longrightarrow> length xs = n"
  by (auto simp: peek_def split: if_splits)

lemma window_update:
  assumes "p + length xs \<le> n" and "a + n \<le> length m"
  shows "take n (drop a (take (a + p) m @ xs @ drop (a + p + length xs) m)) =
    take p (take n (drop a m)) @ xs @ drop (p + length xs) (take n (drop a m))"
proof -
  have 1: "drop a (take (a + p) m @ xs @ drop (a + p + length xs) m) =
      take p (drop a m) @ xs @ drop (p + length xs) (drop a m)"
    using assms by (simp add: drop_take add.commute add.left_commute)
  show ?thesis
  proof (cases "p < n")
    case True
    then show ?thesis unfolding 1 using assms by (auto simp: min_def drop_take)
  next
    case False
    with assms(1) have "length xs = 0" and "p = n" by linarith+
    then show ?thesis unfolding 1 using assms by simp
  qed
qed

section \<open>Little-endian encoding\<close>

definition le8 :: "u64 \<Rightarrow> u8 list" where
  "le8 v = [ucast v]"

definition le16 :: "u64 \<Rightarrow> u8 list" where
  "le16 v = [ucast v, ucast (drop_bit 8 v)]"

definition le32 :: "u64 \<Rightarrow> u8 list" where
  "le32 v = [ucast v, ucast (drop_bit 8 v), ucast (drop_bit 16 v), ucast (drop_bit 24 v)]"

fun of_le32 :: "u8 list \<Rightarrow> u32" where
  "of_le32 [a, b, c, d] =
     ucast a OR push_bit 8 (ucast b) OR push_bit 16 (ucast c) OR push_bit 24 (ucast d)"
| "of_le32 _ = 0"

lemma length_le [simp]: "length (le8 v) = 1" "length (le16 v) = 2" "length (le32 v) = 4"
  by (simp_all add: le8_def le16_def le32_def)

lemma of_le32_le32: "of_le32 (le32 (ucast (v :: u32))) = v"
proof (rule bit_word_eqI)
  fix n assume "n < LENGTH(32)"
  then have "n < 8 \<or> (8 \<le> n \<and> n < 16) \<or> (16 \<le> n \<and> n < 24) \<or> (24 \<le> n \<and> n < 32)"
    by auto
  then show "bit (of_le32 (le32 (ucast v))) n = bit v n"
    by (elim disjE) (auto simp: le32_def bit_simps)
qed

lemma le32_inj: "le32 (ucast (v :: u32)) = le32 (ucast w) \<Longrightarrow> v = w"
  by (metis of_le32_le32)

end
