(* ===== verification/Mem_Buffer.thy ===== *)
theory Mem_Buffer
  imports Prelude
begin

text \<open>
  \<open>MemBuffer\<close> (Singletons/memBuffer.cpp): the byte buffers commands, queues and payloads live in.
  The object is modelled with the allocation it owns (\<open>mRealBaseAddr\<close>, \<open>None\<close> for the null
  pointer) and the distance of \<open>mVirBaseAddr\<close> from its start; a write outside the allocation is
  \<open>UB\<close>. Logging and dumping to files are not modelled.
\<close>

section \<open>State\<close>

record mem_buffer =
  mAllocByNewOperator :: bool
  mRealBaseAddr :: "u8 list option"
  mVirOff :: nat                      \<comment> \<open>\<open>mVirBaseAddr - mRealBaseAddr\<close>\<close>
  mVirBufSize :: u32
  mAlignment :: u32

datatype DataPattern =
    DATAPAT_CONST_8BIT | DATAPAT_CONST_16BIT | DATAPAT_CONST_32BIT
  | DATAPAT_INC_8BIT | DATAPAT_INC_16BIT | DATAPAT_INC_32BIT
  | DATAPATTERN_FENCE

type_synonym 'a mb_prog = "(mem_buffer, 'a) prog"

definition MemBuffer_InitMemberVariables :: "mem_buffer \<Rightarrow> mem_buffer" where
  "MemBuffer_InitMemberVariables b =
     b\<lparr>mAllocByNewOperator := True, mRealBaseAddr := None, mVirOff := 0,
       mVirBufSize := 0, mAlignment := 0\<rparr>"

definition MemBuffer_new :: mem_buffer where
  "MemBuffer_new =
     \<lparr>mAllocByNewOperator = True, mRealBaseAddr = None, mVirOff = 0,
      mVirBufSize = 0, mAlignment = 0\<rparr>"

text \<open>
  The memory goes back to the allocator it came from (\<open>delete []\<close> or \<open>free\<close>), which has no
  effect inside the object but for the members.
\<close>

definition MemBuffer_DeallocateResources :: "mem_buffer \<Rightarrow> mem_buffer" where
  "MemBuffer_DeallocateResources b = MemBuffer_InitMemberVariables b"

definition MemBuffer_GetBufSize :: "mem_buffer \<Rightarrow> u32" where
  "MemBuffer_GetBufSize b = mVirBufSize b"

definition MemBuffer_GetAlignment :: "mem_buffer \<Rightarrow> u32" where
  "MemBuffer_GetAlignment b = mAlignment b"

text \<open>The bytes a reader of \<open>GetBufSize()\<close> bytes from \<open>GetBuffer()\<close> sees.\<close>

definition mb_bytes :: "mem_buffer \<Rightarrow> u8 list option" where
  "mb_bytes b =
     (case mRealBaseAddr b of
        None \<Rightarrow> if mVirBufSize b = 0 then Some [] else None
      | Some m \<Rightarrow> peek (mVirOff b) (unat (mVirBufSize b)) m)"

text \<open>A store through \<open>GetBuffer() + p\<close>.\<close>

definition mb_store :: "nat \<Rightarrow> u8 list \<Rightarrow> unit mb_prog" where
  "mb_store p xs = (\<lambda>b.
     case mRealBaseAddr b of
       None \<Rightarrow> (if xs = [] then (Inr (), b) else (Inl (UB ''store through a null buffer''), b))
     | Some m \<Rightarrow>
         (case poke (mVirOff b + p) xs m of
            None \<Rightarrow> (Inl (UB ''store outside of the allocation''), b)
          | Some m' \<Rightarrow> (Inr (), b\<lparr>mRealBaseAddr := Some m'\<rparr>)))"

text \<open>A load of \<open>n\<close> bytes through \<open>GetBuffer() + p\<close>.\<close>

definition mb_load :: "nat \<Rightarrow> nat \<Rightarrow> u8 list mb_prog" where
  "mb_load p n = (\<lambda>b.
     case mRealBaseAddr b of
       None \<Rightarrow> (Inl (UB ''load through a null buffer''), b)
     | Some m \<Rightarrow>
         (case peek (mVirOff b + p) n m of
            None \<Rightarrow> (Inl (UB ''load outside of the allocation''), b)
          | Some xs \<Rightarrow> (Inr xs, b)))"

section \<open>Allocation\<close>

definition MemBuffer_InitOffset1stPage ::
  "libc \<Rightarrow> u32 \<Rightarrow> u32 \<Rightarrow> bool \<Rightarrow> u8 \<Rightarrow> unit mb_prog" where
  "MemBuffer_InitOffset1stPage C bufSize offset1stPg initMem initVal =
     sq (throw_if (unat offset1stPg mod 4 \<noteq> 0)
           (FrmwkEx ''Offset into page 1 not aligned to: 0x%02lX''))
     (sq (modify (\<lambda>b. if mRealBaseAddr b \<noteq> None then MemBuffer_DeallocateResources b else b))
     (sq (modify (\<lambda>b. b\<lparr>mAllocByNewOperator := False, mVirBufSize := bufSize\<rparr>))
     (case posix_memalign C (word_of_int (pagesize C)) (bufSize + offset1stPg) of
        Inl err \<Rightarrow>
          sq (modify MemBuffer_InitMemberVariables)
            (raise (FrmwkEx ''Memory allocation failed with error code: 0x%02X''))
      | Inr m \<Rightarrow>
          sq (modify (\<lambda>b. b\<lparr>mRealBaseAddr := Some m, mVirOff := unat offset1stPg,
                mAlignment := (if offset1stPg \<noteq> 0 then offset1stPg
                               else word_of_int (pagesize C))\<rparr>))
          (if initMem then mb_store 0 (replicate (unat bufSize) initVal) else ret ()))))"

definition MemBuffer_InitAlignment ::
  "libc \<Rightarrow> u32 \<Rightarrow> u32 \<Rightarrow> bool \<Rightarrow> u8 \<Rightarrow> u8 list option \<Rightarrow> unit mb_prog" where
  "MemBuffer_InitAlignment C bufSize align initMem initVal srcBuffer =
     sq (throw_if (unat align mod 8 \<noteq> 0)
           (FrmwkEx ''Req'd alignment 0x%08X, is not modulo 0x%02lX''))
     (sq (modify (\<lambda>b. if mRealBaseAddr b \<noteq> None then MemBuffer_DeallocateResources b else b))
     (sq (modify (\<lambda>b. b\<lparr>mAllocByNewOperator := False, mVirBufSize := bufSize\<rparr>))
     (case posix_memalign C align bufSize of
        Inl err \<Rightarrow>
          sq (modify MemBuffer_InitMemberVariables)
            (raise (FrmwkEx ''Memory allocation failed with error code: 0x%02X''))
      | Inr m \<Rightarrow>
          sq (modify (\<lambda>b. b\<lparr>mRealBaseAddr := Some m, mVirOff := 0, mAlignment := align\<rparr>))
          (case srcBuffer of
             Some src \<Rightarrow>
               (if length src < unat bufSize then raise (UB ''read past the source buffer'')
                else mb_store 0 (take (unat bufSize) src))
           | None \<Rightarrow>
               (if initMem then mb_store 0 (replicate (unat bufSize) initVal) else ret ())))))"

definition MemBuffer_Init :: "libc \<Rightarrow> u32 \<Rightarrow> bool \<Rightarrow> u8 \<Rightarrow> unit mb_prog" where
  "MemBuffer_Init C bufSize initMem initVal =
     sq (modify (\<lambda>b. if mRealBaseAddr b \<noteq> None then MemBuffer_DeallocateResources b else b))
     (sq (modify (\<lambda>b. b\<lparr>mAllocByNewOperator := True, mVirBufSize := bufSize\<rparr>))
     (if memfail C (unat bufSize)
      then sq (modify MemBuffer_InitMemberVariables)
             (raise (FrmwkEx ''Memory allocation failed''))
      else
        sq (modify (\<lambda>b. b\<lparr>mRealBaseAddr := Some (fresh C (unat bufSize)), mVirOff := 0,
              mAlignment := 0\<rparr>))
        (if initMem then mb_store 0 (replicate (unat bufSize) initVal) else ret ())))"

text \<open>
  The constructor from a vector; \<open>initData.size()\<close> is cut to the 32 bits of \<open>Init\<close>'s
  parameter, while the loop copies every element.
\<close>

definition MemBuffer_of_vector :: "libc \<Rightarrow> u8 list \<Rightarrow> unit mb_prog" where
  "MemBuffer_of_vector C initData =
     sq (modify MemBuffer_InitMemberVariables)
     (sq (MemBuffer_Init C (of_nat (length initData)) False 0)
     (mb_store 0 initData))"

definition MemBuffer_GetAt :: "nat \<Rightarrow> u8 mb_prog" where
  "MemBuffer_GetAt offset = (\<lambda>b.
     case mRealBaseAddr b of
       None \<Rightarrow> (Inl (UB ''load through a null buffer''), b)
     | Some m \<Rightarrow>
         if mVirOff b + offset < length m then (Inr (m ! (mVirOff b + offset)), b)
         else (Inl (UB ''load outside of the allocation''), b))"

section \<open>Data patterns\<close>

text \<open>
  The six loops of \<open>SetDataPattern\<close>: \<open>n\<close> times, store the low bytes of the running value
  through the running pointer; the incrementing patterns add one to the 64-bit value.
\<close>

fun pattern_loop :: "(u64 \<Rightarrow> u8 list) \<Rightarrow> bool \<Rightarrow> nat \<Rightarrow> nat \<Rightarrow> u64 \<Rightarrow> unit mb_prog" where
  "pattern_loop enc inc 0 p v = ret ()"
| "pattern_loop enc inc (Suc n) p v =
     sq (mb_store p (enc v))
        (pattern_loop enc inc n (p + length (enc v)) (if inc then v + 1 else v))"

definition MemBuffer_SetDataPattern ::
  "DataPattern \<Rightarrow> u64 \<Rightarrow> u32 \<Rightarrow> u32 \<Rightarrow> unit mb_prog" where
  "MemBuffer_SetDataPattern dataPat initVal offset len0 = (\<lambda>b.
     if mRealBaseAddr b = None then (Inr (), b) else
     let len = (if len0 = - 1 then mVirBufSize b else len0) in
     sq (throw_if (len + offset > mVirBufSize b) (FrmwkEx ''Length exceeds total buffer size''))
     (case dataPat of
        DATAPAT_CONST_8BIT \<Rightarrow> pattern_loop le8 False (unat len) (unat offset) initVal
      | DATAPAT_CONST_16BIT \<Rightarrow> pattern_loop le16 False (unat len div 2) (unat offset) initVal
      | DATAPAT_CONST_32BIT \<Rightarrow> pattern_loop le32 False (unat len div 4) (unat offset) initVal
      | DATAPAT_INC_8BIT \<Rightarrow> pattern_loop le8 True (unat len) (unat offset) initVal
      | DATAPAT_INC_16BIT \<Rightarrow> pattern_loop le16 True (unat len div 2) (unat offset) initVal
      | DATAPAT_INC_32BIT \<Rightarrow> pattern_loop le32 True (unat len div 4) (unat offset) initVal
      | DATAPATTERN_FENCE \<Rightarrow> raise (FrmwkEx ''Unsupported data pattern %d'')) b)"

definition MemBuffer_Zero :: "unit mb_prog" where
  "MemBuffer_Zero = MemBuffer_SetDataPattern DATAPAT_CONST_8BIT 0 0 (- 1)"

section \<open>Comparison\<close>

definition MemBuffer_Compare :: "mem_buffer \<Rightarrow> bool mb_prog" where
  "MemBuffer_Compare compTo = (\<lambda>b.
     if mVirBufSize compTo \<noteq> mVirBufSize b
     then (Inl (FrmwkEx ''Compare buffers not same size: %d != %d''), b)
     else case (mb_bytes compTo, mb_bytes b) of
            (Some xs, Some ys) \<Rightarrow> (Inr (xs = ys), b)
          | _ \<Rightarrow> (Inl (UB ''memcmp outside of the allocation''), b))"

fun compare_loop :: "u8 list \<Rightarrow> u8 list \<Rightarrow> bool" where
  "compare_loop (x # xs) (y # ys) = (if x \<noteq> y then False else compare_loop xs ys)"
| "compare_loop _ _ = True"

definition MemBuffer_Compare_vector :: "u8 list \<Rightarrow> bool mb_prog" where
  "MemBuffer_Compare_vector compTo = (\<lambda>b.
     if length compTo \<noteq> unat (mVirBufSize b)
     then (Inl (FrmwkEx ''Compare buffers not same size: %d != %d''), b)
     else case mb_bytes b of
            Some ys \<Rightarrow> (Inr (compare_loop compTo ys), b)
          | None \<Rightarrow> (Inl (UB ''load outside of the allocation''), b))"

section \<open>Well-formedness\<close>

text \<open>The buffer the object claims to have lies inside the memory it owns.\<close>

definition mb_inv :: "mem_buffer \<Rightarrow> bool" where
  "mb_inv b \<longleftrightarrow>
     (case mRealBaseAddr b of
        None \<Rightarrow> mVirBufSize b = 0 \<and> mVirOff b = 0
      | Some m \<Rightarrow> mVirOff b + unat (mVirBufSize b) \<le> length m)"

lemma mb_inv_new [wf_intros]: "mb_inv MemBuffer_new"
  by (simp add: mb_inv_def MemBuffer_new_def)

lemma mb_inv_bytes: "mb_inv b \<Longrightarrow> \<exists>xs. mb_bytes b = Some xs \<and> length xs = unat (mVirBufSize b)"
  by (cases "mRealBaseAddr b") (auto simp: mb_inv_def mb_bytes_def peek_def)

lemma mb_store_inv: "keeps mb_inv (mb_store p xs)"
  by (auto simp: keeps_def mb_store_def mb_inv_def length_poke split: option.splits)

lemma mb_store_frame:
  "mb_store p xs b = (r, b') \<Longrightarrow>
     mVirOff b' = mVirOff b \<and> mVirBufSize b' = mVirBufSize b \<and> mAlignment b' = mAlignment b \<and>
     mAllocByNewOperator b' = mAllocByNewOperator b \<and>
     map_option length (mRealBaseAddr b') = map_option length (mRealBaseAddr b)"
  by (auto simp: mb_store_def length_poke split: option.splits if_splits)

lemma mb_store_ok:
  assumes "mRealBaseAddr b = Some m" and "mVirOff b + p + length xs \<le> length m"
  shows "mb_store p xs b =
    (Inr (), b\<lparr>mRealBaseAddr := Some (take (mVirOff b + p) m @ xs @
       drop (mVirOff b + p + length xs) m)\<rparr>)"
  using assms by (simp add: mb_store_def poke_def)

section \<open>Every operation keeps the buffer inside its allocation\<close>

lemma mb_inv_alloc [wf_intros]:
  "off + unat n \<le> length m \<Longrightarrow>
     mb_inv (b\<lparr>mAllocByNewOperator := a, mVirBufSize := n, mRealBaseAddr := Some m,
               mVirOff := off, mAlignment := al\<rparr>)"
  by (simp add: mb_inv_def)

lemma mb_inv_reset [wf_intros]: "mb_inv (MemBuffer_InitMemberVariables b)"
  by (simp add: mb_inv_def MemBuffer_InitMemberVariables_def)

lemma mb_store_inv_snd [wf_intros]: "mb_inv b \<Longrightarrow> mb_inv (snd (mb_store p xs b))"
  using mb_store_inv by (rule keepsD)

lemma MemBuffer_InitAlignment_inv: "keeps mb_inv (MemBuffer_InitAlignment C n al im v src)"
  by (auto simp: keeps_def MemBuffer_InitAlignment_def sq_apply mb_inv_reset
      intro!: mb_store_inv_snd mb_inv_alloc dest: posix_memalign_Inr
      split: sum.splits option.splits)

lemma MemBuffer_Init_inv: "keeps mb_inv (MemBuffer_Init C n im v)"
  by (auto simp: keeps_def MemBuffer_Init_def sq_apply mb_inv_reset
      intro!: mb_store_inv_snd mb_inv_alloc)

lemma MemBuffer_InitOffset1stPage_inv:
  assumes "unat n + unat off < 2 ^ 32"
  shows "keeps mb_inv (MemBuffer_InitOffset1stPage C n off im v)"
proof -
  have "unat off + unat n \<le> unat (n + off)"
    using assms by (simp add: unat_word_ariths)
  then show ?thesis
    by (auto simp: keeps_def MemBuffer_InitOffset1stPage_def sq_apply mb_inv_reset
        intro!: mb_store_inv_snd mb_inv_alloc dest: posix_memalign_Inr
        split: sum.splits)
qed

lemma pattern_loop_inv: "keeps mb_inv (pattern_loop enc inc n p v)"
  by (induction n arbitrary: p v) (auto intro!: keeps_ret keeps_sq mb_store_inv)

lemma MemBuffer_SetDataPattern_inv: "keeps mb_inv (MemBuffer_SetDataPattern pat v off len)"
  by (auto simp: keeps_def MemBuffer_SetDataPattern_def Let_def
      intro!: keepsD [OF pattern_loop_inv] split: DataPattern.splits)

section \<open>What the patterns write\<close>

definition pattern_enc :: "DataPattern \<Rightarrow> u64 \<Rightarrow> u8 list" where
  "pattern_enc pat =
     (case pat of
        DATAPAT_CONST_16BIT \<Rightarrow> le16 | DATAPAT_INC_16BIT \<Rightarrow> le16
      | DATAPAT_CONST_32BIT \<Rightarrow> le32 | DATAPAT_INC_32BIT \<Rightarrow> le32
      | _ \<Rightarrow> le8)"

definition pattern_width :: "DataPattern \<Rightarrow> nat" where
  "pattern_width pat =
     (case pat of
        DATAPAT_CONST_16BIT \<Rightarrow> 2 | DATAPAT_INC_16BIT \<Rightarrow> 2
      | DATAPAT_CONST_32BIT \<Rightarrow> 4 | DATAPAT_INC_32BIT \<Rightarrow> 4
      | _ \<Rightarrow> 1)"

definition pattern_inc :: "DataPattern \<Rightarrow> bool" where
  "pattern_inc pat \<longleftrightarrow> pat \<in> {DATAPAT_INC_8BIT, DATAPAT_INC_16BIT, DATAPAT_INC_32BIT}"

text \<open>The specification: element \<open>i\<close> is the initial value, plus \<open>i\<close> for the incrementing ones.\<close>

definition pattern_bytes :: "(u64 \<Rightarrow> u8 list) \<Rightarrow> bool \<Rightarrow> u64 \<Rightarrow> nat \<Rightarrow> u8 list" where
  "pattern_bytes enc inc v n =
     concat (map (\<lambda>i. enc (if inc then v + of_nat i else v)) [0..<n])"

lemma length_pattern_enc [simp]: "length (pattern_enc pat v) = pattern_width pat"
  by (cases pat) (simp_all add: pattern_enc_def pattern_width_def)

lemma pattern_bytes_Suc:
  "pattern_bytes enc inc v (Suc n) =
     enc v @ pattern_bytes enc inc (if inc then v + 1 else v) n"
proof -
  have "[0..<Suc n] = 0 # map Suc [0..<n]"
    by (simp add: map_Suc_upt upt_conv_Cons del: upt_Suc)
  then show ?thesis
    by (simp add: pattern_bytes_def o_def add.assoc del: upt_Suc)
qed

lemma length_pattern_bytes:
  assumes "\<And>u. length (enc u) = w"
  shows "length (pattern_bytes enc inc v n) = n * w"
  by (induction n arbitrary: v) (simp_all add: pattern_bytes_Suc assms, simp add: pattern_bytes_def)

lemma pattern_loop_ok:
  assumes w: "\<And>u. length (enc u) = w"
  shows "mRealBaseAddr b = Some m \<Longrightarrow> mVirOff b + p + n * w \<le> length m \<Longrightarrow>
    pattern_loop enc inc n p v b =
      (Inr (), b\<lparr>mRealBaseAddr := Some (take (mVirOff b + p) m @ pattern_bytes enc inc v n @
         drop (mVirOff b + p + n * w) m)\<rparr>)"
proof (induction n arbitrary: p v m b)
  case 0
  then show ?case by (simp add: pattern_bytes_def)
next
  case (Suc n)
  let ?o = "mVirOff b"
  let ?m = "take (?o + p) m @ enc v @ drop (?o + p + w) m"
  let ?v = "if inc then v + 1 else v"
  have st: "mb_store p (enc v) b = (Inr (), b\<lparr>mRealBaseAddr := Some ?m\<rparr>)"
    using Suc.prems by (simp add: mb_store_ok w)
  have tk: "take (?o + (p + w)) ?m = take (?o + p) m @ enc v"
    using Suc.prems(2) by (simp add: w)
  have dr: "drop (?o + (p + w) + n * w) ?m = drop (?o + p + Suc n * w) m"
    using Suc.prems(2) by (simp add: w add_ac)
  show ?case
    using Suc.IH [of "b\<lparr>mRealBaseAddr := Some ?m\<rparr>" ?m "p + w" ?v] Suc.prems(2) tk dr
    by (simp add: sq_apply st w pattern_bytes_Suc add_ac)
qed

lemma pattern_loop_oob:
  assumes w: "\<And>u. length (enc u) = w"
  shows "mRealBaseAddr b = Some m \<Longrightarrow> 0 < n \<Longrightarrow> length m < mVirOff b + p + n * w \<Longrightarrow>
    fst (pattern_loop enc inc n p v b) = Inl (UB ''store outside of the allocation'')"
proof (induction n arbitrary: p v m b)
  case 0
  then show ?case by simp
next
  case (Suc n)
  show ?case
  proof (cases "mVirOff b + p + w \<le> length m")
    case False
    then show ?thesis using Suc.prems by (simp add: sq_apply mb_store_def poke_def w)
  next
    case True
    then have n: "0 < n" using Suc.prems(3) by (cases n) auto
    let ?m = "take (mVirOff b + p) m @ enc v @ drop (mVirOff b + p + w) m"
    show ?thesis
      using Suc.IH [of "b\<lparr>mRealBaseAddr := Some ?m\<rparr>" ?m "p + w"] Suc.prems True n
      by (simp add: sq_apply mb_store_ok w add_ac)
  qed
qed

lemma SetDataPattern_unfold:
  assumes "pat \<noteq> DATAPATTERN_FENCE" and "mRealBaseAddr b = Some m"
  shows "MemBuffer_SetDataPattern pat v off len0 b =
    (let len = (if len0 = - 1 then mVirBufSize b else len0) in
     if len + off > mVirBufSize b
     then (Inl (FrmwkEx ''Length exceeds total buffer size''), b)
     else pattern_loop (pattern_enc pat) (pattern_inc pat)
            (unat len div pattern_width pat) (unat off) v b)"
  using assms
  by (cases pat)
    (simp_all add: MemBuffer_SetDataPattern_def Let_def pattern_enc_def pattern_inc_def
      pattern_width_def)

lemma SetDataPattern_run:
  assumes inv: "mb_inv b" and pat: "pat \<noteq> DATAPATTERN_FENCE"
    and m: "mRealBaseAddr b = Some m" and bytes: "mb_bytes b = Some bs"
    and len: "len = (if len0 = - 1 then mVirBufSize b else len0)"
    and fits: "unat len + unat off \<le> unat (mVirBufSize b)"
  defines "k \<equiv> unat len div pattern_width pat"
  shows "\<exists>b'. MemBuffer_SetDataPattern pat v off len0 b = (Inr (), b') \<and>
    mb_bytes b' = Some (take (unat off) bs @
       pattern_bytes (pattern_enc pat) (pattern_inc pat) v k @
       drop (unat off + k * pattern_width pat) bs) \<and>
    mVirBufSize b' = mVirBufSize b \<and> mAlignment b' = mAlignment b"
proof -
  let ?w = "pattern_width pat" and ?o = "mVirOff b" and ?n = "unat (mVirBufSize b)"
  have kw: "k * ?w \<le> unat len" by (simp add: k_def)
  have guard: "\<not> len + off > mVirBufSize b"
    using fits unsigned_less [of "mVirBufSize b"]
    by (simp add: word_less_nat_alt unat_word_ariths)
  have fit: "?o + unat off + k * ?w \<le> length m"
    using inv m fits kw by (simp add: mb_inv_def)
  have bs: "bs = take ?n (drop ?o m)" and le: "?o + ?n \<le> length m"
    using bytes m by (auto simp: mb_bytes_def peek_def split: if_splits)
  let ?P = "pattern_bytes (pattern_enc pat) (pattern_inc pat) v k"
  let ?m = "take (?o + unat off) m @ ?P @ drop (?o + unat off + k * ?w) m"
  have P: "length ?P = k * ?w" by (rule length_pattern_bytes) simp
  have run: "MemBuffer_SetDataPattern pat v off len0 b = (Inr (), b\<lparr>mRealBaseAddr := Some ?m\<rparr>)"
    unfolding SetDataPattern_unfold [OF pat m] len [symmetric] Let_def
    using guard pattern_loop_ok [OF length_pattern_enc m fit]
    by (simp add: k_def)
  have "take ?n (drop ?o ?m) = take (unat off) bs @ ?P @ drop (unat off + k * ?w) bs"
    using fits kw le P window_update [of "unat off" ?P ?n ?o m] by (simp add: bs)
  moreover have "length ?m = length m" using fit P by simp
  ultimately have "mb_bytes (b\<lparr>mRealBaseAddr := Some ?m\<rparr>) =
      Some (take (unat off) bs @ ?P @ drop (unat off + k * ?w) bs)"
    using le by (simp add: mb_bytes_def peek_def)
  then show ?thesis using run by auto
qed

lemma MemBuffer_Zero_run:
  assumes "mb_inv b" and "mRealBaseAddr b = Some m"
  shows "\<exists>b'. MemBuffer_Zero b = (Inr (), b') \<and> mb_inv b' \<and>
    mb_bytes b' = Some (replicate (unat (mVirBufSize b)) 0) \<and>
    mVirBufSize b' = mVirBufSize b \<and> mAlignment b' = mAlignment b"
proof -
  obtain bs where bs: "mb_bytes b = Some bs" "length bs = unat (mVirBufSize b)"
    using mb_inv_bytes [OF assms(1)] by blast
  have pat: "pattern_bytes (pattern_enc DATAPAT_CONST_8BIT) False 0 n = replicate n 0" for n
  proof (induction n)
    case (Suc n)
    then show ?case by (simp add: pattern_bytes_Suc pattern_enc_def le8_def)
  qed (simp add: pattern_bytes_def)
  have "\<exists>b'. MemBuffer_Zero b = (Inr (), b') \<and> mb_bytes b' = Some (replicate (unat (mVirBufSize b)) 0) \<and>
      mVirBufSize b' = mVirBufSize b \<and> mAlignment b' = mAlignment b"
    using SetDataPattern_run [OF assms(1) _ assms(2) bs(1) refl, of DATAPAT_CONST_8BIT "- 1" 0 0] bs(2)
    by (simp add: MemBuffer_Zero_def pattern_width_def pattern_inc_def pat)
  moreover have "mb_inv (snd (MemBuffer_Zero b))"
    unfolding MemBuffer_Zero_def by (rule keepsD [OF MemBuffer_SetDataPattern_inv assms(1)])
  ultimately show ?thesis by fastforce
qed

section \<open>Properties\<close>

text \<open>\<open>SetDataPattern\<close> on a range inside the buffer returns normally, fills exactly that range with the
  pattern (as many whole elements as fit), and leaves the bytes around it, the size and the
  alignment alone.\<close>

theorem SetDataPattern_in_bounds:
  assumes "mb_inv b" and "pat \<noteq> DATAPATTERN_FENCE"
    and "mRealBaseAddr b = Some m" and "mb_bytes b = Some bs"
    and "len = (if len0 = - 1 then mVirBufSize b else len0)"
    and "unat len + unat off \<le> unat (mVirBufSize b)"
  shows "\<exists>b'. MemBuffer_SetDataPattern pat v off len0 b = (Inr (), b') \<and>
    mb_bytes b' = Some (take (unat off) bs @
       pattern_bytes (pattern_enc pat) (pattern_inc pat) v (unat len div pattern_width pat) @
       drop (unat off + unat len div pattern_width pat * pattern_width pat) bs) \<and>
    mVirBufSize b' = mVirBufSize b \<and> mAlignment b' = mAlignment b"
  by (rule SetDataPattern_run [OF assms])

text \<open>The bounds check of \<open>SetDataPattern\<close> adds offset and length in 32 bits: a range that leaves the
  buffer passes it when the sum wraps around, and the stores then leave the allocation.\<close>

theorem SetDataPattern_wraps:
  assumes "pat \<noteq> DATAPATTERN_FENCE" and "mRealBaseAddr b = Some m" and "len \<noteq> - 1"
    and "len + off \<le> mVirBufSize b" and "0 < unat len div pattern_width pat"
    and "length m < mVirOff b + unat off + unat len div pattern_width pat * pattern_width pat"
  shows "fst (MemBuffer_SetDataPattern pat v off len b) = Inl (UB ''store outside of the allocation'')"
  unfolding SetDataPattern_unfold [OF assms(1,2)] Let_def
  using assms(3,4) pattern_loop_oob [OF length_pattern_enc assms(2,5,6)] by simp

text \<open>An example buffer of sixteen bytes.\<close>

definition ex_mb :: mem_buffer where
  "ex_mb = \<lparr>mAllocByNewOperator = True, mRealBaseAddr = Some (replicate 16 0), mVirOff = 0,
     mVirBufSize = 16, mAlignment = 0\<rparr>"

lemma SetDataPattern_in_bounds_witness:
  "\<exists>b'. MemBuffer_SetDataPattern DATAPAT_INC_16BIT 7 4 8 ex_mb = (Inr (), b') \<and>
    mb_bytes b' = Some (take (unat (4 :: u32)) (replicate 16 0) @
       pattern_bytes (pattern_enc DATAPAT_INC_16BIT) (pattern_inc DATAPAT_INC_16BIT) 7
         (unat (8 :: u32) div pattern_width DATAPAT_INC_16BIT) @
       drop (unat (4 :: u32) + unat (8 :: u32) div pattern_width DATAPAT_INC_16BIT *
         pattern_width DATAPAT_INC_16BIT) (replicate 16 0)) \<and>
    mVirBufSize b' = mVirBufSize ex_mb \<and> mAlignment b' = mAlignment ex_mb"
  by (rule SetDataPattern_in_bounds) (simp_all add: ex_mb_def mb_inv_def mb_bytes_def peek_def)

lemma SetDataPattern_wraps_witness:
  "fst (MemBuffer_SetDataPattern DATAPAT_CONST_8BIT 0 0xFFFFFFF8 16 ex_mb) =
     Inl (UB ''store outside of the allocation'')"
  by (rule SetDataPattern_wraps [where m = "replicate 16 0"]) (simp_all add: ex_mb_def pattern_width_def)

end
