(* ===== verification/Dnvme.thy ===== *)
theory Dnvme
  imports Prelude
begin

text \<open>
  The kernel driver (dnvme) and its \<open>ioctl\<close> interface are not part of the repository: they are
  the argument \<open>drv\<close> of every definition that issues an \<open>ioctl\<close> or maps kernel memory. A
  driver is a record with one function per request, over the driver's own state \<open>'d\<close>; each
  returns the request's return code (negative on failure), its output fields, and the new driver
  state. The process state \<open>proc\<close> holds the driver state and the contents of the mappings the
  driver has given to the process.
\<close>

section \<open>Types of dnvme's interface\<close>

datatype nvme_io_space = NVMEIO_PCI_HDR | NVMEIO_BAR01 | NVMEIO_other int
datatype nvme_acc_type = BYTE_LEN | WORD_LEN | DWORD_LEN | QUAD_LEN
datatype nvme_state = ST_ENABLE | ST_DISABLE | ST_DISABLE_COMPLETELY | ST_other int
datatype nvme_irq_type = INT_MSI_SINGLE | INT_MSI_MULTI | INT_MSIX | INT_NONE | INT_other int
datatype nvme_q_type = ADMIN_SQ | ADMIN_CQ
datatype DataDir =
  DATADIR_NONE | DATADIR_FROM_DEVICE | DATADIR_TO_DEVICE | DATADIR_BIDIRECTIONAL

record rw_generic =
  io_type :: nvme_io_space
  io_offset :: u16
  io_nBytes :: u16
  io_acc :: nvme_acc_type

record nvme_prep_q =
  pq_sq_id :: u16
  pq_cq_id :: u16
  pq_elements :: u32
  pq_contig :: bool

record nvme_gen_q =
  gq_q_id :: u16
  gq_tail_ptr :: u16
  gq_head_ptr :: u16
  gq_elements :: u32

record nvme_reap_inquiry =
  ri_num_remaining :: u32
  ri_isr_count :: u32

record nvme_reap =
  rp_num_reaped :: u32
  rp_num_remaining :: u32
  rp_isr_count :: u32
  rp_buffer :: "u8 list"

record nvme_64b_send =
  s_q_id :: u16
  s_bit_mask :: u32
  s_meta_buf_id :: u32
  s_data_buf_size :: u64
  s_data :: "u8 list option"
  s_cmd :: "u8 list option"
  s_data_dir :: DataDir

section \<open>The driver\<close>

text \<open>
  Requests that fill a caller's buffer get the old buffer and return the new one, so that a
  failed or partial transfer is the driver's choice. \<open>io_mmap\<close> returns the address (as \<open>::mmap\<close>
  does, a failure is \<open>MAP_FAILED\<close>, the address \<open>-1\<close>) and the contents of the new mapping.
\<close>

record 'd dnvme =
  io_read :: "rw_generic \<Rightarrow> u8 list \<Rightarrow> 'd \<Rightarrow> int \<times> u8 list \<times> 'd"
  io_write :: "rw_generic \<Rightarrow> u8 list \<Rightarrow> 'd \<Rightarrow> int \<times> 'd"
  io_device_state :: "nvme_state \<Rightarrow> 'd \<Rightarrow> int \<times> 'd"
  io_set_irq :: "nvme_irq_type \<Rightarrow> u16 \<Rightarrow> 'd \<Rightarrow> int \<times> 'd"
  io_get_irq :: "'d \<Rightarrow> int \<times> (nvme_irq_type \<times> u16) \<times> 'd"
  io_metabuf_create :: "u32 \<Rightarrow> 'd \<Rightarrow> int \<times> 'd"
  io_metabuf_alloc :: "u32 \<Rightarrow> 'd \<Rightarrow> int \<times> 'd"
  io_metabuf_delete :: "u32 \<Rightarrow> 'd \<Rightarrow> int \<times> 'd"
  io_mmap :: "nat \<Rightarrow> bool \<Rightarrow> int \<Rightarrow> 'd \<Rightarrow> u64 \<times> u8 list \<times> 'd"
  io_munmap :: "u64 \<Rightarrow> nat \<Rightarrow> 'd \<Rightarrow> 'd"
  io_create_admn_q :: "u32 \<Rightarrow> nvme_q_type \<Rightarrow> 'd \<Rightarrow> int \<times> 'd"
  io_prep_sq :: "nvme_prep_q \<Rightarrow> 'd \<Rightarrow> int \<times> 'd"
  io_prep_cq :: "nvme_prep_q \<Rightarrow> 'd \<Rightarrow> int \<times> 'd"
  io_q_metrics :: "bool \<Rightarrow> u16 \<Rightarrow> 'd \<Rightarrow> int \<times> nvme_gen_q \<times> 'd"
  io_reap_inquiry :: "u16 \<Rightarrow> 'd \<Rightarrow> int \<times> nvme_reap_inquiry \<times> 'd"
  io_reap :: "u16 \<Rightarrow> u32 \<Rightarrow> u8 list \<Rightarrow> 'd \<Rightarrow> int \<times> nvme_reap \<times> 'd"
  io_send_64b :: "nvme_64b_send \<Rightarrow> 'd \<Rightarrow> int \<times> u16 \<times> 'd"
  io_ring_sq :: "u16 \<Rightarrow> 'd \<Rightarrow> int \<times> 'd"
  io_toxic_dword :: "u16 \<Rightarrow> u32 \<Rightarrow> 'd \<Rightarrow> int \<times> 'd"
  io_clock :: "'d \<Rightarrow> int \<times> (int \<times> int) \<times> 'd"   \<comment> \<open>\<open>gettimeofday\<close>: seconds, microseconds\<close>

text \<open>
  \<open>METADATA_UNIQUE_ID_BITS\<close> is defined in Singletons/metaRsrc.h; the send bit masks are defined in
  dnvme's header and are therefore an argument, too.
\<close>

record send_masks =
  MASK_PRP1_PAGE :: u32
  MASK_PRP1_LIST :: u32
  MASK_PRP2_PAGE :: u32
  MASK_PRP2_LIST :: u32
  MASK_MPTR :: u32

section \<open>The process's view of the kernel\<close>

record 'd proc =
  kern :: 'd
  mmaps :: "u64 \<Rightarrow> u8 list"    \<comment> \<open>contents of the mapping that starts at an address\<close>

text \<open>Requests as programs over any state that extends \<open>proc\<close>.\<close>

definition ioctl1 :: "('d \<Rightarrow> int \<times> 'd) \<Rightarrow> (('d, 'm) proc_scheme, int) prog" where
  "ioctl1 f = (\<lambda>s. case f (kern s) of (rc, d) \<Rightarrow> (Inr rc, s\<lparr>kern := d\<rparr>))"

definition ioctl2 :: "('d \<Rightarrow> int \<times> 'a \<times> 'd) \<Rightarrow> (('d, 'm) proc_scheme, int \<times> 'a) prog" where
  "ioctl2 f = (\<lambda>s. case f (kern s) of (rc, x, d) \<Rightarrow> (Inr (rc, x), s\<lparr>kern := d\<rparr>))"

lemma ioctl1_apply [prog_simps]:
  "ioctl1 f s = (case f (kern s) of (rc, d) \<Rightarrow> (Inr rc, s\<lparr>kern := d\<rparr>))"
  by (simp add: ioctl1_def)

lemma ioctl2_apply [prog_simps]:
  "ioctl2 f s = (case f (kern s) of (rc, x, d) \<Rightarrow> (Inr (rc, x), s\<lparr>kern := d\<rparr>))"
  by (simp add: ioctl2_def)

section \<open>Mapping kernel memory (Utils/kernelAPI.cpp)\<close>

definition METADATA_UNIQUE_ID_BITS :: nat where
  "METADATA_UNIQUE_ID_BITS = 18"

datatype MmapRegion = MMR_CQ | MMR_SQ | MMR_META | MMAPREGION_FENCE

fun region_index :: "MmapRegion \<Rightarrow> int" where
  "region_index MMR_CQ = 0"
| "region_index MMR_SQ = 1"
| "region_index MMR_META = 2"
| "region_index MMAPREGION_FENCE = 3"

text \<open>The file offset that tells dnvme which memory to map.\<close>

definition mmap_offset :: "libc \<Rightarrow> u16 \<Rightarrow> MmapRegion \<Rightarrow> int" where
  "mmap_offset C bufID region =
     (uint bufID OR push_bit METADATA_UNIQUE_ID_BITS (region_index region)) * pagesize C"

definition KernelAPI_mmap ::
  "libc \<Rightarrow> 'd dnvme \<Rightarrow> nat \<Rightarrow> u16 \<Rightarrow> MmapRegion \<Rightarrow> (('d, 'm) proc_scheme, u64) prog" where
  "KernelAPI_mmap C drv bufLength bufID region =
     sq (throw_if (region = MMAPREGION_FENCE) (FrmwkEx ''Detected illegal region = %d''))
     (\<lambda>s. case io_mmap drv bufLength (region = MMR_META) (mmap_offset C bufID region) (kern s) of
            (addr, bs, d) \<Rightarrow> (Inr addr, s\<lparr>kern := d, mmaps := (mmaps s)(addr := bs)\<rparr>))"

definition KernelAPI_munmap ::
  "'d dnvme \<Rightarrow> u64 \<Rightarrow> nat \<Rightarrow> (('d, 'm) proc_scheme, unit) prog" where
  "KernelAPI_munmap drv addr len =
     modify (\<lambda>s. s\<lparr>kern := io_munmap drv addr len (kern s)\<rparr>)"

text \<open>
  The offset encodes region and identifier without loss for the identifiers \<open>mmap\<close> receives:
  different pairs map different memory.
\<close>

lemma region_index_bounds: "0 \<le> region_index r"
  by (cases r) simp_all

lemma region_index_inj: "region_index r = region_index r' \<Longrightarrow> r = r'"
  by (cases r; cases r') simp_all

lemma uint_or_region:
  fixes b :: u16
  shows "uint b OR push_bit METADATA_UNIQUE_ID_BITS (region_index r) =
    uint b + 2 ^ METADATA_UNIQUE_ID_BITS * region_index r"
proof -
  have "uint b AND push_bit METADATA_UNIQUE_ID_BITS (region_index r) = 0"
    by (rule bit_eqI)
      (auto simp: bit_simps METADATA_UNIQUE_ID_BITS_def dest: bit_imp_le_length)
  then show ?thesis
    by (simp add: disjunctive_add_eq_or [symmetric] push_bit_eq_mult mult.commute)
qed

lemma mmap_offset_inj:
  assumes p: "0 < pagesize C" and eq: "mmap_offset C b r = mmap_offset C b' r'"
  shows "b = b' \<and> r = r'"
proof -
  let ?K = "2 ^ METADATA_UNIQUE_ID_BITS :: int"
  have bound: "0 \<le> uint c \<and> uint c < ?K" for c :: u16
  proof -
    have "uint c < 2 ^ 16" using unsigned_less [of c] by simp
    then show ?thesis by (simp add: METADATA_UNIQUE_ID_BITS_def)
  qed
  have e: "uint b + ?K * region_index r = uint b' + ?K * region_index r'"
    using p eq by (simp add: mmap_offset_def uint_or_region)
  have "uint b = uint b'"
    using arg_cong [OF e, of "\<lambda>x. x mod ?K"] bound [of b] bound [of b'] by simp
  moreover from this have "region_index r = region_index r'"
    using e by (simp add: METADATA_UNIQUE_ID_BITS_def)
  ultimately show ?thesis by (simp add: region_index_inj word_uint_eq_iff)
qed

section \<open>A driver for examples\<close>

text \<open>A driver that refuses every request; the examples override the requests they need.\<close>

definition null_dnvme :: "'d dnvme" where
  "null_dnvme =
     \<lparr>io_read = (\<lambda>io buf d. (- 1, buf, d)), io_write = (\<lambda>io buf d. (- 1, d)),
      io_device_state = (\<lambda>st d. (- 1, d)), io_set_irq = (\<lambda>irq n d. (- 1, d)),
      io_get_irq = (\<lambda>d. (- 1, (INT_NONE, 0), d)), io_metabuf_create = (\<lambda>n d. (- 1, d)),
      io_metabuf_alloc = (\<lambda>i d. (- 1, d)), io_metabuf_delete = (\<lambda>i d. (- 1, d)),
      io_mmap = (\<lambda>len w off d. (- 1, [], d)), io_munmap = (\<lambda>a n d. d),
      io_create_admn_q = (\<lambda>n t d. (- 1, d)), io_prep_sq = (\<lambda>q d. (- 1, d)),
      io_prep_cq = (\<lambda>q d. (- 1, d)),
      io_q_metrics = (\<lambda>c q d. (- 1, \<lparr>gq_q_id = 0, gq_tail_ptr = 0, gq_head_ptr = 0, gq_elements = 0\<rparr>, d)),
      io_reap_inquiry = (\<lambda>q d. (- 1, \<lparr>ri_num_remaining = 0, ri_isr_count = 0\<rparr>, d)),
      io_reap = (\<lambda>q n buf d.
        (- 1, \<lparr>rp_num_reaped = 0, rp_num_remaining = 0, rp_isr_count = 0, rp_buffer = buf\<rparr>, d)),
      io_send_64b = (\<lambda>c d. (- 1, 0, d)), io_ring_sq = (\<lambda>q d. (- 1, d)),
      io_toxic_dword = (\<lambda>i v d. (- 1, d)), io_clock = (\<lambda>d. (- 1, (0, 0), d))\<rparr>"

lemma null_dnvme_sel [simp]:
  "io_write null_dnvme io buf d = (- 1, d)"
  "io_device_state null_dnvme st d = (- 1, d)"
  "io_metabuf_delete null_dnvme i d = (- 1, d)"
  by (simp_all add: null_dnvme_def)

end
