(* ===== verification/Regs.thy ===== *)
theory Regs
  imports Dnvme
begin

text \<open>
  Register access (Singletons/registers.cpp, registers.h, regDefs.h): the metrics tables of the
  PCI and controller registers, the guarded reads and writes, and the discovery of the PCI
  capabilities, which fills in the offsets the PCI table leaves open. Registers are named, as in
  the code, by their index in the table. \<open>FormatRegister\<close> only serves the log and is not modelled.
\<close>

section \<open>Metrics tables\<close>

datatype SpecRev =
  SPECREV_10b | SPECREV_11 | SPECREV_12 | SPECREV_121 | SPECREV_13 | SPECREVTYPE_FENCE

datatype PciCapabilities =
  PCICAP_PMCAP | PCICAP_MSICAP | PCICAP_MSIXCAP | PCICAP_PXCAP | PCICAP_AERCAP | PCICAP_FENCE

record PciSpcType =
  pci_cap :: PciCapabilities
  pci_offset :: u16
  pci_size :: u16
  pci_specRev :: "SpecRev list"
  pci_maskRO :: u64
  pci_impSpec :: u64
  pci_dfltValue :: u64
  pci_desc :: string

record CtlSpcType =
  ctl_offset :: u16
  ctl_size :: u16
  ctl_specRev :: "SpecRev list"
  ctl_maskRO :: u64
  ctl_impSpec :: u64
  ctl_dfltValue :: u64
  ctl_desc :: string

abbreviation (input) USHRT_MAX :: u16 where "USHRT_MAX \<equiv> 0xffff"
abbreviation (input) MAX_SUPPORTED_REG_SIZE :: u16 where "MAX_SUPPORTED_REG_SIZE \<equiv> 8"

definition all_revs :: "SpecRev list" where
  "all_revs = [SPECREV_10b, SPECREV_11, SPECREV_12, SPECREV_121, SPECREV_13]"

definition mkPci ::
  "PciCapabilities \<Rightarrow> u16 \<Rightarrow> u16 \<Rightarrow> SpecRev list \<Rightarrow> u64 \<Rightarrow> u64 \<Rightarrow> u64 \<Rightarrow> string \<Rightarrow> PciSpcType" where
  "mkPci cap off sz revs ro imp dflt desc =
     \<lparr>pci_cap = cap, pci_offset = off, pci_size = sz, pci_specRev = revs, pci_maskRO = ro,
      pci_impSpec = imp, pci_dfltValue = dflt, pci_desc = desc\<rparr>"

definition mkCtl ::
  "u16 \<Rightarrow> u16 \<Rightarrow> SpecRev list \<Rightarrow> u64 \<Rightarrow> u64 \<Rightarrow> u64 \<Rightarrow> string \<Rightarrow> CtlSpcType" where
  "mkCtl off sz revs ro imp dflt desc =
     \<lparr>ctl_offset = off, ctl_size = sz, ctl_specRev = revs, ctl_maskRO = ro,
      ctl_impSpec = imp, ctl_dfltValue = dflt, ctl_desc = desc\<rparr>"

abbreviation (input) PCISPC_ID :: nat where "PCISPC_ID \<equiv> 0"
abbreviation (input) PCISPC_CMD :: nat where "PCISPC_CMD \<equiv> 1"
abbreviation (input) PCISPC_STS :: nat where "PCISPC_STS \<equiv> 2"
abbreviation (input) PCISPC_RID :: nat where "PCISPC_RID \<equiv> 3"
abbreviation (input) PCISPC_CC :: nat where "PCISPC_CC \<equiv> 4"
abbreviation (input) PCISPC_CLS :: nat where "PCISPC_CLS \<equiv> 5"
abbreviation (input) PCISPC_MLT :: nat where "PCISPC_MLT \<equiv> 6"
abbreviation (input) PCISPC_HTYPE :: nat where "PCISPC_HTYPE \<equiv> 7"
abbreviation (input) PCISPC_BIST :: nat where "PCISPC_BIST \<equiv> 8"
abbreviation (input) PCISPC_BAR0 :: nat where "PCISPC_BAR0 \<equiv> 9"
abbreviation (input) PCISPC_BAR1 :: nat where "PCISPC_BAR1 \<equiv> 10"
abbreviation (input) PCISPC_BAR2 :: nat where "PCISPC_BAR2 \<equiv> 11"
abbreviation (input) PCISPC_BAR3 :: nat where "PCISPC_BAR3 \<equiv> 12"
abbreviation (input) PCISPC_BAR4 :: nat where "PCISPC_BAR4 \<equiv> 13"
abbreviation (input) PCISPC_BAR5 :: nat where "PCISPC_BAR5 \<equiv> 14"
abbreviation (input) PCISPC_CCPTR :: nat where "PCISPC_CCPTR \<equiv> 15"
abbreviation (input) PCISPC_SS :: nat where "PCISPC_SS \<equiv> 16"
abbreviation (input) PCISPC_EROM :: nat where "PCISPC_EROM \<equiv> 17"
abbreviation (input) PCISPC_CAP :: nat where "PCISPC_CAP \<equiv> 18"
abbreviation (input) PCISPC_RES0 :: nat where "PCISPC_RES0 \<equiv> 19"
abbreviation (input) PCISPC_INTR :: nat where "PCISPC_INTR \<equiv> 20"
abbreviation (input) PCISPC_MGNT :: nat where "PCISPC_MGNT \<equiv> 21"
abbreviation (input) PCISPC_MLAT :: nat where "PCISPC_MLAT \<equiv> 22"
abbreviation (input) PCISPC_PID :: nat where "PCISPC_PID \<equiv> 23"
abbreviation (input) PCISPC_PC :: nat where "PCISPC_PC \<equiv> 24"
abbreviation (input) PCISPC_PMCS :: nat where "PCISPC_PMCS \<equiv> 25"
abbreviation (input) PCISPC_MID :: nat where "PCISPC_MID \<equiv> 26"
abbreviation (input) PCISPC_MC :: nat where "PCISPC_MC \<equiv> 27"
abbreviation (input) PCISPC_MA :: nat where "PCISPC_MA \<equiv> 28"
abbreviation (input) PCISPC_MUA :: nat where "PCISPC_MUA \<equiv> 29"
abbreviation (input) PCISPC_MD :: nat where "PCISPC_MD \<equiv> 30"
abbreviation (input) PCISPC_MMASK :: nat where "PCISPC_MMASK \<equiv> 31"
abbreviation (input) PCISPC_MPEND :: nat where "PCISPC_MPEND \<equiv> 32"
abbreviation (input) PCISPC_MXID :: nat where "PCISPC_MXID \<equiv> 33"
abbreviation (input) PCISPC_MXC :: nat where "PCISPC_MXC \<equiv> 34"
abbreviation (input) PCISPC_MTAB :: nat where "PCISPC_MTAB \<equiv> 35"
abbreviation (input) PCISPC_MPBA :: nat where "PCISPC_MPBA \<equiv> 36"
abbreviation (input) PCISPC_PXID :: nat where "PCISPC_PXID \<equiv> 37"
abbreviation (input) PCISPC_PXCAP :: nat where "PCISPC_PXCAP \<equiv> 38"
abbreviation (input) PCISPC_PXDCAP :: nat where "PCISPC_PXDCAP \<equiv> 39"
abbreviation (input) PCISPC_PXDC :: nat where "PCISPC_PXDC \<equiv> 40"
abbreviation (input) PCISPC_PXDS :: nat where "PCISPC_PXDS \<equiv> 41"
abbreviation (input) PCISPC_PXLCAP :: nat where "PCISPC_PXLCAP \<equiv> 42"
abbreviation (input) PCISPC_PXLC :: nat where "PCISPC_PXLC \<equiv> 43"
abbreviation (input) PCISPC_PXLS :: nat where "PCISPC_PXLS \<equiv> 44"
abbreviation (input) PCISPC_RES1 :: nat where "PCISPC_RES1 \<equiv> 45"
abbreviation (input) PCISPC_PXDCAP2 :: nat where "PCISPC_PXDCAP2 \<equiv> 46"
abbreviation (input) PCISPC_PXDC2 :: nat where "PCISPC_PXDC2 \<equiv> 47"
abbreviation (input) PCISPC_AERID :: nat where "PCISPC_AERID \<equiv> 48"
abbreviation (input) PCISPC_AERUCES :: nat where "PCISPC_AERUCES \<equiv> 49"
abbreviation (input) PCISPC_AERUCEM :: nat where "PCISPC_AERUCEM \<equiv> 50"
abbreviation (input) PCISPC_AERUCESEV :: nat where "PCISPC_AERUCESEV \<equiv> 51"
abbreviation (input) PCISPC_AERCS :: nat where "PCISPC_AERCS \<equiv> 52"
abbreviation (input) PCISPC_AERCEM :: nat where "PCISPC_AERCEM \<equiv> 53"
abbreviation (input) PCISPC_AERCC :: nat where "PCISPC_AERCC \<equiv> 54"
abbreviation (input) PCISPC_AERHL :: nat where "PCISPC_AERHL \<equiv> 55"
abbreviation (input) PCISPC_AERTLP :: nat where "PCISPC_AERTLP \<equiv> 56"
abbreviation (input) PCISPC_FENCE :: nat where "PCISPC_FENCE \<equiv> 57"
abbreviation (input) CTLSPC_CAP :: nat where "CTLSPC_CAP \<equiv> 0"
abbreviation (input) CTLSPC_VS :: nat where "CTLSPC_VS \<equiv> 1"
abbreviation (input) CTLSPC_VS_11 :: nat where "CTLSPC_VS_11 \<equiv> 2"
abbreviation (input) CTLSPC_VS_12 :: nat where "CTLSPC_VS_12 \<equiv> 3"
abbreviation (input) CTLSPC_INTMS :: nat where "CTLSPC_INTMS \<equiv> 4"
abbreviation (input) CTLSPC_INTMC :: nat where "CTLSPC_INTMC \<equiv> 5"
abbreviation (input) CTLSPC_CC :: nat where "CTLSPC_CC \<equiv> 6"
abbreviation (input) CTLSPC_RES0 :: nat where "CTLSPC_RES0 \<equiv> 7"
abbreviation (input) CTLSPC_CSTS :: nat where "CTLSPC_CSTS \<equiv> 8"
abbreviation (input) CTLSPC_CSTS_11 :: nat where "CTLSPC_CSTS_11 \<equiv> 9"
abbreviation (input) CTLSPC_RES1 :: nat where "CTLSPC_RES1 \<equiv> 10"
abbreviation (input) CTLSPC_NSSR :: nat where "CTLSPC_NSSR \<equiv> 11"
abbreviation (input) CTLSPC_AQA :: nat where "CTLSPC_AQA \<equiv> 12"
abbreviation (input) CTLSPC_ASQ :: nat where "CTLSPC_ASQ \<equiv> 13"
abbreviation (input) CTLSPC_ACQ :: nat where "CTLSPC_ACQ \<equiv> 14"
abbreviation (input) CTLSPC_RES2 :: nat where "CTLSPC_RES2 \<equiv> 15"
abbreviation (input) CTLSPC_RES3 :: nat where "CTLSPC_RES3 \<equiv> 16"
abbreviation (input) CTLSPC_FENCE :: nat where "CTLSPC_FENCE \<equiv> 17"

definition pci_table :: "PciSpcType list" where
  "pci_table =
    [mkPci PCICAP_FENCE 0x00 4 all_revs 0xffffffff 0xffffffff 0 ''PCI hdr identifier register (ID)'',
     mkPci PCICAP_FENCE 0x04 2 all_revs 0xfab8 0x40 0 ''PCI hdr cmd register (CMD)'',
     mkPci PCICAP_FENCE 0x06 2 all_revs 0x4eff 0x6a0 0x10 ''PCI hdr device status register (STS)'',
     mkPci PCICAP_FENCE 0x08 1 all_revs 0xff 0xff 0 ''PCI hdr revision ID register (RID)'',
     mkPci PCICAP_FENCE 0x09 3 all_revs 0xffffff 0 0x10802 ''PCI hdr class codes register (CC)'',
     mkPci PCICAP_FENCE 0x0c 1 all_revs 0xff 0xff 0 ''PCI hdr cache line size register (CLS)'',
     mkPci PCICAP_FENCE 0x0d 1 all_revs 0xff 0 0 ''PCI hdr master latency timer reg (MLT)'',
     mkPci PCICAP_FENCE 0x0e 1 all_revs 0xff 0x80 0 ''PCI hdr header type register (HTYPE)'',
     mkPci PCICAP_FENCE 0x0f 1 all_revs 0xbf 0x80 0 ''PCI hdr built in self test register (BIST)'',
     mkPci PCICAP_FENCE 0x10 4 all_revs 0x3fff 0 4 ''PCI hdr MLBAR register (BAR0)'',
     mkPci PCICAP_FENCE 0x14 4 all_revs 0 0 0 ''PCI hdr MUBAR register (BAR1)'',
     mkPci PCICAP_FENCE 0x18 4 all_revs 7 0 1 ''PCI hdr index/data pair register (BAR2)'',
     mkPci PCICAP_FENCE 0x1c 4 all_revs 0 0 0 ''PCI hdr reserved area (BAR3)'',
     mkPci PCICAP_FENCE 0x20 4 all_revs 0 0xffffffff 0 ''PCI hdr vendor specific register (BAR4)'',
     mkPci PCICAP_FENCE 0x24 4 all_revs 0 0xffffffff 0 ''PCI hdr vendor specific register (BAR5)'',
     mkPci PCICAP_FENCE 0x28 4 all_revs 0xffffffff 0 0 ''PCI hdr CardBus CIS register (CCPTR)'',
     mkPci PCICAP_FENCE 0x2c 4 all_revs 0xffffffff 0xffffffff 0 ''PCI hdr subsystem ID register (SS)'',
     mkPci PCICAP_FENCE 0x30 4 all_revs 0 0xffffffff 0 ''PCI hdr expansion ROM register (EROM)'',
     mkPci PCICAP_FENCE 0x34 1 all_revs 0xff 0xff 0 ''PCI hdr CAP ptr register (CAP)'',
     mkPci PCICAP_FENCE 0x35 7 all_revs 0xffffffffffffff 0 0 ''PCI hdr reserved area #0'',
     mkPci PCICAP_FENCE 0x3c 2 all_revs 0xff00 0xff00 0 ''PCI hdr interrupt register (INTR)'',
     mkPci PCICAP_FENCE 0x3e 1 all_revs 0xff 0 0 ''PCI hdr min grant register (MGMT)'',
     mkPci PCICAP_FENCE 0x3f 1 all_revs 0xff 0 0 ''PCI hdr max latency register (MLAT)'',
     mkPci PCICAP_PMCAP 0xffff 2 all_revs 0xffff 0xfffe 1 ''PCI power mgmt ID register (PID)'',
     mkPci PCICAP_PMCAP 0xffff 2 all_revs 0xb7ff 0x27 0 ''PCI power mgmt CAP register (PC)'',
     mkPci PCICAP_PMCAP 0xffff 2 all_revs 0x60fc 0 8 ''PCI pwr mgmt ctrl & status reg (PMCS)'',
     mkPci PCICAP_MSICAP 0xffff 2 all_revs 0xffff 0xff00 5 ''PCI MSI ID register (MID)'',
     mkPci PCICAP_MSICAP 0xffff 2 all_revs 0xfe8e 0xe 0x80 ''PCI MSI msg ctrl register (MC)'',
     mkPci PCICAP_MSICAP 0xffff 4 all_revs 3 0 0 ''PCI MSI msg addr  register (MA)'',
     mkPci PCICAP_MSICAP 0xffff 4 all_revs 0 0 0 ''PCI MSI msg upper addr register (MUA)'',
     mkPci PCICAP_MSICAP 0xffff 2 all_revs 0 0 0 ''PCI MSI msg data register (MD)'',
     mkPci PCICAP_MSICAP 0xffff 4 all_revs 0 0 0 ''PCI MSI mask bits register (MMASK)'',
     mkPci PCICAP_MSICAP 0xffff 4 all_revs 0 0 0 ''PCI MSI pending bits register (MPEND)'',
     mkPci PCICAP_MSIXCAP 0xffff 2 all_revs 0xffff 0xff00 0x11 ''PCI MSI-X ID register (MXID)'',
     mkPci PCICAP_MSIXCAP 0xffff 2 all_revs 0x3fff 0x7ff 0 ''PCI MSI-X msg ctrl register (MXC)'',
     mkPci PCICAP_MSIXCAP 0xffff 4 all_revs 0xffffffff 0xffffffff 0 ''PCI MSI-X table offset/BIR register (MTAB)'',
     mkPci PCICAP_MSIXCAP 0xffff 4 all_revs 0xffffffff 0xffffffff 0 ''PCI MSI-X PBA offset/BIR register (MPBA)'',
     mkPci PCICAP_PXCAP 0xffff 2 all_revs 0xffff 0xff00 0x10 ''PCI express CAP ID register (PXID)'',
     mkPci PCICAP_PXCAP 0xffff 2 all_revs 0xffff 0x3e00 2 ''PCI express CAP register (PXCAP)'',
     mkPci PCICAP_PXCAP 0xffff 4 all_revs 0xffffffff 0xffc0fff 0x10008000 ''PCI express device CAP register (PXDCAP)'',
     mkPci PCICAP_PXCAP 0xffff 2 all_revs 0 0xfff0 0 ''PCI express device ctrl register (PXDC)'',
     mkPci PCICAP_PXCAP 0xffff 2 all_revs 0xfff0 0x10 0 ''PCI express device status register (PXDS)'',
     mkPci PCICAP_PXCAP 0xffff 4 all_revs 0xffffffff 0xff47ffff 0 ''PCI express link CAP register (PXLCAP)'',
     mkPci PCICAP_PXCAP 0xffff 2 all_revs 0xfc34 0x200 0 ''PCI express link ctrl register (PXLC)'',
     mkPci PCICAP_PXCAP 0xffff 2 all_revs 0xffff 0x13ff 0 ''PCI express link status register (PXLS)'',
     mkPci PCICAP_PXCAP 0xffff 16 all_revs 0xffffffffffffffff 0 0 ''PCI hdr reserved area #1'',
     mkPci PCICAP_PXCAP 0xffff 4 all_revs 0xffffffff 0xfc3b8f 0x10 ''PCI express device CAP2 register (PXDCAP2)'',
     mkPci PCICAP_PXCAP 0xffff 2 all_revs 0xffff9b0f 0x700f 0 ''PCI express device ctrl2 register (PXDC2)'',
     mkPci PCICAP_AERCAP 0xffff 4 all_revs 0xffffffff 0xfff00000 0x20001 ''PCI AER CAP ID register (AERID)'',
     mkPci PCICAP_AERCAP 0xffff 4 all_revs 0xfc0007ef 0x3fff0f 0 ''PCI AER uncorrect err stat register (AERUCES)'',
     mkPci PCICAP_AERCAP 0xffff 4 all_revs 0xfc000fcf 0xf1c1 0x400000 ''PCI AER uncorrect err mask register (AERUCEM)'',
     mkPci PCICAP_AERCAP 0xffff 4 all_revs 0xfc000fcf 0x3eaa000 0x462010 ''PCI AER uncorrect err severity reg (AERECESEV)'',
     mkPci PCICAP_AERCAP 0xffff 4 all_revs 0xffff0e3e 0xc000 0 ''PCI AER correctable err stat reg (AERCES)'',
     mkPci PCICAP_AERCAP 0xffff 4 all_revs 0xffff0e3e 0xc000 0 ''PCI AER correctable err mask reg (AERCEM)'',
     mkPci PCICAP_AERCAP 0xffff 4 all_revs 0xfffff8af 0x7e0 0 ''PCI AER adv err CAP & ctrl register AERCC)'',
     mkPci PCICAP_AERCAP 0xffff 16 all_revs 0xffffffffffffffff 0 0 ''PCI AER header log register (AERHL)'',
     mkPci PCICAP_AERCAP 0xffff 16 all_revs 0xffffffffffffffff 0 0 ''PCI AER TLP prefix log register (AERTLP)'']"

definition ctl_table :: "CtlSpcType list" where
  "ctl_table =
    [mkCtl 0x00 8 all_revs 0xffffffffffffffff 0xff1fffff07ffff 0 ''ctrlr CAP register (CAP)'',
     mkCtl 0x08 4 [SPECREV_10b] 0xffffffff 0 0x10000 ''ctrlr version register (VS)'',
     mkCtl 0x08 4 [SPECREV_11] 0xffffffff 0 0x10100 ''ctrlr version register (VS)'',
     mkCtl 0x08 4 [SPECREV_12, SPECREV_121, SPECREV_13] 0xffffffff 0 0x10200 ''ctrlr version register (VS)'',
     mkCtl 0x0c 4 all_revs 0 0 0 ''ctrlr interrupt mask set register (INTMS)'',
     mkCtl 0x10 4 all_revs 0 0 0 ''ctrlr interrupt mask clear register (INTMC)'',
     mkCtl 0x14 4 all_revs 0xff00000e 0 0 ''ctrlr config register (CC)'',
     mkCtl 0x18 4 all_revs 0 0 0 ''ctrlr reserved area 0x18'',
     mkCtl 0x1c 4 [SPECREV_10b] 0xffffffff 0 0 ''ctrlr status register (CSTS)'',
     mkCtl 0x1c 4 [SPECREV_11, SPECREV_12, SPECREV_121, SPECREV_13] 0xffffffef 0x12 0 ''ctrlr status register (CSTS)'',
     mkCtl 0x20 4 [SPECREV_10b] 0xffffffff 0 0 ''ctrlr reserved area 0x20'',
     mkCtl 0x20 4 [SPECREV_11, SPECREV_12, SPECREV_121, SPECREV_13] 0 0 0 ''ctrlr NVM subsystem reset (NSSR)'',
     mkCtl 0x24 4 all_revs 0xf000f000 0 0 ''ctrlr admin Q attrib register (AQA)'',
     mkCtl 0x28 8 all_revs 0xfff 0xfffff000 0 ''ctrlr admin SQ BAR register (ASQ)'',
     mkCtl 0x30 8 all_revs 0xfff 0xfffff000 0 ''ctrlr admin CQ BAR register (ACQ)'',
     mkCtl 0x38 3784 all_revs 0xffffffffffffffff 0 0 ''ctrlr reserved area 0x38'',
     mkCtl 0xf00 256 all_revs 0xffffffffffffffff 0 0 ''ctrlr cmd set specific (reserved)'']"

section \<open>State\<close>

record 'd registers = "'d proc" +
  rg_specRev :: SpecRev
  rg_pciCap :: "PciCapabilities list"
  rg_pci :: "PciSpcType list"       \<comment> \<open>\<open>mPciSpcMetrics\<close>: static, its offsets are written\<close>

text \<open>\<open>REGMASK(regval, bytes)\<close>, for \<open>1 \<le> bytes \<le> 8\<close>.\<close>

definition REGMASK :: "u64 \<Rightarrow> nat \<Rightarrow> u64" where
  "REGMASK regval bytes = regval AND drop_bit (64 - bytes * 8) (- 1)"

definition ValidSpecRev :: "SpecRev list \<Rightarrow> ('d, 'm) registers_scheme \<Rightarrow> bool" where
  "ValidSpecRev specRevs s \<longleftrightarrow> List.member specRevs (rg_specRev s)"

text \<open>The eight bytes of the \<open>uint64_t\<close> the code passes as the request's buffer.\<close>

definition le64 :: "u64 \<Rightarrow> u8 list" where
  "le64 v = map (\<lambda>i. ucast (drop_bit (8 * i) v)) [0..<8]"

fun of_le :: "u8 list \<Rightarrow> u64" where
  "of_le [] = 0"
| "of_le (b # bs) = ucast b OR push_bit 8 (of_le bs)"

section \<open>Reads and writes\<close>

definition dflt_acc :: "nvme_io_space \<Rightarrow> nvme_acc_type" where
  "dflt_acc regSpc = (if regSpc = NVMEIO_BAR01 then DWORD_LEN else BYTE_LEN)"

definition sized_acc :: "nvme_io_space \<Rightarrow> u16 \<Rightarrow> nvme_acc_type" where
  "sized_acc regSpc rsize =
     (if rsize = 2 then WORD_LEN else if rsize = 4 then DWORD_LEN
      else if rsize = 8 then QUAD_LEN else dflt_acc regSpc)"

definition mk_io :: "nvme_io_space \<Rightarrow> u16 \<Rightarrow> u16 \<Rightarrow> nvme_acc_type \<Rightarrow> rw_generic" where
  "mk_io spc off n acc = \<lparr>io_type = spc, io_offset = off, io_nBytes = n, io_acc = acc\<rparr>"

text \<open>
  The private worker of both register reads. The result is the returned flag and the new value
  of the reference parameter \<open>value\<close>.
\<close>

definition Registers_Read_value ::
  "'d dnvme \<Rightarrow> nvme_io_space \<Rightarrow> u16 \<Rightarrow> u16 \<Rightarrow> u64 \<Rightarrow> (('d, 'm) registers_scheme, bool \<times> u64) prog" where
  "Registers_Read_value drv regSpc rsize roffset val =
     (if roffset = USHRT_MAX then ret (False, val)
      else if rsize > MAX_SUPPORTED_REG_SIZE then ret (False, val)
      else bnd (ioctl2 (io_read drv (mk_io regSpc roffset rsize (dflt_acc regSpc)) (le64 val)))
        (\<lambda>(rc, buf). if rc < 0 then ret (False, of_le buf)
                     else ret (True, REGMASK (of_le buf) (unat rsize))))"

definition Registers_Read_pci ::
  "'d dnvme \<Rightarrow> nat \<Rightarrow> u64 \<Rightarrow> (('d, 'm) registers_scheme, bool \<times> u64) prog" where
  "Registers_Read_pci drv reg val = (\<lambda>s.
     if reg \<ge> length (rg_pci s) then (Inl (UB ''index outside of mPciSpcMetrics''), s)
     else let r = rg_pci s ! reg in
       if \<not> ValidSpecRev (pci_specRev r) s then (Inr (False, val), s)
       else Registers_Read_value drv NVMEIO_PCI_HDR (pci_size r) (pci_offset r) val s)"

text \<open>The controller read tests the spec revisions of the \<^emph>\<open>PCI\<close> table's entry.\<close>

definition Registers_Read_ctl ::
  "'d dnvme \<Rightarrow> nat \<Rightarrow> u64 \<Rightarrow> (('d, 'm) registers_scheme, bool \<times> u64) prog" where
  "Registers_Read_ctl drv reg val = (\<lambda>s.
     if reg \<ge> length (rg_pci s) \<or> reg \<ge> length ctl_table
     then (Inl (UB ''index outside of the metrics tables''), s)
     else if \<not> ValidSpecRev (pci_specRev (rg_pci s ! reg)) s then (Inr (False, val), s)
     else let r = ctl_table ! reg in
       Registers_Read_value drv NVMEIO_BAR01 (ctl_size r) (ctl_offset r) val s)"

text \<open>Reads into the caller's byte buffer: with the access width implied by the size, or given.\<close>

definition Registers_Read_acc ::
  "'d dnvme \<Rightarrow> nvme_io_space \<Rightarrow> u16 \<Rightarrow> u16 \<Rightarrow> nvme_acc_type \<Rightarrow> u8 list
     \<Rightarrow> (('d, 'm) registers_scheme, bool \<times> u8 list) prog" where
  "Registers_Read_acc drv regSpc rsize roffset racc buf =
     bnd (ioctl2 (io_read drv (mk_io regSpc roffset rsize racc) buf))
       (\<lambda>(rc, buf'). ret (\<not> rc < 0, buf'))"

definition Registers_Read_bytes ::
  "'d dnvme \<Rightarrow> nvme_io_space \<Rightarrow> u16 \<Rightarrow> u16 \<Rightarrow> u8 list
     \<Rightarrow> (('d, 'm) registers_scheme, bool \<times> u8 list) prog" where
  "Registers_Read_bytes drv regSpc rsize roffset buf =
     bnd (ioctl2 (io_read drv (mk_io regSpc roffset rsize (sized_acc regSpc rsize)) buf))
       (\<lambda>(rc, buf'). ret (\<not> rc < 0, buf'))"

definition Registers_Write_value ::
  "'d dnvme \<Rightarrow> nvme_io_space \<Rightarrow> u16 \<Rightarrow> u16 \<Rightarrow> u64 \<Rightarrow> (('d, 'm) registers_scheme, bool) prog" where
  "Registers_Write_value drv regSpc rsize roffset val =
     (if roffset = USHRT_MAX then ret False
      else if rsize > MAX_SUPPORTED_REG_SIZE then ret False
      else bnd (ioctl1 (io_write drv (mk_io regSpc roffset rsize (sized_acc regSpc rsize)) (le64 val)))
        (\<lambda>rc. ret (\<not> rc < 0)))"

definition Registers_Write_pci ::
  "'d dnvme \<Rightarrow> nat \<Rightarrow> u64 \<Rightarrow> (('d, 'm) registers_scheme, bool) prog" where
  "Registers_Write_pci drv reg val = (\<lambda>s.
     if reg \<ge> length (rg_pci s) then (Inl (UB ''index outside of mPciSpcMetrics''), s)
     else let r = rg_pci s ! reg in
       if \<not> List.member (pci_specRev r) (rg_specRev s) then (Inr False, s)
       else Registers_Write_value drv NVMEIO_PCI_HDR (pci_size r) (pci_offset r) val s)"

definition Registers_Write_ctl ::
  "'d dnvme \<Rightarrow> nat \<Rightarrow> u64 \<Rightarrow> (('d, 'm) registers_scheme, bool) prog" where
  "Registers_Write_ctl drv reg val = (\<lambda>s.
     if reg \<ge> length (rg_pci s) \<or> reg \<ge> length ctl_table
     then (Inl (UB ''index outside of the metrics tables''), s)
     else if \<not> List.member (pci_specRev (rg_pci s ! reg)) (rg_specRev s) then (Inr False, s)
     else let r = ctl_table ! reg in
       Registers_Write_value drv NVMEIO_BAR01 (ctl_size r) (ctl_offset r) val s)"

definition Registers_Write_acc ::
  "'d dnvme \<Rightarrow> nvme_io_space \<Rightarrow> u16 \<Rightarrow> u16 \<Rightarrow> nvme_acc_type \<Rightarrow> u8 list
     \<Rightarrow> (('d, 'm) registers_scheme, bool) prog" where
  "Registers_Write_acc drv regSpc rsize roffset racc buf =
     bnd (ioctl1 (io_write drv (mk_io regSpc roffset rsize racc) buf)) (\<lambda>rc. ret (\<not> rc < 0))"

definition Registers_Write_bytes ::
  "'d dnvme \<Rightarrow> nvme_io_space \<Rightarrow> u16 \<Rightarrow> u16 \<Rightarrow> u8 list
     \<Rightarrow> (('d, 'm) registers_scheme, bool) prog" where
  "Registers_Write_bytes drv regSpc rsize roffset buf =
     bnd (ioctl1 (io_write drv (mk_io regSpc roffset rsize (sized_acc regSpc rsize)) buf))
       (\<lambda>rc. ret (\<not> rc < 0))"

end
