(* ===== verification/Bit_Fields.thy ===== *)
theory Bit_Fields
  imports Prelude
begin

text \<open>
  Bit fields of 32-bit words, the way the code packs registers and command DWORDs: clear the
  field under its mask, then OR the shifted value in. The laws of such a store are stated once
  as a locale: reading a field after a write of the same field gives the value written, reading
  a field apart from it is unaffected. Everything that writes several fields in a row (the
  controller configuration register, the DWORDs of a command) rests on its lemmas.
\<close>

section \<open>The interface: a store of fields\<close>

locale field_store =
  fixes rd :: "'f \<Rightarrow> 's \<Rightarrow> 'v"
    and wr :: "'f \<Rightarrow> 'v \<Rightarrow> 's \<Rightarrow> 's"
    and ok :: "'f \<Rightarrow> 's \<Rightarrow> bool"
    and fits :: "'f \<Rightarrow> 'v \<Rightarrow> bool"
    and apart :: "'f \<Rightarrow> 'f \<Rightarrow> bool"
  assumes rd_wr_same: "ok f s \<Longrightarrow> fits f v \<Longrightarrow> rd f (wr f v s) = v"
    and rd_wr_apart: "ok f s \<Longrightarrow> ok g s \<Longrightarrow> apart f g \<Longrightarrow> rd g (wr f v s) = rd g s"
    and ok_wr: "ok f s \<Longrightarrow> ok g s \<Longrightarrow> ok g (wr f v s)"
begin

text \<open>A sequence of writes.\<close>

fun wrs :: "('f \<times> 'v) list \<Rightarrow> 's \<Rightarrow> 's" where
  "wrs [] s = s"
| "wrs ((f, v) # fvs) s = wrs fvs (wr f v s)"

lemma ok_wrs: "ok g s \<Longrightarrow> \<forall>f \<in> fst ` set fvs. ok f s \<Longrightarrow> ok g (wrs fvs s)"
  by (induction fvs s rule: wrs.induct) (simp_all add: ok_wr)

lemma rd_wrs_apart:
  "ok g s \<Longrightarrow> \<forall>f \<in> fst ` set fvs. ok f s \<and> apart f g \<Longrightarrow> rd g (wrs fvs s) = rd g s"
  by (induction fvs s rule: wrs.induct) (simp_all add: ok_wr rd_wr_apart)

text \<open>Of a sequence of writes, the last one to a field is the one that is read back.\<close>

lemma rd_wrs_last:
  assumes "ok g s" and "\<forall>f \<in> fst ` set (fvs @ gvs). ok f s" and "fits g v"
    and apart: "\<forall>f \<in> fst ` set gvs. apart f g"
  shows "rd g (wrs (fvs @ (g, v) # gvs) s) = v"
  using assms(1,2)
proof (induction fvs s rule: wrs.induct)
  case (1 s)
  then have "rd g (wrs gvs (wr g v s)) = rd g (wr g v s)"
    using apart by (intro rd_wrs_apart) (simp_all add: ok_wr)
  then show ?case using 1 assms(3) by (simp add: rd_wr_same)
next
  case (2 f u fvs s)
  then show ?case by (simp add: ok_wr)
qed

end

section \<open>Fields of a 32-bit word\<close>

text \<open>A field is given by its lowest bit and its width.\<close>

definition get_field :: "nat \<times> nat \<Rightarrow> u32 \<Rightarrow> u32" where
  "get_field f r = take_bit (snd f) (drop_bit (fst f) r)"

definition put_field :: "nat \<times> nat \<Rightarrow> u32 \<Rightarrow> u32 \<Rightarrow> u32" where
  "put_field f v r =
     (r AND NOT (push_bit (fst f) (mask (snd f)))) OR push_bit (fst f) (take_bit (snd f) v)"

definition field_ok :: "nat \<times> nat \<Rightarrow> bool" where
  "field_ok f \<longleftrightarrow> fst f + snd f \<le> 32"

definition field_apart :: "nat \<times> nat \<Rightarrow> nat \<times> nat \<Rightarrow> bool" where
  "field_apart f g \<longleftrightarrow> fst f + snd f \<le> fst g \<or> fst g + snd g \<le> fst f"

lemma get_put_same: "field_ok f \<Longrightarrow> get_field f (put_field f v r) = take_bit (snd f) v"
  by (rule bit_word_eqI) (auto simp: get_field_def put_field_def field_ok_def bit_simps)

lemma get_put_apart:
  "field_ok f \<Longrightarrow> field_ok g \<Longrightarrow> field_apart f g \<Longrightarrow> get_field g (put_field f v r) = get_field g r"
  by (rule bit_word_eqI)
    (auto simp: get_field_def put_field_def field_ok_def field_apart_def bit_simps)

interpretation word_fields: field_store get_field put_field
  "\<lambda>f r. field_ok f" "\<lambda>f v. take_bit (snd f) v = v" field_apart
  by unfold_locales (simp_all add: get_put_same get_put_apart)

text \<open>The code's way of reading a field: mask, then shift.\<close>

lemma get_field_mask_shift:
  "drop_bit sh (r AND push_bit sh (mask w)) = get_field (sh, w) r"
  by (rule bit_word_eqI) (auto simp: get_field_def bit_simps dest: bit_imp_le_length)

lemma put_get_field: "field_ok f \<Longrightarrow> put_field f (get_field f r) r = r"
  by (rule bit_word_eqI) (auto simp: get_field_def put_field_def field_ok_def bit_simps)

lemma get_field_bound: "snd f < 32 \<Longrightarrow> unat (get_field f r) < 2 ^ snd f"
  by (simp add: get_field_def unsigned_take_bit_eq)

text \<open>Reading 64-bit fields, and putting a word together from its fields.\<close>

lemma mask_shift_64:
  "drop_bit sh (v AND push_bit sh (mask w)) = take_bit w (drop_bit sh (v :: u64))"
  by (rule bit_word_eqI) (auto simp: bit_simps dest: bit_imp_le_length)

lemma take_bit_split:
  "take_bit (m + n) (v :: u64) = take_bit m v OR push_bit m (take_bit n (drop_bit m v))"
  by (rule bit_word_eqI) (auto simp: bit_simps)

end
