(* ===== verification/Ctrlr_Config.thy ===== *)
theory Ctrlr_Config
  imports Regs Bit_Fields
begin

text \<open>
  \<open>CtrlrConfig\<close> (Singletons/ctrlrConfig.cpp) and its base class \<open>Subject\<close> (subject.h): the
  controller's state changes and their notification, the IRQ schemes, and the fields of the
  controller configuration register CC. The observers are an argument: a list of programs, in
  the order they were attached.
\<close>

section \<open>State\<close>

record 'd ctrlr = "'d registers" +
  cf_curState :: nvme_state       \<comment> \<open>\<open>Subject::mCurState\<close>\<close>
  cf_firstTime :: bool
  cf_deltaCheck :: bool

type_synonym ('d, 'm) observer = "nvme_state \<Rightarrow> (('d, 'm) ctrlr_scheme, unit) prog"

section \<open>The subject\<close>

fun notify_loop :: "('d, 'm) observer list \<Rightarrow> nvme_state \<Rightarrow> (('d, 'm) ctrlr_scheme, unit) prog" where
  "notify_loop [] st = ret ()"
| "notify_loop (ob # obs) st = sq (ob st) (notify_loop obs st)"

definition Subject_Notify ::
  "('d, 'm) observer list \<Rightarrow> nvme_state \<Rightarrow> (('d, 'm) ctrlr_scheme, unit) prog" where
  "Subject_Notify obs newSt = (\<lambda>s.
     let doUpdate = \<not> (cf_deltaCheck s \<and> cf_curState s = newSt \<and> \<not> cf_firstTime s);
         s1 = s\<lparr>cf_firstTime := False\<rparr>
     in if doUpdate then notify_loop obs newSt (s1\<lparr>cf_curState := newSt\<rparr>) else (Inr (), s1))"

section \<open>Interrupts\<close>

definition DecodeIrqScheme :: "nvme_irq_type \<Rightarrow> bool \<times> string" where
  "DecodeIrqScheme irq =
     (case irq of
        INT_MSI_SINGLE \<Rightarrow> (True, ''MSI-single IRQ scheme'')
      | INT_MSI_MULTI \<Rightarrow> (True, ''MSI-multi IRQ scheme'')
      | INT_MSIX \<Rightarrow> (True, ''MSI-X IRQ scheme'')
      | INT_NONE \<Rightarrow> (True, ''no IRQ scheme'')
      | INT_other _ \<Rightarrow> (False, ''unknown IRQ scheme''))"

text \<open>The results are the returned flag and the two reference parameters.\<close>

fun IsMSICapable_loop ::
  "libc \<Rightarrow> 'd dnvme \<Rightarrow> PciCapabilities list
     \<Rightarrow> (('d, 'm) registers_scheme, bool \<times> bool \<times> u16) prog" where
  "IsMSICapable_loop C drv [] = ret (True, False, 0)"
| "IsMSICapable_loop C drv (c # cs) =
     (if c = PCICAP_MSICAP
      then bnd (Registers_Read_pci drv PCISPC_MC (undef64 C)) (\<lambda>(ok, val).
             if \<not> ok then ret (False, False, 0)
             else let work = ucast (drop_bit 1 (val AND 0x000e)) :: u16
                  in ret (True, True, push_bit (unat work) 1))
      else IsMSICapable_loop C drv cs)"

definition CtrlrConfig_IsMSICapable ::
  "libc \<Rightarrow> 'd dnvme \<Rightarrow> (('d, 'm) registers_scheme, bool \<times> bool \<times> u16) prog" where
  "CtrlrConfig_IsMSICapable C drv = (\<lambda>s. IsMSICapable_loop C drv (rg_pciCap s) s)"

fun IsMSIXCapable_loop ::
  "libc \<Rightarrow> 'd dnvme \<Rightarrow> PciCapabilities list
     \<Rightarrow> (('d, 'm) registers_scheme, bool \<times> bool \<times> u16) prog" where
  "IsMSIXCapable_loop C drv [] = ret (True, False, 0)"
| "IsMSIXCapable_loop C drv (c # cs) =
     (if c = PCICAP_MSIXCAP
      then bnd (Registers_Read_pci drv PCISPC_MXC (undef64 C)) (\<lambda>(ok, val).
             if \<not> ok then ret (False, False, 0)
             else ret (True, True, ucast ((val AND 0x07ff) + 1)))
      else IsMSIXCapable_loop C drv cs)"

definition CtrlrConfig_IsMSIXCapable ::
  "libc \<Rightarrow> 'd dnvme \<Rightarrow> (('d, 'm) registers_scheme, bool \<times> bool \<times> u16) prog" where
  "CtrlrConfig_IsMSIXCapable C drv = (\<lambda>s. IsMSIXCapable_loop C drv (rg_pciCap s) s)"

definition CtrlrConfig_GetIrqScheme ::
  "'d dnvme \<Rightarrow> nvme_irq_type \<times> u16 \<Rightarrow> (('d, 'm) proc_scheme, bool \<times> nvme_irq_type \<times> u16) prog" where
  "CtrlrConfig_GetIrqScheme drv old =
     bnd (ioctl2 (io_get_irq drv)) (\<lambda>(rc, irq, numIrqs).
       if rc < 0 then ret (False, old)
       else ret (fst (DecodeIrqScheme irq), irq, numIrqs))"

definition CtrlrConfig_IrqsEnabled :: "'d dnvme \<Rightarrow> (('d, 'm) proc_scheme, bool) prog" where
  "CtrlrConfig_IrqsEnabled drv =
     bnd (CtrlrConfig_GetIrqScheme drv (INT_NONE, 0)) (\<lambda>(ok, irq, numIrqs).
       if \<not> ok then ret False
       else ret (case irq of INT_MSI_SINGLE \<Rightarrow> True | INT_MSI_MULTI \<Rightarrow> True | INT_MSIX \<Rightarrow> True
                 | INT_NONE \<Rightarrow> False | INT_other _ \<Rightarrow> False))"

section \<open>The state of the controller\<close>

definition CtrlrConfig_IsStateEnabled :: "'d dnvme \<Rightarrow> (('d, 'm) registers_scheme, bool) prog" where
  "CtrlrConfig_IsStateEnabled drv =
     bnd (Registers_Read_ctl drv CTLSPC_CSTS 0) (\<lambda>(ok, tmp).
       if ok then ret (tmp AND 0x00000001 \<noteq> 0) else ret False)"

definition CtrlrConfig_SetIrqScheme ::
  "'d dnvme \<Rightarrow> nvme_irq_type \<Rightarrow> u16 \<Rightarrow> (('d, 'm) registers_scheme, bool) prog" where
  "CtrlrConfig_SetIrqScheme drv newIrq numIrqs =
     bnd (CtrlrConfig_IsStateEnabled drv) (\<lambda>en.
       if en then ret False
       else if \<not> fst (DecodeIrqScheme newIrq) then ret False
       else bnd (ioctl1 (io_set_irq drv newIrq numIrqs)) (\<lambda>rc. ret (\<not> rc < 0)))"

section \<open>The CC register\<close>

definition CtrlrConfig_ReadRegCC ::
  "libc \<Rightarrow> 'd dnvme \<Rightarrow> (('d, 'm) registers_scheme, bool \<times> u32) prog" where
  "CtrlrConfig_ReadRegCC C drv =
     bnd (Registers_Read_ctl drv CTLSPC_CC (undef64 C)) (\<lambda>(retVal, tmp). ret (retVal, ucast tmp))"

definition CtrlrConfig_WriteRegCC ::
  "'d dnvme \<Rightarrow> u32 \<Rightarrow> (('d, 'm) registers_scheme, bool) prog" where
  "CtrlrConfig_WriteRegCC drv regVal = Registers_Write_ctl drv CTLSPC_CC (ucast regVal)"

definition CtrlrConfig_GetRegValue ::
  "libc \<Rightarrow> 'd dnvme \<Rightarrow> u32 \<Rightarrow> nat \<Rightarrow> (('d, 'm) registers_scheme, bool \<times> u8) prog" where
  "CtrlrConfig_GetRegValue C drv regMask bitShift =
     bnd (CtrlrConfig_ReadRegCC C drv) (\<lambda>(retVal, regVal).
       ret (retVal, ucast (drop_bit bitShift (regVal AND regMask))))"

definition CtrlrConfig_SetRegValue ::
  "libc \<Rightarrow> 'd dnvme \<Rightarrow> u8 \<Rightarrow> u8 \<Rightarrow> u64 \<Rightarrow> nat \<Rightarrow> (('d, 'm) registers_scheme, bool) prog" where
  "CtrlrConfig_SetRegValue C drv val valueMask regMask bitShift =
     (if val AND NOT valueMask \<noteq> 0 then ret False
      else bnd (CtrlrConfig_ReadRegCC C drv) (\<lambda>(ok, regVal).
        if \<not> ok then ret False
        else CtrlrConfig_WriteRegCC drv
               (ucast (ucast regVal AND NOT regMask) OR push_bit bitShift (ucast val))))"

definition CtrlrConfig_GetIOCQES where
  "CtrlrConfig_GetIOCQES C drv = CtrlrConfig_GetRegValue C drv 0x00f00000 20"
definition CtrlrConfig_SetIOCQES where
  "CtrlrConfig_SetIOCQES C drv val = CtrlrConfig_SetRegValue C drv val 0x0f 0x00f00000 20"
definition CtrlrConfig_GetIOSQES where
  "CtrlrConfig_GetIOSQES C drv = CtrlrConfig_GetRegValue C drv 0x000f0000 16"
definition CtrlrConfig_SetIOSQES where
  "CtrlrConfig_SetIOSQES C drv val = CtrlrConfig_SetRegValue C drv val 0x0f 0x000f0000 16"
definition CtrlrConfig_GetSHN where
  "CtrlrConfig_GetSHN C drv = CtrlrConfig_GetRegValue C drv 0x0000C000 14"
definition CtrlrConfig_SetSHN where
  "CtrlrConfig_SetSHN C drv val = CtrlrConfig_SetRegValue C drv val 0x03 0x0000C000 14"
definition CtrlrConfig_GetAMS where
  "CtrlrConfig_GetAMS C drv = CtrlrConfig_GetRegValue C drv 0x00003800 11"
definition CtrlrConfig_SetAMS where
  "CtrlrConfig_SetAMS C drv val = CtrlrConfig_SetRegValue C drv val 0x07 0x00003800 11"
definition CtrlrConfig_GetMPS where
  "CtrlrConfig_GetMPS C drv = CtrlrConfig_GetRegValue C drv 0x00000780 7"
definition CtrlrConfig_SetMPS where
  "CtrlrConfig_SetMPS C drv =
     (if pagesize C = 4096 then CtrlrConfig_SetRegValue C drv 0 0x0f 0x00000780 7 else ret False)"
definition CtrlrConfig_GetCSS where
  "CtrlrConfig_GetCSS C drv = CtrlrConfig_GetRegValue C drv 0x00000070 4"
definition CtrlrConfig_SetCSS where
  "CtrlrConfig_SetCSS C drv val = CtrlrConfig_SetRegValue C drv val 0x07 0x00000070 4"
definition CtrlrConfig_GetEN where
  "CtrlrConfig_GetEN C drv = CtrlrConfig_GetRegValue C drv 0x00000001 0"

definition CtrlrConfig_SetState ::
  "libc \<Rightarrow> 'd dnvme \<Rightarrow> ('d, 'm) observer list \<Rightarrow> nvme_state
     \<Rightarrow> (('d, 'm) ctrlr_scheme, bool) prog" where
  "CtrlrConfig_SetState C drv obs st =
     bnd (case st of
            ST_ENABLE \<Rightarrow> CtrlrConfig_SetMPS C drv
          | ST_DISABLE \<Rightarrow> ret True
          | ST_DISABLE_COMPLETELY \<Rightarrow> ret True
          | ST_other _ \<Rightarrow> raise (FrmwkEx ''Illegal state detected = %d''))
       (\<lambda>go. if \<not> go then ret False
         else bnd (ioctl1 (io_device_state drv st)) (\<lambda>rc.
           if rc < 0 then bnd (CtrlrConfig_IsStateEnabled drv) (\<lambda>_. ret False)
           else sq (Subject_Notify obs st) (ret True)))"

section \<open>Register access when the metrics table is intact\<close>

text \<open>The spec revisions of the PCI table are never written.\<close>

definition rg_ok :: "('d, 'm) registers_scheme \<Rightarrow> bool" where
  "rg_ok s \<longleftrightarrow> rg_specRev s \<noteq> SPECREVTYPE_FENCE \<and>
     map pci_specRev (rg_pci s) = map pci_specRev pci_table"

lemma pci_table_revs: "map pci_specRev pci_table = replicate PCISPC_FENCE all_revs"
  by (simp add: pci_table_def mkPci_def numeral_eq_Suc)

lemma rg_ok_row:
  assumes "rg_ok s" and "reg < PCISPC_FENCE"
  shows "reg < length (rg_pci s)" and "ValidSpecRev (pci_specRev (rg_pci s ! reg)) s"
proof -
  have m: "map pci_specRev (rg_pci s) = replicate PCISPC_FENCE all_revs"
    using assms(1) by (simp add: rg_ok_def pci_table_revs)
  have len: "length (rg_pci s) = PCISPC_FENCE"
    using arg_cong [OF m, of length] by simp
  then show "reg < length (rg_pci s)" using assms(2) by simp
  have "pci_specRev (rg_pci s ! reg) = map pci_specRev (rg_pci s) ! reg"
    using len assms(2) by simp
  also have "\<dots> = all_revs" unfolding m using assms(2) by (simp only: nth_replicate)
  finally show "ValidSpecRev (pci_specRev (rg_pci s ! reg)) s"
    using assms(1) by (cases "rg_specRev s") (auto simp: rg_ok_def ValidSpecRev_def all_revs_def)
qed

lemma ctl_table_CC: "\<exists>ro imp dflt desc.
    ctl_table ! CTLSPC_CC = mkCtl 0x14 4 all_revs ro imp dflt desc"
  by (auto simp: ctl_table_def)

lemma length_ctl_table: "length ctl_table = CTLSPC_FENCE"
  by (simp add: ctl_table_def)

section \<open>A device that stores its CC register\<close>

text \<open>What the generic read and write requests do at offset 0x14 of the controller registers.\<close>

definition cc_device :: "'d dnvme \<Rightarrow> ('d \<Rightarrow> u32) \<Rightarrow> bool" where
  "cc_device drv cc \<longleftrightarrow>
     (\<forall>io buf d. io_type io = NVMEIO_BAR01 \<and> io_offset io = 0x14 \<and> io_nBytes io = 4 \<longrightarrow>
        io_read drv io buf d = (0, le32 (ucast (cc d)) @ drop 4 buf, d) \<and>
        (\<exists>d'. io_write drv io buf d = (0, d') \<and> cc d' = of_le32 (take 4 buf)))"

lemma of_le_le32: "(ucast (REGMASK (of_le (le32 (ucast x) @ bs)) 4) :: u32) = x"
proof (rule bit_word_eqI)
  fix n assume "n < LENGTH(32)"
  then have "n < 8 \<or> (8 \<le> n \<and> n < 16) \<or> (16 \<le> n \<and> n < 24) \<or> (24 \<le> n \<and> n < 32)"
    by auto
  then show "bit (ucast (REGMASK (of_le (le32 (ucast x) @ bs)) 4) :: u32) n = bit x n"
    by (elim disjE) (auto simp: le32_def REGMASK_def bit_simps)
qed

lemma take_le64: "take 4 (le64 v) = le32 v"
  by (simp add: le64_def le32_def upt_conv_Cons)

lemma ReadRegCC_device:
  assumes "cc_device drv cc" and "rg_ok s"
  shows "CtrlrConfig_ReadRegCC C drv s = (Inr (True, cc (kern s)), s)"
proof -
  obtain ro imp dflt desc where
    row: "ctl_table ! CTLSPC_CC = mkCtl 0x14 4 all_revs ro imp dflt desc"
    using ctl_table_CC by blast
  have rd: "io_read drv (mk_io NVMEIO_BAR01 0x14 4 acc) buf d =
      (0, le32 (ucast (cc d)) @ drop 4 buf, d)" for acc buf d
    using assms(1) by (simp add: cc_device_def mk_io_def)
  show ?thesis
    using rg_ok_row [OF assms(2), of CTLSPC_CC]
    by (simp add: CtrlrConfig_ReadRegCC_def Registers_Read_ctl_def bnd_apply length_ctl_table row
        mkCtl_def Registers_Read_value_def ioctl2_apply rd of_le_le32 Let_def)
qed

lemma WriteRegCC_device:
  assumes "cc_device drv cc" and "rg_ok s"
  shows "\<exists>d. CtrlrConfig_WriteRegCC drv v s = (Inr True, s\<lparr>kern := d\<rparr>) \<and> cc d = v"
proof -
  obtain ro imp dflt desc where
    row: "ctl_table ! CTLSPC_CC = mkCtl 0x14 4 all_revs ro imp dflt desc"
    using ctl_table_CC by blast
  obtain d where wr: "io_write drv (mk_io NVMEIO_BAR01 0x14 4 DWORD_LEN) (le64 (ucast v)) (kern s) =
      (0, d)" and cc: "cc d = of_le32 (take 4 (le64 (ucast v)))"
    using assms(1) [unfolded cc_device_def, rule_format,
        of "mk_io NVMEIO_BAR01 0x14 4 DWORD_LEN" "le64 (ucast v)" "kern s"]
    by (auto simp: mk_io_def)
  have "List.member (pci_specRev (rg_pci s ! CTLSPC_CC)) (rg_specRev s)"
    using rg_ok_row [OF assms(2), of CTLSPC_CC] by (simp add: ValidSpecRev_def)
  then have "CtrlrConfig_WriteRegCC drv v s = (Inr True, s\<lparr>kern := d\<rparr>)"
    using rg_ok_row [OF assms(2), of CTLSPC_CC]
    by (simp add: CtrlrConfig_WriteRegCC_def Registers_Write_ctl_def bnd_apply length_ctl_table row
        mkCtl_def Registers_Write_value_def ioctl1_apply wr sized_acc_def Let_def)
  then show ?thesis using cc by (auto simp: take_le64 of_le32_le32)
qed

section \<open>The fields of CC\<close>

datatype cc_field = F_IOCQES | F_IOSQES | F_SHN | F_AMS | F_MPS | F_CSS

fun cc_pos :: "cc_field \<Rightarrow> nat \<times> nat" where
  "cc_pos F_IOCQES = (20, 4)"
| "cc_pos F_IOSQES = (16, 4)"
| "cc_pos F_SHN = (14, 2)"
| "cc_pos F_AMS = (11, 3)"
| "cc_pos F_MPS = (7, 4)"
| "cc_pos F_CSS = (4, 3)"

fun cc_get :: "libc \<Rightarrow> 'd dnvme \<Rightarrow> cc_field \<Rightarrow> (('d, 'm) registers_scheme, bool \<times> u8) prog" where
  "cc_get C drv F_IOCQES = CtrlrConfig_GetIOCQES C drv"
| "cc_get C drv F_IOSQES = CtrlrConfig_GetIOSQES C drv"
| "cc_get C drv F_SHN = CtrlrConfig_GetSHN C drv"
| "cc_get C drv F_AMS = CtrlrConfig_GetAMS C drv"
| "cc_get C drv F_MPS = CtrlrConfig_GetMPS C drv"
| "cc_get C drv F_CSS = CtrlrConfig_GetCSS C drv"

text \<open>The public setters (\<open>SetMPS\<close> takes no value and is private).\<close>

fun cc_set :: "libc \<Rightarrow> 'd dnvme \<Rightarrow> cc_field \<Rightarrow> u8 \<Rightarrow> (('d, 'm) registers_scheme, bool) prog" where
  "cc_set C drv F_IOCQES v = CtrlrConfig_SetIOCQES C drv v"
| "cc_set C drv F_IOSQES v = CtrlrConfig_SetIOSQES C drv v"
| "cc_set C drv F_SHN v = CtrlrConfig_SetSHN C drv v"
| "cc_set C drv F_AMS v = CtrlrConfig_SetAMS C drv v"
| "cc_set C drv F_MPS v = CtrlrConfig_SetMPS C drv"
| "cc_set C drv F_CSS v = CtrlrConfig_SetCSS C drv v"

lemma cc_pos_ok: "field_ok (cc_pos f)"
  by (cases f) (simp_all add: field_ok_def)

lemma cc_pos_apart: "f \<noteq> g \<Longrightarrow> field_apart (cc_pos f) (cc_pos g)"
  by (cases f; cases g) (simp_all add: field_apart_def)

lemma cc_masks:
  "push_bit 20 (mask 4) = (0x00f00000 :: u32)" "push_bit 16 (mask 4) = (0x000f0000 :: u32)"
  "push_bit 14 (mask 2) = (0x0000C000 :: u32)" "push_bit 11 (mask 3) = (0x00003800 :: u32)"
  "push_bit 7 (mask 4) = (0x00000780 :: u32)" "push_bit 4 (mask 3) = (0x00000070 :: u32)"
  by (simp_all add: mask_eq_exp_minus_1)

lemma cc_get_field:
  assumes "cc_device drv cc" and "rg_ok s"
  shows "cc_get C drv f s = (Inr (True, ucast (get_field (cc_pos f) (cc (kern s)))), s)"
  by (cases f)
    (simp_all add: CtrlrConfig_GetIOCQES_def CtrlrConfig_GetIOSQES_def CtrlrConfig_GetSHN_def
      CtrlrConfig_GetAMS_def CtrlrConfig_GetMPS_def CtrlrConfig_GetCSS_def
      CtrlrConfig_GetRegValue_def bnd_apply ReadRegCC_device [OF assms]
      get_field_mask_shift [symmetric] cc_masks)

text \<open>The read-modify-write of \<open>SetRegValue\<close>, for the 64-bit mask of a field.\<close>

lemma clear_and_or:
  assumes "ucast m = push_bit sh (mask w :: u32)" and "take_bit w x = x"
  shows "ucast (ucast (r :: u32) AND NOT (m :: u64)) OR push_bit sh x = put_field (sh, w) x r"
proof (rule bit_word_eqI)
  fix n assume n: "n < LENGTH(32)"
  have "bit (ucast m :: u32) n = bit m n" using n by (simp add: bit_simps)
  then have "bit m n \<longleftrightarrow> bit (push_bit sh (mask w :: u32)) n" using assms(1) by simp
  then show "bit (ucast (ucast r AND NOT m) OR push_bit sh x) n = bit (put_field (sh, w) x r) n"
    using n assms(2) by (auto simp: put_field_def bit_simps)
qed

lemma SetRegValue_device:
  assumes dev: "cc_device drv cc" "rg_ok s" and v: "v AND NOT vm = 0"
    and m: "ucast m = push_bit sh (mask w :: u32)" and tw: "take_bit w (ucast v :: u32) = ucast v"
  shows "\<exists>d. CtrlrConfig_SetRegValue C drv v vm m sh s = (Inr True, s\<lparr>kern := d\<rparr>) \<and>
    cc d = put_field (sh, w) (ucast v) (cc (kern s))"
  using WriteRegCC_device [OF dev, of "put_field (sh, w) (ucast v) (cc (kern s))"] v
  by (simp add: CtrlrConfig_SetRegValue_def bnd_apply ReadRegCC_device [OF dev]
      clear_and_or [OF m tw])

section \<open>Properties\<close>

lemma and_not_mask_8:
  "v AND NOT (mask w :: u8) = 0 \<Longrightarrow> take_bit w (ucast v :: u32) = ucast v"
proof (rule bit_word_eqI)
  fix n assume z: "v AND NOT (mask w :: u8) = 0" and "n < LENGTH(32)"
  have "bit (v AND NOT (mask w :: u8)) n = False" using z by simp
  then show "bit (take_bit w (ucast v :: u32)) n = bit (ucast v :: u32) n"
    by (auto simp: bit_simps dest: bit_imp_le_length)
qed

lemma cc_set_field:
  assumes dev: "cc_device drv cc" "rg_ok s" and f: "f \<noteq> F_MPS"
    and v: "v AND NOT (mask (snd (cc_pos f))) = 0"
  shows "\<exists>d. cc_set C drv f v s = (Inr True, s\<lparr>kern := d\<rparr>) \<and>
    cc d = put_field (cc_pos f) (ucast v) (cc (kern s))"
proof -
  have m: "(0x0f :: u8) = mask 4" "(0x03 :: u8) = mask 2" "(0x07 :: u8) = mask 3"
    by (simp_all add: mask_eq_exp_minus_1)
  show ?thesis
    using f v
    by (cases f; simp add: CtrlrConfig_SetIOCQES_def CtrlrConfig_SetIOSQES_def
        CtrlrConfig_SetSHN_def CtrlrConfig_SetAMS_def CtrlrConfig_SetCSS_def;
        intro SetRegValue_device [OF dev])
      (simp_all add: m cc_masks and_not_mask_8)
qed

text \<open>On a device that stores its CC register, every setter of \<open>CtrlrConfig\<close> given a value that
  fits its field succeeds, the getter of the same field then reads that value back, every other
  getter reads what it read before, and nothing else in the process changes.\<close>

theorem CC_set_then_get:
  assumes dev: "cc_device drv cc" "rg_ok s" and f: "f \<noteq> F_MPS"
    and v: "v AND NOT (mask (snd (cc_pos f))) = 0"
  shows "\<exists>d. cc_set C drv f v s = (Inr True, s\<lparr>kern := d\<rparr>) \<and>
    cc_get C drv f (s\<lparr>kern := d\<rparr>) = (Inr (True, v), s\<lparr>kern := d\<rparr>) \<and>
    (\<forall>g. g \<noteq> f \<longrightarrow> fst (cc_get C drv g (s\<lparr>kern := d\<rparr>)) = fst (cc_get C drv g s))"
proof -
  obtain d where st: "cc_set C drv f v s = (Inr True, s\<lparr>kern := d\<rparr>)"
    and cc: "cc d = put_field (cc_pos f) (ucast v) (cc (kern s))"
    using cc_set_field [OF dev f v] by blast
  have ok: "rg_ok (s\<lparr>kern := d\<rparr>)" using dev(2) by (simp add: rg_ok_def)
  have "take_bit (snd (cc_pos f)) (ucast v :: u32) = ucast v"
    by (rule and_not_mask_8 [OF v])
  then have same: "get_field (cc_pos f) (cc d) = ucast v"
    unfolding cc using word_fields.rd_wr_same [OF cc_pos_ok] by blast
  have other: "get_field (cc_pos g) (cc d) = get_field (cc_pos g) (cc (kern s))" if "g \<noteq> f" for g
    unfolding cc by (rule word_fields.rd_wr_apart) (use that in \<open>auto simp: cc_pos_ok cc_pos_apart\<close>)
  have narrow: "(ucast (ucast v :: u32) :: u8) = v"
    by (rule bit_word_eqI) (auto simp: bit_simps)
  show ?thesis
    by (rule exI [of _ d])
      (simp add: st same other narrow cc_get_field [OF dev(1) ok] cc_get_field [OF dev])
qed

text \<open>A setter refuses a value wider than its field: it returns false and touches nothing.\<close>

theorem CC_set_rejects_wide_values:
  assumes "f \<noteq> F_MPS" and "v AND NOT (mask (snd (cc_pos f))) \<noteq> 0"
  shows "cc_set C drv f v s = (Inr False, s)"
proof -
  have m: "(0x0f :: u8) = mask 4" "(0x03 :: u8) = mask 2" "(0x07 :: u8) = mask 3"
    by (simp_all add: mask_eq_exp_minus_1)
  show ?thesis
    using assms
    by (cases f) (simp_all add: CtrlrConfig_SetIOCQES_def CtrlrConfig_SetIOSQES_def
        CtrlrConfig_SetSHN_def CtrlrConfig_SetAMS_def CtrlrConfig_SetCSS_def
        CtrlrConfig_SetRegValue_def m)
qed

text \<open>An example device: its state is the CC register itself.\<close>

definition cc_dnvme :: "u32 dnvme" where
  "cc_dnvme = null_dnvme\<lparr>
     io_read := (\<lambda>io buf d.
       if io_type io = NVMEIO_BAR01 \<and> io_offset io = 0x14 \<and> io_nBytes io = 4
       then (0, le32 (ucast d) @ drop 4 buf, d) else (- 1, buf, d)),
     io_write := (\<lambda>io buf d.
       if io_type io = NVMEIO_BAR01 \<and> io_offset io = 0x14 \<and> io_nBytes io = 4
       then (0, of_le32 (take 4 buf)) else (- 1, d)),
     io_device_state := (\<lambda>st d. (0, d))\<rparr>"

definition cc_state :: "u32 ctrlr" where
  "cc_state = \<lparr>kern = 0x00ffc001, mmaps = (\<lambda>_. []), rg_specRev = SPECREV_12, rg_pciCap = [],
     rg_pci = pci_table, cf_curState = ST_DISABLE_COMPLETELY, cf_firstTime = True,
     cf_deltaCheck = False\<rparr>"

lemma cc_dnvme_device: "cc_device cc_dnvme (\<lambda>d. d)"
  by (simp add: cc_device_def cc_dnvme_def)

lemma cc_state_ok: "rg_ok cc_state"
  by (simp add: rg_ok_def cc_state_def)

lemma CC_set_then_get_witness:
  "\<exists>d. cc_set ex_libc cc_dnvme F_IOSQES 6 cc_state = (Inr True, cc_state\<lparr>kern := d\<rparr>) \<and>
    cc_get ex_libc cc_dnvme F_IOSQES (cc_state\<lparr>kern := d\<rparr>) = (Inr (True, 6), cc_state\<lparr>kern := d\<rparr>) \<and>
    (\<forall>g. g \<noteq> F_IOSQES \<longrightarrow>
       fst (cc_get ex_libc cc_dnvme g (cc_state\<lparr>kern := d\<rparr>)) = fst (cc_get ex_libc cc_dnvme g cc_state))"
  by (rule CC_set_then_get [OF cc_dnvme_device cc_state_ok]) (simp_all add: mask_eq_exp_minus_1)

lemma CC_set_rejects_wide_values_witness:
  "cc_set ex_libc cc_dnvme F_SHN 4 cc_state = (Inr False, cc_state)"
  by (rule CC_set_rejects_wide_values) (simp_all add: mask_eq_exp_minus_1)

text \<open>\<open>SetState\<close> before the notification writes nothing but the driver's state.\<close>

definition only_kern :: "('d, 'm) proc_scheme \<Rightarrow> ('d, 'm) proc_scheme \<Rightarrow> bool" where
  "only_kern s t \<longleftrightarrow> t = s\<lparr>kern := kern t\<rparr>"

lemma only_kern_refl [simp]: "only_kern s s"
  by (simp add: only_kern_def)

lemma only_kern_upd [simp]: "only_kern s (s\<lparr>kern := d\<rparr>)"
  by (simp add: only_kern_def)

lemma only_kern_trans: "only_kern s t \<Longrightarrow> only_kern t u \<Longrightarrow> only_kern s u"
  unfolding only_kern_def by (metis proc.surjective proc.update_convs(1))

lemma keeps_only_kern: "keeps (only_kern s) m \<Longrightarrow> only_kern s (snd (m s))"
  by (simp add: keeps_def)

lemma ioctl1_keeps [wf_intros]: "keeps (only_kern s) (ioctl1 f)"
  by (auto simp: keeps_def ioctl1_apply split: prod.splits intro: only_kern_trans)

lemma ioctl2_keeps [wf_intros]: "keeps (only_kern s) (ioctl2 f)"
  by (auto simp: keeps_def ioctl2_apply split: prod.splits intro: only_kern_trans)

lemma Read_value_keeps [wf_intros]: "keeps (only_kern s) (Registers_Read_value drv spc n off v)"
  unfolding Registers_Read_value_def by (auto intro!: wf_intros)

lemma Write_value_keeps [wf_intros]: "keeps (only_kern s) (Registers_Write_value drv spc n off v)"
  unfolding Registers_Write_value_def by (auto intro!: wf_intros)

lemma Read_ctl_keeps [wf_intros]: "keeps (only_kern s) (Registers_Read_ctl drv reg v)"
  by (subst keeps_def) (auto simp: Registers_Read_ctl_def Let_def intro: keepsD [OF Read_value_keeps])

lemma Write_ctl_keeps [wf_intros]: "keeps (only_kern s) (Registers_Write_ctl drv reg v)"
  by (subst keeps_def) (auto simp: Registers_Write_ctl_def Let_def intro: keepsD [OF Write_value_keeps])

lemma SetMPS_keeps [wf_intros]: "keeps (only_kern s) (CtrlrConfig_SetMPS C drv)"
  unfolding CtrlrConfig_SetMPS_def CtrlrConfig_SetRegValue_def CtrlrConfig_ReadRegCC_def
    CtrlrConfig_WriteRegCC_def by (auto intro!: wf_intros split: prod.splits)

lemma IsStateEnabled_keeps [wf_intros]: "keeps (only_kern s) (CtrlrConfig_IsStateEnabled drv)"
  unfolding CtrlrConfig_IsStateEnabled_def by (auto intro!: wf_intros split: prod.splits)

lemma SetState_pre_keeps:
  "keeps (only_kern s) (case st of
      ST_ENABLE \<Rightarrow> CtrlrConfig_SetMPS C drv
    | ST_DISABLE \<Rightarrow> ret True
    | ST_DISABLE_COMPLETELY \<Rightarrow> ret True
    | ST_other _ \<Rightarrow> raise (FrmwkEx ''Illegal state detected = %d''))"
  by (cases st) (auto intro!: wf_intros)

section \<open>The contract of an observer\<close>

text \<open>
  What the subject relies on: an observer's \<open>Update\<close> keeps an invariant that depends neither on
  the driver's state nor on the subject's own members. Then no state change can break it.
\<close>

lemma keeps_frame:
  assumes "\<And>s. keeps (only_kern s) m" and "\<And>s t. only_kern s t \<Longrightarrow> I s \<Longrightarrow> I t"
  shows "keeps I m"
  using assms unfolding keeps_def by (meson only_kern_refl)

locale state_observer =
  fixes upd :: "('d, 'm) observer" and inv :: "('d, 'm) ctrlr_scheme \<Rightarrow> bool"
  assumes upd_keeps: "keeps inv (upd st)"
    and inv_kern: "only_kern s t \<Longrightarrow> inv s \<Longrightarrow> inv t"
    and inv_subject: "inv s \<Longrightarrow> inv (s\<lparr>cf_firstTime := a, cf_curState := st\<rparr>)"
      "inv s \<Longrightarrow> inv (s\<lparr>cf_firstTime := a\<rparr>)"
begin

lemma notify_keeps: "keeps inv (Subject_Notify [upd] st)"
proof (unfold keeps_def, intro allI impI)
  fix s assume "inv s"
  then have "inv (s\<lparr>cf_firstTime := False, cf_curState := st\<rparr>)" "inv (s\<lparr>cf_firstTime := False\<rparr>)"
    by (simp_all only: inv_subject)
  moreover have "keeps inv (notify_loop [upd] st)" by (auto intro!: keeps_sq upd_keeps keeps_ret)
  ultimately show "inv (snd (Subject_Notify [upd] st s))"
    using keepsD by (fastforce simp add: Subject_Notify_def Let_def simp del: notify_loop.simps)
qed

lemma SetState_keeps: "keeps inv (CtrlrConfig_SetState C drv [upd] st)"
  unfolding CtrlrConfig_SetState_def
  by (intro keeps_bnd keeps_if keeps_sq keeps_ret notify_keeps
      keeps_frame [OF SetState_pre_keeps inv_kern] keeps_frame [OF ioctl1_keeps inv_kern]
      keeps_frame [OF IsStateEnabled_keeps inv_kern])

end

section \<open>Properties of state changes\<close>

text \<open>When \<open>SetState\<close> returns true, the driver has accepted the new state, and every observer has
  been run, once and in the order of attachment, from a state that already records the new
  state and otherwise differs from the old one in the driver's state only.\<close>

theorem SetState_notifies_all:
  assumes run: "CtrlrConfig_SetState C drv obs st s = (Inr True, s')" and "\<not> cf_deltaCheck s"
  shows "\<exists>d d'. fst (io_device_state drv st d) \<ge> 0 \<and> d' = snd (io_device_state drv st d) \<and>
    notify_loop obs st (s\<lparr>kern := d', cf_firstTime := False, cf_curState := st\<rparr>) = (Inr (), s')"
proof -
  let ?pre = "case st of
      ST_ENABLE \<Rightarrow> CtrlrConfig_SetMPS C drv
    | ST_DISABLE \<Rightarrow> ret True
    | ST_DISABLE_COMPLETELY \<Rightarrow> ret True
    | ST_other _ \<Rightarrow> raise (FrmwkEx ''Illegal state detected = %d'')"
  let ?rest = "bnd (ioctl1 (io_device_state drv st)) (\<lambda>rc.
           if rc < 0 then bnd (CtrlrConfig_IsStateEnabled drv) (\<lambda>_. ret False)
           else sq (Subject_Notify obs st) (ret True))"
  obtain go u where pre: "?pre s = (Inr go, u)"
    and rest: "(if \<not> go then ret False else ?rest) u = (Inr True, s')"
    using run [unfolded CtrlrConfig_SetState_def, THEN bnd_Inr_iff [THEN iffD1]] by blast
  then have rest: "?rest u = (Inr True, s')" and pre: "?pre s = (Inr True, u)"
    by (cases go; simp)+
  have "keeps (only_kern s) ?pre" by (rule SetState_pre_keeps)
  then have "u = s\<lparr>kern := kern u\<rparr>"
    using keeps_only_kern [of s ?pre] pre by (simp add: only_kern_def)
  then obtain k where u: "u = s\<lparr>kern := k\<rparr>" by metis
  obtain rc d where io: "io_device_state drv st (kern u) = (rc, d)" by fastforce
  have "\<not> rc < 0"
    using rest io by (auto simp: bnd_apply ioctl1_apply split: prod.splits sum.splits)
  then have "Subject_Notify obs st (u\<lparr>kern := d\<rparr>) = (Inr (), s')"
    using rest io by (auto simp: bnd_apply sq_apply ioctl1_apply split: prod.splits sum.splits)
  then have "notify_loop obs st (s\<lparr>kern := d, cf_firstTime := False, cf_curState := st\<rparr>) = (Inr (), s')"
    using assms(2) by (simp add: u Subject_Notify_def Let_def)
  then show ?thesis using io \<open>\<not> rc < 0\<close> by (metis fst_conv not_less snd_conv)
qed

text \<open>When \<open>SetState\<close> returns false (the page size is unsupported, CC cannot be written, or the
  driver refuses the state), no observer has been run: the recorded state, the discovered
  capabilities and everything else outside the driver are as before.\<close>

theorem SetState_failure_notifies_none:
  assumes run: "CtrlrConfig_SetState C drv obs st s = (Inr False, s')"
  shows "s' = s\<lparr>kern := kern s'\<rparr>"
proof -
  let ?pre = "case st of
      ST_ENABLE \<Rightarrow> CtrlrConfig_SetMPS C drv
    | ST_DISABLE \<Rightarrow> ret True
    | ST_DISABLE_COMPLETELY \<Rightarrow> ret True
    | ST_other _ \<Rightarrow> raise (FrmwkEx ''Illegal state detected = %d'')"
  let ?io = "ioctl1 (io_device_state drv st)"
  have pre: "keeps (only_kern s) ?pre" by (rule SetState_pre_keeps)
  have "only_kern s s'"
  proof (cases "?pre s")
    case (Pair r u)
    have u: "only_kern s u" using keeps_only_kern [OF pre] Pair by simp
    show ?thesis
    proof (cases "r = Inr True")
      case False
      then show ?thesis
        using run Pair u
        by (auto simp: CtrlrConfig_SetState_def bnd_apply split: sum.splits if_splits)
    next
      case True
      obtain rc d where io: "io_device_state drv st (kern u) = (rc, d)" by fastforce
      then have "rc < 0"
        using run Pair True
        by (auto simp: CtrlrConfig_SetState_def bnd_apply sq_apply ioctl1_apply
            split: sum.splits prod.splits if_splits)
      then have "bnd (CtrlrConfig_IsStateEnabled drv) (\<lambda>_. ret False) (u\<lparr>kern := d\<rparr>) = (Inr False, s')"
        using run Pair True io by (simp add: CtrlrConfig_SetState_def bnd_apply ioctl1_apply)
      then have w: "only_kern (u\<lparr>kern := d\<rparr>) s'"
        using keeps_only_kern [OF IsStateEnabled_keeps, of "u\<lparr>kern := d\<rparr>" drv]
        by (auto simp: bnd_apply split: prod.splits sum.splits)
      show ?thesis by (rule only_kern_trans [OF only_kern_trans [OF u only_kern_upd] w])
    qed
  qed
  then show ?thesis by (simp add: only_kern_def)
qed

lemma SetState_notifies_all_witness:
  "\<exists>d d'. fst (io_device_state cc_dnvme ST_DISABLE d) \<ge> 0 \<and>
    d' = snd (io_device_state cc_dnvme ST_DISABLE d) \<and>
    notify_loop [] ST_DISABLE
      (cc_state\<lparr>kern := d', cf_firstTime := False, cf_curState := ST_DISABLE\<rparr>) =
    (Inr (), cc_state\<lparr>cf_firstTime := False, cf_curState := ST_DISABLE\<rparr>)"
  by (rule SetState_notifies_all [where C = undefined])
    (simp_all add: CtrlrConfig_SetState_def bnd_apply sq_apply ioctl1_apply cc_dnvme_def
      Subject_Notify_def cc_state_def Let_def)

lemma SetState_failure_notifies_none_witness:
  "cc_state = cc_state\<lparr>kern := kern cc_state\<rparr>"
  by (rule SetState_failure_notifies_none
      [where C = "\<lparr>pagesize = 8192, memfail = (\<lambda>_. False), junk = (\<lambda>_. 0), undef64 = 0\<rparr>"
         and drv = cc_dnvme and obs = "[]" and st = ST_ENABLE])
    (simp add: CtrlrConfig_SetState_def CtrlrConfig_SetMPS_def bnd_apply)

end
