(* ===== verification/Meta_Rsrc.thy ===== *)
theory Meta_Rsrc
  imports Ctrlr_Config "HOL-Library.Multiset"
begin

text \<open>
  \<open>MetaRsrc\<close> (Singletons/metaRsrc.cpp): the pool of meta data buffers. Buffers live in the driver
  under an identifier of 18 bits that user space chooses; \<open>mr_reserved\<close> holds the buffers in use,
  ordered by identifier, \<open>mr_released\<close> those given back, which are handed out again without a
  call to the driver.
\<close>

section \<open>State\<close>

record MetaDataBuf =
  mb_buf :: u64      \<comment> \<open>address of the mapping\<close>
  mb_size :: u32
  mb_ID :: u32

definition MetaDataBuf_new :: MetaDataBuf where
  "MetaDataBuf_new = \<lparr>mb_buf = 0, mb_size = 0, mb_ID = 0\<rparr>"

record 'd meta_rsrc = "'d ctrlr" +
  mr_allocSize :: u32
  mr_reserved :: "MetaDataBuf list"
  mr_released :: "MetaDataBuf list"

section \<open>Operations\<close>

definition MetaRsrc_SetMetaAllocSize ::
  "'d dnvme \<Rightarrow> u32 \<Rightarrow> (('d, 'm) meta_rsrc_scheme, bool) prog" where
  "MetaRsrc_SetMetaAllocSize drv allocSize = (\<lambda>s.
     if mr_allocSize s = allocSize then (Inr True, s\<lparr>mr_allocSize := allocSize\<rparr>)
     else if mr_allocSize s \<noteq> 0 then (Inr False, s)
     else if allocSize mod 4 \<noteq> 0 then (Inr False, s)
     else bnd (ioctl1 (io_metabuf_create drv allocSize)) (\<lambda>rc.
       if rc < 0 then ret False
       else sq (modify (\<lambda>s. s\<lparr>mr_allocSize := allocSize\<rparr>)) (ret True)) s)"

text \<open>Both insertion loops return the elements before and from the insertion point.\<close>

fun meta_place :: "u32 \<Rightarrow> MetaDataBuf list \<Rightarrow> MetaDataBuf list \<times> MetaDataBuf list" where
  "meta_place i [] = ([], [])"
| "meta_place i (b # bs) =
     (if mb_ID b > i then ([], b # bs)
      else case meta_place i bs of (pre, suf) \<Rightarrow> (b # pre, suf))"

fun meta_free_id :: "u32 \<Rightarrow> MetaDataBuf list \<Rightarrow> u32 \<times> MetaDataBuf list \<times> MetaDataBuf list" where
  "meta_free_id i [] = (i, [], [])"
| "meta_free_id i (b # bs) =
     (if mb_ID b = i
      then case meta_free_id (i + 1) bs of (j, pre, suf) \<Rightarrow> (j, b # pre, suf)
      else if mb_ID b > i then (i, [], b # bs)
      else case meta_free_id i bs of (j, pre, suf) \<Rightarrow> (j, b # pre, suf))"

text \<open>
  The reference parameter \<open>metaBuf\<close> is written before some of the throws, so the outcome (exception
  or returned flag) comes with its new value.
\<close>

definition MetaRsrc_ReserveMetaBuf ::
  "libc \<Rightarrow> 'd dnvme \<Rightarrow> MetaDataBuf \<Rightarrow> ('d, 'm) meta_rsrc_scheme
     \<Rightarrow> (ex + bool) \<times> MetaDataBuf \<times> ('d, 'm) meta_rsrc_scheme" where
  "MetaRsrc_ReserveMetaBuf C drv metaBuf0 s =
     (case mr_released s of
       r # rel \<Rightarrow>
         (case meta_place (mb_ID r) (mr_reserved s) of (pre, suf) \<Rightarrow>
           (Inr True, r, s\<lparr>mr_reserved := pre @ r # suf, mr_released := rel\<rparr>))
     | [] \<Rightarrow>
         (case meta_free_id 0 (mr_reserved s) of (i, pre, suf) \<Rightarrow>
           let metaBuf = metaBuf0\<lparr>mb_ID := i, mb_size := mr_allocSize s\<rparr> in
           if i < 2 ^ METADATA_UNIQUE_ID_BITS
           then
             (case ioctl1 (io_metabuf_alloc drv i) s of
                (Inl e, s1) \<Rightarrow> (Inl e, metaBuf, s1)
              | (Inr rc, s1) \<Rightarrow>
                  if rc < 0 then (Inl (FrmwkEx ''Meta data alloc request denied with error: %d''), metaBuf, s1)
                  else (case KernelAPI_mmap C drv (unat (mr_allocSize s)) (ucast i) MMR_META s1 of
                     (Inl e, s2) \<Rightarrow> (Inl e, metaBuf, s2)
                   | (Inr addr, s2) \<Rightarrow>
                       let metaBuf' = metaBuf\<lparr>mb_buf := addr\<rparr> in
                       if addr = 0
                       then (Inl (FrmwkEx []), metaBuf', snd (ioctl1 (io_metabuf_delete drv i) s2))
                       else (Inr True, metaBuf', s2\<lparr>mr_reserved := pre @ metaBuf' # suf\<rparr>)))
           else (Inr False, metaBuf, s)))"

fun meta_release :: "u32 \<Rightarrow> MetaDataBuf list \<Rightarrow> MetaDataBuf list \<Rightarrow> MetaDataBuf list \<times> MetaDataBuf list" where
  "meta_release i [] rel = ([], rel)"
| "meta_release i (b # bs) rel =
     (if mb_ID b = i then (bs, rel @ [b])
      else case meta_release i bs rel of (res, rel') \<Rightarrow> (b # res, rel'))"

definition meta_release_buf ::
  "MetaDataBuf \<Rightarrow> MetaDataBuf list \<Rightarrow> MetaDataBuf list \<Rightarrow> MetaDataBuf list \<times> MetaDataBuf list" where
  "meta_release_buf metaBuf res rel =
     (if metaBuf = MetaDataBuf_new then (res, rel) else meta_release (mb_ID metaBuf) res rel)"

definition MetaRsrc_ReleaseMetaBuf :: "MetaDataBuf \<Rightarrow> (('d, 'm) meta_rsrc_scheme, unit) prog" where
  "MetaRsrc_ReleaseMetaBuf metaBuf = modify (\<lambda>s.
     case meta_release_buf metaBuf (mr_reserved s) (mr_released s) of
       (res, rel) \<Rightarrow> s\<lparr>mr_reserved := res, mr_released := rel\<rparr>)"

text \<open>
  The first loop of \<open>FreeAllMetaBuf\<close> releases the first reserved buffer until none is left; it
  would not end on a default-constructed entry, which \<open>ReleaseMetaBuf\<close> ignores.
\<close>

partial_function (option) free_reserved ::
  "MetaDataBuf list \<Rightarrow> MetaDataBuf list \<Rightarrow> (MetaDataBuf list \<times> MetaDataBuf list) option" where
  "free_reserved res rel =
     (case res of
        [] \<Rightarrow> Some ([], rel)
      | b # _ \<Rightarrow>
          (case meta_release_buf b res rel of (res', rel') \<Rightarrow> free_reserved res' rel'))"

declare free_reserved.simps [code]

text \<open>The second loop takes the released buffers from the back; its argument is their reverse.\<close>

fun free_released :: "'d dnvme \<Rightarrow> MetaDataBuf list \<Rightarrow> (('d, 'm) meta_rsrc_scheme, unit) prog" where
  "free_released drv [] = ret ()"
| "free_released drv (tmp # bs) =
     sq (modify (\<lambda>s. s\<lparr>mr_released := rev bs\<rparr>))
     (sq (KernelAPI_munmap drv (mb_buf tmp) (unat (mb_size tmp)))
     (bnd (ioctl1 (io_metabuf_delete drv (mb_ID tmp))) (\<lambda>_. free_released drv bs)))"

definition MetaRsrc_FreeAllMetaBuf :: "'d dnvme \<Rightarrow> (('d, 'm) meta_rsrc_scheme, unit) prog" where
  "MetaRsrc_FreeAllMetaBuf drv = (\<lambda>s.
     case free_reserved (mr_reserved s) (mr_released s) of
       None \<Rightarrow> (Inl Diverges, s)
     | Some (res, rel) \<Rightarrow>
         sq (modify (\<lambda>s. s\<lparr>mr_reserved := res, mr_released := rel\<rparr>))
         (sq (free_released drv (rev rel))
         (sq (modify (\<lambda>s. s\<lparr>mr_allocSize := 0\<rparr>))
         (\<lambda>s. if mr_reserved s \<noteq> [] \<or> mr_released s \<noteq> []
              then (Inl (FrmwkEx ''Internal program error: meta list not empty''), s)
              else (Inr (), s)))) s)"

section \<open>The invariant of the pool\<close>

text \<open>
  The buffers in use are strictly ordered by identifier, no identifier is both in use and
  released, identifiers fit the 18 bits of the driver's interface, and every buffer is mapped.
\<close>

definition meta_lists_ok :: "MetaDataBuf list \<Rightarrow> MetaDataBuf list \<Rightarrow> bool" where
  "meta_lists_ok res rel \<longleftrightarrow>
     sorted_wrt (\<lambda>a b. mb_ID a < mb_ID b) res \<and>
     distinct (map mb_ID (res @ rel)) \<and>
     (\<forall>b \<in> set (res @ rel). mb_ID b < 2 ^ METADATA_UNIQUE_ID_BITS \<and> mb_buf b \<noteq> 0)"

definition meta_inv :: "('d, 'm) meta_rsrc_scheme \<Rightarrow> bool" where
  "meta_inv s \<longleftrightarrow> meta_lists_ok (mr_reserved s) (mr_released s)"

section \<open>The insertion loops\<close>

lemma meta_place_split:
  "meta_place i bs = (pre, suf) \<Longrightarrow> bs = pre @ suf"
  by (induction bs arbitrary: pre) (auto split: if_splits prod.splits)

lemma meta_place_pre:
  "meta_place i bs = (pre, suf) \<Longrightarrow> \<forall>b \<in> set pre. mb_ID b \<le> i"
  by (induction bs arbitrary: pre) (auto split: if_splits prod.splits)

lemma meta_place_suf:
  "meta_place i bs = (pre, suf) \<Longrightarrow> sorted_wrt (\<lambda>a b. mb_ID a < mb_ID b) bs \<Longrightarrow>
     \<forall>b \<in> set suf. i < mb_ID b"
  by (induction bs arbitrary: pre) (force split: if_splits prod.splits)+

lemma meta_free_id_split:
  "meta_free_id i bs = (j, pre, suf) \<Longrightarrow> bs = pre @ suf"
  by (induction i bs arbitrary: j pre rule: meta_free_id.induct)
    (auto split: if_splits prod.splits)

text \<open>The identifier found is the smallest one from \<open>i\<close> on that is not in use.\<close>

lemma meta_free_id_spec:
  assumes "meta_free_id i bs = (j, pre, suf)" and "sorted_wrt (\<lambda>a b. mb_ID a < mb_ID b) bs"
    and "\<forall>b \<in> set bs. i \<le> mb_ID b" and "\<forall>b \<in> set bs. mb_ID b < 2 ^ METADATA_UNIQUE_ID_BITS"
    and "i \<le> 2 ^ METADATA_UNIQUE_ID_BITS"
  shows "i \<le> j \<and> j \<le> 2 ^ METADATA_UNIQUE_ID_BITS \<and> (\<forall>b \<in> set pre. mb_ID b < j) \<and>
    (\<forall>b \<in> set suf. j < mb_ID b) \<and> (\<forall>k. i \<le> k \<and> k < j \<longrightarrow> k \<in> mb_ID ` set bs)"
  using assms
proof (induction i bs arbitrary: j pre rule: meta_free_id.induct)
  case (1 i)
  then show ?case by auto
next
  case (2 i b bs)
  show ?case
  proof (cases "mb_ID b = i")
    case True
    then obtain pre' where rec: "meta_free_id (i + 1) bs = (j, pre', suf)" and pre: "pre = b # pre'"
      using 2(3) by (auto split: prod.splits)
    have small: "i < 2 ^ METADATA_UNIQUE_ID_BITS" using 2(6) True by auto
    then have inc: "i < i + 1" and up: "i + 1 \<le> 2 ^ METADATA_UNIQUE_ID_BITS"
      by (auto simp: METADATA_UNIQUE_ID_BITS_def word_less_nat_alt word_le_nat_alt unat_word_ariths)
    have "\<forall>c \<in> set bs. i + 1 \<le> mb_ID c"
      using 2(4) True by (auto simp: inc_le)
    with 2(1) [OF True rec] 2(4,6) up
    have IH: "i + 1 \<le> j" "j \<le> 2 ^ METADATA_UNIQUE_ID_BITS" "\<forall>b \<in> set pre'. mb_ID b < j"
        "\<forall>b \<in> set suf. j < mb_ID b" "\<forall>k. i + 1 \<le> k \<and> k < j \<longrightarrow> k \<in> mb_ID ` set bs"
      by auto
    moreover have "k \<in> mb_ID ` set (b # bs)" if "i \<le> k" "k < j" for k
    proof (cases "k = i")
      case False
      then have "i + 1 \<le> k" using that(1) by (simp add: inc_le)
      then show ?thesis using IH(5) that(2) by auto
    qed (use True in simp)
    ultimately show ?thesis using inc True pre by auto
  next
    case False
    then have "i < mb_ID b" using 2(5) by auto
    then show ?thesis using 2(3,4,7) False by (fastforce dest: order.strict_trans)
  qed
qed

section \<open>Every operation keeps the invariant\<close>

lemma meta_lists_insert:
  assumes "meta_lists_ok (pre @ suf) rel" and "mb_buf b \<noteq> 0"
    and "mb_ID b < 2 ^ METADATA_UNIQUE_ID_BITS" and "mb_ID b \<notin> mb_ID ` set rel"
    and "\<forall>c \<in> set pre. mb_ID c < mb_ID b" and "\<forall>c \<in> set suf. mb_ID b < mb_ID c"
  shows "meta_lists_ok (pre @ b # suf) rel"
  using assms by (auto simp: meta_lists_ok_def sorted_wrt_append)

lemma meta_lists_reuse:
  assumes ok: "meta_lists_ok res (r # rel)" and pl: "meta_place (mb_ID r) res = (pre, suf)"
  shows "meta_lists_ok (pre @ r # suf) rel"
proof (rule meta_lists_insert)
  have res: "res = pre @ suf" by (rule meta_place_split [OF pl])
  show "meta_lists_ok (pre @ suf) rel" using ok res by (auto simp: meta_lists_ok_def)
  show "\<forall>c \<in> set suf. mb_ID r < mb_ID c"
    using meta_place_suf [OF pl] ok by (simp add: meta_lists_ok_def)
  have "mb_ID r \<notin> mb_ID ` set pre" using ok res by (auto simp: meta_lists_ok_def)
  then show "\<forall>c \<in> set pre. mb_ID c < mb_ID r"
    using meta_place_pre [OF pl] by (metis image_eqI order_le_less)
qed (use ok in \<open>auto simp: meta_lists_ok_def\<close>)

lemma meta_lists_fresh:
  assumes ok: "meta_lists_ok res []" and find: "meta_free_id 0 res = (i, pre, suf)"
  shows "i \<le> 2 ^ METADATA_UNIQUE_ID_BITS"
    and "\<forall>b \<in> set pre. mb_ID b < i" and "\<forall>b \<in> set suf. i < mb_ID b"
    and "\<forall>k < i. k \<in> mb_ID ` set res" and "i \<notin> mb_ID ` set res" and "res = pre @ suf"
proof -
  have "sorted_wrt (\<lambda>a b. mb_ID a < mb_ID b) res"
    and "\<forall>b \<in> set res. mb_ID b < 2 ^ METADATA_UNIQUE_ID_BITS"
    using ok by (simp_all add: meta_lists_ok_def)
  then show "i \<le> 2 ^ METADATA_UNIQUE_ID_BITS" "\<forall>b \<in> set pre. mb_ID b < i"
      "\<forall>b \<in> set suf. i < mb_ID b" "\<forall>k < i. k \<in> mb_ID ` set res"
    using meta_free_id_spec [OF find] by auto
  then show "i \<notin> mb_ID ` set res" "res = pre @ suf"
    using meta_free_id_split [OF find] by auto
qed

lemma meta_release_mset:
  "meta_release i res rel = (res', rel') \<Longrightarrow> mset (res' @ rel') = mset (res @ rel)"
  by (induction i res rel arbitrary: res' rel' rule: meta_release.induct)
    (auto split: if_splits prod.splits)

lemma meta_release_set: "meta_release i res rel = (res', rel') \<Longrightarrow> set res' \<subseteq> set res"
  by (induction i res rel arbitrary: res' rel' rule: meta_release.induct)
    (auto split: if_splits prod.splits)

lemma meta_release_sorted:
  "meta_release i res rel = (res', rel') \<Longrightarrow> sorted_wrt P res \<Longrightarrow> sorted_wrt P res'"
  by (induction i res rel arbitrary: res' rel' rule: meta_release.induct)
    (fastforce split: if_splits prod.splits dest: meta_release_set [THEN subsetD])+

lemma meta_release_ok:
  assumes "meta_lists_ok res rel" and "meta_release i res rel = (res', rel')"
  shows "meta_lists_ok res' rel'"
proof -
  have m: "mset (res' @ rel') = mset (res @ rel)" by (rule meta_release_mset [OF assms(2)])
  have "mset (map mb_ID (res' @ rel')) = mset (map mb_ID (res @ rel))"
    using m by (simp only: mset_map)
  then have "distinct (map mb_ID (res' @ rel'))"
    using assms(1) mset_eq_imp_distinct_iff unfolding meta_lists_ok_def by blast
  then show ?thesis
    using assms(1) mset_eq_setD [OF m] meta_release_sorted [OF assms(2)]
    unfolding meta_lists_ok_def by (metis (no_types, lifting))
qed

lemma ioctl1_meta [simp]: "snd (ioctl1 f s) = s\<lparr>kern := snd (f (kern s))\<rparr>"
  by (simp add: ioctl1_apply split: prod.splits)

text \<open>The two ways a reservation succeeds.\<close>

lemma Reserve_True:
  assumes "MetaRsrc_ReserveMetaBuf C drv m s = (Inr True, b, s')"
  shows "(\<exists>rel pre suf. mr_released s = b # rel \<and>
       meta_place (mb_ID b) (mr_reserved s) = (pre, suf) \<and>
       mr_reserved s' = pre @ b # suf \<and> mr_released s' = rel) \<or>
     (\<exists>pre suf. mr_released s = [] \<and> meta_free_id 0 (mr_reserved s) = (mb_ID b, pre, suf) \<and>
       mb_ID b < 2 ^ METADATA_UNIQUE_ID_BITS \<and> mb_buf b \<noteq> 0 \<and> mb_size b = mr_allocSize s \<and>
       mr_reserved s' = pre @ b # suf \<and> mr_released s' = [])"
proof (cases "mr_released s")
  case (Cons r rel)
  then show ?thesis
    using assms by (auto simp: MetaRsrc_ReserveMetaBuf_def split: prod.splits)
next
  case Nil
  obtain i pre suf where find: "meta_free_id 0 (mr_reserved s) = (i, pre, suf)"
    by (cases "meta_free_id 0 (mr_reserved s)") auto
  then show ?thesis
    using assms Nil
    by (auto simp: MetaRsrc_ReserveMetaBuf_def KernelAPI_mmap_def sq_apply ioctl1_apply
        Let_def split: prod.splits if_splits)
qed

text \<open>Every other outcome leaves both lists alone.\<close>

lemma Reserve_not_True:
  assumes "MetaRsrc_ReserveMetaBuf C drv m s = (r, b, s')" and "r \<noteq> Inr True"
  shows "mr_reserved s' = mr_reserved s \<and> mr_released s' = mr_released s"
proof (cases "mr_released s")
  case (Cons x rel)
  then show ?thesis
    using assms by (auto simp: MetaRsrc_ReserveMetaBuf_def split: prod.splits)
next
  case Nil
  obtain i pre suf where find: "meta_free_id 0 (mr_reserved s) = (i, pre, suf)"
    by (cases "meta_free_id 0 (mr_reserved s)") auto
  then show ?thesis
    using assms Nil
    by (auto simp: MetaRsrc_ReserveMetaBuf_def KernelAPI_mmap_def sq_apply ioctl1_apply
        Let_def split: prod.splits if_splits)
qed

lemma Reserve_keeps_lists:
  assumes "meta_inv s" and run: "MetaRsrc_ReserveMetaBuf C drv m s = (r, b, s')"
  shows "meta_inv s'"
proof (cases "r = Inr True")
  case False
  then show ?thesis using Reserve_not_True [OF run] assms(1) by (auto simp: meta_inv_def)
next
  case True
  then have "MetaRsrc_ReserveMetaBuf C drv m s = (Inr True, b, s')" using run by blast
  from Reserve_True [OF this] show ?thesis
  proof (elim disjE exE conjE)
    fix rel pre suf
    assume "mr_released s = b # rel" "meta_place (mb_ID b) (mr_reserved s) = (pre, suf)"
      "mr_reserved s' = pre @ b # suf" "mr_released s' = rel"
    then show ?thesis using assms(1) meta_lists_reuse by (simp add: meta_inv_def)
  next
    fix pre suf
    assume *: "mr_released s = []" "meta_free_id 0 (mr_reserved s) = (mb_ID b, pre, suf)"
      "mb_ID b < 2 ^ METADATA_UNIQUE_ID_BITS" "mb_buf b \<noteq> 0"
      "mr_reserved s' = pre @ b # suf" "mr_released s' = []"
    then have ok: "meta_lists_ok (mr_reserved s) []" using assms(1) by (simp add: meta_inv_def)
    show ?thesis
      unfolding meta_inv_def *(5,6)
      by (rule meta_lists_insert)
        (use * ok meta_lists_fresh [OF ok *(2)] in auto)
  qed
qed

lemma ReleaseMetaBuf_keeps [wf_intros]: "keeps meta_inv (MetaRsrc_ReleaseMetaBuf b)"
  unfolding MetaRsrc_ReleaseMetaBuf_def
  by (rule keeps_modify)
    (auto simp: meta_inv_def meta_release_buf_def split: prod.splits dest: meta_release_ok)

lemma SetMetaAllocSize_keeps [wf_intros]: "keeps meta_inv (MetaRsrc_SetMetaAllocSize drv n)"
  by (auto simp: keeps_def MetaRsrc_SetMetaAllocSize_def meta_inv_def bnd_apply sq_apply
      ioctl1_apply split: prod.splits sum.splits if_splits)

section \<open>Freeing everything\<close>

text \<open>Releasing the first buffer of the list takes it off the list.\<close>

lemma meta_release_buf_hd:
  "b \<noteq> MetaDataBuf_new \<Longrightarrow> meta_release_buf b (b # bs) rel = (bs, rel @ [b])"
  by (simp add: meta_release_buf_def)

lemma free_reserved_all:
  "MetaDataBuf_new \<notin> set res \<Longrightarrow> free_reserved res rel = Some ([], rel @ res)"
proof (induction res arbitrary: rel)
  case Nil
  then show ?case by (subst free_reserved.simps) simp
next
  case (Cons b bs)
  then show ?case by (subst free_reserved.simps) (auto simp: meta_release_buf_hd)
qed

text \<open>The calls that give one buffer back to the driver.\<close>

definition drop_buf :: "'d dnvme \<Rightarrow> MetaDataBuf \<Rightarrow> 'd \<Rightarrow> 'd" where
  "drop_buf drv b d =
     snd (io_metabuf_delete drv (mb_ID b) (io_munmap drv (mb_buf b) (unat (mb_size b)) d))"

lemma free_released_run:
  "mr_released s = rev bs \<Longrightarrow>
     free_released drv bs s = (Inr (), s\<lparr>mr_released := [], kern := fold (drop_buf drv) bs (kern s)\<rparr>)"
proof (induction bs arbitrary: s)
  case Nil
  then show ?case by (cases s) simp
next
  case (Cons b bs)
  show ?case
    by (simp add: sq_apply bnd_apply ioctl1_apply KernelAPI_munmap_def Cons.IH drop_buf_def
        split: prod.splits)
qed

lemma FreeAllMetaBuf_run:
  assumes "meta_inv s"
  shows "MetaRsrc_FreeAllMetaBuf drv s =
    (Inr (), s\<lparr>mr_reserved := [], mr_released := [], mr_allocSize := 0,
       kern := fold (drop_buf drv) (rev (mr_released s @ mr_reserved s)) (kern s)\<rparr>)"
proof -
  have "MetaDataBuf_new \<notin> set (mr_reserved s)"
    using assms unfolding meta_inv_def meta_lists_ok_def
    by (metis MetaDataBuf.select_convs(1) MetaDataBuf_new_def Un_iff set_append)
  then show ?thesis
    by (simp add: MetaRsrc_FreeAllMetaBuf_def free_reserved_all sq_apply free_released_run
        del: rev_append)
qed

lemma meta_lists_empty [simp]: "meta_lists_ok [] []"
  by (simp add: meta_lists_ok_def)

lemma FreeAllMetaBuf_keeps [wf_intros]: "keeps meta_inv (MetaRsrc_FreeAllMetaBuf drv)"
  by (simp add: keeps_def FreeAllMetaBuf_run meta_inv_def [of "_\<lparr>mr_allocSize := _\<rparr>"]
      meta_inv_def [of "_\<lparr>kern := _\<rparr>"])

section \<open>Properties\<close>

text \<open>C6: A reservation that succeeds hands out a buffer whose identifier nobody is using, fits the
  driver's 18 bits and, when it had to be allocated, is the smallest free one; the buffer joins the
  buffers in use, and the pool's invariant is kept.\<close>

theorem ReserveMetaBuf_unique:
  assumes inv: "meta_inv s" and run: "MetaRsrc_ReserveMetaBuf C drv m s = (Inr True, b, s')"
  shows "mb_ID b \<notin> mb_ID ` set (mr_reserved s) \<and> mb_ID b < 2 ^ METADATA_UNIQUE_ID_BITS \<and>
    set (mr_reserved s') = insert b (set (mr_reserved s)) \<and> b \<notin> set (mr_released s') \<and>
    (mr_released s = [] \<longrightarrow> (\<forall>i < mb_ID b. i \<in> mb_ID ` set (mr_reserved s))) \<and> meta_inv s'"
  using Reserve_True [OF run]
proof (elim disjE exE conjE)
  fix rel pre suf
  assume *: "mr_released s = b # rel" "meta_place (mb_ID b) (mr_reserved s) = (pre, suf)"
    "mr_reserved s' = pre @ b # suf" "mr_released s' = rel"
  have "mr_reserved s = pre @ suf" by (rule meta_place_split [OF *(2)])
  then show ?thesis
    using inv * Reserve_keeps_lists [OF inv run] by (auto simp: meta_inv_def meta_lists_ok_def)
next
  fix pre suf
  assume *: "mr_released s = []" "meta_free_id 0 (mr_reserved s) = (mb_ID b, pre, suf)"
    "mb_ID b < 2 ^ METADATA_UNIQUE_ID_BITS"
    "mr_reserved s' = pre @ b # suf" "mr_released s' = []"
  then have ok: "meta_lists_ok (mr_reserved s) []" using inv by (simp add: meta_inv_def)
  show ?thesis
    using * meta_lists_fresh [OF ok *(2)] Reserve_keeps_lists [OF inv run] by auto
qed

text \<open>A reservation returns false only when all \<open>2 ^ 18\<close> identifiers are in use; nothing changes then.\<close>

theorem ReserveMetaBuf_exhausted:
  assumes inv: "meta_inv s" and run: "MetaRsrc_ReserveMetaBuf C drv m s = (Inr False, b, s')"
  shows "s' = s \<and> mr_released s = [] \<and> (\<forall>i < 2 ^ METADATA_UNIQUE_ID_BITS. i \<in> mb_ID ` set (mr_reserved s))"
proof -
  obtain i pre suf where find: "meta_free_id 0 (mr_reserved s) = (i, pre, suf)"
    by (cases "meta_free_id 0 (mr_reserved s)") auto
  have *: "mr_released s = []" "\<not> i < 2 ^ METADATA_UNIQUE_ID_BITS" "s' = s"
    using run find
    by (auto simp: MetaRsrc_ReserveMetaBuf_def KernelAPI_mmap_def bnd_apply sq_apply ioctl1_apply
        Let_def split: prod.splits if_splits list.splits)
  then have "meta_lists_ok (mr_reserved s) []" using inv by (simp add: meta_inv_def)
  from meta_lists_fresh [OF this find] * show ?thesis by auto
qed

text \<open>\<open>FreeAllMetaBuf\<close> ends without throwing: every buffer, in use or released, is unmapped and deleted
  in the driver exactly once, and the pool is empty with no allocation size set.\<close>

theorem FreeAllMetaBuf_frees_all:
  assumes "meta_inv s"
  shows "MetaRsrc_FreeAllMetaBuf drv s =
    (Inr (), s\<lparr>mr_reserved := [], mr_released := [], mr_allocSize := 0,
       kern := fold (\<lambda>b d. snd (io_metabuf_delete drv (mb_ID b)
                  (io_munmap drv (mb_buf b) (unat (mb_size b)) d)))
                (rev (mr_released s @ mr_reserved s)) (kern s)\<rparr>)"
  using FreeAllMetaBuf_run [OF assms, of drv] unfolding drop_buf_def [abs_def] .

text \<open>Buffers whose identifiers differ by \<open>2 ^ 16\<close> are mapped at the same offset of the driver's file: the
  16-bit parameter of \<open>KernelAPI::mmap\<close> cuts the 18-bit identifier.\<close>

theorem meta_mmap_aliases:
  "mmap_offset C (ucast (i + 0x10000 :: u32)) MMR_META = mmap_offset C (ucast i) MMR_META"
proof -
  have "(ucast (i + 0x10000 :: u32) :: u16) = ucast i"
    by transfer (simp add: take_bit_take_bit take_bit_eq_mod mod_mod_cancel)
  then show ?thesis by simp
qed

text \<open>An example: a driver that accepts every request and maps at \<open>0x7000\<close>; identifier 0 in use.\<close>

definition meta_dnvme :: "nat dnvme" where
  "meta_dnvme = null_dnvme\<lparr>io_metabuf_create := (\<lambda>n d. (0, d)),
     io_metabuf_alloc := (\<lambda>i d. (0, d + 1)), io_metabuf_delete := (\<lambda>i d. (0, d - 1)),
     io_mmap := (\<lambda>len w off d. (0x7000, replicate len 0, d))\<rparr>"

definition meta_state :: "nat \<Rightarrow> MetaDataBuf list \<Rightarrow> MetaDataBuf list \<Rightarrow> nat meta_rsrc" where
  "meta_state n res rel =
     \<lparr>kern = n, mmaps = (\<lambda>_. []), rg_specRev = SPECREV_12, rg_pciCap = [], rg_pci = pci_table,
      cf_curState = ST_DISABLE_COMPLETELY, cf_firstTime = True, cf_deltaCheck = False,
      mr_allocSize = 64, mr_reserved = res, mr_released = rel\<rparr>"

definition ex_buf :: "u32 \<Rightarrow> MetaDataBuf" where
  "ex_buf i = \<lparr>mb_buf = 0x7000, mb_size = 64, mb_ID = i\<rparr>"

lemma ReserveMetaBuf_unique_witness:
  "let s = meta_state 1 [ex_buf 0] [];
       s' = meta_state 2 [ex_buf 0, ex_buf 1] []\<lparr>mmaps := (\<lambda>_. [])(0x7000 := replicate 64 0)\<rparr> in
   mb_ID (ex_buf 1) \<notin> mb_ID ` set (mr_reserved s) \<and> mb_ID (ex_buf 1) < 2 ^ METADATA_UNIQUE_ID_BITS \<and>
   set (mr_reserved s') = insert (ex_buf 1) (set (mr_reserved s)) \<and> ex_buf 1 \<notin> set (mr_released s') \<and>
   (mr_released s = [] \<longrightarrow> (\<forall>i < mb_ID (ex_buf 1). i \<in> mb_ID ` set (mr_reserved s))) \<and> meta_inv s'"
  unfolding Let_def
  by (rule ReserveMetaBuf_unique [where C = ex_libc and drv = meta_dnvme and m = MetaDataBuf_new])
    (simp_all add: meta_inv_def meta_lists_ok_def meta_state_def ex_buf_def meta_dnvme_def
      METADATA_UNIQUE_ID_BITS_def MetaRsrc_ReserveMetaBuf_def bnd_apply sq_apply ioctl1_apply
      KernelAPI_mmap_def MetaDataBuf_new_def null_dnvme_def ex_libc_def Let_def)

text \<open>All identifiers in use.\<close>

definition full_bufs :: "nat \<Rightarrow> nat \<Rightarrow> MetaDataBuf list" where
  "full_bufs i k = map (\<lambda>j. ex_buf (of_nat j)) [i..<i + k]"

lemma full_bufs_Suc: "full_bufs i (Suc k) = ex_buf (of_nat i) # full_bufs (Suc i) k"
  unfolding full_bufs_def by (subst upt_conv_Cons) simp_all

lemma meta_free_id_full:
  "meta_free_id (of_nat i) (full_bufs i k) = (of_nat (i + k), full_bufs i k, [])"
proof (induction k arbitrary: i)
  case 0
  then show ?case by (simp add: full_bufs_def)
next
  case (Suc k)
  have "(of_nat i :: u32) + 1 = of_nat (Suc i)" by simp
  then show ?case using Suc [of "Suc i"] by (simp add: full_bufs_Suc ex_buf_def del: of_nat_Suc)
qed

lemma of_nat_u32_less: "i < j \<Longrightarrow> j \<le> 2 ^ 18 \<Longrightarrow> (of_nat i :: u32) < of_nat j"
  by (simp add: word_less_nat_alt unat_of_nat)

lemma full_sorted: "k \<le> 2 ^ 18 \<Longrightarrow> sorted_wrt (\<lambda>a b. mb_ID a < mb_ID b) (full_bufs 0 k)"
  unfolding full_bufs_def sorted_wrt_map
  by (rule sorted_wrt_mono_rel [OF _ sorted_wrt_upt]) (simp add: ex_buf_def of_nat_u32_less)

lemma full_ok: "meta_inv (meta_state 0 (full_bufs 0 (2 ^ 18)) [])"
proof -
  have s: "sorted_wrt (\<lambda>a b. mb_ID a < mb_ID b) (full_bufs 0 (2 ^ 18))"
    by (rule full_sorted) simp
  then have "sorted_wrt (<) (map mb_ID (full_bufs 0 (2 ^ 18)))" by (simp add: sorted_wrt_map)
  then have "distinct (map mb_ID (full_bufs 0 (2 ^ 18)))" by (simp add: strict_sorted_iff)
  moreover have "mb_ID b < 2 ^ 18" if "b \<in> set (full_bufs 0 (2 ^ 18))" for b
    using that of_nat_u32_less [of _ "2 ^ 18"] by (auto simp: full_bufs_def ex_buf_def)
  ultimately show ?thesis
    using s by (auto simp: meta_inv_def meta_lists_ok_def meta_state_def METADATA_UNIQUE_ID_BITS_def
        full_bufs_def ex_buf_def)
qed

lemma ReserveMetaBuf_exhausted_witness:
  "let s = meta_state 0 (full_bufs 0 (2 ^ 18)) [] in
   s = s \<and> mr_released s = [] \<and> (\<forall>i < 2 ^ METADATA_UNIQUE_ID_BITS. i \<in> mb_ID ` set (mr_reserved s))"
  unfolding Let_def
proof (rule ReserveMetaBuf_exhausted [OF full_ok, where C = ex_libc and drv = meta_dnvme and
      m = MetaDataBuf_new and b = "\<lparr>mb_buf = 0, mb_size = 64, mb_ID = 2 ^ 18\<rparr>"])
  show "MetaRsrc_ReserveMetaBuf ex_libc meta_dnvme MetaDataBuf_new (meta_state 0 (full_bufs 0 (2 ^ 18)) []) =
      (Inr False, \<lparr>mb_buf = 0, mb_size = 64, mb_ID = 2 ^ 18\<rparr>, meta_state 0 (full_bufs 0 (2 ^ 18)) [])"
    using meta_free_id_full [of 0 "2 ^ 18"]
    by (simp add: MetaRsrc_ReserveMetaBuf_def meta_state_def METADATA_UNIQUE_ID_BITS_def
        MetaDataBuf_new_def Let_def)
qed

lemma FreeAllMetaBuf_frees_all_witness:
  "MetaRsrc_FreeAllMetaBuf meta_dnvme (meta_state 3 [ex_buf 0, ex_buf 2] [ex_buf 1]) =
    (Inr (), (meta_state 3 [ex_buf 0, ex_buf 2] [ex_buf 1])
      \<lparr>mr_reserved := [], mr_released := [], mr_allocSize := 0, kern := 0\<rparr>)"
proof -
  have "meta_inv (meta_state 3 [ex_buf 0, ex_buf 2] [ex_buf 1])"
    by (simp add: meta_inv_def meta_lists_ok_def meta_state_def ex_buf_def METADATA_UNIQUE_ID_BITS_def)
  from FreeAllMetaBuf_frees_all [OF this, of meta_dnvme] show ?thesis
    by (simp add: meta_state_def meta_dnvme_def null_dnvme_def)
qed

end
