(* ===== verification/Obj_Rsrc.thy ===== *)
theory Obj_Rsrc
  imports Meta_Rsrc "HOL-Library.List_Lexorder" "HOL-Library.Char_ord"
begin

text \<open>
  \<open>ObjRsrc\<close> (Singletons/objRsrc.cpp), the registry of named objects with group lifetime, and
  \<open>RsrcMngr\<close> (Singletons/rsrcMngr.cpp), which joins it with \<open>MetaRsrc\<close> and frees the resources
  when the controller is disabled. A tracked object is its type and the identity of the heap
  object; the registry is a \<open>std::map\<close>, here an association list in the order of its keys.
\<close>

section \<open>Trackable objects (trackable.cpp)\<close>

datatype ObjType =
    OBJ_MEMBUFFER | OBJ_ACQ | OBJ_ASQ | OBJ_IOCQ | OBJ_IOSQ | OBJ_ADMINCMD | OBJ_IDENTIFY
  | OBJ_CREATEIOCQ | OBJ_CREATEIOSQ | OBJ_DELETEIOCQ | OBJ_DELETEIOSQ | OBJ_GETFEATURES
  | OBJ_SETFEATURES | OBJ_GETLOGPAGE | OBJ_FWACTIVATE | OBJ_FWIMGDNLD | OBJ_FORMATNVM
  | OBJ_ASYNCEVENTREQ | OBJ_SECURITYSEND | OBJ_SECURITYRCV | OBJ_NVMCMD | OBJ_WRITE | OBJ_READ
  | OBJ_FLUSH | OBJ_DATASETMGMT | OBJ_WRITEZEROES | OBJ_RESERVATIONREGISTER
  | OBJ_RESERVATIONREPORT | OBJ_RESERVATIONACQUIRE | OBJ_RESERVATIONRELEASE
  | OBJ_NAMESPACEATTACH | OBJ_NAMESPACEMANAGEMENT | OBJTYPE_FENCE

fun Trackable_GetObjName :: "ObjType \<Rightarrow> ex + string" where
  "Trackable_GetObjName OBJ_MEMBUFFER = Inr ''MemBuffer''"
| "Trackable_GetObjName OBJ_ACQ = Inr ''ACQ''"
| "Trackable_GetObjName OBJ_ASQ = Inr ''ASQ''"
| "Trackable_GetObjName OBJ_IOCQ = Inr ''IOCQ''"
| "Trackable_GetObjName OBJ_IOSQ = Inr ''IOSQ''"
| "Trackable_GetObjName OBJ_ADMINCMD = Inr ''AdminCmd''"
| "Trackable_GetObjName OBJ_IDENTIFY = Inr ''Identify''"
| "Trackable_GetObjName OBJ_CREATEIOCQ = Inr ''CreateIOCQ''"
| "Trackable_GetObjName OBJ_CREATEIOSQ = Inr ''CreateIOSQ''"
| "Trackable_GetObjName OBJ_DELETEIOCQ = Inr ''DeleteIOCQ''"
| "Trackable_GetObjName OBJ_DELETEIOSQ = Inr ''DeleteIOSQ''"
| "Trackable_GetObjName OBJ_GETFEATURES = Inr ''GetFeatures''"
| "Trackable_GetObjName OBJ_SETFEATURES = Inr ''SetFeatures''"
| "Trackable_GetObjName OBJ_GETLOGPAGE = Inr ''GetLogPage''"
| "Trackable_GetObjName OBJ_FWACTIVATE = Inr ''FwActivate''"
| "Trackable_GetObjName OBJ_FWIMGDNLD = Inr ''FwImgDnld''"
| "Trackable_GetObjName OBJ_FORMATNVM = Inr ''FormatNVM''"
| "Trackable_GetObjName OBJ_ASYNCEVENTREQ = Inr ''AsyncEventReq''"
| "Trackable_GetObjName OBJ_SECURITYSEND = Inr ''SecuritySend''"
| "Trackable_GetObjName OBJ_SECURITYRCV = Inr ''SecurityRcv''"
| "Trackable_GetObjName OBJ_NVMCMD = Inr ''NVMCmd''"
| "Trackable_GetObjName OBJ_WRITE = Inr ''Write''"
| "Trackable_GetObjName OBJ_READ = Inr ''Read''"
| "Trackable_GetObjName OBJ_FLUSH = Inr ''Flush''"
| "Trackable_GetObjName OBJ_DATASETMGMT = Inr ''DatasetMgmt''"
| "Trackable_GetObjName OBJ_WRITEZEROES = Inr ''WriteZeroes''"
| "Trackable_GetObjName OBJ_RESERVATIONREGISTER = Inr ''ReservationRegister''"
| "Trackable_GetObjName OBJ_RESERVATIONREPORT = Inr ''ReservationReport''"
| "Trackable_GetObjName OBJ_RESERVATIONACQUIRE = Inr ''ReservationAcquire''"
| "Trackable_GetObjName OBJ_RESERVATIONRELEASE = Inr ''ReservationRelease''"
| "Trackable_GetObjName OBJ_NAMESPACEATTACH = Inr ''NamespaceAttach''"
| "Trackable_GetObjName OBJ_NAMESPACEMANAGEMENT = Inr ''NamespaceManagement''"
| "Trackable_GetObjName OBJTYPE_FENCE = Inl (FrmwkEx ''Forgot to label this unknown obj'')"

record tracked =
  tr_type :: ObjType
  tr_addr :: nat

text \<open>The base class's constructor refuses the fence value.\<close>

definition Trackable_Trackable :: "ObjType \<Rightarrow> ex + ObjType" where
  "Trackable_Trackable t = (if t = OBJTYPE_FENCE then Inl (FrmwkEx ''Illegal constructor'') else Inr t)"

section \<open>State\<close>

record 'd rsrc_mngr = "'d meta_rsrc" +
  mObjGrpLife :: "(string \<times> tracked) list"
  ob_heap :: nat      \<comment> \<open>identity of the next object \<open>new\<close> returns\<close>

section \<open>The registry\<close>

text \<open>\<open>std::map::insert\<close>: the flag is false, and nothing is stored, when the key is present.\<close>

fun map_insert :: "string \<Rightarrow> 'v \<Rightarrow> (string \<times> 'v) list \<Rightarrow> (string \<times> 'v) list \<times> bool" where
  "map_insert k v [] = ([(k, v)], True)"
| "map_insert k v ((l, w) # m) =
     (if k = l then ((l, w) # m, False)
      else if k < l then ((k, v) # (l, w) # m, True)
      else case map_insert k v m of (m', b) \<Rightarrow> ((l, w) # m', b))"

definition ObjRsrc_AllocWorker :: "ObjType \<Rightarrow> (('d, 'm) rsrc_mngr_scheme, tracked) prog" where
  "ObjRsrc_AllocWorker type =
     (if type = OBJ_WRITEZEROES \<or> type = OBJTYPE_FENCE
      then raise (FrmwkEx ''Unknown obj type specified: 0x%02X'')
      else (\<lambda>s. (Inr \<lparr>tr_type = type, tr_addr = ob_heap s\<rparr>, s\<lparr>ob_heap := ob_heap s + 1\<rparr>)))"

text \<open>Null pointers are \<open>None\<close>.\<close>

definition ObjRsrc_GetObj :: "string \<Rightarrow> (('d, 'm) rsrc_mngr_scheme, tracked option) prog" where
  "ObjRsrc_GetObj lookupName = gets (\<lambda>s. map_of (mObjGrpLife s) lookupName)"

definition ObjRsrc_AllocObj ::
  "ObjType \<Rightarrow> string \<Rightarrow> (('d, 'm) rsrc_mngr_scheme, tracked option) prog" where
  "ObjRsrc_AllocObj type lookupName =
     (if length lookupName = 0 then ret None
      else bnd (ObjRsrc_AllocWorker type) (\<lambda>newObj s.
        case map_insert lookupName newObj (mObjGrpLife s) of (m, ok) \<Rightarrow>
          if \<not> ok then (Inr None, s)
          else ObjRsrc_GetObj lookupName (s\<lparr>mObjGrpLife := m\<rparr>)))"

definition ObjRsrc_FreeAllObj :: "(('d, 'm) rsrc_mngr_scheme, unit) prog" where
  "ObjRsrc_FreeAllObj = modify (\<lambda>s. s\<lparr>mObjGrpLife := []\<rparr>)"

definition is_admin_q :: "tracked \<Rightarrow> bool" where
  "is_admin_q t \<longleftrightarrow> \<not> (tr_type t \<noteq> OBJ_ACQ \<and> tr_type t \<noteq> OBJ_ASQ)"

text \<open>
  The loop erases the element its iterator stands on and then increments that iterator, which
  \<open>erase\<close> has made invalid. The arguments are the elements before the iterator and from it on.
\<close>

fun free_not_admin ::
  "(string \<times> tracked) list \<Rightarrow> (string \<times> tracked) list \<Rightarrow> (('d, 'm) rsrc_mngr_scheme, unit) prog" where
  "free_not_admin kept [] = ret ()"
| "free_not_admin kept (kt # rest) =
     (if \<not> is_admin_q (snd kt)
      then sq (modify (\<lambda>s. s\<lparr>mObjGrpLife := kept @ rest\<rparr>))
             (raise (UB ''increment of an erased iterator''))
      else free_not_admin (kept @ [kt]) rest)"

definition ObjRsrc_FreeAllObjNotASQACQ :: "(('d, 'm) rsrc_mngr_scheme, unit) prog" where
  "ObjRsrc_FreeAllObjNotASQACQ = (\<lambda>s. free_not_admin [] (mObjGrpLife s) s)"

section \<open>The resource manager\<close>

definition RsrcMngr_Update :: "'d dnvme \<Rightarrow> nvme_state \<Rightarrow> (('d, 'm) rsrc_mngr_scheme, unit) prog" where
  "RsrcMngr_Update drv state =
     (if state = ST_DISABLE_COMPLETELY
      then sq ObjRsrc_FreeAllObj (MetaRsrc_FreeAllMetaBuf drv)
      else if state = ST_DISABLE
      then sq ObjRsrc_FreeAllObjNotASQACQ (MetaRsrc_FreeAllMetaBuf drv)
      else ret ())"

section \<open>Lemmas on the registry\<close>

definition obj_inv :: "('d, 'm) rsrc_mngr_scheme \<Rightarrow> bool" where
  "obj_inv s \<longleftrightarrow> sorted_wrt (<) (map fst (mObjGrpLife s))"

lemma map_insert_keys:
  "map_insert k v m = (m', True) \<Longrightarrow> set m' = insert (k, v) (set m)"
  "map_insert k v m = (m', False) \<Longrightarrow> m' = m"
  by (induction k v m arbitrary: m' rule: map_insert.induct)
    (auto split: if_splits prod.splits)

lemma map_insert_sorted:
  "map_insert k v m = (m', b) \<Longrightarrow> sorted_wrt (<) (map fst m) \<Longrightarrow> sorted_wrt (<) (map fst m')"
proof (induction k v m arbitrary: m' b rule: map_insert.induct)
  case (2 k v l w m)
  show ?case
  proof (cases "k = l \<or> k < l")
    case True
    then show ?thesis using 2(2,3) by (fastforce split: if_splits dest: order.strict_trans)
  next
    case False
    then obtain m2 where m2: "map_insert k v m = (m2, b)" "m' = (l, w) # m2"
      using 2(2) by (auto split: prod.splits)
    have "l < k" using False by auto
    moreover have "set m2 \<subseteq> insert (k, v) (set m)"
      using map_insert_keys [of k v m m2] m2(1) by (cases b) auto
    ultimately show ?thesis using 2(1) [of m2 b] 2(3) False m2 by fastforce
  qed
qed simp

lemma map_insert_flag: "map_insert k v m = (m', b) \<Longrightarrow> sorted_wrt (<) (map fst m) \<Longrightarrow>
    b \<longleftrightarrow> map_of m k = None"
proof (induction k v m arbitrary: m' b rule: map_insert.induct)
  case (2 k v l w m)
  show ?case
  proof (cases "k < l")
    case True
    have "k \<notin> fst ` set m"
      using 2(3) True by (auto simp: map_of_eq_None_iff)
    then show ?thesis using 2(2) True by (auto simp: map_of_eq_None_iff [symmetric])
  next
    case False
    then show ?thesis using 2 by (auto split: if_splits prod.splits)
  qed
qed simp

lemma map_insert_lookup:
  "map_insert k v m = (m', True) \<Longrightarrow> map_of m' x = (if x = k then Some v else map_of m x)"
  by (induction k v m arbitrary: m' rule: map_insert.induct) (auto split: if_splits prod.splits)

lemma free_not_admin_run:
  "free_not_admin kept rest s =
     (if \<forall>kt \<in> set rest. is_admin_q (snd kt) then (Inr (), s)
      else (Inl (UB ''increment of an erased iterator''),
        s\<lparr>mObjGrpLife := kept @ takeWhile (is_admin_q \<circ> snd) rest @
            tl (dropWhile (is_admin_q \<circ> snd) rest)\<rparr>))"
  by (induction kept rest rule: free_not_admin.induct) (auto simp: comp_def)

section \<open>The resource manager as the observer of the controller's state\<close>

lemma FreeAllObj_keeps: "keeps meta_inv (ObjRsrc_FreeAllObj :: (('d, 'm) rsrc_mngr_scheme, unit) prog)"
  by (simp add: keeps_def ObjRsrc_FreeAllObj_def meta_inv_def)

lemma FreeAllObjNotASQACQ_keeps:
  "keeps meta_inv (ObjRsrc_FreeAllObjNotASQACQ :: (('d, 'm) rsrc_mngr_scheme, unit) prog)"
  by (simp add: keeps_def ObjRsrc_FreeAllObjNotASQACQ_def free_not_admin_run meta_inv_def)

lemma Update_keeps: "keeps meta_inv (RsrcMngr_Update drv st)"
  unfolding RsrcMngr_Update_def
  by (intro keeps_if keeps_sq keeps_ret FreeAllObj_keeps FreeAllObjNotASQACQ_keeps FreeAllMetaBuf_keeps)

lemma meta_inv_kern:
  "only_kern s t \<Longrightarrow> meta_inv s \<Longrightarrow> meta_inv (t :: ('d, 'm) rsrc_mngr_scheme)"
proof -
  assume "only_kern s t" and inv: "meta_inv s"
  then obtain k where "t = s\<lparr>kern := k\<rparr>" unfolding only_kern_def by blast
  then show ?thesis using inv by (simp add: meta_inv_def)
qed

interpretation rsrc_observer: state_observer
  "RsrcMngr_Update drv :: ('d, 'm rsrc_mngr_ext meta_rsrc_ext) observer" meta_inv for drv
  by unfold_locales (auto simp: Update_keeps meta_inv_def intro: meta_inv_kern [unfolded meta_inv_def])

section \<open>Properties\<close>

text \<open>\<open>AllocObj\<close> with a new name returns an object of the requested type, which \<open>GetObj\<close> finds under that
  name from then on, and leaves every other name alone; with a name that is taken it returns null
  and the registry is unchanged.\<close>

theorem AllocObj_registers:
  assumes inv: "obj_inv s" and "name \<noteq> []" and "t \<noteq> OBJ_WRITEZEROES" "t \<noteq> OBJTYPE_FENCE"
    and run: "ObjRsrc_AllocObj t name s = (r, s')"
  shows "obj_inv s' \<and>
    (if map_of (mObjGrpLife s) name = None
     then \<exists>ob. r = Inr (Some ob) \<and> tr_type ob = t \<and>
       (\<forall>n. fst (ObjRsrc_GetObj n s') = (if n = name then Inr (Some ob) else fst (ObjRsrc_GetObj n s)))
     else r = Inr None \<and> mObjGrpLife s' = mObjGrpLife s)"
proof -
  let ?ob = "\<lparr>tr_type = t, tr_addr = ob_heap s\<rparr>"
  obtain m b where ins: "map_insert name ?ob (mObjGrpLife s) = (m, b)" by fastforce
  have so: "sorted_wrt (<) (map fst (mObjGrpLife s))" using inv by (simp add: obj_inv_def)
  have flag: "b \<longleftrightarrow> map_of (mObjGrpLife s) name = None" by (rule map_insert_flag [OF ins so])
  have keys: "sorted_wrt (<) (map fst m)" by (rule map_insert_sorted [OF ins so])
  show ?thesis
  proof (cases b)
    case True
    then show ?thesis
      using run assms(2-4) ins keys flag map_insert_lookup [of name ?ob "mObjGrpLife s" m] True
      by (simp add: ObjRsrc_AllocObj_def ObjRsrc_AllocWorker_def bnd_apply obj_inv_def
          ObjRsrc_GetObj_def) auto
  next
    case False
    then show ?thesis
      using run assms(2-4) ins so flag
      by (auto simp: ObjRsrc_AllocObj_def ObjRsrc_AllocWorker_def bnd_apply obj_inv_def)
  qed
qed

text \<open>C39: \<open>FreeAllObjNotASQACQ\<close> is defined behaviour exactly when there is nothing to free: as soon as one
  registered object is not an admin queue, the loop increments an erased iterator.\<close>

theorem FreeAllObjNotASQACQ_defined_iff:
  "fst (ObjRsrc_FreeAllObjNotASQACQ s) = Inr () \<longleftrightarrow>
     list_all (\<lambda>(n, ob). tr_type ob = OBJ_ACQ \<or> tr_type ob = OBJ_ASQ) (mObjGrpLife s)"
  by (auto simp: list_all_iff ObjRsrc_FreeAllObjNotASQACQ_def free_not_admin_run is_admin_q_def split_beta)

text \<open>No state change of the controller, whatever the driver answers and however it ends, breaks the
  meta data pool: identifiers in use stay ordered, unique and within the driver's range.\<close>

theorem SetState_keeps_pool:
  assumes "meta_inv (s :: 'd rsrc_mngr)"
  shows "meta_inv (snd (CtrlrConfig_SetState C drv [RsrcMngr_Update drv] st s))"
  by (rule keepsD [OF rsrc_observer.SetState_keeps assms])


text \<open>An example: the example pool, with one registered object.\<close>

definition ex_mngr :: "nat rsrc_mngr" where
  "ex_mngr = \<lparr>kern = 2, mmaps = (\<lambda>_. []), rg_specRev = SPECREV_12, rg_pciCap = [],
     rg_pci = pci_table, cf_curState = ST_ENABLE, cf_firstTime = False, cf_deltaCheck = False,
     mr_allocSize = 64, mr_reserved = [ex_buf 0], mr_released = [ex_buf 1],
     mObjGrpLife = [(''ASQ'', \<lparr>tr_type = OBJ_ASQ, tr_addr = 0\<rparr>)], ob_heap = 1\<rparr>"

definition ex_mngr2 :: "nat rsrc_mngr" where
  "ex_mngr2 = ex_mngr\<lparr>ob_heap := 2, mObjGrpLife :=
     [(''ACQ'', \<lparr>tr_type = OBJ_ACQ, tr_addr = 1\<rparr>), (''ASQ'', \<lparr>tr_type = OBJ_ASQ, tr_addr = 0\<rparr>)]\<rparr>"

definition ex_mngr_dnvme :: "nat dnvme" where
  "ex_mngr_dnvme = meta_dnvme\<lparr>io_device_state := (\<lambda>st d. (0, d))\<rparr>"

lemma ex_mngr_inv: "meta_inv ex_mngr"
  by (simp add: meta_inv_def meta_lists_ok_def ex_mngr_def ex_buf_def METADATA_UNIQUE_ID_BITS_def)

lemma AllocObj_registers_witness:
  "obj_inv ex_mngr2 \<and>
    (if map_of (mObjGrpLife ex_mngr) ''ACQ'' = None
     then \<exists>ob. (Inr (Some \<lparr>tr_type = OBJ_ACQ, tr_addr = 1\<rparr>) :: ex + tracked option) = Inr (Some ob) \<and>
       tr_type ob = OBJ_ACQ \<and>
       (\<forall>n. fst (ObjRsrc_GetObj n ex_mngr2) =
          (if n = ''ACQ'' then Inr (Some ob) else fst (ObjRsrc_GetObj n ex_mngr)))
     else (Inr (Some \<lparr>tr_type = OBJ_ACQ, tr_addr = 1\<rparr>) :: ex + tracked option) = Inr None \<and>
       mObjGrpLife ex_mngr2 = mObjGrpLife ex_mngr)"
  by (rule AllocObj_registers)
    (simp_all add: obj_inv_def ex_mngr_def ex_mngr2_def ObjRsrc_AllocObj_def ObjRsrc_AllocWorker_def
      bnd_apply ObjRsrc_GetObj_def)

lemma SetState_keeps_pool_witness:
  "meta_inv (snd (CtrlrConfig_SetState ex_libc ex_mngr_dnvme [RsrcMngr_Update ex_mngr_dnvme] ST_DISABLE ex_mngr))"
  by (rule SetState_keeps_pool [OF ex_mngr_inv])


end
