(* ===== verification/Cmd.thy ===== *)
theory Cmd
  imports Mem_Buffer Obj_Rsrc Bit_Fields
begin

text \<open>
  \<open>Cmd\<close> (Cmds/cmd.cpp) with its base classes \<open>PrpData\<close> (prpData.cpp) and \<open>MetaData\<close>
  (metaData.cpp): a command is a buffer of DWORDs, accessed by bit fields, the association with a
  user data buffer, and the association with a meta data buffer. The data buffer is shared; a
  command holds its identity (\<open>mBufRW\<close>) and the size it had when it was associated. Logging and
  dumping are not modelled.
\<close>

section \<open>State\<close>

text \<open>
  A read-only data pointer is that of a queue: into a mapping of the driver, or into the shared buffer
  with the given identity.
\<close>

datatype qmem = Mapped u64 | Shared nat

record cmd =
  c_type :: ObjType
  mDataDir :: DataDir
  mCmdName :: string
  mCmdBuf :: mem_buffer
  mBufRW :: "nat option"
  mBufRO :: "qmem option"
  mBufSize :: u64
  mPrpAllowed :: u32
  mPrpFields :: u32
  mMetaData :: MetaDataBuf

type_synonym 'a cmd_prog = "(cmd, 'a) prog"

definition PRP_BUFFER_ALIGNMENT :: u32 where
  "PRP_BUFFER_ALIGNMENT = 128"

definition BITMASK_FUSE_B :: u8 where
  "BITMASK_FUSE_B = 0x03"

definition on_buf :: "(mem_buffer, 'a) prog \<Rightarrow> 'a cmd_prog" where
  "on_buf m = zoom mCmdBuf (\<lambda>b c. c\<lparr>mCmdBuf := b\<rparr>) m"

section \<open>Construction\<close>

definition Cmd_Cmd :: "ObjType \<Rightarrow> ex + cmd" where
  "Cmd_Cmd objBeingCreated =
     (case Trackable_Trackable objBeingCreated of
        Inl e \<Rightarrow> Inl e
      | Inr t \<Rightarrow>
          (case Trackable_GetObjName objBeingCreated of
             Inl e \<Rightarrow> Inl e
           | Inr name \<Rightarrow> Inr
               \<lparr>c_type = t, mDataDir = DATADIR_NONE, mCmdName = name, mCmdBuf = MemBuffer_new,
                mBufRW = None, mBufRO = None, mBufSize = 0, mPrpAllowed = 0, mPrpFields = 0,
                mMetaData = MetaDataBuf_new\<rparr>))"

section \<open>Access to the command's DWORDs\<close>

definition Cmd_GetCmdSizeB :: "cmd \<Rightarrow> u16" where
  "Cmd_GetCmdSizeB c = ucast (mVirBufSize (mCmdBuf c))"

definition Cmd_GetCmdSizeDW :: "cmd \<Rightarrow> u8" where
  "Cmd_GetCmdSizeDW c = ucast (mVirBufSize (mCmdBuf c) div 4)"

definition Cmd_GetDword :: "u8 \<Rightarrow> u32 cmd_prog" where
  "Cmd_GetDword whichDW = (\<lambda>c.
     if whichDW \<ge> Cmd_GetCmdSizeDW c
     then (Inl (FrmwkEx ''Cmd is not large enough to get requested value''), c)
     else bnd (on_buf (mb_load (4 * unat whichDW) 4)) (\<lambda>xs. ret (of_le32 xs)) c)"

definition Cmd_SetDword :: "u32 \<Rightarrow> u8 \<Rightarrow> unit cmd_prog" where
  "Cmd_SetDword newVal whichDW = (\<lambda>c.
     if whichDW \<ge> Cmd_GetCmdSizeDW c
     then (Inl (FrmwkEx ''Cmd is not large enough to set requested value''), c)
     else on_buf (mb_store (4 * unat whichDW) (le32 (ucast newVal))) c)"

text \<open>The loop that builds the mask of \<open>numBits\<close> ones.\<close>

fun mask_loop :: "nat \<Rightarrow> nat \<Rightarrow> u32 \<Rightarrow> u32" where
  "mask_loop i 0 m = m"
| "mask_loop i (Suc n) m = mask_loop (Suc i) n (m OR push_bit i 1)"

text \<open>\<open>dwOffset\<close> counts fields of \<open>numBits\<close> bits; the comparison is one of \<open>int\<close>s.\<close>

definition bad_offset :: "u8 \<Rightarrow> u16 \<Rightarrow> bool" where
  "bad_offset dwOffset numBits \<longleftrightarrow> int (unat dwOffset) > 32 div int (unat numBits) - 1"

definition Cmd_SetBits :: "u32 \<Rightarrow> u8 \<Rightarrow> u8 \<Rightarrow> u16 \<Rightarrow> unit cmd_prog" where
  "Cmd_SetBits newVal whichDW dwOffset numBits = (\<lambda>c.
     if whichDW \<ge> Cmd_GetCmdSizeDW c
     then (Inl (FrmwkEx ''Cmd is not large enough (%d DWORDS) to set req'd DWORD %d''), c)
     else if numBits = 0 then (Inl (UB ''division by zero''), c)
     else if bad_offset dwOffset numBits
     then (Inl (FrmwkEx ''Illegal DW offset parameter passed: %d''), c)
     else bnd (Cmd_GetDword whichDW) (\<lambda>dw.
       let m = mask_loop 0 (unat numBits) 0;
           sh = unat dwOffset * unat numBits;
           dw1 = dw AND NOT (push_bit sh m);
           dw2 = dw1 OR push_bit sh (newVal AND m)
       in Cmd_SetDword dw2 whichDW) c)"

definition Cmd_GetBits :: "u8 \<Rightarrow> u8 \<Rightarrow> u16 \<Rightarrow> u64 cmd_prog" where
  "Cmd_GetBits whichDW dwOffset numBits = (\<lambda>c.
     if whichDW \<ge> Cmd_GetCmdSizeDW c
     then (Inl (FrmwkEx ''Cmd is not large enough to get requested value''), c)
     else if numBits = 0 then (Inl (UB ''division by zero''), c)
     else if bad_offset dwOffset numBits
     then (Inl (FrmwkEx ''Illegal DW offset parameter passed: %d''), c)
     else let m = mask_loop 0 (unat numBits) 0 in
       bnd (Cmd_GetDword whichDW) (\<lambda>dw.
         ret (ucast (drop_bit (unat dwOffset * unat numBits) dw AND m))) c)"

definition Cmd_GetWord :: "u8 \<Rightarrow> u8 \<Rightarrow> u16 cmd_prog" where
  "Cmd_GetWord whichDW dwOffset = bnd (Cmd_GetBits whichDW dwOffset 16) (\<lambda>v. ret (ucast v))"

definition Cmd_GetByte :: "u8 \<Rightarrow> u8 \<Rightarrow> u8 cmd_prog" where
  "Cmd_GetByte whichDW dwOffset = bnd (Cmd_GetBits whichDW dwOffset 8) (\<lambda>v. ret (ucast v))"

definition Cmd_GetNibble :: "u8 \<Rightarrow> u8 \<Rightarrow> u8 cmd_prog" where
  "Cmd_GetNibble whichDW dwOffset = bnd (Cmd_GetBits whichDW dwOffset 4) (\<lambda>v. ret (ucast v))"

definition Cmd_GetBit :: "u8 \<Rightarrow> u8 \<Rightarrow> bool cmd_prog" where
  "Cmd_GetBit whichDW dwOffset = bnd (Cmd_GetBits whichDW dwOffset 1) (\<lambda>v. ret (v = 1))"

definition Cmd_SetWord :: "u16 \<Rightarrow> u8 \<Rightarrow> u8 \<Rightarrow> unit cmd_prog" where
  "Cmd_SetWord newVal whichDW dwOffset = Cmd_SetBits (ucast newVal) whichDW dwOffset 16"

definition Cmd_SetByte :: "u8 \<Rightarrow> u8 \<Rightarrow> u8 \<Rightarrow> unit cmd_prog" where
  "Cmd_SetByte newVal whichDW dwOffset = Cmd_SetBits (ucast newVal) whichDW dwOffset 8"

definition Cmd_SetNibble :: "u8 \<Rightarrow> u8 \<Rightarrow> u8 \<Rightarrow> unit cmd_prog" where
  "Cmd_SetNibble newVal whichDW dwOffset = Cmd_SetBits (ucast newVal) whichDW dwOffset 4"

definition Cmd_SetBit :: "bool \<Rightarrow> u8 \<Rightarrow> u8 \<Rightarrow> unit cmd_prog" where
  "Cmd_SetBit newVal whichDW dwOffset =
     Cmd_SetBits (if newVal then 1 else 0) whichDW dwOffset 1"

section \<open>The fields every command has\<close>

definition Cmd_Init :: "libc \<Rightarrow> u8 \<Rightarrow> DataDir \<Rightarrow> u16 \<Rightarrow> unit cmd_prog" where
  "Cmd_Init C opcode dataDir cmdSize =
     sq (if dataDir \<in> {DATADIR_NONE, DATADIR_TO_DEVICE, DATADIR_FROM_DEVICE}
         then modify (\<lambda>c. c\<lparr>mDataDir := dataDir\<rparr>)
         else raise (FrmwkEx ''Illegal data direction specified: %d''))
     (sq (throw_if (unat cmdSize mod 4 \<noteq> 0) (FrmwkEx ''Illegal cmd size specified: %d''))
     (sq (on_buf (MemBuffer_InitAlignment C (ucast cmdSize) PRP_BUFFER_ALIGNMENT True 0 None))
     (Cmd_SetByte opcode 0 0)))"

definition Cmd_GetOpcode :: "u8 cmd_prog" where
  "Cmd_GetOpcode = Cmd_GetByte 0 0"

definition Cmd_SetFUSE :: "u8 \<Rightarrow> unit cmd_prog" where
  "Cmd_SetFUSE newVal =
     bnd (Cmd_GetByte 0 1) (\<lambda>b.
       let b1 = (b AND NOT BITMASK_FUSE_B) OR (newVal AND BITMASK_FUSE_B) in Cmd_SetByte b1 0 1)"

definition Cmd_GetFUSE :: "u8 cmd_prog" where
  "Cmd_GetFUSE = bnd (Cmd_GetByte 0 1) (\<lambda>b. ret (b AND BITMASK_FUSE_B))"

definition Cmd_SetNSID :: "u32 \<Rightarrow> unit cmd_prog" where
  "Cmd_SetNSID newVal = Cmd_SetDword newVal 1"

definition Cmd_GetNSID :: "u32 cmd_prog" where
  "Cmd_GetNSID = Cmd_GetDword 1"

definition Cmd_SetCID :: "u16 \<Rightarrow> unit cmd_prog" where
  "Cmd_SetCID cid = Cmd_SetWord cid 0 1"

definition Cmd_GetCID :: "u16 cmd_prog" where
  "Cmd_GetCID = Cmd_GetWord 0 1"

section \<open>The data buffer (prpData.cpp)\<close>

text \<open>\<open>ref\<close> is the identity of the shared buffer, \<open>b\<close> the buffer at the time of the call.\<close>

definition PrpData_SetPrpBufferUnsafe :: "u32 \<Rightarrow> nat \<Rightarrow> mem_buffer \<Rightarrow> unit cmd_prog" where
  "PrpData_SetPrpBufferUnsafe prpFields ref b =
     modify (\<lambda>c. c\<lparr>mBufRW := Some ref, mBufSize := ucast (MemBuffer_GetBufSize b), mPrpFields := prpFields\<rparr>)"

definition PrpData_SetPrpBuffer :: "u32 \<Rightarrow> nat \<Rightarrow> mem_buffer \<Rightarrow> unit cmd_prog" where
  "PrpData_SetPrpBuffer prpFields ref b = (\<lambda>c.
     if mDataDir c = DATADIR_NONE
     then (Inl (FrmwkEx ''PRP buffer assoc, but no data direction''), c)
     else if prpFields AND NOT (mPrpAllowed c) \<noteq> 0
     then (Inl (FrmwkEx ''Attempting to set PRP field to disallowed value: 0x%04X''), c)
     else if mBufRO c \<noteq> None
     then (Inl (FrmwkEx ''Buffer already setup as RO, cannot also setup RW buffer''), c)
     else if MemBuffer_GetBufSize b = 0
     then (Inl (FrmwkEx ''Setting zero length PRP buffer not allowed''), c)
     else (Inr (), c\<lparr>mBufRW := Some ref, mBufSize := ucast (MemBuffer_GetBufSize b),
                     mPrpFields := prpFields\<rparr>))"

text \<open>The read-only variant; a null pointer is \<open>None\<close>.\<close>

definition PrpData_SetPrpBuffer_RO :: "u32 \<Rightarrow> qmem option \<Rightarrow> u64 \<Rightarrow> unit cmd_prog" where
  "PrpData_SetPrpBuffer_RO prpFields memBuffer bufSize = (\<lambda>c.
     if mDataDir c = DATADIR_NONE
     then (Inl (FrmwkEx ''PRP buffer assoc, but no data direction''), c)
     else if prpFields AND NOT (mPrpAllowed c) \<noteq> 0
     then (Inl (FrmwkEx ''Attempting to set PRP field to disallowed value: 0x%04X''), c)
     else if mBufRW c \<noteq> None
     then (Inl (FrmwkEx ''Buffer already setup as RW, cannot also setup RO buffer''), c)
     else if bufSize = 0
     then (Inl (FrmwkEx ''Setting zero length PRP buffer not allowed''), c)
     else if (bufSize = 0 \<and> memBuffer \<noteq> None) \<or> (bufSize \<noteq> 0 \<and> memBuffer = None)
     then (Inl (FrmwkEx ''Ambiguous; memBuffer = %p, size = %llu''), c)
     else if mBufRO c \<noteq> None
     then (Inl (FrmwkEx ''Buffer already setup as RO, not allowing reconfig''), c)
     else (Inr (), c\<lparr>mBufRO := memBuffer, mBufSize := bufSize, mPrpFields := prpFields\<rparr>))"

definition PrpData_SetPrpAllowed :: "send_masks \<Rightarrow> u32 \<Rightarrow> unit cmd_prog" where
  "PrpData_SetPrpAllowed M allowedBitmask =
     sq (throw_if (allowedBitmask AND NOT (MASK_PRP1_PAGE M OR MASK_PRP1_LIST M OR MASK_PRP2_PAGE M OR
            MASK_PRP2_LIST M) \<noteq> 0)
          (FrmwkEx ''Allowed PRP bitmask violated strict values: 0x%04X''))
       (modify (\<lambda>c. c\<lparr>mPrpAllowed := allowedBitmask\<rparr>))"

section \<open>The meta data buffer (metaData.cpp)\<close>

text \<open>The resource manager is global: the state is the command and the manager.\<close>

definition MetaData_AllocMetaBuffer ::
  "libc \<Rightarrow> 'd dnvme \<Rightarrow> (cmd \<times> ('d, 'm) meta_rsrc_scheme, unit) prog" where
  "MetaData_AllocMetaBuffer C drv = (\<lambda>(c, s).
     if mDataDir c = DATADIR_NONE
     then (Inl (FrmwkEx ''Meta buffer assoc, but no data direction''), (c, s))
     else case MetaRsrc_ReserveMetaBuf C drv (mMetaData c) s of (r, m, s') \<Rightarrow>
       ((case r of
           Inl e \<Rightarrow> Inl e
         | Inr False \<Rightarrow> Inl (FrmwkEx ''Meta data alloc request denied'')
         | Inr True \<Rightarrow> Inr ()), (c\<lparr>mMetaData := m\<rparr>, s')))"

text \<open>The destructor gives the buffer back.\<close>

definition MetaData_destroy :: "cmd \<Rightarrow> (('d, 'm) meta_rsrc_scheme, unit) prog" where
  "MetaData_destroy c = MetaRsrc_ReleaseMetaBuf (mMetaData c)"

definition MetaData_GetMetaBitmask :: "send_masks \<Rightarrow> cmd \<Rightarrow> u32" where
  "MetaData_GetMetaBitmask M c = (if mMetaData c = MetaDataBuf_new then 0 else MASK_MPTR M)"

text \<open>
  The pattern and comparison routines of the meta data buffer work on the mapping at its address;
  the mapping is viewed as a \<open>mem_buffer\<close>, so that \<open>pattern_loop\<close> serves both classes.
\<close>

definition meta_view :: "MetaDataBuf \<Rightarrow> ('d, 'm) proc_scheme \<Rightarrow> mem_buffer" where
  "meta_view m s = \<lparr>mAllocByNewOperator = False, mRealBaseAddr = Some (mmaps s (mb_buf m)),
     mVirOff = 0, mVirBufSize = mb_size m, mAlignment = 0\<rparr>"

definition on_meta :: "MetaDataBuf \<Rightarrow> (mem_buffer, 'a) prog \<Rightarrow> (('d, 'm) proc_scheme, 'a) prog" where
  "on_meta m p = zoom (meta_view m)
     (\<lambda>b s. s\<lparr>mmaps := (mmaps s)(mb_buf m := the (mRealBaseAddr b))\<rparr>) p"

definition MetaData_SetMetaDataPattern ::
  "DataPattern \<Rightarrow> u64 \<Rightarrow> u32 \<Rightarrow> u32 \<Rightarrow> cmd \<Rightarrow> (('d, 'm) proc_scheme, unit) prog" where
  "MetaData_SetMetaDataPattern dataPat initVal offset len0 c =
     (if mb_buf (mMetaData c) = 0 then ret ()
      else let len = (if len0 = - 1 then mb_size (mMetaData c) else len0) in
        sq (throw_if (len + offset > mb_size (mMetaData c))
              (FrmwkEx ''Length exceeds total meta buffer allocated size''))
        (on_meta (mMetaData c)
          (case dataPat of
             DATAPAT_CONST_8BIT \<Rightarrow> pattern_loop le8 False (unat len) (unat offset) initVal
           | DATAPAT_CONST_16BIT \<Rightarrow> pattern_loop le16 False (unat len div 2) (unat offset) initVal
           | DATAPAT_CONST_32BIT \<Rightarrow> pattern_loop le32 False (unat len div 4) (unat offset) initVal
           | DATAPAT_INC_8BIT \<Rightarrow> pattern_loop le8 True (unat len) (unat offset) initVal
           | DATAPAT_INC_16BIT \<Rightarrow> pattern_loop le16 True (unat len div 2) (unat offset) initVal
           | DATAPAT_INC_32BIT \<Rightarrow> pattern_loop le32 True (unat len div 4) (unat offset) initVal
           | DATAPATTERN_FENCE \<Rightarrow> raise (FrmwkEx ''Unsupported data pattern %d''))))"

definition MetaData_CompareMetaBuffer ::
  "mem_buffer \<Rightarrow> cmd \<Rightarrow> (('d, 'm) proc_scheme, bool) prog" where
  "MetaData_CompareMetaBuffer compTo c = (\<lambda>s.
     if mVirBufSize compTo > mb_size (mMetaData c)
     then (Inl (FrmwkEx ''Compare buffer size > max meta buff size: %d > %d''), s)
     else case (mb_bytes compTo, peek 0 (unat (mVirBufSize compTo)) (mmaps s (mb_buf (mMetaData c)))) of
            (Some xs, Some ys) \<Rightarrow> (Inr (xs = ys), s)
          | _ \<Rightarrow> (Inl (UB ''memcmp outside of the mapping''), s))"

section \<open>The command as an array of DWORDs\<close>

text \<open>A command that \<open>Init\<close> has given a buffer of at most 255 DWORDs.\<close>

definition cmd_ok :: "cmd \<Rightarrow> bool" where
  "cmd_ok c \<longleftrightarrow>
     (\<exists>m. mRealBaseAddr (mCmdBuf c) = Some m \<and>
          mVirOff (mCmdBuf c) + unat (mVirBufSize (mCmdBuf c)) \<le> length m) \<and>
     unat (mVirBufSize (mCmdBuf c)) < 1024"

definition cmd_dw :: "cmd \<Rightarrow> nat \<Rightarrow> u32" where
  "cmd_dw c i = of_le32 (take 4 (drop (mVirOff (mCmdBuf c) + 4 * i) (the (mRealBaseAddr (mCmdBuf c)))))"

definition set_dw :: "cmd \<Rightarrow> nat \<Rightarrow> u32 \<Rightarrow> cmd" where
  "set_dw c i v =
     (let b = mCmdBuf c; m = the (mRealBaseAddr b); p = mVirOff b + 4 * i in
      c\<lparr>mCmdBuf := b\<lparr>mRealBaseAddr := Some (take p m @ le32 (ucast v) @ drop (p + 4) m)\<rparr>\<rparr>)"

definition cmd_size :: "cmd \<Rightarrow> nat" where
  "cmd_size c = unat (mVirBufSize (mCmdBuf c)) div 4"

lemma GetCmdSizeDW_eq: "cmd_ok c \<Longrightarrow> unat (Cmd_GetCmdSizeDW c) = cmd_size c"
proof -
  assume "cmd_ok c"
  then have "unat (mVirBufSize (mCmdBuf c)) < 1024" by (simp add: cmd_ok_def)
  then have "cmd_size c < 256" unfolding cmd_size_def by linarith
  then show ?thesis
    by (simp add: Cmd_GetCmdSizeDW_def cmd_size_def unsigned_ucast_eq take_bit_nat_eq_self
        unat_div_distrib)
qed

lemma le_GetCmdSizeDW: "cmd_ok c \<Longrightarrow> Cmd_GetCmdSizeDW c \<le> w \<longleftrightarrow> cmd_size c \<le> unat w"
  by (simp add: word_le_nat_alt GetCmdSizeDW_eq)

lemma cmd_room: "cmd_ok c \<Longrightarrow> i < cmd_size c \<Longrightarrow>
    \<exists>m. mRealBaseAddr (mCmdBuf c) = Some m \<and> mVirOff (mCmdBuf c) + 4 * i + 4 \<le> length m"
  by (auto simp: cmd_ok_def cmd_size_def)

lemma length_le32 [simp]: "length (le32 v) = 4"
  by (simp add: le32_def)

lemma of_le32_le32' [simp]: "of_le32 (le32 (ucast (v :: u32))) = v"
  by (rule of_le32_le32)

lemma set_dw_simps [simp]:
  "cmd_size (set_dw c i v) = cmd_size c"
  "mDataDir (set_dw c i v) = mDataDir c" "c_type (set_dw c i v) = c_type c"
  "mPrpFields (set_dw c i v) = mPrpFields c" "mPrpAllowed (set_dw c i v) = mPrpAllowed c"
  "mBufRW (set_dw c i v) = mBufRW c" "mBufRO (set_dw c i v) = mBufRO c"
  "mBufSize (set_dw c i v) = mBufSize c" "mMetaData (set_dw c i v) = mMetaData c"
  by (simp_all add: set_dw_def cmd_size_def Let_def)

lemma cmd_ok_set_dw [simp]:
  assumes "cmd_ok c" and "i < cmd_size c" shows "cmd_ok (set_dw c i v)"
proof -
  obtain m where "mRealBaseAddr (mCmdBuf c) = Some m" "mVirOff (mCmdBuf c) + 4 * i + 4 \<le> length m"
    using cmd_room [OF assms] by blast
  then show ?thesis using assms(1) by (auto simp: cmd_ok_def set_dw_def Let_def)
qed

lemma cmd_dw_set_same:
  assumes "cmd_ok c" and "i < cmd_size c" shows "cmd_dw (set_dw c i v) i = v"
proof -
  obtain m where "mRealBaseAddr (mCmdBuf c) = Some m" "mVirOff (mCmdBuf c) + 4 * i + 4 \<le> length m"
    using cmd_room [OF assms] by blast
  then show ?thesis by (simp add: cmd_dw_def set_dw_def Let_def)
qed

lemma cmd_dw_set_other:
  assumes "cmd_ok c" and "i < cmd_size c" and "j < cmd_size c" and "i \<noteq> j"
  shows "cmd_dw (set_dw c i v) j = cmd_dw c j"
proof -
  let ?o = "mVirOff (mCmdBuf c)"
  obtain m where m: "mRealBaseAddr (mCmdBuf c) = Some m" "?o + 4 * i + 4 \<le> length m"
    using cmd_room [OF assms(1,2)] by blast
  have j: "?o + 4 * j + 4 \<le> length m" using cmd_room [OF assms(1,3)] m(1) by auto
  obtain m' where p: "poke (?o + 4 * i) (le32 (ucast v)) m = Some m'" using m by (simp add: poke_def)
  have "?o + 4 * j + 4 \<le> ?o + 4 * i \<or> ?o + 4 * i + length (le32 (ucast v)) \<le> ?o + 4 * j"
    using assms(4) by simp arith
  from peek_poke_disjoint [OF p this] have "peek (?o + 4 * j) 4 m' = peek (?o + 4 * j) 4 m" .
  then have "take 4 (drop (?o + 4 * j) m') = take 4 (drop (?o + 4 * j) m)"
    using j length_poke [OF p] by (simp add: peek_def)
  then show ?thesis
    using m p by (simp add: cmd_dw_def set_dw_def Let_def poke_def split: if_splits)
qed

section \<open>What the accessors do\<close>

lemma GetDword_ok:
  assumes "cmd_ok c" and "unat w < cmd_size c"
  shows "Cmd_GetDword w c = (Inr (cmd_dw c (unat w)), c)"
proof -
  obtain m where "mRealBaseAddr (mCmdBuf c) = Some m" "mVirOff (mCmdBuf c) + 4 * unat w + 4 \<le> length m"
    using cmd_room [OF assms] by blast
  then show ?thesis
    using assms by (simp add: Cmd_GetDword_def le_GetCmdSizeDW on_buf_def zoom_apply mb_load_def
        peek_def bnd_apply cmd_dw_def)
qed

lemma SetDword_ok:
  assumes "cmd_ok c" and "unat w < cmd_size c"
  shows "Cmd_SetDword v w c = (Inr (), set_dw c (unat w) v)"
proof -
  obtain m where "mRealBaseAddr (mCmdBuf c) = Some m" "mVirOff (mCmdBuf c) + 4 * unat w + 4 \<le> length m"
    using cmd_room [OF assms] by blast
  then show ?thesis
    using assms by (simp add: Cmd_SetDword_def le_GetCmdSizeDW on_buf_def zoom_apply mb_store_def
        poke_def set_dw_def Let_def)
qed

lemma mask_loop_eq: "mask_loop i n m = m OR push_bit i (mask n)"
proof (induction n arbitrary: i m)
  case 0
  then show ?case by simp
next
  case (Suc n)
  have "push_bit i 1 OR push_bit (Suc i) (mask n) = (push_bit i (mask (Suc n)) :: u32)"
    by (simp add: mask_Suc_double push_bit_or mult.commute)
  then show ?case by (simp only: mask_loop.simps Suc or.assoc)
qed

text \<open>A field of a command: its DWORD, its offset in units of its width, and its width.\<close>

type_synonym cmd_field = "u8 \<times> u8 \<times> u16"

definition field_bits :: "cmd_field \<Rightarrow> nat \<times> nat" where
  "field_bits f = (case f of (w, off, nb) \<Rightarrow> (unat off * unat nb, unat nb))"

definition cmd_field_ok :: "cmd_field \<Rightarrow> cmd \<Rightarrow> bool" where
  "cmd_field_ok f c \<longleftrightarrow> (case f of (w, off, nb) \<Rightarrow>
     cmd_ok c \<and> unat w < cmd_size c \<and> nb \<noteq> 0 \<and> \<not> bad_offset off nb)"

definition cmd_field_apart :: "cmd_field \<Rightarrow> cmd_field \<Rightarrow> bool" where
  "cmd_field_apart f g \<longleftrightarrow> fst f \<noteq> fst g \<or> field_apart (field_bits f) (field_bits g)"

lemma good_offset:
  assumes "nb \<noteq> 0" and "\<not> bad_offset off nb"
  shows "unat off * unat nb + unat nb \<le> 32"
proof -
  have "unat off + 1 \<le> 32 div unat nb"
  proof -
    have "int (32 div unat nb) = 32 div int (unat nb)" by (simp add: zdiv_int)
    then show ?thesis using assms(2) unfolding bad_offset_def by linarith
  qed
  then have "(unat off + 1) * unat nb \<le> 32 div unat nb * unat nb" by (rule mult_le_mono1)
  also have "\<dots> \<le> 32" by simp
  finally show ?thesis by simp
qed

lemma cmd_field_bits_ok: "cmd_field_ok f c \<Longrightarrow> field_ok (field_bits f)"
  by (auto simp: cmd_field_ok_def field_ok_def field_bits_def dest: good_offset)

lemma SetBits_ok:
  assumes "cmd_field_ok (w, off, nb) c"
  shows "Cmd_SetBits v w off nb c =
    (Inr (), set_dw c (unat w) (put_field (field_bits (w, off, nb)) v (cmd_dw c (unat w))))"
  using assms
  by (simp add: Cmd_SetBits_def cmd_field_ok_def le_GetCmdSizeDW bnd_apply GetDword_ok SetDword_ok
      mask_loop_eq Let_def field_bits_def put_field_def take_bit_eq_mask)

lemma GetBits_ok:
  assumes "cmd_field_ok (w, off, nb) c"
  shows "Cmd_GetBits w off nb c =
    (Inr (ucast (get_field (field_bits (w, off, nb)) (cmd_dw c (unat w)))), c)"
  using assms
  by (simp add: Cmd_GetBits_def cmd_field_ok_def le_GetCmdSizeDW bnd_apply GetDword_ok
      mask_loop_eq Let_def field_bits_def get_field_def take_bit_eq_mask)

section \<open>Commands as a store of fields\<close>

definition rd_field :: "cmd_field \<Rightarrow> cmd \<Rightarrow> u32" where
  "rd_field f c = (case f of (w, off, nb) \<Rightarrow>
     case fst (Cmd_GetBits w off nb c) of Inl _ \<Rightarrow> 0 | Inr v \<Rightarrow> ucast v)"

definition wr_field :: "cmd_field \<Rightarrow> u32 \<Rightarrow> cmd \<Rightarrow> cmd" where
  "wr_field f v c = (case f of (w, off, nb) \<Rightarrow> snd (Cmd_SetBits v w off nb c))"

lemma rd_field_eq: "cmd_field_ok f c \<Longrightarrow> rd_field f c = get_field (field_bits f) (cmd_dw c (unat (fst f)))"
proof -
  assume "cmd_field_ok f c"
  then have "cmd_field_ok (fst f, fst (snd f), snd (snd f)) c" by simp
  from GetBits_ok [OF this] show ?thesis
    by (simp add: rd_field_def split_beta) (rule bit_word_eqI, auto simp: bit_simps)
qed

lemma wr_field_eq: "cmd_field_ok f c \<Longrightarrow>
    wr_field f v c = set_dw c (unat (fst f)) (put_field (field_bits f) v (cmd_dw c (unat (fst f))))"
proof -
  assume "cmd_field_ok f c"
  then have "cmd_field_ok (fst f, fst (snd f), snd (snd f)) c" by simp
  from SetBits_ok [OF this] show ?thesis by (simp add: wr_field_def split_beta)
qed

lemma cmd_field_ok_wr: "cmd_field_ok f c \<Longrightarrow> cmd_field_ok g c \<Longrightarrow> cmd_field_ok g (wr_field f v c)"
  by (subst wr_field_eq) (auto simp: cmd_field_ok_def split_beta)

lemma rd_wr_field_same:
  "cmd_field_ok f c \<Longrightarrow> rd_field f (wr_field f v c) = take_bit (snd (field_bits f)) v"
  by (subst rd_field_eq) (auto simp: cmd_field_ok_wr wr_field_eq cmd_dw_set_same cmd_field_bits_ok
      get_put_same cmd_field_ok_def)

lemma rd_wr_field_apart:
  assumes f: "cmd_field_ok f c" and g: "cmd_field_ok g c" and a: "cmd_field_apart f g"
  shows "rd_field g (wr_field f v c) = rd_field g c"
proof -
  have f': "cmd_ok c" "unat (fst f) < cmd_size c" "unat (fst g) < cmd_size c"
    using f g by (auto simp: cmd_field_ok_def split_beta)
  show ?thesis
  proof (cases "fst f = fst g")
    case True
    then have "field_apart (field_bits f) (field_bits g)" using a by (simp add: cmd_field_apart_def)
    then show ?thesis
      using True f'
      unfolding rd_field_eq [OF cmd_field_ok_wr [OF f g]]
      unfolding rd_field_eq [OF g] wr_field_eq [OF f]
      by (simp add: cmd_dw_set_same get_put_apart cmd_field_bits_ok [OF f] cmd_field_bits_ok [OF g])
  next
    case False
    then have "unat (fst f) \<noteq> unat (fst g)" by (simp add: word_unat_eq_iff)
    then show ?thesis
      using f'
      unfolding rd_field_eq [OF cmd_field_ok_wr [OF f g]]
      unfolding rd_field_eq [OF g] wr_field_eq [OF f]
      by (simp add: cmd_dw_set_other)
  qed
qed

interpretation cmd_fields: field_store rd_field wr_field cmd_field_ok
  "\<lambda>f v. take_bit (snd (field_bits f)) v = v" cmd_field_apart
  by unfold_locales (auto simp: rd_wr_field_same rd_wr_field_apart cmd_field_ok_wr)

section \<open>Initialisation\<close>

lemma InitAlignment_zeroed:
  assumes "posix_memalign C align n = Inr (fresh C (unat n))" and "unat align mod 8 = 0"
  shows "\<exists>b'. MemBuffer_InitAlignment C n align True 0 None b = (Inr (), b') \<and>
    mRealBaseAddr b' = Some (replicate (unat n) 0) \<and> mVirOff b' = 0 \<and> mVirBufSize b' = n"
  using assms
  by (simp add: MemBuffer_InitAlignment_def sq_apply mb_store_def poke_def)

lemma posix_memalign_128: "\<not> memfail C (unat n) \<Longrightarrow>
    posix_memalign C PRP_BUFFER_ALIGNMENT n = Inr (fresh C (unat n))"
  by (simp add: posix_memalign_def PRP_BUFFER_ALIGNMENT_def)

lemma of_le32_zeros: "4 * i + 4 \<le> n \<Longrightarrow> of_le32 (take 4 (drop (4 * i) (replicate n 0))) = 0"
proof -
  assume "4 * i + 4 \<le> n"
  then have "take 4 (drop (4 * i) (replicate n (0 :: u8))) = [0, 0, 0, 0]"
    by (simp add: numeral_eq_Suc min_def)
  then show ?thesis by simp
qed

lemma put_byte0: "put_field (0, 8) (ucast (op :: u8)) 0 = (ucast op :: u32)"
  by (rule bit_word_eqI) (auto simp: put_field_def bit_simps dest: bit_imp_le_length)

lemma Init_ok:
  assumes dir: "dir \<in> {DATADIR_NONE, DATADIR_TO_DEVICE, DATADIR_FROM_DEVICE}"
    and size: "unat sz mod 4 = 0" "0 < unat sz" "unat sz < 1024" and mem: "\<not> memfail C (unat sz)"
  shows "\<exists>c'. Cmd_Init C opc dir sz c = (Inr (), c') \<and> cmd_ok c' \<and> cmd_size c' = unat sz div 4 \<and>
    mDataDir c' = dir \<and> cmd_dw c' 0 = ucast opc \<and> (\<forall>i. 0 < i \<and> i < cmd_size c' \<longrightarrow> cmd_dw c' i = 0) \<and>
    mPrpAllowed c' = mPrpAllowed c \<and> mPrpFields c' = mPrpFields c \<and> mBufRW c' = mBufRW c \<and>
    mBufRO c' = mBufRO c \<and> mBufSize c' = mBufSize c \<and> mMetaData c' = mMetaData c \<and> c_type c' = c_type c"
proof -
  let ?n = "ucast sz :: u32"
  have n: "unat ?n = unat sz" by simp
  obtain b where b: "MemBuffer_InitAlignment C ?n PRP_BUFFER_ALIGNMENT True 0 None (mCmdBuf c) = (Inr (), b)"
    "mRealBaseAddr b = Some (replicate (unat sz) 0)" "mVirOff b = 0" "mVirBufSize b = ?n"
    using InitAlignment_zeroed [OF posix_memalign_128, of C ?n "mCmdBuf c"] mem n
    by (auto simp: PRP_BUFFER_ALIGNMENT_def)
  let ?c = "c\<lparr>mDataDir := dir, mCmdBuf := b\<rparr>"
  have ok: "cmd_ok ?c" "cmd_size ?c = unat sz div 4" "0 < cmd_size ?c"
    using b size by (auto simp: cmd_ok_def cmd_size_def n)
  have dw: "cmd_dw ?c i = 0" if "i < cmd_size ?c" for i
  proof -
    have "4 * i + 4 \<le> unat sz" using that ok(2) size(1) by simp
    then show ?thesis using of_le32_zeros [of i "unat sz"] b by (simp add: cmd_dw_def)
  qed
  have f: "cmd_field_ok (0, 0, 8) ?c" using ok by (simp add: cmd_field_ok_def bad_offset_def)
  have "Cmd_Init C opc dir sz c = (Inr (), set_dw ?c 0 (ucast opc))"
    using dir size(1) SetBits_ok [OF f, of "ucast opc"] b(1) dw [OF ok(3)]
    by (auto simp: Cmd_Init_def sq_apply on_buf_def zoom_apply Cmd_SetByte_def field_bits_def put_byte0)
  then show ?thesis
    using ok dw cmd_dw_set_same [OF ok(1,3)] cmd_dw_set_other [OF ok(1,3)] by auto
qed

section \<open>Properties\<close>

text \<open>C9: Writing a bit field of a command stores the low bits of the value there: the same field then reads
  them back, and every field that does not overlap it, in the same DWORD or another one, reads
  what it read before.\<close>

theorem Cmd_SetBits_GetBits:
  assumes f: "cmd_field_ok (w, off, nb) c"
  shows "\<exists>c'. Cmd_SetBits v w off nb c = (Inr (), c') \<and>
    Cmd_GetBits w off nb c' = (Inr (ucast (take_bit (unat nb) v)), c') \<and>
    (\<forall>w2 off2 nb2. cmd_field_ok (w2, off2, nb2) c \<and> cmd_field_apart (w, off, nb) (w2, off2, nb2) \<longrightarrow>
       fst (Cmd_GetBits w2 off2 nb2 c') = fst (Cmd_GetBits w2 off2 nb2 c))"
proof -
  let ?c = "wr_field (w, off, nb) v c"
  have run: "Cmd_SetBits v w off nb c = (Inr (), ?c)"
    using SetBits_ok [OF f, of v] by (simp add: wr_field_def)
  have rd: "Cmd_GetBits w2 off2 nb2 d = (Inr (ucast (rd_field (w2, off2, nb2) d)), d)"
    if "cmd_field_ok (w2, off2, nb2) d" for w2 off2 nb2 d
    using GetBits_ok [OF that] rd_field_eq [OF that] by simp
  have f': "cmd_field_ok (w, off, nb) ?c" by (rule cmd_fields.ok_wr [OF f f])
  have same: "rd_field (w, off, nb) ?c = take_bit (unat nb) v"
    using rd_wr_field_same [OF f] by (simp add: field_bits_def)
  have other: "fst (Cmd_GetBits w2 off2 nb2 ?c) = fst (Cmd_GetBits w2 off2 nb2 c)"
    if "cmd_field_ok (w2, off2, nb2) c" "cmd_field_apart (w, off, nb) (w2, off2, nb2)" for w2 off2 nb2
    using rd [OF that(1)] rd [OF cmd_fields.ok_wr [OF f that(1)]]
      cmd_fields.rd_wr_apart [OF f that] by simp
  show ?thesis by (rule exI [of _ ?c]) (simp add: run rd [OF f'] same other)
qed

text \<open>A field outside the command, or one that would not lie inside its DWORD, is refused by both
  accessors, and the command is unchanged.\<close>

theorem Cmd_bits_illegal:
  assumes "cmd_ok c" and "cmd_size c \<le> unat w \<or> 32 < (unat off + 1) * unat nb" and "nb \<noteq> 0"
  shows "isl (fst (Cmd_SetBits v w off nb c)) \<and> snd (Cmd_SetBits v w off nb c) = c \<and>
    isl (fst (Cmd_GetBits w off nb c)) \<and> snd (Cmd_GetBits w off nb c) = c"
proof -
  have "Cmd_GetCmdSizeDW c \<le> w \<or> bad_offset off nb"
    using assms good_offset [OF assms(3), of off] by (auto simp: le_GetCmdSizeDW)
  then show ?thesis using assms(3) by (auto simp: Cmd_SetBits_def Cmd_GetBits_def)
qed

text \<open>\<open>Init\<close> with a legal direction and a size of at most 255 DWORDs yields a command of that size that holds the
  opcode in byte 0 and zeros everywhere else.\<close>

theorem Cmd_Init_zeroed:
  assumes "dir \<in> {DATADIR_NONE, DATADIR_TO_DEVICE, DATADIR_FROM_DEVICE}"
    and "unat sz mod 4 = 0" "0 < unat sz" "unat sz < 1024" and "\<not> memfail C (unat sz)"
  shows "\<exists>c'. Cmd_Init C opc dir sz c = (Inr (), c') \<and> fst (Cmd_GetOpcode c') = Inr opc \<and>
    cmd_size c' = unat sz div 4 \<and> fst (Cmd_GetDword 0 c') = Inr (ucast opc) \<and>
    (\<forall>w. 0 < unat w \<and> unat w < cmd_size c' \<longrightarrow> fst (Cmd_GetDword w c') = Inr 0)"
proof -
  obtain c' where c': "Cmd_Init C opc dir sz c = (Inr (), c')" "cmd_ok c'" "cmd_size c' = unat sz div 4"
    "cmd_dw c' 0 = ucast opc" "\<forall>i. 0 < i \<and> i < cmd_size c' \<longrightarrow> cmd_dw c' i = 0"
    using Init_ok [OF assms, of opc c] by blast
  have pos: "0 < cmd_size c'" using c'(3) assms(2,3) by auto
  have f: "cmd_field_ok (0, 0, 8) c'" using c'(2) pos by (simp add: cmd_field_ok_def bad_offset_def)
  have b: "(ucast (ucast (get_field (0, 8) (ucast opc)) :: u64) :: u8) = opc"
    by (rule bit_word_eqI) (auto simp: get_field_def bit_simps)
  have "fst (Cmd_GetOpcode c') = Inr opc"
    by (simp add: Cmd_GetOpcode_def Cmd_GetByte_def bnd_apply GetBits_ok [OF f] c'(4) field_bits_def b)
  then show ?thesis using c' pos by (auto simp: GetDword_ok)
qed

text \<open>The size of a command in DWORDs is cut to eight bits: \<open>Init\<close> with a size that is a multiple of 1024
  bytes always throws, because the command then counts as empty.\<close>

theorem Cmd_Init_1024_throws:
  assumes "unat sz mod 1024 = 0"
  shows "isl (fst (Cmd_Init C opc dir sz c))"
proof -
  obtain k where k: "unat sz = 1024 * k" using assms by (auto simp: mod_eq_0_iff_dvd)
  have "unat ((ucast sz :: u32) div 4) = 256 * k" by (simp add: unat_div_distrib k)
  then have "(ucast ((ucast sz :: u32) div 4) :: u8) = 0"
    by (simp add: word_unat_eq_iff unsigned_ucast_eq take_bit_eq_mod)
  then have z: "Cmd_GetCmdSizeDW (c\<lparr>mDataDir := d, mCmdBuf := b\<rparr>) = 0"
    if "mVirBufSize b = ucast sz" for d b using that by (simp add: Cmd_GetCmdSizeDW_def)
  have size: "mVirBufSize b' = ucast sz"
    if "MemBuffer_InitAlignment C (ucast sz) al True 0 None b = (Inr (), b')" for al b b'
    using that by (auto simp: MemBuffer_InitAlignment_def sq_apply mb_store_def
        split: sum.splits option.splits if_splits)
  show ?thesis
    by (auto simp: Cmd_Init_def sq_apply on_buf_def zoom_apply Cmd_SetByte_def Cmd_SetBits_def z
        dest!: size split: prod.splits sum.splits)
qed

text \<open>An example: a zeroed command of 16 DWORDs, as every command of the repository has.\<close>

definition ex_cmd :: cmd where
  "ex_cmd = \<lparr>c_type = OBJ_ADMINCMD, mDataDir = DATADIR_TO_DEVICE, mCmdName = ''AdminCmd'',
     mCmdBuf = \<lparr>mAllocByNewOperator = False, mRealBaseAddr = Some (replicate 64 0), mVirOff = 0,
       mVirBufSize = 64, mAlignment = 128\<rparr>,
     mBufRW = None, mBufRO = None, mBufSize = 0, mPrpAllowed = 0, mPrpFields = 0,
     mMetaData = MetaDataBuf_new\<rparr>"

lemma ex_cmd_ok: "cmd_ok ex_cmd" "cmd_size ex_cmd = 16"
  by (simp_all add: cmd_ok_def cmd_size_def ex_cmd_def)

lemma Cmd_SetBits_GetBits_witness:
  "\<exists>c'. Cmd_SetBits 0x5a5 10 1 8 ex_cmd = (Inr (), c') \<and>
    Cmd_GetBits 10 1 8 c' = (Inr (ucast (take_bit (unat (8 :: u16)) (0x5a5 :: u32))), c') \<and>
    (\<forall>w2 off2 nb2. cmd_field_ok (w2, off2, nb2) ex_cmd \<and> cmd_field_apart (10, 1, 8) (w2, off2, nb2) \<longrightarrow>
       fst (Cmd_GetBits w2 off2 nb2 c') = fst (Cmd_GetBits w2 off2 nb2 ex_cmd))"
  by (rule Cmd_SetBits_GetBits) (simp add: cmd_field_ok_def bad_offset_def ex_cmd_ok)

lemma Cmd_bits_illegal_witness:
  "isl (fst (Cmd_SetBits 1 10 2 16 ex_cmd)) \<and> snd (Cmd_SetBits 1 10 2 16 ex_cmd) = ex_cmd \<and>
    isl (fst (Cmd_GetBits 10 2 16 ex_cmd)) \<and> snd (Cmd_GetBits 10 2 16 ex_cmd) = ex_cmd"
  by (rule Cmd_bits_illegal) (simp_all add: ex_cmd_ok)

lemma Cmd_Init_zeroed_witness:
  "\<exists>c'. Cmd_Init ex_libc 0x06 DATADIR_FROM_DEVICE 64 ex_cmd = (Inr (), c') \<and>
    fst (Cmd_GetOpcode c') = Inr 0x06 \<and>
    cmd_size c' = unat (64 :: u16) div 4 \<and> fst (Cmd_GetDword 0 c') = Inr (ucast (0x06 :: u8)) \<and>
    (\<forall>w. 0 < unat w \<and> unat w < cmd_size c' \<longrightarrow> fst (Cmd_GetDword w c') = Inr 0)"
  by (rule Cmd_Init_zeroed) (simp_all add: ex_libc_def)

lemma Cmd_Init_1024_throws_witness: "isl (fst (Cmd_Init ex_libc 0x06 DATADIR_NONE 1024 ex_cmd))"
  by (rule Cmd_Init_1024_throws) simp

end
