(* ===== verification/Comp_Entry.thy ===== *)
theory Comp_Entry
  imports Bit_Fields
begin

text \<open>
  Completion elements (Queues/ce.h, ceDefs.h, ce.cpp): the 16-byte record a controller posts for
  every command, the table of status codes, and the checks of \<open>ProcessCE\<close>. A status is named, as
  in the code, by its index in the table. \<open>LogStatus\<close> and \<open>PrintStatus\<close> only write the log.
\<close>

section \<open>The status table\<close>

text \<open>The values of \<open>enum SCT\<close>.\<close>

abbreviation (input) SCT_GENERIC :: u8 where "SCT_GENERIC \<equiv> 0x00"
abbreviation (input) SCT_CMD :: u8 where "SCT_CMD \<equiv> 0x01"
abbreviation (input) SCT_MEDIA :: u8 where "SCT_MEDIA \<equiv> 0x02"
abbreviation (input) SCT_VENDOR :: u8 where "SCT_VENDOR \<equiv> 0x07"
abbreviation (input) SCT_IGNORE :: u8 where "SCT_IGNORE \<equiv> 0xFE"

record CEStatType =
  st_ceStat :: nat
  st_sct :: u8
  st_sc :: u8
  st_desc :: string

definition mkStat :: "nat \<Rightarrow> u8 \<Rightarrow> u8 \<Rightarrow> string \<Rightarrow> CEStatType" where
  "mkStat i sct sc desc = \<lparr>st_ceStat = i, st_sct = sct, st_sc = sc, st_desc = desc\<rparr>"

abbreviation (input) CESTAT_SUCCESS :: nat where "CESTAT_SUCCESS \<equiv> 0"
abbreviation (input) CESTAT_INVAL_FIELD :: nat where "CESTAT_INVAL_FIELD \<equiv> 2"
abbreviation (input) CESTAT_INVALID_QID :: nat where "CESTAT_INVALID_QID \<equiv> 27"
abbreviation (input) CESTAT_IGNORE :: nat where "CESTAT_IGNORE \<equiv> 66"
abbreviation (input) CESTAT_FENCE :: nat where "CESTAT_FENCE \<equiv> 67"

definition mCEStatMetrics :: "CEStatType list" where
  "mCEStatMetrics =
    [mkStat 0 SCT_GENERIC 0x00 ''The cmd completed successfully'',
     mkStat 1 SCT_GENERIC 0x01 ''Invalid cmd opcode'',
     mkStat 2 SCT_GENERIC 0x02 ''Invalid field in cmd'',
     mkStat 3 SCT_GENERIC 0x03 ''Cmd ID conflict'',
     mkStat 4 SCT_GENERIC 0x04 ''Data transfer error'',
     mkStat 5 SCT_GENERIC 0x05 ''Cmd aborted due to power loss notify'',
     mkStat 6 SCT_GENERIC 0x06 ''Internal device error'',
     mkStat 7 SCT_GENERIC 0x07 ''Cmd abort requested'',
     mkStat 8 SCT_GENERIC 0x08 ''Cmd aborted due to SQ deletion'',
     mkStat 9 SCT_GENERIC 0x09 ''Cmd aborted due to failed fused cmd'',
     mkStat 10 SCT_GENERIC 0x0a ''Cmd aborted due to missing fused cmd'',
     mkStat 11 SCT_GENERIC 0x0b ''Invalid namespace or format'',
     mkStat 12 SCT_GENERIC 0x0c ''Command Sequence Error'',
     mkStat 13 SCT_GENERIC 0x0d ''Invalid SGL Segment Descriptor'',
     mkStat 14 SCT_GENERIC 0x0e ''Invalid Number of SGL Descriptors'',
     mkStat 15 SCT_GENERIC 0x0f ''Data SGL Length Invalid'',
     mkStat 16 SCT_GENERIC 0x10 ''Metadata SGL Length Invalid'',
     mkStat 17 SCT_GENERIC 0x11 ''SGL Descriptor Type Invalid'',
     mkStat 18 SCT_GENERIC 0x12 ''Invalid Use Of Controller Memory Buffer'',
     mkStat 19 SCT_GENERIC 0x13 ''PRP Offset Invalid'',
     mkStat 20 SCT_GENERIC 0x14 ''Atomic Write Unit Exceeded'',
     mkStat 21 SCT_GENERIC 0x80 ''LBA out of range'',
     mkStat 22 SCT_GENERIC 0x81 ''Capacity exceeded'',
     mkStat 23 SCT_GENERIC 0x82 ''Namespace not ready'',
     mkStat 24 SCT_GENERIC 0x83 ''Reservation Conflict'',
     mkStat 25 SCT_GENERIC 0x84 ''Format In Progress'',
     mkStat 26 SCT_CMD 0x00 ''Completion Q invalid'',
     mkStat 27 SCT_CMD 0x01 ''Invalid queue ID'',
     mkStat 28 SCT_CMD 0x02 ''Maximum queue size exceeded'',
     mkStat 29 SCT_CMD 0x03 ''Abort cmd limit exceeded'',
     mkStat 30 SCT_CMD 0x04 ''Reserved SCT Value'',
     mkStat 31 SCT_CMD 0x05 ''Async request limit exceeded'',
     mkStat 32 SCT_CMD 0x06 ''Invalid firmware slot'',
     mkStat 33 SCT_CMD 0x07 ''Invalid firmware image'',
     mkStat 34 SCT_CMD 0x08 ''Invalid interrupt vector'',
     mkStat 35 SCT_CMD 0x09 ''Invalid log page'',
     mkStat 36 SCT_CMD 0x0a ''Invalid format'',
     mkStat 37 SCT_CMD 0x0b ''Firmware Application Required'',
     mkStat 38 SCT_CMD 0x0c ''Invalid Queue Deletion'',
     mkStat 39 SCT_CMD 0x0d ''Feature Identifier Not Saveable'',
     mkStat 40 SCT_CMD 0x0e ''Feature Not Changeable'',
     mkStat 41 SCT_CMD 0x0f ''Feature Not Namespace Specific'',
     mkStat 42 SCT_CMD 0x10 ''Firmware Activation Requires NVM SubsystemReset'',
     mkStat 43 SCT_CMD 0x11 ''Firmware Activation Requires Reset'',
     mkStat 44 SCT_CMD 0x12 ''Firmware Activation Requires Maximum Time Violation'',
     mkStat 45 SCT_CMD 0x13 ''Firmware Activation Prohibitied'',
     mkStat 46 SCT_CMD 0x14 ''Overlapping Range'',
     mkStat 47 SCT_CMD 0x15 ''Namespace Insufficient Capacity'',
     mkStat 48 SCT_CMD 0x16 ''Namespace Identifier Unavailable'',
     mkStat 49 SCT_CMD 0x17 ''RESERVED'',
     mkStat 50 SCT_CMD 0x18 ''Namespace Already Attached'',
     mkStat 51 SCT_CMD 0x19 ''Namespace Is Private'',
     mkStat 52 SCT_CMD 0x1a ''Namespace Not Attached'',
     mkStat 53 SCT_CMD 0x1b ''Thin Provisioning Not Supported'',
     mkStat 54 SCT_CMD 0x1c ''Controller List Invalid'',
     mkStat 55 SCT_CMD 0x80 ''Conflicting attributes'',
     mkStat 56 SCT_CMD 0x81 ''Invalid protection information'',
     mkStat 57 SCT_CMD 0x82 ''Attempt to write to read only range'',
     mkStat 58 SCT_MEDIA 0x80 ''Write fault'',
     mkStat 59 SCT_MEDIA 0x81 ''Unrecovered read error'',
     mkStat 60 SCT_MEDIA 0x82 ''End-to-end guard check error'',
     mkStat 61 SCT_MEDIA 0x83 ''End-to-end app tag check error'',
     mkStat 62 SCT_MEDIA 0x84 ''End-to-end reference tag check error'',
     mkStat 63 SCT_MEDIA 0x85 ''Compare failure'',
     mkStat 64 SCT_MEDIA 0x86 ''Access denied'',
     mkStat 65 SCT_MEDIA 0x87 ''Deallocated or Unwritten Logical Block'',
     mkStat 66 SCT_IGNORE 0xFE ''Placeholder for enum to ignore CE validation'']"

section \<open>Completion elements\<close>

text \<open>The record by its four DWORDs; the named fields are cut out of them.\<close>

record CE =
  ce_dw0 :: u32
  ce_dw1 :: u32
  ce_dw2 :: u32
  ce_dw3 :: u32

definition ce_of_bytes :: "u8 list \<Rightarrow> CE" where
  "ce_of_bytes bs = \<lparr>ce_dw0 = of_le32 (take 4 bs), ce_dw1 = of_le32 (take 4 (drop 4 bs)),
     ce_dw2 = of_le32 (take 4 (drop 8 bs)), ce_dw3 = of_le32 (take 4 (drop 12 bs))\<rparr>"

definition ce_SQHD :: "CE \<Rightarrow> u16" where
  "ce_SQHD ce = ucast (ce_dw2 ce)"

definition ce_SQID :: "CE \<Rightarrow> u16" where
  "ce_SQID ce = ucast (drop_bit 16 (ce_dw2 ce))"

definition ce_CID :: "CE \<Rightarrow> u16" where
  "ce_CID ce = ucast (ce_dw3 ce)"

text \<open>The status field \<open>SF\<close>: its 16 bits, and the bit fields of \<open>StatbyBits\<close>.\<close>

definition ce_SF :: "CE \<Rightarrow> u16" where
  "ce_SF ce = ucast (drop_bit 16 (ce_dw3 ce))"

record StatbyBits =
  sf_P :: bool
  sf_SC :: u8
  sf_SCT :: u8
  sf_reserved :: u8
  sf_M :: bool
  sf_DNR :: bool

definition sf_bits :: "u16 \<Rightarrow> StatbyBits" where
  "sf_bits sf = \<lparr>sf_P = bit sf 0, sf_SC = ucast (drop_bit 1 sf),
     sf_SCT = ucast (take_bit 3 (drop_bit 9 sf)), sf_reserved = ucast (take_bit 2 (drop_bit 12 sf)),
     sf_M = bit sf 14, sf_DNR = bit sf 15\<rparr>"

definition ce_SFb :: "CE \<Rightarrow> StatbyBits" where
  "ce_SFb ce = sf_bits (ce_SF ce)"

text \<open>The 15 bits above the phase bit (\<open>StatbyType::status\<close>).\<close>

definition ce_status :: "CE \<Rightarrow> u16" where
  "ce_status ce = drop_bit 1 (ce_SF ce)"

section \<open>ProcessCE\<close>

definition ProcessCE_ValidatePeek :: "CE \<Rightarrow> nat \<Rightarrow> bool" where
  "ProcessCE_ValidatePeek ce status =
     (let b = ce_SFb ce; exp = mCEStatMetrics ! status; ok = mCEStatMetrics ! CESTAT_SUCCESS in
      if sf_SCT b \<noteq> st_sct exp \<or> sf_SC b \<noteq> st_sc exp then False
      else if sf_SCT b = st_sct ok \<and> sf_SC b = st_sc ok then (if sf_M b then False else True)
      else True)"

definition ProcessCE_Validate :: "CE \<Rightarrow> nat \<Rightarrow> ex + unit" where
  "ProcessCE_Validate ce status =
     (if ProcessCE_ValidatePeek ce status = False then Inl (FrmwkEx []) else Inr ())"

definition ProcessCE_ValidateDetailed :: "CE \<Rightarrow> StatbyBits \<Rightarrow> ex + unit" where
  "ProcessCE_ValidateDetailed ce status =
     (let b = ce_SFb ce; ok = mCEStatMetrics ! CESTAT_SUCCESS in
      if sf_DNR status \<noteq> sf_DNR b \<or> sf_M status \<noteq> sf_M b \<or> sf_P status \<noteq> sf_P b \<or>
         sf_SC status \<noteq> sf_SC b \<or> sf_SCT status \<noteq> sf_SCT b
      then Inl (FrmwkEx ''Expected (DNR:M:P:SCT:SC) ...'')
      else if sf_SCT b = st_sct ok \<and> sf_SC b = st_sc ok
      then (if sf_M b then Inl (FrmwkEx ''Illegal 'M' bit set while CE indicates success'') else Inr ())
      else Inr ())"

definition ProcessCE_InvalidatePeek :: "CE \<Rightarrow> nat \<Rightarrow> bool" where
  "ProcessCE_InvalidatePeek ce status =
     (let b = ce_SFb ce; ok = mCEStatMetrics ! CESTAT_SUCCESS in
      if sf_SCT b = st_sct ok \<and> sf_SC b = st_sc ok then False else True)"

fun stat_loop :: "CEStatType list \<Rightarrow> u8 \<Rightarrow> u8 \<Rightarrow> ex + nat" where
  "stat_loop [] sct sc = Inl (FrmwkExPtr ''CE has unknown status'')"
| "stat_loop (m # ms) sct sc =
     (if st_sct m = sct \<and> st_sc m = sc then Inr (st_ceStat m) else stat_loop ms sct sc)"

definition ProcessCE_GetCEStat :: "CE \<Rightarrow> ex + nat" where
  "ProcessCE_GetCEStat ce = stat_loop mCEStatMetrics (sf_SCT (ce_SFb ce)) (sf_SC (ce_SFb ce))"

text \<open>A line of text is its format string, its numeric arguments and its string argument.\<close>

type_synonym text_line = "string \<times> u32 list \<times> string"

definition SCT_line :: "u8 \<Rightarrow> text_line" where
  "SCT_line sct =
     ((if sct = SCT_GENERIC then ''  SCT = 0x%01X  (generic cmd status)''
       else if sct = SCT_CMD then ''  SCT = 0x%01X  (cmd specific errors)''
       else if sct = SCT_MEDIA then ''  SCT = 0x%01X  (media errors)''
       else if sct = SCT_VENDOR then ''  SCT = 0x%01X  (vendor specific)''
       else ''  SCT = 0x%01X  (??? unknown/undefined/illegal)''), [ucast sct], [])"

fun SC_loop :: "CEStatType list \<Rightarrow> u8 \<Rightarrow> u8 \<Rightarrow> text_line" where
  "SC_loop [] sct sc = (''Detected unknown combo: SCT:SC = 0x%01X,0x%02X'', [ucast sct, ucast sc], [])"
| "SC_loop (m # ms) sct sc =
     (if st_sct m = sct
      then (if st_sc m = sc then (''  SC  = 0x%02X (%s)'', [ucast sc], st_desc m) else SC_loop ms sct sc)
      else SC_loop ms sct sc)"

text \<open>The \<open>default\<close> branch of the code's \<open>switch\<close> pushes the line that is pushed after it, too.\<close>

definition ProcessCE_DecodeStatus :: "CE \<Rightarrow> text_line list" where
  "ProcessCE_DecodeStatus ce =
     (let b = ce_SFb ce; sct = sf_SCT b in
      [(''Decode: CE.status=0x%04X'', [ucast (ce_status ce)], [])] @
      (if sf_DNR b then [(''  DNR = 0x%01X (do not retry)'', [1], [])] else []) @
      (if sf_M b then [(''  M   = 0x%01X (more status available)'', [1], [])] else []) @
      (if sct = SCT_GENERIC \<or> sct = SCT_CMD \<or> sct = SCT_MEDIA \<or> sct = SCT_VENDOR then []
       else [SCT_line sct]) @
      [SCT_line sct] @
      (if sct = SCT_VENDOR then [(''  SC  = 0x%02X (Vendor specific)'', [ucast (sf_SC b)], [])]
       else [SC_loop mCEStatMetrics sct (sf_SC b)]) @
      (if ce_status ce \<noteq> 0
       then [(''Detected unsuccessful CE...'', [], []), (''  DWORD0: 0x%08X'', [ce_dw0 ce], []),
             (''  DWORD1: 0x%08X'', [ce_dw1 ce], []), (''  DWORD2: 0x%08X'', [ce_dw2 ce], []),
             (''  DWORD3: 0x%08X'', [ce_dw3 ce], [])]
       else []))"

section \<open>The table has one row per status\<close>

lemma metrics_length: "length mCEStatMetrics = CESTAT_FENCE"
  by (simp add: mCEStatMetrics_def)

lemma metrics_index: "map st_ceStat mCEStatMetrics = [0..<CESTAT_FENCE]"
  by (simp add: mCEStatMetrics_def mkStat_def upt_rec)

lemma metrics_distinct: "distinct (map (\<lambda>m. (st_sct m, st_sc m)) mCEStatMetrics)"
  by (simp add: mCEStatMetrics_def mkStat_def)

lemma metrics_row: "i < CESTAT_FENCE \<Longrightarrow> st_ceStat (mCEStatMetrics ! i) = i"
  using metrics_index metrics_length by (metis add_0 diff_zero length_map length_upt nth_map nth_upt)

text \<open>Looking up a table whose keys are distinct.\<close>

lemma stat_loop_Inr:
  assumes "distinct (map (\<lambda>m. (st_sct m, st_sc m)) ms)"
  shows "stat_loop ms sct sc = Inr i \<longleftrightarrow>
    (\<exists>k < length ms. st_sct (ms ! k) = sct \<and> st_sc (ms ! k) = sc \<and> st_ceStat (ms ! k) = i)"
  using assms
proof (induction ms)
  case Nil
  then show ?case by simp
next
  case (Cons m ms)
  show ?case
  proof (cases "st_sct m = sct \<and> st_sc m = sc")
    case True
    have "\<not> (st_sct (ms ! k) = sct \<and> st_sc (ms ! k) = sc)" if "k < length ms" for k
    proof -
      have "(st_sct (ms ! k), st_sc (ms ! k)) \<in> (\<lambda>m. (st_sct m, st_sc m)) ` set ms"
        using nth_mem [OF that] by blast
      then show ?thesis using Cons.prems True by auto
    qed
    then show ?thesis using True by (auto simp: less_Suc_eq_0_disj)
  next
    case False
    then show ?thesis using Cons by (auto simp: less_Suc_eq_0_disj)
  qed
qed

lemma sct_narrow: "sf_SCT (ce_SFb ce) < 8"
  by (simp add: ce_SFb_def sf_bits_def word_less_nat_alt unsigned_ucast_eq unsigned_take_bit_eq
      take_bit_eq_mod unat_mod_distrib)

lemma GetCEStat_iff:
  "ProcessCE_GetCEStat ce = Inr i \<longleftrightarrow>
     i < CESTAT_FENCE \<and> st_sct (mCEStatMetrics ! i) = sf_SCT (ce_SFb ce) \<and>
     st_sc (mCEStatMetrics ! i) = sf_SC (ce_SFb ce)"
  unfolding ProcessCE_GetCEStat_def stat_loop_Inr [OF metrics_distinct] metrics_length
  using metrics_row by auto

lemma ignore_row: "st_sct (mCEStatMetrics ! CESTAT_IGNORE) = SCT_IGNORE"
  by (simp add: mCEStatMetrics_def mkStat_def)

lemma success_row: "st_sct (mCEStatMetrics ! CESTAT_SUCCESS) = 0" "st_sc (mCEStatMetrics ! CESTAT_SUCCESS) = 0"
  by (simp_all add: mCEStatMetrics_def mkStat_def)

lemma GetCEStat_not_ignore: "ProcessCE_GetCEStat ce \<noteq> Inr CESTAT_IGNORE"
proof
  assume "ProcessCE_GetCEStat ce = Inr CESTAT_IGNORE"
  then have "sf_SCT (ce_SFb ce) = SCT_IGNORE" using GetCEStat_iff ignore_row by metis
  then show False using sct_narrow [of ce] by (simp add: word_less_nat_alt)
qed

lemma ValidatePeek_iff:
  "status < CESTAT_FENCE \<Longrightarrow> ProcessCE_ValidatePeek ce status \<longleftrightarrow>
     ProcessCE_GetCEStat ce = Inr status \<and> (status = CESTAT_SUCCESS \<longrightarrow> \<not> sf_M (ce_SFb ce))"
proof -
  assume st: "status < CESTAT_FENCE"
  have "ProcessCE_GetCEStat ce = Inr status \<Longrightarrow> sf_SCT (ce_SFb ce) = 0 \<and> sf_SC (ce_SFb ce) = 0 \<Longrightarrow>
      status = CESTAT_SUCCESS"
    using GetCEStat_iff [of ce CESTAT_SUCCESS] success_row by auto
  moreover have "ProcessCE_GetCEStat ce = Inr status \<longleftrightarrow>
      sf_SCT (ce_SFb ce) = st_sct (mCEStatMetrics ! status) \<and>
      sf_SC (ce_SFb ce) = st_sc (mCEStatMetrics ! status)"
    using GetCEStat_iff [of ce status] st by metis
  moreover have "status = CESTAT_SUCCESS \<Longrightarrow> st_sct (mCEStatMetrics ! status) = 0 \<and>
      st_sc (mCEStatMetrics ! status) = 0"
    using success_row by simp
  ultimately show ?thesis
    unfolding ProcessCE_ValidatePeek_def Let_def success_row by metis
qed

section \<open>Properties\<close>

text \<open>\<open>GetCEStat\<close> returns row \<open>i\<close> of the table exactly when the completion's status code type and status code
  are those of the row (the placeholder at the end of the table is never returned), and otherwise
  throws a pointer to an exception.\<close>

theorem GetCEStat_decodes:
  "(ProcessCE_GetCEStat ce = Inr i \<longleftrightarrow>
      i < CESTAT_IGNORE \<and> st_sct (mCEStatMetrics ! i) = sf_SCT (ce_SFb ce) \<and>
      st_sc (mCEStatMetrics ! i) = sf_SC (ce_SFb ce)) \<and>
   (isl (ProcessCE_GetCEStat ce) \<longrightarrow> ProcessCE_GetCEStat ce = Inl (FrmwkExPtr ''CE has unknown status''))"
proof -
  have "stat_loop ms sct sc = Inl e \<Longrightarrow> e = FrmwkExPtr ''CE has unknown status''" for ms sct sc e
    by (induction ms) (auto split: if_splits)
  then have "isl (ProcessCE_GetCEStat ce) \<longrightarrow>
      ProcessCE_GetCEStat ce = Inl (FrmwkExPtr ''CE has unknown status'')"
    by (auto simp: ProcessCE_GetCEStat_def isl_def)
  moreover have "i < CESTAT_FENCE \<and> i \<noteq> CESTAT_IGNORE \<longleftrightarrow> i < CESTAT_IGNORE" by auto
  ultimately show ?thesis
    using GetCEStat_iff [of ce i] GetCEStat_not_ignore [of ce] by (metis (no_types, lifting))
qed

text \<open>\<open>Validate\<close> accepts a completion exactly when its decoded status is the expected one and, for a
  success, the 'more' bit is clear.\<close>

theorem Validate_accepts_iff:
  assumes "status < CESTAT_FENCE"
  shows "ProcessCE_Validate ce status = Inr () \<longleftrightarrow>
    ProcessCE_GetCEStat ce = Inr status \<and> (status = CESTAT_SUCCESS \<longrightarrow> \<not> sf_M (ce_SFb ce))"
  using ValidatePeek_iff [OF assms] by (auto simp: ProcessCE_Validate_def)

text \<open>\<open>InvalidatePeek\<close>, documented to return false when the completion has the given unexpected status,
  ignores that status: it returns false exactly for a successful completion.\<close>

theorem InvalidatePeek_ignores_status:
  "ProcessCE_InvalidatePeek ce status \<longleftrightarrow> ProcessCE_GetCEStat ce \<noteq> Inr CESTAT_SUCCESS"
  using GetCEStat_iff [of ce CESTAT_SUCCESS] success_row
  by (auto simp: ProcessCE_InvalidatePeek_def Let_def)

text \<open>The line that names the status code type stands once in the decoded text of a completion with a known
  type, and twice when the type is one of the reserved values.\<close>

theorem DecodeStatus_SCT_line:
  "count_list (ProcessCE_DecodeStatus ce) (SCT_line (sf_SCT (ce_SFb ce))) =
     (if sf_SCT (ce_SFb ce) \<in> {SCT_GENERIC, SCT_CMD, SCT_MEDIA, SCT_VENDOR} then 1 else 2)"
proof -
  have "SC_loop ms sct sc \<noteq> SCT_line sct'" for ms sct sc sct'
    by (induction ms) (auto simp: SCT_line_def)
  then have sc: "count_list [SC_loop mCEStatMetrics sct v] (SCT_line sct') = 0" for sct v sct'
    by simp
  have other: "count_list xs (SCT_line sct) = 0" if "\<forall>x \<in> set xs. take 5 (fst x) \<noteq> ''  SCT''" for xs sct
    using that by (induction xs) (auto simp: SCT_line_def)
  have 1: "count_list [(''Decode: CE.status=0x%04X'', v, [])] (SCT_line sct) = 0"
      "count_list (if d then [(''  DNR = 0x%01X (do not retry)'', v, [])] else []) (SCT_line sct) = 0"
      "count_list (if d then [(''  M   = 0x%01X (more status available)'', v, [])] else []) (SCT_line sct) = 0"
      for v d sct by (rule other, simp)+
  have 2: "count_list [(''  SC  = 0x%02X (Vendor specific)'', v, [])] (SCT_line sct) = 0"
      "count_list (if d then [(''Detected unsuccessful CE...'', [], []), (''  DWORD0: 0x%08X'', w, []),
         (''  DWORD1: 0x%08X'', x, []), (''  DWORD2: 0x%08X'', y, []), (''  DWORD3: 0x%08X'', z, [])]
       else []) (SCT_line sct) = 0"
      for v w x y z d sct by (cases d; rule other; simp)+
  have 3: "count_list (if d then [(''  SC  = 0x%02X (Vendor specific)'', v, [])]
       else [SC_loop mCEStatMetrics sct u]) (SCT_line sct') = 0" for d v sct sct' u
    by (simp only: 2 sc if_distrib [of "\<lambda>xs. count_list xs _"] if_cancel)
  have 4: "count_list (if d then [] else [y]) y = (if d then 0 else 1)" "count_list [y] y = 1"
    for d and y :: text_line by simp_all
  show ?thesis
    unfolding ProcessCE_DecodeStatus_def Let_def count_list_append 1 2 3 4 by simp
qed

lemma Validate_accepts_iff_witness:
  "ProcessCE_Validate \<lparr>ce_dw0 = 0, ce_dw1 = 0, ce_dw2 = 0, ce_dw3 = 0x02030001\<rparr> 27 = Inr () \<longleftrightarrow>
    ProcessCE_GetCEStat \<lparr>ce_dw0 = 0, ce_dw1 = 0, ce_dw2 = 0, ce_dw3 = 0x02030001\<rparr> = Inr 27 \<and>
    ((27 :: nat) = CESTAT_SUCCESS \<longrightarrow>
       \<not> sf_M (ce_SFb \<lparr>ce_dw0 = 0, ce_dw1 = 0, ce_dw2 = 0, ce_dw3 = 0x02030001\<rparr>))"
  by (rule Validate_accepts_iff) simp

lemma GetCEStat_decodes_witness:
  "ProcessCE_GetCEStat \<lparr>ce_dw0 = 0, ce_dw1 = 0, ce_dw2 = 0, ce_dw3 = 0x0A000000\<rparr> =
     Inl (FrmwkExPtr ''CE has unknown status'')"
proof -
  have "isl (ProcessCE_GetCEStat \<lparr>ce_dw0 = 0, ce_dw1 = 0, ce_dw2 = 0, ce_dw3 = 0x0A000000\<rparr>)" by code_simp
  then show ?thesis
    using GetCEStat_decodes [of "\<lparr>ce_dw0 = 0, ce_dw1 = 0, ce_dw2 = 0, ce_dw3 = 0x0A000000\<rparr>"] by blast
qed

end
