(* ===== verification/Ctrlr_Cap.thy ===== *)
theory Ctrlr_Cap
  imports Regs Bit_Fields
begin

text \<open>
  \<open>CtrlrCap\<close> (Singletons/ctrlrCap.cpp): the controller capabilities register CAP, read once when
  the object is built, and the getters of its fields, whose layout depends on the targeted
  revision of the specification. A getter returns its flag and its reference parameter; when the
  register could not be read, the fields are cut from an uninitialised 64-bit local variable.
\<close>

section \<open>State\<close>

record ctrlr_cap =
  mSpecRev :: SpecRev
  mRegCAP :: u64
  readSuccess :: bool

definition CtrlrCap_CtrlrCap ::
  "libc \<Rightarrow> 'd dnvme \<Rightarrow> SpecRev \<Rightarrow> (('d, 'm) registers_scheme, ctrlr_cap) prog" where
  "CtrlrCap_CtrlrCap C drv specRev =
     bnd (Registers_Read_ctl drv CTLSPC_CAP (undef64 C)) (\<lambda>(ok, val).
       ret \<lparr>mSpecRev = specRev, mRegCAP = val, readSuccess = ok\<rparr>)"

definition CtrlrCap_ReadRegCAP :: "ctrlr_cap \<Rightarrow> u64 \<Rightarrow> bool \<times> u64" where
  "CtrlrCap_ReadRegCAP c regVal = (readSuccess c, if readSuccess c then mRegCAP c else regVal)"

definition CtrlrCap_GetRegValue :: "libc \<Rightarrow> ctrlr_cap \<Rightarrow> u64 \<Rightarrow> nat \<Rightarrow> bool \<times> u16" where
  "CtrlrCap_GetRegValue C c regMask bitShift =
     (case CtrlrCap_ReadRegCAP c (undef64 C) of (retVal, regVal) \<Rightarrow>
        (retVal, ucast (drop_bit bitShift (regVal AND regMask))))"

section \<open>Getters\<close>

definition CtrlrCap_GetRESVD0 :: "libc \<Rightarrow> ctrlr_cap \<Rightarrow> bool \<times> u8" where
  "CtrlrCap_GetRESVD0 C c =
     (case CtrlrCap_GetRegValue C c 0xff00000000000000 56 of (r, tmp) \<Rightarrow> (r, ucast tmp))"

definition CtrlrCap_GetMPSMAX :: "libc \<Rightarrow> ctrlr_cap \<Rightarrow> bool \<times> u8" where
  "CtrlrCap_GetMPSMAX C c =
     (case CtrlrCap_GetRegValue C c 0x00f0000000000000 52 of (r, tmp) \<Rightarrow> (r, ucast tmp))"

definition CtrlrCap_GetMPSMIN :: "libc \<Rightarrow> ctrlr_cap \<Rightarrow> bool \<times> u8" where
  "CtrlrCap_GetMPSMIN C c =
     (case CtrlrCap_GetRegValue C c 0x000f000000000000 48 of (r, tmp) \<Rightarrow> (r, ucast tmp))"

definition CtrlrCap_GetRESVD1 :: "libc \<Rightarrow> ctrlr_cap \<Rightarrow> bool \<times> u8" where
  "CtrlrCap_GetRESVD1 C c =
     (case (if mSpecRev c = SPECREV_10b then CtrlrCap_GetRegValue C c 0x0000fe0000000000 41
            else CtrlrCap_GetRegValue C c 0x0000e00000000000 45) of
        (r, tmp) \<Rightarrow> (r, ucast tmp))"

definition CtrlrCap_GetCSS :: "libc \<Rightarrow> ctrlr_cap \<Rightarrow> bool \<times> u8" where
  "CtrlrCap_GetCSS C c =
     (case (if mSpecRev c = SPECREV_10b then CtrlrCap_GetRegValue C c 0x000001e000000000 37
            else CtrlrCap_GetRegValue C c 0x00001fe000000000 37) of
        (r, tmp) \<Rightarrow> (r, ucast tmp))"

definition CtrlrCap_GetNVMCSS :: "libc \<Rightarrow> ctrlr_cap \<Rightarrow> bool \<times> bool" where
  "CtrlrCap_GetNVMCSS C c = (case CtrlrCap_GetCSS C c of (r, tmp) \<Rightarrow> (r, tmp AND 0x01 \<noteq> 0))"

definition CtrlrCap_GetRESVD2 :: "libc \<Rightarrow> ctrlr_cap \<Rightarrow> ex + bool \<times> u8" where
  "CtrlrCap_GetRESVD2 C c =
     (if mSpecRev c = SPECREV_10b
      then (case CtrlrCap_GetRegValue C c 0x0000001000000000 36 of (r, tmp) \<Rightarrow> Inr (r, ucast tmp))
      else Inl (FrmwkEx ''Field does not exist in current SpecRev''))"

definition CtrlrCap_GetNSSRS :: "libc \<Rightarrow> ctrlr_cap \<Rightarrow> bool \<times> bool" where
  "CtrlrCap_GetNSSRS C c =
     (case CtrlrCap_GetRegValue C c 0x0000001000000000 36 of (r, tmp) \<Rightarrow> (r, tmp \<noteq> 0))"

definition CtrlrCap_GetDSTRD :: "libc \<Rightarrow> ctrlr_cap \<Rightarrow> bool \<times> u8" where
  "CtrlrCap_GetDSTRD C c =
     (case CtrlrCap_GetRegValue C c 0x0000000f00000000 32 of (r, tmp) \<Rightarrow> (r, ucast tmp))"

definition CtrlrCap_GetTO :: "libc \<Rightarrow> ctrlr_cap \<Rightarrow> bool \<times> u8" where
  "CtrlrCap_GetTO C c =
     (case CtrlrCap_GetRegValue C c 0x00000000ff000000 24 of (r, tmp) \<Rightarrow> (r, ucast tmp))"

definition CtrlrCap_GetRESVD3 :: "libc \<Rightarrow> ctrlr_cap \<Rightarrow> bool \<times> u8" where
  "CtrlrCap_GetRESVD3 C c =
     (case CtrlrCap_GetRegValue C c 0x0000000000f80000 19 of (r, tmp) \<Rightarrow> (r, ucast tmp))"

definition CtrlrCap_GetAMS :: "libc \<Rightarrow> ctrlr_cap \<Rightarrow> bool \<times> u8" where
  "CtrlrCap_GetAMS C c =
     (case CtrlrCap_GetRegValue C c 0x0000000000060000 17 of (r, tmp) \<Rightarrow> (r, ucast tmp))"

definition CtrlrCap_GetCQR :: "libc \<Rightarrow> ctrlr_cap \<Rightarrow> bool \<times> bool" where
  "CtrlrCap_GetCQR C c =
     (case CtrlrCap_GetRegValue C c 0x0000000000010000 16 of (r, tmp) \<Rightarrow> (r, tmp \<noteq> 0))"

definition CtrlrCap_GetMQES :: "libc \<Rightarrow> ctrlr_cap \<Rightarrow> bool \<times> u16" where
  "CtrlrCap_GetMQES C c = CtrlrCap_GetRegValue C c 0x000000000000ffff 0"

section \<open>What the getters read\<close>

lemmas cap_getter_defs =
  CtrlrCap_GetRESVD0_def CtrlrCap_GetMPSMAX_def CtrlrCap_GetMPSMIN_def CtrlrCap_GetRESVD1_def
  CtrlrCap_GetCSS_def CtrlrCap_GetRESVD2_def CtrlrCap_GetNSSRS_def CtrlrCap_GetDSTRD_def
  CtrlrCap_GetTO_def CtrlrCap_GetRESVD3_def CtrlrCap_GetAMS_def CtrlrCap_GetCQR_def
  CtrlrCap_GetMQES_def

text \<open>Every mask of the register's header file is a field mask.\<close>

lemma cap_masks:
  "(0xff00000000000000 :: u64) = push_bit 56 (mask 8)" "(0x00f0000000000000 :: u64) = push_bit 52 (mask 4)"
  "(0x000f000000000000 :: u64) = push_bit 48 (mask 4)" "(0x0000fe0000000000 :: u64) = push_bit 41 (mask 7)"
  "(0x0000e00000000000 :: u64) = push_bit 45 (mask 3)" "(0x000001e000000000 :: u64) = push_bit 37 (mask 4)"
  "(0x00001fe000000000 :: u64) = push_bit 37 (mask 8)" "(0x0000001000000000 :: u64) = push_bit 36 (mask 1)"
  "(0x0000000f00000000 :: u64) = push_bit 32 (mask 4)" "(0x00000000ff000000 :: u64) = push_bit 24 (mask 8)"
  "(0x0000000000f80000 :: u64) = push_bit 19 (mask 5)" "(0x0000000000060000 :: u64) = push_bit 17 (mask 2)"
  "(0x0000000000010000 :: u64) = push_bit 16 (mask 1)" "(0x000000000000ffff :: u64) = push_bit 0 (mask 16)"
  by (simp_all add: mask_eq_exp_minus_1)

lemma GetRegValue_field:
  assumes "readSuccess c"
  shows "CtrlrCap_GetRegValue C c (push_bit sh (mask w)) sh =
    (True, ucast (take_bit w (drop_bit sh (mRegCAP c))))"
  using assms
  by (simp only: CtrlrCap_GetRegValue_def CtrlrCap_ReadRegCAP_def mask_shift_64 if_True prod.case)

lemma narrow_field_u8: "w \<le> 8 \<Longrightarrow> ucast (ucast (ucast (take_bit w (x :: u64)) :: u16) :: u8) = take_bit w x"
  by (rule bit_word_eqI) (auto simp: bit_simps)

lemma narrow_field_u16: "w \<le> 16 \<Longrightarrow> ucast (ucast (take_bit w (x :: u64)) :: u16) = take_bit w x"
  by (rule bit_word_eqI) (auto simp: bit_simps)

text \<open>The bits of a word from \<open>sh\<close> on, cut at \<open>w\<close>.\<close>

definition cut :: "u64 \<Rightarrow> nat \<Rightarrow> nat \<Rightarrow> u64" where
  "cut v sh w = push_bit sh (take_bit w (drop_bit sh v))"

lemma cut_join: "take_bit sh v OR cut v sh w = take_bit (sh + w) v"
  by (simp add: cut_def take_bit_split)

lemma cut_join_assoc: "take_bit sh v OR (cut v sh w OR x) = take_bit (sh + w) v OR x"
  by (simp add: cut_join or.assoc [symmetric])

lemma bit_shift_u8: "w \<le> 8 \<Longrightarrow>
    push_bit sh (ucast (ucast (ucast (take_bit w (drop_bit sh v)) :: u16) :: u8)) = cut v sh w"
  by (simp add: cut_def narrow_field_u8)

lemma bit_shift_u16: "w \<le> 16 \<Longrightarrow>
    push_bit sh (ucast (ucast (take_bit w (drop_bit sh v)) :: u16)) = cut v sh w"
  by (simp add: cut_def narrow_field_u16)

lemma bit_shift_bool:
    "push_bit sh (of_bool (ucast (take_bit 1 (drop_bit sh v)) \<noteq> (0 :: u16))) = cut v sh 1"
proof -
  have "take_bit 1 (drop_bit sh v) = (of_bool (bit v sh) :: u64)"
    by (simp add: take_bit_eq_mod mod_2_eq_odd bit_iff_odd_drop_bit)
  then show ?thesis by (simp add: cut_def)
qed

lemma cut_16: "ucast (ucast (take_bit 16 (drop_bit 0 v)) :: u16) = take_bit 16 (v :: u64)"
  by (simp add: narrow_field_u16)

text \<open>What each getter returns once the register has been read.\<close>

lemma CAP_getters:
  assumes "readSuccess c"
  shows
    "CtrlrCap_GetMQES C c = (True, ucast (take_bit 16 (drop_bit 0 (mRegCAP c))))"
    "CtrlrCap_GetCQR C c = (True, ucast (take_bit 1 (drop_bit 16 (mRegCAP c))) \<noteq> (0 :: u16))"
    "CtrlrCap_GetAMS C c = (True, ucast (ucast (take_bit 2 (drop_bit 17 (mRegCAP c))) :: u16))"
    "CtrlrCap_GetRESVD3 C c = (True, ucast (ucast (take_bit 5 (drop_bit 19 (mRegCAP c))) :: u16))"
    "CtrlrCap_GetTO C c = (True, ucast (ucast (take_bit 8 (drop_bit 24 (mRegCAP c))) :: u16))"
    "CtrlrCap_GetDSTRD C c = (True, ucast (ucast (take_bit 4 (drop_bit 32 (mRegCAP c))) :: u16))"
    "CtrlrCap_GetNSSRS C c = (True, ucast (take_bit 1 (drop_bit 36 (mRegCAP c))) \<noteq> (0 :: u16))"
    "CtrlrCap_GetMPSMIN C c = (True, ucast (ucast (take_bit 4 (drop_bit 48 (mRegCAP c))) :: u16))"
    "CtrlrCap_GetMPSMAX C c = (True, ucast (ucast (take_bit 4 (drop_bit 52 (mRegCAP c))) :: u16))"
    "CtrlrCap_GetRESVD0 C c = (True, ucast (ucast (take_bit 8 (drop_bit 56 (mRegCAP c))) :: u16))"
  by (simp_all only: cap_getter_defs cap_masks GetRegValue_field [OF assms] prod.case)

lemma CAP_getters_rev:
  assumes "readSuccess c"
  shows
    "mSpecRev c = SPECREV_10b \<Longrightarrow>
       CtrlrCap_GetRESVD2 C c = Inr (True, ucast (ucast (take_bit 1 (drop_bit 36 (mRegCAP c))) :: u16))"
    "mSpecRev c = SPECREV_10b \<Longrightarrow>
       CtrlrCap_GetCSS C c = (True, ucast (ucast (take_bit 4 (drop_bit 37 (mRegCAP c))) :: u16))"
    "mSpecRev c = SPECREV_10b \<Longrightarrow>
       CtrlrCap_GetRESVD1 C c = (True, ucast (ucast (take_bit 7 (drop_bit 41 (mRegCAP c))) :: u16))"
    "mSpecRev c \<noteq> SPECREV_10b \<Longrightarrow>
       CtrlrCap_GetCSS C c = (True, ucast (ucast (take_bit 8 (drop_bit 37 (mRegCAP c))) :: u16))"
    "mSpecRev c \<noteq> SPECREV_10b \<Longrightarrow>
       CtrlrCap_GetRESVD1 C c = (True, ucast (ucast (take_bit 3 (drop_bit 45 (mRegCAP c))) :: u16))"
  by (simp_all only: cap_getter_defs cap_masks GetRegValue_field [OF assms] prod.case simp_thms if_True if_False)

lemma take_bit_64: "take_bit 64 (v :: u64) = v"
  by (rule bit_word_eqI) (simp add: bit_simps)

section \<open>Properties\<close>

text \<open>Once CAP has been read, the getters of a 1.0b target all succeed and read every bit of the
  register: shifted back to their places, the fields make up the register again.\<close>

theorem CAP_fields_10b:
  assumes "readSuccess c" and "mSpecRev c = SPECREV_10b"
  shows "\<exists>mqes cqr ams res3 to dstrd res2 css res1 mpsmin mpsmax res0.
    CtrlrCap_GetMQES C c = (True, mqes) \<and> CtrlrCap_GetCQR C c = (True, cqr) \<and>
    CtrlrCap_GetAMS C c = (True, ams) \<and> CtrlrCap_GetRESVD3 C c = (True, res3) \<and>
    CtrlrCap_GetTO C c = (True, to) \<and> CtrlrCap_GetDSTRD C c = (True, dstrd) \<and>
    CtrlrCap_GetRESVD2 C c = Inr (True, res2) \<and> CtrlrCap_GetCSS C c = (True, css) \<and>
    CtrlrCap_GetRESVD1 C c = (True, res1) \<and> CtrlrCap_GetMPSMIN C c = (True, mpsmin) \<and>
    CtrlrCap_GetMPSMAX C c = (True, mpsmax) \<and> CtrlrCap_GetRESVD0 C c = (True, res0) \<and>
    mRegCAP c =
      ucast mqes OR (push_bit 16 (of_bool cqr) OR (push_bit 17 (ucast ams) OR
      (push_bit 19 (ucast res3) OR (push_bit 24 (ucast to) OR (push_bit 32 (ucast dstrd) OR
      (push_bit 36 (ucast res2) OR (push_bit 37 (ucast css) OR (push_bit 41 (ucast res1) OR
      (push_bit 48 (ucast mpsmin) OR (push_bit 52 (ucast mpsmax) OR
       push_bit 56 (ucast res0)))))))))))"
  unfolding CAP_getters [OF assms(1)] CAP_getters_rev(1-3) [OF assms] prod.inject sum.inject
  by (simp only: simp_thms ex_simps bit_shift_u8 bit_shift_bool cut_16 cut_join_assoc cut_join
      numeral_plus_numeral arith_simps one_plus_numeral numeral_plus_one take_bit_64 rel_simps order_refl)

text \<open>From revision 1.1 on, the command set field is eight bits wide, bit 36 is NSSRS and the getter
  of the second reserved field throws; the fields again make up the register.\<close>

theorem CAP_fields_11:
  assumes "readSuccess c" and "mSpecRev c \<noteq> SPECREV_10b"
  shows "\<exists>mqes cqr ams res3 to dstrd nssrs css res1 mpsmin mpsmax res0.
    CtrlrCap_GetMQES C c = (True, mqes) \<and> CtrlrCap_GetCQR C c = (True, cqr) \<and>
    CtrlrCap_GetAMS C c = (True, ams) \<and> CtrlrCap_GetRESVD3 C c = (True, res3) \<and>
    CtrlrCap_GetTO C c = (True, to) \<and> CtrlrCap_GetDSTRD C c = (True, dstrd) \<and>
    CtrlrCap_GetNSSRS C c = (True, nssrs) \<and> isl (CtrlrCap_GetRESVD2 C c) \<and>
    CtrlrCap_GetCSS C c = (True, css) \<and>
    CtrlrCap_GetRESVD1 C c = (True, res1) \<and> CtrlrCap_GetMPSMIN C c = (True, mpsmin) \<and>
    CtrlrCap_GetMPSMAX C c = (True, mpsmax) \<and> CtrlrCap_GetRESVD0 C c = (True, res0) \<and>
    mRegCAP c =
      ucast mqes OR (push_bit 16 (of_bool cqr) OR (push_bit 17 (ucast ams) OR
      (push_bit 19 (ucast res3) OR (push_bit 24 (ucast to) OR (push_bit 32 (ucast dstrd) OR
      (push_bit 36 (of_bool nssrs) OR (push_bit 37 (ucast css) OR (push_bit 45 (ucast res1) OR
      (push_bit 48 (ucast mpsmin) OR (push_bit 52 (ucast mpsmax) OR
       push_bit 56 (ucast res0)))))))))))"
proof -
  have "isl (CtrlrCap_GetRESVD2 C c)" using assms(2) by (simp add: CtrlrCap_GetRESVD2_def)
  then show ?thesis
    unfolding CAP_getters [OF assms(1)] CAP_getters_rev(4-5) [OF assms] prod.inject
    by (simp only: simp_thms ex_simps bit_shift_u8 bit_shift_bool cut_16 cut_join_assoc cut_join
        numeral_plus_numeral arith_simps one_plus_numeral numeral_plus_one take_bit_64 rel_simps order_refl)
qed

lemma CAP_fields_10b_witness:
  "let c = \<lparr>mSpecRev = SPECREV_10b, mRegCAP = 0x00300028140103ff, readSuccess = True\<rparr> in
    \<exists>mqes cqr ams res3 to dstrd res2 css res1 mpsmin mpsmax res0.
    CtrlrCap_GetMQES ex_libc c = (True, mqes) \<and> CtrlrCap_GetCQR ex_libc c = (True, cqr) \<and>
    CtrlrCap_GetAMS ex_libc c = (True, ams) \<and> CtrlrCap_GetRESVD3 ex_libc c = (True, res3) \<and>
    CtrlrCap_GetTO ex_libc c = (True, to) \<and> CtrlrCap_GetDSTRD ex_libc c = (True, dstrd) \<and>
    CtrlrCap_GetRESVD2 ex_libc c = Inr (True, res2) \<and> CtrlrCap_GetCSS ex_libc c = (True, css) \<and>
    CtrlrCap_GetRESVD1 ex_libc c = (True, res1) \<and> CtrlrCap_GetMPSMIN ex_libc c = (True, mpsmin) \<and>
    CtrlrCap_GetMPSMAX ex_libc c = (True, mpsmax) \<and> CtrlrCap_GetRESVD0 ex_libc c = (True, res0) \<and>
    mRegCAP c =
      ucast mqes OR (push_bit 16 (of_bool cqr) OR (push_bit 17 (ucast ams) OR
      (push_bit 19 (ucast res3) OR (push_bit 24 (ucast to) OR (push_bit 32 (ucast dstrd) OR
      (push_bit 36 (ucast res2) OR (push_bit 37 (ucast css) OR (push_bit 41 (ucast res1) OR
      (push_bit 48 (ucast mpsmin) OR (push_bit 52 (ucast mpsmax) OR
       push_bit 56 (ucast res0)))))))))))"
  unfolding Let_def by (rule CAP_fields_10b) simp_all

lemma CAP_fields_11_witness:
  "let c = \<lparr>mSpecRev = SPECREV_12, mRegCAP = 0x00300028140103ff, readSuccess = True\<rparr> in
    \<exists>mqes cqr ams res3 to dstrd nssrs css res1 mpsmin mpsmax res0.
    CtrlrCap_GetMQES ex_libc c = (True, mqes) \<and> CtrlrCap_GetCQR ex_libc c = (True, cqr) \<and>
    CtrlrCap_GetAMS ex_libc c = (True, ams) \<and> CtrlrCap_GetRESVD3 ex_libc c = (True, res3) \<and>
    CtrlrCap_GetTO ex_libc c = (True, to) \<and> CtrlrCap_GetDSTRD ex_libc c = (True, dstrd) \<and>
    CtrlrCap_GetNSSRS ex_libc c = (True, nssrs) \<and> isl (CtrlrCap_GetRESVD2 ex_libc c) \<and>
    CtrlrCap_GetCSS ex_libc c = (True, css) \<and>
    CtrlrCap_GetRESVD1 ex_libc c = (True, res1) \<and> CtrlrCap_GetMPSMIN ex_libc c = (True, mpsmin) \<and>
    CtrlrCap_GetMPSMAX ex_libc c = (True, mpsmax) \<and> CtrlrCap_GetRESVD0 ex_libc c = (True, res0) \<and>
    mRegCAP c =
      ucast mqes OR (push_bit 16 (of_bool cqr) OR (push_bit 17 (ucast ams) OR
      (push_bit 19 (ucast res3) OR (push_bit 24 (ucast to) OR (push_bit 32 (ucast dstrd) OR
      (push_bit 36 (of_bool nssrs) OR (push_bit 37 (ucast css) OR (push_bit 45 (ucast res1) OR
      (push_bit 48 (ucast mpsmin) OR (push_bit 52 (ucast mpsmax) OR
       push_bit 56 (ucast res0)))))))))))"
  unfolding Let_def by (rule CAP_fields_11) simp_all

end
