(* ===== verification/World.thy ===== *)
theory World
  imports Cmd Comp_Entry Ctrlr_Cap
begin

text \<open>
  The state the commands, queues and the \<open>Informative\<close> singleton share: the singletons' state of
  \<open>Obj_Rsrc\<close>, the heap of shared \<open>MemBuffer\<close>s (\<open>boost::shared_ptr\<close>, by identity), and the members of
  \<open>Informative\<close>. Reading the data buffer of a command goes through the identity the command holds.
\<close>

record 'd world = "'d rsrc_mngr" +
  wd_bufs :: "nat \<Rightarrow> mem_buffer"
  wd_next :: nat                      \<comment> \<open>identity of the next buffer \<open>new MemBuffer()\<close> returns\<close>
  mIdentifyCmdCtrlr :: "cmd option"
  mIdentifyCmdNamspc :: "cmd option list"
  mGetFeaturesNumOfQ :: u32

text \<open>A program on a shared buffer.\<close>

definition on_mb :: "nat \<Rightarrow> (mem_buffer, 'a) prog \<Rightarrow> (('d, 'm) world_scheme, 'a) prog" where
  "on_mb r m = zoom (\<lambda>s. wd_bufs s r) (\<lambda>b s. s\<lparr>wd_bufs := (wd_bufs s)(r := b)\<rparr>) m"

text \<open>\<open>new MemBuffer()\<close>.\<close>

definition new_mb :: "(('d, 'm) world_scheme, nat) prog" where
  "new_mb = (\<lambda>s. (Inr (wd_next s),
     s\<lparr>wd_bufs := (wd_bufs s)(wd_next s := MemBuffer_new), wd_next := wd_next s + 1\<rparr>))"

text \<open>A \<open>const\<close> member function of a command.\<close>

definition of_cmd :: "cmd \<Rightarrow> 'a cmd_prog \<Rightarrow> ('s, 'a) prog" where
  "of_cmd c m = lift_result (fst (m c))"

text \<open>
  \<open>GetROPrpBuffer()[i]\<close>: the shared buffer when there is one, else the read-only memory of a queue,
  else a null pointer.
\<close>

definition PrpData_byte :: "cmd \<Rightarrow> nat \<Rightarrow> (('d, 'm) world_scheme, u8) prog" where
  "PrpData_byte c i =
     (case mBufRW c of
        Some r \<Rightarrow> on_mb r (MemBuffer_GetAt i)
      | None \<Rightarrow>
          (case mBufRO c of
             Some (Mapped a) \<Rightarrow> (\<lambda>s. if i < length (mmaps s a) then (Inr (mmaps s a ! i), s)
                             else (Inl (UB ''load outside of the mapping''), s))
           | Some (Shared r) \<Rightarrow> on_mb r (MemBuffer_GetAt i)
           | None \<Rightarrow> raise (UB ''load through a null buffer'')))"

text \<open>All the bytes of the data buffer, as the driver sees them through \<open>GetROPrpBuffer()\<close>.\<close>

definition PrpData_GetROPrpBuffer :: "cmd \<Rightarrow> ('d, 'm) world_scheme \<Rightarrow> u8 list option" where
  "PrpData_GetROPrpBuffer c s =
     (case mBufRW c of
        Some r \<Rightarrow> map_option (drop (mVirOff (wd_bufs s r))) (mRealBaseAddr (wd_bufs s r))
      | None \<Rightarrow>
          (case mBufRO c of
             Some (Mapped a) \<Rightarrow> Some (mmaps s a)
           | Some (Shared r) \<Rightarrow> map_option (drop (mVirOff (wd_bufs s r))) (mRealBaseAddr (wd_bufs s r))
           | None \<Rightarrow> None))"

text \<open>The constructors of the command classes: \<open>Cmd(type)\<close>, \<open>Init\<close>, \<open>SetPrpAllowed\<close>.\<close>

definition new_cmd ::
  "libc \<Rightarrow> send_masks \<Rightarrow> ObjType \<Rightarrow> u8 \<Rightarrow> DataDir \<Rightarrow> u16 \<Rightarrow> u32 \<Rightarrow> ex + cmd" where
  "new_cmd C M t opcode dir sz allowed =
     (case Cmd_Cmd t of
        Inl e \<Rightarrow> Inl e
      | Inr c \<Rightarrow>
          (case sq (Cmd_Init C opcode dir sz) (PrpData_SetPrpAllowed M allowed) c of
             (Inl e, _) \<Rightarrow> Inl e
           | (Inr _, c') \<Rightarrow> Inr c'))"

lemma PrpData_byte_same: "snd (PrpData_byte c i s) = s"
  by (auto simp: PrpData_byte_def on_mb_def zoom_apply MemBuffer_GetAt_def split: option.splits qmem.splits)

lemma GetAt_load:
  assumes "mb_bytes b = Some bs" and "i < length bs"
  shows "MemBuffer_GetAt i b = (Inr (bs ! i), b)"
proof (cases "mRealBaseAddr b")
  case None
  then show ?thesis using assms by (simp add: mb_bytes_def split: if_splits)
next
  case (Some m)
  then show ?thesis
    using assms by (auto simp: mb_bytes_def peek_def MemBuffer_GetAt_def split: if_splits)
qed

lemma PrpData_byte_RW:
  assumes "mBufRW c = Some r" and "mb_bytes (wd_bufs s r) = Some bs" and "i < length bs"
  shows "PrpData_byte c i s = (Inr (bs ! i), s)"
proof -
  have "fst (PrpData_byte c i s) = Inr (bs ! i)"
    using assms by (simp add: PrpData_byte_def on_mb_def zoom_apply GetAt_load)
  then show ?thesis using PrpData_byte_same [of c i s] by (metis prod.collapse)
qed

lemma new_cmd_ok:
  assumes "Cmd_Cmd t = Inr c0" and "dir \<in> {DATADIR_NONE, DATADIR_TO_DEVICE, DATADIR_FROM_DEVICE}"
    and "\<not> memfail C 64"
    and "allowed AND NOT (MASK_PRP1_PAGE M OR MASK_PRP1_LIST M OR MASK_PRP2_PAGE M OR MASK_PRP2_LIST M) = 0"
  shows "\<exists>c. new_cmd C M t opc dir 64 allowed = Inr c \<and> cmd_ok c \<and> cmd_size c = 16 \<and>
    mDataDir c = dir \<and> mPrpAllowed c = allowed \<and> cmd_dw c 0 = ucast opc \<and>
    (\<forall>i. 0 < i \<and> i < 16 \<longrightarrow> cmd_dw c i = 0) \<and> mBufRW c = None \<and> mBufRO c = None"
proof -
  have c0: "mBufRW c0 = None" "mBufRO c0 = None"
    using assms(1) by (auto simp: Cmd_Cmd_def split: sum.splits)
  obtain c where c: "Cmd_Init C opc dir 64 c0 = (Inr (), c)" "cmd_ok c" "cmd_size c = 16"
    "mDataDir c = dir" "cmd_dw c 0 = ucast opc" "\<forall>i. 0 < i \<and> i < cmd_size c \<longrightarrow> cmd_dw c i = 0"
    "mBufRW c = None" "mBufRO c = None"
    using Init_ok [OF assms(2), of 64 C opc c0] assms(3) c0 by auto
  let ?c = "c\<lparr>mPrpAllowed := allowed\<rparr>"
  have "cmd_ok ?c" "cmd_size ?c = 16" "cmd_dw ?c = cmd_dw c"
    using c by (simp_all add: cmd_ok_def cmd_size_def cmd_dw_def fun_eq_iff)
  then show ?thesis
    using c assms(4)
    by (simp add: new_cmd_def assms(1) sq_apply PrpData_SetPrpAllowed_def)
qed

end
