(* ===== verification/Test_Groups.thy ===== *)
theory Test_Groups
  imports World
begin

text \<open>
  Test references (testRef.cpp), and the part of class \<open>Group\<close> (group.cpp, group.h) that only looks at
  the matrix of tests: the macros that build it, the walk that numbers the tests, the dependency set of
  a target, the tests to skip. A \<open>size_t\<close> is a natural number: the code only compares these values, and
  adds one to the level of a test that exists.
\<close>

section \<open>TestRef\<close>

record TestRef =
  tr_group :: nat
  xLev :: nat
  yLev :: nat
  zLev :: nat

definition UINT_MAX :: nat where
  "UINT_MAX = 4294967295"

definition TestRef_Init :: "nat \<Rightarrow> nat \<Rightarrow> nat \<Rightarrow> nat \<Rightarrow> TestRef" where
  "TestRef_Init g x y z = \<lparr>tr_group = g, xLev = x, yLev = y, zLev = z\<rparr>"

definition TestRef_eq :: "TestRef \<Rightarrow> TestRef \<Rightarrow> bool" where
  "TestRef_eq a other \<longleftrightarrow> tr_group other = tr_group a \<and> xLev other = xLev a \<and> yLev other = yLev a \<and> zLev other = zLev a"

lemma TestRef_eq_iff [simp]: "TestRef_eq a b \<longleftrightarrow> a = b"
  by (cases a; cases b) (auto simp: TestRef_eq_def)

lemma TestRef_Init_simps [simp]:
  "tr_group (TestRef_Init g x y z) = g" "xLev (TestRef_Init g x y z) = x"
  "yLev (TestRef_Init g x y z) = y" "zLev (TestRef_Init g x y z) = z"
  by (simp_all add: TestRef_Init_def)

lemma TestRef_Init_eq [simp]: "TestRef_Init g x y z = TestRef_Init g' x' y' z' \<longleftrightarrow> g = g' \<and> x = x' \<and> y = y' \<and> z = z'"
  by (simp add: TestRef_Init_def)

section \<open>The matrix of tests\<close>

text \<open>\<open>mTests[xLevel][yLevel][zLevel]\<close>; a test object is a \<open>'t\<close>.\<close>

record 't group =
  mGrpNum :: nat
  mGrpName :: string
  mGrpDesc :: string
  mTests :: "'t list list list"

definition MAX_CHAR_PER_LINE_DESCRIPTION :: nat where
  "MAX_CHAR_PER_LINE_DESCRIPTION = 63"

definition Group_Group :: "nat \<Rightarrow> string \<Rightarrow> string \<Rightarrow> 't group" where
  "Group_Group grpNum grpName desc =
     \<lparr>mGrpNum = grpNum, mGrpName = grpName, mGrpDesc = take MAX_CHAR_PER_LINE_DESCRIPTION desc, mTests = []\<rparr>"

text \<open>The macros; \<open>back()\<close> of an empty deque is undefined.\<close>

definition APPEND_TEST_AT_XLEVEL :: "'t \<Rightarrow> ('t list list list, unit) prog" where
  "APPEND_TEST_AT_XLEVEL t = modify (\<lambda>m. m @ [[[t]]])"

definition APPEND_TEST_AT_YLEVEL :: "'t \<Rightarrow> ('t list list list, unit) prog" where
  "APPEND_TEST_AT_YLEVEL t = (\<lambda>m.
     if m = [] then (Inl (UB ''back of an empty deque''), m)
     else (Inr (), butlast m @ [last m @ [[t]]]))"

definition APPEND_TEST_AT_ZLEVEL :: "'t \<Rightarrow> ('t list list list, unit) prog" where
  "APPEND_TEST_AT_ZLEVEL t = (\<lambda>m.
     if m = [] \<or> last m = [] then (Inl (UB ''back of an empty deque''), m)
     else (Inr (), butlast m @ [butlast (last m) @ [last (last m) @ [t]]]))"

definition TestExists :: "'t group \<Rightarrow> TestRef \<Rightarrow> bool" where
  "TestExists g tr =
     (if tr_group tr \<noteq> mGrpNum g \<or> xLev tr \<ge> length (mTests g) \<or>
         yLev tr \<ge> length (mTests g ! xLev tr) \<or>
         zLev tr \<ge> length (mTests g ! xLev tr ! yLev tr)
      then False else True)"

section \<open>Numbering the tests\<close>

text \<open>The loop of \<open>IteraterToTestRef\<close>; the number is how often \<open>count\<close> still has to grow.\<close>

fun iter_walk :: "'t group \<Rightarrow> nat \<Rightarrow> nat \<times> nat \<times> nat \<Rightarrow> (nat \<times> nat \<times> nat) option" where
  "iter_walk g 0 p = Some p"
| "iter_walk g (Suc n) (x, y, z) =
     (if TestExists g (TestRef_Init (mGrpNum g) x y (z + 1)) then iter_walk g n (x, y, z + 1)
      else if TestExists g (TestRef_Init (mGrpNum g) x (y + 1) 0) then iter_walk g n (x, y + 1, 0)
      else if TestExists g (TestRef_Init (mGrpNum g) (x + 1) 0 0) then iter_walk g n (x + 1, 0, 0)
      else None)"

definition IteraterToTestRef :: "'t group \<Rightarrow> nat \<Rightarrow> TestRef option" where
  "IteraterToTestRef g testIter =
     map_option (\<lambda>(x, y, z). TestRef_Init (mGrpNum g) x y z) (iter_walk g testIter (0, 0, 0))"

text \<open>The walk meets every test at most once, so \<open>TestRefToIterator\<close> ends.\<close>

definition n_tests :: "'t list list list \<Rightarrow> nat" where
  "n_tests m = sum_list (map (\<lambda>ys. sum_list (map length ys)) m)"

definition rank :: "'t list list list \<Rightarrow> nat \<times> nat \<times> nat \<Rightarrow> nat" where
  "rank m = (\<lambda>(x, y, z). n_tests (take x m) + sum_list (map length (take y (m ! x))) + z)"

lemma sum_list_take_less: "i < length xs \<Longrightarrow> sum_list (take i xs) + xs ! i \<le> sum_list xs" for xs :: "nat list"
  using id_take_nth_drop [of i xs] by (metis le_add1 sum_list.append sum_list.Cons add.assoc)

lemma rank_exists:
  assumes "x < length m" "y < length (m ! x)" "z < length (m ! x ! y)"
  shows "rank m (x, y, z) < n_tests m"
proof -
  have "sum_list (map length (take y (m ! x))) + length (m ! x ! y) \<le> sum_list (map length (m ! x))"
    using sum_list_take_less [of y "map length (m ! x)"] assms by (simp add: take_map)
  moreover have "n_tests (take x m) + sum_list (map length (m ! x)) \<le> n_tests m"
    using sum_list_take_less [of x "map (\<lambda>ys. sum_list (map length ys)) m"] assms
    by (simp add: take_map n_tests_def)
  ultimately show ?thesis using assms(3) by (simp add: rank_def)
qed

lemma TestExists_iff [simp]:
  "TestExists g tr \<longleftrightarrow> tr_group tr = mGrpNum g \<and> xLev tr < length (mTests g) \<and>
     yLev tr < length (mTests g ! xLev tr) \<and> zLev tr < length (mTests g ! xLev tr ! yLev tr)"
  by (auto simp: TestExists_def)

text \<open>The position holds a test.\<close>

definition at_test :: "'t group \<Rightarrow> nat \<times> nat \<times> nat \<Rightarrow> bool" where
  "at_test g = (\<lambda>(x, y, z). x < length (mTests g) \<and> y < length (mTests g ! x) \<and> z < length (mTests g ! x ! y))"

lemma rank_step:
  assumes "at_test g (x, y, z)"
  shows "rank (mTests g) (x, y, z) < rank (mTests g) (x, y, z + 1)"
    and "rank (mTests g) (x, y, z) < rank (mTests g) (x, y + 1, 0)"
    and "rank (mTests g) (x, y, z) < rank (mTests g) (x + 1, 0, 0)"
proof -
  let ?m = "mTests g"
  show "rank ?m (x, y, z) < rank ?m (x, y, z + 1)" by (simp add: rank_def)
  show "rank ?m (x, y, z) < rank ?m (x, y + 1, 0)"
    using assms by (simp add: rank_def at_test_def take_Suc_conv_app_nth)
  have "sum_list (map length (take y (?m ! x))) + length (?m ! x ! y) \<le> sum_list (map length (?m ! x))"
    using sum_list_take_less [of y "map length (?m ! x)"] assms by (simp add: take_map at_test_def)
  then show "rank ?m (x, y, z) < rank ?m (x + 1, 0, 0)"
    using assms by (simp add: rank_def at_test_def take_Suc_conv_app_nth n_tests_def)
qed

lemma iter_walk_rank:
  "iter_walk g n p = Some q \<Longrightarrow> at_test g p \<Longrightarrow> at_test g q \<and> rank (mTests g) p + n \<le> rank (mTests g) q"
proof (induction g n p rule: iter_walk.induct)
  case (2 g n x y z)
  have s: "rank (mTests g) (x, y, z) < rank (mTests g) (x, y, Suc z)"
    "rank (mTests g) (x, y, z) < rank (mTests g) (x, Suc y, 0)"
    "rank (mTests g) (x, y, z) < rank (mTests g) (Suc x, 0, 0)"
    using rank_step [OF 2(5)] by simp_all
  show ?case
    using 2 s by (fastforce simp: at_test_def split: if_splits)
qed simp

lemma iter_walk_bound: "iter_walk g n p = Some q \<Longrightarrow> n \<le> n_tests (mTests g)"
proof (cases n)
  case (Suc k)
  obtain x y z where p: "p = (x, y, z)" by (cases p)
  assume "iter_walk g n p = Some q"
  then obtain p' where p': "iter_walk g k p' = Some q" "at_test g p'"
    unfolding Suc p by (auto simp: at_test_def split: if_splits)
  have "k \<le> rank (mTests g) q" "at_test g q" using iter_walk_rank [OF p'] by auto
  moreover have "rank (mTests g) q < n_tests (mTests g)"
    using calculation(2) rank_exists by (cases q) (auto simp: at_test_def)
  ultimately show ?thesis using Suc by simp
qed simp

lemma IteraterToTestRef_bound: "IteraterToTestRef g i = Some r \<Longrightarrow> i \<le> n_tests (mTests g)"
  by (auto simp: IteraterToTestRef_def dest: iter_walk_bound)

function seek_loop :: "'t group \<Rightarrow> TestRef \<Rightarrow> nat \<Rightarrow> nat option" where
  "seek_loop g tr testIter =
     (case IteraterToTestRef g testIter of
        None \<Rightarrow> None
      | Some proposedTr \<Rightarrow> if TestRef_eq tr proposedTr then Some testIter else seek_loop g tr (testIter + 1))"
  by pat_completeness auto

termination
proof (relation "measure (\<lambda>(g, _, i). n_tests (mTests g) + 1 - i)")
  fix g :: "'t group" and tr i p
  assume "IteraterToTestRef g i = Some p"
  from IteraterToTestRef_bound [OF this]
  show "((g, tr, i + 1), (g, tr, i)) \<in> measure (\<lambda>(g, _, i). n_tests (mTests g) + 1 - i)" by simp
qed simp

declare seek_loop.simps [simp del]

definition TestRefToIterator :: "'t group \<Rightarrow> TestRef \<Rightarrow> nat option" where
  "TestRefToIterator g tr = seek_loop g tr 0"

section \<open>The dependency set of a target\<close>

text \<open>
  The result of \<open>GetTestSet\<close>: the return value, \<open>dependencies\<close>, \<open>tstIdx\<close>. The loops over the iterators
  push one test for every number.
\<close>

fun push_range :: "'t group \<Rightarrow> nat \<Rightarrow> nat \<Rightarrow> TestRef list \<Rightarrow> bool \<times> TestRef list" where
  "push_range g i 0 deps = (True, deps)"
| "push_range g i (Suc n) deps =
     (case IteraterToTestRef g i of
        None \<Rightarrow> (False, deps)
      | Some t \<Rightarrow> push_range g (i + 1) n (deps @ [t]))"

function push_all :: "'t group \<Rightarrow> nat \<Rightarrow> TestRef list \<Rightarrow> TestRef list" where
  "push_all g i deps =
     (case IteraterToTestRef g i of None \<Rightarrow> deps | Some t \<Rightarrow> push_all g (i + 1) (deps @ [t]))"
  by pat_completeness auto

termination
proof (relation "measure (\<lambda>(g, i, _). n_tests (mTests g) + 1 - i)")
  fix g :: "'t group" and deps i p
  assume "IteraterToTestRef g i = Some p"
  from IteraterToTestRef_bound [OF this]
  show "((g, i + 1, deps @ [p]), (g, i, deps)) \<in> measure (\<lambda>(g, i, _). n_tests (mTests g) + 1 - i)" by simp
qed simp

declare push_all.simps [simp del]

definition GetTestSet :: "'t group \<Rightarrow> TestRef \<Rightarrow> bool \<times> TestRef list \<times> int" where
  "GetTestSet g target =
     (let grp = tr_group target; x = xLev target; y = yLev target; z = zLev target;
          config = TestRef_Init grp x 0 0 in
      if grp \<noteq> mGrpNum g then (False, [], - 1)
      else if x \<noteq> UINT_MAX \<and> y \<noteq> UINT_MAX \<and> z \<noteq> UINT_MAX then
        if y = 0 \<and> z = 0 then (True, [target], 0)
        else if z = 0 then
          if TestExists g config then (True, [config, target], 0) else (False, [], - 1)
        else
          if y \<noteq> 0 \<and> \<not> TestExists g config then (False, [], - 1)
          else
            (let deps = if y \<noteq> 0 then [config] else [] in
             case TestRefToIterator g (TestRef_Init grp x y 0) of
               None \<Rightarrow> (False, deps, - 1)
             | Some seqIter \<Rightarrow>
                 (case TestRefToIterator g target of
                    None \<Rightarrow> (False, deps, - 1)
                  | Some targetIter \<Rightarrow>
                      (case push_range g seqIter (targetIter - seqIter) deps of
                         (False, deps') \<Rightarrow> (False, deps', - 1)
                       | (True, deps') \<Rightarrow> (True, deps' @ [target], 0))))
      else (True, push_all g 0 [], 0))"

section \<open>The tests to skip, the dependents of a test\<close>

definition skip_entry :: "TestRef \<Rightarrow> TestRef \<Rightarrow> bool" where
  "skip_entry tr s \<longleftrightarrow>
     tr_group tr = tr_group s \<and> xLev tr = xLev s \<and> yLev tr = yLev s \<and> zLev tr = zLev s \<or>
     tr_group tr = tr_group s \<and> (UINT_MAX = xLev s \<or> UINT_MAX = yLev s \<or> UINT_MAX = zLev s)"

fun SkippingTest :: "TestRef \<Rightarrow> TestRef list \<Rightarrow> bool" where
  "SkippingTest tr [] = False"
| "SkippingTest tr (s # skipTest) = (if skip_entry tr s then True else SkippingTest tr skipTest)"

text \<open>
  The three loops of \<open>AdvanceDependencies\<close> differ in their condition only. The result is the new index
  and the skipped tests.
\<close>

function adv_loop :: "(TestRef \<Rightarrow> bool) \<Rightarrow> TestRef list \<Rightarrow> nat \<Rightarrow> TestRef list \<Rightarrow> nat \<times> TestRef list" where
  "adv_loop dep deps i skipped =
     (if i < length deps \<and> dep (deps ! i) then adv_loop dep deps (i + 1) (skipped @ [deps ! i])
      else (i, skipped))"
  by pat_completeness auto
termination by (relation "measure (\<lambda>(_, deps, i, _). length deps - i)") auto

declare adv_loop.simps [simp del]

definition dependent :: "TestRef \<Rightarrow> bool \<Rightarrow> TestRef \<Rightarrow> bool" where
  "dependent dt failed st \<longleftrightarrow>
     (if failed then xLev dt = xLev st
      else if yLev dt = 0 \<and> zLev dt = 0 then xLev dt = xLev st
      else xLev dt = xLev st \<and> yLev dt = yLev st)"

text \<open>The number of tests skipped, the new index, the skipped tests.\<close>

definition AdvanceDependencies ::
  "TestRef list \<Rightarrow> int \<Rightarrow> bool \<Rightarrow> TestRef list \<Rightarrow> int \<times> int \<times> TestRef list" where
  "AdvanceDependencies deps tstIdx failed skippedTests =
     (if tstIdx \<ge> int (length deps) \<or> tstIdx = - 1 then (0, - 1, skippedTests)
      else
        (let dt = deps ! nat tstIdx; i = tstIdx + 1 in
         if i \<ge> int (length deps) then (0, - 1, skippedTests)
         else
           (case adv_loop (dependent dt failed) deps (nat i) skippedTests of (j, skipped) \<Rightarrow>
              if int j \<ge> int (length deps) then (int j - tstIdx - 1, - 1, skipped)
              else (int j - tstIdx - 1, int j, skipped))))"

section \<open>The matrix the macros build\<close>

text \<open>Every level that exists has a test.\<close>

definition full_matrix :: "'t list list list \<Rightarrow> bool" where
  "full_matrix m \<longleftrightarrow> list_all (\<lambda>ys. ys \<noteq> [] \<and> list_all (\<lambda>zs. zs \<noteq> []) ys) m"

lemma append_xlevel:
  "full_matrix m \<Longrightarrow> APPEND_TEST_AT_XLEVEL t m = (Inr (), m') \<Longrightarrow>
     full_matrix m' \<and> m' \<noteq> [] \<and> n_tests m' = n_tests m + 1"
  by (auto simp: full_matrix_def APPEND_TEST_AT_XLEVEL_def n_tests_def)

lemma append_ylevel:
  assumes "full_matrix m" and "APPEND_TEST_AT_YLEVEL t m = (Inr (), m')"
  shows "full_matrix m' \<and> m' \<noteq> [] \<and> n_tests m' = n_tests m + 1"
proof (cases m rule: rev_cases)
  case (snoc ms ys)
  then show ?thesis using assms by (auto simp: full_matrix_def APPEND_TEST_AT_YLEVEL_def n_tests_def)
qed (use assms in \<open>simp add: APPEND_TEST_AT_YLEVEL_def\<close>)

lemma append_zlevel:
  assumes "full_matrix m" and "APPEND_TEST_AT_ZLEVEL t m = (Inr (), m')"
  shows "full_matrix m' \<and> m' \<noteq> [] \<and> n_tests m' = n_tests m + 1"
proof (cases m rule: rev_cases)
  case m: (snoc ms ys)
  then show ?thesis
  proof (cases ys rule: rev_cases)
    case (snoc yss zs)
    then show ?thesis using m assms by (auto simp: full_matrix_def APPEND_TEST_AT_ZLEVEL_def n_tests_def)
  qed (use assms in \<open>simp add: APPEND_TEST_AT_ZLEVEL_def full_matrix_def\<close>)
qed (use assms in \<open>simp add: APPEND_TEST_AT_ZLEVEL_def\<close>)

text \<open>The tests of a matrix in the order of their numbers.\<close>

definition all_tests :: "nat \<Rightarrow> 't list list list \<Rightarrow> TestRef list" where
  "all_tests grp m =
     [TestRef_Init grp x y z. x \<leftarrow> [0..<length m], y \<leftarrow> [0..<length (m ! x)], z \<leftarrow> [0..<length (m ! x ! y)]]"

text \<open>The tests after a position.\<close>

definition tests_after :: "'t group \<Rightarrow> nat \<times> nat \<times> nat \<Rightarrow> TestRef list" where
  "tests_after g = (\<lambda>(x, y, z).
     [TestRef_Init (mGrpNum g) x y z'. z' \<leftarrow> [z + 1..<length (mTests g ! x ! y)]] @
     [TestRef_Init (mGrpNum g) x y' z'. y' \<leftarrow> [y + 1..<length (mTests g ! x)], z' \<leftarrow> [0..<length (mTests g ! x ! y')]] @
     [TestRef_Init (mGrpNum g) x' y' z'. x' \<leftarrow> [x + 1..<length (mTests g)],
        y' \<leftarrow> [0..<length (mTests g ! x')], z' \<leftarrow> [0..<length (mTests g ! x' ! y')]])"

lemma tests_after_step:
  assumes f: "full_matrix (mTests g)" and p: "at_test g (x, y, z)"
  shows "tests_after g (x, y, z) =
    (if at_test g (x, y, z + 1) then TestRef_Init (mGrpNum g) x y (z + 1) # tests_after g (x, y, z + 1)
     else if at_test g (x, y + 1, 0) then TestRef_Init (mGrpNum g) x (y + 1) 0 # tests_after g (x, y + 1, 0)
     else if at_test g (x + 1, 0, 0) then TestRef_Init (mGrpNum g) (x + 1) 0 0 # tests_after g (x + 1, 0, 0)
     else [])"
proof -
  let ?m = "mTests g"
  have full: "x' < length ?m \<Longrightarrow> 0 < length (?m ! x')"
    "x' < length ?m \<Longrightarrow> y' < length (?m ! x') \<Longrightarrow> 0 < length (?m ! x' ! y')" for x' y'
    using f by (auto simp: full_matrix_def list_all_length)
  have c: "a < b \<Longrightarrow> [a..<b] = a # [Suc a..<b]" for a b by (rule upt_conv_Cons)
  consider (z) "Suc z < length (?m ! x ! y)" | (y) "length (?m ! x ! y) \<le> Suc z" "Suc y < length (?m ! x)"
    | (x) "length (?m ! x ! y) \<le> Suc z" "length (?m ! x) \<le> Suc y" "Suc x < length ?m"
    | (last) "length (?m ! x ! y) \<le> Suc z" "length (?m ! x) \<le> Suc y" "length ?m \<le> Suc x"
    by linarith
  then show ?thesis
  proof cases
    case z
    then show ?thesis using p c [of "Suc z" "length (?m ! x ! y)"] by (simp add: tests_after_def at_test_def)
  next
    case y
    then show ?thesis
      using p full(2) [of x "Suc y"] c [of "Suc y" "length (?m ! x)"] c [of 0 "length (?m ! x ! Suc y)"]
      by (simp add: tests_after_def at_test_def)
  next
    case x
    then show ?thesis
      using p full(1) [of "Suc x"] full(2) [of "Suc x" 0] c [of "Suc x" "length ?m"]
        c [of 0 "length (?m ! Suc x)"] c [of 0 "length (?m ! Suc x ! 0)"]
      by (simp add: tests_after_def at_test_def)
  next
    case last
    then show ?thesis using p by (simp add: tests_after_def at_test_def)
  qed
qed

lemma iter_walk_Suc:
  "iter_walk g (Suc n) (x, y, z) =
     (if at_test g (x, y, z + 1) then iter_walk g n (x, y, z + 1)
      else if at_test g (x, y + 1, 0) then iter_walk g n (x, y + 1, 0)
      else if at_test g (x + 1, 0, 0) then iter_walk g n (x + 1, 0, 0) else None)"
  by (simp add: at_test_def)

definition ref_at :: "'t group \<Rightarrow> nat \<times> nat \<times> nat \<Rightarrow> TestRef" where
  "ref_at g = (\<lambda>(x, y, z). TestRef_Init (mGrpNum g) x y z)"

lemma iter_walk_eq:
  "full_matrix (mTests g) \<Longrightarrow> at_test g p \<Longrightarrow> map_option (ref_at g) (iter_walk g n p) =
    (let rs = ref_at g p # tests_after g p in if n < length rs then Some (rs ! n) else None)"
proof (induction n arbitrary: p)
  case (Suc n)
  obtain x y z where p: "p = (x, y, z)" by (cases p)
  note step = tests_after_step [OF Suc.prems(1) Suc.prems(2) [unfolded p]]
  consider "at_test g (x, y, z + 1)" | "\<not> at_test g (x, y, z + 1)" "at_test g (x, y + 1, 0)"
    | "\<not> at_test g (x, y, z + 1)" "\<not> at_test g (x, y + 1, 0)" "at_test g (x + 1, 0, 0)"
    | "\<not> at_test g (x, y, z + 1)" "\<not> at_test g (x, y + 1, 0)" "\<not> at_test g (x + 1, 0, 0)" by blast
  moreover have "TestRef_Init (mGrpNum g) a b c = ref_at g (a, b, c)" for a b c by (simp add: ref_at_def)
  ultimately show ?case
    unfolding p iter_walk_Suc step Let_def
    by cases (simp_all add: Suc.IH [OF Suc.prems(1)] Let_def del: map_option_eq_Some option.map_disc_iff)
qed (simp add: Let_def)

lemma all_tests_after:
  assumes "full_matrix (mTests g)" and "mTests g \<noteq> []"
  shows "at_test g (0, 0, 0)" and "all_tests (mGrpNum g) (mTests g) = ref_at g (0, 0, 0) # tests_after g (0, 0, 0)"
proof -
  let ?m = "mTests g"
  have l: "0 < length ?m" "0 < length (?m ! 0)" "0 < length (?m ! 0 ! 0)"
    using assms by (auto simp: full_matrix_def list_all_length)
  then show "at_test g (0, 0, 0)" by (simp add: at_test_def)
  show "all_tests (mGrpNum g) ?m = ref_at g (0, 0, 0) # tests_after g (0, 0, 0)"
    using upt_conv_Cons [OF l(1)] upt_conv_Cons [OF l(2)] upt_conv_Cons [OF l(3)]
    by (simp add: all_tests_def tests_after_def ref_at_def)
qed

lemma IteraterToTestRef_nth:
  assumes "full_matrix (mTests g)" and "mTests g \<noteq> []"
  shows "IteraterToTestRef g i =
    (let rs = all_tests (mGrpNum g) (mTests g) in if i < length rs then Some (rs ! i) else None)"
  using iter_walk_eq [OF assms(1) all_tests_after(1) [OF assms], of i]
  unfolding IteraterToTestRef_def all_tests_after(2) [OF assms] ref_at_def by (simp add: ref_at_def)

section \<open>The numbers of the tests\<close>

lemma iter_walk_add: "iter_walk g (n + k) p = Option.bind (iter_walk g n p) (iter_walk g k)"
proof (induction n arbitrary: p)
  case (Suc n)
  obtain x y z where p: "p = (x, y, z)" by (cases p)
  show ?case unfolding p add_Suc iter_walk_Suc by (simp add: Suc)
qed simp

lemma iter_walk_along: "at_test g (x, y, z + k) \<Longrightarrow> iter_walk g k (x, y, z) = Some (x, y, z + k)"
proof (induction k arbitrary: z)
  case (Suc k)
  then have "at_test g (x, y, Suc z)" by (simp add: at_test_def)
  then show ?case using Suc.IH [of "Suc z"] Suc.prems by (simp add: at_test_def)
qed simp

lemma IteraterToTestRef_inj:
  assumes "at_test g (0, 0, 0)" and "IteraterToTestRef g i = Some r" "IteraterToTestRef g j = Some r"
  shows "i = j"
proof -
  have False if i: "IteraterToTestRef g i = Some r" and j: "IteraterToTestRef g j = Some r" and ij: "i < j" for i j
  proof -
    obtain p q where p: "iter_walk g i (0, 0, 0) = Some p" "iter_walk g j (0, 0, 0) = Some q" "p = q"
      using i j by (auto simp: IteraterToTestRef_def)
    obtain k where k: "j = i + k" "0 < k" using ij less_imp_add_positive by blast
    then have "iter_walk g k p = Some q" using p iter_walk_add [of g i k] by simp
    then show False using iter_walk_rank [OF p(1) assms(1)] iter_walk_rank [of g k p q] p(3) k(2) by auto
  qed
  then show ?thesis using assms(2,3) by (metis linorder_neqE_nat)
qed

lemma seek_loop_finds:
  assumes "\<And>j. j < i \<Longrightarrow> \<exists>r. IteraterToTestRef g j = Some r \<and> r \<noteq> tr" and "IteraterToTestRef g i = Some tr"
  shows "k \<le> i \<Longrightarrow> seek_loop g tr k = Some i"
proof (induction "i - k" arbitrary: k)
  case 0
  then show ?case using assms(2) by (simp add: seek_loop.simps [of g tr k])
next
  case (Suc n)
  then have "k < i" by simp
  then obtain r where "IteraterToTestRef g k = Some r" "r \<noteq> tr" using assms(1) by blast
  then show ?case using Suc(1) [of "Suc k"] Suc(2) \<open>k < i\<close> by (simp add: seek_loop.simps [of g tr k])
qed

lemma in_all_tests:
  "x < length m \<Longrightarrow> y < length (m ! x) \<Longrightarrow> z < length (m ! x ! y) \<Longrightarrow> TestRef_Init grp x y z \<in> set (all_tests grp m)"
  unfolding all_tests_def set_concat set_map by force

text \<open>Groups as the macros build them, with at least one test.\<close>

definition group_ok :: "'t group \<Rightarrow> bool" where
  "group_ok g \<longleftrightarrow> full_matrix (mTests g) \<and> mTests g \<noteq> []"

lemma TestRefToIterator_finds:
  assumes "group_ok g" and "TestExists g tr"
  shows "\<exists>i. TestRefToIterator g tr = Some i \<and> IteraterToTestRef g i = Some tr"
proof -
  note ok = assms(1) [unfolded group_ok_def]
  let ?rs = "all_tests (mGrpNum g) (mTests g)"
  have "tr = TestRef_Init (mGrpNum g) (xLev tr) (yLev tr) (zLev tr)"
    using assms(2) by (cases tr) (simp add: TestRef_Init_def)
  then have "tr \<in> set ?rs"
    using in_all_tests [of "xLev tr" "mTests g" "yLev tr" "zLev tr" "mGrpNum g"] assms(2) by simp
  then obtain i where i: "i < length ?rs" "?rs ! i = tr" by (auto simp: in_set_conv_nth)
  then have it: "IteraterToTestRef g i = Some tr" using IteraterToTestRef_nth [of g i] ok by simp
  have "\<exists>r. IteraterToTestRef g j = Some r \<and> r \<noteq> tr" if "j < i" for j
    using that i(1) ok IteraterToTestRef_nth [of g j] IteraterToTestRef_inj [OF all_tests_after(1) it, of j]
    by (auto simp: Let_def)
  then show ?thesis using seek_loop_finds [OF _ it, of 0] it by (auto simp: TestRefToIterator_def)
qed

lemma push_range_eq:
  "(\<And>k. k < n \<Longrightarrow> IteraterToTestRef g (i + k) = Some (f k)) \<Longrightarrow>
     push_range g i n deps = (True, deps @ map f [0..<n])"
proof (induction g i n deps arbitrary: f rule: push_range.induct)
  case (2 g i n deps)
  have "push_range g (i + 1) n (deps @ [f 0]) = (True, (deps @ [f 0]) @ map (\<lambda>k. f (Suc k)) [0..<n])"
    using 2(1) [of "f 0" "\<lambda>k. f (Suc k)"] 2(2) [of 0] 2(2) [of "Suc _"] by simp
  moreover have "map f [0..<Suc n] = f 0 # map (\<lambda>k. f (Suc k)) [0..<n]"
    by (simp add: map_upt_Suc del: upt_Suc)
  ultimately show ?case using 2(2) [of 0] by simp
qed simp

lemma push_all_eq:
  assumes "group_ok g"
  shows "i \<le> length (all_tests (mGrpNum g) (mTests g)) \<Longrightarrow>
    push_all g i deps = deps @ drop i (all_tests (mGrpNum g) (mTests g))"
proof (induction "length (all_tests (mGrpNum g) (mTests g)) - i" arbitrary: i deps)
  case 0
  then show ?case using IteraterToTestRef_nth [of g i] assms by (simp add: push_all.simps [of g i] group_ok_def)
next
  case (Suc n)
  then have l: "i < length (all_tests (mGrpNum g) (mTests g))" by simp
  then show ?case
    using Suc(1) [of "Suc i"] Suc(2) IteraterToTestRef_nth [of g i] assms
    by (simp add: push_all.simps [of g i] group_ok_def Cons_nth_drop_Suc)
qed

lemma adv_loop_eq:
  "i \<le> length deps \<Longrightarrow> adv_loop dep deps i s =
     (i + length (takeWhile dep (drop i deps)), s @ takeWhile dep (drop i deps))"
proof (induction "length deps - i" arbitrary: i s)
  case 0
  then show ?case by (simp add: adv_loop.simps [of dep deps i])
next
  case (Suc n)
  then have "drop i deps = deps ! i # drop (Suc i) deps" by (simp add: Cons_nth_drop_Suc)
  then show ?case
    using Suc(1) [of "Suc i"] Suc(2) by (simp add: adv_loop.simps [of dep deps i])
qed

lemma Advance_eq:
  assumes "i < length deps"
  shows "AdvanceDependencies deps (int i) failed skipped =
    (let sk = takeWhile (dependent (deps ! i) failed) (drop (i + 1) deps); j = i + 1 + length sk in
     (int (length sk), if j = length deps then - 1 else int j, skipped @ sk))"
proof (cases "i + 1 = length deps")
  case True
  then show ?thesis by (simp add: AdvanceDependencies_def Let_def)
next
  case False
  let ?sk = "takeWhile (dependent (deps ! i) failed) (drop (i + 1) deps)"
  have "length ?sk \<le> length (drop (i + 1) deps)" by (rule length_takeWhile_le)
  then show ?thesis
    using False assms adv_loop_eq [of "i + 1" deps "dependent (deps ! i) failed" skipped]
    by (auto simp: AdvanceDependencies_def Let_def nat_add_distrib)
qed

section \<open>Properties\<close>

text \<open>C8: In a group as the macros build it, the number-to-test walk of the code enumerates the tests level by level:
  number \<open>i\<close> is the test at place \<open>i\<close> of the list of all tests, numbers past the end give nothing, and
  every existing test is found under its number.\<close>

theorem IteraterToTestRef_enumerates:
  assumes "group_ok g"
  shows "IteraterToTestRef g i =
      (if i < length (all_tests (mGrpNum g) (mTests g)) then Some (all_tests (mGrpNum g) (mTests g) ! i) else None) \<and>
    (TestExists g tr \<longrightarrow> (\<exists>k. TestRefToIterator g tr = Some k \<and> IteraterToTestRef g k = Some tr))"
  using IteraterToTestRef_nth [of g i] TestRefToIterator_finds [OF assms, of tr] assms
  unfolding group_ok_def Let_def by blast

text \<open>C12: The dependency set of a test \<open>x.y.z\<close> is the configuration test \<open>x.0.0\<close> when \<open>y\<close> is not zero, then the sequence
  \<open>x.y.0\<close> up to \<open>x.y.z\<close> that ends with the test itself; the set of a whole group is all its tests.\<close>

theorem GetTestSet_dependencies:
  assumes "group_ok g" and "tr_group t = mGrpNum g"
  shows "(xLev t = UINT_MAX \<or> yLev t = UINT_MAX \<or> zLev t = UINT_MAX \<longrightarrow>
      GetTestSet g t = (True, all_tests (mGrpNum g) (mTests g), 0)) \<and>
    (TestExists g t \<and> xLev t \<noteq> UINT_MAX \<and> yLev t \<noteq> UINT_MAX \<and> zLev t \<noteq> UINT_MAX \<longrightarrow>
      GetTestSet g t =
        (True, (if yLev t = 0 then [] else [TestRef_Init (mGrpNum g) (xLev t) 0 0]) @
               map (TestRef_Init (mGrpNum g) (xLev t) (yLev t)) [0..<Suc (zLev t)], 0))"
proof (intro conjI impI)
  assume "xLev t = UINT_MAX \<or> yLev t = UINT_MAX \<or> zLev t = UINT_MAX"
  then show "GetTestSet g t = (True, all_tests (mGrpNum g) (mTests g), 0)"
    using push_all_eq [OF assms(1), of 0 "[]"] assms(2) by (auto simp: GetTestSet_def Let_def)
next
  assume a: "TestExists g t \<and> xLev t \<noteq> UINT_MAX \<and> yLev t \<noteq> UINT_MAX \<and> zLev t \<noteq> UINT_MAX"
  define x y z where xyz: "x = xLev t" "y = yLev t" "z = zLev t"
  have t: "t = TestRef_Init (mGrpNum g) x y z" using assms(2) by (cases t) (simp add: TestRef_Init_def xyz)
  have in_range: "x < length (mTests g)" "y < length (mTests g ! x)" "z < length (mTests g ! x ! y)"
    using a by (simp_all add: xyz)
  have x0: "0 < length (mTests g ! x)" using in_range(2) by linarith
  then have "0 < length (mTests g ! x ! 0)"
    using assms(1) in_range(1) unfolding group_ok_def full_matrix_def list_all_length by blast
  then have config: "TestExists g (TestRef_Init (mGrpNum g) x 0 0)" using in_range x0 by simp
  have "0 < length (mTests g ! x ! y)" using in_range(3) by linarith
  then have root: "TestExists g (TestRef_Init (mGrpNum g) x y 0)" using in_range by simp
  obtain i where i: "TestRefToIterator g (TestRef_Init (mGrpNum g) x y 0) = Some i"
      "IteraterToTestRef g i = Some (TestRef_Init (mGrpNum g) x y 0)"
    using TestRefToIterator_finds [OF assms(1) root] by blast
  have along: "IteraterToTestRef g (i + k) = Some (TestRef_Init (mGrpNum g) x y k)" if "k \<le> z" for k
  proof -
    have "iter_walk g i (0, 0, 0) = Some (x, y, 0)" using i(2) by (auto simp: IteraterToTestRef_def)
    moreover have "at_test g (x, y, 0 + k)" using in_range that by (simp add: at_test_def)
    ultimately show ?thesis
      using iter_walk_add [of g i k "(0, 0, 0)"] iter_walk_along [of g x y 0 k] by (simp add: IteraterToTestRef_def)
  qed
  obtain j where j: "TestRefToIterator g t = Some j" "IteraterToTestRef g j = Some t"
    using TestRefToIterator_finds [OF assms(1)] a by blast
  have "j = i + z"
    using IteraterToTestRef_inj [OF all_tests_after(1) j(2)] along [of z] t assms(1) by (simp add: group_ok_def)
  then have "push_range g i (j - i) deps = (True, deps @ map (TestRef_Init (mGrpNum g) x y) [0..<z])" for deps
    using push_range_eq [of z g i "TestRef_Init (mGrpNum g) x y"] along by simp
  then show "GetTestSet g t = (True, (if yLev t = 0 then [] else [TestRef_Init (mGrpNum g) (xLev t) 0 0]) @
      map (TestRef_Init (mGrpNum g) (xLev t) (yLev t)) [0..<Suc (zLev t)], 0)"
    using a config i(1) j(1) assms(2) t
    by (simp add: GetTestSet_def Let_def flip: xyz)
qed

text \<open>\<open>AdvanceDependencies\<close> skips exactly the dependents that directly follow a test in its set: it appends them to
  the skipped tests, returns their number, and leaves the index at the first test after them, or at -1
  when none is left.\<close>

theorem AdvanceDependencies_skips_dependents:
  assumes "i < length deps"
  shows "AdvanceDependencies deps (int i) failed skipped =
    (let sk = takeWhile (dependent (deps ! i) failed) (drop (i + 1) deps); j = i + 1 + length sk in
     (int (length sk), if j = length deps then - 1 else int j, skipped @ sk))"
  by (rule Advance_eq [OF assms])

text \<open>The macros that build a group keep every level of its matrix non-empty and add one test each; once one test is
  appended, the group is numbered without gaps.\<close>

theorem APPEND_TEST_keeps_full:
  assumes "full_matrix m" and "m' = snd (APPEND_TEST_AT_XLEVEL t m) \<or>
    APPEND_TEST_AT_YLEVEL t m = (Inr (), m') \<or> APPEND_TEST_AT_ZLEVEL t m = (Inr (), m')"
  shows "full_matrix m' \<and> n_tests m' = n_tests m + 1 \<and>
    group_ok \<lparr>mGrpNum = n, mGrpName = name, mGrpDesc = desc, mTests = m'\<rparr>"
proof -
  have x: "APPEND_TEST_AT_XLEVEL t m = (Inr (), snd (APPEND_TEST_AT_XLEVEL t m))"
    by (simp add: APPEND_TEST_AT_XLEVEL_def modify_def)
  have "full_matrix m' \<and> m' \<noteq> [] \<and> n_tests m' = n_tests m + 1"
    using assms(2)
  proof (elim disjE)
    assume "m' = snd (APPEND_TEST_AT_XLEVEL t m)"
    then show ?thesis using append_xlevel [OF assms(1) x] by simp
  next
    assume y: "APPEND_TEST_AT_YLEVEL t m = (Inr (), m')"
    show ?thesis by (rule append_ylevel [OF assms(1) y])
  next
    assume z: "APPEND_TEST_AT_ZLEVEL t m = (Inr (), m')"
    show ?thesis by (rule append_zlevel [OF assms(1) z])
  qed
  then show ?thesis by (simp add: group_ok_def)
qed

section \<open>Examples\<close>

text \<open>Tests 0.0.0, 0.0.1, 0.1.0, 0.1.1, 1.0.0.\<close>

definition ex_group :: "nat group" where
  "ex_group = \<lparr>mGrpNum = 3, mGrpName = ''GrpQueues'', mGrpDesc = [], mTests = [[[10, 11], [12, 13]], [[14]]]\<rparr>"

lemma ex_group_ok: "group_ok ex_group"
  by (simp add: group_ok_def full_matrix_def ex_group_def)

lemma IteraterToTestRef_enumerates_witness:
  "IteraterToTestRef ex_group 3 = Some (TestRef_Init 3 0 1 1) \<and>
   (\<exists>k. TestRefToIterator ex_group (TestRef_Init 3 0 1 1) = Some k \<and> IteraterToTestRef ex_group k = Some (TestRef_Init 3 0 1 1))"
  using IteraterToTestRef_enumerates [OF ex_group_ok, of 3 "TestRef_Init 3 0 1 1"]
  by (simp add: ex_group_def all_tests_def upt_rec)

lemma GetTestSet_dependencies_witness:
  "GetTestSet ex_group (TestRef_Init 3 0 1 1) =
    (True, [TestRef_Init 3 0 0 0, TestRef_Init 3 0 1 0, TestRef_Init 3 0 1 1], 0)"
  using GetTestSet_dependencies [OF ex_group_ok, of "TestRef_Init 3 0 1 1"]
  by (simp add: ex_group_def UINT_MAX_def upt_rec)

lemma AdvanceDependencies_skips_dependents_witness:
  "AdvanceDependencies [TestRef_Init 3 0 0 0, TestRef_Init 3 0 1 0, TestRef_Init 3 1 0 0] (int 0) True [] =
    (1, 2, [TestRef_Init 3 0 1 0])"
  using AdvanceDependencies_skips_dependents [of 0 "[TestRef_Init 3 0 0 0, TestRef_Init 3 0 1 0, TestRef_Init 3 1 0 0]" True "[]"]
  by (simp add: dependent_def)

lemma APPEND_TEST_keeps_full_witness:
  "full_matrix [[[1, 2 :: nat]]] \<and> n_tests [[[1, 2 :: nat]]] = n_tests [[[1 :: nat]]] + 1 \<and>
    group_ok \<lparr>mGrpNum = 0, mGrpName = [], mGrpDesc = [], mTests = [[[1, 2 :: nat]]]\<rparr>"
  by (rule APPEND_TEST_keeps_full [of "[[[1]]]" _ 2]) (simp_all add: full_matrix_def APPEND_TEST_AT_ZLEVEL_def)

end
