(* ===== verification/Identify.thy ===== *)
theory Identify
  imports World
begin

text \<open>
  The Identify command (Cmds/identify.cpp, identifyDefs.h) and the interpretation of the data it
  returns: the tables that place every field of the controller and namespace structures, and the
  readers of fields, lists, LBA formats and the maximum transfer size. Formatting for dumps and the
  log is not modelled. Fields are named by their index in the table, as in the code.
\<close>

section \<open>Tables\<close>

record IdentifyDataType =
  idt_offset :: u16
  idt_length :: u16
  idt_mandatory :: bool
  idt_specRev :: SpecRev
  idt_desc :: string

definition mkId :: "u16 \<Rightarrow> u16 \<Rightarrow> bool \<Rightarrow> SpecRev \<Rightarrow> string \<Rightarrow> IdentifyDataType" where
  "mkId off len m srev desc = \<lparr>idt_offset = off, idt_length = len, idt_mandatory = m,
     idt_specRev = srev, idt_desc = desc\<rparr>"

abbreviation (input) IDCTRLRCAP_MDTS :: nat where "IDCTRLRCAP_MDTS \<equiv> 9"
abbreviation (input) IDCTRLRCAP_INTRESF0 :: nat where "IDCTRLRCAP_INTRESF0 \<equiv> 20"
abbreviation (input) IDCTRLRCAP_MEC :: nat where "IDCTRLRCAP_MEC \<equiv> 21"
abbreviation (input) IDCTRLRCAP_OACS :: nat where "IDCTRLRCAP_OACS \<equiv> 22"
abbreviation (input) IDCTRLRCAP_NPSS :: nat where "IDCTRLRCAP_NPSS \<equiv> 28"
abbreviation (input) IDCTRLRCAP_SQES :: nat where "IDCTRLRCAP_SQES \<equiv> 47"
abbreviation (input) IDCTRLRCAP_CQES :: nat where "IDCTRLRCAP_CQES \<equiv> 48"
abbreviation (input) IDCTRLRCAP_NN :: nat where "IDCTRLRCAP_NN \<equiv> 51"
abbreviation (input) IDCTRLRCAP_PSD0 :: nat where "IDCTRLRCAP_PSD0 \<equiv> 75"
abbreviation (input) IDCTRLRCAP_FENCE :: nat where "IDCTRLRCAP_FENCE \<equiv> 108"
abbreviation (input) IDNAMESPC_NSZE :: nat where "IDNAMESPC_NSZE \<equiv> 0"
abbreviation (input) IDNAMESPC_FLBAS :: nat where "IDNAMESPC_FLBAS \<equiv> 5"
abbreviation (input) IDNAMESPC_DPS :: nat where "IDNAMESPC_DPS \<equiv> 8"
abbreviation (input) IDNAMESPC_LBAF0 :: nat where "IDNAMESPC_LBAF0 \<equiv> 26"
abbreviation (input) IDNAMESPC_FENCE :: nat where "IDNAMESPC_FENCE \<equiv> 44"

definition psd_table :: "IdentifyDataType list" where
  "psd_table =
    [mkId 2048 32 True SPECREV_10b ''Power State 0 Desc (PSD0)'',
     mkId 2080 32 False SPECREV_10b ''Power State 1 Desc (PSD1)'',
     mkId 2112 32 False SPECREV_10b ''Power State 2 Desc (PSD2)'',
     mkId 2144 32 False SPECREV_10b ''Power State 3 Desc (PSD3)'',
     mkId 2176 32 False SPECREV_10b ''Power State 4 Desc (PSD4)'',
     mkId 2208 32 False SPECREV_10b ''Power State 5 Desc (PSD5)'',
     mkId 2240 32 False SPECREV_10b ''Power State 6 Desc (PSD6)'',
     mkId 2272 32 False SPECREV_10b ''Power State 7 Desc (PSD7)'',
     mkId 2304 32 False SPECREV_10b ''Power State 8 Desc (PSD8)'',
     mkId 2336 32 False SPECREV_10b ''Power State 9 Desc (PSD9)'',
     mkId 2368 32 False SPECREV_10b ''Power State 10 Desc (PSD10)'',
     mkId 2400 32 False SPECREV_10b ''Power State 11 Desc (PSD11)'',
     mkId 2432 32 False SPECREV_10b ''Power State 12 Desc (PSD12)'',
     mkId 2464 32 False SPECREV_10b ''Power State 13 Desc (PSD13)'',
     mkId 2496 32 False SPECREV_10b ''Power State 14 Desc (PSD14)'',
     mkId 2528 32 False SPECREV_10b ''Power State 15 Desc (PSD15)'',
     mkId 2560 32 False SPECREV_10b ''Power State 16 Desc (PSD16)'',
     mkId 2592 32 False SPECREV_10b ''Power State 17 Desc (PSD17)'',
     mkId 2624 32 False SPECREV_10b ''Power State 18 Desc (PSD18)'',
     mkId 2656 32 False SPECREV_10b ''Power State 19 Desc (PSD19)'',
     mkId 2688 32 False SPECREV_10b ''Power State 20 Desc (PSD20)'',
     mkId 2720 32 False SPECREV_10b ''Power State 21 Desc (PSD21)'',
     mkId 2752 32 False SPECREV_10b ''Power State 22 Desc (PSD22)'',
     mkId 2784 32 False SPECREV_10b ''Power State 23 Desc (PSD23)'',
     mkId 2816 32 False SPECREV_10b ''Power State 24 Desc (PSD24)'',
     mkId 2848 32 False SPECREV_10b ''Power State 25 Desc (PSD25)'',
     mkId 2880 32 False SPECREV_10b ''Power State 26 Desc (PSD26)'',
     mkId 2912 32 False SPECREV_10b ''Power State 27 Desc (PSD27)'',
     mkId 2944 32 False SPECREV_10b ''Power State 28 Desc (PSD28)'',
     mkId 2976 32 False SPECREV_10b ''Power State 29 Desc (PSD29)'',
     mkId 3008 32 False SPECREV_10b ''Power State 30 Desc (PSD30)'',
     mkId 3040 32 False SPECREV_10b ''Power State 31 Desc (PSD31)'']"

definition mIdCtrlrCapMetrics :: "IdentifyDataType list" where
  "mIdCtrlrCapMetrics =
    [mkId 0 2 True SPECREV_10b ''PCI Vendor ID (VID)'',
     mkId 2 2 True SPECREV_10b ''PCI Subsystem Vendor ID (SSVID)'',
     mkId 4 20 True SPECREV_10b ''Serial Number (SN)'',
     mkId 24 40 True SPECREV_10b ''Model Number (MN)'',
     mkId 64 8 True SPECREV_10b ''Firmware Revision (FR)'',
     mkId 72 1 True SPECREV_10b ''Recommend Arbitration Burst (RAB)'',
     mkId 73 3 True SPECREV_10b ''IEEE OUI Identifier (IEEE)'',
     mkId 76 1 True SPECREV_10b ''Multi-Interface Capabilities (MIC)'',
     mkId 76 1 False SPECREV_11 ''Ctrlr Multipath IO & Namspc Share Cap (CMIC)'',
     mkId 77 1 True SPECREV_10b ''Maximum Data Xfer Size (MDTS)'',
     mkId 78 178 True SPECREV_10b ''Reserved area @ 0x4e'',
     mkId 78 2 False SPECREV_11 ''Controller ID (CNTLID)'',
     mkId 80 176 True SPECREV_11 ''Reserved area @ 0x50'',
     mkId 80 4 False SPECREV_12 ''NVMe Spec Version (VER)'',
     mkId 84 4 False SPECREV_12 ''Resume Latency (RTD3R)'',
     mkId 88 4 False SPECREV_12 ''Entry Latency (RTD3E)'',
     mkId 92 4 False SPECREV_12 ''Opt Async Events Supported)'',
     mkId 96 160 False SPECREV_12 ''Reserved area @ 0x60'',
     mkId 96 4 True SPECREV_121 ''Controller Attributes (CTRATT)'',
     mkId 100 140 False SPECREV_121 ''Reserved area @ 0x64'',
     mkId 250 15 False SPECREV_121 ''Reserved area @ 0xF0'',
     mkId 255 1 True SPECREV_121 ''Management Endpoint Capabilities (MEC)'',
     mkId 256 2 True SPECREV_10b ''Optional Admin Cmd Support (OACS)'',
     mkId 258 1 True SPECREV_10b ''Abort Cmd Limit (ACL)'',
     mkId 259 1 True SPECREV_10b ''Async Event Req Limit (AERL)'',
     mkId 260 1 True SPECREV_10b ''Firmware Updates (FRMW)'',
     mkId 261 1 True SPECREV_10b ''Log Page Atribute (LPA)'',
     mkId 262 1 True SPECREV_10b ''Error Log Page Entries (ELPE)'',
     mkId 263 1 True SPECREV_10b ''Number of Power States Support (NPSS)'',
     mkId 264 248 True SPECREV_10b ''Reserved area @ 0x108'',
     mkId 264 1 True SPECREV_11 ''Admin Vendor Spec Cmd Config (AVSCC)'',
     mkId 265 1 False SPECREV_11 ''Autonomous PS Transition Attr (APSTA)'',
     mkId 266 246 True SPECREV_11 ''Reserved area @ 0x10A'',
     mkId 266 2 False SPECREV_12 ''Warn Composite Temp Thresh (WCTEMP)'',
     mkId 268 2 False SPECREV_12 ''Crit Composite Temp Thresh (CCTEMP)'',
     mkId 270 2 False SPECREV_12 ''Max Time for FW Activation (MTFA)'',
     mkId 272 4 False SPECREV_12 ''Host Mem Buf Preferred Size (HMPRE)'',
     mkId 276 4 False SPECREV_12 ''Host Mem Buffer Minimum Size (HMMIN)'',
     mkId 280 8 False SPECREV_12 ''TNVMCAP_LOWER'',
     mkId 288 8 False SPECREV_12 ''TNVMCAP_UPPER'',
     mkId 296 8 False SPECREV_12 ''UNVMCAP_LOWER'',
     mkId 304 8 False SPECREV_12 ''UNVMCAP_UPPER'',
     mkId 312 4 False SPECREV_12 ''Replay Protected Mem Blk Supp (RPMBS)'',
     mkId 316 196 False SPECREV_12 ''Reserved area @ 0x13c'',
     mkId 316 4 False SPECREV_121 ''Reserved area @ 0x13c'',
     mkId 320 2 False SPECREV_121 ''Keep Alive Support (KAS)'',
     mkId 322 190 False SPECREV_121 ''Reserved area @ 0x141'',
     mkId 512 1 True SPECREV_10b ''Submission Q Entry Size (SQES)'',
     mkId 513 1 True SPECREV_10b ''Completion Q Entry Size (CQES)'',
     mkId 514 2 True SPECREV_10b ''Reserved area @ 0x202'',
     mkId 514 2 True SPECREV_121 ''Maximum Outstanding Commands (MAXCMD)'',
     mkId 516 4 True SPECREV_10b ''Number of Namespaces (NN)'',
     mkId 520 2 True SPECREV_10b ''Optional NVM Cmd Support (ONCS)'',
     mkId 522 2 True SPECREV_10b ''Fused Operation Suppot (FUSES)'',
     mkId 524 1 True SPECREV_10b ''Format NVM Attribute (FNA)'',
     mkId 525 1 True SPECREV_10b ''Volatile Write Cache (VWC)'',
     mkId 526 2 True SPECREV_10b ''Atomic Write Unit Normal (AWUN)'',
     mkId 528 2 True SPECREV_10b ''Atomic Write Unit Power Fail (AWUPF)'',
     mkId 530 174 True SPECREV_10b ''Reserved area @ 0x212'',
     mkId 530 1 True SPECREV_11 ''NVM Vendor Spec Cmd Config (NVSCC)'',
     mkId 531 1 True SPECREV_11 ''Reserved area @ 0x213'',
     mkId 532 2 False SPECREV_11 ''Atomic Compare & Write Unit (ACWU)'',
     mkId 534 2 True SPECREV_11 ''Reserved area @ 0x216'',
     mkId 536 4 False SPECREV_11 ''SGL Support (SGLS)'',
     mkId 540 164 True SPECREV_11 ''Reserved area @ 0x21C'',
     mkId 540 228 True SPECREV_121 ''Reserved area @ 0x21C'',
     mkId 768 256 True SPECREV_121 ''NVM Subsystem NVMe Qualified Name (SUBNQN)'',
     mkId 1024 768 True SPECREV_121 ''Reserved area @ 0x400'',
     mkId 1792 4 True SPECREV_121 ''I/O Queue Command Capsule Supported Size(IOCCSZ)'',
     mkId 1796 4 True SPECREV_121 ''I/O Queue Response Capsule Supported Size(IORCSZ)'',
     mkId 1800 2 True SPECREV_121 ''In Capsule Data  Offset (ICDOFF)'',
     mkId 1802 1 True SPECREV_121 ''Controller Attributes (CTRATTR)'',
     mkId 1803 1 True SPECREV_121 ''Maximum SGL Data Block Descriptors (MSDBD)'',
     mkId 1804 244 True SPECREV_121 ''Reserved area @ 1804'',
     mkId 704 1344 True SPECREV_10b ''Reserved area @ 2c0''] @
    psd_table @
    [mkId 3072 1024 False SPECREV_10b ''Vendor Specific (VS)'']"

definition mIdNamespcType :: "IdentifyDataType list" where
  "mIdNamespcType =
    [mkId 0 8 True SPECREV_10b ''Namespace Size (NSZE)'',
     mkId 8 8 True SPECREV_10b ''Namespace Capacity (NCAP)'',
     mkId 16 8 True SPECREV_10b ''Namespace Utilization (NUSE)'',
     mkId 24 1 True SPECREV_10b ''Namespace Features (NSFEAT)'',
     mkId 25 1 True SPECREV_10b ''Number LBA Formats (NLBAF)'',
     mkId 26 1 True SPECREV_10b ''Formatted LBA Size (FLBAS)'',
     mkId 27 1 True SPECREV_10b ''Metadata Capabilities (MC)'',
     mkId 28 1 True SPECREV_10b ''End 2 End Data Protection Cap (DPC)'',
     mkId 29 1 True SPECREV_10b ''End 2 End Prot Type Settings (DPS)'',
     mkId 30 1 False SPECREV_11 ''Namspc Multi-path I/O and Namspc Sharing Cap (NMIC)'',
     mkId 31 1 False SPECREV_11 ''Reservation Capabilities (RESCAP)'',
     mkId 30 98 True SPECREV_10b ''Reserved area @ 0x1e'',
     mkId 32 88 True SPECREV_11 ''Reserved area @ 0x20'',
     mkId 32 1 False SPECREV_12 ''Format Progress Indicator (FPI)'',
     mkId 33 1 True SPECREV_12 ''Reserved area @ 0x21'',
     mkId 34 2 False SPECREV_12 ''Namespace Atomic Write Unit Normal (NAWUN)'',
     mkId 36 2 False SPECREV_12 ''Namespace Atomic Write Unit Power Fail (NAWUPF)'',
     mkId 38 2 False SPECREV_12 ''Namespace Atomic Compare & Write Unit (NACWU)'',
     mkId 40 2 False SPECREV_12 ''Namespace Atomic Boundary Size Normal (NABSN)'',
     mkId 42 2 False SPECREV_12 ''Namespace Atomic Boundary Offset (NABO)'',
     mkId 44 2 False SPECREV_12 ''Namespace Atomic Boundary Size Power Fail (NABSPF)'',
     mkId 46 2 True SPECREV_12 ''Reserved area @ 0x2e'',
     mkId 48 16 False SPECREV_12 ''NVM Capacity (NVMCAP)'',
     mkId 64 40 True SPECREV_12 ''Reserved area @ 0x40'',
     mkId 104 16 False SPECREV_12 ''Namespace Globally Unique Identifier (NGUID)'',
     mkId 120 8 True SPECREV_11 ''IEEE Extended Unique Identifier (EUI64)'',
     mkId 128 4 True SPECREV_10b ''LBA Format 0 Support (LBAF0)'',
     mkId 132 4 False SPECREV_10b ''LBA Format 1 Support (LBAF1)'',
     mkId 136 4 False SPECREV_10b ''LBA Format 2 Support (LBAF2)'',
     mkId 140 4 False SPECREV_10b ''LBA Format 3 Support (LBAF3)'',
     mkId 144 4 False SPECREV_10b ''LBA Format 4 Support (LBAF4)'',
     mkId 148 4 False SPECREV_10b ''LBA Format 5 Support (LBAF5)'',
     mkId 152 4 False SPECREV_10b ''LBA Format 6 Support (LBAF6)'',
     mkId 156 4 False SPECREV_10b ''LBA Format 7 Support (LBAF7)'',
     mkId 160 4 False SPECREV_10b ''LBA Format 8 Support (LBAF8)'',
     mkId 164 4 False SPECREV_10b ''LBA Format 9 Support (LBAF9)'',
     mkId 168 4 False SPECREV_10b ''LBA Format 10 Support (LBAF10)'',
     mkId 172 4 False SPECREV_10b ''LBA Format 11 Support (LBAF11)'',
     mkId 176 4 False SPECREV_10b ''LBA Format 12 Support (LBAF12)'',
     mkId 180 4 False SPECREV_10b ''LBA Format 13 Support (LBAF13)'',
     mkId 184 4 False SPECREV_10b ''LBA Format 14 Support (LBAF14)'',
     mkId 188 4 False SPECREV_10b ''LBA Format 15 Support (LBAF15)'',
     mkId 192 192 True SPECREV_10b ''Reserved area @ 0xc0'',
     mkId 384 3712 False SPECREV_10b ''Vendor Specific (VS)'']"

text \<open>The values of \<open>enum CNSValues\<close>.\<close>

abbreviation (input) CNS_Namespace :: u8 where "CNS_Namespace \<equiv> 0x00"
abbreviation (input) CNS_Controller :: u8 where "CNS_Controller \<equiv> 0x01"
abbreviation (input) CNS_NamespaceListActive :: u8 where "CNS_NamespaceListActive \<equiv> 0x02"
abbreviation (input) CNS_NamespaceListSubsystem :: u8 where "CNS_NamespaceListSubsystem \<equiv> 0x10"
abbreviation (input) CNS_NamespaceStructSubsystem :: u8 where "CNS_NamespaceStructSubsystem \<equiv> 0x11"
abbreviation (input) CNS_ControllerListAttachedToNSID :: u8 where "CNS_ControllerListAttachedToNSID \<equiv> 0x12"
abbreviation (input) CNS_ControllerListSubsystem :: u8 where "CNS_ControllerListSubsystem \<equiv> 0x13"

definition NS_LIST_ENTRY_SIZE :: u16 where "NS_LIST_ENTRY_SIZE = 4"
definition NS_LIST_SIZE :: nat where "NS_LIST_SIZE = 1024 * 4"
definition CTLR_LIST_ENTRY_SIZE :: u16 where "CTLR_LIST_ENTRY_SIZE = 2"
definition CTLR_LIST_SIZE :: nat where "CTLR_LIST_SIZE = 2047 * 2 + 2"

section \<open>The command\<close>

definition Identify_Identify :: "libc \<Rightarrow> send_masks \<Rightarrow> ex + cmd" where
  "Identify_Identify C M =
     new_cmd C M OBJ_IDENTIFY 0x06 DATADIR_FROM_DEVICE 64 (MASK_PRP1_PAGE M OR MASK_PRP2_PAGE M)"

definition Identify_SetCNS :: "u8 \<Rightarrow> unit cmd_prog" where
  "Identify_SetCNS ctrlr = Cmd_SetByte ctrlr 10 0"

definition Identify_GetCNS :: "u8 cmd_prog" where
  "Identify_GetCNS = Cmd_GetByte 10 0"

definition Identify_SetCNTID :: "u16 \<Rightarrow> unit cmd_prog" where
  "Identify_SetCNTID cntid = Cmd_SetWord cntid 10 1"

definition Identify_GetCNTID :: "u16 cmd_prog" where
  "Identify_GetCNTID = Cmd_GetWord 10 1"

definition containsNamspcDataStruct :: "bool cmd_prog" where
  "containsNamspcDataStruct =
     bnd Identify_GetCNS (\<lambda>cns. ret (cns = CNS_Namespace \<or> cns = CNS_NamespaceStructSubsystem))"

definition containsCtrlrDataStruct :: "bool cmd_prog" where
  "containsCtrlrDataStruct = bnd Identify_GetCNS (\<lambda>cns. ret (cns = CNS_Controller))"

definition containsNamspcList :: "bool cmd_prog" where
  "containsNamspcList =
     bnd Identify_GetCNS (\<lambda>cns. ret (cns = CNS_NamespaceListActive \<or> cns = CNS_NamespaceListSubsystem))"

definition containsCtrlrList :: "bool cmd_prog" where
  "containsCtrlrList =
     bnd Identify_GetCNS (\<lambda>cns.
       ret (cns = CNS_ControllerListAttachedToNSID \<or> cns = CNS_ControllerListSubsystem))"

section \<open>Reading fields\<close>

text \<open>\<open>value |= byte << (i*8)\<close>, \<open>n\<close> times from \<open>i\<close> on.\<close>

fun value_loop :: "cmd \<Rightarrow> nat \<Rightarrow> nat \<Rightarrow> nat \<Rightarrow> u64 \<Rightarrow> (('d, 'm) world_scheme, u64) prog" where
  "value_loop c off i 0 v = ret v"
| "value_loop c off i (Suc n) v =
     bnd (PrpData_byte c (off + i)) (\<lambda>b. value_loop c off (Suc i) n (v OR push_bit (8 * i) (ucast b)))"

definition Identify_GetValue_table ::
  "cmd \<Rightarrow> nat \<Rightarrow> IdentifyDataType list \<Rightarrow> (('d, 'm) world_scheme, u64) prog" where
  "Identify_GetValue_table c field idData =
     (if field \<ge> length idData then raise (UB ''index outside of the table'')
      else let d = idData ! field in
        if unat (idt_length d) > 8 then raise (FrmwkEx ''sizeof(%s) > %ld bytes'')
        else if unat (idt_length d) + unat (idt_offset d) \<ge> unat (mBufSize c)
        then raise (FrmwkEx ''Reference calc (%d): %d + %d >= %ld'')
        else value_loop c (unat (idt_offset d)) 0 (unat (idt_length d)) 0)"

definition Identify_GetValue_ctrlr :: "cmd \<Rightarrow> nat \<Rightarrow> (('d, 'm) world_scheme, u64) prog" where
  "Identify_GetValue_ctrlr c field =
     (if field \<ge> IDCTRLRCAP_FENCE then raise (FrmwkEx ''Unknown ctrlr cap field: %d'')
      else bnd (of_cmd c containsCtrlrDataStruct) (\<lambda>b.
        if \<not> b then raise (FrmwkEx ''This cmd does not contain a ctrlr data struct'')
        else Identify_GetValue_table c field mIdCtrlrCapMetrics))"

definition Identify_GetValue_namspc :: "cmd \<Rightarrow> nat \<Rightarrow> (('d, 'm) world_scheme, u64) prog" where
  "Identify_GetValue_namspc c field =
     (if field \<ge> IDNAMESPC_FENCE then raise (FrmwkEx ''Unknown namespace field: %d'')
      else bnd (of_cmd c containsNamspcDataStruct) (\<lambda>b.
        if \<not> b then raise (FrmwkEx ''This cmd does not contain a namspc data struct'')
        else Identify_GetValue_table c field mIdNamespcType))"

text \<open>
  Entries of the returned lists: the accumulator of the loop is a \<open>uint8_t\<close>, and \<open>entry * entrySize\<close>
  is a 32-bit product.
\<close>

fun entry_loop :: "cmd \<Rightarrow> nat \<Rightarrow> nat \<Rightarrow> nat \<Rightarrow> u8 \<Rightarrow> (('d, 'm) world_scheme, u8) prog" where
  "entry_loop c off i 0 v = ret v"
| "entry_loop c off i (Suc n) v =
     bnd (PrpData_byte c (off + i)) (\<lambda>b.
       entry_loop c off (Suc i) n (ucast ((ucast v :: u32) OR push_bit (i * 8) (ucast b))))"

definition Identify_GetValue_entry :: "cmd \<Rightarrow> u32 \<Rightarrow> (('d, 'm) world_scheme, u32) prog" where
  "Identify_GetValue_entry c entry =
     bnd (of_cmd c containsNamspcList) (\<lambda>nl.
     bnd (if nl then ret NS_LIST_ENTRY_SIZE
          else bnd (of_cmd c containsCtrlrList) (\<lambda>cl.
            if cl then ret CTLR_LIST_ENTRY_SIZE
            else raise (FrmwkEx ''This cmd does not contain a list''))) (\<lambda>entrySize.
     bnd (entry_loop c (unat (entry * ucast entrySize)) 0 (unat entrySize) 0) (\<lambda>v. ret (ucast v))))"

section \<open>LBA formats and transfer sizes\<close>

record LBAFormat =
  lba_MS :: u16
  lba_LBADS :: u8
  lba_RP :: u8

definition lba_of :: "u64 \<Rightarrow> LBAFormat" where
  "lba_of work = \<lparr>lba_MS = ucast work, lba_LBADS = ucast (drop_bit 16 work), lba_RP = ucast (drop_bit 24 work)\<rparr>"

definition Identify_GetLBAFormat :: "cmd \<Rightarrow> (('d, 'm) world_scheme, LBAFormat) prog" where
  "Identify_GetLBAFormat c =
     bnd (of_cmd c containsNamspcDataStruct) (\<lambda>b.
     sq (throw_if (\<not> b) (FrmwkEx ''This cmd does not contain a namspc data struct''))
     (bnd (Identify_GetValue_namspc c IDNAMESPC_FLBAS) (\<lambda>flbas.
       let formatIdx = unat (ucast (flbas AND 0x0f) :: u8) in
       bnd (Identify_GetValue_table c (IDNAMESPC_LBAF0 + formatIdx) mIdNamespcType) (\<lambda>work.
         ret (lba_of work)))))"

text \<open>\<open>1 << n\<close> on \<open>int\<close>, converted to 64 bits.\<close>

definition int_shift :: "u8 \<Rightarrow> ('s, u64) prog" where
  "int_shift n =
     (if n \<ge> 32 then raise (UB ''shift by the width of int or more'')
      else ret (word_of_int (sint (push_bit (unat n) 1 :: u32))))"

definition Identify_GetLBADataSize :: "cmd \<Rightarrow> (('d, 'm) world_scheme, u64) prog" where
  "Identify_GetLBADataSize c =
     bnd (Identify_GetLBAFormat c) (\<lambda>f. int_shift (lba_LBADS f))"

definition Identify_GetMaxDataXferSize ::
  "libc \<Rightarrow> 'd dnvme \<Rightarrow> cmd \<Rightarrow> (('d, 'm) world_scheme, u32) prog" where
  "Identify_GetMaxDataXferSize C drv c =
     bnd (of_cmd c Identify_GetCNS) (\<lambda>cns.
     sq (throw_if (cns = 0) (FrmwkEx ''This cmd does not contain a ctrlr data struct''))
     (bnd (Identify_GetValue_ctrlr c IDCTRLRCAP_MDTS) (\<lambda>v.
       let mdts = ucast v :: u8 in
       if mdts = 0 then ret (ucast mdts)
       else bnd (Registers_Read_ctl drv CTLSPC_CAP (undef64 C)) (\<lambda>(ok, ctrlCap).
         if \<not> ok then raise (FrmwkEx ''Unable to determine CAP.MPSMIN'')
         else let mpsMin = push_bit (12 + unat (drop_bit 48 (ctrlCap AND 0x000f000000000000))) 1 :: u32 in
           bnd (int_shift mdts) (\<lambda>n. ret (ucast n * mpsMin))))))"

section \<open>Zero-filled data\<close>

text \<open>
  The loops of \<open>isZeroFilled\<close> over a table step through the buffer by the length of \<^emph>\<open>every\<close> row,
  whatever its offset: in all they look at as many bytes as the lengths add up to.
\<close>

fun zero_loop :: "cmd \<Rightarrow> nat \<Rightarrow> nat \<Rightarrow> (('d, 'm) world_scheme, bool) prog" where
  "zero_loop c p 0 = ret True"
| "zero_loop c p (Suc n) =
     bnd (PrpData_byte c p) (\<lambda>b. if b \<noteq> 0 then ret False else zero_loop c (Suc p) n)"

definition table_bytes :: "IdentifyDataType list \<Rightarrow> nat" where
  "table_bytes t = sum_list (map (\<lambda>d. unat (idt_length d)) t)"

definition Identify_isZeroFilled :: "cmd \<Rightarrow> (('d, 'm) world_scheme, bool) prog" where
  "Identify_isZeroFilled c =
     bnd (of_cmd c Identify_GetCNS) (\<lambda>cns.
       if cns = CNS_Controller then zero_loop c 0 (table_bytes mIdCtrlrCapMetrics)
       else if cns = CNS_Namespace \<or> cns = CNS_NamespaceStructSubsystem
       then zero_loop c 0 (table_bytes mIdNamespcType)
       else if cns = CNS_NamespaceListActive \<or> cns = CNS_NamespaceListSubsystem
       then zero_loop c 0 NS_LIST_SIZE
       else if cns = CNS_ControllerListAttachedToNSID \<or> cns = CNS_ControllerListSubsystem
       then zero_loop c 0 CTLR_LIST_SIZE
       else raise (FrmwkEx ''CNS currently unsupported: 0x%x''))"

section \<open>Lemmas\<close>

text \<open>The data buffer of a command: a shared buffer that holds exactly the bytes \<open>bs\<close>.\<close>

definition has_data :: "cmd \<Rightarrow> u8 list \<Rightarrow> ('d, 'm) world_scheme \<Rightarrow> bool" where
  "has_data c bs s \<longleftrightarrow>
     (\<exists>r. mBufRW c = Some r \<and> mb_bytes (wd_bufs s r) = Some bs) \<and> unat (mBufSize c) = length bs"

lemma PrpData_byte_data: "has_data c bs s \<Longrightarrow> i < length bs \<Longrightarrow> PrpData_byte c i s = (Inr (bs ! i), s)"
  by (auto simp: has_data_def intro: PrpData_byte_RW)

lemma value_loop_run:
  assumes "has_data c bs s"
  shows "off + i + n \<le> length bs \<Longrightarrow>
    value_loop c off i n v s = (Inr (v OR push_bit (8 * i) (of_le (take n (drop (off + i) bs)))), s)"
proof (induction n arbitrary: i v)
  case 0
  then show ?case by simp
next
  case (Suc n)
  have b: "PrpData_byte c (off + i) s = (Inr (bs ! (off + i)), s)"
    using Suc.prems by (intro PrpData_byte_data [OF assms]) simp
  have "drop (off + i) bs = bs ! (off + i) # drop (off + Suc i) bs"
    using Suc.prems by (simp add: Cons_nth_drop_Suc)
  then show ?case
    using Suc.IH [of "Suc i"] Suc.prems
    by (simp add: bnd_apply b push_bit_or or.assoc add.commute [of 8])
qed

lemma table_sizes: "length mIdCtrlrCapMetrics = IDCTRLRCAP_FENCE" "length mIdNamespcType = IDNAMESPC_FENCE"
  by (simp_all add: mIdCtrlrCapMetrics_def psd_table_def mIdNamespcType_def)

lemma GetValue_table_run:
  assumes "has_data c bs s" and "f < length t" and "unat (idt_length (t ! f)) \<le> 8"
    and "unat (idt_length (t ! f)) + unat (idt_offset (t ! f)) < length bs"
  shows "Identify_GetValue_table c f t s =
    (Inr (of_le (take (unat (idt_length (t ! f))) (drop (unat (idt_offset (t ! f))) bs))), s)"
  using assms value_loop_run [OF assms(1), of "unat (idt_offset (t ! f))" 0 "unat (idt_length (t ! f))" 0]
  by (simp add: Identify_GetValue_table_def Let_def has_data_def)

lemma of_cmd_CNS:
  assumes "fst (Identify_GetCNS c) = Inr cns"
  shows "of_cmd c containsCtrlrDataStruct s = (Inr (cns = CNS_Controller), s)"
    and "of_cmd c containsNamspcDataStruct s = (Inr (cns = CNS_Namespace \<or> cns = CNS_NamespaceStructSubsystem), s)"
    and "of_cmd c containsNamspcList s = (Inr (cns = CNS_NamespaceListActive \<or> cns = CNS_NamespaceListSubsystem), s)"
    and "of_cmd c containsCtrlrList s = (Inr (cns = CNS_ControllerListAttachedToNSID \<or> cns = CNS_ControllerListSubsystem), s)"
    and "of_cmd c Identify_GetCNS s = (Inr cns, s)"
proof -
  obtain d where "Identify_GetCNS c = (Inr cns, d)" using assms by (metis prod.collapse)
  then show "of_cmd c containsCtrlrDataStruct s = (Inr (cns = CNS_Controller), s)"
    "of_cmd c containsNamspcDataStruct s = (Inr (cns = CNS_Namespace \<or> cns = CNS_NamespaceStructSubsystem), s)"
    "of_cmd c containsNamspcList s = (Inr (cns = CNS_NamespaceListActive \<or> cns = CNS_NamespaceListSubsystem), s)"
    "of_cmd c containsCtrlrList s = (Inr (cns = CNS_ControllerListAttachedToNSID \<or> cns = CNS_ControllerListSubsystem), s)"
    "of_cmd c Identify_GetCNS s = (Inr cns, s)"
    by (simp_all add: of_cmd_def containsCtrlrDataStruct_def containsNamspcDataStruct_def
        containsNamspcList_def containsCtrlrList_def bnd_apply)
qed

lemma entry_loop_run:
  assumes "has_data c bs s"
  shows "off + i + n \<le> length bs \<Longrightarrow> 0 < i \<Longrightarrow> entry_loop c off i n v s = (Inr v, s)"
proof (induction n arbitrary: i v)
  case 0
  then show ?case by simp
next
  case (Suc n)
  have b: "PrpData_byte c (off + i) s = (Inr (bs ! (off + i)), s)"
    using Suc.prems by (intro PrpData_byte_data [OF assms]) simp
  have "(ucast ((ucast v :: u32) OR push_bit (i * 8) (ucast (bs ! (off + i)))) :: u8) = v"
    using \<open>0 < i\<close> by (intro bit_word_eqI) (auto simp: bit_simps)
  then show ?case using Suc.IH [of "Suc i"] Suc.prems by (simp add: bnd_apply b)
qed

lemma entry_loop_first:
  assumes "has_data c bs s" and "off + n \<le> length bs" and "0 < n"
  shows "entry_loop c off 0 n 0 s = (Inr (bs ! off), s)"
proof (cases n)
  case 0
  then show ?thesis using assms by simp
next
  case (Suc k)
  have b: "PrpData_byte c off s = (Inr (bs ! off), s)"
    using assms Suc by (intro PrpData_byte_data [OF assms(1)]) simp
  have "(ucast ((ucast (bs ! off)) :: u32) :: u8) = bs ! off"
    by (rule bit_word_eqI) (auto simp: bit_simps)
  then show ?thesis
    using entry_loop_run [OF assms(1), of off "Suc 0" k] assms(2) Suc by (simp add: bnd_apply b)
qed

lemma zero_loop_oob:
  assumes "mBufRW c = Some r" and "mRealBaseAddr (wd_bufs s r) = Some (replicate m 0)"
    and "mVirOff (wd_bufs s r) = 0"
  shows "p \<le> m \<Longrightarrow> m < p + n \<Longrightarrow>
    fst (zero_loop c p n s) = Inl (UB ''load outside of the allocation'')"
proof (induction n arbitrary: p)
  case 0
  then show ?case by simp
next
  case (Suc n)
  have b: "PrpData_byte c p s =
      (if p < m then Inr 0 else Inl (UB ''load outside of the allocation''), s)"
    using assms PrpData_byte_same [of c p s]
    by (auto simp: PrpData_byte_def on_mb_def zoom_apply MemBuffer_GetAt_def)
  show ?case
  proof (cases "p < m")
    case True
    then show ?thesis using Suc.IH [of "Suc p"] Suc.prems by (simp add: bnd_apply b)
  next
    case False
    then have "PrpData_byte c p s = (Inl (UB ''load outside of the allocation''), s)" using b by simp
    then show ?thesis by (simp add: bnd_apply)
  qed
qed

lemma ctrlr_table_bytes: "table_bytes mIdCtrlrCapMetrics = 6985"
  by (simp add: table_bytes_def mIdCtrlrCapMetrics_def psd_table_def mkId_def)

lemma namspc_table_bytes: "table_bytes mIdNamespcType = 4282"
  by (simp add: table_bytes_def mIdNamespcType_def mkId_def)

section \<open>Properties\<close>

text \<open>On an Identify command that holds a controller structure, \<open>GetValue\<close> of a field of at most eight bytes
  that ends before the last byte of the buffer is the little-endian number at the field's place.\<close>

theorem GetValue_ctrlr_decodes:
  assumes "has_data c bs s" and "fst (Identify_GetCNS c) = Inr CNS_Controller"
    and "f < IDCTRLRCAP_FENCE" and "unat (idt_length (mIdCtrlrCapMetrics ! f)) \<le> 8"
    and "unat (idt_length (mIdCtrlrCapMetrics ! f)) + unat (idt_offset (mIdCtrlrCapMetrics ! f)) < length bs"
  shows "Identify_GetValue_ctrlr c f s =
    (Inr (of_le (take (unat (idt_length (mIdCtrlrCapMetrics ! f)))
                  (drop (unat (idt_offset (mIdCtrlrCapMetrics ! f))) bs))), s)"
  using GetValue_table_run [OF assms(1), of f mIdCtrlrCapMetrics] assms(3-5)
  by (simp add: Identify_GetValue_ctrlr_def bnd_apply of_cmd_CNS [OF assms(2)] table_sizes)

text \<open>\<open>GetValue(entry)\<close>, the reader of namespace and controller lists, returns only the low byte of the
  entry: the remaining bytes are shifted out of its 8-bit accumulator.\<close>

theorem GetValue_entry_low_byte:
  assumes "has_data c bs s" and "fst (Identify_GetCNS c) = Inr CNS_NamespaceListActive"
    and "unat e * 4 + 4 \<le> length bs" and "length bs \<le> 4096"
  shows "Identify_GetValue_entry c e s = (Inr (ucast (bs ! (unat e * 4))), s)"
proof -
  have off: "unat (e * ucast NS_LIST_ENTRY_SIZE) = unat e * 4"
    using assms(3,4) by (simp add: NS_LIST_ENTRY_SIZE_def unat_word_ariths)
  have run: "entry_loop c (unat e * 4) 0 4 0 s = (Inr (bs ! (unat e * 4)), s)"
    by (rule entry_loop_first [OF assms(1)]) (use assms(3) in simp_all)
  have four: "unat NS_LIST_ENTRY_SIZE = 4" by (simp add: NS_LIST_ENTRY_SIZE_def)
  show ?thesis
    by (simp add: Identify_GetValue_entry_def bnd_apply of_cmd_CNS [OF assms(2)] off four run
        del: mult_eq_0_iff)
qed

text \<open>\<open>isZeroFilled\<close> reads past the end of the buffer on every zero-filled controller or namespace structure
  of the 4096 bytes an Identify command returns: the rows of its tables overlap, and their lengths
  add up to more than that.\<close>

theorem isZeroFilled_reads_past_end:
  assumes "fst (Identify_GetCNS c) = Inr cns" and "cns \<in> {CNS_Controller, CNS_Namespace}"
    and "mBufRW c = Some r" and "mRealBaseAddr (wd_bufs s r) = Some (replicate 4096 0)"
    and "mVirOff (wd_bufs s r) = 0"
  shows "fst (Identify_isZeroFilled c s) = Inl (UB ''load outside of the allocation'')"
  using assms(2) zero_loop_oob [OF assms(3-5), of 0 6985] zero_loop_oob [OF assms(3-5), of 0 4282]
  by (auto simp: Identify_isZeroFilled_def bnd_apply of_cmd_CNS [OF assms(1)] ctrlr_table_bytes
      namspc_table_bytes)

text \<open>An example: an Identify command with the given CNS byte and 4096 bytes of data.\<close>

definition ex_id_cmd :: "u8 \<Rightarrow> cmd" where
  "ex_id_cmd cns = ex_cmd\<lparr>mCmdBuf := \<lparr>mAllocByNewOperator = False,
       mRealBaseAddr = Some (replicate 40 0 @ [cns, 0, 0, 0] @ replicate 20 0), mVirOff = 0,
       mVirBufSize = 64, mAlignment = 128\<rparr>,
     mBufRW := Some 0, mBufSize := 4096\<rparr>"

definition ex_world :: "u8 list \<Rightarrow> unit world" where
  "ex_world bs = \<lparr>kern = (), mmaps = (\<lambda>_. []), rg_specRev = SPECREV_12, rg_pciCap = [],
     rg_pci = pci_table, cf_curState = ST_ENABLE, cf_firstTime = False, cf_deltaCheck = False,
     mr_allocSize = 0, mr_reserved = [], mr_released = [], mObjGrpLife = [], ob_heap = 0,
     wd_bufs = (\<lambda>_. \<lparr>mAllocByNewOperator = False, mRealBaseAddr = Some bs, mVirOff = 0,
        mVirBufSize = of_nat (length bs), mAlignment = 128\<rparr>), wd_next = 1,
     mIdentifyCmdCtrlr = None, mIdentifyCmdNamspc = [], mGetFeaturesNumOfQ = 0\<rparr>"

lemma ex_id_cns: "fst (Identify_GetCNS (ex_id_cmd cns)) = Inr cns"
proof -
  have "cmd_field_ok (10, 0, 8) (ex_id_cmd cns)"
    by (simp add: cmd_field_ok_def bad_offset_def cmd_ok_def cmd_size_def ex_id_cmd_def ex_cmd_def)
  from GetBits_ok [OF this] have "Cmd_GetBits 10 0 8 (ex_id_cmd cns) =
      (Inr (ucast (get_field (0, 8) (ucast cns))), ex_id_cmd cns)"
    by (simp add: field_bits_def cmd_dw_def ex_id_cmd_def ex_cmd_def)
  moreover have "(ucast (ucast (get_field (0, 8) (ucast cns)) :: u64) :: u8) = cns"
    by (rule bit_word_eqI) (auto simp: get_field_def bit_simps)
  ultimately show ?thesis by (simp add: Identify_GetCNS_def Cmd_GetByte_def bnd_apply)
qed

lemma ex_id_data: "length bs = 4096 \<Longrightarrow> has_data (ex_id_cmd cns) bs (ex_world bs)"
  by (simp add: has_data_def ex_id_cmd_def ex_world_def mb_bytes_def peek_def)

lemma GetValue_ctrlr_decodes_witness:
  "let bs = replicate 516 0 @ [3, 1, 0, 0] @ replicate 3576 0; f = IDCTRLRCAP_NN in
   Identify_GetValue_ctrlr (ex_id_cmd CNS_Controller) f (ex_world bs) =
    (Inr (of_le (take (unat (idt_length (mIdCtrlrCapMetrics ! f)))
                  (drop (unat (idt_offset (mIdCtrlrCapMetrics ! f))) bs))), ex_world bs)"
  unfolding Let_def
  by (rule GetValue_ctrlr_decodes [OF ex_id_data ex_id_cns])
    (simp_all add: mIdCtrlrCapMetrics_def mkId_def)

lemma GetValue_entry_low_byte_witness:
  "let bs = [0x01, 0x02, 0, 0] @ replicate 4092 0 in
   Identify_GetValue_entry (ex_id_cmd CNS_NamespaceListActive) 0 (ex_world bs) =
     (Inr (ucast (bs ! (unat (0 :: u32) * 4))), ex_world bs)"
  unfolding Let_def
  by (rule GetValue_entry_low_byte [OF ex_id_data ex_id_cns]) simp_all

lemma isZeroFilled_reads_past_end_witness:
  "fst (Identify_isZeroFilled (ex_id_cmd CNS_Controller) (ex_world (replicate 4096 0))) =
     Inl (UB ''load outside of the allocation'')"
  by (rule isZeroFilled_reads_past_end [OF ex_id_cns])
    (simp_all add: ex_id_cmd_def ex_world_def)

end
