(* ===== verification/Informative.thy ===== *)
theory Informative
  imports Identify
begin

text \<open>
  The accessors of the \<open>Informative\<close> singleton (Singletons/informative.cpp): the cached Identify and
  Get Features data, and the classification of namespaces by meta data and protection settings.
  The commands that fill the cache (\<open>Init\<close>, \<open>Reinit\<close>) are in Informative_Init; here the cache is state.
\<close>

section \<open>Accessors\<close>

datatype NamspcType = NS_BARE | NS_METAI | NS_METAS | NS_E2EI | NS_E2ES | NS_UNKNOWN

definition Informative_Clear :: "(('d, 'm) world_scheme, unit) prog" where
  "Informative_Clear =
     modify (\<lambda>s. s\<lparr>mIdentifyCmdCtrlr := None, mIdentifyCmdNamspc := [], mGetFeaturesNumOfQ := 0\<rparr>)"

definition Informative_GetIdentifyCmdCtrlr :: "(('d, 'm) world_scheme, cmd) prog" where
  "Informative_GetIdentifyCmdCtrlr = (\<lambda>s.
     case mIdentifyCmdCtrlr s of
       None \<Rightarrow> (Inl (FrmwkEx ''Identify data not allowed to be NULL''), s)
     | Some c \<Rightarrow> (Inr c, s))"

definition Informative_GetIdentifyCmdNamspc :: "u64 \<Rightarrow> (('d, 'm) world_scheme, cmd option) prog" where
  "Informative_GetIdentifyCmdNamspc namspcId = (\<lambda>s.
     if unat namspcId > length (mIdentifyCmdNamspc s) then (Inr None, s)
     else if namspcId = 0 then (Inr None, s)
     else case mIdentifyCmdNamspc s ! (unat namspcId - 1) of
            None \<Rightarrow> (Inl (FrmwkEx ''Identify data not allowed to be NULL''), s)
          | Some c \<Rightarrow> (Inr (Some c), s))"

definition Informative_GetFeaturesNumOfIOCQs :: "(('d, 'm) world_scheme, u32) prog" where
  "Informative_GetFeaturesNumOfIOCQs = gets (\<lambda>s. drop_bit 16 (mGetFeaturesNumOfQ s) + 1)"

definition Informative_GetFeaturesNumOfIOSQs :: "(('d, 'm) world_scheme, u32) prog" where
  "Informative_GetFeaturesNumOfIOSQs = gets (\<lambda>s. (mGetFeaturesNumOfQ s AND 0xffff) + 1)"

definition Informative_GetFeaturesNumOfQueues :: "(('d, 'm) world_scheme, u32) prog" where
  "Informative_GetFeaturesNumOfQueues = gets mGetFeaturesNumOfQ"

section \<open>Namespaces\<close>

text \<open>The argument is a shared pointer; a null one is dereferenced.\<close>

definition Informative_IdentifyNamespace :: "cmd option \<Rightarrow> (('d, 'm) world_scheme, NamspcType) prog" where
  "Informative_IdentifyNamespace p =
     (case p of
        None \<Rightarrow> raise (UB ''null shared pointer'')
      | Some c \<Rightarrow>
          bnd (Identify_GetLBAFormat c) (\<lambda>lbaFmt.
          if lba_MS lbaFmt = 0 then ret NS_BARE
          else
            bnd (Identify_GetValue_namspc c IDNAMESPC_DPS) (\<lambda>dps.
            bnd (Identify_GetValue_namspc c IDNAMESPC_FLBAS) (\<lambda>flbas.
              if (ucast dps :: u8) AND 0x07 = 0
              then ret (if (ucast flbas :: u8) AND 0x10 \<noteq> 0 then NS_METAI else NS_METAS)
              else ret (if (ucast flbas :: u8) AND 0x10 \<noteq> 0 then NS_E2EI else NS_E2ES)))))"

text \<open>
  The seven \<open>GetXxxNamespaces\<close> differ in the types they select. \<open>n\<close> counts the iterations left,
  \<open>i\<close> is the namespace identifier.
\<close>

fun namespaces_loop ::
  "(NamspcType \<Rightarrow> bool) \<Rightarrow> u64 \<Rightarrow> nat \<Rightarrow> (('d, 'm) world_scheme, u32 list) prog" where
  "namespaces_loop sel i 0 = ret []"
| "namespaces_loop sel i (Suc n) =
     bnd (Informative_GetIdentifyCmdNamspc i) (\<lambda>nsPtr.
     bnd (Informative_IdentifyNamespace nsPtr) (\<lambda>t.
     bnd (namespaces_loop sel (i + 1) n) (\<lambda>ns. ret (if sel t then ucast i # ns else ns))))"

definition GetNamespaces :: "(NamspcType \<Rightarrow> bool) \<Rightarrow> (('d, 'm) world_scheme, u32 list) prog" where
  "GetNamespaces sel =
     bnd Informative_GetIdentifyCmdCtrlr (\<lambda>c.
     bnd (Identify_GetValue_ctrlr c IDCTRLRCAP_NN) (\<lambda>v.
       let nn = ucast v :: u32 in namespaces_loop sel 1 (unat nn)))"

definition Informative_GetBareNamespaces :: "(('d, 'm) world_scheme, u32 list) prog" where
  "Informative_GetBareNamespaces = GetNamespaces (\<lambda>t. t = NS_BARE)"

definition Informative_GetMetaNamespaces :: "(('d, 'm) world_scheme, u32 list) prog" where
  "Informative_GetMetaNamespaces = GetNamespaces (\<lambda>t. t = NS_METAI \<or> t = NS_METAS)"

definition Informative_GetMetaINamespaces :: "(('d, 'm) world_scheme, u32 list) prog" where
  "Informative_GetMetaINamespaces = GetNamespaces (\<lambda>t. t = NS_METAI)"

definition Informative_GetMetaSNamespaces :: "(('d, 'm) world_scheme, u32 list) prog" where
  "Informative_GetMetaSNamespaces = GetNamespaces (\<lambda>t. t = NS_METAS)"

definition Informative_GetE2eNamespaces :: "(('d, 'm) world_scheme, u32 list) prog" where
  "Informative_GetE2eNamespaces = GetNamespaces (\<lambda>t. t = NS_E2EI \<or> t = NS_E2ES)"

definition Informative_GetE2eINamespaces :: "(('d, 'm) world_scheme, u32 list) prog" where
  "Informative_GetE2eINamespaces = GetNamespaces (\<lambda>t. t = NS_E2EI)"

definition Informative_GetE2eSNamespaces :: "(('d, 'm) world_scheme, u32 list) prog" where
  "Informative_GetE2eSNamespaces = GetNamespaces (\<lambda>t. t = NS_E2ES)"

record Namspc =
  ns_idCmd :: "cmd option"
  ns_id :: u32
  ns_type :: NamspcType

text \<open>The first hit of a list, or the rest of the search.\<close>

definition first_of ::
  "(('d, 'm) world_scheme, u32 list) prog \<Rightarrow> NamspcType \<Rightarrow> (('d, 'm) world_scheme, Namspc) prog
     \<Rightarrow> (('d, 'm) world_scheme, Namspc) prog" where
  "first_of m t rest =
     bnd m (\<lambda>ns. case ns of
         [] \<Rightarrow> rest
       | i # _ \<Rightarrow> bnd (Informative_GetIdentifyCmdNamspc (ucast i)) (\<lambda>c.
           ret \<lparr>ns_idCmd = c, ns_id = i, ns_type = t\<rparr>))"

definition Informative_Get1stBareMetaE2E :: "(('d, 'm) world_scheme, Namspc) prog" where
  "Informative_Get1stBareMetaE2E =
     first_of Informative_GetBareNamespaces NS_BARE
    (first_of Informative_GetMetaSNamespaces NS_METAS
    (first_of Informative_GetMetaINamespaces NS_METAI
    (first_of Informative_GetE2eSNamespaces NS_E2ES
    (first_of Informative_GetE2eINamespaces NS_E2EI
    (raise (FrmwkEx ''DUT must have 1 of 3 namspc's''))))))"

section \<open>Reading leaves the state alone\<close>

lemma read_only:
  "keeps ((=) s) m \<Longrightarrow> m s = (r, t) \<Longrightarrow> t = s"
  by (simp add: keeps_def)

lemma read_only_leaves [wf_intros]:
  "keeps ((=) s) (PrpData_byte c i)" "keeps ((=) s) (of_cmd c m)"
  "keeps ((=) s) Informative_GetIdentifyCmdCtrlr" "keeps ((=) s) (Informative_GetIdentifyCmdNamspc n)"
  by (auto simp: keeps_def PrpData_byte_same of_cmd_def Informative_GetIdentifyCmdCtrlr_def
      Informative_GetIdentifyCmdNamspc_def split: option.splits)

lemma read_only_value_loop [wf_intros]: "keeps ((=) s) (value_loop c off i n v)"
  by (induction n arbitrary: i v) (auto intro!: wf_intros)

lemma read_only_GetValue [wf_intros]:
  "keeps ((=) s) (Identify_GetValue_table c f t)" "keeps ((=) s) (Identify_GetValue_ctrlr c f)"
  "keeps ((=) s) (Identify_GetValue_namspc c f)"
  by (auto simp: Identify_GetValue_table_def Identify_GetValue_ctrlr_def Identify_GetValue_namspc_def
      Let_def intro!: wf_intros)

lemma read_only_LBAFormat [wf_intros]: "keeps ((=) s) (Identify_GetLBAFormat c)"
  unfolding Identify_GetLBAFormat_def Let_def by (intro wf_intros)

lemma read_only_IdentifyNamespace [wf_intros]: "keeps ((=) s) (Informative_IdentifyNamespace p)"
  by (cases p) (auto simp: Informative_IdentifyNamespace_def intro!: wf_intros)

section \<open>The types of all namespaces\<close>

fun types_loop :: "u64 \<Rightarrow> nat \<Rightarrow> (('d, 'm) world_scheme, (u32 \<times> NamspcType) list) prog" where
  "types_loop i 0 = ret []"
| "types_loop i (Suc n) =
     bnd (Informative_GetIdentifyCmdNamspc i) (\<lambda>nsPtr.
     bnd (Informative_IdentifyNamespace nsPtr) (\<lambda>t.
     bnd (types_loop (i + 1) n) (\<lambda>ts. ret ((ucast i, t) # ts))))"

lemma read_only_types_loop [wf_intros]: "keeps ((=) s) (types_loop i n)"
  by (induction n arbitrary: i) (auto intro!: wf_intros)

lemma namespaces_loop_types:
  fixes s :: "('d, 'm) world_scheme"
  shows "namespaces_loop sel i n s =
     bnd (types_loop i n) (\<lambda>ts. ret (map fst (filter (sel \<circ> snd) ts))) s"
proof (induction n arbitrary: i s)
  case 0
  then show ?case by (simp add: bnd_apply)
next
  case (Suc n)
  have ih: "namespaces_loop sel (i + 1) n =
      bnd (types_loop (i + 1) n) (\<lambda>ts. ret (map fst (filter (sel \<circ> snd) ts)) :: (('d, 'm) world_scheme, _) prog)"
    by (rule ext) (rule Suc)
  show ?case by (auto simp: bnd_apply ih comp_def split: prod.splits sum.splits)
qed

lemma ucast_of_nat_u32: "ucast (of_nat n :: u64) = (of_nat n :: u32)"
  by transfer (simp add: take_bit_take_bit)

lemma types_loop_ids:
  fixes s t :: "('d, 'm) world_scheme"
  shows "types_loop i n s = (Inr ts, t) \<Longrightarrow> map fst ts = map (\<lambda>k. ucast (i + of_nat k)) [0..<n]"
proof (induction n arbitrary: i s t ts)
  case 0
  then show ?case by simp
next
  case (Suc n)
  then obtain ts' ty and u u' :: "('d, 'm) world_scheme" where rec: "types_loop (i + 1) n u = (Inr ts', u')" and ts: "ts = (ucast i, ty) # ts'"
    by (auto simp: bnd_Inr_iff)
  have "[0..<Suc n] = 0 # map Suc [0..<n]" by (simp add: map_Suc_upt upt_conv_Cons del: upt_Suc)
  then show ?case
    using Suc.IH [OF rec] ts by (simp add: o_def add.assoc del: upt_Suc)
qed

lemma types_loop_known:
  fixes s t :: "('d, 'm) world_scheme"
  shows "types_loop i n s = (Inr ts, t) \<Longrightarrow> \<forall>p \<in> set ts. snd p \<noteq> NS_UNKNOWN"
proof (induction n arbitrary: i s t ts)
  case (Suc n)
  then obtain ts' ty p and u u' v :: "('d, 'm) world_scheme" where rec: "types_loop (i + 1) n u = (Inr ts', u')" and
    ts: "ts = (ucast i, ty) # ts'" and ty: "Informative_IdentifyNamespace p v = (Inr ty, u)"
    by (auto simp: bnd_Inr_iff)
  have "ty \<noteq> NS_UNKNOWN"
    using ty by (cases p) (auto simp: Informative_IdentifyNamespace_def bnd_Inr_iff split: if_splits)
  then show ?case using Suc.IH [OF rec] ts by simp
qed simp

lemma GetNamespaces_types:
  assumes "GetNamespaces sel s = (Inr ns, t)"
  shows "\<exists>nn ts. nn < 2 ^ 32 \<and> types_loop 1 nn s = (Inr ts, s) \<and> ns = map fst (filter (sel \<circ> snd) ts) \<and> t = s \<and>
    (\<forall>sel'. GetNamespaces sel' s = (Inr (map fst (filter (sel' \<circ> snd) ts)), s))"
proof -
  obtain c v where c: "Informative_GetIdentifyCmdCtrlr s = (Inr c, s)"
    and v: "Identify_GetValue_ctrlr c IDCTRLRCAP_NN s = (Inr v, s)"
    and loop: "namespaces_loop sel 1 (unat (ucast v :: u32)) s = (Inr ns, t)"
    using assms by (auto simp: GetNamespaces_def bnd_Inr_iff Let_def)
      (metis (no_types, lifting) read_only read_only_GetValue(2) read_only_leaves(3))
  let ?nn = "unat (ucast v :: u32)"
  obtain ts where ts: "types_loop 1 ?nn s = (Inr ts, s)" "ns = map fst (filter (sel \<circ> snd) ts)" "t = s"
    using loop read_only [OF read_only_types_loop] by (fastforce simp: namespaces_loop_types bnd_Inr_iff)
  have "GetNamespaces sel' s = (Inr (map fst (filter (sel' \<circ> snd) ts)), s)" for sel'
    by (simp add: GetNamespaces_def bnd_apply c v namespaces_loop_types ts(1) Let_def)
  moreover have "?nn < 2 ^ 32" using unsigned_less [of "ucast v :: u32"] by simp
  ultimately show ?thesis using ts by blast
qed

section \<open>Properties\<close>

text \<open>The bare, the meta data and the protected namespaces partition the namespaces of the controller: when
  the bare ones can be listed, so can the others, without changing anything, and every identifier
  from 1 to the number of namespaces is in exactly one of the three lists.\<close>

theorem namespaces_partition:
  assumes "Informative_GetBareNamespaces s = (Inr bare, t)"
  shows "\<exists>meta e2e nn. t = s \<and> Informative_GetMetaNamespaces s = (Inr meta, s) \<and>
    Informative_GetE2eNamespaces s = (Inr e2e, s) \<and>
    mset (bare @ meta @ e2e) = mset (map (\<lambda>k. of_nat (k + 1)) [0..<nn])"
proof -
  obtain nn ts where ts: "types_loop 1 nn s = (Inr ts, s)" "t = s"
    "bare = map fst (filter ((\<lambda>t. t = NS_BARE) \<circ> snd) ts)"
    "\<forall>sel. GetNamespaces sel s = (Inr (map fst (filter (sel \<circ> snd) ts)), s)"
    using GetNamespaces_types [OF assms [unfolded Informative_GetBareNamespaces_def]] by blast
  have "(ucast (1 + of_nat k :: u64) :: u32) = of_nat (k + 1)" for k
    using ucast_of_nat_u32 [of "k + 1"] by (simp add: add.commute)
  then have ids: "map fst ts = map (\<lambda>k. of_nat (k + 1)) [0..<nn]"
    using types_loop_ids [OF ts(1)] by simp
  have known: "\<forall>p \<in> set ts. snd p \<noteq> NS_UNKNOWN" by (rule types_loop_known [OF ts(1)])
  let ?sel = "\<lambda>f. map fst (filter (f \<circ> snd) ts)"
  have "mset (?sel (\<lambda>t. t = NS_BARE) @ ?sel (\<lambda>t. t = NS_METAI \<or> t = NS_METAS) @
      ?sel (\<lambda>t. t = NS_E2EI \<or> t = NS_E2ES)) = mset (map fst ts)"
    using known
  proof (induction ts)
    case (Cons p ts)
    then show ?case by (cases "snd p") auto
  qed simp
  then show ?thesis
    using ts ids
    by (auto simp: Informative_GetMetaNamespaces_def Informative_GetE2eNamespaces_def)
qed

text \<open>An example: one namespace, whose buffer is zero-filled (no meta data).\<close>

definition ex_ns_world :: "unit world" where
  "ex_ns_world = (ex_world [])\<lparr>
     wd_bufs := (\<lambda>r. \<lparr>mAllocByNewOperator = False,
        mRealBaseAddr = Some (replicate 516 0 @ [if r = 0 then 1 else 0] @ replicate 3579 0), mVirOff = 0,
        mVirBufSize = 4096, mAlignment = 128\<rparr>),
     mIdentifyCmdCtrlr := Some (ex_id_cmd CNS_Controller),
     mIdentifyCmdNamspc := [Some ((ex_id_cmd CNS_Namespace)\<lparr>mBufRW := Some 1\<rparr>)]\<rparr>"

lemma ex_ns_bare: "fst (Informative_GetBareNamespaces ex_ns_world) = Inr [1]"
  by code_simp

lemma namespaces_partition_witness:
  "\<exists>meta e2e nn. snd (Informative_GetBareNamespaces ex_ns_world) = ex_ns_world \<and>
    Informative_GetMetaNamespaces ex_ns_world = (Inr meta, ex_ns_world) \<and>
    Informative_GetE2eNamespaces ex_ns_world = (Inr e2e, ex_ns_world) \<and>
    mset ([1] @ meta @ e2e) = mset (map (\<lambda>k. of_nat (k + 1)) [0..<nn])"
  by (rule namespaces_partition) (metis ex_ns_bare prod.collapse)

end
