(* ===== verification/Queues.thy ===== *)
theory Queues
  imports Informative
begin

text \<open>
  The queues (directory Queues): \<open>Queue\<close>, \<open>SQ\<close> and \<open>CQ\<close>, their admin and I/O variants \<open>ASQ\<close>, \<open>ACQ\<close>,
  \<open>IOSQ\<close>, \<open>IOCQ\<close>. A queue object is a record; the operations that change it are programs on the pair
  of the queue and the shared state, the others are programs on the shared state with the queue as
  an argument. Values that are only logged (the elapsed time of a wait, the warnings on the number
  of entries) are not computed.
\<close>

section \<open>State\<close>

text \<open>A null pointer is address \<open>0\<close> in \<open>mContigBuf\<close>, \<open>None\<close> in \<open>mDiscontigBuf\<close>.\<close>

record queue =
  q_type :: ObjType
  mQId :: u16
  mEntrySize :: u16
  mNumEntries :: u32
  mContigBuf :: u64
  mDiscontigBuf :: "nat option"

record sub_queue = queue +
  mCqId :: u16

record io_sub_queue = sub_queue +
  mPriority :: u8

record comp_queue = queue +
  mIrqEnabled :: bool
  mIrqVec :: u16

text \<open>Programs of one half of a pair.\<close>

definition onl :: "('q, 'a) prog \<Rightarrow> ('q \<times> 'w, 'a) prog" where
  "onl m = zoom fst (\<lambda>q s. (q, snd s)) m"

definition onr :: "('w, 'a) prog \<Rightarrow> ('q \<times> 'w, 'a) prog" where
  "onr m = zoom snd (\<lambda>w s. (fst s, w)) m"

section \<open>Queue (queue.cpp)\<close>

definition Queue_Queue :: "int \<Rightarrow> ObjType \<Rightarrow> ex + queue" where
  "Queue_Queue fd objBeingCreated =
     (case Trackable_Trackable objBeingCreated of
        Inl e \<Rightarrow> Inl e
      | Inr t \<Rightarrow>
          if fd < 0 then Inl (FrmwkEx ''Object created with a bad FD=%d'')
          else Inr \<lparr>q_type = t, mQId = 0, mEntrySize = 0, mNumEntries = 0, mContigBuf = 0,
                 mDiscontigBuf = None\<rparr>)"

definition Queue_GetIsAdmin :: "'q queue_scheme \<Rightarrow> bool" where
  "Queue_GetIsAdmin q \<longleftrightarrow> mQId q = 0"

definition Queue_GetIsContig :: "'q queue_scheme \<Rightarrow> ex + bool" where
  "Queue_GetIsContig q =
     (if mContigBuf q = 0 \<and> mDiscontigBuf q = None
      then Inl (FrmwkEx ''Detected an uninitialized Q'')
      else if mContigBuf q \<noteq> 0 \<and> mDiscontigBuf q \<noteq> None
      then Inl (FrmwkEx ''Detected an illegally configured Q'')
      else Inr (mContigBuf q \<noteq> 0))"

text \<open>The product of a \<open>uint16_t\<close> and a \<open>uint32_t\<close> wraps at 32 bits.\<close>

definition Queue_GetQSize :: "'q queue_scheme \<Rightarrow> u32" where
  "Queue_GetQSize q = ucast (mEntrySize q) * mNumEntries q"

definition Queue_GetQBuffer :: "'q queue_scheme \<Rightarrow> ex + qmem" where
  "Queue_GetQBuffer q =
     (case Queue_GetIsContig q of
        Inl e \<Rightarrow> Inl e
      | Inr True \<Rightarrow> Inr (Mapped (mContigBuf q))
      | Inr False \<Rightarrow> Inr (Shared (the (mDiscontigBuf q))))"

text \<open>A load of \<open>n\<close> bytes at \<open>p\<close> of the queue's memory.\<close>

fun q_load :: "qmem \<Rightarrow> nat \<Rightarrow> nat \<Rightarrow> (('d, 'm) world_scheme, u8 list) prog" where
  "q_load (Mapped a) p n = (\<lambda>s.
     case peek p n (mmaps s a) of
       None \<Rightarrow> (Inl (UB ''load outside of the mapping''), s)
     | Some xs \<Rightarrow> (Inr xs, s))"
| "q_load (Shared r) p n = on_mb r (mb_load p n)"

definition Queue_Init :: "u16 \<Rightarrow> u16 \<Rightarrow> u32 \<Rightarrow> ('q queue_scheme, unit) prog" where
  "Queue_Init qId entrySize numEntries = (\<lambda>q.
     if mDiscontigBuf q \<noteq> None
     then (Inl (FrmwkEx ''Obj already init'd for discontiguous parameters''), q)
     else if mContigBuf q \<noteq> 0
     then (Inl (FrmwkEx ''Obj does not support re-allocations, create a new obj''), q)
     else (Inr (), q\<lparr>mQId := qId, mEntrySize := entrySize, mNumEntries := numEntries\<rparr>))"

text \<open>
  \<open>PeekSE\<close> and \<open>PeekCE\<close> step a typed pointer (\<open>w\<close> is the size of the element type) through the
  queue's memory until the index is met; \<open>n\<close> counts the iterations left.
\<close>

fun peek_loop :: "qmem \<Rightarrow> nat \<Rightarrow> u16 \<Rightarrow> nat \<Rightarrow> nat \<Rightarrow> (('d, 'm) world_scheme, u8 list) prog" where
  "peek_loop b w indexPtr i 0 = raise (FrmwkEx ''Unable to locate index within Q'')"
| "peek_loop b w indexPtr i (Suc n) =
     (if i = unat indexPtr then q_load b (w * i) w
      else peek_loop b w indexPtr (Suc i) n)"

section \<open>SQ (sq.cpp)\<close>

definition SQ_SQ :: "int \<Rightarrow> ObjType \<Rightarrow> ex + sub_queue" where
  "SQ_SQ fd objBeingCreated =
     map_sum (\<lambda>e. e) (\<lambda>q. queue.extend q \<lparr>mCqId = 0\<rparr>) (Queue_Queue fd objBeingCreated)"

text \<open>The destructor.\<close>

definition Queue_destroy :: "'d dnvme \<Rightarrow> 'q queue_scheme \<Rightarrow> (('d, 'm) world_scheme, unit) prog" where
  "Queue_destroy drv q =
     bnd (lift_result (Queue_GetIsContig q)) (\<lambda>contig.
       if contig then KernelAPI_munmap drv (mContigBuf q) (unat (Queue_GetQSize q)) else ret ())"

definition SQ_CreateIOSQ :: "'d dnvme \<Rightarrow> nvme_prep_q \<Rightarrow> (('d, 'm) world_scheme, unit) prog" where
  "SQ_CreateIOSQ drv q =
     bnd (ioctl1 (io_prep_sq drv q)) (\<lambda>r.
       throw_if (r < 0) (FrmwkEx ''Q Creation failed by dnvme with error: 0x%02X''))"

definition SQ_Init ::
  "libc \<Rightarrow> 'd dnvme \<Rightarrow> u16 \<Rightarrow> u16 \<Rightarrow> u32 \<Rightarrow> u16
     \<Rightarrow> ('q sub_queue_scheme \<times> ('d, 'm) world_scheme, unit) prog" where
  "SQ_Init C drv qId entrySize numEntries cqId =
     sq (onl (modify (\<lambda>q. q\<lparr>mCqId := cqId\<rparr>)))
     (sq (onl (Queue_Init qId entrySize numEntries))
     (sq (throw_if (numEntries < 2) (FrmwkEx ''Number elements breaches spec requirement''))
     (bnd (onr (Registers_Read_ctl drv CTLSPC_CAP (undef64 C))) (\<lambda>(ok, work).
      sq (throw_if (\<not> ok) (FrmwkEx ''Unable to determine MQES''))
     (bnd (gets fst) (\<lambda>q.
      sq (onr
           (if Queue_GetIsAdmin q
            then bnd (CtrlrConfig_IsStateEnabled drv) (\<lambda>en.
                   sq (throw_if en (FrmwkEx ''Creating an ASQ while ctrlr is enabled is a shall not''))
                     (bnd (ioctl1 (io_create_admn_q drv (mNumEntries q) ADMIN_SQ)) (\<lambda>r.
                        throw_if (r < 0) (FrmwkEx ''Q Creation failed by dnvme with error: 0x%02X''))))
            else SQ_CreateIOSQ drv \<lparr>pq_sq_id = mQId q, pq_cq_id = mCqId q,
                   pq_elements = mNumEntries q, pq_contig = True\<rparr>))
     (bnd (onr (KernelAPI_mmap C drv (unat (Queue_GetQSize q)) (mQId q) MMR_SQ)) (\<lambda>a.
      sq (onl (modify (\<lambda>q. q\<lparr>mContigBuf := a\<rparr>)))
        (throw_if (a = 0) (FrmwkEx ''Unable to mmap contig memory to user space''))))))))))"

text \<open>The checks of a caller's buffer, the same in \<open>SQ\<close> and \<open>CQ\<close>.\<close>

definition check_q_buffer ::
  "libc \<Rightarrow> 'q queue_scheme \<Rightarrow> nat option \<Rightarrow> (('d, 'm) world_scheme, nat) prog" where
  "check_q_buffer C q memBuffer = (\<lambda>s.
     case memBuffer of
       None \<Rightarrow> (Inl (FrmwkEx ''Passing an uninitialized SharedMemBufferPtr''), s)
     | Some r \<Rightarrow>
         if Queue_GetIsAdmin q
         then (Inl (FrmwkEx ''Illegal memory alignment will corrupt''), s)
         else if MemBuffer_GetBufSize (wd_bufs s r) < Queue_GetQSize q
         then (Inl (FrmwkEx ''Mem buffer size = %d, Q size = %d''), s)
         else if int (unat (MemBuffer_GetAlignment (wd_bufs s r))) \<noteq> pagesize C
         then (Inl (FrmwkEx ''Q content memory shall be page aligned''), s)
         else (Inr r, s))"

definition SQ_Init_discontig ::
  "libc \<Rightarrow> 'd dnvme \<Rightarrow> u16 \<Rightarrow> u16 \<Rightarrow> u32 \<Rightarrow> nat option \<Rightarrow> u16
     \<Rightarrow> ('q sub_queue_scheme \<times> ('d, 'm) world_scheme, unit) prog" where
  "SQ_Init_discontig C drv qId entrySize numEntries memBuffer cqId =
     sq (onl (modify (\<lambda>q. q\<lparr>mCqId := cqId\<rparr>)))
     (sq (onl (Queue_Init qId entrySize numEntries))
     (sq (throw_if (numEntries < 2) (FrmwkEx ''Number elements breaches spec requirement''))
     (bnd (onr (Registers_Read_ctl drv CTLSPC_CAP (undef64 C))) (\<lambda>(ok, work).
      sq (throw_if (\<not> ok) (FrmwkEx ''Unable to determine MQES''))
     (bnd (gets fst) (\<lambda>q.
      bnd (onr (check_q_buffer C q memBuffer)) (\<lambda>r.
      sq (onl (modify (\<lambda>q. q\<lparr>mDiscontigBuf := Some r\<rparr>)))
     (sq (onr (on_mb r MemBuffer_Zero))
         (onr (SQ_CreateIOSQ drv \<lparr>pq_sq_id = mQId q, pq_cq_id = mCqId q,
             pq_elements = mNumEntries q, pq_contig = False\<rparr>))))))))))"

definition SQ_GetQMetrics :: "'d dnvme \<Rightarrow> 'q queue_scheme \<Rightarrow> (('d, 'm) world_scheme, nvme_gen_q) prog" where
  "SQ_GetQMetrics drv q =
     bnd (ioctl2 (io_q_metrics drv False (mQId q))) (\<lambda>(r, m).
       sq (throw_if (r < 0) (FrmwkEx ''Get Q metrics failed by dnvme with error: 0x%02X'')) (ret m))"

text \<open>\<open>union SE\<close> (se.h) is sixteen DWORDs; \<open>CID\<close> is the upper half of the first.\<close>

type_synonym SE = "u32 list"

definition SE_of_bytes :: "u8 list \<Rightarrow> SE" where
  "SE_of_bytes bs = map (\<lambda>i. of_le32 (take 4 (drop (4 * i) bs))) [0..<16]"

definition se_CID :: "SE \<Rightarrow> u16" where
  "se_CID se = ucast (drop_bit 16 (se ! 0))"

definition SQ_PeekSE :: "'q queue_scheme \<Rightarrow> u16 \<Rightarrow> (('d, 'm) world_scheme, SE) prog" where
  "SQ_PeekSE q indexPtr =
     bnd (lift_result (Queue_GetQBuffer q)) (\<lambda>b.
     bnd (peek_loop b 64 indexPtr 0 (unat (mNumEntries q))) (\<lambda>bs. ret (SE_of_bytes bs)))"

definition SQ_Ring :: "'d dnvme \<Rightarrow> 'q queue_scheme \<Rightarrow> (('d, 'm) world_scheme, unit) prog" where
  "SQ_Ring drv q =
     bnd (ioctl1 (io_ring_sq drv (mQId q))) (\<lambda>rc.
       throw_if (rc < 0) (FrmwkEx ''Error ringing doorbell, rc =%d''))"

text \<open>
  \<open>Send\<close> works on the pair of the command (a shared object of the caller) and the shared state; it
  returns the identifier the driver gave the command.
\<close>

definition SQ_Send ::
  "'d dnvme \<Rightarrow> send_masks \<Rightarrow> 'q queue_scheme \<Rightarrow> (cmd \<times> ('d, 'm) world_scheme, u16) prog" where
  "SQ_Send drv M q =
     bnd (onr (CtrlrConfig_IsStateEnabled drv)) (\<lambda>en.
     bnd (gets (\<lambda>(c, s).
       \<lparr>s_q_id = mQId q, s_bit_mask = mPrpFields c OR MetaData_GetMetaBitmask M c,
        s_meta_buf_id = mb_ID (mMetaData c), s_data_buf_size = mBufSize c,
        s_data = PrpData_GetROPrpBuffer c s,
        s_cmd = map_option (drop (mVirOff (mCmdBuf c))) (mRealBaseAddr (mCmdBuf c)),
        s_data_dir = mDataDir c\<rparr>)) (\<lambda>io.
     bnd (onl Cmd_GetOpcode) (\<lambda>opcode.
     bnd (onr (ioctl2 (io_send_64b drv io))) (\<lambda>(rc, unique_id).
     sq (throw_if (rc < 0) (FrmwkEx ''Error sending cmd, rc =%d''))
     (sq (onl (Cmd_SetCID unique_id)) (ret unique_id))))))"

section \<open>CQ (cq.cpp)\<close>

definition CQ_CQ :: "int \<Rightarrow> ObjType \<Rightarrow> ex + comp_queue" where
  "CQ_CQ fd objBeingCreated =
     map_sum (\<lambda>e. e) (\<lambda>q. queue.extend q \<lparr>mIrqEnabled = False, mIrqVec = 0\<rparr>)
       (Queue_Queue fd objBeingCreated)"

definition CQ_CreateIOCQ :: "'d dnvme \<Rightarrow> nvme_prep_q \<Rightarrow> (('d, 'm) world_scheme, unit) prog" where
  "CQ_CreateIOCQ drv q =
     bnd (ioctl1 (io_prep_cq drv q)) (\<lambda>r.
       throw_if (r < 0) (FrmwkEx ''Q Creation failed by dnvme with error: 0x%02X''))"

text \<open>\<open>struct nvme_prep_cq\<close> has no \<open>sq_id\<close>; the field of the shared record is zero.\<close>

definition CQ_Init ::
  "libc \<Rightarrow> 'd dnvme \<Rightarrow> u16 \<Rightarrow> u16 \<Rightarrow> u32 \<Rightarrow> bool \<Rightarrow> u16
     \<Rightarrow> ('q comp_queue_scheme \<times> ('d, 'm) world_scheme, unit) prog" where
  "CQ_Init C drv qId entrySize numEntries irqEnabled irqVec =
     sq (onl (Queue_Init qId entrySize numEntries))
     (sq (onl (modify (\<lambda>q. q\<lparr>mIrqEnabled := irqEnabled, mIrqVec := irqVec\<rparr>)))
     (sq (throw_if (numEntries < 2) (FrmwkEx ''Number elements breaches spec requirement''))
     (bnd (gets fst) (\<lambda>q.
      sq (onr
           (if Queue_GetIsAdmin q
            then bnd (CtrlrConfig_IsStateEnabled drv) (\<lambda>en.
                   sq (throw_if en (FrmwkEx ''Creating an ASQ while ctrlr is enabled is a shall not''))
                     (bnd (ioctl1 (io_create_admn_q drv (mNumEntries q) ADMIN_CQ)) (\<lambda>r.
                        throw_if (r < 0) (FrmwkEx ''Q Creation failed by dnvme with error: 0x%02X''))))
            else CQ_CreateIOCQ drv \<lparr>pq_sq_id = 0, pq_cq_id = mQId q,
                   pq_elements = mNumEntries q, pq_contig = True\<rparr>))
     (bnd (onr (KernelAPI_mmap C drv (unat (Queue_GetQSize q)) (mQId q) MMR_CQ)) (\<lambda>a.
      sq (onl (modify (\<lambda>q. q\<lparr>mContigBuf := a\<rparr>)))
        (throw_if (a = 0) (FrmwkEx ''Unable to mmap contig memory to user space''))))))))"

definition CQ_Init_discontig ::
  "libc \<Rightarrow> 'd dnvme \<Rightarrow> u16 \<Rightarrow> u16 \<Rightarrow> u32 \<Rightarrow> nat option \<Rightarrow> bool \<Rightarrow> u16
     \<Rightarrow> ('q comp_queue_scheme \<times> ('d, 'm) world_scheme, unit) prog" where
  "CQ_Init_discontig C drv qId entrySize numEntries memBuffer irqEnabled irqVec =
     sq (onl (Queue_Init qId entrySize numEntries))
     (sq (onl (modify (\<lambda>q. q\<lparr>mIrqEnabled := irqEnabled, mIrqVec := irqVec\<rparr>)))
     (sq (throw_if (numEntries < 2) (FrmwkEx ''Number elements breaches spec requirement''))
     (bnd (gets fst) (\<lambda>q.
      bnd (onr (check_q_buffer C q memBuffer)) (\<lambda>r.
      sq (onl (modify (\<lambda>q. q\<lparr>mDiscontigBuf := Some r\<rparr>)))
     (sq (onr (on_mb r MemBuffer_Zero))
         (onr (CQ_CreateIOCQ drv \<lparr>pq_sq_id = 0, pq_cq_id = mQId q,
             pq_elements = mNumEntries q, pq_contig = False\<rparr>))))))))"

definition CQ_GetQMetrics :: "'d dnvme \<Rightarrow> 'q queue_scheme \<Rightarrow> (('d, 'm) world_scheme, nvme_gen_q) prog" where
  "CQ_GetQMetrics drv q =
     bnd (ioctl2 (io_q_metrics drv True (mQId q))) (\<lambda>(r, m).
       sq (throw_if (r < 0) (FrmwkEx ''Get Q metrics failed by dnvme with error: 0x%02X'')) (ret m))"

definition CQ_PeekCE :: "'q queue_scheme \<Rightarrow> u16 \<Rightarrow> (('d, 'm) world_scheme, CE) prog" where
  "CQ_PeekCE q indexPtr =
     bnd (lift_result (Queue_GetQBuffer q)) (\<lambda>b.
     bnd (peek_loop b 16 indexPtr 0 (unat (mNumEntries q))) (\<lambda>bs. ret (ce_of_bytes bs)))"

fun cid_loop :: "qmem \<Rightarrow> u16 \<Rightarrow> nat \<Rightarrow> nat \<Rightarrow> (('d, 'm) world_scheme, CE) prog" where
  "cid_loop b CIDtoPeek i 0 = raise (FrmwkEx ''Unable to locate CID within CQ'')"
| "cid_loop b CIDtoPeek i (Suc n) =
     bnd (q_load b (16 * i) 16) (\<lambda>bs.
       if ce_CID (ce_of_bytes bs) = CIDtoPeek then ret (ce_of_bytes bs)
       else cid_loop b CIDtoPeek (Suc i) n)"

definition CQ_PeekCEwithCID :: "'q queue_scheme \<Rightarrow> u16 \<Rightarrow> (('d, 'm) world_scheme, CE) prog" where
  "CQ_PeekCEwithCID q CIDtoPeek =
     bnd (lift_result (Queue_GetQBuffer q)) (\<lambda>b. cid_loop b CIDtoPeek 0 (unat (mNumEntries q)))"

definition CQ_LogCE :: "'q queue_scheme \<Rightarrow> u16 \<Rightarrow> (('d, 'm) world_scheme, unit) prog" where
  "CQ_LogCE q indexPtr = bnd (CQ_PeekCE q indexPtr) (\<lambda>_. ret ())"

text \<open>\<open>isrCount\<close>, an output parameter, is the second result.\<close>

definition CQ_ReapInquiry :: "'d dnvme \<Rightarrow> 'q queue_scheme \<Rightarrow> (('d, 'm) world_scheme, u32 \<times> u32) prog" where
  "CQ_ReapInquiry drv q =
     bnd (ioctl2 (io_reap_inquiry drv (mQId q))) (\<lambda>(rc, inq).
       sq (throw_if (rc < 0) (FrmwkEx ''Error during reap inquiry, rc = %d''))
         (ret (ri_num_remaining inq, ri_isr_count inq)))"

definition timeval_us :: "int \<times> int \<Rightarrow> int" where
  "timeval_us t = 1000000 * fst t + snd t"

text \<open>\<open>gettimeofday\<close>, and the test whether \<open>ms\<close> milliseconds have passed since \<open>initial\<close>.\<close>

definition get_time :: "'d dnvme \<Rightarrow> (('d, 'm) world_scheme, int \<times> int) prog" where
  "get_time drv =
     bnd (ioctl2 (io_clock drv)) (\<lambda>(rc, tv).
       if rc \<noteq> 0 then raise (FrmwkEx ''Cannot retrieve system time'') else ret tv)"

definition CQ_CalcTimeout :: "'d dnvme \<Rightarrow> u32 \<Rightarrow> int \<times> int \<Rightarrow> (('d, 'm) world_scheme, bool) prog" where
  "CQ_CalcTimeout drv ms initial =
     bnd (get_time drv) (\<lambda>current.
       ret (timeval_us current - timeval_us initial \<ge> int (unat ms) * 1000))"

text \<open>
  The polling loop of the two waits; \<open>enough\<close> is the condition under which it stops with success,
  \<open>out\<close> the current values of the output parameters \<open>numCE\<close> and \<open>isrCount\<close>. The loop ends only when
  the clock advances: \<open>fuel\<close> bounds the iterations, and \<open>Diverges\<close> means that they were used up.
\<close>

fun reap_wait_loop ::
  "'d dnvme \<Rightarrow> 'q queue_scheme \<Rightarrow> u32 \<Rightarrow> int \<times> int \<Rightarrow> (u32 \<Rightarrow> bool) \<Rightarrow> nat \<Rightarrow> u32 \<times> u32
     \<Rightarrow> (('d, 'm) world_scheme, bool \<times> u32 \<times> u32) prog" where
  "reap_wait_loop drv q ms initial enough 0 out = raise Diverges"
| "reap_wait_loop drv q ms initial enough (Suc fuel) out =
     bnd (CQ_CalcTimeout drv ms initial) (\<lambda>timeout.
       if timeout then ret (False, out)
       else bnd (CQ_ReapInquiry drv q) (\<lambda>out'.
         if enough (fst out') then ret (True, out')
         else reap_wait_loop drv q ms initial enough fuel out'))"

text \<open>What the timeout branches log; the peeks behind it can throw.\<close>

definition CQ_log_timeout :: "'d dnvme \<Rightarrow> 'q queue_scheme \<Rightarrow> (('d, 'm) world_scheme, unit) prog" where
  "CQ_log_timeout drv q =
     bnd (CQ_GetQMetrics drv q) (\<lambda>m.
     sq (CQ_LogCE q (gq_head_ptr m))
     (sq (CQ_LogCE q (gq_tail_ptr m))
     (sq (throw_if (gq_elements m = 0) (UB ''division by zero''))
     (sq (CQ_LogCE q (ucast ((ucast (gq_head_ptr m) + 1) mod gq_elements m)))
         (CQ_LogCE q (ucast ((ucast (gq_tail_ptr m) + 1) mod gq_elements m)))))))"

definition CQ_ReapInquiryWaitAny ::
  "'d dnvme \<Rightarrow> nat \<Rightarrow> 'q queue_scheme \<Rightarrow> u32 \<Rightarrow> u32 \<times> u32
     \<Rightarrow> (('d, 'm) world_scheme, bool \<times> u32 \<times> u32) prog" where
  "CQ_ReapInquiryWaitAny drv fuel q ms out =
     bnd (get_time drv) (\<lambda>initial.
     bnd (reap_wait_loop drv q ms initial (\<lambda>n. n \<noteq> 0) fuel out) (\<lambda>(done, out').
       if done then ret (True, out')
       else sq (CQ_log_timeout drv q) (ret (False, out'))))"

definition CQ_DoReapInquiry ::
  "'d dnvme \<Rightarrow> nat \<Rightarrow> 'q queue_scheme \<Rightarrow> u32 \<Rightarrow> u32 \<Rightarrow> u32 \<times> u32
     \<Rightarrow> (('d, 'm) world_scheme, bool \<times> u32 \<times> u32) prog" where
  "CQ_DoReapInquiry drv fuel q ms numTil out =
     sq (throw_if (ms > 86400000) (FrmwkEx ''Waiting > 1 day, is this reasonable?''))
     (bnd (get_time drv) (\<lambda>initial.
      reap_wait_loop drv q ms initial (\<lambda>n. n \<noteq> 0 \<and> n \<ge> numTil) fuel out))"

definition CQ_ReapInquiryWaitSpecify ::
  "'d dnvme \<Rightarrow> nat \<Rightarrow> 'q queue_scheme \<Rightarrow> u32 \<Rightarrow> u32 \<Rightarrow> u32 \<times> u32
     \<Rightarrow> (('d, 'm) world_scheme, bool \<times> u32 \<times> u32) prog" where
  "CQ_ReapInquiryWaitSpecify drv fuel q ms numTil out =
     bnd (CQ_DoReapInquiry drv fuel q ms numTil out) (\<lambda>(result, out').
       if \<not> result then sq (CQ_log_timeout drv q) (ret (result, out'))
       else ret (result, out'))"

definition CQ_ReapInquiryWaitSpecifyQ ::
  "'d dnvme \<Rightarrow> nat \<Rightarrow> 'q queue_scheme \<Rightarrow> u32 \<Rightarrow> u32 \<Rightarrow> u32 \<times> u32
     \<Rightarrow> (('d, 'm) world_scheme, bool \<times> u32 \<times> u32) prog" where
  "CQ_ReapInquiryWaitSpecifyQ drv fuel q ms numTil out = CQ_DoReapInquiry drv fuel q ms numTil out"

text \<open>
  \<open>Reap\<close>: the number of entries reaped, \<open>ceRemain\<close> and \<open>isrCount\<close>. The driver writes the entries to
  the buffer it is given.
\<close>

definition ce_clamp :: "'q queue_scheme \<Rightarrow> u32 \<Rightarrow> u32" where
  "ce_clamp q ceDesire =
     (if ceDesire = 0 then mNumEntries q - 1
      else if ceDesire > mNumEntries q - 1 then mNumEntries q - 1
      else ceDesire)"

definition CQ_Reap ::
  "libc \<Rightarrow> 'd dnvme \<Rightarrow> 'q queue_scheme \<Rightarrow> nat \<Rightarrow> u32 \<Rightarrow> bool \<Rightarrow> bool
     \<Rightarrow> (('d, 'm) world_scheme, u32 \<times> u32 \<times> u32) prog" where
  "CQ_Reap C drv q memBuffer ceDesire zeroMem failOnIoctl =
     (let n = ce_clamp q ceDesire in
      sq (on_mb memBuffer (MemBuffer_Init C (ucast (mEntrySize q) * n) False 0))
     (sq (if zeroMem then on_mb memBuffer MemBuffer_Zero else ret ())
     (bnd (on_mb memBuffer (\<lambda>b. mb_load 0 (unat (MemBuffer_GetBufSize b)) b)) (\<lambda>bytes.
      bnd (ioctl2 (io_reap drv (mQId q) n bytes)) (\<lambda>(rc, reap).
      sq (on_mb memBuffer (mb_store 0 (rp_buffer reap)))
     (sq (throw_if (rc < 0 \<and> failOnIoctl) (FrmwkEx ''Error during reaping CE's, rc = %d''))
         (ret (rp_num_reaped reap, rp_num_remaining reap, rp_isr_count reap))))))))"

section \<open>I/O queues (iocq.cpp, iosq.cpp)\<close>

text \<open>
  The entry size both directions compute: the exponent in the CC register must lie between the
  nibbles of the controller's capability field.
\<close>

definition io_entry_size ::
  "(('d, 'm) world_scheme, bool \<times> u8) prog \<Rightarrow> nat \<Rightarrow> string \<Rightarrow> string
     \<Rightarrow> (('d, 'm) world_scheme, u16) prog" where
  "io_entry_size getES field noES badES =
     bnd getES (\<lambda>(ok, entrySize).
     sq (throw_if (\<not> ok) (FrmwkEx noES))
     (bnd Informative_GetIdentifyCmdCtrlr (\<lambda>idCtrlrCap.
      bnd (Identify_GetValue_ctrlr idCtrlrCap field) (\<lambda>v.
        let maxElemSize = ucast (drop_bit 4 v AND 0x0f) :: u8;
            minElemSize = ucast (v AND 0x0f) :: u8 in
        if entrySize < minElemSize \<or> entrySize > maxElemSize then raise (FrmwkEx badES)
        else ret (push_bit (unat entrySize) 1)))))"

text \<open>The read of CAP.MQES, which only decides on a warning.\<close>

definition read_MQES :: "libc \<Rightarrow> 'd dnvme \<Rightarrow> (('d, 'm) world_scheme, unit) prog" where
  "read_MQES C drv =
     bnd (Registers_Read_ctl drv CTLSPC_CAP (undef64 C)) (\<lambda>(ok, work).
       throw_if (\<not> ok) (FrmwkEx ''Unable to determine MQES''))"

definition IOCQ_entry_size :: "libc \<Rightarrow> 'd dnvme \<Rightarrow> (('d, 'm) world_scheme, u16) prog" where
  "IOCQ_entry_size C drv =
     io_entry_size (CtrlrConfig_GetIOCQES C drv) IDCTRLRCAP_CQES ''Unable to learn IOCQ entry size''
       ''Reg CC.IOCQES yields a bad element size: 0x%04X''"

definition IOSQ_entry_size :: "libc \<Rightarrow> 'd dnvme \<Rightarrow> (('d, 'm) world_scheme, u16) prog" where
  "IOSQ_entry_size C drv =
     io_entry_size (CtrlrConfig_GetIOSQES C drv) IDCTRLRCAP_SQES ''Unable to learn IOSQ entry size''
       ''Reg CC.IOSQES yields a bad element size: 0x%04X''"

definition IOCQ_Init ::
  "libc \<Rightarrow> 'd dnvme \<Rightarrow> u16 \<Rightarrow> u32 \<Rightarrow> bool \<Rightarrow> u16
     \<Rightarrow> ('q comp_queue_scheme \<times> ('d, 'm) world_scheme, unit) prog" where
  "IOCQ_Init C drv qId numEntries irqEnabled irqVec =
     bnd (onr (IOCQ_entry_size C drv)) (\<lambda>entrySize.
     sq (onr (read_MQES C drv))
       (CQ_Init C drv qId entrySize numEntries irqEnabled irqVec))"

definition IOCQ_Init_discontig ::
  "libc \<Rightarrow> 'd dnvme \<Rightarrow> u16 \<Rightarrow> u32 \<Rightarrow> nat option \<Rightarrow> bool \<Rightarrow> u16
     \<Rightarrow> ('q comp_queue_scheme \<times> ('d, 'm) world_scheme, unit) prog" where
  "IOCQ_Init_discontig C drv qId numEntries memBuffer irqEnabled irqVec =
     sq (onr (read_MQES C drv))
     (bnd (onr (IOCQ_entry_size C drv)) (\<lambda>entrySize.
       CQ_Init_discontig C drv qId entrySize numEntries memBuffer irqEnabled irqVec))"

definition set_priority :: "u8 \<Rightarrow> ('q io_sub_queue_scheme, unit) prog" where
  "set_priority priority =
     (if priority \<in> {0, 1, 2, 3} then modify (\<lambda>q. q\<lparr>mPriority := priority\<rparr>)
      else raise (FrmwkEx ''Illegal priority value, can't fit within 2 bits''))"

definition IOSQ_Init ::
  "libc \<Rightarrow> 'd dnvme \<Rightarrow> u16 \<Rightarrow> u32 \<Rightarrow> u16 \<Rightarrow> u8
     \<Rightarrow> ('q io_sub_queue_scheme \<times> ('d, 'm) world_scheme, unit) prog" where
  "IOSQ_Init C drv qId numEntries cqId priority =
     sq (onl (set_priority priority))
     (bnd (onr (IOSQ_entry_size C drv)) (\<lambda>entrySize.
      sq (onr (read_MQES C drv))
        (SQ_Init C drv qId entrySize numEntries cqId)))"

definition IOSQ_Init_discontig ::
  "libc \<Rightarrow> 'd dnvme \<Rightarrow> u16 \<Rightarrow> u32 \<Rightarrow> nat option \<Rightarrow> u16 \<Rightarrow> u8
     \<Rightarrow> ('q io_sub_queue_scheme \<times> ('d, 'm) world_scheme, unit) prog" where
  "IOSQ_Init_discontig C drv qId numEntries memBuffer cqId priority =
     sq (onr (read_MQES C drv))
     (sq (onl (set_priority priority))
     (bnd (onr (IOSQ_entry_size C drv)) (\<lambda>entrySize.
       SQ_Init_discontig C drv qId entrySize numEntries memBuffer cqId)))"

section \<open>Admin queues (acq.cpp, asq.cpp)\<close>

definition ACQ_Init ::
  "libc \<Rightarrow> 'd dnvme \<Rightarrow> u32 \<Rightarrow> ('q comp_queue_scheme \<times> ('d, 'm) world_scheme, unit) prog" where
  "ACQ_Init C drv numEntries = CQ_Init C drv 0 16 numEntries True 0"

definition ASQ_Init ::
  "libc \<Rightarrow> 'd dnvme \<Rightarrow> u32 \<Rightarrow> ('q sub_queue_scheme \<times> ('d, 'm) world_scheme, unit) prog" where
  "ASQ_Init C drv numEntries = SQ_Init C drv 0 64 numEntries 0"

text \<open>The condition is evaluated from left to right, and only as far as needed.\<close>

definition ASQ_Send ::
  "'d dnvme \<Rightarrow> send_masks \<Rightarrow> 'q queue_scheme \<Rightarrow> (cmd \<times> ('d, 'm) world_scheme, u16) prog" where
  "ASQ_Send drv M q =
     bnd (if mQId q \<noteq> 0 then ret False
          else bnd (onl Cmd_GetOpcode) (\<lambda>opc.
            if opc \<noteq> 0x05 then ret False
            else bnd (onl (Cmd_GetBit 11 1)) (\<lambda>ien.
              if \<not> ien then ret False
              else bnd (onr (CtrlrConfig_IrqsEnabled drv)) (\<lambda>en. ret (\<not> en))))) (\<lambda>bad.
     if bad then raise (FrmwkEx ''Rethink test case, see gCtrlrConfig->SetIrqScheme()'')
     else SQ_Send drv M q)"

section \<open>Rules for the programs on pairs\<close>

lemma onl_apply [simp, prog_simps]: "onl m s = (case m (fst s) of (r, q) \<Rightarrow> (r, (q, snd s)))"
  by (simp add: onl_def zoom_def)

lemma onr_apply [simp, prog_simps]: "onr m s = (case m (snd s) of (r, w) \<Rightarrow> (r, (fst s, w)))"
  by (simp add: onr_def zoom_def)

lemma onl_Inr: "onl m s = (Inr x, t) \<longleftrightarrow> (\<exists>q. m (fst s) = (Inr x, q) \<and> t = (q, snd s))"
  by (auto split: prod.splits)

lemma onr_Inr: "onr m s = (Inr x, t) \<longleftrightarrow> (\<exists>w. m (snd s) = (Inr x, w) \<and> t = (fst s, w))"
  by (auto split: prod.splits)

lemma keeps_onl [wf_intros]: "keeps J m \<Longrightarrow> keeps (J \<circ> fst) (onl m)"
  by (auto simp: keeps_def split: prod.splits)

lemma keeps_onr [wf_intros]: "keeps (J \<circ> fst) (onr m)"
  by (auto simp: keeps_def split: prod.splits)

text \<open>\<open>throws_on I m\<close>: from a state in \<open>I\<close>, \<open>m\<close> does not return; \<open>ensures P m\<close>: when \<open>m\<close> returns,
  \<open>P\<close> holds.\<close>

definition throws_on :: "('s \<Rightarrow> bool) \<Rightarrow> ('s, 'a) prog \<Rightarrow> bool" where
  "throws_on I m \<longleftrightarrow> (\<forall>s. I s \<longrightarrow> isl (fst (m s)))"

definition ensures :: "('s \<Rightarrow> bool) \<Rightarrow> ('s, 'a) prog \<Rightarrow> bool" where
  "ensures P m \<longleftrightarrow> (\<forall>s x t. m s = (Inr x, t) \<longrightarrow> P t)"

lemma throws_on_first: "throws_on I m \<Longrightarrow> throws_on I (bnd m k)"
  by (auto simp: throws_on_def bnd_apply split: prod.splits sum.splits)

lemma throws_on_then: "keeps I m \<Longrightarrow> (\<And>x. throws_on I (k x)) \<Longrightarrow> throws_on I (bnd m k)"
  by (auto simp: throws_on_def keeps_def bnd_apply split: prod.splits sum.splits)

lemma throws_on_sq_first: "throws_on I m \<Longrightarrow> throws_on I (sq m k)"
  unfolding sq_def by (rule throws_on_first)

lemma throws_on_sq_then: "keeps I m \<Longrightarrow> throws_on I k \<Longrightarrow> throws_on I (sq m k)"
  unfolding sq_def by (rule throws_on_then)

lemma ensures_bnd: "(\<And>x. ensures P (k x)) \<Longrightarrow> ensures P (bnd m k)"
  by (auto simp: ensures_def bnd_Inr_iff)

lemma ensures_sq: "ensures P k \<Longrightarrow> ensures P (sq m k)"
  by (auto simp: ensures_def sq_Inr_iff)

section \<open>The contract of the \<open>Init\<close> functions\<close>

definition initialised :: "'q queue_scheme \<Rightarrow> bool" where
  "initialised q \<longleftrightarrow> mContigBuf q \<noteq> 0 \<or> mDiscontigBuf q \<noteq> None"

definition queue_inv :: "'q queue_scheme \<Rightarrow> bool" where
  "queue_inv q \<longleftrightarrow> mContigBuf q = 0 \<or> mDiscontigBuf q = None"

text \<open>What a refused \<open>Init\<close> must not touch: geometry and memory of the queue.\<close>

definition same_queue :: "'p queue_scheme \<Rightarrow> 'q queue_scheme \<Rightarrow> bool" where
  "same_queue q p \<longleftrightarrow> mQId p = mQId q \<and> mEntrySize p = mEntrySize q \<and> mNumEntries p = mNumEntries q \<and>
     mContigBuf p = mContigBuf q \<and> mDiscontigBuf p = mDiscontigBuf q"

locale queue_setup =
  fixes init :: "('q queue_scheme \<times> 'w, unit) prog"
  assumes refuses: "initialised (q :: 'q queue_scheme) \<Longrightarrow> throws_on (same_queue q \<circ> fst) init"
    and untouched: "initialised (q :: 'q queue_scheme) \<Longrightarrow> keeps (same_queue q \<circ> fst) init"
    and one_memory: "keeps (queue_inv \<circ> fst) init"
    and ready: "ensures (initialised \<circ> fst) init"
begin

lemma contig_total:
  assumes "init (q, w) = (Inr (), (q', w'))" and "queue_inv q"
  shows "Queue_GetIsContig q' = Inr (mContigBuf q' \<noteq> 0)"
proof -
  have "queue_inv q'" using keepsD [OF one_memory, of "(q, w)"] assms by simp
  moreover have "initialised q'" using ready assms(1) by (auto simp: ensures_def)
  ultimately show ?thesis by (auto simp: Queue_GetIsContig_def queue_inv_def initialised_def)
qed

lemma twice:
  assumes "init (q, w) = (Inr (), (q', w'))"
  shows "\<exists>e q'' w''. init (q', v) = (Inl e, (q'', w'')) \<and> same_queue q' q''"
proof -
  have i: "initialised q'" using ready assms by (auto simp: ensures_def)
  have "same_queue q' q'" by (simp add: same_queue_def)
  then have "isl (fst (init (q', v)))" "same_queue q' (fst (snd (init (q', v))))"
    using refuses [OF i] keepsD [OF untouched [OF i], of "(q', v)"] by (auto simp: throws_on_def)
  then show ?thesis by (cases "init (q', v)") (auto simp: isl_def)
qed

end

lemma same_queue_initialised: "same_queue q p \<Longrightarrow> initialised p = initialised q"
  by (auto simp: same_queue_def initialised_def)

lemma Queue_Init_refuses:
  "initialised q \<Longrightarrow> throws_on (same_queue q \<circ> fst) (onl (Queue_Init a b n))"
  by (auto simp: throws_on_def Queue_Init_def initialised_def same_queue_def)

lemma Queue_Init_untouched:
  "initialised q \<Longrightarrow> keeps (same_queue q \<circ> fst) (sq (onl (Queue_Init a b n)) k)"
  by (auto simp: keeps_def sq_apply Queue_Init_def initialised_def same_queue_def)

lemma Queue_Init_one_memory:
  fixes k :: "('q queue_scheme \<times> 'w, 'a) prog"
  assumes "\<And>q. J q \<Longrightarrow> queue_inv q"
    and "\<And>q. mContigBuf q = 0 \<Longrightarrow> mDiscontigBuf q = None \<Longrightarrow> J q" and "keeps (J \<circ> fst) k"
  shows "keeps (queue_inv \<circ> fst) (sq (onl (Queue_Init a b n)) k)"
proof (unfold keeps_def, intro allI impI)
  fix s :: "'q queue_scheme \<times> 'w"
  assume inv: "(queue_inv \<circ> fst) s"
  let ?q = "(fst s)\<lparr>mQId := a, mEntrySize := b, mNumEntries := n\<rparr>"
  have "(queue_inv \<circ> fst) (snd (k (?q, snd s)))"
    if "mContigBuf (fst s) = 0" "mDiscontigBuf (fst s) = None"
    using keepsD [OF assms(3), of "(?q, snd s)"] assms(1,2) that by simp
  then show "(queue_inv \<circ> fst) (snd (sq (onl (Queue_Init a b n)) k s))"
    using inv by (auto simp: sq_apply Queue_Init_def)
qed

lemma keeps_split [wf_intros]: "(\<And>x y. keeps I (f x y)) \<Longrightarrow> keeps I (case p of (x, y) \<Rightarrow> f x y)"
  by (cases p) simp

text \<open>After \<open>Queue::Init\<close> the remaining steps set one of the two pointers only.\<close>

lemma keeps_no_discontig:
  "keeps ((\<lambda>q. mDiscontigBuf q = None) \<circ> fst) (onl (modify (\<lambda>q. q\<lparr>mContigBuf := a\<rparr>)))"
  "keeps ((\<lambda>q. mContigBuf q = 0) \<circ> fst) (onl (modify (\<lambda>q. q\<lparr>mDiscontigBuf := r\<rparr>)))"
  "keeps ((\<lambda>q. mContigBuf q = 0) \<circ> fst) (onl (modify (\<lambda>q. q\<lparr>mIrqEnabled := e, mIrqVec := v\<rparr>)))"
  "keeps ((\<lambda>q. mDiscontigBuf q = None) \<circ> fst) (onl (modify (\<lambda>q. q\<lparr>mIrqEnabled := e, mIrqVec := v\<rparr>)))"
  by (auto simp: keeps_def)

lemma keeps_cqid:
  "keeps (same_queue q \<circ> fst) (onl (modify (\<lambda>q. q\<lparr>mCqId := c\<rparr>)))"
  "keeps (queue_inv \<circ> fst) (onl (modify (\<lambda>q. q\<lparr>mCqId := c\<rparr>)))"
  by (auto simp: keeps_def same_queue_def queue_inv_def)

lemma ensures_contig:
  "ensures (initialised \<circ> fst) (sq (onl (modify (\<lambda>q. q\<lparr>mContigBuf := a\<rparr>))) (throw_if (a = 0) e))"
  by (auto simp: ensures_def sq_Inr_iff initialised_def split: if_splits)

lemma ensures_discontig:
  "ensures (initialised \<circ> fst) (sq (onl (modify (\<lambda>q. q\<lparr>mDiscontigBuf := Some r\<rparr>))) (sq (onr m) (onr k)))"
  by (auto simp: ensures_def sq_Inr_iff initialised_def split: prod.splits)

lemmas init_ready = ensures_bnd ensures_sq ensures_contig ensures_discontig
lemmas init_one_memory = keeps_no_discontig wf_intros

interpretation sq_contig: queue_setup
  "SQ_Init C drv a b n c :: ('q sub_queue_scheme \<times> ('d, 'm) world_scheme, unit) prog"
proof
  fix q :: "('q sub_queue_scheme)"
  show "initialised q \<Longrightarrow> throws_on (same_queue q \<circ> fst) (SQ_Init C drv a b n c)"
    unfolding SQ_Init_def by (rule throws_on_sq_then [OF keeps_cqid(1)], rule throws_on_sq_first, rule Queue_Init_refuses)
  show "initialised q \<Longrightarrow> keeps (same_queue q \<circ> fst) (SQ_Init C drv a b n c)"
    unfolding SQ_Init_def by (intro keeps_sq [OF keeps_cqid(1)] Queue_Init_untouched)
  show "keeps (queue_inv \<circ> fst) (SQ_Init C drv a b n c)"
    unfolding SQ_Init_def
    by (intro keeps_sq [OF keeps_cqid(2)] Queue_Init_one_memory [where J = "\<lambda>q. mDiscontigBuf q = None"])
      (auto simp: queue_inv_def intro!: init_one_memory)
  show "ensures (initialised \<circ> fst) (SQ_Init C drv a b n c)"
    unfolding SQ_Init_def split_def by (intro init_ready)
qed

interpretation sq_discontig: queue_setup
  "SQ_Init_discontig C drv a b n r c :: ('q sub_queue_scheme \<times> ('d, 'm) world_scheme, unit) prog"
proof
  fix q :: "('q sub_queue_scheme)"
  show "initialised q \<Longrightarrow> throws_on (same_queue q \<circ> fst) (SQ_Init_discontig C drv a b n r c)"
    unfolding SQ_Init_discontig_def
    by (rule throws_on_sq_then [OF keeps_cqid(1)], rule throws_on_sq_first, rule Queue_Init_refuses)
  show "initialised q \<Longrightarrow> keeps (same_queue q \<circ> fst) (SQ_Init_discontig C drv a b n r c)"
    unfolding SQ_Init_discontig_def by (intro keeps_sq [OF keeps_cqid(1)] Queue_Init_untouched)
  show "keeps (queue_inv \<circ> fst) (SQ_Init_discontig C drv a b n r c)"
    unfolding SQ_Init_discontig_def
    by (intro keeps_sq [OF keeps_cqid(2)] Queue_Init_one_memory [where J = "\<lambda>q. mContigBuf q = 0"])
      (auto simp: queue_inv_def intro!: init_one_memory)
  show "ensures (initialised \<circ> fst) (SQ_Init_discontig C drv a b n r c)"
    unfolding SQ_Init_discontig_def split_def by (intro init_ready)
qed

interpretation cq_contig: queue_setup
  "CQ_Init C drv a b n e v :: ('q comp_queue_scheme \<times> ('d, 'm) world_scheme, unit) prog"
proof
  fix q :: "('q comp_queue_scheme)"
  show "initialised q \<Longrightarrow> throws_on (same_queue q \<circ> fst) (CQ_Init C drv a b n e v)"
    unfolding CQ_Init_def by (intro throws_on_sq_first Queue_Init_refuses)
  show "initialised q \<Longrightarrow> keeps (same_queue q \<circ> fst) (CQ_Init C drv a b n e v)"
    unfolding CQ_Init_def by (intro Queue_Init_untouched)
  show "keeps (queue_inv \<circ> fst) (CQ_Init C drv a b n e v)"
    unfolding CQ_Init_def
    by (intro Queue_Init_one_memory [where J = "\<lambda>q. mDiscontigBuf q = None"])
      (auto simp: queue_inv_def intro!: init_one_memory)
  show "ensures (initialised \<circ> fst) (CQ_Init C drv a b n e v)"
    unfolding CQ_Init_def by (intro init_ready)
qed

interpretation cq_discontig: queue_setup
  "CQ_Init_discontig C drv a b n r e v :: ('q comp_queue_scheme \<times> ('d, 'm) world_scheme, unit) prog"
proof
  fix q :: "('q comp_queue_scheme)"
  show "initialised q \<Longrightarrow> throws_on (same_queue q \<circ> fst) (CQ_Init_discontig C drv a b n r e v)"
    unfolding CQ_Init_discontig_def by (intro throws_on_sq_first Queue_Init_refuses)
  show "initialised q \<Longrightarrow> keeps (same_queue q \<circ> fst) (CQ_Init_discontig C drv a b n r e v)"
    unfolding CQ_Init_discontig_def by (intro Queue_Init_untouched)
  show "keeps (queue_inv \<circ> fst) (CQ_Init_discontig C drv a b n r e v)"
    unfolding CQ_Init_discontig_def
    by (intro Queue_Init_one_memory [where J = "\<lambda>q. mContigBuf q = 0"])
      (auto simp: queue_inv_def intro!: init_one_memory)
  show "ensures (initialised \<circ> fst) (CQ_Init_discontig C drv a b n r e v)"
    unfolding CQ_Init_discontig_def by (intro init_ready)
qed

section \<open>Peeking\<close>

text \<open>The contents of the queue's memory, from its first entry on.\<close>

fun q_bytes :: "qmem \<Rightarrow> ('d, 'm) world_scheme \<Rightarrow> u8 list option" where
  "q_bytes (Mapped a) s = Some (mmaps s a)"
| "q_bytes (Shared r) s = map_option (drop (mVirOff (wd_bufs s r))) (mRealBaseAddr (wd_bufs s r))"

fun q_oob :: "qmem \<Rightarrow> ex" where
  "q_oob (Mapped a) = UB ''load outside of the mapping''"
| "q_oob (Shared r) = UB ''load outside of the allocation''"

lemma q_load_run:
  assumes "q_bytes b s = Some bs" and "0 < n"
  shows "q_load b p n s = (if p + n \<le> length bs then Inr (take n (drop p bs)) else Inl (q_oob b), s)"
proof (cases b)
  case (Mapped a)
  then show ?thesis using assms by (simp add: peek_def)
next
  case (Shared r)
  then obtain m where m: "mRealBaseAddr (wd_bufs s r) = Some m" "bs = drop (mVirOff (wd_bufs s r)) m"
    using assms by auto
  then have "mVirOff (wd_bufs s r) + p + n \<le> length m \<longleftrightarrow> p + n \<le> length bs" using assms(2) by auto
  then show ?thesis
    using m Shared by (simp add: on_mb_def zoom_apply mb_load_def peek_def add.commute)
qed

lemma peek_loop_run:
  "i \<le> unat k \<Longrightarrow> peek_loop b w k i n =
     (if unat k < i + n then q_load b (w * unat k) w
      else raise (FrmwkEx ''Unable to locate index within Q''))"
proof (induction n arbitrary: i)
  case (Suc n)
  then show ?case by (cases "i = unat k") auto
qed simp

text \<open>The completion entries a queue of \<open>n\<close> entries shows over the bytes \<open>bs\<close>.\<close>

definition q_ces :: "nat \<Rightarrow> u8 list \<Rightarrow> CE list" where
  "q_ces n bs = map (\<lambda>k. ce_of_bytes (take 16 (drop (16 * k) bs))) [0..<n]"

lemma cid_loop_run:
  assumes "q_bytes b s = Some bs"
  shows "16 * (i + n) \<le> length bs \<Longrightarrow> cid_loop b cid i n s =
    (case find (\<lambda>ce. ce_CID ce = cid) (map (\<lambda>k. ce_of_bytes (take 16 (drop (16 * k) bs))) [i..<i + n]) of
       Some ce \<Rightarrow> Inr ce | None \<Rightarrow> Inl (FrmwkEx ''Unable to locate CID within CQ''), s)"
proof (induction n arbitrary: i)
  case (Suc n)
  have up: "[i..<i + Suc n] = i # [Suc i..<Suc i + n]" by (simp add: upt_conv_Cons)
  have ld: "q_load b (16 * i) 16 s = (Inr (take 16 (drop (16 * i) bs)), s)"
    using Suc.prems by (simp add: q_load_run [OF assms])
  show ?case
    unfolding up using Suc.IH [of "Suc i"] Suc.prems by (simp add: bnd_apply ld)
qed simp

section \<open>Waiting\<close>

text \<open>
  What the waits rely on of the system clock: \<open>now\<close> reads it off the driver's state, every
  \<open>gettimeofday\<close> succeeds and is later than the one before, and the inquiry succeeds and does not
  turn the clock back.
\<close>

definition ticking :: "'d dnvme \<Rightarrow> ('d \<Rightarrow> int) \<Rightarrow> bool" where
  "ticking drv now \<longleftrightarrow>
     (\<forall>d. case io_clock drv d of (rc, tv, d') \<Rightarrow> rc = 0 \<and> timeval_us tv = now d' \<and> now d < now d') \<and>
     (\<forall>q d. case io_reap_inquiry drv q d of (rc, inq, d') \<Rightarrow> 0 \<le> rc \<and> now d \<le> now d')"

lemma ticking_clock:
  assumes "ticking drv now"
  obtains tv d where "get_time drv s = (Inr tv, s\<lparr>kern := d\<rparr>)" "timeval_us tv = now d" "now (kern s) < now d"
proof -
  obtain rc tv d where c: "io_clock drv (kern s) = (rc, tv, d)" by (cases "io_clock drv (kern s)")
  have "case io_clock drv (kern s) of (rc, tv, d') \<Rightarrow> rc = 0 \<and> timeval_us tv = now d' \<and> now (kern s) < now d'"
    by (rule spec [OF conjunct1 [OF assms [unfolded ticking_def]]])
  then have "rc = 0 \<and> timeval_us tv = now d \<and> now (kern s) < now d" using c by simp
  then show ?thesis using that c by (simp add: get_time_def bnd_apply ioctl2_apply)
qed

lemma ticking_inquiry:
  fixes s :: "('d, 'm) world_scheme"
  assumes "ticking drv now"
  obtains out d where "CQ_ReapInquiry drv q s = (Inr out, s\<lparr>kern := d\<rparr>)" "now (kern s) \<le> now d"
proof -
  obtain rc inq d where c: "io_reap_inquiry drv (mQId q) (kern s) = (rc, inq, d)"
    by (cases "io_reap_inquiry drv (mQId q) (kern s)")
  have "case io_reap_inquiry drv (mQId q) (kern s) of (rc, inq, d') \<Rightarrow> 0 \<le> rc \<and> now (kern s) \<le> now d'"
    by (rule spec [OF spec [OF conjunct2 [OF assms [unfolded ticking_def]]]])
  then have "0 \<le> rc \<and> now (kern s) \<le> now d" using c by simp
  then show ?thesis using that c by (simp add: CQ_ReapInquiry_def bnd_apply ioctl2_apply)
qed

lemma reap_wait_ends:
  fixes s :: "('d, 'm) world_scheme"
  assumes "ticking drv now"
  shows "max 0 (int (unat ms) * 1000 - (now (kern s) - timeval_us initial)) < int fuel \<Longrightarrow>
    \<exists>fin out' t. reap_wait_loop drv q ms initial enough fuel out s = (Inr (fin, out'), t) \<and>
      (fin \<longrightarrow> enough (fst out'))"
proof (induction fuel arbitrary: s out)
  case (Suc fuel)
  obtain tv d where tv: "get_time drv s = (Inr tv, s\<lparr>kern := d\<rparr>)" "timeval_us tv = now d"
    "now (kern s) < now d"
    using ticking_clock [OF assms] .
  obtain out1 d1 where inq: "CQ_ReapInquiry drv q (s\<lparr>kern := d\<rparr>) = (Inr out1, s\<lparr>kern := d\<rparr>\<lparr>kern := d1\<rparr>)"
    "now d \<le> now d1"
    using ticking_inquiry [OF assms, of q "s\<lparr>kern := d\<rparr>"] by auto
  show ?case
  proof (cases "now d - timeval_us initial \<ge> int (unat ms) * 1000")
    case True
    then show ?thesis by (auto simp: CQ_CalcTimeout_def bnd_apply tv)
  next
    case False
    then have "max 0 (int (unat ms) * 1000 - (now (kern (s\<lparr>kern := d1\<rparr>)) - timeval_us initial)) < int fuel"
      using Suc.prems tv(3) inq(2) by simp
    from Suc.IH [OF this, of out1] False inq(1) show ?thesis
      by (cases out1) (auto simp: CQ_CalcTimeout_def bnd_apply tv)
  qed
qed simp

section \<open>Reaping\<close>

lemma MemBuffer_Init_run:
  "MemBuffer_Init C n False v b = (Inr (), b') \<Longrightarrow>
     mb_inv b' \<and> mVirBufSize b' = n \<and> (\<exists>m. mRealBaseAddr b' = Some m)"
  by (auto simp: MemBuffer_Init_def sq_apply mb_inv_def split: if_splits)

lemma mb_load_all:
  assumes "mb_bytes b = Some bs" and "mRealBaseAddr b = Some m"
  shows "mb_load 0 (unat (MemBuffer_GetBufSize b)) b = (Inr bs, b)"
  using assms by (simp add: mb_bytes_def mb_load_def MemBuffer_GetBufSize_def)

lemma mb_store_bytes:
  assumes "mb_store 0 xs b = (Inr (), b')" and "mb_bytes b = Some bs" and "length xs \<le> length bs"
    and "mRealBaseAddr b = Some m"
  shows "mb_bytes b' = Some (xs @ drop (length xs) bs)"
proof -
  let ?o = "mVirOff b" and ?n = "unat (mVirBufSize b)"
  have m: "?o + ?n \<le> length m" "bs = take ?n (drop ?o m)"
    using assms(2,4) by (auto simp: mb_bytes_def peek_def split: if_splits)
  have b': "b' = b\<lparr>mRealBaseAddr := Some (take ?o m @ xs @ drop (?o + length xs) m)\<rparr>"
    using mb_store_ok [OF assms(4), of 0 xs] assms(1,3) m by simp
  have "take ?n (drop ?o (take ?o m @ xs @ drop (?o + length xs) m)) = xs @ drop (length xs) bs"
    using window_update [of 0 xs ?n ?o m] assms(3) m by simp
  then show ?thesis using m assms(3) by (simp add: b' mb_bytes_def peek_def)
qed

lemma ce_clamp_bounds:
  assumes "2 \<le> mNumEntries q"
  shows "0 < ce_clamp q want \<and> ce_clamp q want \<le> mNumEntries q - 1"
proof -
  have "unat (mNumEntries q - 1) = unat (mNumEntries q) - 1"
    using assms by (simp add: unat_sub word_le_nat_alt)
  then have "0 < mNumEntries q - 1" using assms by (simp add: word_less_nat_alt word_le_nat_alt)
  then show ?thesis by (auto simp: ce_clamp_def word_neq_0_conv)
qed

lemma on_mb_Inr:
  "on_mb r m s = (Inr x, t) \<longleftrightarrow> (\<exists>b. m (wd_bufs s r) = (Inr x, b) \<and> t = s\<lparr>wd_bufs := (wd_bufs s)(r := b)\<rparr>)"
  by (auto simp: on_mb_def zoom_apply split: prod.splits)

lemma ioctl2_Inr:
  "ioctl2 f s = (Inr x, t) \<longleftrightarrow> (\<exists>d. f (kern s) = (fst x, snd x, d) \<and> t = s\<lparr>kern := d\<rparr>)"
  by (cases x) (auto simp: ioctl2_apply split: prod.splits)

lemma ioctl1_Inr: "ioctl1 f s = (Inr rc, t) \<longleftrightarrow> (\<exists>d. f (kern s) = (rc, d) \<and> t = s\<lparr>kern := d\<rparr>)"
  by (auto simp: ioctl1_apply split: prod.splits)

lemma Reap_run:
  fixes s t :: "('d, 'm) world_scheme"
  assumes "CQ_Reap C drv q r want z f s = (Inr (num, remain, isr), t)"
  defines "n \<equiv> ce_clamp q want"
  shows "\<exists>bytes rc reap. length bytes = unat (ucast (mEntrySize q) * n :: u32) \<and>
    (z \<longrightarrow> bytes = replicate (length bytes) 0) \<and>
    io_reap drv (mQId q) n bytes (kern s) = (rc, reap, kern t) \<and> (f \<longrightarrow> 0 \<le> rc) \<and>
    num = rp_num_reaped reap \<and> remain = rp_num_remaining reap \<and> isr = rp_isr_count reap \<and>
    (length (rp_buffer reap) \<le> length bytes \<longrightarrow>
       mb_bytes (wd_bufs t r) = Some (rp_buffer reap @ drop (length (rp_buffer reap)) bytes))"
proof -
  obtain b1 b2 bytes b3 b4 rc reap d where
    i: "MemBuffer_Init C (ucast (mEntrySize q) * n) False 0 (wd_bufs s r) = (Inr (), b1)"
    and z: "(if z then MemBuffer_Zero b1 else ret () b1) = (Inr (), b2)"
    and l: "mb_load 0 (unat (MemBuffer_GetBufSize b2)) b2 = (Inr bytes, b3)"
    and k: "io_reap drv (mQId q) n bytes (kern s) = (rc, reap, d)"
    and st: "mb_store 0 (rp_buffer reap) b3 = (Inr (), b4)"
    and t: "t = s\<lparr>wd_bufs := (wd_bufs s)(r := b4)\<rparr>\<lparr>kern := d\<rparr>" "\<not> (rc < 0 \<and> f)"
    "num = rp_num_reaped reap" "remain = rp_num_remaining reap" "isr = rp_isr_count reap"
    using assms(1)
    by (cases z)
      (auto simp: CQ_Reap_def Let_def n_def [symmetric] sq_Inr_iff bnd_Inr_iff on_mb_Inr ioctl2_Inr
        split: prod.splits if_splits)
  note b1 = MemBuffer_Init_run [OF i]
  obtain m2 where m2: "mRealBaseAddr b2 = Some m2"
    using l by (auto simp: mb_load_def split: option.splits)
  obtain bs where b2: "mb_bytes b2 = Some bs"
    "length bs = unat (ucast (mEntrySize q) * n :: u32)" "z \<longrightarrow> bs = replicate (length bs) 0"
  proof (cases z)
    case True
    then show ?thesis
      using MemBuffer_Zero_run [of b1] b1 z that by auto
  next
    case False
    then show ?thesis using mb_inv_bytes [of b1] b1 z that by auto
  qed
  have "bytes = bs \<and> b3 = b2" using l mb_load_all [OF b2(1) m2] by simp
  then show ?thesis
    using b2 k t mb_store_bytes [OF _ b2(1) _ m2] st by auto
qed

section \<open>Sending\<close>

text \<open>The request \<open>Send\<close> hands to the driver.\<close>

definition send_request :: "send_masks \<Rightarrow> 'q queue_scheme \<Rightarrow> cmd \<Rightarrow> ('d, 'm) world_scheme \<Rightarrow> nvme_64b_send" where
  "send_request M q c s =
     \<lparr>s_q_id = mQId q, s_bit_mask = mPrpFields c OR MetaData_GetMetaBitmask M c,
      s_meta_buf_id = mb_ID (mMetaData c), s_data_buf_size = mBufSize c,
      s_data = PrpData_GetROPrpBuffer c s,
      s_cmd = map_option (drop (mVirOff (mCmdBuf c))) (mRealBaseAddr (mCmdBuf c)),
      s_data_dir = mDataDir c\<rparr>"

lemma CID_field_ok: "cmd_ok c \<Longrightarrow> 0 < cmd_size c \<Longrightarrow> cmd_field_ok (0, 1, 16) c"
  by (simp add: cmd_field_ok_def bad_offset_def)

lemma SetCID_run:
  assumes "cmd_ok c" and "0 < cmd_size c"
  shows "Cmd_SetCID v c = (Inr (), set_dw c 0 (put_field (16, 16) (ucast v) (cmd_dw c 0)))"
  using SetBits_ok [OF CID_field_ok [OF assms]]
  by (simp add: Cmd_SetCID_def Cmd_SetWord_def field_bits_def)

lemma only_kernE: "only_kern s t \<Longrightarrow> (\<And>d. t = s\<lparr>kern := d\<rparr> \<Longrightarrow> thesis) \<Longrightarrow> thesis"
  unfolding only_kern_def by blast

lemma only_kern_request:
  fixes s :: "('d, 'm) world_scheme"
  assumes "only_kern s t" shows "send_request M q c t = send_request M q c s"
  using assms by (elim only_kernE) (simp add: send_request_def PrpData_GetROPrpBuffer_def split: option.split qmem.split)

lemma GetOpcode_same: "Cmd_GetOpcode c = (r, c') \<Longrightarrow> c' = c"
  by (auto simp: Cmd_GetOpcode_def Cmd_GetByte_def Cmd_GetBits_def Cmd_GetDword_def bnd_apply on_buf_def
      zoom_apply mb_load_def Let_def split: if_splits option.splits prod.splits sum.splits)

lemma SQ_Send_run:
  fixes s :: "('d, 'm) world_scheme"
  assumes "SQ_Send drv M q (c, s) = (Inr uid, (c', s'))"
  shows "\<exists>d rc. io_send_64b drv (send_request M q c s) d = (rc, uid, kern s') \<and> 0 \<le> rc \<and>
    Cmd_SetCID uid c = (Inr (), c')"
proof -
  obtain en rc and t :: "('d, 'm) world_scheme" where
    e: "CtrlrConfig_IsStateEnabled drv s = (Inr en, t)"
    and k: "io_send_64b drv (send_request M q c t) (kern t) = (rc, uid, kern s')" "\<not> rc < 0"
    and id: "Cmd_SetCID uid c = (Inr (), c')"
    using assms
    by (auto simp: SQ_Send_def bnd_Inr_iff sq_Inr_iff ioctl2_Inr send_request_def
        split: prod.splits if_splits dest!: GetOpcode_same)
  have "only_kern s t" using keeps_only_kern [OF IsStateEnabled_keeps, of s drv] e by simp
  then show ?thesis using k id by (auto simp: only_kern_request not_less)
qed

lemma fst_GetCID:
  assumes "cmd_ok c" and "0 < cmd_size c"
  shows "fst (Cmd_GetCID c) = Inr (ucast (get_field (16, 16) (cmd_dw c 0)))"
proof -
  have "(ucast (ucast x :: u64) :: u16) = ucast (x :: u32)" for x
    by (rule bit_word_eqI) (simp add: bit_simps)
  then show ?thesis
    using GetBits_ok [OF CID_field_ok [OF assms]]
    by (simp add: Cmd_GetCID_def Cmd_GetWord_def bnd_apply field_bits_def)
qed

text \<open>A command after the driver's identifier has been stored in it.\<close>

lemma SetCID_effect:
  assumes "Cmd_SetCID uid c = (Inr (), c')" and "cmd_ok c" and "0 < cmd_size c"
  shows "fst (Cmd_GetCID c') = Inr uid \<and> fst (Cmd_GetOpcode c') = fst (Cmd_GetOpcode c) \<and>
    (\<forall>i. 0 < i \<and> i < cmd_size c \<longrightarrow> cmd_dw c' i = cmd_dw c i)"
proof -
  have c': "c' = set_dw c 0 (put_field (16, 16) (ucast uid) (cmd_dw c 0))"
    using assms(1) SetCID_run [OF assms(2,3)] by simp
  have cid: "fst (Cmd_GetCID c') = Inr uid"
  proof -
    have "(ucast (take_bit 16 (ucast uid :: u32)) :: u16) = uid"
      by (rule bit_word_eqI) (simp add: bit_simps)
    then show ?thesis
      using assms(2,3) by (simp add: fst_GetCID c' cmd_dw_set_same get_put_same field_ok_def)
  qed
  have op: "cmd_field_ok (0, 0, 8) x" if "cmd_ok x" "0 < cmd_size x" for x
    using that by (simp add: cmd_field_ok_def bad_offset_def)
  have "fst (Cmd_GetOpcode c') = fst (Cmd_GetOpcode c)"
    using assms(2,3) GetBits_ok [OF op, of c] GetBits_ok [OF op, of c']
    by (simp add: Cmd_GetOpcode_def Cmd_GetByte_def bnd_apply c' field_bits_def cmd_dw_set_same
        get_put_apart field_ok_def field_apart_def)
  then show ?thesis using cid assms(2,3) by (auto simp: c' cmd_dw_set_other)
qed

section \<open>Entry sizes\<close>

lemma GetIOSQES_keeps [wf_intros]: "keeps (only_kern s) (CtrlrConfig_GetIOSQES C drv)"
  unfolding CtrlrConfig_GetIOSQES_def CtrlrConfig_GetRegValue_def CtrlrConfig_ReadRegCC_def
  by (auto intro!: wf_intros split: prod.splits)

lemma SQES_value:
  assumes "has_data c bs s" and "fst (Identify_GetCNS c) = Inr CNS_Controller" and "513 < length bs"
  shows "Identify_GetValue_ctrlr c IDCTRLRCAP_SQES s = (Inr (ucast (bs ! 512)), s)"
proof -
  have row: "unat (idt_length (mIdCtrlrCapMetrics ! 47)) = 1" "unat (idt_offset (mIdCtrlrCapMetrics ! 47)) = 512"
    by (simp_all add: mIdCtrlrCapMetrics_def mkId_def)
  have "take 1 (drop 512 bs) = [bs ! 512]"
    using assms(3) by (simp add: take_Suc_conv_app_nth [of 0 "drop 512 bs", simplified])
  then have "of_le (take 1 (drop 512 bs)) = ucast (bs ! 512)" by simp
  then show ?thesis
    using GetValue_table_run [OF assms(1), of 47 mIdCtrlrCapMetrics] assms(3) row
    by (simp add: Identify_GetValue_ctrlr_def bnd_apply of_cmd_CNS [OF assms(2)] table_sizes)
qed

lemma IOSQ_entry_size_run:
  fixes s t :: "('d, 'm) world_scheme"
  assumes "IOSQ_entry_size C drv s = (Inr es, t)"
    and "mIdentifyCmdCtrlr s = Some c" and "has_data c bs s"
    and "fst (Identify_GetCNS c) = Inr CNS_Controller" and "513 < length bs"
  shows "\<exists>k. es = push_bit k 1 \<and> unat (bs ! 512 AND 0x0f) \<le> k \<and> k \<le> unat (drop_bit 4 (bs ! 512))"
proof -
  obtain ok k and u :: "('d, 'm) world_scheme" where g: "CtrlrConfig_GetIOSQES C drv s = (Inr (ok, k), u)"
    using assms(1) by (auto simp: IOSQ_entry_size_def io_entry_size_def bnd_Inr_iff)
  then have "only_kern s u" using keeps_only_kern [OF GetIOSQES_keeps, of s C drv] by simp
  then have u: "mIdentifyCmdCtrlr u = Some c" "has_data c bs u"
    using assms(2,3) by (auto elim!: only_kernE simp: has_data_def)
  have nib: "(0x0f :: u64) = mask 4" "(0x0f :: u8) = mask 4" by (simp_all add: mask_eq_exp_minus_1)
  have hi: "(ucast (drop_bit 4 (ucast (x :: u8) :: u64) AND 0x0f) :: u8) = drop_bit 4 x" for x
    unfolding nib by (rule bit_word_eqI) (auto simp: bit_simps dest: bit_imp_le_length)
  have lo: "(ucast ((ucast (x :: u8) :: u64) AND 0x0f) :: u8) = x AND 0x0f" for x
    unfolding nib by (rule bit_word_eqI) (auto simp: bit_simps dest: bit_imp_le_length)
  have "es = push_bit (unat k) 1 \<and> (bs ! 512 AND 0x0f) \<le> k \<and> k \<le> drop_bit 4 (bs ! 512)"
    using assms(1) g SQES_value [OF u(2) assms(4,5)]
    by (simp add: IOSQ_entry_size_def io_entry_size_def bnd_apply sq_apply hi lo u(1) Let_def
        Informative_GetIdentifyCmdCtrlr_def not_less split: if_splits)
  then show ?thesis by (auto simp: word_le_nat_alt)
qed

section \<open>Geometry\<close>

lemma SQ_Init_geometry:
  assumes "SQ_Init C drv qId es n cqId (q, w) = (Inr (), (q', w'))"
  shows "mQId q' = qId \<and> mEntrySize q' = es \<and> mNumEntries q' = n \<and> 2 \<le> n \<and> mCqId q' = cqId \<and>
    mContigBuf q' \<noteq> 0"
  using assms
  by (auto simp: SQ_Init_def sq_Inr_iff bnd_Inr_iff Queue_Init_def not_less split: prod.splits if_splits)

lemma CQ_Init_discontig_run:
  fixes w w' :: "('d, 'm) world_scheme"
  assumes "CQ_Init_discontig C drv qId es n mb irq vec (q, w) = (Inr (), (q', w'))"
  shows "\<exists>r b d. mb = Some r \<and> mDiscontigBuf q' = Some r \<and> mContigBuf q' = 0 \<and> mNumEntries q' = n \<and>
    mEntrySize q' = es \<and> ucast es * n \<le> mVirBufSize (wd_bufs w r) \<and>
    MemBuffer_Zero (wd_bufs w r) = (Inr (), b) \<and> w' = w\<lparr>wd_bufs := (wd_bufs w)(r := b)\<rparr>\<lparr>kern := d\<rparr>"
  using assms
  by (cases mb)
    (auto simp: CQ_Init_discontig_def CQ_CreateIOCQ_def check_q_buffer_def sq_Inr_iff bnd_Inr_iff
      Queue_Init_def ioctl1_Inr on_mb_Inr not_less Queue_GetQSize_def MemBuffer_GetBufSize_def
      onl_Inr onr_Inr simp del: onl_apply onr_apply split: if_splits)

lemma mb_bytes_drop:
  assumes "mb_bytes b = Some bs" and "mRealBaseAddr b = Some m" and "p + n \<le> length bs"
  shows "take n (drop p (drop (mVirOff b) m)) = take n (drop p bs) \<and> p + n \<le> length (drop (mVirOff b) m)"
  using assms
  by (auto simp: mb_bytes_def peek_def drop_take min_def add.commute split: if_splits)

section \<open>Properties\<close>

text \<open>A successful \<open>SQ::Init\<close> leaves a contiguous queue with the requested identifier, geometry and
  completion queue, at least two entries deep; whatever is asked of it later, neither form of
  \<open>Init\<close> can be repeated on it.\<close>

theorem SQ_Init_contract:
  assumes "SQ_Init C drv qId es n cqId (q, w) = (Inr (), (q', w'))" and "queue_inv q"
  shows "Queue_GetIsContig q' = Inr True \<and> mQId q' = qId \<and> mEntrySize q' = es \<and> mNumEntries q' = n \<and>
    2 \<le> n \<and> mCqId q' = cqId \<and>
    isl (fst (SQ_Init C drv qId2 es2 n2 cqId2 (q', v))) \<and>
    isl (fst (SQ_Init_discontig C drv qId2 es2 n2 r2 cqId2 (q', v)))"
proof -
  have i: "initialised q'" using SQ_Init_geometry [OF assms(1)] by (simp add: initialised_def)
  have s: "(same_queue q' \<circ> fst) (q', v)" by (simp add: same_queue_def)
  have "isl (fst (SQ_Init C drv qId2 es2 n2 cqId2 (q', v)))"
    by (rule sq_contig.refuses [OF i, unfolded throws_on_def, rule_format, OF s])
  moreover have "isl (fst (SQ_Init_discontig C drv qId2 es2 n2 r2 cqId2 (q', v)))"
    by (rule sq_discontig.refuses [OF i, unfolded throws_on_def, rule_format, OF s])
  ultimately show ?thesis
    using SQ_Init_geometry [OF assms(1)] sq_contig.contig_total [OF assms] by simp
qed

text \<open>\<open>PeekCE\<close> returns the sixteen bytes at sixteen times the index, whatever the queue's entry size;
  an index past the last entry is refused, and an entry outside of the queue's memory is undefined.\<close>

theorem PeekCE_value:
  assumes "Queue_GetQBuffer q = Inr b" and "q_bytes b s = Some bs"
  shows "CQ_PeekCE q i s =
    (if unat (mNumEntries q) \<le> unat i then Inl (FrmwkEx ''Unable to locate index within Q'')
     else if 16 * unat i + 16 \<le> length bs
     then Inr (ce_of_bytes (take 16 (drop (16 * unat i) bs)))
     else Inl (q_oob b), s)"
  using assms q_load_run [OF assms(2)] by (simp add: CQ_PeekCE_def bnd_apply peek_loop_run)

text \<open>\<open>PeekCEwithCID\<close> returns the first entry of the queue that has the command identifier, and refuses
  when there is none.\<close>

theorem PeekCEwithCID_finds:
  assumes "Queue_GetQBuffer q = Inr b" and "q_bytes b s = Some bs"
    and "16 * unat (mNumEntries q) \<le> length bs"
  shows "CQ_PeekCEwithCID q cid s =
    (case find (\<lambda>ce. ce_CID ce = cid) (q_ces (unat (mNumEntries q)) bs) of
       Some ce \<Rightarrow> Inr ce
     | None \<Rightarrow> Inl (FrmwkEx ''Unable to locate CID within CQ''), s)"
  using assms cid_loop_run [OF assms(2), of 0 "unat (mNumEntries q)" cid]
  by (simp add: CQ_PeekCEwithCID_def bnd_apply q_ces_def)

text \<open>Every entry of a discontiguous completion queue just created can be peeked and is all zero (phase
  bit included), provided its entries have at least the sixteen bytes of a completion and its size
  does not overflow 32 bits.\<close>

theorem CQ_Init_discontig_zeroed:
  assumes "CQ_Init_discontig C drv qId es n (Some r) irq vec (q, w) = (Inr (), (q', w'))"
    and "mb_inv (wd_bufs w r)" and "16 \<le> es" and "unat es * unat n < 2 ^ 32" and "unat i < unat n"
  shows "CQ_PeekCE q' i w' = (Inr \<lparr>ce_dw0 = 0, ce_dw1 = 0, ce_dw2 = 0, ce_dw3 = 0\<rparr>, w')"
proof -
  obtain b d where q': "mDiscontigBuf q' = Some r" "mContigBuf q' = 0" "mNumEntries q' = n"
    and sz: "ucast es * n \<le> mVirBufSize (wd_bufs w r)"
    and z: "MemBuffer_Zero (wd_bufs w r) = (Inr (), b)"
    and w': "w' = w\<lparr>wd_bufs := (wd_bufs w)(r := b)\<rparr>\<lparr>kern := d\<rparr>"
    using CQ_Init_discontig_run [OF assms(1)] by blast
  have "unat (ucast es * n :: u32) = unat es * unat n"
    using assms(4) by (simp add: unat_word_ariths)
  then have le: "unat es * unat n \<le> unat (mVirBufSize (wd_bufs w r))"
    using sz by (simp add: word_le_nat_alt)
  have "16 * (unat i + 1) \<le> unat es * unat n"
    using mult_le_mono [of 16 "unat es" "unat i + 1" "unat n"] assms(3,5) by (simp add: word_le_nat_alt)
  then have in_b: "16 * unat i + 16 \<le> unat (mVirBufSize (wd_bufs w r))" using le by simp
  then obtain m0 where "mRealBaseAddr (wd_bufs w r) = Some m0"
    using assms(2) by (auto simp: mb_inv_def split: option.splits)
  from MemBuffer_Zero_run [OF assms(2) this] z have b: "mb_inv b"
    "mb_bytes b = Some (replicate (unat (mVirBufSize (wd_bufs w r))) 0)"
    "mVirBufSize b = mVirBufSize (wd_bufs w r)" by auto
  obtain m where m: "mRealBaseAddr b = Some m"
    using b in_b by (auto simp: mb_inv_def split: option.splits)
  have "Queue_GetQBuffer q' = Inr (Shared r)"
    using q' by (simp add: Queue_GetQBuffer_def Queue_GetIsContig_def)
  moreover have "q_bytes (Shared r) w' = Some (drop (mVirOff b) m)" using m w' by simp
  ultimately show ?thesis
    using mb_bytes_drop [OF b(2) m, of "16 * unat i" 16] in_b assms(5) q'(3)
      q_load_run [of "Shared r" w' "drop (mVirOff b) m" 16 "16 * unat i"]
    by (simp add: CQ_PeekCE_def bnd_apply peek_loop_run ce_of_bytes_def drop_replicate
        numeral_eq_Suc)
qed

text \<open>C11: With a running clock \<open>DoReapInquiry\<close> always comes back: within \<open>ms\<close> milliseconds' worth of iterations
  it returns, and it returns true only with at least as many completions as asked for, and one.\<close>

theorem DoReapInquiry_terminates:
  assumes "ticking drv now" and "ms \<le> 86400000" and "1000 * unat ms < fuel"
  shows "\<exists>fin numCE isr t. CQ_DoReapInquiry drv fuel q ms numTil out s = (Inr (fin, numCE, isr), t) \<and>
    (fin \<longrightarrow> numCE \<noteq> 0 \<and> numTil \<le> numCE)"
proof -
  obtain tv d where tv: "get_time drv s = (Inr tv, s\<lparr>kern := d\<rparr>)" "timeval_us tv = now d"
    using ticking_clock [OF assms(1)] .
  have "max 0 (int (unat ms) * 1000 - (now (kern (s\<lparr>kern := d\<rparr>)) - timeval_us tv)) < int fuel"
  proof -
    have "int (unat ms) * 1000 < int fuel" using assms(3) by linarith
    then show ?thesis using tv(2) by simp
  qed
  from reap_wait_ends [OF assms(1) this, of q "\<lambda>n. n \<noteq> 0 \<and> n \<ge> numTil" out] assms(2) tv(1)
  show ?thesis by (auto simp: CQ_DoReapInquiry_def bnd_apply)
qed

text \<open>\<open>Reap\<close> asks the driver for at least one and at most all but one of the entries (exactly as many as
  wished when that is in range), hands it a buffer of that many entries, zeroed on request, and
  returns what the driver reports; the entries the driver wrote are at the start of the buffer.\<close>

theorem Reap_requests:
  fixes s t :: "('d, 'm) world_scheme"
  assumes "CQ_Reap C drv q r want z f s = (Inr (num, remain, isr), t)" and "2 \<le> mNumEntries q"
  shows "\<exists>n bytes rc reap. 0 < n \<and> n \<le> mNumEntries q - 1 \<and>
    (0 < want \<and> want \<le> mNumEntries q - 1 \<longrightarrow> n = want) \<and>
    length bytes = unat (ucast (mEntrySize q) * n :: u32) \<and> (z \<longrightarrow> bytes = replicate (length bytes) 0) \<and>
    io_reap drv (mQId q) n bytes (kern s) = (rc, reap, kern t) \<and> (f \<longrightarrow> 0 \<le> rc) \<and>
    num = rp_num_reaped reap \<and> remain = rp_num_remaining reap \<and> isr = rp_isr_count reap \<and>
    (length (rp_buffer reap) \<le> length bytes \<longrightarrow>
       mb_bytes (wd_bufs t r) = Some (rp_buffer reap @ drop (length (rp_buffer reap)) bytes))"
proof -
  have "0 < want \<and> want \<le> mNumEntries q - 1 \<longrightarrow> ce_clamp q want = want"
    by (auto simp: ce_clamp_def)
  then show ?thesis using Reap_run [OF assms(1)] ce_clamp_bounds [OF assms(2), of want] by blast
qed

text \<open>A successful \<open>Send\<close> has given the driver the command's bytes, data buffer, PRP and meta data settings
  as they were, and afterwards the command carries the identifier the driver chose, its opcode and
  all its other DWORDs unchanged.\<close>

theorem SQ_Send_contract:
  assumes "SQ_Send drv M q (c, s) = (Inr uid, (c', s'))" and "cmd_ok c" and "0 < cmd_size c"
  shows "(\<exists>d rc. io_send_64b drv (send_request M q c s) d = (rc, uid, kern s') \<and> 0 \<le> rc) \<and>
    fst (Cmd_GetCID c') = Inr uid \<and> fst (Cmd_GetOpcode c') = fst (Cmd_GetOpcode c) \<and>
    (\<forall>i. 0 < i \<and> i < cmd_size c \<longrightarrow> cmd_dw c' i = cmd_dw c i)"
proof -
  obtain d rc where k: "io_send_64b drv (send_request M q c s) d = (rc, uid, kern s')" "0 \<le> rc"
    and id: "Cmd_SetCID uid c = (Inr (), c')"
    using SQ_Send_run [OF assms(1)] by blast
  then show ?thesis using SetCID_effect [OF id assms(2,3)] by blast
qed

text \<open>A successful \<open>IOSQ::Init\<close> has a priority of two bits, and entries whose size is the power of two of
  CC.IOSQES, which lies within the limits of the controller's Identify data.\<close>

theorem IOSQ_Init_contract:
  fixes w w' :: "('d, 'm) world_scheme"
  assumes "IOSQ_Init C drv qId n cqId prio (q, w) = (Inr (), (q', w'))"
    and "mIdentifyCmdCtrlr w = Some c" and "has_data c bs w"
    and "fst (Identify_GetCNS c) = Inr CNS_Controller" and "513 < length bs"
  shows "prio \<le> 3 \<and> mQId q' = qId \<and> mCqId q' = cqId \<and> mNumEntries q' = n \<and> 2 \<le> n \<and>
    (\<exists>k. mEntrySize q' = push_bit k 1 \<and> unat (bs ! 512 AND 0x0f) \<le> k \<and>
         k \<le> unat (drop_bit 4 (bs ! 512)))"
proof -
  obtain es p and v v' :: "('d, 'm) world_scheme" where
    pr: "prio \<in> {0, 1, 2, 3}" and e: "IOSQ_entry_size C drv w = (Inr es, v)"
    and i: "SQ_Init C drv qId es n cqId (p, v') = (Inr (), (q', w'))"
    using assms(1)
    by (auto simp: IOSQ_Init_def set_priority_def sq_Inr_iff bnd_Inr_iff onl_Inr onr_Inr
        simp del: onl_apply onr_apply split: if_splits)
  have "prio \<le> 3" using pr by auto
  then show ?thesis
    using SQ_Init_geometry [OF i] IOSQ_entry_size_run [OF e assms(2-5)] by auto
qed

lemma GetBit_same: "Cmd_GetBit w off c = (r, c') \<Longrightarrow> c' = c"
  by (auto simp: Cmd_GetBit_def Cmd_GetBits_def Cmd_GetDword_def bnd_apply on_buf_def
      zoom_apply mb_load_def Let_def split: if_splits option.splits prod.splits sum.splits)

text \<open>The admin queue refuses to send a Create IOCQ command that enables interrupts while the driver has
  them disabled: the command never reaches the driver and is left as it was.\<close>

theorem ASQ_Send_refuses:
  assumes "mQId q = 0" and "fst (Cmd_GetOpcode c) = Inr 0x05" and "fst (Cmd_GetBit 11 1 c) = Inr True"
    and "CtrlrConfig_IrqsEnabled drv s = (Inr False, t)"
  shows "ASQ_Send drv M q (c, s) =
    (Inl (FrmwkEx ''Rethink test case, see gCtrlrConfig->SetIrqScheme()''), (c, t))"
proof -
  have "Cmd_GetOpcode c = (Inr 0x05, c)" "Cmd_GetBit 11 1 c = (Inr True, c)"
    using assms(2,3) GetOpcode_same [of c] GetBit_same [of 11 1 c] by (metis prod.collapse)+
  then show ?thesis using assms(1,4) by (simp add: ASQ_Send_def bnd_apply)
qed

text \<open>A failed \<open>mmap\<close> goes unnoticed: it returns \<open>MAP_FAILED\<close>, not \<open>NULL\<close>, so \<open>SQ::Init\<close> returns normally with
  that address, and the first look at the queue is undefined.\<close>

theorem SQ_Init_MAP_FAILED:
  fixes w w' :: "('d, 'm) world_scheme"
  assumes "SQ_Init C drv qId es n cqId (q, w) = (Inr (), (q', w'))" and "queue_inv q"
    and "\<And>len wr off d. \<exists>d'. io_mmap drv len wr off d = (- 1, [], d')"
  shows "mContigBuf q' = - 1 \<and> fst (SQ_PeekSE q' 0 w') = Inl (UB ''load outside of the mapping'')"
proof -
  obtain a p and v :: "('d, 'm) world_scheme" where
    m: "KernelAPI_mmap C drv (unat (Queue_GetQSize p)) (mQId p) MMR_SQ v = (Inr a, w')"
    and q': "q' = p\<lparr>mContigBuf := a\<rparr>"
    using assms(1)
    by (auto simp: SQ_Init_def sq_Inr_iff bnd_Inr_iff onl_Inr onr_Inr simp del: onl_apply onr_apply
        split: if_splits)
  obtain d' where "io_mmap drv (unat (Queue_GetQSize p)) False (mmap_offset C (mQId p) MMR_SQ) (kern v) =
      (- 1, [], d')" using assms(3) by blast
  then have a: "a = - 1" "mmaps w' a = []" using m by (auto simp: KernelAPI_mmap_def)
  have "Queue_GetQBuffer q' = Inr (Mapped (- 1))"
    using sq_contig.contig_total [OF assms(1,2)] SQ_Init_geometry [OF assms(1)]
    by (simp add: Queue_GetQBuffer_def q' a)
  moreover have "0 < unat (mNumEntries q')"
    using SQ_Init_geometry [OF assms(1)] by (auto simp: word_le_nat_alt)
  ultimately show ?thesis
    using a by (simp add: SQ_PeekSE_def bnd_apply peek_loop_run q' peek_def)
qed

section \<open>Examples\<close>

text \<open>A driver that accepts every queue, maps at \<open>0x7000\<close>, and reads all registers as zero.\<close>

definition q_dnvme :: "unit dnvme" where
  "q_dnvme = null_dnvme\<lparr>io_read := (\<lambda>io buf d. (0, map (\<lambda>_. 0) buf, d)),
     io_create_admn_q := (\<lambda>n t d. (0, d)), io_prep_sq := (\<lambda>q d. (0, d)), io_prep_cq := (\<lambda>q d. (0, d)),
     io_mmap := (\<lambda>len w off d. (0x7000, replicate len 0, d)), io_get_irq := (\<lambda>d. (0, (INT_NONE, 0), d)),
     io_send_64b := (\<lambda>c d. (0, 7, d)),
     io_reap := (\<lambda>q n buf d.
       (0, \<lparr>rp_num_reaped = 1, rp_num_remaining = 0, rp_isr_count = 0, rp_buffer = replicate 16 1\<rparr>, d))\<rparr>"

definition ex_sq :: sub_queue where
  "ex_sq = \<lparr>q_type = OBJ_ASQ, mQId = 0, mEntrySize = 0, mNumEntries = 0, mContigBuf = 0,
     mDiscontigBuf = None, mCqId = 0\<rparr>"

definition ex_cq :: comp_queue where
  "ex_cq = \<lparr>q_type = OBJ_IOCQ, mQId = 1, mEntrySize = 16, mNumEntries = 4, mContigBuf = 0,
     mDiscontigBuf = Some 0, mIrqEnabled = False, mIrqVec = 0\<rparr>"

lemma ex_SQ_Init: "fst (SQ_Init ex_libc q_dnvme 0 64 4 0 (ex_sq, ex_world [])) = Inr ()"
  by code_simp

lemma run_pair: "fst r = Inr x \<Longrightarrow> r = (Inr x, (fst (snd r), snd (snd r)))"
  by (metis prod.collapse)

lemma run_state: "fst r = Inr x \<Longrightarrow> r = (Inr x, snd r)"
  by (metis prod.collapse)

lemma ex_sq_inv: "queue_inv ex_sq"
  by (simp add: queue_inv_def ex_sq_def)

lemma SQ_Init_contract_witness:
  "let q' = fst (snd (SQ_Init ex_libc q_dnvme 0 64 4 0 (ex_sq, ex_world []))) in
   Queue_GetIsContig q' = Inr True \<and> mQId q' = 0 \<and> mEntrySize q' = 64 \<and> mNumEntries q' = 4 \<and>
    (2 :: u32) \<le> 4 \<and> mCqId q' = 0 \<and>
    isl (fst (SQ_Init ex_libc q_dnvme 1 64 8 1 (q', ex_world []))) \<and>
    isl (fst (SQ_Init_discontig ex_libc q_dnvme 1 64 8 None 1 (q', ex_world [])))"
  unfolding Let_def by (rule SQ_Init_contract [OF run_pair [OF ex_SQ_Init] ex_sq_inv])

definition map_failed_dnvme :: "unit dnvme" where
  "map_failed_dnvme = q_dnvme\<lparr>io_mmap := (\<lambda>len w off d. (- 1, [], d))\<rparr>"

lemma ex_map_failed: "fst (SQ_Init ex_libc map_failed_dnvme 0 64 4 0 (ex_sq, ex_world [])) = Inr ()"
  by code_simp

lemma SQ_Init_MAP_FAILED_witness:
  "let r = snd (SQ_Init ex_libc map_failed_dnvme 0 64 4 0 (ex_sq, ex_world [])) in
   mContigBuf (fst r) = - 1 \<and> fst (SQ_PeekSE (fst r) 0 (snd r)) = Inl (UB ''load outside of the mapping'')"
  unfolding Let_def
  by (rule SQ_Init_MAP_FAILED [OF run_pair [OF ex_map_failed] ex_sq_inv]) (simp add: map_failed_dnvme_def)

lemma ex_cq_buffer: "Queue_GetQBuffer ex_cq = Inr (Shared 0)"
  by (simp add: ex_cq_def Queue_GetQBuffer_def Queue_GetIsContig_def)

lemma ex_cq_bytes: "q_bytes (Shared 0) (ex_world bs) = Some bs"
  by (simp add: ex_world_def)

lemma PeekCE_value_witness:
  "CQ_PeekCE ex_cq 2 (ex_world (replicate 64 1)) =
    (if unat (mNumEntries ex_cq) \<le> unat (2 :: u16) then Inl (FrmwkEx ''Unable to locate index within Q'')
     else if 16 * unat (2 :: u16) + 16 \<le> length (replicate 64 (1 :: u8))
     then Inr (ce_of_bytes (take 16 (drop (16 * unat (2 :: u16)) (replicate 64 1))))
     else Inl (q_oob (Shared 0)), ex_world (replicate 64 1))"
  by (rule PeekCE_value [OF ex_cq_buffer ex_cq_bytes])

lemma PeekCEwithCID_finds_witness:
  "CQ_PeekCEwithCID ex_cq 0x0101 (ex_world (replicate 64 1)) =
    (case find (\<lambda>ce. ce_CID ce = 0x0101) (q_ces (unat (mNumEntries ex_cq)) (replicate 64 1)) of
       Some ce \<Rightarrow> Inr ce
     | None \<Rightarrow> Inl (FrmwkEx ''Unable to locate CID within CQ''), ex_world (replicate 64 1))"
  by (rule PeekCEwithCID_finds [OF ex_cq_buffer ex_cq_bytes]) (simp add: ex_cq_def)

definition ex_dq_world :: "unit world" where
  "ex_dq_world = (ex_world [])\<lparr>wd_bufs := (\<lambda>_. \<lparr>mAllocByNewOperator = False,
     mRealBaseAddr = Some (replicate 32 1), mVirOff = 0, mVirBufSize = 32, mAlignment = 4096\<rparr>)\<rparr>"

lemma ex_dq_init: "fst (CQ_Init_discontig ex_libc q_dnvme 1 16 2 (Some 0) False 0
    (ex_cq\<lparr>mDiscontigBuf := None\<rparr>, ex_dq_world)) = Inr ()"
  by code_simp

lemma CQ_Init_discontig_zeroed_witness:
  "let r = snd (CQ_Init_discontig ex_libc q_dnvme 1 16 2 (Some 0) False 0
      (ex_cq\<lparr>mDiscontigBuf := None\<rparr>, ex_dq_world)) in
   CQ_PeekCE (fst r) 1 (snd r) = (Inr \<lparr>ce_dw0 = 0, ce_dw1 = 0, ce_dw2 = 0, ce_dw3 = 0\<rparr>, snd r)"
  unfolding Let_def
  by (rule CQ_Init_discontig_zeroed [OF run_pair [OF ex_dq_init]]) (simp_all add: ex_dq_world_def mb_inv_def)

text \<open>A driver whose state is a clock in microseconds, and whose queues stay empty.\<close>

definition clock_dnvme :: "int dnvme" where
  "clock_dnvme = null_dnvme\<lparr>io_clock := (\<lambda>d. (0, (0, d + 1), d + 1)),
     io_reap_inquiry := (\<lambda>q d. (0, \<lparr>ri_num_remaining = 0, ri_isr_count = 0\<rparr>, d))\<rparr>"

definition clock_world :: "int world" where
  "clock_world = \<lparr>kern = 0, mmaps = (\<lambda>_. []), rg_specRev = SPECREV_12, rg_pciCap = [],
     rg_pci = pci_table, cf_curState = ST_ENABLE, cf_firstTime = False, cf_deltaCheck = False,
     mr_allocSize = 0, mr_reserved = [], mr_released = [], mObjGrpLife = [], ob_heap = 0,
     wd_bufs = (\<lambda>_. MemBuffer_new), wd_next = 1,
     mIdentifyCmdCtrlr = None, mIdentifyCmdNamspc = [], mGetFeaturesNumOfQ = 0\<rparr>"

lemma DoReapInquiry_terminates_witness:
  "\<exists>fin numCE isr t. CQ_DoReapInquiry clock_dnvme 5001 ex_cq 5 2 (0, 0) clock_world = (Inr (fin, numCE, isr), t) \<and>
    (fin \<longrightarrow> numCE \<noteq> 0 \<and> 2 \<le> numCE)"
  by (rule DoReapInquiry_terminates [where now = "\<lambda>d. d"])
    (simp_all add: ticking_def clock_dnvme_def timeval_us_def)

lemma ex_reap: "fst (CQ_Reap ex_libc q_dnvme ex_cq 0 9 True True (ex_world [])) = Inr (1, 0, 0)"
  by code_simp

lemma Reap_requests_witness:
  "let t = snd (CQ_Reap ex_libc q_dnvme ex_cq 0 9 True True (ex_world [])) in
   \<exists>n bytes rc reap. 0 < n \<and> n \<le> mNumEntries ex_cq - 1 \<and>
    ((0 :: u32) < 9 \<and> 9 \<le> mNumEntries ex_cq - 1 \<longrightarrow> n = 9) \<and>
    length bytes = unat (ucast (mEntrySize ex_cq) * n :: u32) \<and>
    (True \<longrightarrow> bytes = replicate (length bytes) 0) \<and>
    io_reap q_dnvme (mQId ex_cq) n bytes (kern (ex_world [])) = (rc, reap, kern t) \<and> (True \<longrightarrow> 0 \<le> rc) \<and>
    1 = rp_num_reaped reap \<and> 0 = rp_num_remaining reap \<and> 0 = rp_isr_count reap \<and>
    (length (rp_buffer reap) \<le> length bytes \<longrightarrow>
       mb_bytes (wd_bufs t 0) = Some (rp_buffer reap @ drop (length (rp_buffer reap)) bytes))"
  unfolding Let_def by (rule Reap_requests [OF run_state [OF ex_reap]]) (simp add: ex_cq_def)

definition ex_masks :: send_masks where
  "ex_masks = \<lparr>MASK_PRP1_PAGE = 1, MASK_PRP1_LIST = 2, MASK_PRP2_PAGE = 4, MASK_PRP2_LIST = 8, MASK_MPTR = 16\<rparr>"

lemma ex_send: "fst (SQ_Send q_dnvme ex_masks ex_sq (ex_cmd, ex_world [])) = Inr 7"
  by code_simp

lemma SQ_Send_contract_witness:
  "let r = snd (SQ_Send q_dnvme ex_masks ex_sq (ex_cmd, ex_world [])) in
   (\<exists>d rc. io_send_64b q_dnvme (send_request ex_masks ex_sq ex_cmd (ex_world [])) d = (rc, 7, kern (snd r)) \<and>
      0 \<le> rc) \<and>
    fst (Cmd_GetCID (fst r)) = Inr 7 \<and> fst (Cmd_GetOpcode (fst r)) = fst (Cmd_GetOpcode ex_cmd) \<and>
    (\<forall>i. 0 < i \<and> i < cmd_size ex_cmd \<longrightarrow> cmd_dw (fst r) i = cmd_dw ex_cmd i)"
  unfolding Let_def
  by (rule SQ_Send_contract [OF run_pair [OF ex_send]]) (simp_all add: ex_cmd_ok)

definition ex_create_iocq :: cmd where
  "ex_create_iocq = ex_cmd\<lparr>mCmdBuf := \<lparr>mAllocByNewOperator = False,
     mRealBaseAddr = Some (5 # replicate 43 0 @ [2] @ replicate 19 0), mVirOff = 0,
     mVirBufSize = 64, mAlignment = 128\<rparr>\<rparr>"

lemma ASQ_Send_refuses_witness:
  "ASQ_Send q_dnvme ex_masks ex_sq (ex_create_iocq, ex_world []) =
    (Inl (FrmwkEx ''Rethink test case, see gCtrlrConfig->SetIrqScheme()''),
     (ex_create_iocq, snd (CtrlrConfig_IrqsEnabled q_dnvme (ex_world []))))"
proof (rule ASQ_Send_refuses)
  show "mQId ex_sq = 0" by (simp add: ex_sq_def)
  show "fst (Cmd_GetOpcode ex_create_iocq) = Inr 5" by code_simp
  show "fst (Cmd_GetBit 11 1 ex_create_iocq) = Inr True" by code_simp
  have "fst (CtrlrConfig_IrqsEnabled q_dnvme (ex_world [])) = Inr False" by code_simp
  then show "CtrlrConfig_IrqsEnabled q_dnvme (ex_world []) =
      (Inr False, snd (CtrlrConfig_IrqsEnabled q_dnvme (ex_world [])))" by (rule run_state)
qed

text \<open>CC.IOSQES reads 6, and the controller supports exactly that.\<close>

definition iosq_dnvme :: "unit dnvme" where
  "iosq_dnvme = q_dnvme\<lparr>io_read := (\<lambda>io buf d.
     (0, if io_offset io = 0x14 then map (\<lambda>i. if i = 2 then 6 else 0) [0..<length buf] else map (\<lambda>_. 0) buf, d))\<rparr>"

definition ex_sqes :: "u8 list" where
  "ex_sqes = replicate 512 0 @ [0x66] @ replicate 7 0"

definition iosq_world :: "unit world" where
  "iosq_world = (ex_world ex_sqes)\<lparr>
     mIdentifyCmdCtrlr := Some ((ex_id_cmd CNS_Controller)\<lparr>mBufSize := 520\<rparr>)\<rparr>"

definition ex_iosq :: io_sub_queue where
  "ex_iosq = sub_queue.extend ex_sq \<lparr>mPriority = 0\<rparr>"

lemma ex_iosq_init: "fst (IOSQ_Init ex_libc iosq_dnvme 1 4 1 2 (ex_iosq, iosq_world)) = Inr ()"
  by code_simp

lemma IOSQ_Init_contract_witness:
  "let q' = fst (snd (IOSQ_Init ex_libc iosq_dnvme 1 4 1 2 (ex_iosq, iosq_world))) in
   (2 :: u8) \<le> 3 \<and> mQId q' = 1 \<and> mCqId q' = 1 \<and> mNumEntries q' = 4 \<and> (2 :: u32) \<le> 4 \<and>
    (\<exists>k. mEntrySize q' = push_bit k 1 \<and> unat (ex_sqes ! 512 AND 0x0f) \<le> k \<and>
         k \<le> unat (drop_bit 4 (ex_sqes ! 512)))"
  unfolding Let_def
proof (rule IOSQ_Init_contract [OF run_pair [OF ex_iosq_init]])
  let ?c = "(ex_id_cmd CNS_Controller)\<lparr>mBufSize := 520\<rparr>"
  show "mIdentifyCmdCtrlr iosq_world = Some ?c" by (simp add: iosq_world_def)
  show "has_data ?c ex_sqes iosq_world"
    by (simp add: has_data_def iosq_world_def ex_world_def ex_id_cmd_def ex_sqes_def mb_bytes_def peek_def)
  show "fst (Identify_GetCNS ?c) = Inr CNS_Controller" by code_simp
  show "513 < length ex_sqes" by (simp add: ex_sqes_def)
qed

end
