(* ===== verification/Test_Run.thy ===== *)
theory Test_Run
  imports Test_Groups Queues
begin

text \<open>
  Running tests: \<open>Test::Run\<close> and \<open>Test::Runnable\<close> (test.cpp), \<open>Group::RunTest\<close> (group.cpp), the result
  counters (testResults.cpp), and \<open>ExecuteTests\<close> (tnvme.cpp). What a test case or a group overrides (its
  core test, whether it is runnable, its clone, saving and restoring the device) is a parameter; so is
  the driver's request that dumps its metrics. Log messages and test descriptions are not modelled.
\<close>

section \<open>Exceptions a \<open>catch (...)\<close> handles\<close>

definition caught :: "ex \<Rightarrow> bool" where
  "caught e = (case e of FrmwkEx _ \<Rightarrow> True | FrmwkExPtr _ \<Rightarrow> True | _ \<Rightarrow> False)"

definition try_catch :: "('s, 'a) prog \<Rightarrow> 'a \<Rightarrow> ('s, 'a) prog" where
  "try_catch m x = (\<lambda>s. case m s of
     (Inr y, s') \<Rightarrow> (Inr y, s')
   | (Inl e, s') \<Rightarrow> if caught e then (Inr x, s') else (Inl e, s'))"

section \<open>TestResults\<close>

datatype TestResult = TR_SUCCESS | TR_FAIL | TR_SKIPPING | TR_INFORMATIVE | TR_NOTFOUND | TR_FENCE

fun tr_num :: "TestResult \<Rightarrow> nat" where
  "tr_num TR_SUCCESS = 0"
| "tr_num TR_FAIL = 1"
| "tr_num TR_SKIPPING = 2"
| "tr_num TR_INFORMATIVE = 3"
| "tr_num TR_NOTFOUND = 4"
| "tr_num TR_FENCE = 5"

type_synonym results = "int list"

definition TestResults_new :: results where
  "TestResults_new = replicate (tr_num TR_FENCE) 0"

definition addResult :: "TestResult \<Rightarrow> int \<Rightarrow> results \<Rightarrow> ex + results" where
  "addResult testResult amount rs =
     (if tr_num testResult < length rs
      then Inr (rs[tr_num testResult := rs ! tr_num testResult + amount])
      else Inl (UB ''store outside of results''))"

definition allTestsPass :: "results \<Rightarrow> bool" where
  "allTestsPass rs \<longleftrightarrow> rs ! tr_num TR_FAIL = 0"

section \<open>The base class of the tests\<close>

record test_obj =
  mSpecRev :: SpecRev
  t_grpName :: string
  mTestName :: string
  mResult :: TestResult

datatype RunType = RUN_TRUE | RUN_FALSE | RUN_FAIL

text \<open>The virtual functions the test cases and the groups override.\<close>

record ('t, 'w) test_class =
  RunnableCoreTest :: "bool \<Rightarrow> ('t \<times> 'w, RunType) prog"
  RunCoreTest :: "('t \<times> 'w, unit) prog"
  Test_Clone :: "'t \<Rightarrow> 't"

record 'w group_class =
  SaveState :: "('w, bool) prog"
  RestoreState :: "('w, bool) prog"

definition Test_Test :: "string \<Rightarrow> string \<Rightarrow> SpecRev \<Rightarrow> test_obj" where
  "Test_Test grpName testName specRev =
     \<lparr>mSpecRev = specRev, t_grpName = grpName, mTestName = testName, mResult = TR_SUCCESS\<rparr>"

text \<open>The bits of the status registers that mean an error.\<close>

record ErrorRegs =
  er_sts :: u16
  er_pxds :: u16
  er_aeruces :: u16
  er_csts :: u32

record file_system =
  mUseDirInfo :: bool
  mDumpDirInfo :: string
  mDumpDirPending :: string

text \<open>What the framework takes from the command line, the file system and the driver.\<close>

record 'd test_env =
  te_errRegs :: ErrorRegs
  te_restore :: bool
  te_fs :: file_system
  te_dump_metrics :: "string \<Rightarrow> 'd \<Rightarrow> int \<times> 'd"

definition PrepDumpFile :: "file_system \<Rightarrow> string \<Rightarrow> string \<Rightarrow> string \<Rightarrow> string \<Rightarrow> ex + string" where
  "PrepDumpFile fs grpName className objName qualifier =
     (if grpName = [] \<or> className = [] \<or> objName = [] then Inl (FrmwkEx ''Mandatory params are empty'')
      else Inr ((if mUseDirInfo fs then mDumpDirInfo fs else mDumpDirPending fs) @ grpName @ ''.'' @
        className @ ''.'' @ objName @ (if qualifier \<noteq> [] then ''.'' @ qualifier else [])))"

definition DumpKernelMetrics :: "'d test_env \<Rightarrow> string \<Rightarrow> (('d, 'm) proc_scheme, unit) prog" where
  "DumpKernelMetrics te filename =
     bnd (ioctl1 (te_dump_metrics te filename))
       (\<lambda>rc. throw_if (rc < 0) (FrmwkEx ''Unable to dump dnvme metrics, err code = %d''))"

fun reset_caps :: "'d dnvme \<Rightarrow> PciCapabilities list \<Rightarrow> (('d, 'm) registers_scheme, unit) prog" where
  "reset_caps drv [] = ret ()"
| "reset_caps drv (c # cs) =
     bnd (if c = PCICAP_PXCAP then Registers_Write_pci drv PCISPC_PXDS 0xffff
          else if c = PCICAP_AERCAP then Registers_Write_pci drv PCISPC_AERUCES 0xffffffff
          else ret True)
       (\<lambda>_. reset_caps drv cs)"

definition ResetStatusRegErrors :: "'d dnvme \<Rightarrow> (('d, 'm) registers_scheme, unit) prog" where
  "ResetStatusRegErrors drv =
     bnd (gets rg_pciCap) (\<lambda>cap.
     bnd (Registers_Write_pci drv PCISPC_STS 0xffff) (\<lambda>_. reset_caps drv cap))"

text \<open>\<open>Read(reg, value)\<close>, then \<open>expectedValue = value & ~mask\<close>, and the comparison of the two.\<close>

definition clear_of :: "u64 \<Rightarrow> ('s, bool \<times> u64) prog \<Rightarrow> ('s, bool \<times> u64) prog" where
  "clear_of errs rd = bnd rd (\<lambda>(ok, v). ret (ok \<and> v = v AND NOT errs, v))"

fun check_caps ::
  "'d dnvme \<Rightarrow> ErrorRegs \<Rightarrow> PciCapabilities list \<Rightarrow> u64 \<Rightarrow> (('d, 'm) registers_scheme, bool \<times> u64) prog" where
  "check_caps drv er [] value = ret (True, value)"
| "check_caps drv er (c # cs) value =
     bnd (if c = PCICAP_PXCAP then clear_of (ucast (er_pxds er)) (Registers_Read_pci drv PCISPC_PXDS value)
          else if c = PCICAP_AERCAP then clear_of (ucast (er_aeruces er)) (Registers_Read_pci drv PCISPC_AERUCES value)
          else ret (True, value))
       (\<lambda>(ok, v). if ok then check_caps drv er cs v else ret (False, v))"

definition GetStatusRegErrors :: "'d dnvme \<Rightarrow> ErrorRegs \<Rightarrow> (('d, 'm) registers_scheme, bool) prog" where
  "GetStatusRegErrors drv er =
     bnd (gets rg_pciCap) (\<lambda>cap.
     bnd (clear_of (ucast (er_sts er)) (Registers_Read_pci drv PCISPC_STS 0)) (\<lambda>(ok, v).
       if \<not> ok then ret False
       else bnd (check_caps drv er cap v) (\<lambda>(ok, v).
         if \<not> ok then ret False
         else bnd (clear_of (ucast (er_csts er)) (Registers_Read_ctl drv CTLSPC_CSTS v)) (\<lambda>(ok, v). ret ok))))"

text \<open>
  The mask of the loop is the \<open>int\<close> \<open>1 << i\<close>, widened: for bit 31 it is negative and all higher bits are
  set, from bit 32 on the shift is undefined.
\<close>

fun report_loop :: "nat \<Rightarrow> nat \<Rightarrow> u64 \<Rightarrow> u64 \<Rightarrow> ex + int" where
  "report_loop 0 i val expectedVal = Inr 2147483647"
| "report_loop (Suc n) i val expectedVal =
     (if i \<ge> 32 then Inl (UB ''shift of an int by its width or more'')
      else let bitMask = (if i = 31 then 0xffffffff80000000 else push_bit i 1) in
        if val AND bitMask \<noteq> expectedVal AND bitMask then Inr (int i)
        else report_loop n (i + 1) val expectedVal)"

definition ReportOffendingBitPos :: "u64 \<Rightarrow> u64 \<Rightarrow> ex + int" where
  "ReportOffendingBitPos val expectedVal = report_loop 64 0 val expectedVal"

definition Test_Run ::
  "'d dnvme \<Rightarrow> 'd test_env \<Rightarrow> ('x test_obj_scheme, ('d, 'm) world_scheme) test_class
     \<Rightarrow> ('x test_obj_scheme \<times> ('d, 'm) world_scheme, TestResult) prog" where
  "Test_Run drv te cls =
     try_catch
       (sq (onr (ResetStatusRegErrors drv))
       (bnd (gets fst) (\<lambda>t.
        bnd (lift_result (PrepDumpFile (te_fs te) (t_grpName t) (mTestName t) ''kmetrics'' ''preTestRun'')) (\<lambda>f.
        sq (onr (DumpKernelMetrics te f))
       (sq (RunCoreTest cls)
       (bnd (onr (GetStatusRegErrors drv (te_errRegs te))) (\<lambda>ok.
        bnd (gets fst) (\<lambda>t. ret (if ok then mResult t else TR_FAIL))))))))) TR_FAIL"

definition Test_Runnable ::
  "('t, 'w) test_class \<Rightarrow> bool \<Rightarrow> ('t \<times> 'w, RunType) prog" where
  "Test_Runnable cls preserve = try_catch (RunnableCoreTest cls preserve) RUN_FAIL"

section \<open>Running one test of a group\<close>

text \<open>
  What \<open>RunTest\<close> changes: the test objects of the group, its reference parameters, and the shared state.
\<close>

record ('t, 'w) runner =
  rn_grp :: "'t group"
  rn_idx :: int
  rn_numSkipped :: int
  rn_failed :: "TestRef list"
  rn_skipped :: "TestRef list"
  rn_world :: 'w

definition on_world :: "('w, 'a) prog \<Rightarrow> (('t, 'w) runner, 'a) prog" where
  "on_world m = zoom rn_world (\<lambda>w s. s\<lparr>rn_world := w\<rparr>) m"

definition put_test :: "TestRef \<Rightarrow> 't \<Rightarrow> 't group \<Rightarrow> 't group" where
  "put_test tr t g =
     (let m = mTests g; x = xLev tr; y = yLev tr; z = zLev tr in
      g\<lparr>mTests := m[x := (m ! x)[y := (m ! x ! y)[z := t]]]\<rparr>)"

definition get_test :: "TestRef \<Rightarrow> 't group \<Rightarrow> 't" where
  "get_test tr g = mTests g ! xLev tr ! yLev tr ! zLev tr"

definition on_test :: "TestRef \<Rightarrow> ('t \<times> 'w, 'a) prog \<Rightarrow> (('t, 'w) runner, 'a) prog" where
  "on_test tr m =
     zoom (\<lambda>s. (get_test tr (rn_grp s), rn_world s))
       (\<lambda>(t, w) s. s\<lparr>rn_grp := put_test tr t (rn_grp s), rn_world := w\<rparr>) m"

definition advance :: "TestRef list \<Rightarrow> bool \<Rightarrow> (('t, 'w) runner, int) prog" where
  "advance deps failed = (\<lambda>s.
     case AdvanceDependencies deps (rn_idx s) failed (rn_skipped s) of
       (n, i, sk) \<Rightarrow> (Inr n, s\<lparr>rn_idx := i, rn_skipped := sk\<rparr>))"

definition note_skipped :: "TestRef list \<Rightarrow> TestRef \<Rightarrow> (('t, 'w) runner, TestResult) prog" where
  "note_skipped deps tr =
     sq (modify (\<lambda>s. s\<lparr>rn_skipped := rn_skipped s @ [tr]\<rparr>))
     (bnd (advance deps False) (\<lambda>n.
      sq (modify (\<lambda>s. s\<lparr>rn_numSkipped := n + 1\<rparr>)) (ret TR_SKIPPING)))"

definition note_failed :: "TestRef list \<Rightarrow> TestRef \<Rightarrow> (('t, 'w) runner, TestResult) prog" where
  "note_failed deps tr =
     sq (modify (\<lambda>s. s\<lparr>rn_failed := rn_failed s @ [tr]\<rparr>))
     (bnd (advance deps True) (\<lambda>n.
      sq (modify (\<lambda>s. s\<lparr>rn_numSkipped := n\<rparr>)) (ret TR_FAIL)))"

definition next_test :: "TestRef list \<Rightarrow> (('t, 'w) runner, unit) prog" where
  "next_test deps = modify (\<lambda>s.
     s\<lparr>rn_idx := if rn_idx s + 1 \<ge> int (length deps) then - 1 else rn_idx s + 1\<rparr>)"

text \<open>From the skip list to the end of the \<open>switch\<close>.\<close>

definition run_selected ::
  "'d dnvme \<Rightarrow> 'd test_env \<Rightarrow> ('x test_obj_scheme, ('d, 'm) world_scheme) test_class \<Rightarrow> TestRef list
     \<Rightarrow> TestRef list \<Rightarrow> bool \<Rightarrow> TestRef
     \<Rightarrow> (('x test_obj_scheme, ('d, 'm) world_scheme) runner, TestResult) prog" where
  "run_selected drv te cls deps skipTest preserve tr =
     (if SkippingTest tr skipTest then note_skipped deps tr
      else bnd (on_test tr (Test_Runnable cls preserve)) (\<lambda>r.
        case r of
          RUN_TRUE \<Rightarrow>
            bnd (on_test tr (Test_Run drv te cls)) (\<lambda>result.
              if result = TR_FAIL then note_failed deps tr
              else sq (next_test deps) (ret result))
        | RUN_FALSE \<Rightarrow> note_skipped deps tr
        | RUN_FAIL \<Rightarrow> note_failed deps tr))"

text \<open>An index below -1 would read before the first element.\<close>

definition RunTest ::
  "'d dnvme \<Rightarrow> 'd test_env \<Rightarrow> ('x test_obj_scheme, ('d, 'm) world_scheme) test_class
     \<Rightarrow> ('d, 'm) world_scheme group_class \<Rightarrow> TestRef list \<Rightarrow> TestRef list \<Rightarrow> bool
     \<Rightarrow> (('x test_obj_scheme, ('d, 'm) world_scheme) runner, TestResult) prog" where
  "RunTest drv te cls gcls deps skipTest preserve = (\<lambda>s0.
     let s = s0\<lparr>rn_numSkipped := 0\<rparr>; i = rn_idx s in
     if i \<ge> int (length deps) \<or> i = - 1 then (Inr TR_NOTFOUND, s\<lparr>rn_idx := - 1\<rparr>)
     else if i < 0 then (Inl (UB ''negative index into dependencies''), s)
     else let tr = deps ! nat i in
       if \<not> TestExists (rn_grp s) tr then (Inr TR_NOTFOUND, s\<lparr>rn_idx := - 1\<rparr>)
       else
         bnd (if te_restore te \<and> i = 0 then on_world (SaveState gcls) else ret True) (\<lambda>saved.
           if \<not> saved then sq (modify (\<lambda>s. s\<lparr>rn_idx := - 1\<rparr>)) (ret TR_FAIL)
           else
             bnd (run_selected drv te cls deps skipTest preserve tr) (\<lambda>result.
             bnd (gets rn_idx) (\<lambda>j.
             bnd (if te_restore te \<and> (j = - 1 \<or> result = TR_FAIL) then on_world (RestoreState gcls) else ret True)
               (\<lambda>restored.
                 if \<not> restored then sq (modify (\<lambda>s. s\<lparr>rn_idx := - 1\<rparr>)) (ret TR_FAIL)
                 else sq (on_test tr (modify (\<lambda>(t, w). (Test_Clone cls t, w)))) (ret result))))) s)"

section \<open>What running a test leaves unchanged\<close>

text \<open>The same books, and tests at the same places.\<close>

definition frame :: "('t, 'w) runner \<Rightarrow> ('t, 'w) runner \<Rightarrow> bool" where
  "frame s u \<longleftrightarrow> rn_idx u = rn_idx s \<and> rn_numSkipped u = rn_numSkipped s \<and> rn_failed u = rn_failed s \<and>
     rn_skipped u = rn_skipped s \<and> (\<forall>q. TestExists (rn_grp u) q = TestExists (rn_grp s) q)"

lemma frame_refl [simp]: "frame s s"
  by (simp add: frame_def)

lemma frame_trans [trans]: "frame s u \<Longrightarrow> frame u v \<Longrightarrow> frame s v"
  by (simp add: frame_def)

lemma frameD: "frame s u \<Longrightarrow> rn_idx u = rn_idx s" "frame s u \<Longrightarrow> rn_numSkipped u = rn_numSkipped s"
  "frame s u \<Longrightarrow> rn_failed u = rn_failed s" "frame s u \<Longrightarrow> rn_skipped u = rn_skipped s"
  "frame s u \<Longrightarrow> TestExists (rn_grp u) q = TestExists (rn_grp s) q"
  by (simp_all add: frame_def)

lemma update_nth: "xs[i := x] ! j = (if i < length xs \<and> i = j then x else xs ! j)"
  by (cases "i < length xs") (simp_all add: list_update_beyond)

lemma put_test_exists: "TestExists (put_test tr t g) r = TestExists g r"
  by (auto simp: put_test_def Let_def update_nth)

lemma on_test_frame: "on_test tr m s = (r, u) \<Longrightarrow> frame s u"
  by (auto simp: on_test_def zoom_apply frame_def put_test_exists simp del: TestExists_iff split: prod.splits)

lemma on_world_frame: "on_world m s = (r, u) \<Longrightarrow> frame s u"
  by (auto simp: on_world_def zoom_apply frame_def split: prod.splits)

text \<open>The index after \<open>n\<close> tests of the set.\<close>

definition idx_after :: "TestRef list \<Rightarrow> nat \<Rightarrow> int" where
  "idx_after deps n = (if n = length deps then - 1 else int n)"

definition followers :: "TestRef list \<Rightarrow> nat \<Rightarrow> bool \<Rightarrow> TestRef list" where
  "followers deps i failed = takeWhile (dependent (deps ! i) failed) (drop (i + 1) deps)"

lemma advance_eq:
  assumes "rn_idx s = int i" and "i < length deps"
  shows "advance deps failed s =
    (Inr (int (length (followers deps i failed))),
     s\<lparr>rn_idx := idx_after deps (i + 1 + length (followers deps i failed)),
       rn_skipped := rn_skipped s @ followers deps i failed\<rparr>)"
  using Advance_eq [OF assms(2), of failed "rn_skipped s"] assms(1)
  by (simp add: advance_def Let_def idx_after_def followers_def)

lemma note_skipped_eq:
  assumes "rn_idx s = int i" and "i < length deps"
  shows "note_skipped deps tr s =
    (Inr TR_SKIPPING,
     s\<lparr>rn_idx := idx_after deps (i + 1 + length (followers deps i False)),
       rn_skipped := rn_skipped s @ tr # followers deps i False,
       rn_numSkipped := int (length (followers deps i False)) + 1\<rparr>)"
  using advance_eq [of "s\<lparr>rn_skipped := rn_skipped s @ [tr]\<rparr>" i deps False] assms
  by (simp add: note_skipped_def bnd_apply)

lemma note_failed_eq:
  assumes "rn_idx s = int i" and "i < length deps"
  shows "note_failed deps tr s =
    (Inr TR_FAIL,
     s\<lparr>rn_idx := idx_after deps (i + 1 + length (followers deps i True)),
       rn_skipped := rn_skipped s @ followers deps i True,
       rn_failed := rn_failed s @ [tr],
       rn_numSkipped := int (length (followers deps i True))\<rparr>)"
  using advance_eq [of "s\<lparr>rn_failed := rn_failed s @ [tr]\<rparr>" i deps True] assms
  by (simp add: note_failed_def bnd_apply)

lemma next_test_eq:
  assumes "rn_idx s = int i" and "i < length deps"
  shows "next_test deps s = (Inr (), s\<lparr>rn_idx := idx_after deps (i + 1)\<rparr>)"
  using assms by (auto simp: next_test_def idx_after_def)

lemma followers_length: "i < length deps \<Longrightarrow> i + 1 + length (followers deps i failed) \<le> length deps"
  using length_takeWhile_le [of "dependent (deps ! i) failed" "drop (i + 1) deps"]
  by (simp add: followers_def)

text \<open>The three ways a selected test ends, and the books then.\<close>

definition books ::
  "TestRef list \<Rightarrow> nat \<Rightarrow> TestRef \<Rightarrow> ('t, 'w) runner \<Rightarrow> TestResult \<Rightarrow> ('t, 'w) runner \<Rightarrow> bool" where
  "books deps i tr s r s' \<longleftrightarrow>
     (\<forall>q. TestExists (rn_grp s') q = TestExists (rn_grp s) q) \<and>
     ((r \<noteq> TR_FAIL \<and> rn_idx s' = idx_after deps (i + 1) \<and> rn_failed s' = rn_failed s \<and>
         rn_skipped s' = rn_skipped s \<and> rn_numSkipped s' = rn_numSkipped s) \<or>
      (r = TR_FAIL \<and> rn_idx s' = idx_after deps (i + 1 + length (followers deps i True)) \<and>
         rn_failed s' = rn_failed s @ [tr] \<and> rn_skipped s' = rn_skipped s @ followers deps i True \<and>
         rn_numSkipped s' = int (length (followers deps i True))) \<or>
      (r = TR_SKIPPING \<and> rn_idx s' = idx_after deps (i + 1 + length (followers deps i False)) \<and>
         rn_failed s' = rn_failed s \<and> rn_skipped s' = rn_skipped s @ tr # followers deps i False \<and>
         rn_numSkipped s' = int (length (followers deps i False)) + 1))"

lemma books_frame: "frame s u \<Longrightarrow> books deps i tr u r v \<Longrightarrow> frame v s' \<Longrightarrow> books deps i tr s r s'"
  by (auto simp: books_def frame_def)

lemma note_books:
  assumes "rn_idx s = int i" and "i < length deps"
  shows "note_skipped deps tr s = (Inr r, s') \<Longrightarrow> books deps i tr s r s'"
    and "note_failed deps tr s = (Inr r, s') \<Longrightarrow> books deps i tr s r s'"
  using note_skipped_eq [OF assms, of tr] note_failed_eq [OF assms, of tr] by (auto simp: books_def)

lemma run_selected_books:
  assumes i: "rn_idx s = int i" "i < length deps"
    and run: "run_selected drv te cls deps skipTest preserve tr s = (Inr r, s')"
  shows "books deps i tr s r s'"
proof (cases "SkippingTest tr skipTest")
  case True
  then show ?thesis using run note_books(1) [OF i] by (simp add: run_selected_def)
next
  case False
  then obtain rt u where u: "on_test tr (Test_Runnable cls preserve) s = (Inr rt, u)"
    and k: "(case rt of RUN_TRUE \<Rightarrow> bnd (on_test tr (Test_Run drv te cls)) (\<lambda>result.
              if result = TR_FAIL then note_failed deps tr else sq (next_test deps) (ret result))
        | RUN_FALSE \<Rightarrow> note_skipped deps tr | RUN_FAIL \<Rightarrow> note_failed deps tr) u = (Inr r, s')"
    using run by (auto simp: run_selected_def bnd_Inr_iff)
  have fu: "frame s u" by (rule on_test_frame [OF u])
  then have iu: "rn_idx u = int i" using i(1) by (simp add: frameD)
  note nu = note_books [OF iu i(2), THEN books_frame [OF fu _ frame_refl]]
  show ?thesis
  proof (cases rt)
    case RUN_TRUE
    then obtain res v where v: "on_test tr (Test_Run drv te cls) u = (Inr res, v)"
      and k': "(if res = TR_FAIL then note_failed deps tr else sq (next_test deps) (ret res)) v = (Inr r, s')"
      using k by (auto simp: bnd_Inr_iff)
    have fv: "frame s v" using fu on_test_frame [OF v] by (rule frame_trans)
    then have iv: "rn_idx v = int i" using i(1) by (simp add: frameD)
    show ?thesis
    proof (cases "res = TR_FAIL")
      case True
      then show ?thesis using k' note_books(2) [OF iv i(2), THEN books_frame [OF fv _ frame_refl]] by simp
    next
      case False
      then have "r = res" "s' = v\<lparr>rn_idx := idx_after deps (i + 1)\<rparr>"
        using k' next_test_eq [OF iv i(2)] by (simp_all add: sq_apply)
      then show ?thesis using fv False by (auto simp: books_def frame_def)
    qed
  qed (use k nu in simp_all)
qed

text \<open>How \<open>RunTest\<close> ends: nothing to run; the device could not be saved; a test handled, and maybe not restored.\<close>

definition run_test_ends ::
  "'d test_env \<Rightarrow> TestRef list \<Rightarrow> ('t, 'w) runner \<Rightarrow> TestResult \<Rightarrow> ('t, 'w) runner \<Rightarrow> bool" where
  "run_test_ends te deps s r s' \<longleftrightarrow>
     r = TR_NOTFOUND \<and> rn_idx s' = - 1 \<and> rn_failed s' = rn_failed s \<and> rn_skipped s' = rn_skipped s \<and>
       (rn_idx s = - 1 \<or> int (length deps) \<le> rn_idx s \<or> \<not> TestExists (rn_grp s) (deps ! nat (rn_idx s))) \<or>
     (\<exists>i. rn_idx s = int i \<and> i < length deps \<and> TestExists (rn_grp s) (deps ! i) \<and>
       (te_restore te \<and> r = TR_FAIL \<and> rn_idx s' = - 1 \<or>
        books deps i (deps ! i) (s\<lparr>rn_numSkipped := 0\<rparr>) r s'))"

lemma RunTest_ends:
  assumes run: "RunTest drv te cls gcls deps skipTest preserve s = (Inr r, s')"
  shows "run_test_ends te deps s r s'"
proof (cases "rn_idx s \<ge> int (length deps) \<or> rn_idx s = - 1")
  case True
  then show ?thesis using run by (auto simp: RunTest_def Let_def run_test_ends_def)
next
  case False
  then have "0 \<le> rn_idx s" using run by (simp add: RunTest_def Let_def split: if_splits)
  then obtain i where i': "rn_idx s = int i" by (rule nonneg_int_cases)
  then have i: "rn_idx s = int i" "i < length deps" using False by simp_all
  let ?tr = "deps ! i" and ?s = "s\<lparr>rn_numSkipped := 0\<rparr>"
  show ?thesis
  proof (cases "TestExists (rn_grp s) ?tr")
    case False
    then show ?thesis using run i by (auto simp: RunTest_def Let_def run_test_ends_def simp del: TestExists_iff)
  next
    case ex: True
    let ?fin = "\<lambda>result j. bnd (if te_restore te \<and> (j = - 1 \<or> result = TR_FAIL) then on_world (RestoreState gcls) else ret True)
      (\<lambda>restored. if \<not> restored then sq (modify (\<lambda>s. s\<lparr>rn_idx := - 1\<rparr>)) (ret TR_FAIL)
         else sq (on_test ?tr (modify (\<lambda>(t, w). (Test_Clone cls t, w)))) (ret result))"
    have run': "bnd (if te_restore te \<and> int i = 0 then on_world (SaveState gcls) else ret True) (\<lambda>saved.
        if \<not> saved then sq (modify (\<lambda>s. s\<lparr>rn_idx := - 1\<rparr>)) (ret TR_FAIL)
        else bnd (run_selected drv te cls deps skipTest preserve ?tr) (\<lambda>result. bnd (gets rn_idx) (?fin result))) ?s =
      (Inr r, s')"
      using run i ex by (simp add: RunTest_def Let_def del: TestExists_iff)
    then obtain saved u where u: "(if te_restore te \<and> int i = 0 then on_world (SaveState gcls) else ret True) ?s = (Inr saved, u)"
      and k: "(if \<not> saved then sq (modify (\<lambda>s. s\<lparr>rn_idx := - 1\<rparr>)) (ret TR_FAIL)
        else bnd (run_selected drv te cls deps skipTest preserve ?tr) (\<lambda>result. bnd (gets rn_idx) (?fin result))) u = (Inr r, s')"
      unfolding bnd_Inr_iff by blast
    have fu: "frame ?s u" and sv: "saved \<or> te_restore te" using u by (auto dest: on_world_frame split: if_splits)
    show ?thesis
    proof (cases saved)
      case False
      then have "r = TR_FAIL" "rn_idx s' = - 1" using k by auto
      then show ?thesis using i ex False sv by (auto simp: run_test_ends_def simp del: TestExists_iff)
    next
      case True
      then obtain res v where v: "run_selected drv te cls deps skipTest preserve ?tr u = (Inr res, v)"
        and e: "?fin res (rn_idx v) v = (Inr r, s')" using k by (auto simp: bnd_Inr_iff)
      have bv: "books deps i ?tr ?s res v"
        using books_frame [OF fu run_selected_books [OF _ i(2) v] frame_refl] fu i(1) by (simp add: frameD)
      obtain restored x where x: "(if te_restore te \<and> (rn_idx v = - 1 \<or> res = TR_FAIL) then on_world (RestoreState gcls)
          else ret True) v = (Inr restored, x)"
        and e': "(if \<not> restored then sq (modify (\<lambda>s. s\<lparr>rn_idx := - 1\<rparr>)) (ret TR_FAIL)
          else sq (on_test ?tr (modify (\<lambda>(t, w). (Test_Clone cls t, w)))) (ret res)) x = (Inr r, s')"
        using e unfolding bnd_Inr_iff by blast
      have fx: "frame v x" and rs: "restored \<or> te_restore te" using x by (auto dest: on_world_frame split: if_splits)
      show ?thesis
      proof (cases restored)
        case False
        then have "r = TR_FAIL" "rn_idx s' = - 1" using e' by auto
        then show ?thesis using i ex False rs by (auto simp: run_test_ends_def simp del: TestExists_iff)
      next
        case True
        then obtain y where "on_test ?tr (modify (\<lambda>(t, w). (Test_Clone cls t, w))) x = (Inr (), y)" "r = res" "s' = y"
          using e' by (auto simp: sq_Inr_iff)
        then have "books deps i ?tr ?s r s'"
          using books_frame [OF frame_refl bv] frame_trans [OF fx on_test_frame] by blast
        then show ?thesis using i ex by (auto simp: run_test_ends_def simp del: TestExists_iff)
      qed
    qed
  qed
qed

text \<open>The index after a test: -1 or further on.\<close>

lemma RunTest_idx:
  assumes "RunTest drv te cls gcls deps skipTest preserve s = (Inr r, s')" and "r \<noteq> TR_NOTFOUND"
  shows "0 \<le> rn_idx s \<and> rn_idx s < int (length deps) \<and> (rn_idx s' = - 1 \<or> rn_idx s < rn_idx s')"
  using RunTest_ends [OF assms(1)] assms(2)
  by (auto simp: run_test_ends_def books_def idx_after_def simp del: TestExists_iff split: if_splits)

section \<open>ExecuteTests (tnvme.cpp)\<close>

text \<open>The options and classes the loops only pass on.\<close>

record ('d, 'm, 't) exec_env =
  xe_drv :: "'d dnvme"
  xe_test :: "'d test_env"
  xe_class :: "('t, ('d, 'm) world_scheme) test_class"
  xe_groupClass :: "nat \<Rightarrow> ('d, 'm) world_scheme group_class"
  xe_skiptest :: "TestRef list"
  xe_preserve :: bool
  xe_ignore :: bool

text \<open>The counters after one call of \<open>RunTest\<close>.\<close>

definition count_result :: "TestResult \<Rightarrow> int \<Rightarrow> results \<Rightarrow> ex + results" where
  "count_result result skipped rs =
     (if result = TR_SKIPPING then addResult result skipped rs
      else (case addResult result 1 rs of
              Inl e \<Rightarrow> Inl e
            | Inr rs' \<Rightarrow> if result = TR_FAIL then addResult TR_SKIPPING skipped rs' else Inr rs'))"

text \<open>
  The loop over the tests of one group: the counters, and whether it was left early (a failure that is
  not ignored).
\<close>

function group_loop ::
  "('d, 'm, 'x test_obj_scheme) exec_env \<Rightarrow> nat \<Rightarrow> TestRef list \<Rightarrow> results
     \<Rightarrow> ('x test_obj_scheme, ('d, 'm) world_scheme) runner
     \<Rightarrow> (ex + bool \<times> results) \<times> ('x test_obj_scheme, ('d, 'm) world_scheme) runner" where
  "group_loop xe gi deps rs s =
     (case RunTest (xe_drv xe) (xe_test xe) (xe_class xe) (xe_groupClass xe gi) deps (xe_skiptest xe)
             (xe_preserve xe) s of
        (Inl e, s') \<Rightarrow> (Inl e, s')
      | (Inr result, s') \<Rightarrow>
          (case count_result result (rn_numSkipped s') rs of
             Inl e \<Rightarrow> (Inl e, s')
           | Inr rs' \<Rightarrow>
               if result = TR_FAIL \<and> \<not> xe_ignore xe then (Inr (True, rs'), s')
               else if result = TR_NOTFOUND then (Inr (False, rs'), s')
               else group_loop xe gi deps rs' s'))"
  by pat_completeness auto

text \<open>It ends: a test that is found moves the index on, or makes it -1.\<close>

definition tests_left :: "TestRef list \<Rightarrow> ('t, 'w) runner \<Rightarrow> nat" where
  "tests_left deps s = (if rn_idx s = - 1 then 0 else nat (int (length deps) + 1 - rn_idx s))"

lemma tests_left_decreases:
  assumes "RunTest drv te cls gcls deps skipTest preserve s = (Inr r, s')" and "r \<noteq> TR_NOTFOUND"
  shows "tests_left deps s' < tests_left deps s"
  using RunTest_idx [OF assms] by (auto simp: tests_left_def)

termination group_loop
  by (relation "measure (\<lambda>(xe, gi, deps, rs, s). tests_left deps s)") (auto dest: tests_left_decreases [OF sym])

declare group_loop.simps [simp del]

text \<open>All loops: the state they share, and how a group is left.\<close>

record ('t, 'w) exec =
  xs_groups :: "'t group list"
  xs_results :: results
  xs_numGrps :: int
  xs_skippedCount :: int
  xs_failed :: "TestRef list"
  xs_skipped :: "TestRef list"
  xs_world :: 'w

datatype group_exit = NextGroup | EarlyOut | AbortOut

definition exec_group ::
  "libc \<Rightarrow> ('d, 'm, 'x test_obj_scheme) exec_env \<Rightarrow> nat \<Rightarrow> TestRef
     \<Rightarrow> (('x test_obj_scheme, ('d, 'm) world_scheme) exec, group_exit) prog" where
  "exec_group C xe iGrp targetTst = (\<lambda>s.
     case CtrlrConfig_SetState C (xe_drv xe) [RsrcMngr_Update (xe_drv xe)] ST_DISABLE_COMPLETELY (xs_world s) of
       (Inl e, w) \<Rightarrow> (Inl e, s\<lparr>xs_world := w\<rparr>)
     | (Inr False, w) \<Rightarrow> (Inr AbortOut, s\<lparr>xs_world := w\<rparr>)
     | (Inr True, w) \<Rightarrow>
         (case GetTestSet (xs_groups s ! iGrp) targetTst of
            (False, _, _) \<Rightarrow> (Inr AbortOut, s\<lparr>xs_world := w\<rparr>)
          | (True, testsToRun, tstIdx) \<Rightarrow>
              (case group_loop xe iGrp testsToRun (xs_results s)
                      \<lparr>rn_grp = xs_groups s ! iGrp, rn_idx = tstIdx, rn_numSkipped = xs_skippedCount s,
                       rn_failed = xs_failed s, rn_skipped = xs_skipped s, rn_world = w\<rparr> of
                 (res, r) \<Rightarrow>
                   (let s' = s\<lparr>xs_groups := (xs_groups s)[iGrp := rn_grp r], xs_numGrps := xs_numGrps s + 1,
                               xs_skippedCount := rn_numSkipped r, xs_failed := rn_failed r,
                               xs_skipped := rn_skipped r, xs_world := rn_world r\<rparr> in
                    case res of
                      Inl e \<Rightarrow> (Inl e, s')
                    | Inr (early, rs) \<Rightarrow> (Inr (if early then EarlyOut else NextGroup), s'\<lparr>xs_results := rs\<rparr>)))))"

text \<open>The target of group number \<open>iGrp\<close>, when the group is processed at all.\<close>

definition group_target :: "TestRef \<Rightarrow> nat \<Rightarrow> TestRef option" where
  "group_target t iGrp =
     (if tr_group t = UINT_MAX then Some (TestRef_Init iGrp UINT_MAX UINT_MAX UINT_MAX)
      else if iGrp = tr_group t then Some (TestRef_Init iGrp (xLev t) (yLev t) (zLev t))
      else None)"

fun exec_groups ::
  "libc \<Rightarrow> ('d, 'm, 'x test_obj_scheme) exec_env \<Rightarrow> TestRef \<Rightarrow> nat list
     \<Rightarrow> (('x test_obj_scheme, ('d, 'm) world_scheme) exec, group_exit) prog" where
  "exec_groups C xe t [] = ret NextGroup"
| "exec_groups C xe t (iGrp # is) =
     (case group_target t iGrp of
        None \<Rightarrow> exec_groups C xe t is
      | Some targetTst \<Rightarrow>
          bnd (exec_group C xe iGrp targetTst) (\<lambda>e.
            if e = NextGroup then exec_groups C xe t is else ret e))"

text \<open>The loop executions that are left; the return value of \<open>ExecuteTests\<close>.\<close>

fun exec_loops ::
  "libc \<Rightarrow> ('d, 'm, 'x test_obj_scheme) exec_env \<Rightarrow> TestRef \<Rightarrow> nat
     \<Rightarrow> (('x test_obj_scheme, ('d, 'm) world_scheme) exec, bool) prog" where
  "exec_loops C xe t 0 = gets (\<lambda>s. allTestsPass (xs_results s))"
| "exec_loops C xe t (Suc n) =
     bnd (gets (\<lambda>s. length (xs_groups s))) (\<lambda>k.
     bnd (exec_groups C xe t [0..<k]) (\<lambda>e.
       case e of
         NextGroup \<Rightarrow> exec_loops C xe t n
       | EarlyOut \<Rightarrow> gets (\<lambda>s. allTestsPass (xs_results s))
       | AbortOut \<Rightarrow> ret False))"

text \<open>The comparison with the device's version only prepares a warning; it fails when the register cannot be read.\<close>

definition VerifySpecCompatibility :: "'d dnvme \<Rightarrow> SpecRev \<Rightarrow> (('d, 'm) registers_scheme, bool) prog" where
  "VerifySpecCompatibility drv specRev =
     bnd (Registers_Read_ctl drv CTLSPC_VS 0) (\<lambda>(ok, versionReg).
       if \<not> ok then ret False
       else ret (case specRev of SPECREVTYPE_FENCE \<Rightarrow> False | _ \<Rightarrow> True))"

definition ExecuteTests ::
  "libc \<Rightarrow> ('d, 'm, 'x test_obj_scheme) exec_env \<Rightarrow> SpecRev \<Rightarrow> TestRef \<Rightarrow> nat \<Rightarrow> 'x test_obj_scheme group list
     \<Rightarrow> ('d, 'm) world_scheme
     \<Rightarrow> (ex + bool) \<times> ('x test_obj_scheme, ('d, 'm) world_scheme) exec" where
  "ExecuteTests C xe specRev t loop groups w =
     (let s = \<lparr>xs_groups = groups, xs_results = TestResults_new, xs_numGrps = 0, xs_skippedCount = 0,
               xs_failed = [], xs_skipped = [], xs_world = w\<rparr> in
      if tr_group t \<noteq> UINT_MAX \<and> tr_group t \<ge> length groups then (Inr False, s)
      else (case VerifySpecCompatibility (xe_drv xe) specRev w of
              (Inl e, w') \<Rightarrow> (Inl e, s\<lparr>xs_world := w'\<rparr>)
            | (Inr False, w') \<Rightarrow> (Inr False, s\<lparr>xs_world := w'\<rparr>)
            | (Inr True, w') \<Rightarrow> exec_loops C xe t loop (s\<lparr>xs_world := w'\<rparr>)))"

text \<open>\<open>for (i = 0; i < groups.size(); i++) groups.pop_back();\<close>\<close>

function destroy_loop :: "nat \<Rightarrow> 'g list \<Rightarrow> 'g list" where
  "destroy_loop i groups = (if i < length groups then destroy_loop (i + 1) (butlast groups) else groups)"
  by pat_completeness auto
termination by (relation "measure (\<lambda>(i, gs). length gs - i)") auto

declare destroy_loop.simps [simp del]

definition DestroyTestFoundation_groups :: "'g list \<Rightarrow> 'g list" where
  "DestroyTestFoundation_groups groups = destroy_loop 0 groups"

section \<open>The schedule a test set is run by\<close>

text \<open>
  The specification of the loop: what may happen to the tests of a set, in their order. A failed test
  takes all following tests of its x-level with it, a skipped one those the code calls its dependents.
  Without \<open>ignore\<close> the first failure ends the run.
\<close>

datatype event = Passed TestResult TestRef | Failed TestRef | Skipped TestRef

inductive schedule :: "bool \<Rightarrow> TestRef list \<Rightarrow> event list \<Rightarrow> bool" for ign :: bool where
  none: "schedule ign [] []"
| pass: "schedule ign ts es \<Longrightarrow> r \<in> {TR_SUCCESS, TR_INFORMATIVE} \<Longrightarrow> schedule ign (t # ts) (Passed r t # es)"
| skip: "schedule ign (dropWhile (dependent t False) ts) es \<Longrightarrow>
    schedule ign (t # ts) (Skipped t # map Skipped (takeWhile (dependent t False) ts) @ es)"
| fail: "schedule ign (dropWhile (dependent t True) ts) es \<Longrightarrow> ign \<Longrightarrow>
    schedule ign (t # ts) (Failed t # map Skipped (takeWhile (dependent t True) ts) @ es)"
| stop: "\<not> ign \<Longrightarrow> schedule ign (t # ts) (Failed t # map Skipped (takeWhile (dependent t True) ts))"

inductive_cases schedule_NilE [elim!]: "schedule ign [] es"

fun ev_ref :: "event \<Rightarrow> TestRef" where
  "ev_ref (Passed _ t) = t" | "ev_ref (Failed t) = t" | "ev_ref (Skipped t) = t"

definition failed_of :: "event list \<Rightarrow> TestRef list" where
  "failed_of es = [ev_ref e. e \<leftarrow> es, case e of Failed _ \<Rightarrow> True | _ \<Rightarrow> False]"

definition skipped_of :: "event list \<Rightarrow> TestRef list" where
  "skipped_of es = [ev_ref e. e \<leftarrow> es, case e of Skipped _ \<Rightarrow> True | _ \<Rightarrow> False]"

definition passed_of :: "event list \<Rightarrow> TestRef list" where
  "passed_of es = [ev_ref e. e \<leftarrow> es, case e of Passed _ _ \<Rightarrow> True | _ \<Rightarrow> False]"

lemma of_simps [simp]:
  "failed_of [] = []" "skipped_of [] = []" "passed_of [] = []"
  "failed_of (Passed r t # es) = failed_of es" "skipped_of (Passed r t # es) = skipped_of es"
  "passed_of (Passed r t # es) = t # passed_of es"
  "failed_of (Failed t # es) = t # failed_of es" "skipped_of (Failed t # es) = skipped_of es"
  "passed_of (Failed t # es) = passed_of es"
  "failed_of (Skipped t # es) = failed_of es" "skipped_of (Skipped t # es) = t # skipped_of es"
  "passed_of (Skipped t # es) = passed_of es"
  "failed_of (map Skipped ts @ es) = failed_of es" "skipped_of (map Skipped ts @ es) = ts @ skipped_of es"
  "passed_of (map Skipped ts @ es) = passed_of es"
  "failed_of (map Skipped ts) = []" "skipped_of (map Skipped ts) = ts" "passed_of (map Skipped ts) = []"
  by (induction ts) (simp_all add: failed_of_def skipped_of_def passed_of_def)

text \<open>With \<open>ignore\<close> every test of the set has exactly one event, in order; without, those up to the failure.\<close>

lemma schedule_refs: "schedule ign ts es \<Longrightarrow> ign \<Longrightarrow> map ev_ref es = ts"
proof (induction rule: schedule.induct)
  case (skip t ts es)
  then show ?case by (simp add: comp_def takeWhile_dropWhile_id)
next
  case (fail t ts es)
  then show ?case by (simp add: comp_def takeWhile_dropWhile_id)
qed simp_all

lemma schedule_counts: "schedule ign ts es \<Longrightarrow> ign \<Longrightarrow>
    length (passed_of es) + length (failed_of es) + length (skipped_of es) = length ts"
proof (induction rule: schedule.induct)
  case (skip t ts es)
  have "length ts = length (takeWhile (dependent t False) ts) + length (dropWhile (dependent t False) ts)"
    by (metis length_append takeWhile_dropWhile_id)
  then show ?case using skip by simp
next
  case (fail t ts es)
  have "length ts = length (takeWhile (dependent t True) ts) + length (dropWhile (dependent t True) ts)"
    by (metis length_append takeWhile_dropWhile_id)
  then show ?case using fail by simp
qed simp_all

text \<open>The loop of one group follows a schedule.\<close>

definition well_behaved ::
  "('d, 'm, 'x test_obj_scheme) exec_env \<Rightarrow> (('d, 'm) world_scheme \<Rightarrow> bool) \<Rightarrow> bool" where
  "well_behaved xe I \<longleftrightarrow> (\<forall>t w. I w \<longrightarrow>
     (\<exists>q t' w'. Test_Runnable (xe_class xe) (xe_preserve xe) (t, w) = (Inr q, (t', w')) \<and> I w') \<and>
     (\<exists>r t' w'. Test_Run (xe_drv xe) (xe_test xe) (xe_class xe) (t, w) = (Inr r, (t', w')) \<and> I w' \<and>
        r \<in> {TR_SUCCESS, TR_FAIL, TR_INFORMATIVE}))"

lemma on_test_runs:
  assumes "m (get_test tr (rn_grp s), rn_world s) = (Inr x, (t', w'))"
  shows "on_test tr m s = (Inr x, s\<lparr>rn_grp := put_test tr t' (rn_grp s), rn_world := w'\<rparr>)"
  using assms by (simp add: on_test_def zoom_apply)

lemma run_selected_total:
  assumes wb: "well_behaved xe I" and w: "I (rn_world s)" and i: "rn_idx s = int i" "i < length deps"
  shows "\<exists>r s'. run_selected (xe_drv xe) (xe_test xe) (xe_class xe) deps skipTest (xe_preserve xe) tr s = (Inr r, s') \<and>
    I (rn_world s') \<and> r \<in> {TR_SUCCESS, TR_FAIL, TR_INFORMATIVE, TR_SKIPPING} \<and>
    (r = TR_SKIPPING \<longrightarrow> rn_numSkipped s' \<noteq> 0)"
proof (cases "SkippingTest tr skipTest")
  case True
  then show ?thesis using w note_skipped_eq [OF i, of tr] by (simp add: run_selected_def)
next
  case False
  obtain q t' w' where r: "Test_Runnable (xe_class xe) (xe_preserve xe) (get_test tr (rn_grp s), rn_world s) =
      (Inr q, (t', w'))" "I w'"
    using wb w unfolding well_behaved_def by blast
  let ?u = "s\<lparr>rn_grp := put_test tr t' (rn_grp s), rn_world := w'\<rparr>"
  have u: "on_test tr (Test_Runnable (xe_class xe) (xe_preserve xe)) s = (Inr q, ?u)" by (rule on_test_runs, rule r(1))
  have iu: "rn_idx ?u = int i" using i(1) by simp
  show ?thesis
  proof (cases q)
    case RUN_TRUE
    obtain res t'' w'' where x: "Test_Run (xe_drv xe) (xe_test xe) (xe_class xe) (get_test tr (rn_grp ?u), rn_world ?u) =
        (Inr res, (t'', w''))" "I w''" "res \<in> {TR_SUCCESS, TR_FAIL, TR_INFORMATIVE}"
      using wb r(2) unfolding well_behaved_def by fastforce
    let ?v = "?u\<lparr>rn_grp := put_test tr t'' (rn_grp ?u), rn_world := w''\<rparr>"
    have v: "on_test tr (Test_Run (xe_drv xe) (xe_test xe) (xe_class xe)) ?u = (Inr res, ?v)"
      by (rule on_test_runs, rule x(1))
    have iv: "rn_idx ?v = int i" using i(1) by simp
    show ?thesis
      using RUN_TRUE False u v x(2,3) note_failed_eq [OF iv i(2), of tr] next_test_eq [OF iv i(2)]
      by (auto simp: run_selected_def bnd_apply sq_apply)
  next
    case RUN_FALSE
    then show ?thesis using False u r(2) note_skipped_eq [OF iu i(2), of tr] by (simp add: run_selected_def bnd_apply)
  next
    case RUN_FAIL
    then show ?thesis using False u r(2) note_failed_eq [OF iu i(2), of tr] by (simp add: run_selected_def bnd_apply)
  qed
qed

lemma RunTest_total:
  assumes wb: "well_behaved xe I" and w: "I (rn_world s)" and i: "rn_idx s = int i" "i < length deps"
    and ex: "TestExists (rn_grp s) (deps ! i)" and nr: "\<not> te_restore (xe_test xe)"
  shows "\<exists>r s'. RunTest (xe_drv xe) (xe_test xe) (xe_class xe) gcls deps skipTest (xe_preserve xe) s = (Inr r, s') \<and>
    I (rn_world s') \<and> r \<in> {TR_SUCCESS, TR_FAIL, TR_INFORMATIVE, TR_SKIPPING} \<and>
    (r = TR_SKIPPING \<longrightarrow> rn_numSkipped s' \<noteq> 0) \<and> books deps i (deps ! i) (s\<lparr>rn_numSkipped := 0\<rparr>) r s'"
proof -
  let ?s = "s\<lparr>rn_numSkipped := 0\<rparr>"
  obtain r u where u: "run_selected (xe_drv xe) (xe_test xe) (xe_class xe) deps skipTest (xe_preserve xe) (deps ! i) ?s =
      (Inr r, u)" "I (rn_world u)" "r \<in> {TR_SUCCESS, TR_FAIL, TR_INFORMATIVE, TR_SKIPPING}"
      "r = TR_SKIPPING \<longrightarrow> rn_numSkipped u \<noteq> 0"
    using run_selected_total [OF wb, of ?s i deps skipTest "deps ! i"] w i by auto
  then obtain s' where s': "RunTest (xe_drv xe) (xe_test xe) (xe_class xe) gcls deps skipTest (xe_preserve xe) s =
      (Inr r, s')" "I (rn_world s')" "r = TR_SKIPPING \<longrightarrow> rn_numSkipped s' \<noteq> 0"
    using i ex nr
    by (auto simp: RunTest_def Let_def bnd_apply sq_apply on_test_def zoom_apply simp del: TestExists_iff)
  then have "books deps i (deps ! i) ?s r s'"
    using RunTest_ends [OF s'(1)] u(3) nr i(1) by (auto simp: run_test_ends_def)
  then show ?thesis using s' u(3) by blast
qed

text \<open>What the counters say of the events.\<close>

definition counted :: "results \<Rightarrow> event list \<Rightarrow> results \<Rightarrow> bool" where
  "counted rs es rs' \<longleftrightarrow> length rs' = 5 \<and>
     rs' ! tr_num TR_FAIL = rs ! tr_num TR_FAIL + int (length (failed_of es)) \<and>
     rs' ! tr_num TR_SKIPPING = rs ! tr_num TR_SKIPPING + int (length (skipped_of es)) \<and>
     rs' ! tr_num TR_SUCCESS + rs' ! tr_num TR_INFORMATIVE =
       rs ! tr_num TR_SUCCESS + rs ! tr_num TR_INFORMATIVE + int (length (passed_of es))"

text \<open>The events of one test, and where the loop goes on.\<close>

lemma books_events:
  assumes b: "books deps i (deps ! i) s r s'" and i: "i < length deps" and rs: "length rs = 5"
    and r: "r \<in> {TR_SUCCESS, TR_FAIL, TR_INFORMATIVE, TR_SKIPPING}" and n: "rn_numSkipped s = 0" "r = TR_SKIPPING \<longrightarrow> rn_numSkipped s' \<noteq> 0"
  shows "\<exists>j es0 rs1. i < j \<and> j \<le> length deps \<and> rn_idx s' = idx_after deps j \<and>
    count_result r (rn_numSkipped s') rs = Inr rs1 \<and> counted rs es0 rs1 \<and>
    rn_failed s' = rn_failed s @ failed_of es0 \<and> rn_skipped s' = rn_skipped s @ skipped_of es0 \<and>
    (r \<noteq> TR_FAIL \<or> ign \<longrightarrow> (\<forall>es. schedule ign (drop j deps) es \<longrightarrow> schedule ign (drop i deps) (es0 @ es))) \<and>
    (r = TR_FAIL \<and> \<not> ign \<longrightarrow> schedule ign (drop i deps) es0) \<and> (r \<noteq> TR_FAIL \<longleftrightarrow> failed_of es0 = [])"
proof -
  have d: "drop i deps = deps ! i # drop (i + 1) deps" using i by (simp add: Cons_nth_drop_Suc)
  have dw: "dropWhile (dependent (deps ! i) failed) (drop (i + 1) deps) = drop (i + 1 + length (followers deps i failed)) deps" for failed
    by (simp add: followers_def dropWhile_eq_drop add.commute)
  note fl = followers_length [OF i]
  consider (pass) "r \<in> {TR_SUCCESS, TR_INFORMATIVE}" | (fail) "r = TR_FAIL" | (skip) "r = TR_SKIPPING"
    using r by blast
  then show ?thesis
  proof cases
    case pass
    then show ?thesis
      using b n rs i d schedule.pass [where ign = ign and ts = "drop (i + 1) deps" and r = r and t = "deps ! i"]
      by (intro exI [of _ "i + 1"] exI [of _ "[Passed r (deps ! i)]"])
        (auto simp: books_def count_result_def addResult_def counted_def)
  next
    case fail
    then show ?thesis
      using b n rs fl [of True] d dw [of True] schedule.fail [where ign = ign and t = "deps ! i" and ts = "drop (i + 1) deps"]
        schedule.stop [where ign = ign and t = "deps ! i" and ts = "drop (i + 1) deps"]
      by (intro exI [of _ "i + 1 + length (followers deps i True)"]
          exI [of _ "Failed (deps ! i) # map Skipped (followers deps i True)"])
        (auto simp: books_def count_result_def addResult_def counted_def followers_def)
  next
    case skip
    then show ?thesis
      using b n rs fl [of False] d dw [of False] schedule.skip [where ign = ign and t = "deps ! i" and ts = "drop (i + 1) deps"]
      by (intro exI [of _ "i + 1 + length (followers deps i False)"]
          exI [of _ "Skipped (deps ! i) # map Skipped (followers deps i False)"])
        (auto simp: books_def count_result_def addResult_def counted_def followers_def)
  qed
qed

lemma counted_trans: "counted rs es rs1 \<Longrightarrow> counted rs1 es' rs2 \<Longrightarrow> counted rs (es @ es') rs2"
  by (auto simp: counted_def failed_of_def skipped_of_def passed_of_def)

lemma of_append: "failed_of (es @ es') = failed_of es @ failed_of es'"
  "skipped_of (es @ es') = skipped_of es @ skipped_of es'" "passed_of (es @ es') = passed_of es @ passed_of es'"
  by (simp_all add: failed_of_def skipped_of_def passed_of_def)

lemma group_loop_schedule:
  assumes wb: "well_behaved xe I" and nr: "\<not> te_restore (xe_test xe)"
  shows "rn_idx s = idx_after deps i \<Longrightarrow> i \<le> length deps \<Longrightarrow> I (rn_world s) \<Longrightarrow>
    list_all (TestExists (rn_grp s)) deps \<Longrightarrow> length rs = 5 \<Longrightarrow>
    \<exists>early rs' s' es. group_loop xe gi deps rs s = (Inr (early, rs'), s') \<and>
      schedule (xe_ignore xe) (drop i deps) es \<and> counted rs es rs' \<and>
      rn_failed s' = rn_failed s @ failed_of es \<and> rn_skipped s' = rn_skipped s @ skipped_of es \<and>
      (early \<longleftrightarrow> \<not> xe_ignore xe \<and> failed_of es \<noteq> []) \<and> I (rn_world s')"
proof (induction "length deps - i" arbitrary: i s rs rule: less_induct)
  case less
  let ?gcls = "xe_groupClass xe gi"
  show ?case
  proof (cases "i = length deps")
    case True
    then have "rn_idx s = - 1" using less.prems(1) by (simp add: idx_after_def)
    then have "group_loop xe gi deps rs s = (Inr (False, rs[4 := rs ! 4 + 1]), s\<lparr>rn_numSkipped := 0, rn_idx := - 1\<rparr>)"
      using less.prems(5)
      by (simp add: group_loop.simps [of xe gi deps rs s] RunTest_def Let_def count_result_def addResult_def)
    moreover have "schedule (xe_ignore xe) (drop i deps) []" using True by (simp add: schedule.none)
    moreover have "counted rs [] (rs[4 := rs ! 4 + 1])" using less.prems(5) by (simp add: counted_def)
    ultimately show ?thesis
      using less.prems(3)
      by (intro exI [of _ False] exI [of _ "rs[4 := rs ! 4 + 1]"]
          exI [of _ "s\<lparr>rn_numSkipped := 0, rn_idx := - 1\<rparr>"] exI [of _ "[] :: event list"]) simp
  next
    case False
    then have i: "i < length deps" "rn_idx s = int i" using less.prems(1,2) by (simp_all add: idx_after_def)
    have "TestExists (rn_grp s) (deps ! i)" using less.prems(4) i(1) by (simp add: list_all_length)
    then obtain r s1 where run: "RunTest (xe_drv xe) (xe_test xe) (xe_class xe) ?gcls deps (xe_skiptest xe)
          (xe_preserve xe) s = (Inr r, s1)"
      and I1: "I (rn_world s1)" and r: "r \<in> {TR_SUCCESS, TR_FAIL, TR_INFORMATIVE, TR_SKIPPING}"
      and sk: "r = TR_SKIPPING \<longrightarrow> rn_numSkipped s1 \<noteq> 0"
      and b: "books deps i (deps ! i) (s\<lparr>rn_numSkipped := 0\<rparr>) r s1"
      using RunTest_total [OF wb less.prems(3) i(2,1) _ nr] by blast
    have n0: "rn_numSkipped (s\<lparr>rn_numSkipped := 0\<rparr>) = 0" by simp
    obtain j es0 rs1 where j: "i < j" "j \<le> length deps" "rn_idx s1 = idx_after deps j"
      and c: "count_result r (rn_numSkipped s1) rs = Inr rs1" "counted rs es0 rs1"
      and f': "rn_failed s1 = rn_failed (s\<lparr>rn_numSkipped := 0\<rparr>) @ failed_of es0"
        "rn_skipped s1 = rn_skipped (s\<lparr>rn_numSkipped := 0\<rparr>) @ skipped_of es0"
      and on: "r \<noteq> TR_FAIL \<or> xe_ignore xe \<longrightarrow> (\<forall>es. schedule (xe_ignore xe) (drop j deps) es \<longrightarrow>
        schedule (xe_ignore xe) (drop i deps) (es0 @ es))"
      and stop: "r = TR_FAIL \<and> \<not> xe_ignore xe \<longrightarrow> schedule (xe_ignore xe) (drop i deps) es0"
      and nf: "r \<noteq> TR_FAIL \<longleftrightarrow> failed_of es0 = []"
      using books_events [OF b i(1) less.prems(5) r n0 sk, of "xe_ignore xe"] by blast
    have f: "rn_failed s1 = rn_failed s @ failed_of es0" "rn_skipped s1 = rn_skipped s @ skipped_of es0"
      using f' by simp_all
    have ex: "list_all (TestExists (rn_grp s1)) deps"
      using less.prems(4) b by (auto simp: list_all_iff books_def simp del: TestExists_iff)
    show ?thesis
    proof (cases "r = TR_FAIL \<and> \<not> xe_ignore xe")
      case True
      then have "group_loop xe gi deps rs s = (Inr (True, rs1), s1)"
        using run c(1) by (simp add: group_loop.simps [of xe gi deps rs s])
      then show ?thesis using True stop c(2) f I1 nf by blast
    next
      case go: False
      then have "group_loop xe gi deps rs s = group_loop xe gi deps rs1 s1"
        using run c(1) r by (auto simp: group_loop.simps [of xe gi deps rs s])
      moreover have l: "length deps - j < length deps - i" "length rs1 = 5" using j(1,2) i(1) c(2) by (auto simp: counted_def)
      obtain early rs' s' es where "group_loop xe gi deps rs1 s1 = (Inr (early, rs'), s')"
        "schedule (xe_ignore xe) (drop j deps) es" "counted rs1 es rs'" "rn_failed s' = rn_failed s1 @ failed_of es"
        "rn_skipped s' = rn_skipped s1 @ skipped_of es" "early \<longleftrightarrow> \<not> xe_ignore xe \<and> failed_of es \<noteq> []" "I (rn_world s')"
        using less.hyps [OF l(1) j(3,2) I1 ex l(2)] by blast
      note rest = this
      moreover have "schedule (xe_ignore xe) (drop i deps) (es0 @ es)" using on go rest(2) by blast
      ultimately show ?thesis
        using counted_trans [OF c(2) rest(3)] f go nf rest
        by (intro exI [of _ early] exI [of _ rs'] exI [of _ s'] exI [of _ "es0 @ es"]) (auto simp: of_append)
    qed
  qed
qed

section \<open>What a schedule guarantees\<close>

text \<open>After a failed test, no test of the same x-level that directly follows is run.\<close>

lemma schedule_after_failure:
  "schedule ign ts es \<Longrightarrow> es = pre @ Failed t # post \<Longrightarrow>
    \<exists>rest. post = map Skipped (takeWhile (dependent t True) (drop (length pre + 1) ts)) @ rest"
proof (induction arbitrary: pre rule: schedule.induct)
  case (pass ts es r u)
  then show ?case by (cases pre) auto
next
  case (skip u ts es)
  show ?case
  proof (cases pre)
    case Nil
    then show ?thesis using skip.prems by simp
  next
    case (Cons p pre')
    let ?k = "takeWhile (dependent u False) ts"
    have "map Skipped ?k @ es = pre' @ Failed t # post" using skip.prems Cons by simp
    then obtain q where q: "pre' = map Skipped ?k @ q" "es = q @ Failed t # post"
      by (auto simp: append_eq_append_conv2 append_eq_Cons_conv map_eq_append_conv)
    moreover have "drop (length q + 1) (dropWhile (dependent u False) ts) = drop (length pre' + 1) ts"
      using q(1) by (simp add: dropWhile_eq_drop add.commute)
    ultimately show ?thesis using skip.IH [OF q(2)] Cons by simp
  qed
next
  case (fail u ts es)
  show ?case
  proof (cases pre)
    case Nil
    then show ?thesis using fail.prems by auto
  next
    case (Cons p pre')
    let ?k = "takeWhile (dependent u True) ts"
    have "map Skipped ?k @ es = pre' @ Failed t # post" using fail.prems Cons by simp
    then obtain q where q: "pre' = map Skipped ?k @ q" "es = q @ Failed t # post"
      by (auto simp: append_eq_append_conv2 append_eq_Cons_conv map_eq_append_conv)
    moreover have "drop (length q + 1) (dropWhile (dependent u True) ts) = drop (length pre' + 1) ts"
      using q(1) by (simp add: dropWhile_eq_drop add.commute)
    ultimately show ?thesis using fail.IH [OF q(2)] Cons by simp
  qed
next
  case (stop u ts)
  then show ?case by (cases pre) (auto simp: Cons_eq_append_conv append_eq_Cons_conv map_eq_append_conv map_eq_Cons_conv)
qed simp

lemma take_takeWhile: "take (length (takeWhile P ts) + n) ts = takeWhile P ts @ take n (dropWhile P ts)"
  by (induction ts) simp_all

lemma schedule_prefix: "schedule ign ts es \<Longrightarrow> map ev_ref es = take (length es) ts"
proof (induction rule: schedule.induct)
  case (stop t ts)
  then show ?case using take_takeWhile [of "dependent t True" ts 0] by (simp add: comp_def)
qed (simp_all add: comp_def take_takeWhile)

lemma in_failed_of: "t \<in> set (failed_of es) \<Longrightarrow> \<exists>pre post. es = pre @ Failed t # post"
proof -
  assume "t \<in> set (failed_of es)"
  then have "Failed t \<in> set es" by (auto simp: failed_of_def split: event.splits)
  then show ?thesis by (rule split_list)
qed

lemma schedule_failed_at:
  assumes "schedule ign ts es" and "t \<in> set (failed_of es)"
  shows "\<exists>i < length ts. ts ! i = t \<and> set (takeWhile (dependent t True) (drop (i + 1) ts)) \<subseteq> set (skipped_of es)"
proof -
  obtain pre post where es: "es = pre @ Failed t # post" using in_failed_of [OF assms(2)] by blast
  obtain rest where post: "post = map Skipped (takeWhile (dependent t True) (drop (length pre + 1) ts)) @ rest"
    using schedule_after_failure [OF assms(1) es] by blast
  have "map ev_ref es = take (length es) ts" by (rule schedule_prefix [OF assms(1)])
  then have l: "length es \<le> length ts" and n: "map ev_ref es ! length pre = ts ! length pre"
    using es by (metis length_map length_take min.cobounded1, simp)
  have "ts ! length pre = t" using n es by (simp add: nth_append)
  moreover have "length pre < length ts" using l es by simp
  ultimately show ?thesis using es post by (intro exI [of _ "length pre"]) (auto simp: of_append)
qed

section \<open>Properties\<close>




text \<open>Running tests makes progress: a call of \<open>RunTest\<close> that finds its test leaves the index at -1 or at a later
  test, whatever the test and the group do; so the loop over a set ends.\<close>

theorem RunTest_progress:
  assumes "RunTest drv te cls gcls deps skipTest preserve s = (Inr r, s')" and "r \<noteq> TR_NOTFOUND"
  shows "0 \<le> rn_idx s \<and> rn_idx s < int (length deps) \<and> (rn_idx s' = - 1 \<or> rn_idx s < rn_idx s') \<and>
    tests_left deps s' < tests_left deps s"
  using RunTest_idx [OF assms] tests_left_decreases [OF assms] by blast

text \<open>\<open>Run\<close> and \<open>Runnable\<close> let no exception of the framework out: one thrown by a test case is a failure of the
  test.\<close>

theorem Test_Run_catches:
  "fst (Test_Run drv te cls s) \<noteq> Inl (FrmwkEx m) \<and> fst (Test_Run drv te cls s) \<noteq> Inl (FrmwkExPtr m) \<and>
    fst (Test_Runnable cls preserve s) \<noteq> Inl (FrmwkEx m) \<and> fst (Test_Runnable cls preserve s) \<noteq> Inl (FrmwkExPtr m) \<and>
    Test_Runnable (cls\<lparr>RunnableCoreTest := \<lambda>_. raise (FrmwkEx m)\<rparr>) preserve s = (Inr RUN_FAIL, s)"
  by (simp add: Test_Run_def Test_Runnable_def try_catch_def caught_def split: sum.splits prod.splits ex.splits)

lemma half_left:
  assumes "i < n" shows "(n - 1) - (n - 1 - (i + 1) + 1) div 2 = n - (n - i + 1) div (2 :: nat)"
proof -
  obtain d where n: "n = i + 1 + d" using assms less_iff_Suc_add by auto
  show ?thesis
  proof (cases d)
    case (Suc e)
    have "(e + 3) div 2 = (e + 1) div 2 + 1" by simp
    then show ?thesis using n Suc by (simp add: numeral_eq_Suc)
  qed (simp add: n)
qed

lemma destroy_loop_length:
  "length (destroy_loop i gs) = length gs - (length gs - i + 1) div 2"
proof (induction i gs rule: destroy_loop.induct)
  case (1 i gs)
  show ?case
  proof (cases "i < length gs")
    case True
    then have "length (destroy_loop i gs) = (length gs - 1) - (length gs - 1 - (i + 1) + 1) div 2"
      using 1 by (simp add: destroy_loop.simps [of i gs])
    then show ?thesis using half_left [OF True] by simp
  qed (simp add: destroy_loop.simps [of i gs])
qed

text \<open>The loop that deletes the groups counts up while the vector shrinks: half of the groups stay.\<close>

theorem DestroyTestFoundation_leaks:
  "length (DestroyTestFoundation_groups gs) = length gs div 2"
  by (simp add: DestroyTestFoundation_groups_def destroy_loop_length)

lemma and_bit_eq: "val AND push_bit i 1 = expc AND push_bit i 1 \<longleftrightarrow> bit val i = bit expc i"
  if "i < 64" for val expc :: u64
proof
  assume "val AND push_bit i 1 = expc AND push_bit i 1"
  then have "bit (val AND push_bit i 1) i = bit (expc AND push_bit i 1) i" by simp
  then show "bit val i = bit expc i" using that by (simp add: bit_simps)
next
  assume "bit val i = bit expc i"
  then show "val AND push_bit i 1 = expc AND push_bit i 1" by (intro bit_word_eqI) (auto simp: bit_simps)
qed

lemma report_loop_finds:
  "i \<le> k \<Longrightarrow> k < 32 \<Longrightarrow> k < i + n \<Longrightarrow> bit val k \<noteq> bit expc k \<Longrightarrow> (\<And>j. i \<le> j \<Longrightarrow> j < k \<Longrightarrow> bit val j = bit expc j) \<Longrightarrow>
    report_loop n i val expc = Inr (int k)"
proof (induction n i val expc rule: report_loop.induct)
  case (2 n i val expc)
  show ?case
  proof (cases "i = 31")
    case True
    then have "k = 31" using 2 by simp
    moreover have "bit (0xffffffff80000000 :: u64) 31" by (simp add: bit_iff_odd)
    ultimately have "val AND 0xffffffff80000000 \<noteq> expc AND 0xffffffff80000000"
      using 2(5) by (metis bit_and_iff)
    then show ?thesis using True \<open>k = 31\<close> by simp
  next
    case False
    then show ?thesis
      using 2 and_bit_eq [of i val expc] by (cases "i = k") (auto simp: Let_def)
  qed
qed simp

text \<open>\<open>ReportOffendingBitPos\<close> names the lowest bit in which two values differ, as long as that bit is below bit 32;
  equal values shift an \<open>int\<close> by its width.\<close>

theorem ReportOffendingBitPos_lowest:
  assumes "k < 32" and "bit val k \<noteq> bit expectedVal k" and "list_all (\<lambda>j. bit val j = bit expectedVal j) [0..<k]"
  shows "ReportOffendingBitPos val expectedVal = Inr (int k) \<and> \<not> isl (ReportOffendingBitPos val expectedVal) \<and>
    isl (ReportOffendingBitPos val val)"
proof -
  have "report_loop 64 0 val expectedVal = Inr (int k)"
    using assms by (intro report_loop_finds) (auto simp: list_all_iff)
  moreover have "isl (report_loop 64 0 val val)"
    by (simp add: eval_nat_numeral)
  ultimately show ?thesis by (simp add: ReportOffendingBitPos_def)
qed

section \<open>Examples\<close>

text \<open>A test case that throws when it is named "bad" and succeeds otherwise.\<close>

definition ex_class :: "(test_obj, unit world) test_class" where
  "ex_class = \<lparr>RunnableCoreTest = (\<lambda>preserve. ret RUN_TRUE),
     RunCoreTest = (\<lambda>(t, w). if mTestName t = ''bad'' then (Inl (FrmwkEx []), (t, w))
       else (Inr (), (t\<lparr>mResult := TR_SUCCESS\<rparr>, w))),
     Test_Clone = id\<rparr>"

definition ex_env :: "(unit, unit, test_obj) exec_env" where
  "ex_env = \<lparr>xe_drv = q_dnvme,
     xe_test = \<lparr>te_errRegs = \<lparr>er_sts = 0, er_pxds = 0, er_aeruces = 0, er_csts = 0\<rparr>, te_restore = False,
       te_fs = \<lparr>mUseDirInfo = True, mDumpDirInfo = ''./Logs/'', mDumpDirPending = ''./Logs/''\<rparr>,
       te_dump_metrics = (\<lambda>f d. (0, d))\<rparr>,
     xe_class = ex_class, xe_groupClass = (\<lambda>_. \<lparr>SaveState = ret True, RestoreState = ret True\<rparr>),
     xe_skiptest = [], xe_preserve = False, xe_ignore = True\<rparr>"

definition ex_tests :: "test_obj group" where
  "ex_tests = \<lparr>mGrpNum = 0, mGrpName = ''Grp'', mGrpDesc = [],
     mTests = [[[Test_Test ''Grp'' ''bad'' SPECREV_10b, Test_Test ''Grp'' ''dep'' SPECREV_10b]],
               [[Test_Test ''Grp'' ''good'' SPECREV_10b]]]\<rparr>"

definition ex_deps :: "TestRef list" where
  "ex_deps = all_tests 0 (mTests ex_tests)"

definition ex_runner :: "(test_obj, unit world) runner" where
  "ex_runner = \<lparr>rn_grp = ex_tests, rn_idx = 0, rn_numSkipped = 0, rn_failed = [], rn_skipped = [],
     rn_world = ex_world []\<rparr>"

lemma kern_unit: "(w :: unit world)\<lparr>kern := d\<rparr> = w"
  by (cases w) simp

lemma read_pci_runs: "reg < length (rg_pci w) \<Longrightarrow> \<exists>b v. Registers_Read_pci drv reg val w = (Inr (b, v), w)"
  for w :: "unit world"
  by (auto simp: Registers_Read_pci_def Registers_Read_value_def Let_def bnd_apply ioctl2_def kern_unit split: prod.splits)

lemma read_ctl_runs: "reg < length (rg_pci w) \<Longrightarrow> reg < length ctl_table \<Longrightarrow>
    \<exists>b v. Registers_Read_ctl drv reg val w = (Inr (b, v), w)"
  for w :: "unit world"
  by (auto simp: Registers_Read_ctl_def Registers_Read_value_def Let_def bnd_apply ioctl2_def kern_unit split: prod.splits)

lemma write_pci_runs: "reg < length (rg_pci w) \<Longrightarrow> \<exists>b. Registers_Write_pci drv reg val w = (Inr b, w)"
  for w :: "unit world"
  by (auto simp: Registers_Write_pci_def Registers_Write_value_def Let_def bnd_apply ioctl1_def kern_unit split: prod.splits)

lemma ex_well_behaved: "well_behaved ex_env (\<lambda>w. w = ex_world [])"
proof -
  have l: "PCISPC_STS < length (rg_pci (ex_world []))" "CTLSPC_CSTS < length (rg_pci (ex_world []))"
    "CTLSPC_CSTS < length ctl_table"
    by (simp_all add: ex_world_def pci_table_def ctl_table_def)
  have c: "rg_pciCap (ex_world []) = []" by (simp add: ex_world_def)
  obtain b where b: "Registers_Write_pci q_dnvme PCISPC_STS 0xffff (ex_world []) = (Inr b, ex_world [])"
    using write_pci_runs [OF l(1)] by blast
  have reset: "ResetStatusRegErrors q_dnvme (ex_world []) = (Inr (), ex_world [])"
    by (simp add: ResetStatusRegErrors_def c b bnd_apply)
  obtain b1 v1 where r1: "Registers_Read_pci q_dnvme PCISPC_STS 0 (ex_world []) = (Inr (b1, v1), ex_world [])"
    using read_pci_runs [OF l(1)] by blast
  obtain b2 v2 where r2: "Registers_Read_ctl q_dnvme CTLSPC_CSTS v1 (ex_world []) = (Inr (b2, v2), ex_world [])"
    using read_ctl_runs [OF l(2,3)] by blast
  have check: "\<exists>ok. GetStatusRegErrors q_dnvme er (ex_world []) = (Inr ok, ex_world [])" for er
    by (auto simp: GetStatusRegErrors_def c r1 r2 clear_of_def bnd_apply)
  have run: "\<exists>r t' w'. Test_Run q_dnvme (xe_test ex_env) ex_class (t, ex_world []) = (Inr r, (t', w')) \<and> w' = ex_world [] \<and>
      r \<in> {TR_SUCCESS, TR_FAIL, TR_INFORMATIVE}" for t :: test_obj
    using check [of "\<lparr>er_sts = 0, er_pxds = 0, er_aeruces = 0, er_csts = 0\<rparr>"]
    by (auto simp: Test_Run_def try_catch_def sq_apply bnd_apply onr_def zoom_apply reset ex_env_def ex_class_def
        PrepDumpFile_def DumpKernelMetrics_def ioctl1_def caught_def kern_unit split: sum.splits)
  show ?thesis
    using run by (simp add: well_behaved_def ex_env_def Test_Runnable_def try_catch_def ex_class_def)
qed

lemma ex_deps_eq: "ex_deps = [TestRef_Init 0 0 0 0, TestRef_Init 0 0 0 1, TestRef_Init 0 1 0 0]"
  by (simp add: ex_deps_def all_tests_def ex_tests_def upt_rec)

lemma ex_deps_exist: "list_all (TestExists (rn_grp ex_runner)) ex_deps"
  by (simp add: ex_deps_eq ex_runner_def ex_tests_def)

lemma ex_runner_start: "\<not> te_restore (xe_test ex_env)" "rn_world ex_runner = ex_world []" "ex_deps \<noteq> []"
  "rn_idx ex_runner = 0" "length TestResults_new = 5" "xe_ignore ex_env" "rn_failed ex_runner = []" "rn_skipped ex_runner = []"
  by (simp_all add: ex_env_def ex_runner_def ex_deps_eq TestResults_new_def)



lemma ex_bad_fails: "rn_failed (snd (group_loop ex_env 0 ex_deps TestResults_new ex_runner)) = [TestRef_Init 0 0 0 0]"
  by code_simp


lemma RunTest_progress_witness:
  "let s' = snd (RunTest q_dnvme (xe_test ex_env) ex_class (xe_groupClass ex_env 0) ex_deps [] False ex_runner) in
   0 \<le> rn_idx ex_runner \<and> rn_idx ex_runner < int (length ex_deps) \<and>
    (rn_idx s' = - 1 \<or> rn_idx ex_runner < rn_idx s') \<and> tests_left ex_deps s' < tests_left ex_deps ex_runner"
proof -
  have "fst (RunTest q_dnvme (xe_test ex_env) ex_class (xe_groupClass ex_env 0) ex_deps [] False ex_runner) = Inr TR_FAIL"
    by code_simp
  from RunTest_progress [OF run_state [OF this]] show ?thesis by (simp add: Let_def)
qed

lemma ReportOffendingBitPos_lowest_witness:
  "ReportOffendingBitPos 0x8001000 0x0001000 = Inr (int 27) \<and> \<not> isl (ReportOffendingBitPos 0x8001000 0x0001000) \<and>
    isl (ReportOffendingBitPos 0x8001000 0x8001000)"
  by (rule ReportOffendingBitPos_lowest) (simp_all add: upt_rec)

end
