(* ===== verification/Cmd_Fields.thy ===== *)
theory Cmd_Fields
  imports World
begin

text \<open>
  The accessors of the command classes all read or replace one bit field of one DWORD. This theory
  states that contract once, as the locale \<open>cmd_accessor\<close> (a setter, a getter, and the field they
  share), and gives the rules by which the byte, word, bit and masked-byte idioms of the code meet
  it. It also has the two other forms of constructors the command classes use.
\<close>

section \<open>Constructors\<close>

text \<open>\<open>Cmd(type)\<close>, then \<open>Init\<close>: no PRP field is allowed.\<close>

definition new_cmd_plain :: "libc \<Rightarrow> ObjType \<Rightarrow> u8 \<Rightarrow> DataDir \<Rightarrow> ex + cmd" where
  "new_cmd_plain C t opcode dir =
     (case Cmd_Cmd t of
        Inl e \<Rightarrow> Inl e
      | Inr c \<Rightarrow>
          (case Cmd_Init C opcode dir 64 c of
             (Inl e, _) \<Rightarrow> Inl e
           | (Inr _, c') \<Rightarrow> Inr c'))"

text \<open>\<open>Cmd(type)\<close>, \<open>SetPrpAllowed\<close> in the constructor of the base class, then \<open>Init\<close>.\<close>

definition new_cmd_prp_first ::
  "libc \<Rightarrow> send_masks \<Rightarrow> ObjType \<Rightarrow> u8 \<Rightarrow> DataDir \<Rightarrow> u32 \<Rightarrow> ex + cmd" where
  "new_cmd_prp_first C M t opcode dir allowed =
     (case Cmd_Cmd t of
        Inl e \<Rightarrow> Inl e
      | Inr c \<Rightarrow>
          (case sq (PrpData_SetPrpAllowed M allowed) (Cmd_Init C opcode dir 64) c of
             (Inl e, _) \<Rightarrow> Inl e
           | (Inr _, c') \<Rightarrow> Inr c'))"

section \<open>Read, modify, write\<close>

text \<open>\<open>work = GetByte(dw, off); work &= ~mask; work |= bits; SetByte(work, dw, off);\<close>\<close>

definition rmw_byte :: "u8 \<Rightarrow> u8 \<Rightarrow> u8 \<Rightarrow> u8 \<Rightarrow> unit cmd_prog" where
  "rmw_byte m bits dw off = bnd (Cmd_GetByte dw off) (\<lambda>b. Cmd_SetByte ((b AND NOT m) OR bits) dw off)"

definition rmw_word :: "u16 \<Rightarrow> u16 \<Rightarrow> u8 \<Rightarrow> u8 \<Rightarrow> unit cmd_prog" where
  "rmw_word m bits dw off = bnd (Cmd_GetWord dw off) (\<lambda>b. Cmd_SetWord ((b AND NOT m) OR bits) dw off)"

section \<open>Fields of DWORDs\<close>

text \<open>The DWORD, the lowest bit, the width.\<close>

type_synonym dw_field = "nat \<times> nat \<times> nat"

definition dw_get :: "dw_field \<Rightarrow> cmd \<Rightarrow> u32" where
  "dw_get f c = get_field (snd f) (cmd_dw c (fst f))"

definition dw_put :: "dw_field \<Rightarrow> u32 \<Rightarrow> cmd \<Rightarrow> cmd" where
  "dw_put f v c = set_dw c (fst f) (put_field (snd f) v (cmd_dw c (fst f)))"

definition dw_ok :: "dw_field \<Rightarrow> cmd \<Rightarrow> bool" where
  "dw_ok f c \<longleftrightarrow> cmd_ok c \<and> fst f < cmd_size c \<and> field_ok (snd f)"

definition dw_fits :: "dw_field \<Rightarrow> u32 \<Rightarrow> bool" where
  "dw_fits f v \<longleftrightarrow> take_bit (snd (snd f)) v = v"

definition dw_apart :: "dw_field \<Rightarrow> dw_field \<Rightarrow> bool" where
  "dw_apart f g \<longleftrightarrow> fst f \<noteq> fst g \<or> field_apart (snd f) (snd g)"

lemma dw_ok_put [simp]: "dw_ok f c \<Longrightarrow> dw_ok g (dw_put f v c) = dw_ok g c"
  by (auto simp: dw_ok_def dw_put_def)

lemma dw_get_put_same: "dw_ok f c \<Longrightarrow> dw_get f (dw_put f v c) = take_bit (snd (snd f)) v"
  by (simp add: dw_get_def dw_put_def dw_ok_def cmd_dw_set_same get_put_same)

lemma dw_get_put_apart:
  "dw_ok f c \<Longrightarrow> dw_ok g c \<Longrightarrow> dw_apart f g \<Longrightarrow> dw_get g (dw_put f v c) = dw_get g c"
  by (cases "fst f = fst g")
    (auto simp: dw_get_def dw_put_def dw_ok_def dw_apart_def cmd_dw_set_same cmd_dw_set_other
      get_put_apart)

interpretation dw_fields: field_store dw_get dw_put dw_ok dw_fits dw_apart
  by unfold_locales (auto simp: dw_get_put_same dw_get_put_apart dw_fits_def)

section \<open>The contract of an accessor\<close>

locale cmd_accessor =
  fixes setter :: "u32 \<Rightarrow> unit cmd_prog" and getter :: "u32 cmd_prog" and f :: dw_field
  assumes setter_put: "dw_ok f c \<Longrightarrow> dw_fits f v \<Longrightarrow> setter v c = (Inr (), dw_put f v c)"
    and getter_get: "dw_ok f c \<Longrightarrow> getter c = (Inr (dw_get f c), c)"
begin

lemma roundtrip:
  assumes "dw_ok f c" and "dw_fits f v"
  shows "\<exists>c'. setter v c = (Inr (), c') \<and> getter c' = (Inr v, c')"
  using assms setter_put [OF assms] getter_get [of "dw_put f v c"]
  by (auto simp: dw_get_put_same dw_fits_def)

lemma undisturbed:
  assumes "dw_ok f c" and "dw_fits f v" and "dw_ok g c" and "dw_apart f g"
  shows "dw_get g (snd (setter v c)) = dw_get g c"
  using setter_put [OF assms(1,2)] dw_get_put_apart [OF assms(1,3,4)] by simp

end

text \<open>The setters and getters of narrower types, as accessors of 32-bit values.\<close>

definition via_word :: "('a::len word \<Rightarrow> unit cmd_prog) \<Rightarrow> u32 \<Rightarrow> unit cmd_prog" where
  "via_word s = (\<lambda>v. s (ucast v))"

definition get_word :: "('a::len word) cmd_prog \<Rightarrow> u32 cmd_prog" where
  "get_word g = bnd g (\<lambda>v. ret (ucast v))"

definition via_bool :: "(bool \<Rightarrow> unit cmd_prog) \<Rightarrow> u32 \<Rightarrow> unit cmd_prog" where
  "via_bool s = (\<lambda>v. s (v \<noteq> 0))"

definition get_bool :: "bool cmd_prog \<Rightarrow> u32 cmd_prog" where
  "get_bool g = bnd g (\<lambda>b. ret (if b then 1 else 0))"

section \<open>The idioms of the code\<close>

lemma SetBits_put:
  assumes "dw_ok (unat w, unat off * unat nb, unat nb) c" and "nb \<noteq> 0" and "\<not> bad_offset off nb"
  shows "Cmd_SetBits v w off nb c = (Inr (), dw_put (unat w, unat off * unat nb, unat nb) v c)"
  using SetBits_ok [of w off nb c v] assms
  by (simp add: cmd_field_ok_def dw_ok_def dw_put_def field_bits_def)

lemma GetBits_get:
  assumes "dw_ok (unat w, unat off * unat nb, unat nb) c" and "nb \<noteq> 0" and "\<not> bad_offset off nb"
  shows "Cmd_GetBits w off nb c = (Inr (ucast (dw_get (unat w, unat off * unat nb, unat nb) c)), c)"
  using GetBits_ok [of w off nb c] assms
  by (simp add: cmd_field_ok_def dw_ok_def dw_get_def field_bits_def)

lemma dw_get_narrow: "take_bit (snd (snd f)) (dw_get f c) = dw_get f c"
  by (simp add: dw_get_def get_field_def take_bit_take_bit)

lemma ucast_narrow:
  fixes v :: u32
  assumes "take_bit n v = v" and "n \<le> LENGTH('a::len)"
  shows "ucast (ucast v :: 'a word) = v"
proof -
  have "ucast (ucast (take_bit n v) :: 'a word) = take_bit n v"
    by (rule bit_word_eqI) (use assms(2) in \<open>auto simp: bit_simps dest: bit_imp_le_length\<close>)
  then show ?thesis using assms(1) by simp
qed

lemma ucast_u64_down: "(ucast (ucast (v :: u32) :: u64) :: 'a::len word) = ucast v"
  by (rule bit_word_eqI) (auto simp: bit_simps dest: bit_imp_le_length)

lemma good_offsets:
  "unat off < 4 \<Longrightarrow> \<not> bad_offset off 8" "unat off < 2 \<Longrightarrow> \<not> bad_offset off 16"
  "unat off < 8 \<Longrightarrow> \<not> bad_offset off 4" "unat off < 32 \<Longrightarrow> \<not> bad_offset off 1"
proof -
  have d: "32 div int (unat (8 :: u16)) - 1 = 3" "32 div int (unat (16 :: u16)) - 1 = 1"
    "32 div int (unat (4 :: u16)) - 1 = 7" "32 div int (unat (1 :: u16)) - 1 = 31" by simp_all
  show "unat off < 4 \<Longrightarrow> \<not> bad_offset off 8" "unat off < 2 \<Longrightarrow> \<not> bad_offset off 16"
    "unat off < 8 \<Longrightarrow> \<not> bad_offset off 4" "unat off < 32 \<Longrightarrow> \<not> bad_offset off 1"
    unfolding bad_offset_def d by linarith+
qed

lemma SetByte_put:
  assumes "dw_ok (unat w, unat off * 8, 8) c" and "unat off < 4"
  shows "Cmd_SetByte v w off c = (Inr (), dw_put (unat w, unat off * 8, 8) (ucast v) c)"
  using SetBits_put [of w off 8 c] assms by (simp add: Cmd_SetByte_def good_offsets)

lemma GetByte_get:
  assumes "dw_ok (unat w, unat off * 8, 8) c" and "unat off < 4"
  shows "Cmd_GetByte w off c = (Inr (ucast (dw_get (unat w, unat off * 8, 8) c)), c)"
  using GetBits_get [of w off 8 c] assms
  by (simp add: Cmd_GetByte_def good_offsets bnd_apply ucast_u64_down)

lemma SetWord_put:
  assumes "dw_ok (unat w, unat off * 16, 16) c" and "unat off < 2"
  shows "Cmd_SetWord v w off c = (Inr (), dw_put (unat w, unat off * 16, 16) (ucast v) c)"
  using SetBits_put [of w off 16 c] assms by (simp add: Cmd_SetWord_def good_offsets)

lemma GetWord_get:
  assumes "dw_ok (unat w, unat off * 16, 16) c" and "unat off < 2"
  shows "Cmd_GetWord w off c = (Inr (ucast (dw_get (unat w, unat off * 16, 16) c)), c)"
  using GetBits_get [of w off 16 c] assms
  by (simp add: Cmd_GetWord_def good_offsets bnd_apply ucast_u64_down)

lemma SetBit_put:
  assumes "dw_ok (unat w, unat off, 1) c" and "unat off < 32"
  shows "Cmd_SetBit b w off c = (Inr (), dw_put (unat w, unat off, 1) (if b then 1 else 0) c)"
  using SetBits_put [of w off 1 c] assms by (simp add: Cmd_SetBit_def good_offsets)

lemma GetBit_get:
  assumes "dw_ok (unat w, unat off, 1) c" and "unat off < 32"
  shows "Cmd_GetBit w off c = (Inr (dw_get (unat w, unat off, 1) c = 1), c)"
proof -
  have "(ucast (v :: u32) :: u64) = 1 \<longleftrightarrow> v = 1" for v
    by (metis ucast_1 ucast_u64_down ucast_id)
  then show ?thesis
    using GetBits_get [of w off 1 c] assms by (simp add: Cmd_GetBit_def good_offsets bnd_apply)
qed

section \<open>Accessor rules\<close>

named_theorems accessor_rules \<open>the idioms that meet the contract of an accessor\<close>

lemma fits_ucast: "dw_fits (w, l, n) v \<Longrightarrow> n \<le> LENGTH('a::len) \<Longrightarrow> ucast (ucast v :: 'a word) = v"
  by (simp add: dw_fits_def ucast_narrow)

lemma get_ucast: "n \<le> LENGTH('a::len) \<Longrightarrow> ucast (ucast (dw_get (w, l, n) c) :: 'a word) = dw_get (w, l, n) c"
  by (rule ucast_narrow) (use dw_get_narrow [of "(w, l, n)" c] in simp_all)

lemma acc_dword [accessor_rules]:
  "cmd_accessor (\<lambda>v. Cmd_SetDword v w) (Cmd_GetDword w) (unat w, 0, 32)"
proof
  have p: "put_field (0, 32) v x = v" for v x
    by (rule bit_word_eqI) (auto simp: put_field_def bit_simps)
  have g: "get_field (0, 32) x = x" for x by (rule bit_word_eqI) (simp add: get_field_def bit_simps)
  show "dw_ok (unat w, 0, 32) c \<Longrightarrow> Cmd_SetDword v w c = (Inr (), dw_put (unat w, 0, 32) v c)" for c v
    by (simp add: dw_ok_def SetDword_ok dw_put_def p)
  show "dw_ok (unat w, 0, 32) c \<Longrightarrow> Cmd_GetDword w c = (Inr (dw_get (unat w, 0, 32) c), c)" for c
    by (simp add: dw_ok_def GetDword_ok dw_get_def g)
qed

lemma acc_byte [accessor_rules]:
  "unat off < 4 \<Longrightarrow> cmd_accessor (via_word (\<lambda>v. Cmd_SetByte v w off)) (get_word (Cmd_GetByte w off))
     (unat w, unat off * 8, 8)"
  by unfold_locales (simp_all add: via_word_def get_word_def bnd_apply SetByte_put GetByte_get fits_ucast get_ucast)

lemma acc_word [accessor_rules]:
  "unat off < 2 \<Longrightarrow> cmd_accessor (via_word (\<lambda>v. Cmd_SetWord v w off)) (get_word (Cmd_GetWord w off))
     (unat w, unat off * 16, 16)"
  by unfold_locales (simp_all add: via_word_def get_word_def bnd_apply SetWord_put GetWord_get fits_ucast get_ucast)

lemma one_bit: "take_bit 1 (v :: u32) = v \<Longrightarrow> v = 0 \<or> v = 1"
  by (metis take_bit_eq_mod power_one_right parity_cases even_iff_mod_2_eq_zero odd_iff_mod_2_eq_one)

lemma acc_bit [accessor_rules]:
  assumes "unat off < 32"
  shows "cmd_accessor (via_bool (\<lambda>v. Cmd_SetBit v w off)) (get_bool (Cmd_GetBit w off)) (unat w, unat off, 1)"
proof
  fix c v assume "dw_ok (unat w, unat off, 1) c"
  then show "dw_fits (unat w, unat off, 1) v \<Longrightarrow>
      via_bool (\<lambda>v. Cmd_SetBit v w off) v c = (Inr (), dw_put (unat w, unat off, 1) v c)"
    using one_bit [of v] assms by (auto simp: via_bool_def SetBit_put dw_fits_def)
next
  fix c assume "dw_ok (unat w, unat off, 1) c"
  then show "get_bool (Cmd_GetBit w off) c = (Inr (dw_get (unat w, unat off, 1) c), c)"
    using one_bit [of "dw_get (unat w, unat off, 1) c"] dw_get_narrow [of "(unat w, unat off, 1)" c] assms
    by (auto simp: get_bool_def GetBit_get bnd_apply)
qed

text \<open>The masked byte: the field of \<open>n\<close> bits at \<open>sh\<close> within the byte.\<close>

lemma dw_ok_byte: "dw_ok (w, k * 8 + sh, n) c \<Longrightarrow> k < 4 \<Longrightarrow> dw_ok (w, k * 8, 8) c"
  by (simp add: dw_ok_def field_ok_def)

lemma rmw_byte_put:
  assumes ok: "dw_ok (unat w, unat off * 8 + sh, n) c" and off: "unat off < 4" and n: "sh + n \<le> 8"
    and m: "m = push_bit sh (mask n)" and b: "b = push_bit sh (ucast v)"
    and v: "dw_fits (unat w, unat off * 8 + sh, n) v"
  shows "rmw_byte m b w off c = (Inr (), dw_put (unat w, unat off * 8 + sh, n) v c)"
proof -
  let ?l = "unat off * 8" and ?x = "cmd_dw c (unat w)"
  have v': "bit v i \<Longrightarrow> i < n" for i
    using v by (metis bit_take_bit_iff dw_fits_def snd_conv)
  have "put_field (?l, 8) (ucast (((ucast (get_field (?l, 8) ?x) :: u8) AND NOT m) OR b)) ?x =
      put_field (?l + sh, n) v ?x"
    by (rule bit_word_eqI) (use n off in \<open>auto simp: m b put_field_def get_field_def bit_simps dest: v'\<close>)
  then have "dw_put (unat w, ?l, 8) (ucast (((ucast (dw_get (unat w, ?l, 8) c) :: u8) AND NOT m) OR b)) c =
      dw_put (unat w, ?l + sh, n) v c"
    by (simp add: dw_put_def dw_get_def)
  then show ?thesis
    using dw_ok_byte [OF ok off] off
    by (simp add: rmw_byte_def bnd_apply GetByte_get SetByte_put)
qed

lemma byte_field_get:
  assumes ok: "dw_ok (unat w, unat off * 8 + sh, n) c" and off: "unat off < 4" and n: "sh + n \<le> 8"
    and g: "\<And>b. g b = take_bit n (drop_bit sh b)"
  shows "get_word (bnd (Cmd_GetByte w off) (\<lambda>b. ret (g b :: u8))) c =
    (Inr (dw_get (unat w, unat off * 8 + sh, n) c), c)"
proof -
  have "ucast (take_bit n (drop_bit sh (ucast (get_field (unat off * 8, 8) x) :: u8))) =
      get_field (unat off * 8 + sh, n) (x :: u32)" for x
    by (rule bit_word_eqI) (use n in \<open>auto simp: get_field_def bit_simps add_ac\<close>)
  then show ?thesis
    using dw_ok_byte [OF ok off] off
    by (simp add: get_word_def bnd_apply GetByte_get g dw_get_def)
qed

text \<open>The same for a field within a word, and for a nibble.\<close>

lemma dw_ok_word: "dw_ok (w, k * 16 + sh, n) c \<Longrightarrow> k < 2 \<Longrightarrow> dw_ok (w, k * 16, 16) c"
  by (simp add: dw_ok_def field_ok_def)

lemma rmw_word_put:
  assumes ok: "dw_ok (unat w, unat off * 16 + sh, n) c" and off: "unat off < 2" and n: "sh + n \<le> 16"
    and m: "m = push_bit sh (mask n)" and b: "b = push_bit sh (ucast v)"
    and v: "dw_fits (unat w, unat off * 16 + sh, n) v"
  shows "rmw_word m b w off c = (Inr (), dw_put (unat w, unat off * 16 + sh, n) v c)"
proof -
  let ?l = "unat off * 16" and ?x = "cmd_dw c (unat w)"
  have v': "bit v i \<Longrightarrow> i < n" for i
    using v by (metis bit_take_bit_iff dw_fits_def snd_conv)
  have "put_field (?l, 16) (ucast (((ucast (get_field (?l, 16) ?x) :: u16) AND NOT m) OR b)) ?x =
      put_field (?l + sh, n) v ?x"
    by (rule bit_word_eqI) (use n off in \<open>auto simp: m b put_field_def get_field_def bit_simps dest: v'\<close>)
  then have "dw_put (unat w, ?l, 16) (ucast (((ucast (dw_get (unat w, ?l, 16) c) :: u16) AND NOT m) OR b)) c =
      dw_put (unat w, ?l + sh, n) v c"
    by (simp add: dw_put_def dw_get_def)
  then show ?thesis
    using dw_ok_word [OF ok off] off
    by (simp add: rmw_word_def bnd_apply GetWord_get SetWord_put)
qed

lemma word_field_get:
  assumes ok: "dw_ok (unat w, unat off * 16 + sh, n) c" and off: "unat off < 2" and n: "sh + n \<le> 16"
    and g: "\<And>b. g b = take_bit n (drop_bit sh b)"
  shows "get_word (bnd (Cmd_GetWord w off) (\<lambda>b. ret (g b :: u16))) c =
    (Inr (dw_get (unat w, unat off * 16 + sh, n) c), c)"
proof -
  have "ucast (take_bit n (drop_bit sh (ucast (get_field (unat off * 16, 16) x) :: u16))) =
      get_field (unat off * 16 + sh, n) (x :: u32)" for x
    by (rule bit_word_eqI) (use n in \<open>auto simp: get_field_def bit_simps add_ac\<close>)
  then show ?thesis
    using dw_ok_word [OF ok off] off
    by (simp add: get_word_def bnd_apply GetWord_get g dw_get_def)
qed

lemma SetNibble_put:
  assumes "dw_ok (unat w, unat off * 4, 4) c" and "unat off < 8"
  shows "Cmd_SetNibble v w off c = (Inr (), dw_put (unat w, unat off * 4, 4) (ucast v) c)"
  using SetBits_put [of w off 4 c] assms by (simp add: Cmd_SetNibble_def good_offsets)

lemma fits_narrow: "dw_fits (w, l, n) v \<Longrightarrow> take_bit n (ucast v :: 'a::len word) = ucast v"
proof -
  assume "dw_fits (w, l, n) v"
  then have "bit v i \<Longrightarrow> i < n" for i by (metis bit_take_bit_iff dw_fits_def snd_conv)
  then show ?thesis by (intro bit_word_eqI) (auto simp: bit_simps)
qed

text \<open>The masked byte as an accessor, with and without a check of the value's width.\<close>

lemma acc_masked_byte:
  assumes "unat off < 4" and "sh + n \<le> 8" and "m = push_bit sh (mask n)"
    and b: "\<And>v. take_bit n v = v \<Longrightarrow> b v = push_bit sh v" and g: "\<And>x. g x = take_bit n (drop_bit sh x)"
  shows "cmd_accessor (via_word (\<lambda>v. rmw_byte m (b v) w off))
    (get_word (bnd (Cmd_GetByte w off) (\<lambda>x. ret (g x)))) (unat w, unat off * 8 + sh, n)"
proof
  fix c v assume ok: "dw_ok (unat w, unat off * 8 + sh, n) c" and fit: "dw_fits (unat w, unat off * 8 + sh, n) v"
  show "via_word (\<lambda>v. rmw_byte m (b v) w off) v c = (Inr (), dw_put (unat w, unat off * 8 + sh, n) v c)"
    using rmw_byte_put [OF ok assms(1-3) b [OF fits_narrow [OF fit]] fit] by (simp add: via_word_def)
next
  fix c assume "dw_ok (unat w, unat off * 8 + sh, n) c"
  then show "get_word (bnd (Cmd_GetByte w off) (\<lambda>x. ret (g x))) c =
      (Inr (dw_get (unat w, unat off * 8 + sh, n) c), c)"
    by (rule byte_field_get [OF _ assms(1,2) g])
qed

lemma acc_checked:
  fixes s :: "'a::len word \<Rightarrow> unit cmd_prog"
  assumes "cmd_accessor (via_word s) g (w, l, n)" and "\<And>v :: 'a word. take_bit n v = v \<Longrightarrow> v \<le> k"
  shows "cmd_accessor (via_word (\<lambda>v. sq (throw_if (v > k) e) (s v))) g (w, l, n)"
proof
  fix c v assume "dw_ok (w, l, n) c" and fit: "dw_fits (w, l, n) v"
  moreover have "\<not> (ucast v :: 'a word) > k" using assms(2) [OF fits_narrow [OF fit]] by simp
  ultimately show "via_word (\<lambda>v. sq (throw_if (v > k) e) (s v)) v c = (Inr (), dw_put (w, l, n) v c)"
    using cmd_accessor.setter_put [OF assms(1)] by (simp add: via_word_def)
qed (rule cmd_accessor.getter_get [OF assms(1)])

lemma acc_masked_word:
  assumes "unat off < 2" and "sh + n \<le> 16" and "m = push_bit sh (mask n)"
    and b: "\<And>v. take_bit n v = v \<Longrightarrow> b v = push_bit sh v" and g: "\<And>x. g x = take_bit n (drop_bit sh x)"
  shows "cmd_accessor (via_word (\<lambda>v. rmw_word m (b v) w off))
    (get_word (bnd (Cmd_GetWord w off) (\<lambda>x. ret (g x)))) (unat w, unat off * 16 + sh, n)"
proof
  fix c v assume ok: "dw_ok (unat w, unat off * 16 + sh, n) c" and fit: "dw_fits (unat w, unat off * 16 + sh, n) v"
  show "via_word (\<lambda>v. rmw_word m (b v) w off) v c = (Inr (), dw_put (unat w, unat off * 16 + sh, n) v c)"
    using rmw_word_put [OF ok assms(1-3) b [OF fits_narrow [OF fit]] fit] by (simp add: via_word_def)
next
  fix c assume "dw_ok (unat w, unat off * 16 + sh, n) c"
  then show "get_word (bnd (Cmd_GetWord w off) (\<lambda>x. ret (g x))) c =
      (Inr (dw_get (unat w, unat off * 16 + sh, n) c), c)"
    by (rule word_field_get [OF _ assms(1,2) g])
qed

section \<open>Introduction rules for definitions\<close>

text \<open>
  One rule per idiom, in the form that a pair of definitions resolves against: the setter and getter
  as equations, then the side conditions on the constants.
\<close>

lemma acc_dwordI:
  "(\<And>v. s v = Cmd_SetDword v w) \<Longrightarrow> g = Cmd_GetDword w \<Longrightarrow> f = (unat w, 0, 32) \<Longrightarrow> cmd_accessor s g f"
  using acc_dword [of w] by presburger

lemma acc_byteI:
  "(\<And>v. s v = Cmd_SetByte v w off) \<Longrightarrow> g = Cmd_GetByte w off \<Longrightarrow> unat off < 4 \<Longrightarrow>
     f = (unat w, unat off * 8, 8) \<Longrightarrow> cmd_accessor (via_word s) (get_word g) f"
  using acc_byte [of off w] by presburger

lemma acc_wordI:
  "(\<And>v. s v = Cmd_SetWord v w off) \<Longrightarrow> g = Cmd_GetWord w off \<Longrightarrow> unat off < 2 \<Longrightarrow>
     f = (unat w, unat off * 16, 16) \<Longrightarrow> cmd_accessor (via_word s) (get_word g) f"
  using acc_word [of off w] by presburger

lemma acc_bitI:
  "(\<And>v. s v = Cmd_SetBit v w off) \<Longrightarrow> g = Cmd_GetBit w off \<Longrightarrow> unat off < 32 \<Longrightarrow>
     f = (unat w, unat off, 1) \<Longrightarrow> cmd_accessor (via_bool s) (get_bool g) f"
  using acc_bit [of off w] by presburger

lemma shifted_mask:
  fixes x v :: "'a::len word"
  assumes "m = push_bit sh (mask n)" and "sh + n \<le> LENGTH('a)"
  shows "take_bit n v = v \<Longrightarrow> push_bit sh v AND m = push_bit sh v"
    and "drop_bit sh (x AND m) = take_bit n (drop_bit sh x)"
proof -
  assume "take_bit n v = v"
  then have v: "bit v i \<Longrightarrow> i < n" for i by (metis bit_take_bit_iff)
  then show "push_bit sh v AND m = push_bit sh v"
    by (intro bit_word_eqI) (auto simp: assms(1) bit_simps dest: v)
next
  show "drop_bit sh (x AND m) = take_bit n (drop_bit sh x)"
    by (rule bit_word_eqI) (use assms(2) in \<open>auto simp: assms(1) bit_simps dest: bit_imp_le_length\<close>)
qed

text \<open>A field at the bottom of a byte, with and without the mask on the value; a shifted field.\<close>

lemma acc_lowI:
  assumes "\<And>v. s v = rmw_byte m (v AND m) w off" and "g = bnd (Cmd_GetByte w off) (\<lambda>x. ret (x AND m))"
    and "m = mask n" and "n \<le> 8" and "unat off < 4" and "f = (unat w, unat off * 8, n)"
  shows "cmd_accessor (via_word s) (get_word g) f"
proof -
  have s: "s = (\<lambda>v. rmw_byte m (v AND m) w off)" using assms(1) by blast
  show ?thesis
    unfolding s assms(2,6)
    using acc_masked_byte [of off 0 n m "\<lambda>v. v AND m" "\<lambda>x. x AND m" w] shifted_mask [of m 0 n] assms(3-5)
    by simp
qed

lemma fits_le_mask: "take_bit n v = v \<Longrightarrow> v \<le> mask n" for v :: "'a::len word"
  by (metis take_bit_eq_mask word_and_le1 word_and_le2)

lemma acc_low_plainI:
  assumes "\<And>v. s v = sq (throw_if (v > m) e) (rmw_byte m v w off)"
    and "g = bnd (Cmd_GetByte w off) (\<lambda>x. ret (x AND m))"
    and "m = mask n" and "n \<le> 8" and "unat off < 4" and "f = (unat w, unat off * 8, n)"
  shows "cmd_accessor (via_word s) (get_word g) f"
proof -
  have s: "s = (\<lambda>v. sq (throw_if (v > m) e) (rmw_byte m v w off))" using assms(1) by blast
  have le: "take_bit n v = v \<Longrightarrow> v \<le> m" for v :: u8
    using fits_le_mask [of n v] assms(3) by simp
  show ?thesis
    unfolding s assms(2,6)
    using acc_checked [OF acc_masked_byte [of off 0 n m "\<lambda>v. v" "\<lambda>x. x AND m" w] le, of e] shifted_mask(2) [of m 0 n] assms(3-5)
    by simp
qed

lemma acc_low_checkedI:
  assumes "\<And>v. s v = sq (throw_if (v > m) e) (rmw_byte m (v AND m) w off)"
    and "g = bnd (Cmd_GetByte w off) (\<lambda>x. ret (x AND m))"
    and "m = mask n" and "n \<le> 8" and "unat off < 4" and "f = (unat w, unat off * 8, n)"
  shows "cmd_accessor (via_word s) (get_word g) f"
proof -
  have s: "s = (\<lambda>v. sq (throw_if (v > m) e) (rmw_byte m (v AND m) w off))" using assms(1) by blast
  have le: "take_bit n v = v \<Longrightarrow> v \<le> m" for v :: u8 using fits_le_mask [of n v] assms(3) by simp
  have l: "cmd_accessor (via_word (\<lambda>v. rmw_byte m (v AND m) w off)) (get_word g) (unat w, unat off * 8, n)"
    by (rule acc_lowI [where m = m and n = n and w = w and off = off]) (use assms in simp_all)
  show ?thesis unfolding s assms(6) by (rule acc_checked [OF l le])
qed

lemma acc_shift_andI:
  assumes "\<And>v. s v = sq (throw_if (v > k) e) (rmw_byte m (push_bit sh v AND m) w off)"
    and "g = bnd (Cmd_GetByte w off) (\<lambda>x. ret (drop_bit sh (x AND m)))"
    and "k = mask n" and "m = push_bit sh (mask n)" and "sh + n \<le> 8" and "unat off < 4"
    and "f = (unat w, unat off * 8 + sh, n)"
  shows "cmd_accessor (via_word s) (get_word g) f"
proof -
  have s: "s = (\<lambda>v. sq (throw_if (v > k) e) (rmw_byte m (push_bit sh v AND m) w off))" using assms(1) by blast
  have le: "take_bit n v = v \<Longrightarrow> v \<le> k" for v :: u8 using fits_le_mask [of n v] assms(3) by simp
  show ?thesis
    unfolding s assms(2,7)
    by (rule acc_checked [OF acc_masked_byte le]) (use shifted_mask [OF assms(4)] assms(4-6) in simp_all)
qed

lemma acc_shiftI:
  assumes "\<And>v. s v = sq (throw_if (v > k) e) (rmw_byte m (push_bit sh v) w off)"
    and "g = bnd (Cmd_GetByte w off) (\<lambda>x. ret (drop_bit sh x AND k))"
    and "k = mask n" and "m = push_bit sh (mask n)" and "sh + n \<le> 8" and "unat off < 4"
    and "f = (unat w, unat off * 8 + sh, n)"
  shows "cmd_accessor (via_word s) (get_word g) f"
proof -
  have s: "s = (\<lambda>v. sq (throw_if (v > k) e) (rmw_byte m (push_bit sh v) w off))" using assms(1) by blast
  have le: "take_bit n v = v \<Longrightarrow> v \<le> k" for v :: u8 using fits_le_mask [of n v] assms(3) by simp
  show ?thesis
    unfolding s assms(2,7)
    by (rule acc_checked [OF acc_masked_byte le]) (use assms(3-6) in \<open>simp_all add: take_bit_eq_mask\<close>)
qed

text \<open>A nibble set as such and read as the low bits of its byte.\<close>

lemma acc_nibbleI:
  assumes "\<And>v. s v = Cmd_SetNibble v w 0" and "g = bnd (Cmd_GetByte w 0) (\<lambda>x. ret (x AND 0x0f))"
    and "f = (unat w, 0, 4)"
  shows "cmd_accessor (via_word s) (get_word g) f"
proof
  have m: "(x :: u8) AND 0x0f = take_bit 4 (drop_bit 0 x)" for x
    by (simp add: take_bit_eq_mask mask_eq_exp_minus_1)
  fix c v assume ok: "dw_ok f c"
  show "dw_fits f v \<Longrightarrow> via_word s v c = (Inr (), dw_put f v c)"
    using SetNibble_put [of w 0 c] ok fits_ucast [of "unat w" 0 4 v, where 'a = 8]
    by (simp add: via_word_def assms(1,3))
  show "get_word g c = (Inr (dw_get f c), c)"
    using byte_field_get [of w 0 0 4 c "\<lambda>x. x AND 0x0f"] ok m by (simp add: assms(2,3))
qed

end
