(* ===== verification/Admin_Cmds.thy ===== *)
theory Admin_Cmds
  imports Cmd_Fields Queues
begin

text \<open>
  The admin command classes (directory Cmds): constructors, and the setters and getters of their
  fields, with the masks and checks of the code; Create and Delete I/O Queue, which encode a queue
  object. What a setter only logs is not modelled.
\<close>

section \<open>AdminCmd, AsyncEventReq\<close>

definition AdminCmd_Init :: "libc \<Rightarrow> u8 \<Rightarrow> u16 \<Rightarrow> unit cmd_prog" where
  "AdminCmd_Init C opcode cmdSize = Cmd_Init C opcode DATADIR_NONE cmdSize"

definition AsyncEventReq_AsyncEventReq :: "libc \<Rightarrow> ex + cmd" where
  "AsyncEventReq_AsyncEventReq C = new_cmd_plain C OBJ_ASYNCEVENTREQ 0x0c DATADIR_NONE"

section \<open>Features\<close>

definition BaseFeatures_SetFID :: "u8 \<Rightarrow> unit cmd_prog" where
  "BaseFeatures_SetFID v = Cmd_SetByte v 10 0"

definition BaseFeatures_GetFID :: "u8 cmd_prog" where
  "BaseFeatures_GetFID = Cmd_GetByte 10 0"

definition GetFeatures_GetFeatures :: "libc \<Rightarrow> send_masks \<Rightarrow> ex + cmd" where
  "GetFeatures_GetFeatures C M = new_cmd C M OBJ_GETFEATURES 0x0a DATADIR_FROM_DEVICE 64 (MASK_PRP1_PAGE M OR MASK_PRP2_PAGE M)"

definition GetFeatures_SetIntVecConfigIV :: "u16 \<Rightarrow> unit cmd_prog" where
  "GetFeatures_SetIntVecConfigIV v = Cmd_SetWord v 11 0"

definition GetFeatures_SetSelField :: "u8 \<Rightarrow> unit cmd_prog" where
  "GetFeatures_SetSelField v = rmw_byte 0x07 (v AND 0x07) 10 1"

definition SetFeatures_SetFeatures :: "libc \<Rightarrow> send_masks \<Rightarrow> ex + cmd" where
  "SetFeatures_SetFeatures C M = new_cmd C M OBJ_SETFEATURES 0x09 DATADIR_TO_DEVICE 64 (MASK_PRP1_PAGE M OR MASK_PRP2_PAGE M)"

definition SetFeatures_SetArbitrationHPW :: "u8 \<Rightarrow> unit cmd_prog" where
  "SetFeatures_SetArbitrationHPW v = Cmd_SetByte v 11 3"

definition SetFeatures_GetArbitrationHPW :: "u8 cmd_prog" where
  "SetFeatures_GetArbitrationHPW = Cmd_GetByte 11 3"

definition SetFeatures_SetArbitrationMPW :: "u8 \<Rightarrow> unit cmd_prog" where
  "SetFeatures_SetArbitrationMPW v = Cmd_SetByte v 11 2"

definition SetFeatures_GetArbitrationMPW :: "u8 cmd_prog" where
  "SetFeatures_GetArbitrationMPW = Cmd_GetByte 11 2"

definition SetFeatures_SetArbitrationLPW :: "u8 \<Rightarrow> unit cmd_prog" where
  "SetFeatures_SetArbitrationLPW v = Cmd_SetByte v 11 1"

definition SetFeatures_GetArbitrationLPW :: "u8 cmd_prog" where
  "SetFeatures_GetArbitrationLPW = Cmd_GetByte 11 1"

text \<open>The masked value \<open>work\<close> is computed, but the argument is stored.\<close>

definition SetFeatures_SetArbitrationAB :: "u8 \<Rightarrow> unit cmd_prog" where
  "SetFeatures_SetArbitrationAB ab = bnd (Cmd_GetByte 11 0) (\<lambda>work. Cmd_SetByte ab 11 0)"

definition SetFeatures_GetArbitrationAB :: "u8 cmd_prog" where
  "SetFeatures_GetArbitrationAB = bnd (Cmd_GetByte 11 0) (\<lambda>b. ret (b AND 0x07))"

definition SetFeatures_SetArbitration :: "u8 \<Rightarrow> u8 \<Rightarrow> u8 \<Rightarrow> u8 \<Rightarrow> unit cmd_prog" where
  "SetFeatures_SetArbitration hpw mpw lpw ab =
     sq (SetFeatures_SetArbitrationHPW hpw)
     (sq (SetFeatures_SetArbitrationMPW mpw)
     (sq (SetFeatures_SetArbitrationLPW lpw)
         (SetFeatures_SetArbitrationAB ab)))"

definition SetFeatures_GetArbitration :: "u32 cmd_prog" where
  "SetFeatures_GetArbitration = Cmd_GetDword 11"

text \<open>The power state is checked against the controller's number of power states.\<close>

definition SetFeatures_SetPowerManagementPS :: "u8 \<Rightarrow> (cmd \<times> ('d, 'm) world_scheme, unit) prog" where
  "SetFeatures_SetPowerManagementPS ps =
     bnd (onr Informative_GetIdentifyCmdCtrlr) (\<lambda>idc.
     bnd (onr (Identify_GetValue_ctrlr idc IDCTRLRCAP_NPSS)) (\<lambda>v.
     sq (throw_if (ps > (ucast v :: u8)) (FrmwkEx ''PS %d shall not be > NPSS # %d''))
       (onl (rmw_byte 0x1f (ps AND 0x1f) 11 0))))"

definition SetFeatures_GetPowerManagementPS :: "u8 cmd_prog" where
  "SetFeatures_GetPowerManagementPS = bnd (Cmd_GetByte 11 0) (\<lambda>b. ret (b AND 0x1f))"

definition SetFeatures_SetUnsafePS :: "u8 \<Rightarrow> unit cmd_prog" where
  "SetFeatures_SetUnsafePS ps = rmw_byte 0x1f (ps AND 0x1f) 11 0"

definition SetFeatures_SetLBARangeTypeNUM :: "u8 \<Rightarrow> unit cmd_prog" where
  "SetFeatures_SetLBARangeTypeNUM v = rmw_byte 0x3f (v AND 0x3f) 11 0"

definition SetFeatures_GetLBARangeTypeNUM :: "u8 cmd_prog" where
  "SetFeatures_GetLBARangeTypeNUM = bnd (Cmd_GetByte 11 0) (\<lambda>b. ret (b AND 0x3f))"

definition SetFeatures_SetTempThresholdTMPTH :: "u16 \<Rightarrow> unit cmd_prog" where
  "SetFeatures_SetTempThresholdTMPTH v = Cmd_SetWord v 11 0"

definition SetFeatures_GetTempThresholdTMPTH :: "u16 cmd_prog" where
  "SetFeatures_GetTempThresholdTMPTH = Cmd_GetWord 11 0"

definition SetFeatures_SetErrRecoveryTLER :: "u16 \<Rightarrow> unit cmd_prog" where
  "SetFeatures_SetErrRecoveryTLER v = Cmd_SetWord v 11 0"

definition SetFeatures_GetErrRecoveryTLER :: "u16 cmd_prog" where
  "SetFeatures_GetErrRecoveryTLER = Cmd_GetWord 11 0"

definition SetFeatures_SetErrRecoveryDULBE :: "bool \<Rightarrow> unit cmd_prog" where
  "SetFeatures_SetErrRecoveryDULBE v = Cmd_SetBit v 11 16"

definition SetFeatures_GetErrRecoveryDULBE :: "bool cmd_prog" where
  "SetFeatures_GetErrRecoveryDULBE = Cmd_GetBit 11 16"

definition SetFeatures_SetVolatileWriteCacheWCE :: "u8 \<Rightarrow> unit cmd_prog" where
  "SetFeatures_SetVolatileWriteCacheWCE v = rmw_byte 0x01 (v AND 0x01) 11 0"

definition SetFeatures_GetVolatileWriteCacheWCE :: "u8 cmd_prog" where
  "SetFeatures_GetVolatileWriteCacheWCE = bnd (Cmd_GetByte 11 0) (\<lambda>b. ret (b AND 0x01))"

definition SetFeatures_SetNumberOfQueuesNCQR :: "u16 \<Rightarrow> unit cmd_prog" where
  "SetFeatures_SetNumberOfQueuesNCQR v = Cmd_SetWord v 11 1"

definition SetFeatures_GetNumberOfQueuesNCQR :: "u16 cmd_prog" where
  "SetFeatures_GetNumberOfQueuesNCQR = Cmd_GetWord 11 1"

definition SetFeatures_SetNumberOfQueuesNSQR :: "u16 \<Rightarrow> unit cmd_prog" where
  "SetFeatures_SetNumberOfQueuesNSQR v = Cmd_SetWord v 11 0"

definition SetFeatures_GetNumberOfQueuesNSQR :: "u16 cmd_prog" where
  "SetFeatures_GetNumberOfQueuesNSQR = Cmd_GetWord 11 0"

definition SetFeatures_SetNumberOfQueues :: "u16 \<Rightarrow> u16 \<Rightarrow> unit cmd_prog" where
  "SetFeatures_SetNumberOfQueues ncqr nsqr =
     sq (SetFeatures_SetNumberOfQueuesNCQR ncqr) (SetFeatures_SetNumberOfQueuesNSQR nsqr)"

definition SetFeatures_GetNumberOfQueues :: "u32 cmd_prog" where
  "SetFeatures_GetNumberOfQueues = Cmd_GetDword 11"

definition SetFeatures_SetIntCoalescingTIME :: "u8 \<Rightarrow> unit cmd_prog" where
  "SetFeatures_SetIntCoalescingTIME v = Cmd_SetByte v 11 1"

definition SetFeatures_GetIntCoalescingTIME :: "u8 cmd_prog" where
  "SetFeatures_GetIntCoalescingTIME = Cmd_GetByte 11 1"

definition SetFeatures_SetIntCoalescingTHR :: "u8 \<Rightarrow> unit cmd_prog" where
  "SetFeatures_SetIntCoalescingTHR v = Cmd_SetByte v 11 0"

definition SetFeatures_GetIntCoalescingTHR :: "u8 cmd_prog" where
  "SetFeatures_GetIntCoalescingTHR = Cmd_GetByte 11 0"

definition SetFeatures_SetIntCoalescing :: "u8 \<Rightarrow> u8 \<Rightarrow> unit cmd_prog" where
  "SetFeatures_SetIntCoalescing time thr =
     sq (SetFeatures_SetIntCoalescingTIME time) (SetFeatures_SetIntCoalescingTHR thr)"

definition SetFeatures_GetIntCoalescing :: "u32 cmd_prog" where
  "SetFeatures_GetIntCoalescing = Cmd_GetDword 11"

definition SetFeatures_SetIntVecConfigIV :: "u16 \<Rightarrow> unit cmd_prog" where
  "SetFeatures_SetIntVecConfigIV v = Cmd_SetWord v 11 0"

definition SetFeatures_GetIntVecConfigIV :: "u16 cmd_prog" where
  "SetFeatures_GetIntVecConfigIV = Cmd_GetWord 11 0"

definition SetFeatures_SetIntVecConfigCD :: "u8 \<Rightarrow> unit cmd_prog" where
  "SetFeatures_SetIntVecConfigCD v = rmw_byte 0x01 (v AND 0x01) 11 2"

definition SetFeatures_GetIntVecConfigCD :: "u8 cmd_prog" where
  "SetFeatures_GetIntVecConfigCD = bnd (Cmd_GetByte 11 2) (\<lambda>b. ret (b AND 0x01))"

definition SetFeatures_SetIntVecConfig :: "u8 \<Rightarrow> u16 \<Rightarrow> unit cmd_prog" where
  "SetFeatures_SetIntVecConfig cd iv =
     sq (SetFeatures_SetIntVecConfigCD cd) (SetFeatures_SetIntVecConfigIV iv)"

definition SetFeatures_GetIntVecConfig :: "u32 cmd_prog" where
  "SetFeatures_GetIntVecConfig = Cmd_GetDword 11"

definition SetFeatures_SetWriteAtomicityDN :: "u8 \<Rightarrow> unit cmd_prog" where
  "SetFeatures_SetWriteAtomicityDN v = rmw_byte 0x01 (v AND 0x01) 11 0"

definition SetFeatures_GetWriteAtomicityDN :: "u8 cmd_prog" where
  "SetFeatures_GetWriteAtomicityDN = bnd (Cmd_GetByte 11 0) (\<lambda>b. ret (b AND 0x01))"

definition SetFeatures_SetAsyncEventConfigSMART :: "u16 \<Rightarrow> unit cmd_prog" where
  "SetFeatures_SetAsyncEventConfigSMART v = Cmd_SetWord v 11 0"

definition SetFeatures_GetAsyncEventConfigSMART :: "u16 cmd_prog" where
  "SetFeatures_GetAsyncEventConfigSMART = Cmd_GetWord 11 0"

definition SetFeatures_SetSWProgressMarkerPBSLC :: "u8 \<Rightarrow> unit cmd_prog" where
  "SetFeatures_SetSWProgressMarkerPBSLC v = Cmd_SetByte v 11 0"

definition SetFeatures_GetSWProgressMarkerPBSLC :: "u8 cmd_prog" where
  "SetFeatures_GetSWProgressMarkerPBSLC = Cmd_GetByte 11 0"

definition SetFeatures_SetAutoPSTransAPSTE :: "bool \<Rightarrow> unit cmd_prog" where
  "SetFeatures_SetAutoPSTransAPSTE v = Cmd_SetBit v 11 0"

definition SetFeatures_GetAutoPSTransAPSTE :: "bool cmd_prog" where
  "SetFeatures_GetAutoPSTransAPSTE = Cmd_GetBit 11 0"

definition SetFeatures_SetSave :: "bool \<Rightarrow> unit cmd_prog" where
  "SetFeatures_SetSave v = Cmd_SetBit v 10 31"

section \<open>Format NVM\<close>

definition FormatNVM_FormatNVM :: "libc \<Rightarrow> ex + cmd" where
  "FormatNVM_FormatNVM C = new_cmd_plain C OBJ_FORMATNVM 0x80 DATADIR_NONE"

definition FormatNVM_SetSES :: "u8 \<Rightarrow> unit cmd_prog" where
  "FormatNVM_SetSES ses =
     sq (throw_if (ses > 0x07) (FrmwkEx ''Illegal ses %d > %d(max)''))
       (rmw_byte 0x0e (push_bit 1 ses AND 0x0e) 10 1)"

definition FormatNVM_GetSES :: "u8 cmd_prog" where
  "FormatNVM_GetSES = bnd (Cmd_GetByte 10 1) (\<lambda>work. ret (drop_bit 1 (work AND 0x0e)))"

definition FormatNVM_SetPIL :: "bool \<Rightarrow> unit cmd_prog" where
  "FormatNVM_SetPIL v = Cmd_SetBit v 10 8"

definition FormatNVM_GetPIL :: "bool cmd_prog" where
  "FormatNVM_GetPIL = Cmd_GetBit 10 8"

definition FormatNVM_SetPI :: "u8 \<Rightarrow> unit cmd_prog" where
  "FormatNVM_SetPI pi =
     sq (throw_if (pi > 0x07) (FrmwkEx ''Illegal pi %d > %d(max)''))
       (rmw_byte 0xe0 (push_bit 5 pi AND 0xe0) 10 0)"

definition FormatNVM_GetPI :: "u8 cmd_prog" where
  "FormatNVM_GetPI = bnd (Cmd_GetByte 10 0) (\<lambda>work. ret (drop_bit 5 (work AND 0xe0)))"

definition FormatNVM_SetMS :: "bool \<Rightarrow> unit cmd_prog" where
  "FormatNVM_SetMS v = Cmd_SetBit v 10 4"

definition FormatNVM_GetMS :: "bool cmd_prog" where
  "FormatNVM_GetMS = Cmd_GetBit 10 4"

definition FormatNVM_SetLBAF :: "u8 \<Rightarrow> unit cmd_prog" where
  "FormatNVM_SetLBAF lbaf =
     sq (throw_if (lbaf > 0x0f) (FrmwkEx ''Illegal lbaf %d > %d(max)''))
       (rmw_byte 0x0f (lbaf AND 0x0f) 10 0)"

definition FormatNVM_GetLBAF :: "u8 cmd_prog" where
  "FormatNVM_GetLBAF = bnd (Cmd_GetByte 10 0) (\<lambda>work. ret (work AND 0x0f))"

section \<open>Firmware\<close>

definition FWActivate_FWActivate :: "libc \<Rightarrow> ex + cmd" where
  "FWActivate_FWActivate C = new_cmd_plain C OBJ_FWACTIVATE 0x10 DATADIR_NONE"

definition FWActivate_SetAA :: "u8 \<Rightarrow> unit cmd_prog" where
  "FWActivate_SetAA aa =
     sq (throw_if (aa > 0x03) (FrmwkEx ''Value to large; must fit within 2 bits''))
       (rmw_byte 0x18 (push_bit 3 aa) 10 0)"

definition FWActivate_GetAA :: "u8 cmd_prog" where
  "FWActivate_GetAA = bnd (Cmd_GetByte 10 0) (\<lambda>b. ret (drop_bit 3 b AND 0x03))"

definition FWActivate_SetFS :: "u8 \<Rightarrow> unit cmd_prog" where
  "FWActivate_SetFS fs =
     sq (throw_if (fs > 0x07) (FrmwkEx ''Value to large; must fit within 3 bits''))
       (rmw_byte 0x07 fs 10 0)"

definition FWActivate_GetFS :: "u8 cmd_prog" where
  "FWActivate_GetFS = bnd (Cmd_GetByte 10 0) (\<lambda>b. ret (b AND 0x07))"

definition FWImgDnld_FWImgDnld :: "libc \<Rightarrow> send_masks \<Rightarrow> ex + cmd" where
  "FWImgDnld_FWImgDnld C M = new_cmd C M OBJ_FWIMGDNLD 0x11 DATADIR_TO_DEVICE 64 (MASK_PRP1_PAGE M OR MASK_PRP2_PAGE M OR MASK_PRP2_LIST M)"

definition FWImgDnld_SetNUMD :: "u32 \<Rightarrow> unit cmd_prog" where
  "FWImgDnld_SetNUMD v = Cmd_SetDword v 10"

definition FWImgDnld_GetNUMD :: "u32 cmd_prog" where
  "FWImgDnld_GetNUMD = Cmd_GetDword 10"

definition FWImgDnld_SetOFST :: "u32 \<Rightarrow> unit cmd_prog" where
  "FWImgDnld_SetOFST v = Cmd_SetDword v 11"

definition FWImgDnld_GetOFST :: "u32 cmd_prog" where
  "FWImgDnld_GetOFST = Cmd_GetDword 11"

section \<open>Get Log Page\<close>

definition GetLogPage_GetLogPage :: "libc \<Rightarrow> send_masks \<Rightarrow> ex + cmd" where
  "GetLogPage_GetLogPage C M = new_cmd C M OBJ_GETLOGPAGE 0x02 DATADIR_FROM_DEVICE 64 (MASK_PRP1_PAGE M OR MASK_PRP2_PAGE M OR MASK_PRP2_LIST M)"

definition GetLogPage_SetNUMD :: "u16 \<Rightarrow> unit cmd_prog" where
  "GetLogPage_SetNUMD numDW = rmw_word 0x0fff (numDW AND 0x0fff) 10 1"

definition GetLogPage_GetNUMD :: "u16 cmd_prog" where
  "GetLogPage_GetNUMD = bnd (Cmd_GetWord 10 1) (\<lambda>v. ret (v AND 0x0fff))"

definition GetLogPage_SetNUMDL :: "u16 \<Rightarrow> unit cmd_prog" where
  "GetLogPage_SetNUMDL v = Cmd_SetWord v 10 1"

definition GetLogPage_SetNUMDU :: "u16 \<Rightarrow> unit cmd_prog" where
  "GetLogPage_SetNUMDU v = Cmd_SetWord v 11 0"

text \<open>The masked value \<open>curVal\<close> is computed, but the argument is stored.\<close>

definition GetLogPage_SetLID :: "u16 \<Rightarrow> unit cmd_prog" where
  "GetLogPage_SetLID logID = bnd (Cmd_GetWord 10 0) (\<lambda>curVal. Cmd_SetWord logID 10 0)"

definition GetLogPage_GetLID :: "u16 cmd_prog" where
  "GetLogPage_GetLID = Cmd_GetWord 10 0"

section \<open>Namespaces\<close>

definition NamespaceAttach_NamespaceAttach :: "libc \<Rightarrow> send_masks \<Rightarrow> ex + cmd" where
  "NamespaceAttach_NamespaceAttach C M = new_cmd C M OBJ_NAMESPACEATTACH 0x15 DATADIR_TO_DEVICE 64 (MASK_PRP1_PAGE M OR MASK_PRP1_LIST M OR MASK_PRP2_PAGE M)"

definition NamespaceAttach_SetSEL :: "u8 \<Rightarrow> unit cmd_prog" where
  "NamespaceAttach_SetSEL sel = Cmd_SetNibble sel 10 0"

definition NamespaceAttach_GetSEL :: "u8 cmd_prog" where
  "NamespaceAttach_GetSEL = bnd (Cmd_GetByte 10 0) (\<lambda>b. ret (b AND 0x0f))"

definition NamespaceManagement_NamespaceManagement :: "libc \<Rightarrow> send_masks \<Rightarrow> ex + cmd" where
  "NamespaceManagement_NamespaceManagement C M = new_cmd C M OBJ_NAMESPACEMANAGEMENT 0x0D DATADIR_TO_DEVICE 64 (MASK_PRP1_PAGE M OR MASK_PRP2_PAGE M)"

definition NamespaceManagement_SetSEL :: "u8 \<Rightarrow> unit cmd_prog" where
  "NamespaceManagement_SetSEL sel = Cmd_SetNibble sel 10 0"

definition NamespaceManagement_GetSEL :: "u8 cmd_prog" where
  "NamespaceManagement_GetSEL = bnd (Cmd_GetByte 10 0) (\<lambda>b. ret (b AND 0x0f))"

section \<open>Security\<close>

definition BaseSecurity_SetSECP :: "u8 \<Rightarrow> unit cmd_prog" where
  "BaseSecurity_SetSECP v = Cmd_SetByte v 10 3"

definition BaseSecurity_GetSECP :: "u8 cmd_prog" where
  "BaseSecurity_GetSECP = Cmd_GetByte 10 3"

definition BaseSecurity_SetSPSP :: "u16 \<Rightarrow> unit cmd_prog" where
  "BaseSecurity_SetSPSP spsp =
     bnd (Cmd_GetDword 10) (\<lambda>work. Cmd_SetDword ((work AND NOT 0x00ffff00) OR push_bit 8 (ucast spsp)) 10)"

definition BaseSecurity_GetSPSP :: "u16 cmd_prog" where
  "BaseSecurity_GetSPSP = bnd (Cmd_GetDword 10) (\<lambda>work. ret (ucast (drop_bit 8 (work AND 0x00ffff00))))"

definition BaseSecurity_SetTL :: "u16 \<Rightarrow> unit cmd_prog" where
  "BaseSecurity_SetTL v = Cmd_SetWord v 11 1"

definition BaseSecurity_GetTL :: "u16 cmd_prog" where
  "BaseSecurity_GetTL = Cmd_GetWord 11 1"

definition SecurityRcv_SecurityRcv :: "libc \<Rightarrow> send_masks \<Rightarrow> ex + cmd" where
  "SecurityRcv_SecurityRcv C M = new_cmd_prp_first C M OBJ_SECURITYRCV 0x82 DATADIR_FROM_DEVICE (MASK_PRP1_PAGE M OR MASK_PRP2_PAGE M)"

definition SecuritySend_SecuritySend :: "libc \<Rightarrow> send_masks \<Rightarrow> ex + cmd" where
  "SecuritySend_SecuritySend C M = new_cmd_prp_first C M OBJ_SECURITYSEND 0x81 DATADIR_TO_DEVICE (MASK_PRP1_PAGE M OR MASK_PRP2_PAGE M)"

section \<open>Create and delete I/O queues\<close>

definition CreateIOCQ_CreateIOCQ :: "libc \<Rightarrow> send_masks \<Rightarrow> ex + cmd" where
  "CreateIOCQ_CreateIOCQ C M = new_cmd C M OBJ_CREATEIOCQ 0x05 DATADIR_FROM_DEVICE 64 (MASK_PRP1_PAGE M OR MASK_PRP1_LIST M)"

definition CreateIOSQ_CreateIOSQ :: "libc \<Rightarrow> send_masks \<Rightarrow> ex + cmd" where
  "CreateIOSQ_CreateIOSQ C M = new_cmd C M OBJ_CREATEIOSQ 0x01 DATADIR_TO_DEVICE 64 (MASK_PRP1_PAGE M OR MASK_PRP1_LIST M)"

definition DeleteIOCQ_DeleteIOCQ :: "libc \<Rightarrow> ex + cmd" where
  "DeleteIOCQ_DeleteIOCQ C = new_cmd_plain C OBJ_DELETEIOCQ 0x04 DATADIR_NONE"

definition DeleteIOSQ_DeleteIOSQ :: "libc \<Rightarrow> ex + cmd" where
  "DeleteIOSQ_DeleteIOSQ C = new_cmd_plain C OBJ_DELETEIOSQ 0x00 DATADIR_NONE"

text \<open>The pointer \<open>GetQBuffer()\<close> returns, null when the shared buffer has no memory.\<close>

definition q_pointer :: "qmem \<Rightarrow> ('d, 'm) world_scheme \<Rightarrow> qmem option" where
  "q_pointer b s =
     (case b of
        Mapped a \<Rightarrow> (if a = 0 then None else Some b)
      | Shared r \<Rightarrow> (if mRealBaseAddr (wd_bufs s r) = None then None else Some b))"

text \<open>The PRP settings of both Create commands.\<close>

definition create_prp ::
  "send_masks \<Rightarrow> 'q queue_scheme \<Rightarrow> (cmd \<times> ('d, 'm) world_scheme, unit) prog" where
  "create_prp M q =
     bnd (lift_result (Queue_GetIsContig q)) (\<lambda>contig.
     bnd (lift_result (Queue_GetQBuffer q)) (\<lambda>b.
     bnd (gets (\<lambda>(c, s). q_pointer b s)) (\<lambda>p.
       onl (PrpData_SetPrpBuffer_RO
         (if contig then MASK_PRP1_PAGE M else MASK_PRP1_PAGE M OR MASK_PRP1_LIST M) p
         (ucast (Queue_GetQSize q))))))"

text \<open>DWORD 10 of both: the number of entries less one, and the identifier.\<close>

definition create_dw10 :: "'q queue_scheme \<Rightarrow> unit cmd_prog" where
  "create_dw10 q =
     bnd (Cmd_GetDword 10) (\<lambda>d.
       let d1 = (d AND NOT 0xffff0000) OR push_bit 16 (mNumEntries q - 1);
           d2 = (d1 AND NOT 0x0000ffff) OR ucast (mQId q)
       in Cmd_SetDword d2 10)"

definition pc_bit :: "bool \<Rightarrow> u32 \<Rightarrow> u32" where
  "pc_bit contig d = (if contig then d OR 0x00000001 else d AND NOT 0x00000001)"

text \<open>\<open>InitInvalidPrpOffset\<close> is \<open>Init\<close> without the PRP settings.\<close>

definition CreateIOCQ_InitInvalidPrpOffset ::
  "'d dnvme \<Rightarrow> 'q comp_queue_scheme \<Rightarrow> (cmd \<times> ('d, 'm) world_scheme, unit) prog" where
  "CreateIOCQ_InitInvalidPrpOffset drv q =
     sq (onl (create_dw10 q))
     (bnd (onl (Cmd_GetDword 11)) (\<lambda>d.
      bnd (lift_result (Queue_GetIsContig q)) (\<lambda>contig.
        let d1 = pc_bit contig d in
        bnd (if mIrqEnabled q
             then
               (let d2 = (d1 OR 0x00000002) AND NOT 0xffff0000 in
                bnd (onr (CtrlrConfig_GetIrqScheme drv (INT_NONE, 0))) (\<lambda>(ok, irq, numIrqs).
                sq (throw_if (\<not> ok) (FrmwkEx ''Unable to retrieve current IRQ scheme''))
                  (case irq of
                     INT_MSI_MULTI \<Rightarrow> ret (d2 OR push_bit 16 (ucast (mIrqVec q)))
                   | INT_MSIX \<Rightarrow> ret (d2 OR push_bit 16 (ucast (mIrqVec q)))
                   | INT_MSI_SINGLE \<Rightarrow> ret d2
                   | INT_NONE \<Rightarrow> ret d2
                   | INT_other _ \<Rightarrow> raise (FrmwkEx ''Unsupported IRQ scheme, what to do?''))))
             else ret ((d1 AND NOT 0x00000002) AND NOT 0xffff0000)) (\<lambda>d3.
          onl (Cmd_SetDword d3 11)))))"

definition CreateIOCQ_Init ::
  "'d dnvme \<Rightarrow> send_masks \<Rightarrow> 'q comp_queue_scheme \<Rightarrow> (cmd \<times> ('d, 'm) world_scheme, unit) prog" where
  "CreateIOCQ_Init drv M q = sq (create_prp M q) (CreateIOCQ_InitInvalidPrpOffset drv q)"

definition CreateIOSQ_Init ::
  "send_masks \<Rightarrow> 'q io_sub_queue_scheme \<Rightarrow> (cmd \<times> ('d, 'm) world_scheme, unit) prog" where
  "CreateIOSQ_Init M q =
     sq (create_prp M q)
     (sq (onl (create_dw10 q))
     (bnd (onl (Cmd_GetDword 11)) (\<lambda>d.
      bnd (lift_result (Queue_GetIsContig q)) (\<lambda>contig.
        let d1 = pc_bit contig d;
            d2 = (d1 AND NOT 0x00000006) OR push_bit 1 (ucast (mPriority q));
            d3 = (d2 AND NOT 0xffff0000) OR push_bit 16 (ucast (mCqId q))
        in onl (Cmd_SetDword d3 11)))))"

definition delete_q_Init :: "'q queue_scheme \<Rightarrow> unit cmd_prog" where
  "delete_q_Init q =
     bnd (Cmd_GetDword 10) (\<lambda>d. Cmd_SetDword ((d AND NOT 0x0000ffff) OR ucast (mQId q)) 10)"

definition DeleteIOCQ_Init :: "'q comp_queue_scheme \<Rightarrow> unit cmd_prog" where
  "DeleteIOCQ_Init iocq = delete_q_Init iocq"

definition DeleteIOSQ_Init :: "'q sub_queue_scheme \<Rightarrow> unit cmd_prog" where
  "DeleteIOSQ_Init iosq = delete_q_Init iosq"

section \<open>The accessors and their fields\<close>

text \<open>
  Setter, getter and field (DWORD, lowest bit, width) of every pair of accessors. The two pairs that
  are not accessors of one field, \<open>SetArbitrationAB\<close> and \<open>SetLID\<close>, are treated below.
\<close>

definition admin_accessors :: "((u32 \<Rightarrow> unit cmd_prog) \<times> u32 cmd_prog \<times> dw_field) list" where
  "admin_accessors =
     [(via_word BaseFeatures_SetFID, get_word BaseFeatures_GetFID, (10, 0, 8)),
      (via_word SetFeatures_SetArbitrationHPW, get_word SetFeatures_GetArbitrationHPW, (11, 24, 8)),
      (via_word SetFeatures_SetArbitrationMPW, get_word SetFeatures_GetArbitrationMPW, (11, 16, 8)),
      (via_word SetFeatures_SetArbitrationLPW, get_word SetFeatures_GetArbitrationLPW, (11, 8, 8)),
      (via_word SetFeatures_SetLBARangeTypeNUM, get_word SetFeatures_GetLBARangeTypeNUM, (11, 0, 6)),
      (via_word SetFeatures_SetTempThresholdTMPTH, get_word SetFeatures_GetTempThresholdTMPTH, (11, 0, 16)),
      (via_word SetFeatures_SetErrRecoveryTLER, get_word SetFeatures_GetErrRecoveryTLER, (11, 0, 16)),
      (via_word SetFeatures_SetVolatileWriteCacheWCE, get_word SetFeatures_GetVolatileWriteCacheWCE, (11, 0, 1)),
      (via_word SetFeatures_SetNumberOfQueuesNCQR, get_word SetFeatures_GetNumberOfQueuesNCQR, (11, 16, 16)),
      (via_word SetFeatures_SetNumberOfQueuesNSQR, get_word SetFeatures_GetNumberOfQueuesNSQR, (11, 0, 16)),
      (via_word SetFeatures_SetIntCoalescingTIME, get_word SetFeatures_GetIntCoalescingTIME, (11, 8, 8)),
      (via_word SetFeatures_SetIntCoalescingTHR, get_word SetFeatures_GetIntCoalescingTHR, (11, 0, 8)),
      (via_word SetFeatures_SetIntVecConfigIV, get_word SetFeatures_GetIntVecConfigIV, (11, 0, 16)),
      (via_word SetFeatures_SetIntVecConfigCD, get_word SetFeatures_GetIntVecConfigCD, (11, 16, 1)),
      (via_word SetFeatures_SetWriteAtomicityDN, get_word SetFeatures_GetWriteAtomicityDN, (11, 0, 1)),
      (via_word SetFeatures_SetAsyncEventConfigSMART, get_word SetFeatures_GetAsyncEventConfigSMART, (11, 0, 16)),
      (via_word SetFeatures_SetSWProgressMarkerPBSLC, get_word SetFeatures_GetSWProgressMarkerPBSLC, (11, 0, 8)),
      (via_word SetFeatures_SetUnsafePS, get_word SetFeatures_GetPowerManagementPS, (11, 0, 5)),
      (via_bool SetFeatures_SetErrRecoveryDULBE, get_bool SetFeatures_GetErrRecoveryDULBE, (11, 16, 1)),
      (via_bool SetFeatures_SetAutoPSTransAPSTE, get_bool SetFeatures_GetAutoPSTransAPSTE, (11, 0, 1)),
      (via_word FormatNVM_SetSES, get_word FormatNVM_GetSES, (10, 9, 3)),
      (via_bool FormatNVM_SetPIL, get_bool FormatNVM_GetPIL, (10, 8, 1)),
      (via_word FormatNVM_SetPI, get_word FormatNVM_GetPI, (10, 5, 3)),
      (via_bool FormatNVM_SetMS, get_bool FormatNVM_GetMS, (10, 4, 1)),
      (via_word FormatNVM_SetLBAF, get_word FormatNVM_GetLBAF, (10, 0, 4)),
      (via_word FWActivate_SetAA, get_word FWActivate_GetAA, (10, 3, 2)),
      (via_word FWActivate_SetFS, get_word FWActivate_GetFS, (10, 0, 3)),
      (FWImgDnld_SetNUMD, FWImgDnld_GetNUMD, (10, 0, 32)),
      (FWImgDnld_SetOFST, FWImgDnld_GetOFST, (11, 0, 32)),
      (via_word GetLogPage_SetNUMD, get_word GetLogPage_GetNUMD, (10, 16, 12)),
      (via_word NamespaceAttach_SetSEL, get_word NamespaceAttach_GetSEL, (10, 0, 4)),
      (via_word NamespaceManagement_SetSEL, get_word NamespaceManagement_GetSEL, (10, 0, 4)),
      (via_word BaseSecurity_SetSECP, get_word BaseSecurity_GetSECP, (10, 24, 8)),
      (via_word BaseSecurity_SetSPSP, get_word BaseSecurity_GetSPSP, (10, 8, 16)),
      (via_word BaseSecurity_SetTL, get_word BaseSecurity_GetTL, (11, 16, 16))]"

section \<open>Every pair meets the contract of an accessor\<close>

lemmas admin_bytes_defs =
  BaseFeatures_SetFID_def BaseFeatures_GetFID_def SetFeatures_SetArbitrationHPW_def SetFeatures_GetArbitrationHPW_def SetFeatures_SetArbitrationMPW_def SetFeatures_GetArbitrationMPW_def SetFeatures_SetArbitrationLPW_def SetFeatures_GetArbitrationLPW_def SetFeatures_SetIntCoalescingTIME_def SetFeatures_GetIntCoalescingTIME_def SetFeatures_SetIntCoalescingTHR_def SetFeatures_GetIntCoalescingTHR_def SetFeatures_SetSWProgressMarkerPBSLC_def SetFeatures_GetSWProgressMarkerPBSLC_def BaseSecurity_SetSECP_def BaseSecurity_GetSECP_def

lemma admin_bytes:
  "cmd_accessor (via_word BaseFeatures_SetFID) (get_word BaseFeatures_GetFID) (10, 0, 8)"
  "cmd_accessor (via_word SetFeatures_SetArbitrationHPW) (get_word SetFeatures_GetArbitrationHPW) (11, 24, 8)"
  "cmd_accessor (via_word SetFeatures_SetArbitrationMPW) (get_word SetFeatures_GetArbitrationMPW) (11, 16, 8)"
  "cmd_accessor (via_word SetFeatures_SetArbitrationLPW) (get_word SetFeatures_GetArbitrationLPW) (11, 8, 8)"
  "cmd_accessor (via_word SetFeatures_SetIntCoalescingTIME) (get_word SetFeatures_GetIntCoalescingTIME) (11, 8, 8)"
  "cmd_accessor (via_word SetFeatures_SetIntCoalescingTHR) (get_word SetFeatures_GetIntCoalescingTHR) (11, 0, 8)"
  "cmd_accessor (via_word SetFeatures_SetSWProgressMarkerPBSLC) (get_word SetFeatures_GetSWProgressMarkerPBSLC) (11, 0, 8)"
  "cmd_accessor (via_word BaseSecurity_SetSECP) (get_word BaseSecurity_GetSECP) (10, 24, 8)"
  by ((rule acc_byteI, rule admin_bytes_defs, rule admin_bytes_defs, simp_all)+)

lemmas admin_words_defs =
  SetFeatures_SetTempThresholdTMPTH_def SetFeatures_GetTempThresholdTMPTH_def SetFeatures_SetErrRecoveryTLER_def SetFeatures_GetErrRecoveryTLER_def SetFeatures_SetNumberOfQueuesNCQR_def SetFeatures_GetNumberOfQueuesNCQR_def SetFeatures_SetNumberOfQueuesNSQR_def SetFeatures_GetNumberOfQueuesNSQR_def SetFeatures_SetIntVecConfigIV_def SetFeatures_GetIntVecConfigIV_def SetFeatures_SetAsyncEventConfigSMART_def SetFeatures_GetAsyncEventConfigSMART_def BaseSecurity_SetTL_def BaseSecurity_GetTL_def

lemma admin_words:
  "cmd_accessor (via_word SetFeatures_SetTempThresholdTMPTH) (get_word SetFeatures_GetTempThresholdTMPTH) (11, 0, 16)"
  "cmd_accessor (via_word SetFeatures_SetErrRecoveryTLER) (get_word SetFeatures_GetErrRecoveryTLER) (11, 0, 16)"
  "cmd_accessor (via_word SetFeatures_SetNumberOfQueuesNCQR) (get_word SetFeatures_GetNumberOfQueuesNCQR) (11, 16, 16)"
  "cmd_accessor (via_word SetFeatures_SetNumberOfQueuesNSQR) (get_word SetFeatures_GetNumberOfQueuesNSQR) (11, 0, 16)"
  "cmd_accessor (via_word SetFeatures_SetIntVecConfigIV) (get_word SetFeatures_GetIntVecConfigIV) (11, 0, 16)"
  "cmd_accessor (via_word SetFeatures_SetAsyncEventConfigSMART) (get_word SetFeatures_GetAsyncEventConfigSMART) (11, 0, 16)"
  "cmd_accessor (via_word BaseSecurity_SetTL) (get_word BaseSecurity_GetTL) (11, 16, 16)"
  by ((rule acc_wordI, rule admin_words_defs, rule admin_words_defs, simp_all)+)

lemmas admin_bits_defs =
  SetFeatures_SetErrRecoveryDULBE_def SetFeatures_GetErrRecoveryDULBE_def SetFeatures_SetAutoPSTransAPSTE_def SetFeatures_GetAutoPSTransAPSTE_def FormatNVM_SetPIL_def FormatNVM_GetPIL_def FormatNVM_SetMS_def FormatNVM_GetMS_def

lemma admin_bits:
  "cmd_accessor (via_bool SetFeatures_SetErrRecoveryDULBE) (get_bool SetFeatures_GetErrRecoveryDULBE) (11, 16, 1)"
  "cmd_accessor (via_bool SetFeatures_SetAutoPSTransAPSTE) (get_bool SetFeatures_GetAutoPSTransAPSTE) (11, 0, 1)"
  "cmd_accessor (via_bool FormatNVM_SetPIL) (get_bool FormatNVM_GetPIL) (10, 8, 1)"
  "cmd_accessor (via_bool FormatNVM_SetMS) (get_bool FormatNVM_GetMS) (10, 4, 1)"
  by ((rule acc_bitI, rule admin_bits_defs, rule admin_bits_defs, simp_all)+)

lemmas admin_dwords_defs =
  FWImgDnld_SetNUMD_def FWImgDnld_GetNUMD_def FWImgDnld_SetOFST_def FWImgDnld_GetOFST_def

lemma admin_dwords:
  "cmd_accessor FWImgDnld_SetNUMD FWImgDnld_GetNUMD (10, 0, 32)"
  "cmd_accessor FWImgDnld_SetOFST FWImgDnld_GetOFST (11, 0, 32)"
  by ((rule acc_dwordI, rule admin_dwords_defs, rule admin_dwords_defs, simp_all)+)

lemmas admin_nibbles_defs =
  NamespaceAttach_SetSEL_def NamespaceAttach_GetSEL_def NamespaceManagement_SetSEL_def NamespaceManagement_GetSEL_def

lemma admin_nibbles:
  "cmd_accessor (via_word NamespaceAttach_SetSEL) (get_word NamespaceAttach_GetSEL) (10, 0, 4)"
  "cmd_accessor (via_word NamespaceManagement_SetSEL) (get_word NamespaceManagement_GetSEL) (10, 0, 4)"
  by ((rule acc_nibbleI, rule admin_nibbles_defs, rule admin_nibbles_defs, simp_all)+)

lemma low_masks: "(0x01 :: u8) = mask 1" "(0x03 :: u8) = mask 2" "(0x07 :: u8) = mask 3"
  "(0x0f :: u8) = mask 4" "(0x1f :: u8) = mask 5" "(0x3f :: u8) = mask 6"
  by (simp_all add: mask_eq_exp_minus_1)

lemmas admin_low_defs =
  SetFeatures_SetLBARangeTypeNUM_def SetFeatures_GetLBARangeTypeNUM_def
  SetFeatures_SetVolatileWriteCacheWCE_def SetFeatures_GetVolatileWriteCacheWCE_def
  SetFeatures_SetIntVecConfigCD_def SetFeatures_GetIntVecConfigCD_def
  SetFeatures_SetWriteAtomicityDN_def SetFeatures_GetWriteAtomicityDN_def
  SetFeatures_SetUnsafePS_def SetFeatures_GetPowerManagementPS_def

lemma admin_low:
  "cmd_accessor (via_word SetFeatures_SetLBARangeTypeNUM) (get_word SetFeatures_GetLBARangeTypeNUM) (11, 0, 6)"
  "cmd_accessor (via_word SetFeatures_SetVolatileWriteCacheWCE) (get_word SetFeatures_GetVolatileWriteCacheWCE) (11, 0, 1)"
  "cmd_accessor (via_word SetFeatures_SetIntVecConfigCD) (get_word SetFeatures_GetIntVecConfigCD) (11, 16, 1)"
  "cmd_accessor (via_word SetFeatures_SetWriteAtomicityDN) (get_word SetFeatures_GetWriteAtomicityDN) (11, 0, 1)"
  "cmd_accessor (via_word SetFeatures_SetUnsafePS) (get_word SetFeatures_GetPowerManagementPS) (11, 0, 5)"
  by ((rule acc_lowI, rule admin_low_defs, rule admin_low_defs, rule low_masks, simp_all)+)

lemma admin_checked:
  "cmd_accessor (via_word FormatNVM_SetLBAF) (get_word FormatNVM_GetLBAF) (10, 0, 4)"
  "cmd_accessor (via_word FWActivate_SetFS) (get_word FWActivate_GetFS) (10, 0, 3)"
  "cmd_accessor (via_word FWActivate_SetAA) (get_word FWActivate_GetAA) (10, 3, 2)"
  "cmd_accessor (via_word FormatNVM_SetSES) (get_word FormatNVM_GetSES) (10, 9, 3)"
  "cmd_accessor (via_word FormatNVM_SetPI) (get_word FormatNVM_GetPI) (10, 5, 3)"
  by (rule acc_low_checkedI, rule FormatNVM_SetLBAF_def, rule FormatNVM_GetLBAF_def, rule low_masks, simp_all)
    (rule acc_low_plainI, rule FWActivate_SetFS_def, rule FWActivate_GetFS_def, rule low_masks, simp_all,
     rule acc_shiftI, rule FWActivate_SetAA_def, rule FWActivate_GetAA_def, rule low_masks,
     simp_all add: mask_eq_exp_minus_1 push_bit_eq_mult,
     rule acc_shift_andI, rule FormatNVM_SetSES_def, rule FormatNVM_GetSES_def, rule low_masks,
     simp_all add: mask_eq_exp_minus_1 push_bit_eq_mult,
     rule acc_shift_andI, rule FormatNVM_SetPI_def, rule FormatNVM_GetPI_def, rule low_masks,
     simp_all add: mask_eq_exp_minus_1 push_bit_eq_mult)

lemma admin_NUMD: "cmd_accessor (via_word GetLogPage_SetNUMD) (get_word GetLogPage_GetNUMD) (10, 16, 12)"
proof -
  have m: "(0x0fff :: u16) = push_bit 0 (mask 12)" by (simp add: mask_eq_exp_minus_1)
  have s: "GetLogPage_SetNUMD = (\<lambda>v. rmw_word 0x0fff (v AND 0x0fff) 10 1)"
    by (simp add: GetLogPage_SetNUMD_def fun_eq_iff)
  show ?thesis
    unfolding s GetLogPage_GetNUMD_def
    using acc_masked_word [of 1 0 12 "0x0fff" "\<lambda>v. v AND 0x0fff" "\<lambda>x. x AND 0x0fff" 10] m
      shifted_mask [OF m] by simp
qed

lemma admin_SPSP: "cmd_accessor (via_word BaseSecurity_SetSPSP) (get_word BaseSecurity_GetSPSP) (10, 8, 16)"
proof
  have m: "(0x00ffff00 :: u32) = push_bit 8 (mask 16)" by (simp add: mask_eq_exp_minus_1 push_bit_eq_mult)
  fix c assume ok: "dw_ok (10, 8, 16) c"
  then have c: "cmd_ok c" "10 < cmd_size c" by (simp_all add: dw_ok_def)
  show "get_word BaseSecurity_GetSPSP c = (Inr (dw_get (10, 8, 16) c), c)"
    using c shifted_mask(2) [OF m] get_ucast [of 16 10 8 c, where 'a = 16]
    by (simp add: get_word_def BaseSecurity_GetSPSP_def bnd_apply GetDword_ok dw_get_def get_field_def)
  fix v assume "dw_fits (10, 8, 16) v"
  then have "take_bit 16 v = v" "(ucast (ucast v :: u16) :: u32) = v"
    by (simp_all add: dw_fits_def ucast_narrow)
  then show "via_word BaseSecurity_SetSPSP v c = (Inr (), dw_put (10, 8, 16) v c)"
    using c m by (simp add: via_word_def BaseSecurity_SetSPSP_def bnd_apply GetDword_ok SetDword_ok dw_put_def put_field_def)
qed

lemma admin_accessors_ok: "(s, g, f) \<in> set admin_accessors \<Longrightarrow> cmd_accessor s g f"
proof -
  have "list_all (\<lambda>(s, g, f). cmd_accessor s g f) admin_accessors"
    unfolding admin_accessors_def list.pred_inject split
    by (intro conjI TrueI admin_bytes admin_words admin_bits admin_dwords admin_nibbles admin_low
        admin_checked admin_NUMD admin_SPSP) simp
  then show "(s, g, f) \<in> set admin_accessors \<Longrightarrow> cmd_accessor s g f" by (auto simp: list_all_iff)
qed

text \<open>Two of them as interpretations: the halves of DWORD 11 of Set Features, Number of Queues.\<close>

interpretation ncqr: cmd_accessor "via_word SetFeatures_SetNumberOfQueuesNCQR"
  "get_word SetFeatures_GetNumberOfQueuesNCQR" "(11, 16, 16)"
  by (rule admin_words)

interpretation nsqr: cmd_accessor "via_word SetFeatures_SetNumberOfQueuesNSQR"
  "get_word SetFeatures_GetNumberOfQueuesNSQR" "(11, 0, 16)"
  by (rule admin_words)

section \<open>Creating queues\<close>

lemma dw_halves: "(0xffff0000 :: u32) = push_bit 16 (mask 16)" "(0x0000ffff :: u32) = mask 16"
  "(0x00000001 :: u32) = mask 1" "(0x00000002 :: u32) = push_bit 1 (mask 1)" "(0x00000006 :: u32) = push_bit 1 (mask 2)"
  by (simp_all add: mask_eq_exp_minus_1 push_bit_eq_mult)

lemma two_halves: "x = push_bit 16 (get_field (16, 16) x) OR get_field (0, 16) x"
  by (rule bit_word_eqI) (auto simp: get_field_def bit_simps)

lemma create_dw10_run:
  assumes "cmd_ok c" and "10 < cmd_size c"
  shows "create_dw10 q c = (Inr (), set_dw c 10 (push_bit 16 (mNumEntries q - 1) OR ucast (mQId q)))"
proof -
  have "(((x AND NOT 0xffff0000) OR push_bit 16 (mNumEntries q - 1)) AND NOT 0x0000ffff) OR ucast (mQId q) =
      push_bit 16 (mNumEntries q - 1) OR ucast (mQId q)" for x :: u32
    unfolding dw_halves by (rule bit_word_eqI) (auto simp: bit_simps dest: bit_imp_le_length)
  then show ?thesis using assms(1,2) by (simp add: create_dw10_def bnd_apply GetDword_ok SetDword_ok Let_def)
qed

lemma prp_only [simp]:
  "cmd_dw (c\<lparr>mBufRO := p, mBufSize := n, mPrpFields := f\<rparr>) = cmd_dw c"
  "cmd_ok (c\<lparr>mBufRO := p, mBufSize := n, mPrpFields := f\<rparr>) = cmd_ok c"
  "cmd_size (c\<lparr>mBufRO := p, mBufSize := n, mPrpFields := f\<rparr>) = cmd_size c"
  by (simp_all add: cmd_dw_def fun_eq_iff cmd_ok_def cmd_size_def)

lemma SetPrpBuffer_RO_Inr:
  "PrpData_SetPrpBuffer_RO f p n c = (Inr (), c') \<Longrightarrow>
     p \<noteq> None \<and> c' = c\<lparr>mBufRO := p, mBufSize := n, mPrpFields := f\<rparr>"
  by (auto simp: PrpData_SetPrpBuffer_RO_def split: if_splits)

lemma q_pointer_Some: "q_pointer b s \<noteq> None \<Longrightarrow> q_pointer b s = Some b"
  by (cases b) (auto simp: q_pointer_def split: if_splits)

lemma create_prp_run:
  assumes "create_prp M q (c, s) = (Inr (), (c', s'))"
  shows "\<exists>contig b. Queue_GetIsContig q = Inr contig \<and> Queue_GetQBuffer q = Inr b \<and> s' = s \<and>
    c' = c\<lparr>mBufRO := Some b, mBufSize := ucast (Queue_GetQSize q),
      mPrpFields := if contig then MASK_PRP1_PAGE M else MASK_PRP1_PAGE M OR MASK_PRP1_LIST M\<rparr>"
proof -
  obtain contig b where q: "Queue_GetIsContig q = Inr contig" "Queue_GetQBuffer q = Inr b" "s' = s"
    and r: "PrpData_SetPrpBuffer_RO (if contig then MASK_PRP1_PAGE M else MASK_PRP1_PAGE M OR MASK_PRP1_LIST M)
      (q_pointer b s) (ucast (Queue_GetQSize q)) c = (Inr (), c')"
    using assms by (auto simp: create_prp_def bnd_Inr_iff onl_Inr simp del: onl_apply)
  show ?thesis using q SetPrpBuffer_RO_Inr [OF r] q_pointer_Some [of b s] by auto
qed

text \<open>The DWORD 11 of Create I/O Submission Queue, from the fields of the queue and what it was before.\<close>

definition iosq_dw11 :: "bool \<Rightarrow> u8 \<Rightarrow> u16 \<Rightarrow> u32 \<Rightarrow> u32" where
  "iosq_dw11 contig prio cqId d =
     put_field (16, 16) (ucast cqId) (put_field (1, 2) (ucast prio) (put_field (0, 1) (if contig then 1 else 0) d))"

lemma pc_bit_put: "pc_bit contig d = put_field (0, 1) (if contig then 1 else 0) d"
  unfolding pc_bit_def put_field_def
  by (rule bit_word_eqI) (cases contig; auto simp: bit_simps)

lemma iosq_dw11_eq:
  assumes "prio \<le> 3"
  shows "((((pc_bit contig d) AND NOT 0x00000006) OR push_bit 1 (ucast prio)) AND NOT 0xffff0000) OR
      push_bit 16 (ucast cqId) = iosq_dw11 contig prio cqId d"
proof -
  have "unat prio < 2 ^ 2" using assms by (simp add: word_le_nat_alt)
  then have "take_bit 2 (ucast prio :: u32) = ucast prio"
    by (simp add: word_unat_eq_iff unsigned_take_bit_eq take_bit_nat_eq_self)
  moreover have "take_bit 16 (ucast cqId :: u32) = ucast cqId"
    by (rule bit_word_eqI) (auto simp: bit_simps dest: bit_imp_le_length)
  ultimately show ?thesis
    unfolding pc_bit_put iosq_dw11_def dw_halves put_field_def [of "(16, 16)"] put_field_def [of "(1, 2)"]
    by (simp only: fst_conv snd_conv)
qed

lemma pc_bit_run:
  assumes "Queue_GetIsContig q = Inr contig"
  shows "Queue_GetIsContig q = Inr (mContigBuf q \<noteq> 0) \<and> contig = (mContigBuf q \<noteq> 0)"
  using assms by (auto simp: Queue_GetIsContig_def split: if_splits)

section \<open>Properties\<close>


text \<open>The setters of Set Features, Number of Queues, together: both halves of the DWORD are read back, whatever
  the DWORD held before.\<close>

theorem SetNumberOfQueues_roundtrip:
  assumes "cmd_ok c" and "cmd_size c = 16"
  shows "\<exists>c'. SetFeatures_SetNumberOfQueues ncqr nsqr c = (Inr (), c') \<and>
    fst (SetFeatures_GetNumberOfQueuesNCQR c') = Inr ncqr \<and>
    fst (SetFeatures_GetNumberOfQueuesNSQR c') = Inr nsqr \<and>
    fst (SetFeatures_GetNumberOfQueues c') = Inr (push_bit 16 (ucast ncqr) OR ucast nsqr)"
proof -
  let ?f = "(11, 16, 16) :: dw_field" and ?g = "(11, 0, 16) :: dw_field"
  let ?c1 = "dw_put ?f (ucast ncqr) c" let ?c2 = "dw_put ?g (ucast nsqr) ?c1"
  have ok: "dw_ok ?f c" "dw_ok ?g c" using assms by (simp_all add: dw_ok_def field_ok_def)
  have u: "ucast (ucast (x :: u16) :: u32) = x" for x by (rule bit_word_eqI) (simp add: bit_simps)
  have fit: "dw_fits (11, l, 16) (ucast (x :: u16))" for x l
    unfolding dw_fits_def by (rule bit_word_eqI) (auto simp: bit_simps dest: bit_imp_le_length)
  have s1: "SetFeatures_SetNumberOfQueuesNCQR ncqr c = (Inr (), ?c1)"
    using ncqr.setter_put [OF ok(1) fit] by (simp add: via_word_def u)
  have s2: "SetFeatures_SetNumberOfQueuesNSQR nsqr ?c1 = (Inr (), ?c2)"
    using nsqr.setter_put [of ?c1, OF _ fit] ok by (simp add: via_word_def u)
  have ap: "dw_apart ?g ?f" by (simp add: dw_apart_def field_apart_def)
  have g1: "dw_get ?f ?c2 = ucast ncqr" "dw_get ?g ?c2 = ucast nsqr"
    using dw_get_put_apart [of ?g ?c1 ?f, OF _ _ ap] dw_get_put_same [OF ok(1)] dw_get_put_same [of ?g ?c1] ok
      fit [of 16 ncqr] fit [of 0 nsqr]
    by (simp_all add: dw_fits_def)
  have "fst (get_word SetFeatures_GetNumberOfQueuesNCQR ?c2) = Inr (ucast ncqr)"
    "fst (get_word SetFeatures_GetNumberOfQueuesNSQR ?c2) = Inr (ucast nsqr)"
    using ncqr.getter_get [of ?c2] nsqr.getter_get [of ?c2] ok g1 by simp_all
  moreover have gw: "fst (get_word g x) = Inr (ucast v) \<Longrightarrow> fst (g x) = Inr v" for g x and v :: u16
    by (cases "g x") (auto simp: get_word_def bnd_apply u split: sum.splits dest!: arg_cong [of _ _ "ucast :: u32 \<Rightarrow> u16"])
  moreover have "cmd_dw ?c2 11 = push_bit 16 (ucast ncqr) OR ucast nsqr"
    using g1 two_halves [of "cmd_dw ?c2 11"] by (simp add: dw_get_def)
  moreover have "cmd_ok ?c2" "cmd_size ?c2 = 16" using ok by (simp_all add: dw_ok_def dw_put_def assms)
  ultimately show ?thesis
    using s1 s2 by (simp add: SetFeatures_SetNumberOfQueues_def sq_apply SetFeatures_GetNumberOfQueues_def GetDword_ok)
qed

text \<open>Create I/O Submission Queue encodes the queue it is given: its size less one and its identifier, whether it
  is contiguous, its priority and its completion queue, all other bits of the DWORDs untouched; the data
  pointer is the queue's memory, as a PRP list exactly when it is discontiguous.\<close>

theorem CreateIOSQ_encodes:
  fixes s :: "('d, 'm) world_scheme"
  assumes "CreateIOSQ_Init M q (c, s) = (Inr (), (c', s'))" and "cmd_ok c" and "cmd_size c = 16"
    and "mPriority q \<le> 3"
  shows "s' = s \<and>
    cmd_dw c' 10 = push_bit 16 (mNumEntries q - 1) OR ucast (mQId q) \<and>
    cmd_dw c' 11 = iosq_dw11 (mContigBuf q \<noteq> 0) (mPriority q) (mCqId q) (cmd_dw c 11) \<and>
    mBufRO c' = (if mContigBuf q \<noteq> 0 then Some (Mapped (mContigBuf q)) else map_option Shared (mDiscontigBuf q)) \<and>
    mPrpFields c' = (if mContigBuf q \<noteq> 0 then MASK_PRP1_PAGE M else MASK_PRP1_PAGE M OR MASK_PRP1_LIST M)"
proof -
  obtain c1 and s1 :: "('d, 'm) world_scheme" where c1: "create_prp M q (c, s) = (Inr (), (c1, s1))"
    using assms(1) by (auto simp: CreateIOSQ_Init_def sq_Inr_iff)
  obtain contig b where q: "Queue_GetIsContig q = Inr contig" "Queue_GetQBuffer q = Inr b" and s1: "s1 = s"
    and c1': "c1 = c\<lparr>mBufRO := Some b, mBufSize := ucast (Queue_GetQSize q),
      mPrpFields := if contig then MASK_PRP1_PAGE M else MASK_PRP1_PAGE M OR MASK_PRP1_LIST M\<rparr>"
    using create_prp_run [OF c1] by blast
  have ct: "contig = (mContigBuf q \<noteq> 0)" using pc_bit_run [OF q(1)] by simp
  have b: "Some b = (if contig then Some (Mapped (mContigBuf q)) else map_option Shared (mDiscontigBuf q))"
    using q ct by (auto simp: Queue_GetQBuffer_def Queue_GetIsContig_def split: if_splits)
  have ok: "cmd_ok c1" "cmd_size c1 = 16" using assms(2,3) by (simp_all add: c1')
  let ?c2 = "set_dw c1 10 (push_bit 16 (mNumEntries q - 1) OR ucast (mQId q))"
  have ok2: "cmd_ok ?c2" "cmd_size ?c2 = 16" using ok by simp_all
  have d: "cmd_dw ?c2 11 = cmd_dw c 11" using ok by (simp add: cmd_dw_set_other c1')
  have "CreateIOSQ_Init M q (c, s) =
      (Inr (), (set_dw ?c2 11 (iosq_dw11 contig (mPriority q) (mCqId q) (cmd_dw c 11)), s))"
    unfolding CreateIOSQ_Init_def
    using c1 s1 ok ok2 q d iosq_dw11_eq [OF assms(4)]
    by (simp add: sq_apply bnd_apply create_dw10_run GetDword_ok SetDword_ok Let_def)
  then have "c' = set_dw ?c2 11 (iosq_dw11 contig (mPriority q) (mCqId q) (cmd_dw c 11))" "s' = s"
    using assms(1) by simp_all
  then show ?thesis
    using ok ok2 b ct by (simp add: cmd_dw_set_same cmd_dw_set_other c1')
qed

text \<open>\<open>SetArbitrationAB\<close> stores its argument as it is: the five bits of the byte above the field are overwritten,
  and a value wider than the field is not cut to it.\<close>

lemma SetArbitrationAB_overwrites:
  assumes "cmd_ok c" and "cmd_size c = 16"
  shows "\<exists>c'. SetFeatures_SetArbitrationAB ab c = (Inr (), c') \<and> dw_get (11, 0, 8) c' = ucast ab"
proof -
  have ok: "dw_ok (11, 0, 8) c" using assms by (simp add: dw_ok_def field_ok_def)
  have "take_bit 8 (ucast ab :: u32) = ucast ab"
    by (rule bit_word_eqI) (auto simp: bit_simps dest: bit_imp_le_length)
  then show ?thesis
    using ok SetByte_put [of 11 0 c] GetByte_get [of 11 0 c] dw_get_put_same [OF ok]
    by (simp add: SetFeatures_SetArbitrationAB_def bnd_apply)
qed

section \<open>Examples\<close>


lemma SetNumberOfQueues_roundtrip_witness:
  "\<exists>c'. SetFeatures_SetNumberOfQueues 0x1234 0x5678 ex_cmd = (Inr (), c') \<and>
    fst (SetFeatures_GetNumberOfQueuesNCQR c') = Inr 0x1234 \<and>
    fst (SetFeatures_GetNumberOfQueuesNSQR c') = Inr 0x5678 \<and>
    fst (SetFeatures_GetNumberOfQueues c') = Inr (push_bit 16 (ucast (0x1234 :: u16)) OR ucast (0x5678 :: u16))"
  by (rule SetNumberOfQueues_roundtrip) (rule ex_cmd_ok)+

definition ex_ready_iosq :: io_sub_queue where
  "ex_ready_iosq = \<lparr>q_type = OBJ_IOSQ, mQId = 3, mEntrySize = 64, mNumEntries = 8, mContigBuf = 0x7000,
     mDiscontigBuf = None, mCqId = 2, mPriority = 1\<rparr>"

definition ex_cmd_prp :: cmd where
  "ex_cmd_prp = ex_cmd\<lparr>mPrpAllowed := 3\<rparr>"

lemma ex_cmd_prp_ok: "cmd_ok ex_cmd_prp" "cmd_size ex_cmd_prp = 16"
  by (simp_all add: cmd_ok_def cmd_size_def ex_cmd_prp_def ex_cmd_def)

lemma ex_create_iosq: "fst (CreateIOSQ_Init ex_masks ex_ready_iosq (ex_cmd_prp, ex_world [])) = Inr ()"
  by code_simp

lemma CreateIOSQ_encodes_witness:
  "let r = snd (CreateIOSQ_Init ex_masks ex_ready_iosq (ex_cmd_prp, ex_world [])) in
   snd r = ex_world [] \<and> cmd_dw (fst r) 10 = push_bit 16 7 OR 3 \<and>
    cmd_dw (fst r) 11 = iosq_dw11 True 1 2 (cmd_dw ex_cmd_prp 11) \<and>
    mBufRO (fst r) = Some (Mapped 0x7000) \<and> mPrpFields (fst r) = 1"
proof -
  have p: "mPriority ex_ready_iosq \<le> 3" by (simp add: ex_ready_iosq_def)
  show ?thesis
    using CreateIOSQ_encodes [OF run_pair [OF ex_create_iosq] ex_cmd_prp_ok p]
    unfolding Let_def by (simp add: ex_ready_iosq_def ex_masks_def)
qed

end
