(* ===== verification/Io.thy ===== *)
theory Io
  imports Test_Run Admin_Cmds
begin

text \<open>
  Sending commands and reaping their completion entries (Utils/io.cpp), choosing an interrupt scheme
  (Utils/irq.cpp), and Queues/backdoor.cpp. A function that takes a shared command runs on the pair of the
  command and the shared state. Of a dump only the name of its file is computed, which can throw.
\<close>

section \<open>Names of dumps, objects created and destroyed\<close>

text \<open>The strings and the flag every function passes on.\<close>

record io_call =
  io_grpName :: string
  io_testName :: string
  io_qualify :: string
  io_verbose :: bool

definition dump_as :: "file_system \<Rightarrow> io_call \<Rightarrow> string \<Rightarrow> string \<Rightarrow> ('s, unit) prog" where
  "dump_as fs a objName qualifier =
     bnd (lift_result (PrepDumpFile fs (io_grpName a) (io_testName a) objName qualifier)) (\<lambda>_. ret ())"

definition dump_if :: "bool \<Rightarrow> file_system \<Rightarrow> io_call \<Rightarrow> string \<Rightarrow> ('s, unit) prog" where
  "dump_if b fs a objName = (if b then dump_as fs a objName (io_qualify a) else ret ())"

text \<open>A local object \<open>x\<close>, the program that works on it, its last value.\<close>

definition with_new :: "'x \<Rightarrow> ('x \<times> 'w, 'a) prog \<Rightarrow> ('w, 'a \<times> 'x) prog" where
  "with_new x m = (\<lambda>w. case m (x, w) of
     (Inl e, (x', w')) \<Rightarrow> (Inl e, w')
   | (Inr y, (x', w')) \<Rightarrow> (Inr (y, x'), w'))"

text \<open>
  The destructor of a local object: it runs when an exception leaves the scope, and a second exception
  thrown by it then ends the program (\<open>std::terminate\<close>).
\<close>

definition unwinding :: "('s, unit) prog \<Rightarrow> ('s, 'a) prog \<Rightarrow> ('s, 'a) prog" where
  "unwinding dtor m = (\<lambda>s. case m s of
     (Inr x, s') \<Rightarrow> (Inr x, s')
   | (Inl e, s') \<Rightarrow>
       if caught e
       then (case dtor s' of
               (Inr _, s'') \<Rightarrow> (Inl e, s'')
             | (Inl _, s'') \<Rightarrow> (Inl (UB ''terminate: exception thrown while unwinding''), s''))
       else (Inl e, s'))"

text \<open>A scope with a local object: the destructor runs in both cases.\<close>

definition scoped :: "('s, unit) prog \<Rightarrow> ('s, 'a) prog \<Rightarrow> ('s, 'a) prog" where
  "scoped dtor m = bnd (unwinding dtor m) (\<lambda>x. sq dtor (ret x))"

lemma with_new_Inr: "with_new x m w = (Inr (y, x'), w') \<longleftrightarrow> m (x, w) = (Inr y, (x', w'))"
  by (auto simp: with_new_def split: prod.splits sum.splits)

lemma unwinding_Inr: "unwinding d m s = (Inr x, t) \<longleftrightarrow> m s = (Inr x, t)"
  by (auto simp: unwinding_def split: prod.splits sum.splits)

definition destroy_q :: "'d dnvme \<Rightarrow> ('q queue_scheme \<times> ('d, 'm) world_scheme, unit) prog" where
  "destroy_q drv = bnd (gets fst) (\<lambda>q. onr (Queue_destroy drv q))"

section \<open>Sending\<close>

text \<open>\<open>Send\<close> is virtual, and overridden by \<open>ASQ\<close>.\<close>

definition sq_Send ::
  "'d dnvme \<Rightarrow> send_masks \<Rightarrow> 'q queue_scheme \<Rightarrow> (cmd \<times> ('d, 'm) world_scheme, u16) prog" where
  "sq_Send drv M q = (if q_type q = OBJ_ASQ then ASQ_Send drv M q else SQ_Send drv M q)"

text \<open>The unique id, \<open>numCE\<close> and \<open>isrCount\<close>.\<close>

definition IO_SendCmd ::
  "'d dnvme \<Rightarrow> send_masks \<Rightarrow> file_system \<Rightarrow> io_call \<Rightarrow> 'q queue_scheme \<Rightarrow> 'r queue_scheme
     \<Rightarrow> (cmd \<times> ('d, 'm) world_scheme, u16 \<times> u32 \<times> u32) prog" where
  "IO_SendCmd drv M fs a subq cq =
     bnd (onr (CQ_ReapInquiry drv cq)) (\<lambda>(numCE, isrCount).
       if numCE \<noteq> 0
       then sq (dump_as fs a ''cq'' ''notEmpty'')
              (raise (FrmwkEx ''Require 0 CE's within CQ %d, not upheld, found %d''))
       else bnd (sq_Send drv M subq) (\<lambda>uniqueId.
            bnd (gets fst) (\<lambda>c.
            sq (dump_if (io_verbose a) fs a (''sq.'' @ mCmdName c))
           (sq (onr (SQ_Ring drv subq))
               (ret (uniqueId, numCE, isrCount))))))"

text \<open>\<open>fuel\<close> bounds the polls, see \<open>reap_wait_loop\<close>.\<close>

definition IO_WaitForReap ::
  "'d dnvme \<Rightarrow> nat \<Rightarrow> file_system \<Rightarrow> io_call \<Rightarrow> u32 \<Rightarrow> 'r queue_scheme \<Rightarrow> string \<Rightarrow> u32 \<times> u32
     \<Rightarrow> (('d, 'm) world_scheme, u32 \<times> u32) prog" where
  "IO_WaitForReap drv fuel fs a ms cq name out =
     bnd (CQ_ReapInquiryWaitSpecify drv fuel cq ms 1 out) (\<lambda>(found, numCE, isrCount).
       if \<not> found
       then sq (dump_as fs a (''cq.'' @ name) (io_qualify a))
              (raise (FrmwkEx ''Unable to see any CE's in CQ %d, dump entire CQ''))
       else if numCE \<noteq> 1
       then sq (dump_as fs a (''cq.'' @ name) (io_qualify a))
              (raise (FrmwkEx ''1 cmd caused %d CE's to arrive in CQ %d''))
       else sq (dump_if (io_verbose a) fs a (''cq.'' @ name)) (ret (numCE, isrCount)))"

section \<open>Reaping\<close>

text \<open>The number of entries reaped and \<open>isrCount\<close>.\<close>

definition IO_AttemptRetrieveCE ::
  "libc \<Rightarrow> 'd dnvme \<Rightarrow> 'r queue_scheme \<Rightarrow> u32 \<Rightarrow> bool \<Rightarrow> (('d, 'm) world_scheme, u32 \<times> u32) prog" where
  "IO_AttemptRetrieveCE C drv cq numCE failOnIoctl =
     bnd new_mb (\<lambda>ceMem.
     bnd (CQ_Reap C drv cq ceMem numCE True failOnIoctl) (\<lambda>(numReaped, ceRemain, isrCount).
       ret (numReaped, isrCount)))"

definition IO_RetrieveCE ::
  "libc \<Rightarrow> 'd dnvme \<Rightarrow> file_system \<Rightarrow> io_call \<Rightarrow> 'r queue_scheme \<Rightarrow> u32 \<Rightarrow> bool
     \<Rightarrow> (('d, 'm) world_scheme, CE) prog" where
  "IO_RetrieveCE C drv fs a cq numCE failOnIoctl =
     bnd (CQ_GetQMetrics drv cq) (\<lambda>cqMetrics.
     bnd (IO_AttemptRetrieveCE C drv cq numCE failOnIoctl) (\<lambda>(numReaped, isrCount).
       if numReaped \<noteq> 1
       then sq (dump_as fs a ''cq.error'' (io_qualify a))
              (raise (FrmwkEx ''Verified CE's exist, desired %d, reaped %d''))
       else CQ_PeekCE cq (gq_head_ptr cqMetrics)))"

text \<open>The loops over the statuses; the vector itself appears in the messages only.\<close>

fun verify_loop :: "CE \<Rightarrow> nat list \<Rightarrow> ex + nat" where
  "verify_loop ce [] = Inl (FrmwkEx ''%d CeStat's compared to device status, but no match found'')"
| "verify_loop ce (st # status) =
     (if st = CESTAT_IGNORE then Inr st
      else if ProcessCE_ValidatePeek ce st then Inr st
      else verify_loop ce status)"

definition IO_VerifyCE :: "CE \<Rightarrow> nat list \<Rightarrow> ex + nat" where
  "IO_VerifyCE ce status =
     (if status = [] then Inl (FrmwkEx ''Internal Programming Error; Must supply >= 1 status'')
      else verify_loop ce status)"

fun invalidate_loop :: "CE \<Rightarrow> nat list \<Rightarrow> ex + unit" where
  "invalidate_loop ce [] = Inr ()"
| "invalidate_loop ce (st # status) =
     (if ProcessCE_InvalidatePeek ce st = False
      then Inl (FrmwkEx ''%d CeStat's compared to device status, and match found'')
      else invalidate_loop ce status)"

text \<open>A reaper, as \<open>SendAndReapCmd\<close> takes it: the statuses and \<open>failOnIoctl\<close> last.\<close>

type_synonym ('d, 'm) reaper =
  "u32 \<Rightarrow> nat list \<Rightarrow> bool \<Rightarrow> (('d, 'm) world_scheme, nat) prog"

definition IO_ReapCE ::
  "libc \<Rightarrow> 'd dnvme \<Rightarrow> file_system \<Rightarrow> io_call \<Rightarrow> 'r queue_scheme \<Rightarrow> ('d, 'm) reaper" where
  "IO_ReapCE C drv fs a cq numCE status failOnIoctl =
     bnd (IO_RetrieveCE C drv fs a cq numCE failOnIoctl) (\<lambda>ce. lift_result (IO_VerifyCE ce status))"

definition IO_ReapCEIgnore ::
  "libc \<Rightarrow> 'd dnvme \<Rightarrow> file_system \<Rightarrow> io_call \<Rightarrow> 'r queue_scheme \<Rightarrow> ('d, 'm) reaper" where
  "IO_ReapCEIgnore C drv fs a cq numCE status failOnIoctl =
     bnd (IO_RetrieveCE C drv fs a cq numCE failOnIoctl) (\<lambda>ce. lift_result (ProcessCE_GetCEStat ce))"

definition IO_ReapCENot ::
  "libc \<Rightarrow> 'd dnvme \<Rightarrow> file_system \<Rightarrow> io_call \<Rightarrow> 'r queue_scheme \<Rightarrow> ('d, 'm) reaper" where
  "IO_ReapCENot C drv fs a cq numCE status failOnIoctl =
     bnd (IO_RetrieveCE C drv fs a cq numCE failOnIoctl) (\<lambda>ce.
     sq (throw_if (status = []) (FrmwkEx ''Internal Programming Error; Must supply >= 1 status''))
    (sq (lift_result (invalidate_loop ce status))
        (lift_result (ProcessCE_GetCEStat ce))))"

definition IO_ReapCEWhole ::
  "libc \<Rightarrow> 'd dnvme \<Rightarrow> file_system \<Rightarrow> io_call \<Rightarrow> 'r queue_scheme \<Rightarrow> u32 \<Rightarrow> bool
     \<Rightarrow> (('d, 'm) world_scheme, CE) prog" where
  "IO_ReapCEWhole C drv fs a cq numCE failOnIoctl = IO_RetrieveCE C drv fs a cq numCE failOnIoctl"

section \<open>Sending and reaping\<close>

definition send_and_wait ::
  "'d dnvme \<Rightarrow> nat \<Rightarrow> send_masks \<Rightarrow> file_system \<Rightarrow> io_call \<Rightarrow> u32 \<Rightarrow> 'q queue_scheme \<Rightarrow> 'r queue_scheme
     \<Rightarrow> (cmd \<times> ('d, 'm) world_scheme, u32) prog" where
  "send_and_wait drv fuel M fs a ms subq cq =
     bnd (IO_SendCmd drv M fs a subq cq) (\<lambda>(uniqueId, out).
     bnd (gets fst) (\<lambda>c.
     bnd (onr (IO_WaitForReap drv fuel fs a ms cq (mCmdName c) out)) (\<lambda>(numCE, isrCount). ret numCE)))"

definition IO_SendAndReapCmd_with ::
  "'d dnvme \<Rightarrow> nat \<Rightarrow> send_masks \<Rightarrow> file_system \<Rightarrow> io_call \<Rightarrow> u32 \<Rightarrow> 'q queue_scheme \<Rightarrow> 'r queue_scheme
     \<Rightarrow> nat list \<Rightarrow> ('d, 'm) reaper \<Rightarrow> (cmd \<times> ('d, 'm) world_scheme, nat) prog" where
  "IO_SendAndReapCmd_with drv fuel M fs a ms subq cq status reap =
     bnd (send_and_wait drv fuel M fs a ms subq cq) (\<lambda>numCE.
     bnd (onr (reap numCE status True)) (\<lambda>retStat.
     bnd (gets fst) (\<lambda>c.
     sq (dump_if (io_verbose a) fs a (mCmdName c)) (ret retStat))))"

definition IO_SendAndReapCmd ::
  "libc \<Rightarrow> 'd dnvme \<Rightarrow> nat \<Rightarrow> send_masks \<Rightarrow> file_system \<Rightarrow> io_call \<Rightarrow> u32 \<Rightarrow> 'q queue_scheme \<Rightarrow> 'r queue_scheme
     \<Rightarrow> nat list \<Rightarrow> (cmd \<times> ('d, 'm) world_scheme, nat) prog" where
  "IO_SendAndReapCmd C drv fuel M fs a ms subq cq status =
     IO_SendAndReapCmd_with drv fuel M fs a ms subq cq status (IO_ReapCE C drv fs a cq)"

definition IO_SendAndReapCmdNot ::
  "libc \<Rightarrow> 'd dnvme \<Rightarrow> nat \<Rightarrow> send_masks \<Rightarrow> file_system \<Rightarrow> io_call \<Rightarrow> u32 \<Rightarrow> 'q queue_scheme \<Rightarrow> 'r queue_scheme
     \<Rightarrow> nat list \<Rightarrow> (cmd \<times> ('d, 'm) world_scheme, nat) prog" where
  "IO_SendAndReapCmdNot C drv fuel M fs a ms subq cq status =
     IO_SendAndReapCmd_with drv fuel M fs a ms subq cq status (IO_ReapCENot C drv fs a cq)"

definition IO_SendAndReapCmdIgnore ::
  "libc \<Rightarrow> 'd dnvme \<Rightarrow> nat \<Rightarrow> send_masks \<Rightarrow> file_system \<Rightarrow> io_call \<Rightarrow> u32 \<Rightarrow> 'q queue_scheme \<Rightarrow> 'r queue_scheme
     \<Rightarrow> (cmd \<times> ('d, 'm) world_scheme, nat) prog" where
  "IO_SendAndReapCmdIgnore C drv fuel M fs a ms subq cq =
     IO_SendAndReapCmd_with drv fuel M fs a ms subq cq [] (IO_ReapCEIgnore C drv fs a cq)"

definition IO_SendAndReapCmdWhole ::
  "libc \<Rightarrow> 'd dnvme \<Rightarrow> nat \<Rightarrow> send_masks \<Rightarrow> file_system \<Rightarrow> io_call \<Rightarrow> u32 \<Rightarrow> 'q queue_scheme \<Rightarrow> 'r queue_scheme
     \<Rightarrow> (cmd \<times> ('d, 'm) world_scheme, CE) prog" where
  "IO_SendAndReapCmdWhole C drv fuel M fs a ms subq cq =
     bnd (send_and_wait drv fuel M fs a ms subq cq) (\<lambda>numCE.
     bnd (onr (IO_ReapCEWhole C drv fs a cq numCE True)) (\<lambda>retCE.
     bnd (gets fst) (\<lambda>c.
     sq (dump_if (io_verbose a) fs a (mCmdName c)) (ret retCE))))"

text \<open>The command is expected to get no completion entry; one that arrives is reaped, then it throws.\<close>

definition IO_SendAndReapCmdFail ::
  "libc \<Rightarrow> 'd dnvme \<Rightarrow> nat \<Rightarrow> send_masks \<Rightarrow> file_system \<Rightarrow> io_call \<Rightarrow> u32 \<Rightarrow> 'q queue_scheme \<Rightarrow> 'r queue_scheme
     \<Rightarrow> (cmd \<times> ('d, 'm) world_scheme, unit) prog" where
  "IO_SendAndReapCmdFail C drv fuel M fs a ms subq cq =
     bnd (IO_SendCmd drv M fs a subq cq) (\<lambda>(uniqueId, out).
     bnd (onr (CQ_ReapInquiryWaitSpecifyQ drv fuel cq ms 1 out)) (\<lambda>(found, numCE, isrCount).
       if \<not> found then ret ()
       else bnd (gets fst) (\<lambda>c.
            sq (dump_if (io_verbose a) fs a (''cq.'' @ mCmdName c))
           (bnd (onr (IO_ReapCEIgnore C drv fs a cq numCE [] True)) (\<lambda>_.
            sq (dump_if (io_verbose a) fs a (mCmdName c))
               (raise (FrmwkEx ''Command was successfully processed and its completion was reaped from the CQ'')))))))"

section \<open>Interrupt schemes (irq.cpp)\<close>

definition IRQ_VerifyAnySchemeSpecifyNum ::
  "libc \<Rightarrow> 'd dnvme \<Rightarrow> u16 \<Rightarrow> (('d, 'm) registers_scheme, bool \<times> nvme_irq_type) prog" where
  "IRQ_VerifyAnySchemeSpecifyNum C drv numIrqsDesire =
     bnd (CtrlrConfig_IsMSIXCapable C drv) (\<lambda>(ok, capable, numIrqsSupported).
     sq (throw_if (\<not> ok) (FrmwkEx []))
     (if capable \<and> \<not> numIrqsDesire > numIrqsSupported then ret (True, INT_MSIX)
      else bnd (CtrlrConfig_IsMSICapable C drv) (\<lambda>(ok, capable, numIrqsSupported).
           sq (throw_if (\<not> ok) (FrmwkEx []))
           (if capable \<and> \<not> numIrqsDesire > numIrqsSupported
            then ret (True, if numIrqsSupported = 1 then INT_MSI_SINGLE else INT_MSI_MULTI)
            else ret (False, INT_NONE)))))"

definition IRQ_SetAnySchemeSpecifyNum ::
  "libc \<Rightarrow> 'd dnvme \<Rightarrow> u16 \<Rightarrow> (('d, 'm) registers_scheme, unit) prog" where
  "IRQ_SetAnySchemeSpecifyNum C drv numIrqsDesire =
     bnd (IRQ_VerifyAnySchemeSpecifyNum C drv numIrqsDesire) (\<lambda>(ok, irqScheme).
     sq (throw_if (\<not> ok) (FrmwkEx []))
    (bnd (CtrlrConfig_SetIrqScheme drv irqScheme numIrqsDesire) (\<lambda>ok.
       throw_if (\<not> ok) (FrmwkEx []))))"

definition IRQ_GetMaxIRQsSupportedAnyScheme ::
  "libc \<Rightarrow> 'd dnvme \<Rightarrow> (('d, 'm) registers_scheme, u16) prog" where
  "IRQ_GetMaxIRQsSupportedAnyScheme C drv =
     bnd (CtrlrConfig_GetIrqScheme drv (INT_NONE, 0)) (\<lambda>(ok, irq, max_ivec).
     sq (throw_if (\<not> ok) (FrmwkEx ''Unable to retrieve current IRQ scheme''))
     (case irq of
        INT_MSI_MULTI \<Rightarrow>
          bnd (CtrlrConfig_IsMSICapable C drv) (\<lambda>(ok, capable, n). sq (throw_if (\<not> ok) (FrmwkEx [])) (ret n))
      | INT_MSIX \<Rightarrow>
          bnd (CtrlrConfig_IsMSIXCapable C drv) (\<lambda>(ok, capable, n). sq (throw_if (\<not> ok) (FrmwkEx [])) (ret n))
      | INT_MSI_SINGLE \<Rightarrow> ret 0
      | INT_NONE \<Rightarrow> ret 0
      | INT_other _ \<Rightarrow> raise (FrmwkEx ''Unsupported IRQ scheme, what to do?'')))"

section \<open>Backdoor (backdoor.cpp)\<close>

text \<open>The object is its file descriptor; the ioctl is an argument.\<close>

definition Backdoor_Backdoor :: "int \<Rightarrow> ex + int" where
  "Backdoor_Backdoor fd = (if fd < 0 then Inl (FrmwkEx ''Object created with a bad FD=%d'') else Inr fd)"

definition Backdoor_SetToxicCmdValue :: "('i \<Rightarrow> 'd \<Rightarrow> int \<times> 'd) \<Rightarrow> 'i \<Rightarrow> (('d, 'm) proc_scheme, unit) prog" where
  "Backdoor_SetToxicCmdValue toxic injectReq =
     bnd (ioctl1 (toxic injectReq)) (\<lambda>r. throw_if (r < 0) (FrmwkEx ''Backdoor toxic injection failed: 0x%02X''))"

section \<open>What sending and reaping leave behind\<close>

lemma IrqsEnabled_pair: "onr (CtrlrConfig_IrqsEnabled drv) (c, s) = (r, (c', s')) \<Longrightarrow> c' = c"
  by (auto split: prod.splits)

lemma sq_Send_run:
  fixes s s' :: "('d, 'm) world_scheme"
  assumes "sq_Send drv M q (c, s) = (Inr uid, (c', s'))"
  shows "Cmd_SetCID uid c = (Inr (), c')"
proof (cases "q_type q = OBJ_ASQ")
  case True
  let ?pre = "if mQId q \<noteq> 0 then ret False
          else bnd (onl Cmd_GetOpcode) (\<lambda>opc.
            if opc \<noteq> 0x05 then ret False
            else bnd (onl (Cmd_GetBit 11 1)) (\<lambda>ien.
              if \<not> ien then ret False
              else bnd (onr (CtrlrConfig_IrqsEnabled drv)) (\<lambda>en. ret (\<not> en))))"
  obtain bad c1 and s1 :: "('d, 'm) world_scheme" where
    pre: "?pre (c, s) = (Inr bad, (c1, s1))" and run: "SQ_Send drv M q (c1, s1) = (Inr uid, (c', s'))"
  proof -
    have "bnd ?pre (\<lambda>bad. if bad then raise (FrmwkEx ''Rethink test case, see gCtrlrConfig->SetIrqScheme()'')
        else SQ_Send drv M q) (c, s) = (Inr uid, (c', s'))"
      using assms True by (simp only: sq_Send_def ASQ_Send_def if_True simp_thms)
    then obtain bad u where "?pre (c, s) = (Inr bad, u)"
      "(if bad then raise (FrmwkEx ''Rethink test case, see gCtrlrConfig->SetIrqScheme()'')
        else SQ_Send drv M q) u = (Inr uid, (c', s'))"
      unfolding bnd_Inr_iff by blast
    then show thesis using that by (cases u; cases bad) auto
  qed
  have "c1 = c"
    using pre by (auto simp: bnd_Inr_iff dest!: GetOpcode_same GetBit_same split: if_splits prod.splits)
  then show ?thesis using SQ_Send_run [OF run] by blast
next
  case False
  then have "SQ_Send drv M q (c, s) = (Inr uid, (c', s'))" using assms by (simp add: sq_Send_def)
  from SQ_Send_run [OF this] show ?thesis by blast
qed

lemma dump_state: "dump_if b fs a n s = (r, t) \<Longrightarrow> t = s" "dump_as fs a n q s = (r, t) \<Longrightarrow> t = s"
  by (auto simp: dump_if_def dump_as_def bnd_apply split: if_splits sum.splits)

lemma SendCmd_run:
  fixes s s' :: "('d, 'm) world_scheme"
  assumes "IO_SendCmd drv M fs a subq cq (c, s) = (Inr (uid, out), (c', s'))"
  shows "Cmd_SetCID uid c = (Inr (), c') \<and>
    (\<exists>rc inq d. io_reap_inquiry drv (mQId cq) (kern s) = (rc, inq, d) \<and> 0 \<le> rc \<and> ri_num_remaining inq = 0)"
proof -
  obtain n isr and u :: "('d, 'm) world_scheme" and u1 where
    q: "CQ_ReapInquiry drv cq s = (Inr (n, isr), u)" and n: "n = 0"
    and sd: "sq_Send drv M subq (c, u) = (Inr uid, u1)"
    and rest: "sq (dump_if (io_verbose a) fs a (''sq.'' @ mCmdName (fst u1)))
        (sq (onr (SQ_Ring drv subq)) (ret (uid, n, isr))) u1 = (Inr (uid, out), (c', s'))"
    using assms by (auto simp: IO_SendCmd_def bnd_Inr_iff sq_Inr_iff onr_Inr simp del: onr_apply split: if_splits)
  have "fst u1 = c'"
    using rest by (auto simp: sq_Inr_iff onr_Inr simp del: onr_apply dest!: dump_state)
  moreover obtain c1 s1 where "u1 = (c1, s1)" by fastforce
  ultimately have "Cmd_SetCID uid c = (Inr (), c')" using sq_Send_run sd by fastforce
  then show ?thesis
    using q n by (auto simp: CQ_ReapInquiry_def bnd_Inr_iff sq_Inr_iff ioctl2_Inr not_less split: prod.splits if_splits)
qed

lemma WaitForReap_one: "IO_WaitForReap drv fuel fs a ms cq name out s = (Inr (n, isr), t) \<Longrightarrow> n = 1"
  by (auto simp: IO_WaitForReap_def bnd_Inr_iff sq_Inr_iff split: if_splits)

lemma RetrieveCE_run: "IO_RetrieveCE C drv fs a cq n f s = (Inr ce, t) \<Longrightarrow>
    \<exists>hd u. CQ_PeekCE cq hd u = (Inr ce, t)"
  by (auto simp: IO_RetrieveCE_def bnd_Inr_iff sq_Inr_iff split: if_splits)

lemma send_and_wait_run:
  fixes s s' :: "('d, 'm) world_scheme"
  assumes "send_and_wait drv fuel M fs a ms subq cq (c, s) = (Inr n, (c', s'))"
  shows "n = 1 \<and> (\<exists>uid. Cmd_SetCID uid c = (Inr (), c')) \<and>
    (\<exists>rc inq d. io_reap_inquiry drv (mQId cq) (kern s) = (rc, inq, d) \<and> 0 \<le> rc \<and> ri_num_remaining inq = 0)"
proof -
  obtain uid out c1 isr and s1 :: "('d, 'm) world_scheme" where
    sd: "IO_SendCmd drv M fs a subq cq (c, s) = (Inr (uid, out), (c1, s1))"
    and w: "IO_WaitForReap drv fuel fs a ms cq (mCmdName c1) out s1 = (Inr (n, isr), s')" and "c1 = c'"
    using assms by (auto simp: send_and_wait_def bnd_Inr_iff onr_Inr simp del: onr_apply)
  then show ?thesis using SendCmd_run [OF sd] WaitForReap_one [OF w] by blast
qed

text \<open>The statuses a caller accepts; for one of the table this is the decoded status of the entry.\<close>

definition accepts :: "CE \<Rightarrow> nat \<Rightarrow> bool" where
  "accepts ce st \<longleftrightarrow> st = CESTAT_IGNORE \<or> ProcessCE_GetCEStat ce = Inr st \<and> (st = CESTAT_SUCCESS \<longrightarrow> \<not> sf_M (ce_SFb ce))"

lemma verify_loop_first:
  assumes "list_all (\<lambda>st. st < CESTAT_FENCE) status"
  shows "verify_loop ce status = Inr st \<longleftrightarrow>
    (\<exists>pre post. status = pre @ st # post \<and> accepts ce st \<and> list_all (\<lambda>x. \<not> accepts ce x) pre)"
  using assms
proof (induction status)
  case Nil
  then show ?case by simp
next
  case (Cons x xs)
  have x: "accepts ce x \<longleftrightarrow> x = CESTAT_IGNORE \<or> ProcessCE_ValidatePeek ce x"
    using Cons.prems ValidatePeek_iff [of x ce] by (simp add: accepts_def)
  show ?case
  proof (cases "accepts ce x")
    case True
    then have "verify_loop ce (x # xs) = Inr x" using x by auto
    then show ?thesis using True by (auto simp: Cons_eq_append_conv)
  next
    case False
    then have A: "verify_loop ce (x # xs) = verify_loop ce xs" using x by auto
    have B: "verify_loop ce xs = Inr st \<longleftrightarrow>
        (\<exists>pre post. xs = pre @ st # post \<and> accepts ce st \<and> list_all (\<lambda>y. \<not> accepts ce y) pre)"
      using Cons by simp
    have C: "(\<exists>pre post. x # xs = pre @ st # post \<and> accepts ce st \<and> list_all (\<lambda>y. \<not> accepts ce y) pre) \<longleftrightarrow>
        (\<exists>pre post. xs = pre @ st # post \<and> accepts ce st \<and> list_all (\<lambda>y. \<not> accepts ce y) pre)" (is "?L \<longleftrightarrow> ?R")
    proof
      assume ?L
      then obtain pre post where *: "x # xs = pre @ st # post" "accepts ce st" "list_all (\<lambda>y. \<not> accepts ce y) pre" by blast
      then have "pre \<noteq> []" using False by auto
      then show ?R using * by (cases pre) auto
    next
      assume ?R
      then obtain pre post where "xs = pre @ st # post" "accepts ce st" "list_all (\<lambda>y. \<not> accepts ce y) pre" by blast
      then have "x # xs = (x # pre) @ st # post \<and> accepts ce st \<and> list_all (\<lambda>y. \<not> accepts ce y) (x # pre)"
        using False by simp
      then show ?L by blast
    qed
    show ?thesis by (simp only: A B C)
  qed
qed

lemma VerifyCE_Inr: "IO_VerifyCE ce status = Inr st \<Longrightarrow> verify_loop ce status = Inr st"
  by (auto simp: IO_VerifyCE_def split: if_splits)

lemma SendAndReapCmd_run:
  fixes s s' :: "('d, 'm) world_scheme"
  assumes "IO_SendAndReapCmd C drv fuel M fs a ms subq cq status (c, s) = (Inr st, (c', s'))"
  shows "(\<exists>rc inq d. io_reap_inquiry drv (mQId cq) (kern s) = (rc, inq, d) \<and> 0 \<le> rc \<and> ri_num_remaining inq = 0) \<and>
    (\<exists>uid. Cmd_SetCID uid c = (Inr (), c')) \<and>
    (\<exists>ce hd u. CQ_PeekCE cq hd u = (Inr ce, s') \<and> IO_VerifyCE ce status = Inr st)"
proof -
  obtain n and s1 s2 :: "('d, 'm) world_scheme" where
    sw: "send_and_wait drv fuel M fs a ms subq cq (c, s) = (Inr n, (c', s1))"
    and re: "IO_ReapCE C drv fs a cq n status True s1 = (Inr st, s2)" and "s2 = s'"
    using assms
    by (auto simp: IO_SendAndReapCmd_def IO_SendAndReapCmd_with_def bnd_Inr_iff sq_Inr_iff onr_Inr
        simp del: onr_apply dest!: dump_state)
  then show ?thesis
    using send_and_wait_run [OF sw] RetrieveCE_run
    by (fastforce simp: IO_ReapCE_def bnd_Inr_iff split: sum.splits)
qed

section \<open>Properties\<close>

text \<open>C14: \<open>VerifyCE\<close> returns the first of the caller's statuses that the completion entry meets: the decoded status
  of the entry (a success without the 'more' bit), or the status that accepts everything; when there is none,
  or no status was supplied, it throws.\<close>

theorem VerifyCE_first_match:
  assumes "list_all (\<lambda>st. st < CESTAT_FENCE) status"
  shows "(IO_VerifyCE ce status = Inr st \<longleftrightarrow>
      (\<exists>pre post. status = pre @ st # post \<and> accepts ce st \<and> list_all (\<lambda>x. \<not> accepts ce x) pre)) \<and>
    (isl (IO_VerifyCE ce status) \<longleftrightarrow> list_all (\<lambda>x. \<not> accepts ce x) status)"
proof -
  have "isl (verify_loop ce xs) \<longleftrightarrow> list_all (\<lambda>x. \<not> accepts ce x) xs" if "list_all (\<lambda>st. st < CESTAT_FENCE) xs" for xs
    using that by (induction xs) (auto simp: accepts_def ValidatePeek_iff)
  then show ?thesis
    using assms verify_loop_first [OF assms] by (auto simp: IO_VerifyCE_def)
qed


text \<open>Examples: a driver that counts the commands sent and has one entry, a success, for each.\<close>

definition io_dnvme :: "nat dnvme" where
  "io_dnvme = null_dnvme\<lparr>io_read := (\<lambda>io buf d. (0, map (\<lambda>_. 0) buf, d)),
     io_get_irq := (\<lambda>d. (0, (INT_NONE, 0), d)), io_clock := (\<lambda>d. (0, (0, 0), d)),
     io_send_64b := (\<lambda>c d. (0, 7, d + 1)), io_ring_sq := (\<lambda>q d. (0, d)),
     io_q_metrics := (\<lambda>b q d. (0, \<lparr>gq_q_id = q, gq_tail_ptr = 1, gq_head_ptr = 0, gq_elements = 4\<rparr>, d)),
     io_reap_inquiry := (\<lambda>q d. (0, \<lparr>ri_num_remaining = of_nat d, ri_isr_count = 0\<rparr>, d)),
     io_reap := (\<lambda>q n buf d.
       (0, \<lparr>rp_num_reaped = 1, rp_num_remaining = 0, rp_isr_count = 0, rp_buffer = take 1 buf\<rparr>, d - 1))\<rparr>"

definition io_world :: "nat world" where
  "io_world = \<lparr>kern = 0, mmaps = (\<lambda>_. []), rg_specRev = SPECREV_12, rg_pciCap = [],
     rg_pci = pci_table, cf_curState = ST_ENABLE, cf_firstTime = False, cf_deltaCheck = False,
     mr_allocSize = 0, mr_reserved = [], mr_released = [], mObjGrpLife = [], ob_heap = 0,
     wd_bufs = (\<lambda>_. \<lparr>mAllocByNewOperator = False, mRealBaseAddr = Some (replicate 64 0), mVirOff = 0,
        mVirBufSize = 64, mAlignment = 128\<rparr>), wd_next = 1,
     mIdentifyCmdCtrlr = None, mIdentifyCmdNamspc = [], mGetFeaturesNumOfQ = 0\<rparr>"

definition ex_call :: io_call where
  "ex_call = \<lparr>io_grpName = ''grp'', io_testName = ''tst'', io_qualify = [], io_verbose = False\<rparr>"

definition ex_fs :: file_system where
  "ex_fs = \<lparr>mUseDirInfo = True, mDumpDirInfo = ''./'', mDumpDirPending = ''./''\<rparr>"

definition ex_send_and_reap :: "(cmd \<times> nat world, nat) prog" where
  "ex_send_and_reap =
     IO_SendAndReapCmd ex_libc io_dnvme 2 ex_masks ex_fs ex_call 1000 ex_sq (ex_cq\<lparr>mEntrySize := 1\<rparr>) [1, CESTAT_SUCCESS]"

lemma ex_send_and_reap_runs: "fst (ex_send_and_reap (ex_cmd, io_world)) = Inr CESTAT_SUCCESS"
  by code_simp


theorem VerifyCE_first_match_witness:
  "(IO_VerifyCE (ce_of_bytes (replicate 16 0)) [1, 0] = Inr 0 \<longleftrightarrow>
      (\<exists>pre post. [1, 0] = pre @ 0 # post \<and> accepts (ce_of_bytes (replicate 16 0)) 0 \<and>
        list_all (\<lambda>x. \<not> accepts (ce_of_bytes (replicate 16 0)) x) pre)) \<and>
    (isl (IO_VerifyCE (ce_of_bytes (replicate 16 0)) [1, 0]) \<longleftrightarrow>
      list_all (\<lambda>x. \<not> accepts (ce_of_bytes (replicate 16 0)) x) [1, 0])"
  by (rule VerifyCE_first_match) simp

end
