(* ===== verification/Parsers.thy ===== *)
theory Parsers
  imports Test_Run
begin

text \<open>
  The parsers of the command line (tnvmeParsers.cpp): the C conversions \<open>strtol\<close> and \<open>strtoul\<close> they use, the
  target of a test run, the list of tests to skip, register access, error masks and number of queues. A
  parser returns the structure it fills and whether it succeeded. \<open>*endptr\<close> is the first character after
  the number, as long as the temporary string it points into is intact. The XML files of \<open>--golden\<close> and
  \<open>--format\<close> are the subject of Xml_Parsers.
\<close>

section \<open>strtol, strtoul\<close>

definition is_space :: "char \<Rightarrow> bool" where
  "is_space c \<longleftrightarrow> c \<in> {CHR '' '', CHR 0x09, CHR 0x0a, CHR 0x0b, CHR 0x0c, CHR 0x0d}"

definition digit_table :: "(char \<times> nat) list" where
  "digit_table =
     [(CHR ''0'', 0), (CHR ''1'', 1), (CHR ''2'', 2), (CHR ''3'', 3), (CHR ''4'', 4), (CHR ''5'', 5),
      (CHR ''6'', 6), (CHR ''7'', 7), (CHR ''8'', 8), (CHR ''9'', 9), (CHR ''a'', 10), (CHR ''b'', 11),
      (CHR ''c'', 12), (CHR ''d'', 13), (CHR ''e'', 14), (CHR ''f'', 15), (CHR ''A'', 10), (CHR ''B'', 11),
      (CHR ''C'', 12), (CHR ''D'', 13), (CHR ''E'', 14), (CHR ''F'', 15)]"

definition digit_val :: "nat \<Rightarrow> char \<Rightarrow> nat option" where
  "digit_val base c = (case map_of digit_table c of Some d \<Rightarrow> if d < base then Some d else None | None \<Rightarrow> None)"

fun read_digits :: "nat \<Rightarrow> nat \<Rightarrow> string \<Rightarrow> nat \<times> string" where
  "read_digits base acc [] = (acc, [])"
| "read_digits base acc (c # cs) =
     (case digit_val base c of Some d \<Rightarrow> read_digits base (acc * base + d) cs | None \<Rightarrow> (acc, c # cs))"

fun read_sign :: "string \<Rightarrow> bool \<times> string" where
  "read_sign [] = (False, [])"
| "read_sign (c # cs) = (if c = CHR ''-'' then (True, cs) else if c = CHR ''+'' then (False, cs) else (False, c # cs))"

definition skip_0x :: "nat \<Rightarrow> string \<Rightarrow> string" where
  "skip_0x base s =
     (case s of
        z # x # d # _ \<Rightarrow>
          if base = 16 \<and> z = CHR ''0'' \<and> (x = CHR ''x'' \<or> x = CHR ''X'') \<and> digit_val 16 d \<noteq> None then drop 2 s else s
      | _ \<Rightarrow> s)"

text \<open>Sign, magnitude, and the string \<open>endptr\<close> points to; without digits the value is zero and nothing is consumed.\<close>

definition strto :: "nat \<Rightarrow> string \<Rightarrow> (bool \<times> nat) \<times> string" where
  "strto base s =
     (case read_sign (dropWhile is_space s) of (neg, s1) \<Rightarrow>
        let s2 = skip_0x base s1 in
        if s2 \<noteq> [] \<and> digit_val base (hd s2) \<noteq> None
        then (case read_digits base 0 s2 of (n, rest) \<Rightarrow> ((neg, n), rest))
        else ((False, 0), s))"

definition LONG_MAX :: int where "LONG_MAX = 9223372036854775807"
definition ULONG_MAX :: nat where "ULONG_MAX = 18446744073709551615"

definition strtol :: "nat \<Rightarrow> string \<Rightarrow> int \<times> string" where
  "strtol base s =
     (case strto base s of ((neg, n), rest) \<Rightarrow>
        (if neg then max (- LONG_MAX - 1) (- int n) else min LONG_MAX (int n), rest))"

definition strtoul :: "nat \<Rightarrow> string \<Rightarrow> nat \<times> string" where
  "strtoul base s =
     (case strto base s of ((neg, n), rest) \<Rightarrow>
        (if n > ULONG_MAX then ULONG_MAX else if neg then nat ((- int n) mod 2 ^ 64) else n, rest))"

text \<open>\<open>swork.substr(swork.find_first_of(c) + 1, ...)\<close>; \<open>npos + 1\<close> is zero.\<close>

definition after_first :: "char \<Rightarrow> string \<Rightarrow> string" where
  "after_first c s = (if c \<in> set s then tl (dropWhile (\<lambda>d. d \<noteq> c) s) else s)"

definition at_char :: "char \<Rightarrow> string \<Rightarrow> bool" where
  "at_char c s \<longleftrightarrow> s \<noteq> [] \<and> hd s = c"

section \<open>The target\<close>

record TestTarget =
  tt_req :: bool
  tt_t :: TestRef

text \<open>\<open>target.t = ...; return ...\<close>\<close>

definition target_ok :: "TestRef \<Rightarrow> bool" where
  "target_ok t \<longleftrightarrow> \<not> tr_group t = UINT_MAX \<and>
     \<not> \<not> ((xLev t = UINT_MAX \<and> yLev t = UINT_MAX \<and> zLev t = UINT_MAX) \<or>
          (xLev t \<noteq> UINT_MAX \<and> yLev t \<noteq> UINT_MAX \<and> zLev t \<noteq> UINT_MAX))"

definition ParseTargetCmdLine :: "string option \<Rightarrow> bool \<times> TestTarget" where
  "ParseTargetCmdLine optarg =
     (let t0 = TestRef_Init UINT_MAX UINT_MAX UINT_MAX UINT_MAX; res = (\<lambda>ok t. (ok, \<lparr>tt_req = True, tt_t = t\<rparr>)) in
      case optarg of
        None \<Rightarrow> res True t0
      | Some s \<Rightarrow>
          if CHR '':'' \<notin> set s then
            (case strtol 10 s of (tmp, e) \<Rightarrow>
               if e \<noteq> [] then res False t0
               else if tmp < 0 then res False t0
               else let t1 = t0\<lparr>tr_group := nat tmp\<rparr> in res (target_ok t1) t1)
          else
            (case strtol 10 s of (tmp, e) \<Rightarrow>
               if \<not> at_char CHR '':'' e then res False t0
               else if tmp < 0 then res False t0
               else let t1 = t0\<lparr>tr_group := nat tmp\<rparr>; s1 = after_first CHR '':'' s in
                 if s1 = [] then res False t1
                 else (case strtol 10 s1 of (tmp, e) \<Rightarrow>
                   if \<not> at_char CHR ''.'' e then res False t1
                   else if tmp < 0 then res False t1
                   else let t2 = t1\<lparr>xLev := nat tmp\<rparr>; s2 = after_first CHR ''.'' s1 in
                     if s2 = [] then res False t2
                     else (case strtol 10 s2 of (tmp, e) \<Rightarrow>
                       if \<not> at_char CHR ''.'' e then res False t2
                       else if tmp < 0 then res False t2
                       else let t3 = t2\<lparr>yLev := nat tmp\<rparr>; s3 = after_first CHR ''.'' s2 in
                         if s3 = [] then res False t3
                         else (case strtol 10 s3 of (tmp, e) \<Rightarrow>
                           if e \<noteq> [] then res False t3
                           else if tmp < 0 then res False t3
                           else let t4 = t3\<lparr>zLev := nat tmp\<rparr> in res (target_ok t4) t4)))))"

section \<open>The list of tests to skip\<close>

text \<open>
  The loop over the contents of the file: the rest of the contents, the line collected so far, the tests
  read. A comment jumps to the end of its line; when the file ends within it, the loop goes on with the
  next character.
\<close>

definition eol :: "char \<Rightarrow> bool" where
  "eol c \<longleftrightarrow> c = CHR 0x0a \<or> c = CHR 0x0d"

definition is_alnum :: "char \<Rightarrow> bool" where
  "is_alnum c \<longleftrightarrow> (let n = (of_char c :: nat) in 48 \<le> n \<and> n \<le> 57 \<or> 65 \<le> n \<and> n \<le> 90 \<or> 97 \<le> n \<and> n \<le> 122)"

definition end_of_line :: "string \<Rightarrow> TestRef list \<Rightarrow> TestRef list option" where
  "end_of_line line skipTest =
     (if line = [] then Some skipTest
      else (case ParseTargetCmdLine (Some line) of
              (False, _) \<Rightarrow> None
            | (True, tmp) \<Rightarrow> Some (skipTest @ [tt_t tmp])))"

function skip_lines :: "string \<Rightarrow> string \<Rightarrow> TestRef list \<Rightarrow> TestRef list option" where
  "skip_lines [] line skipTest = Some skipTest"
| "skip_lines (c # cs) line skipTest =
     (if c = CHR ''#'' then
        (case dropWhile (\<lambda>d. \<not> eol d) (c # cs) of
           [] \<Rightarrow> skip_lines cs line skipTest
         | _ # rest \<Rightarrow>
             (case end_of_line line skipTest of None \<Rightarrow> None | Some sk \<Rightarrow> skip_lines rest [] sk))
      else if eol c then
        (case end_of_line line skipTest of None \<Rightarrow> None | Some sk \<Rightarrow> skip_lines cs [] sk)
      else skip_lines cs (if is_alnum c \<or> c = CHR ''.'' \<or> c = CHR '':'' then line @ [c] else line) skipTest)"
  by pat_completeness auto
termination
proof (relation "measure (\<lambda>(s, _, _). length s)")
  fix c cs d rest line skipTest sk
  assume "dropWhile (\<lambda>d. \<not> eol d) (c # cs) = d # rest"
  then have "length (d # rest) \<le> length (c # cs)" by (metis length_dropWhile_le)
  then show "((rest, [], sk), (c # cs, line, skipTest)) \<in> measure (\<lambda>(s, _, _). length s)" by simp
qed simp_all

text \<open>
  The contents, as the reads assemble them, are \<open>None\<close> when the file cannot be opened or read. The report of
  what will be skipped is not modelled.
\<close>

definition ParseSkipTestCmdLine :: "string option \<Rightarrow> TestRef list \<Rightarrow> TestRef list option" where
  "ParseSkipTestCmdLine contents skipTest =
     (case contents of None \<Rightarrow> None | Some s \<Rightarrow> skip_lines s [] skipTest)"

section \<open>Access to mapped registers\<close>

text \<open>\<open>NVMEIO_FENCE\<close> and \<open>ACC_FENCE\<close> are \<open>None\<close>.\<close>

record RmmapIo =
  rm_req :: bool
  rm_space :: "nvme_io_space option"
  rm_offset :: nat
  rm_size :: nat
  rm_acc :: "nvme_acc_type option"

record WmmapIo = RmmapIo +
  wm_value :: nat

definition parse_space :: "string \<Rightarrow> nvme_io_space option" where
  "parse_space s =
     (if s = ''PCI'' then Some NVMEIO_PCI_HDR else if s = ''BAR01'' then Some NVMEIO_BAR01 else None)"

text \<open>The access width: what follows the first letter must be hexadecimal, before the whole is compared.\<close>

definition parse_acc :: "string \<Rightarrow> nvme_acc_type option" where
  "parse_acc s =
     (if snd (strtoul 16 (drop 1 s)) \<noteq> [] then None
      else if s = ''b'' then Some BYTE_LEN
      else if s = ''w'' then Some WORD_LEN
      else if s = ''l'' then Some DWORD_LEN
      else if s = ''q'' then Some QUAD_LEN
      else None)"

definition before_first :: "char \<Rightarrow> string \<Rightarrow> string" where
  "before_first c s = takeWhile (\<lambda>d. d \<noteq> c) s"

definition ParseRmmapCmdLine :: "string \<Rightarrow> bool \<times> RmmapIo" where
  "ParseRmmapCmdLine optarg =
     (let r0 = \<lparr>rm_req = True, rm_space = None, rm_offset = 0, rm_size = 0, rm_acc = None\<rparr> in
      if CHR '':'' \<notin> set optarg then (False, r0)
      else (case parse_space (before_first CHR '':'' optarg) of
        None \<Rightarrow> (False, r0)
      | Some spc \<Rightarrow>
        let r1 = r0\<lparr>rm_space := Some spc\<rparr>; s1 = after_first CHR '':'' optarg in
        case strtoul 16 s1 of (tmp, e) \<Rightarrow>
          if \<not> at_char CHR '':'' e then (False, r1)
          else let r2 = r1\<lparr>rm_offset := tmp\<rparr>; s2 = after_first CHR '':'' s1 in
            if s2 = [] then (False, r2)
            else case strtoul 16 s2 of (tmp, e) \<Rightarrow>
              if \<not> at_char CHR '':'' e then (False, r2)
              else let r3 = r2\<lparr>rm_size := tmp\<rparr>; s3 = after_first CHR '':'' s2 in
                if s3 = [] then (False, r3)
                else case parse_acc s3 of
                  None \<Rightarrow> (False, r3)
                | Some a \<Rightarrow> (True, r3\<lparr>rm_acc := Some a\<rparr>)))"

definition ParseWmmapCmdLine :: "string \<Rightarrow> bool \<times> WmmapIo" where
  "ParseWmmapCmdLine optarg =
     (let r0 = \<lparr>rm_req = True, rm_space = None, rm_offset = 0, rm_size = 0, rm_acc = None, wm_value = 0\<rparr> in
      if CHR '':'' \<notin> set optarg then (False, r0)
      else (case parse_space (before_first CHR '':'' optarg) of
        None \<Rightarrow> (False, r0)
      | Some spc \<Rightarrow>
        let r1 = r0\<lparr>rm_space := Some spc\<rparr>; s1 = after_first CHR '':'' optarg in
        case strtoul 16 s1 of (tmp, e) \<Rightarrow>
          if \<not> at_char CHR '':'' e then (False, r1)
          else let r2 = r1\<lparr>rm_offset := tmp\<rparr>; s2 = after_first CHR '':'' s1 in
            case strtoul 16 s2 of (tmp, e) \<Rightarrow>
              if \<not> at_char CHR '':'' e then (False, r2)
              else if tmp > 8 then (False, r2)
              else let r3 = r2\<lparr>rm_size := tmp\<rparr>; s3 = after_first CHR '':'' s2 in
                if s3 = [] then (False, r3)
                else case strtoul 16 s3 of (tmp, e) \<Rightarrow>
                  if \<not> at_char CHR '':'' e then (False, r3)
                  else let r4 = r3\<lparr>wm_value := tmp\<rparr>; s4 = after_first CHR '':'' s3 in
                    if s4 = [] then (False, r4)
                    else case parse_acc s4 of
                      None \<Rightarrow> (False, r4)
                    | Some a \<Rightarrow> (True, r4\<lparr>rm_acc := Some a\<rparr>)))"

section \<open>Error masks, number of queues\<close>

definition ParseErrorCmdLine :: "string \<Rightarrow> bool \<times> ErrorRegs" where
  "ParseErrorCmdLine optarg =
     (let r0 = \<lparr>er_sts = 0, er_pxds = 0, er_aeruces = 0, er_csts = 0\<rparr> in
      case strtoul 16 optarg of (tmp, e) \<Rightarrow>
        if \<not> at_char CHR '':'' e then (False, r0)
        else if tmp > 65535 then (False, r0)
        else let r1 = r0\<lparr>er_sts := of_nat tmp\<rparr>; s1 = after_first CHR '':'' optarg in
          case strtoul 16 s1 of (tmp, e) \<Rightarrow>
            if \<not> at_char CHR '':'' e then (False, r1)
            else if tmp > 65535 then (False, r1)
            else let r2 = r1\<lparr>er_pxds := of_nat tmp\<rparr>; s2 = after_first CHR '':'' s1 in
              case strtoul 16 s2 of (tmp, e) \<Rightarrow>
                if \<not> at_char CHR '':'' e then (False, r2)
                else if tmp > 65535 then (False, r2)
                else let r3 = r2\<lparr>er_aeruces := of_nat tmp\<rparr>; s3 = after_first CHR '':'' s2 in
                  case strtoul 16 s3 of (tmp, e) \<Rightarrow>
                    if e \<noteq> [] then (False, r3)
                    else if tmp > 65535 then (False, r3)
                    else (True, r3\<lparr>er_csts := ucast (of_nat tmp :: u16)\<rparr>))"

record NumQueues =
  nq_req :: bool
  nq_ncqr :: u16
  nq_nsqr :: u16

definition ParseQueuesCmdLine :: "string \<Rightarrow> bool \<times> NumQueues" where
  "ParseQueuesCmdLine optarg =
     (let r0 = \<lparr>nq_req = True, nq_ncqr = 0, nq_nsqr = 0\<rparr> in
      case strtoul 16 optarg of (tmp, e) \<Rightarrow>
        if \<not> at_char CHR '':'' e then (False, r0)
        else if tmp > 65535 then (False, r0)
        else let r1 = r0\<lparr>nq_ncqr := of_nat tmp\<rparr>; s1 = after_first CHR '':'' optarg in
          if s1 = [] then (False, r1)
          else case strtoul 16 s1 of (tmp, e) \<Rightarrow>
            if e \<noteq> [] then (False, r1)
            else if tmp > 65535 then (False, r1)
            else (True, r1\<lparr>nq_nsqr := of_nat tmp\<rparr>))"

section \<open>The firmware image\<close>

text \<open>
  \<open>data.empty()\<close> only asks whether the vector is empty. The file is read byte by byte; \<open>None\<close> when it
  cannot be opened, and whether the reads end without an error.
\<close>

record FWImage =
  fw_req :: bool
  fw_data :: "u8 list"

definition ParseFWImageCmdLine :: "(u8 list \<times> bool) option \<Rightarrow> FWImage \<Rightarrow> bool \<times> FWImage" where
  "ParseFWImageCmdLine file fwimage =
     (case file of
        None \<Rightarrow> (False, fwimage)
      | Some (bytes, ok) \<Rightarrow>
          (let f = fwimage\<lparr>fw_data := fw_data fwimage @ bytes\<rparr> in
           if \<not> ok then (False, f) else (True, f\<lparr>fw_req := True\<rparr>)))"

section \<open>The decimal and hexadecimal numerals of a number\<close>

fun numeral_of :: "nat \<Rightarrow> nat \<Rightarrow> string" where
  "numeral_of b n =
     (if b < 2 then [] else if n < b then [fst (digit_table ! n)] else numeral_of b (n div b) @ [fst (digit_table ! (n mod b))])"

declare numeral_of.simps [simp del]

definition print_target :: "nat \<Rightarrow> nat \<Rightarrow> nat \<Rightarrow> nat \<Rightarrow> string" where
  "print_target g x y z =
     numeral_of 10 g @ '':'' @ numeral_of 10 x @ ''.'' @ numeral_of 10 y @ ''.'' @ numeral_of 10 z"

definition print_queues :: "nat \<Rightarrow> nat \<Rightarrow> string" where
  "print_queues ncqr nsqr = numeral_of 16 ncqr @ '':'' @ numeral_of 16 nsqr"

lemma digit_lookup: "n < 16 \<Longrightarrow> map_of digit_table (fst (digit_table ! n)) = Some n"
proof -
  have "list_all (\<lambda>n. map_of digit_table (fst (digit_table ! n)) = Some n) [0..<16]" by code_simp
  then show "n < 16 \<Longrightarrow> map_of digit_table (fst (digit_table ! n)) = Some n" by (simp add: list_all_iff)
qed

lemma digit_val_digit: "n < base \<Longrightarrow> base \<le> 16 \<Longrightarrow> digit_val base (fst (digit_table ! n)) = Some n"
  using digit_lookup [of n] by (simp add: digit_val_def)

definition plain_char :: "char \<Rightarrow> bool" where
  "plain_char c \<longleftrightarrow> c \<in> fst ` set digit_table"

lemma digit_plain: "n < 16 \<Longrightarrow> plain_char (fst (digit_table ! n))"
  unfolding plain_char_def by (rule imageI, rule nth_mem) (simp add: digit_table_def)

lemma plain_not: "plain_char c \<Longrightarrow> \<not> is_space c \<and> c \<noteq> CHR ''-'' \<and> c \<noteq> CHR ''+'' \<and> c \<noteq> CHR '':'' \<and> c \<noteq> CHR ''.'' \<and>
    c \<noteq> CHR ''x'' \<and> c \<noteq> CHR ''X''"
  by (auto simp: plain_char_def digit_table_def is_space_def)

lemma numeral_plain: "2 \<le> b \<Longrightarrow> b \<le> 16 \<Longrightarrow> list_all plain_char (numeral_of b n) \<and> numeral_of b n \<noteq> []"
proof (induction b n rule: numeral_of.induct)
  case (1 b n)
  have "n mod b < 16" using 1(2,3) mod_less_divisor [of b n] by linarith
  then show ?case using 1 digit_plain [of n] digit_plain [of "n mod b"] by (simp add: numeral_of.simps [of b n])
qed

lemma read_digits_append: "read_digits base acc (s @ t) =
    (case read_digits base acc s of (n, []) \<Rightarrow> read_digits base n t | (n, r) \<Rightarrow> (n, r @ t))"
  by (induction base acc s rule: read_digits.induct) (auto split: option.splits list.splits)

lemma read_numeral: "2 \<le> b \<Longrightarrow> b \<le> 16 \<Longrightarrow> read_digits b 0 (numeral_of b n) = (n, [])"
proof (induction b n rule: numeral_of.induct)
  case (1 b n)
  show ?case
  proof (cases "n < b")
    case True
    then show ?thesis using 1(2,3) digit_val_digit [of n b] by (simp add: numeral_of.simps [of b n])
  next
    case False
    have "n mod b < b" using 1(2) by simp
    then have "digit_val b (fst (digit_table ! (n mod b))) = Some (n mod b)" by (rule digit_val_digit [OF _ 1(3)])
    then show ?thesis using False 1 by (simp add: numeral_of.simps [of b n] read_digits_append)
  qed
qed

section \<open>Reading numerals back\<close>

text \<open>What may follow a number: the end, one of the separators, or space.\<close>

definition ends_number :: "string \<Rightarrow> bool" where
  "ends_number r \<longleftrightarrow> r = [] \<or> hd r = CHR '':'' \<or> hd r = CHR ''.'' \<or> is_space (hd r)"

lemma separators_not_in_table:
  "list_all (\<lambda>c. map_of digit_table c = None) [CHR '':'', CHR ''.'', CHR '' '', CHR 0x09, CHR 0x0a, CHR 0x0b, CHR 0x0c, CHR 0x0d]"
  by code_simp

lemma separator_no_digit: "c = CHR '':'' \<or> c = CHR ''.'' \<or> is_space c \<Longrightarrow> digit_val b c = None"
  using separators_not_in_table by (auto simp: digit_val_def is_space_def)

lemma skip_0x_id: "tl s = [] \<or> hd (tl s) \<noteq> CHR ''x'' \<and> hd (tl s) \<noteq> CHR ''X'' \<Longrightarrow> skip_0x b s = s"
proof (cases "\<exists>z x d t. s = z # x # d # t")
  case True
  then obtain z x d t where s: "s = z # x # d # t" by blast
  assume "tl s = [] \<or> hd (tl s) \<noteq> CHR ''x'' \<and> hd (tl s) \<noteq> CHR ''X''"
  then have "x \<noteq> CHR ''x''" "x \<noteq> CHR ''X''" by (simp_all add: s)
  then show ?thesis by (simp only: s skip_0x_def list.case de_Morgan_conj) simp
next
  case False
  then show ?thesis by (cases s; cases "tl s"; cases "tl (tl s)") (simp_all add: skip_0x_def)
qed

lemma ends_not_x: "ends_number r \<Longrightarrow> r = [] \<or> hd r \<noteq> CHR ''x'' \<and> hd r \<noteq> CHR ''X''"
  by (auto simp: ends_number_def is_space_def)

lemma strto_numeral:
  assumes b: "2 \<le> b" "b \<le> 16" and r: "ends_number r"
  shows "strto b (numeral_of b n @ r) = ((False, n), r)"
proof -
  obtain c cs where s: "numeral_of b n = c # cs" and pl: "plain_char c" "list_all plain_char cs"
    using numeral_plain [OF b, of n] by (cases "numeral_of b n") auto
  have d: "digit_val b c \<noteq> None"
  proof
    assume "digit_val b c = None"
    then have "read_digits b 0 (c # cs) = (0, c # cs)" by simp
    then show False using read_numeral [OF b, of n] s by simp
  qed
  have x: "skip_0x b (c # cs @ r) = c # cs @ r"
  proof (rule skip_0x_id, cases cs)
    case Nil
    then show "tl (c # cs @ r) = [] \<or> hd (tl (c # cs @ r)) \<noteq> CHR ''x'' \<and> hd (tl (c # cs @ r)) \<noteq> CHR ''X''"
      using ends_not_x [OF r] by simp
  next
    case (Cons d ds)
    then have "plain_char d" using pl(2) by simp
    then show "tl (c # cs @ r) = [] \<or> hd (tl (c # cs @ r)) \<noteq> CHR ''x'' \<and> hd (tl (c # cs @ r)) \<noteq> CHR ''X''"
      using plain_not [of d] Cons by simp
  qed
  have rd: "read_digits b 0 (c # cs @ r) = (n, r)"
    using read_digits_append [of b 0 "numeral_of b n" r] read_numeral [OF b, of n] r separator_no_digit
    by (cases r) (auto simp: s ends_number_def)
  show ?thesis using plain_not [OF pl(1)] d x rd by (simp add: strto_def s)
qed

lemma strtol_numeral: "ends_number r \<Longrightarrow> int n \<le> LONG_MAX \<Longrightarrow> strtol 10 (numeral_of 10 n @ r) = (int n, r)"
  by (simp add: strtol_def strto_numeral)

lemma strtoul_numeral: "ends_number r \<Longrightarrow> n \<le> ULONG_MAX \<Longrightarrow> strtoul 16 (numeral_of 16 n @ r) = (n, r)"
  by (simp add: strtoul_def strto_numeral)

lemma after_numeral: "2 \<le> b \<Longrightarrow> b \<le> 16 \<Longrightarrow> c = CHR '':'' \<or> c = CHR ''.'' \<Longrightarrow> after_first c (numeral_of b n @ c # r) = r"
proof -
  assume b: "2 \<le> b" "b \<le> 16" and c: "c = CHR '':'' \<or> c = CHR ''.''"
  have "\<forall>d \<in> set (numeral_of b n). d \<noteq> c"
    using numeral_plain [OF b, of n] plain_not c by (auto simp: list_all_iff)
  then have "dropWhile (\<lambda>d. d \<noteq> c) (numeral_of b n @ c # r) = c # r" by (simp add: dropWhile_append2)
  then show ?thesis by (simp add: after_first_def)
qed

lemma ends_numberI [simp]: "ends_number []" "ends_number (CHR '':'' # r)" "ends_number (CHR ''.'' # r)"
  by (simp_all add: ends_number_def)

lemma numeral_nonempty [simp]: "numeral_of 10 n \<noteq> []" "numeral_of 16 n \<noteq> []"
  using numeral_plain [of 10 n] numeral_plain [of 16 n] by simp_all

lemma parse_printed_target:
  assumes "int g \<le> LONG_MAX" "int x \<le> LONG_MAX" "int y \<le> LONG_MAX" "int z \<le> LONG_MAX"
    and "g \<noteq> UINT_MAX" "x \<noteq> UINT_MAX" "y \<noteq> UINT_MAX" "z \<noteq> UINT_MAX"
  shows "ParseTargetCmdLine (Some (print_target g x y z)) = (True, \<lparr>tt_req = True, tt_t = TestRef_Init g x y z\<rparr>)"
proof -
  have e: "strtol 10 (numeral_of 10 z) = (int z, [])"
    using strtol_numeral [of "[]" z] assms(4) by simp
  show ?thesis
    using assms
    by (simp add: ParseTargetCmdLine_def print_target_def Let_def strtol_numeral after_numeral at_char_def e
        target_ok_def TestRef_Init_def)
qed

definition printable :: "TestRef \<Rightarrow> bool" where
  "printable t \<longleftrightarrow> list_all (\<lambda>n. int n \<le> LONG_MAX \<and> n \<noteq> UINT_MAX) [tr_group t, xLev t, yLev t, zLev t]"

definition print_ref :: "TestRef \<Rightarrow> string" where
  "print_ref t = print_target (tr_group t) (xLev t) (yLev t) (zLev t)"

lemma parse_printed_ref: "printable t \<Longrightarrow> ParseTargetCmdLine (Some (print_ref t)) = (True, \<lparr>tt_req = True, tt_t = t\<rparr>)"
  unfolding print_ref_def printable_def
  by (subst parse_printed_target) (simp_all add: TestRef_Init_def)

section \<open>The list of tests to skip, read back\<close>

definition line_char :: "char \<Rightarrow> bool" where
  "line_char c \<longleftrightarrow> c \<noteq> CHR ''#'' \<and> \<not> eol c \<and> (is_alnum c \<or> c = CHR ''.'' \<or> c = CHR '':'')"

lemma skip_lines_collect: "list_all line_char l \<Longrightarrow> skip_lines (l @ cs) line sk = skip_lines cs (line @ l) sk"
  by (induction l arbitrary: line) (simp_all add: line_char_def)

lemma table_line_char: "list_all (\<lambda>e. line_char (fst e)) digit_table \<and> line_char CHR '':'' \<and> line_char CHR ''.''"
  by code_simp

lemma plain_line_char: "plain_char c \<Longrightarrow> line_char c"
  using table_line_char by (auto simp only: plain_char_def list_all_iff)

lemma numeral_line_chars: "list_all line_char (numeral_of 10 n)"
  using numeral_plain [of 10 n] plain_line_char by (auto simp: list_all_iff)

lemma print_ref_chars: "list_all line_char (print_ref t) \<and> print_ref t \<noteq> []"
  using table_line_char by (simp add: print_ref_def print_target_def numeral_line_chars)

lemma skip_lines_line:
  assumes "printable t"
  shows "skip_lines (print_ref t @ CHR 0x0a # cs) [] sk = skip_lines cs [] (sk @ [t])"
proof -
  have "skip_lines (print_ref t @ CHR 0x0a # cs) [] sk = skip_lines (CHR 0x0a # cs) (print_ref t) sk"
    using skip_lines_collect [of "print_ref t" "CHR 0x0a # cs" "[]" sk] print_ref_chars [of t] by simp
  also have "\<dots> = skip_lines cs [] (sk @ [t])"
    using parse_printed_ref [OF assms] print_ref_chars [of t] by (simp add: eol_def end_of_line_def)
  finally show ?thesis .
qed

lemma skip_lines_printed: "list_all printable ts \<Longrightarrow> skip_lines (concat (map (\<lambda>t. print_ref t @ [CHR 0x0a]) ts) @ cs) [] sk =
    skip_lines cs [] (sk @ ts)"
  by (induction ts arbitrary: sk) (simp_all add: skip_lines_line)

section \<open>Properties of the parsers\<close>



text \<open>C28: A file of tests to skip with one printed reference per line is read as exactly that list, in order,
  after the tests already collected; and a further reference on a last line that no newline ends is dropped
  without an error.\<close>
theorem ParseSkipTest_reads_terminated_lines:
  assumes "list_all printable ts"
  shows "ParseSkipTestCmdLine (Some (concat (map (\<lambda>t. print_ref t @ [CHR 0x0a]) ts))) sk = Some (sk @ ts) \<and>
    ParseSkipTestCmdLine (Some (concat (map (\<lambda>t. print_ref t @ [CHR 0x0a]) ts) @ print_ref u)) sk = Some (sk @ ts)"
proof -
  have "skip_lines (print_ref u) [] s = Some s" for s
    using skip_lines_collect [of "print_ref u" "[]" "[]" s] print_ref_chars [of u] by simp
  then show ?thesis
    using skip_lines_printed [OF assms, of "[]"] skip_lines_printed [OF assms, of "print_ref u"]
    by (simp add: ParseSkipTestCmdLine_def)
qed

theorem ParseSkipTest_reads_terminated_lines_witness:
  "ParseSkipTestCmdLine (Some (concat (map (\<lambda>t. print_ref t @ [CHR 0x0a]) [TestRef_Init 1 0 2 0, TestRef_Init 1 0 2 1]) @
      print_ref (TestRef_Init 3 1 0 0))) [] = Some [TestRef_Init 1 0 2 0, TestRef_Init 1 0 2 1]"
  using ParseSkipTest_reads_terminated_lines [of "[TestRef_Init 1 0 2 0, TestRef_Init 1 0 2 1]" "[]" "TestRef_Init 3 1 0 0"]
  by (simp add: printable_def TestRef_Init_def LONG_MAX_def UINT_MAX_def)

text \<open>The number of queues reads back what is printed in hexadecimal as \<open>ncqr:nsqr\<close> for every pair of
  16-bit numbers; one that needs more bits is refused.\<close>
theorem ParseQueues_roundtrip:
  assumes "m \<le> ULONG_MAX" "n \<le> ULONG_MAX"
  shows "ParseQueuesCmdLine (print_queues m n) =
    (if m > 65535 then (False, \<lparr>nq_req = True, nq_ncqr = 0, nq_nsqr = 0\<rparr>)
     else if n > 65535 then (False, \<lparr>nq_req = True, nq_ncqr = of_nat m, nq_nsqr = 0\<rparr>)
     else (True, \<lparr>nq_req = True, nq_ncqr = of_nat m, nq_nsqr = of_nat n\<rparr>))"
proof -
  have e: "strtoul 16 (numeral_of 16 n) = (n, [])"
    using strtoul_numeral [of "[]" n] assms(2) by simp
  show ?thesis
    using assms by (simp add: ParseQueuesCmdLine_def print_queues_def Let_def strtoul_numeral after_numeral at_char_def e)
qed

theorem ParseQueues_roundtrip_witness:
  "ParseQueuesCmdLine (print_queues 65535 16) = (True, \<lparr>nq_req = True, nq_ncqr = 65535, nq_nsqr = 16\<rparr>)"
  using ParseQueues_roundtrip [of 65535 16] by (simp add: ULONG_MAX_def)

lemma strtoul_bound: "fst (strtoul b s) \<le> ULONG_MAX"
proof -
  have "nat ((- int n) mod 2 ^ 64) \<le> ULONG_MAX" for n
    using pos_mod_bound [of "2 ^ 64" "- int n"] pos_mod_sign [of "2 ^ 64" "- int n"] by (simp add: ULONG_MAX_def nat_le_iff)
  then show ?thesis by (auto simp: strtoul_def split: prod.splits)
qed

lemma strtoul_less: "strtoul b s = (n, r) \<Longrightarrow> n < 2 ^ 64"
  using strtoul_bound [of b s] by (simp add: ULONG_MAX_def)

lemmas parser_splits = prod.splits if_splits option.splits

text \<open>What the parser of a register write accepts is a register access the driver can express: a space, an
  access width, at most 8 bytes, and a 64-bit offset and value, however long the numerals on the command line.\<close>
theorem ParseWmmap_bounds:
  assumes "ParseWmmapCmdLine optarg = (True, r)"
  shows "rm_req r \<and> rm_space r \<noteq> None \<and> rm_acc r \<noteq> None \<and> rm_size r \<le> 8 \<and>
    rm_offset r < 2 ^ 64 \<and> wm_value r < 2 ^ 64"
  using assms by (auto simp: ParseWmmapCmdLine_def Let_def dest!: strtoul_less split: parser_splits)

theorem ParseWmmap_bounds_witness:
  "\<exists>r. ParseWmmapCmdLine ''BAR01:1C:4:1:l'' = (True, r) \<and> rm_size r \<le> 8 \<and> wm_value r < 2 ^ 64"
proof -
  have "fst (ParseWmmapCmdLine ''BAR01:1C:4:1:l'')"
    by (simp add: ParseWmmapCmdLine_def before_first_def after_first_def at_char_def parse_space_def parse_acc_def
        strtoul_def strto_def is_space_def skip_0x_def digit_val_def digit_table_def ULONG_MAX_def)
  then obtain r where "ParseWmmapCmdLine ''BAR01:1C:4:1:l'' = (True, r)" by (metis prod.collapse)
  with ParseWmmap_bounds [OF this] show ?thesis by blast
qed

end
