(* ===== verification/Device_Setup.thy ===== *)
theory Device_Setup
  imports Io Parsers
begin

text \<open>
  The functions that set up a device with commands: creating and deleting queues in the hardware
  (Utils/queues.cpp), formatting a device, setting its number of queues and comparing its identify data
  (tnvmeHelpers.cpp). Local queue objects are destroyed when their scope is left. What the device stores in
  a buffer of the process between sending and reaping is a parameter.
\<close>

section \<open>Names and objects of queues\<close>

text \<open>\<open>snprintf(work, 20, ...)\<close>.\<close>

definition qid_name :: "u16 \<Rightarrow> string \<Rightarrow> string" where
  "qid_name qId qualify =
     take 19 (''QID'' @ numeral_of 10 (unat qId) @ (if qualify = [] then [] else ''.'' @ qualify))"

text \<open>
  \<open>AllocObj\<close>, when the object shall live as long as the group; a member function is then called through the
  pointer.
\<close>

definition group_obj :: "bool \<Rightarrow> ObjType \<Rightarrow> string \<Rightarrow> (('d, 'm) rsrc_mngr_scheme, unit) prog" where
  "group_obj grpLifetime type grpID =
     (if grpLifetime
      then bnd (ObjRsrc_AllocObj type grpID) (\<lambda>p.
             throw_if (p = None) (UB ''member call through a null shared_ptr''))
      else ret ())"

definition IOCQ_IOCQ :: "int \<Rightarrow> ex + comp_queue" where
  "IOCQ_IOCQ fd = CQ_CQ fd OBJ_IOCQ"

definition IOSQ_IOSQ :: "int \<Rightarrow> ex + io_sub_queue" where
  "IOSQ_IOSQ fd = map_sum (\<lambda>e. e) (\<lambda>q. sub_queue.extend q \<lparr>mPriority = 0\<rparr>) (SQ_SQ fd OBJ_IOSQ)"

text \<open>An object with test lifetime is destroyed by an exception; one with group lifetime stays registered.\<close>

definition held :: "'d dnvme \<Rightarrow> bool \<Rightarrow> ('q queue_scheme \<times> ('d, 'm) world_scheme, 'a) prog
    \<Rightarrow> ('q queue_scheme \<times> ('d, 'm) world_scheme, 'a) prog" where
  "held drv grpLifetime m = unwinding (if grpLifetime then ret () else destroy_q drv) m"

text \<open>The arguments all functions share; the status a command ends with is only checked.\<close>

record 'd device_env =
  su_libc :: libc
  su_drv :: "'d dnvme"
  su_fuel :: nat
  su_masks :: send_masks
  su_fs :: file_system
  su_fd :: int

definition send_admin ::
  "'d device_env \<Rightarrow> io_call \<Rightarrow> u32 \<Rightarrow> 'q queue_scheme \<Rightarrow> 'r queue_scheme \<Rightarrow> (cmd \<times> ('d, 'm) world_scheme, unit) prog" where
  "send_admin E a ms asq acq =
     bnd (IO_SendAndReapCmd (su_libc E) (su_drv E) (su_fuel E) (su_masks E) (su_fs E) a ms asq acq [CESTAT_SUCCESS])
       (\<lambda>_. ret ())"

section \<open>Queues::Create...ToHdw, Delete...ToHdw\<close>

definition CreateIOCQContigToHdw ::
  "'d device_env \<Rightarrow> io_call \<Rightarrow> u16 \<Rightarrow> 'q queue_scheme \<Rightarrow> 'r queue_scheme \<Rightarrow> u16 \<Rightarrow> u32 \<Rightarrow> bool \<Rightarrow> string \<Rightarrow> bool \<Rightarrow> u16
     \<Rightarrow> (('d, 'm) world_scheme, comp_queue) prog" where
  "CreateIOCQContigToHdw E a ms asq acq qId numEntries grpLifetime grpID irqEnabled irqVec =
     sq (group_obj grpLifetime OBJ_IOCQ grpID)
     (bnd (lift_result (IOCQ_IOCQ (su_fd E))) (\<lambda>q0.
      bnd (with_new q0 (held (su_drv E) grpLifetime
        (sq (IOCQ_Init (su_libc E) (su_drv E) qId numEntries irqEnabled irqVec)
        (bnd (gets fst) (\<lambda>iocq. onr
          (bnd (lift_result (CreateIOCQ_CreateIOCQ (su_libc E) (su_masks E))) (\<lambda>c.
             with_new c (sq (CreateIOCQ_Init (su_drv E) (su_masks E) iocq)
               (send_admin E (a\<lparr>io_qualify := qid_name qId (io_qualify a)\<rparr>) (ucast ms) asq acq))))))))
      ) (\<lambda>(_, iocq). ret iocq)))"

definition CreateIOSQContigToHdw ::
  "'d device_env \<Rightarrow> io_call \<Rightarrow> u16 \<Rightarrow> 'q queue_scheme \<Rightarrow> 'r queue_scheme \<Rightarrow> u16 \<Rightarrow> u32 \<Rightarrow> bool \<Rightarrow> string \<Rightarrow> u16 \<Rightarrow> u8
     \<Rightarrow> (('d, 'm) world_scheme, io_sub_queue) prog" where
  "CreateIOSQContigToHdw E a ms asq acq qId numEntries grpLifetime grpID cqId priority =
     sq (group_obj grpLifetime OBJ_IOSQ grpID)
     (bnd (lift_result (IOSQ_IOSQ (su_fd E))) (\<lambda>q0.
      bnd (with_new q0 (held (su_drv E) grpLifetime
        (sq (IOSQ_Init (su_libc E) (su_drv E) qId numEntries cqId priority)
        (bnd (gets fst) (\<lambda>iosq. onr
          (bnd (lift_result (CreateIOSQ_CreateIOSQ (su_libc E) (su_masks E))) (\<lambda>c.
             with_new c (sq (CreateIOSQ_Init (su_masks E) iosq)
               (send_admin E (a\<lparr>io_qualify := qid_name qId (io_qualify a)\<rparr>) (ucast ms) asq acq))))))))
      ) (\<lambda>(_, iosq). ret iosq)))"

text \<open>The check of the caller's memory, which both directions make with \<open>IOCQES\<close>.\<close>

definition check_backed ::
  "'d device_env \<Rightarrow> u32 \<Rightarrow> nat \<Rightarrow> (('d, 'm) world_scheme, unit) prog" where
  "check_backed E numEntries qBackedMem =
     bnd (CtrlrConfig_GetIOCQES (su_libc E) (su_drv E)) (\<lambda>(ok, ioqes).
     sq (throw_if (\<not> ok) (FrmwkEx []))
     (bnd (gets (\<lambda>s. MemBuffer_GetBufSize (wd_bufs s qBackedMem))) (\<lambda>size.
        throw_if (size < push_bit (unat ioqes) 1 * numEntries)
          (FrmwkEx ''Supplied buffer size = 0x%08X; inconsistent w/ creation''))))"

definition CreateIOCQDiscontigToHdw ::
  "'d device_env \<Rightarrow> io_call \<Rightarrow> u16 \<Rightarrow> 'q queue_scheme \<Rightarrow> 'r queue_scheme \<Rightarrow> u16 \<Rightarrow> u32 \<Rightarrow> bool \<Rightarrow> string \<Rightarrow> bool \<Rightarrow> u16 \<Rightarrow> nat
     \<Rightarrow> (('d, 'm) world_scheme, comp_queue) prog" where
  "CreateIOCQDiscontigToHdw E a ms asq acq qId numEntries grpLifetime grpID irqEnabled irqVec qBackedMem =
     sq (check_backed E numEntries qBackedMem)
     (sq (group_obj grpLifetime OBJ_IOCQ grpID)
     (bnd (lift_result (IOCQ_IOCQ (su_fd E))) (\<lambda>q0.
      bnd (with_new q0 (held (su_drv E) grpLifetime
        (sq (IOCQ_Init_discontig (su_libc E) (su_drv E) qId numEntries (Some qBackedMem) irqEnabled irqVec)
        (bnd (gets fst) (\<lambda>iocq. onr
          (bnd (lift_result (CreateIOCQ_CreateIOCQ (su_libc E) (su_masks E))) (\<lambda>c.
             with_new c (sq (CreateIOCQ_Init (su_drv E) (su_masks E) iocq)
               (send_admin E (a\<lparr>io_qualify := qid_name qId (io_qualify a)\<rparr>) (ucast ms) asq acq))))))))
      ) (\<lambda>(_, iocq). ret iocq))))"

definition CreateIOSQDiscontigToHdw ::
  "'d device_env \<Rightarrow> io_call \<Rightarrow> u16 \<Rightarrow> 'q queue_scheme \<Rightarrow> 'r queue_scheme \<Rightarrow> u16 \<Rightarrow> u32 \<Rightarrow> bool \<Rightarrow> string \<Rightarrow> u16 \<Rightarrow> u8 \<Rightarrow> nat
     \<Rightarrow> (('d, 'm) world_scheme, io_sub_queue) prog" where
  "CreateIOSQDiscontigToHdw E a ms asq acq qId numEntries grpLifetime grpID cqId priority qBackedMem =
     sq (check_backed E numEntries qBackedMem)
     (sq (group_obj grpLifetime OBJ_IOSQ grpID)
     (bnd (lift_result (IOSQ_IOSQ (su_fd E))) (\<lambda>q0.
      bnd (with_new q0 (held (su_drv E) grpLifetime
        (sq (IOSQ_Init_discontig (su_libc E) (su_drv E) qId numEntries (Some qBackedMem) cqId priority)
        (bnd (gets fst) (\<lambda>iosq. onr
          (bnd (lift_result (CreateIOSQ_CreateIOSQ (su_libc E) (su_masks E))) (\<lambda>c.
             with_new c (sq (CreateIOSQ_Init (su_masks E) iosq)
               (send_admin E (a\<lparr>io_qualify := qid_name qId (io_qualify a)\<rparr>) (ucast ms) asq acq))))))))
      ) (\<lambda>(_, iosq). ret iosq))))"

definition DeleteIOCQToHdw ::
  "'d device_env \<Rightarrow> io_call \<Rightarrow> u16 \<Rightarrow> 'c comp_queue_scheme \<Rightarrow> 'q queue_scheme \<Rightarrow> 'r queue_scheme
     \<Rightarrow> (('d, 'm) world_scheme, unit) prog" where
  "DeleteIOCQToHdw E a ms iocq asq acq =
     bnd (lift_result (DeleteIOCQ_DeleteIOCQ (su_libc E))) (\<lambda>c.
     bnd (with_new c (sq (onl (DeleteIOCQ_Init iocq))
       (send_admin E (a\<lparr>io_qualify := qid_name (mQId iocq) (io_qualify a)\<rparr>) (ucast ms) asq acq))) (\<lambda>_. ret ()))"

definition DeleteIOSQToHdw ::
  "'d device_env \<Rightarrow> io_call \<Rightarrow> u16 \<Rightarrow> 'c sub_queue_scheme \<Rightarrow> 'q queue_scheme \<Rightarrow> 'r queue_scheme
     \<Rightarrow> (('d, 'm) world_scheme, unit) prog" where
  "DeleteIOSQToHdw E a ms iosq asq acq =
     bnd (lift_result (DeleteIOSQ_DeleteIOSQ (su_libc E))) (\<lambda>c.
     bnd (with_new c (sq (onl (DeleteIOSQ_Init iosq))
       (send_admin E (a\<lparr>io_qualify := qid_name (mQId iosq) (io_qualify a)\<rparr>) (ucast ms) asq acq))) (\<lambda>_. ret ()))"

definition SupportDiscontigIOQ :: "'d device_env \<Rightarrow> (('d, 'm) world_scheme, bool) prog" where
  "SupportDiscontigIOQ E =
     bnd (Registers_Read_ctl (su_drv E) CTLSPC_CAP (undef64 (su_libc E))) (\<lambda>(ok, regVal).
     sq (throw_if (\<not> ok) (FrmwkEx ''Failed reading ctrlr capabilities (CAP) register''))
       (ret (regVal AND 0x0000000000010000 = 0)))"

definition set_state :: "'d device_env \<Rightarrow> nvme_state \<Rightarrow> (('d, 'm) world_scheme, bool) prog" where
  "set_state E = CtrlrConfig_SetState (su_libc E) (su_drv E) [RsrcMngr_Update (su_drv E)]"

definition BasicAdminQueueSetup ::
  "'d device_env \<Rightarrow> string \<Rightarrow> string \<Rightarrow> (('d, 'm) world_scheme, comp_queue \<times> sub_queue) prog" where
  "BasicAdminQueueSetup E acqGroupId asqGroupId =
     bnd (set_state E ST_DISABLE_COMPLETELY) (\<lambda>ok.
     sq (throw_if (\<not> ok) (FrmwkEx ''Failed to disable the controller completely''))
     (sq (group_obj True OBJ_ACQ acqGroupId)
     (bnd (lift_result (CQ_CQ (su_fd E) OBJ_ACQ)) (\<lambda>acq0.
      bnd (with_new acq0 (ACQ_Init (su_libc E) (su_drv E) 5)) (\<lambda>(_, acq).
      sq (group_obj True OBJ_ASQ asqGroupId)
     (bnd (lift_result (SQ_SQ (su_fd E) OBJ_ASQ)) (\<lambda>asq0.
      bnd (with_new asq0 (ASQ_Init (su_libc E) (su_drv E) 5)) (\<lambda>(_, asq).
      sq (IRQ_SetAnySchemeSpecifyNum (su_libc E) (su_drv E) 1)
     (bnd (CtrlrConfig_SetCSS (su_libc E) (su_drv E) 0) (\<lambda>_.
      bnd (set_state E ST_ENABLE) (\<lambda>ok.
      sq (throw_if (\<not> ok) (FrmwkEx ''Failed to enable the controller'')) (ret (acq, asq)))))))))))))"

section \<open>A queue created in the hardware\<close>

lemma held_Inr: "held drv g m s = (Inr x, t) \<longleftrightarrow> m s = (Inr x, t)"
  by (simp add: held_def unwinding_Inr)

text \<open>What \<open>send_admin\<close> has seen when it returns.\<close>

definition completed :: "'r queue_scheme \<Rightarrow> ('d, 'm) world_scheme \<Rightarrow> bool" where
  "completed acq t \<longleftrightarrow> (\<exists>ce hd u. CQ_PeekCE acq hd u = (Inr ce, t) \<and> ProcessCE_GetCEStat ce = Inr CESTAT_SUCCESS \<and>
     \<not> sf_M (ce_SFb ce))"

lemma send_admin_completed:
  fixes s t :: "('d, 'm) world_scheme"
  assumes "send_admin E a ms asq acq (c, s) = (Inr (), (c', t))"
  shows "completed acq t"
proof -
  obtain st where run: "IO_SendAndReapCmd (su_libc E) (su_drv E) (su_fuel E) (su_masks E) (su_fs E) a ms asq acq
      [CESTAT_SUCCESS] (c, s) = (Inr st, (c', t))"
    using assms by (auto simp: send_admin_def bnd_Inr_iff)
  from SendAndReapCmd_run [OF run] obtain ce hd u where
    "CQ_PeekCE acq hd u = (Inr ce, t)" "IO_VerifyCE ce [CESTAT_SUCCESS] = Inr st" by blast
  then show ?thesis
    using ValidatePeek_iff [of CESTAT_SUCCESS ce] by (auto simp: completed_def IO_VerifyCE_def split: if_splits)
qed

section \<open>The state the controller is in\<close>

lemma free_released_state: "keeps (\<lambda>s. cf_curState s = st) (free_released drv bs)"
  by (induction bs) (auto simp: keeps_def bnd_apply sq_apply KernelAPI_munmap_def ioctl1_apply split: prod.splits sum.splits)

lemma FreeAllMetaBuf_state: "keeps (\<lambda>s. cf_curState s = st) (MetaRsrc_FreeAllMetaBuf drv)"
proof (unfold keeps_def, intro allI impI)
  fix s :: "('a, 'b) meta_rsrc_scheme"
  assume s: "cf_curState s = st"
  have "keeps (\<lambda>s. cf_curState s = st) (sq (modify (\<lambda>s. s\<lparr>mr_reserved := res, mr_released := rel\<rparr>))
         (sq (free_released drv (rev rel))
         (sq (modify (\<lambda>s. s\<lparr>mr_allocSize := 0\<rparr>))
         (\<lambda>s. if mr_reserved s \<noteq> [] \<or> mr_released s \<noteq> []
              then (Inl (FrmwkEx ''Internal program error: meta list not empty''), s)
              else (Inr (), s)))))" for res rel
    by (intro wf_intros free_released_state) (simp_all add: keeps_def)
  then show "cf_curState (snd (MetaRsrc_FreeAllMetaBuf drv s)) = st"
    using s by (auto simp: MetaRsrc_FreeAllMetaBuf_def keeps_def split: option.split)
qed

lemma free_not_admin_state: "keeps (\<lambda>s. cf_curState s = st) (free_not_admin ks rest)"
  by (induction ks rest rule: free_not_admin.induct) (auto intro!: wf_intros simp: keeps_def sq_apply)

lemma FreeAllObjNotASQACQ_state: "keeps (\<lambda>s. cf_curState s = st) ObjRsrc_FreeAllObjNotASQACQ"
  using keepsD [OF free_not_admin_state] by (auto simp: keeps_def ObjRsrc_FreeAllObjNotASQACQ_def)

lemma Update_state: "keeps (\<lambda>s. cf_curState s = st) (RsrcMngr_Update drv st')"
  unfolding RsrcMngr_Update_def ObjRsrc_FreeAllObj_def
  by (auto intro!: wf_intros FreeAllMetaBuf_state FreeAllObjNotASQACQ_state)

lemma Notify_state:
  fixes u t :: "('d, 'm) rsrc_mngr_scheme"
  assumes "Subject_Notify [RsrcMngr_Update drv] st u = (r, t)"
  shows "cf_curState t = st"
proof (cases "cf_deltaCheck u \<and> cf_curState u = st \<and> \<not> cf_firstTime u")
  case True
  then show ?thesis using assms by (auto simp: Subject_Notify_def Let_def)
next
  case False
  let ?v = "u\<lparr>cf_firstTime := False, cf_curState := st\<rparr>"
  have "notify_loop [RsrcMngr_Update drv] st ?v = (r, t)"
    using assms False by (simp add: Subject_Notify_def Let_def)
  then have t: "t = snd (notify_loop [RsrcMngr_Update drv] st ?v)" by simp
  have "keeps (\<lambda>s. cf_curState s = st) (notify_loop [RsrcMngr_Update drv] st)"
    unfolding notify_loop.simps by (intro wf_intros Update_state)
  from keepsD [OF this, of ?v] show ?thesis unfolding t by simp
qed

text \<open>A request the driver has granted is recorded; one to disable is granted unless the driver refuses it.\<close>

lemma set_state_granted:
  fixes s t :: "('d, 'm) world_scheme"
  assumes "set_state E st s = (Inr True, t)"
  shows "cf_curState t = st"
  using assms
  by (auto simp: set_state_def CtrlrConfig_SetState_def bnd_Inr_iff sq_Inr_iff split: if_splits dest: Notify_state)

lemma set_state_disables:
  fixes s t :: "('d, 'm) world_scheme"
  assumes "set_state E ST_DISABLE_COMPLETELY s = (Inr r, t)"
    and "\<forall>d. 0 \<le> fst (io_device_state (su_drv E) ST_DISABLE_COMPLETELY d)"
  shows "r \<and> cf_curState t = ST_DISABLE_COMPLETELY"
proof -
  obtain rc d where io: "io_device_state (su_drv E) ST_DISABLE_COMPLETELY (kern s) = (rc, d)" by fastforce
  then have "\<not> rc < 0" using assms(2) by (metis fst_conv not_less)
  then have r
    using assms(1) io by (auto simp: set_state_def CtrlrConfig_SetState_def bnd_apply ioctl1_apply sq_Inr_iff)
  then show ?thesis using assms(1) set_state_granted by fastforce
qed

section \<open>Queues created\<close>

text \<open>When \<open>CreateIOSQContigToHdw\<close> returns, the submission queue has the identifier, completion queue and number of
  entries asked for, at least two, in one contiguous memory; its priority class is one of the four that exist; and
  the device has completed the creation with success.\<close>

lemma CreateIOSQContig_contract:
  fixes s t :: "('d, 'm) world_scheme"
  assumes "CreateIOSQContigToHdw E a ms asq acq qId n grpLifetime grpID cqId prio s = (Inr q, t)"
  shows "mQId q = qId \<and> mCqId q = cqId \<and> mNumEntries q = n \<and> 2 \<le> n \<and> prio \<le> 3 \<and>
    Queue_GetIsContig q = Inr True \<and> completed acq t"
proof -
  obtain q0 and s1 s2 :: "('d, 'm) world_scheme" and q' c c' where
    new: "IOSQ_IOSQ (su_fd E) = Inr q0"
    and init: "IOSQ_Init (su_libc E) (su_drv E) qId n cqId prio (q0, s1) = (Inr (), (q, s2))"
    and sent: "send_admin E (a\<lparr>io_qualify := qid_name qId (io_qualify a)\<rparr>) (ucast ms) asq acq c = (Inr (), (c', t))"
    using assms
    by (auto simp: CreateIOSQContigToHdw_def sq_Inr_iff bnd_Inr_iff with_new_Inr held_Inr onr_Inr simp del: onr_apply)
  obtain es p v and v' :: "('d, 'm) world_scheme" where
    pr: "prio \<in> {0, 1, 2, 3}" and p: "p = q0\<lparr>mPriority := prio\<rparr>"
    and i: "SQ_Init (su_libc E) (su_drv E) qId es n cqId (p, v') = (Inr (), (q, s2))"
    using init
    by (auto simp: IOSQ_Init_def set_priority_def sq_Inr_iff bnd_Inr_iff onl_Inr onr_Inr
        simp del: onl_apply onr_apply split: if_splits)
  have "queue_inv p"
    using new unfolding p by (auto simp: IOSQ_IOSQ_def SQ_SQ_def Queue_Queue_def queue_inv_def sub_queue.defs queue.defs
        split: sum.splits if_splits)
  then have "Queue_GetIsContig q = Inr (mContigBuf q \<noteq> 0)" by (rule sq_contig.contig_total [OF i])
  moreover have "prio \<le> 3" using pr by auto
  moreover have "completed acq t" using send_admin_completed [of E] sent by (cases c) auto
  ultimately show ?thesis using SQ_Init_geometry [OF i] by simp
qed

lemma CQ_Init_geometry:
  assumes "CQ_Init C drv qId es n irq vec (q, w) = (Inr (), (q', w'))"
  shows "mQId q' = qId \<and> mEntrySize q' = es \<and> mNumEntries q' = n \<and> 2 \<le> n \<and> mContigBuf q' \<noteq> 0"
  using assms
  by (auto simp: CQ_Init_def sq_Inr_iff bnd_Inr_iff Queue_Init_def not_less split: prod.splits if_splits)

section \<open>Properties\<close>

text \<open>C21: When \<open>BasicAdminQueueSetup\<close> returns, the controller is enabled and both admin queues have identifier 0, five
  entries of their prescribed size (16 and 64 bytes) and one contiguous memory each; the submission queue
  completes into the completion queue.\<close>

theorem BasicAdminQueueSetup_contract:
  fixes s t :: "('d, 'm) world_scheme"
  assumes "BasicAdminQueueSetup E g1 g2 s = (Inr (acq, asq), t)"
  shows "cf_curState t = ST_ENABLE \<and>
    mQId acq = 0 \<and> mNumEntries acq = 5 \<and> mEntrySize acq = 16 \<and> Queue_GetIsContig acq = Inr True \<and>
    mQId asq = 0 \<and> mNumEntries asq = 5 \<and> mEntrySize asq = 64 \<and> Queue_GetIsContig asq = Inr True \<and>
    mCqId asq = mQId acq"
proof -
  obtain acq0 asq0 and s1 s2 s3 s4 s5 :: "('d, 'm) world_scheme" where
    new: "CQ_CQ (su_fd E) OBJ_ACQ = Inr acq0" "SQ_SQ (su_fd E) OBJ_ASQ = Inr asq0"
    and c: "CQ_Init (su_libc E) (su_drv E) 0 16 5 True 0 (acq0, s1) = (Inr (), (acq, s2))"
    and q: "SQ_Init (su_libc E) (su_drv E) 0 64 5 0 (asq0, s3) = (Inr (), (asq, s4))"
    and en: "set_state E ST_ENABLE s5 = (Inr True, t)"
    using assms
    by (auto simp: BasicAdminQueueSetup_def ACQ_Init_def ASQ_Init_def sq_Inr_iff bnd_Inr_iff with_new_Inr split: if_splits)
  have inv: "queue_inv acq0" "queue_inv asq0"
    using new by (auto simp: CQ_CQ_def SQ_SQ_def Queue_Queue_def queue_inv_def queue.defs split: sum.splits if_splits)
  show ?thesis
    using set_state_granted [OF en] SQ_Init_geometry [OF q] CQ_Init_geometry [OF c]
      sq_contig.contig_total [OF q inv(2)] cq_contig.contig_total [OF c inv(1)] by simp
qed

text \<open>A device that accepts every request and has completed each command with success when it is asked.\<close>

definition dut_dnvme :: "nat dnvme" where
  "dut_dnvme = io_dnvme\<lparr>io_device_state := (\<lambda>st d. (0, d)), io_write := (\<lambda>io buf d. (0, d)),
     io_create_admn_q := (\<lambda>n t d. (0, d)), io_mmap := (\<lambda>len w off d. (4096, replicate len 0, d)),
     io_set_irq := (\<lambda>irq n d. (0, d))\<rparr>"

definition dut_env :: "nat device_env" where
  "dut_env = \<lparr>su_libc = ex_libc, su_drv = dut_dnvme, su_fuel = 2, su_masks = ex_masks, su_fs = ex_fs, su_fd = 3\<rparr>"

definition dut_world :: "nat world" where
  "dut_world = io_world\<lparr>rg_pciCap := [PCICAP_MSIXCAP],
     rg_pci := pci_table[PCISPC_MXC := (pci_table ! PCISPC_MXC)\<lparr>pci_offset := 0x72\<rparr>]\<rparr>"

definition ex_setup :: "(ex + comp_queue \<times> sub_queue) \<times> nat world" where
  "ex_setup = BasicAdminQueueSetup dut_env ''acq'' ''asq'' dut_world"

lemma ex_setup_runs: "\<not> isl (fst ex_setup)"
  by code_simp

theorem BasicAdminQueueSetup_contract_witness:
  "let (acq, asq) = projr (fst ex_setup) in cf_curState (snd ex_setup) = ST_ENABLE \<and>
    mQId acq = 0 \<and> mNumEntries acq = 5 \<and> mEntrySize acq = 16 \<and> Queue_GetIsContig acq = Inr True \<and>
    mQId asq = 0 \<and> mNumEntries asq = 5 \<and> mEntrySize asq = 64 \<and> Queue_GetIsContig asq = Inr True \<and>
    mCqId asq = mQId acq"
proof -
  obtain acq asq t where r: "ex_setup = (Inr (acq, asq), t)"
    using ex_setup_runs by (metis prod.collapse sum.collapse(2))
  from BasicAdminQueueSetup_contract [OF this [unfolded ex_setup_def]] show ?thesis
    unfolding r Let_def by simp
qed

end
