(* ===== verification/Device_Helpers.thy ===== *)
theory Device_Helpers
  imports Device_Setup
begin

text \<open>
  The single-command modes of the program (tnvmeHelpers.cpp): formatting a device, setting its number of
  queues, comparing its identify data with golden data. Each works in a session of its own: it disables the
  controller, creates the admin queues, enables, sends its commands, and disables the controller again,
  whatever has happened. What the device stores in a buffer between sending and reaping is a parameter.
\<close>

section \<open>A session with admin queues\<close>

text \<open>The \<open>try\<close> block up to the commands: both queue objects are local to it.\<close>

definition with_asq ::
  "'d device_env \<Rightarrow> (sub_queue \<Rightarrow> (('d, 'm) world_scheme, unit) prog) \<Rightarrow> (('d, 'm) world_scheme, unit) prog" where
  "with_asq E k =
     bnd (lift_result (SQ_SQ (su_fd E) OBJ_ASQ)) (\<lambda>asq0.
     bnd (with_new asq0 (scoped (destroy_q (su_drv E))
       (sq (ASQ_Init (su_libc E) (su_drv E) 2) (bnd (gets fst) (\<lambda>asq. onr (k asq)))))) (\<lambda>_. ret ()))"

definition with_acq ::
  "'d device_env \<Rightarrow> (comp_queue \<Rightarrow> (('d, 'm) world_scheme, unit) prog) \<Rightarrow> (('d, 'm) world_scheme, unit) prog" where
  "with_acq E k =
     bnd (lift_result (CQ_CQ (su_fd E) OBJ_ACQ)) (\<lambda>acq0.
     bnd (with_new acq0 (scoped (destroy_q (su_drv E))
       (sq (ACQ_Init (su_libc E) (su_drv E) 2) (bnd (gets fst) (\<lambda>acq. onr (k acq)))))) (\<lambda>_. ret ()))"

definition session_body ::
  "'d device_env \<Rightarrow> (comp_queue \<Rightarrow> sub_queue \<Rightarrow> (('d, 'm) world_scheme, unit) prog)
     \<Rightarrow> (('d, 'm) world_scheme, unit) prog" where
  "session_body E body =
     bnd (set_state E ST_DISABLE_COMPLETELY) (\<lambda>ok.
     sq (throw_if (\<not> ok) (FrmwkEx []))
     (with_acq E (\<lambda>acq. with_asq E (\<lambda>asq.
        bnd (CtrlrConfig_SetCSS (su_libc E) (su_drv E) 0) (\<lambda>_.
        bnd (set_state E ST_ENABLE) (\<lambda>ok.
        sq (throw_if (\<not> ok) (FrmwkEx [])) (body acq asq)))))))"

definition admin_session ::
  "'d device_env \<Rightarrow> (comp_queue \<Rightarrow> sub_queue \<Rightarrow> (('d, 'm) world_scheme, unit) prog)
     \<Rightarrow> (('d, 'm) world_scheme, bool) prog" where
  "admin_session E body =
     bnd (try_catch (sq (session_body E body) (ret True)) False) (\<lambda>ok.
     bnd (set_state E ST_DISABLE_COMPLETELY) (\<lambda>_. ret ok))"

text \<open>\<open>FileSystem::SetBaseDumpDir(false)\<close>, and the arguments of the calls.\<close>

definition pending :: "'d device_env \<Rightarrow> 'd device_env" where
  "pending E = E\<lparr>su_fs := (su_fs E)\<lparr>mUseDirInfo := False\<rparr>\<rparr>"

definition CALC_TIMEOUT_ms :: "u32 \<Rightarrow> u32" where
  "CALC_TIMEOUT_ms numCmds = (if numCmds * 20 > 10000 then numCmds * 20 else 10000)"

definition tnvme_call :: "string \<Rightarrow> string \<Rightarrow> bool \<Rightarrow> io_call" where
  "tnvme_call name qualify verbose =
     \<lparr>io_grpName = ''tnvme'', io_testName = name, io_qualify = qualify, io_verbose = verbose\<rparr>"

section \<open>FormatDevice\<close>

record FormatDUT =
  fd_nsid :: u32
  fd_ses :: u8
  fd_pi :: u8
  fd_lbaf :: u8
  fd_pil :: bool
  fd_ms :: bool

definition fill_format :: "FormatDUT \<Rightarrow> unit cmd_prog" where
  "fill_format f =
     sq (Cmd_SetNSID (fd_nsid f))
     (sq (FormatNVM_SetSES (fd_ses f))
     (sq (FormatNVM_SetPIL (fd_pil f))
     (sq (FormatNVM_SetPI (fd_pi f))
     (sq (FormatNVM_SetMS (fd_ms f))
         (FormatNVM_SetLBAF (fd_lbaf f))))))"

fun format_loop ::
  "'d device_env \<Rightarrow> FormatDUT list \<Rightarrow> comp_queue \<Rightarrow> sub_queue \<Rightarrow> (('d, 'm) world_scheme, unit) prog" where
  "format_loop E [] acq asq = ret ()"
| "format_loop E (f # fs) acq asq =
     bnd (lift_result (FormatNVM_FormatNVM (su_libc E))) (\<lambda>c.
     bnd (with_new c (sq (onl (fill_format f))
       (send_admin E (tnvme_call ''format'' [] True) (CALC_TIMEOUT_ms 1) asq acq))) (\<lambda>_.
     format_loop E fs acq asq))"

definition FormatDevice :: "'d device_env \<Rightarrow> FormatDUT list \<Rightarrow> (('d, 'm) world_scheme, bool) prog" where
  "FormatDevice E cmds = admin_session (pending E) (format_loop (pending E) cmds)"

section \<open>SetFeaturesNumberOfQueues\<close>

definition send_num_queues ::
  "'d device_env \<Rightarrow> NumQueues \<Rightarrow> comp_queue \<Rightarrow> sub_queue \<Rightarrow> (('d, 'm) world_scheme, unit) prog" where
  "send_num_queues E numQueues acq asq =
     bnd (lift_result (SetFeatures_SetFeatures (su_libc E) (su_masks E))) (\<lambda>c.
     bnd (with_new c
       (sq (onl (BaseFeatures_SetFID 0x07))
       (sq (onl (SetFeatures_SetNumberOfQueues (nq_ncqr numQueues) (nq_nsqr numQueues)))
         (send_admin E (tnvme_call ''queues'' [] True) (CALC_TIMEOUT_ms 1) asq acq)))) (\<lambda>_. ret ()))"

definition SetFeaturesNumberOfQueues :: "'d device_env \<Rightarrow> NumQueues \<Rightarrow> (('d, 'm) world_scheme, bool) prog" where
  "SetFeaturesNumberOfQueues E numQueues = admin_session (pending E) (send_num_queues (pending E) numQueues)"

section \<open>CompareGolden\<close>

record IdentifyDUT =
  id_nsid :: u32
  id_cns :: u8
  id_raw :: "u8 list"
  id_mask :: "u8 list"

text \<open>The loop over the bytes of \<open>raw\<close> from index \<open>j\<close> on: the offsets that differ. Both other arrays are
  indexed without a check; \<open>misCompOffset\<close> holds 4096 offsets.\<close>

fun golden_loop :: "nat \<Rightarrow> u8 list \<Rightarrow> u8 list \<Rightarrow> nat \<Rightarrow> nat list \<Rightarrow> (('d, 'm) world_scheme, nat list) prog" where
  "golden_loop idMem [] msk j misComp = ret misComp"
| "golden_loop idMem (g # raw) msk j misComp =
     (if j \<ge> length msk then raise (UB ''load outside of the mask'')
      else bnd (on_mb idMem (MemBuffer_GetAt j)) (\<lambda>dut.
        if g AND msk ! j \<noteq> dut AND msk ! j
        then (if length misComp \<ge> 4096 then raise (UB ''store outside of misCompOffset'')
              else golden_loop idMem raw msk (j + 1) (misComp @ [j]))
        else golden_loop idMem raw msk (j + 1) misComp))"

text \<open>
  \<open>arrive\<close> is what the device stores in the memory of the process before the entry of the \<open>i\<close>-th
  command is seen. The report to the output file is not modelled.
\<close>

fun golden_cmds ::
  "'d device_env \<Rightarrow> (nat \<Rightarrow> ('d, 'm) world_scheme \<Rightarrow> ('d, 'm) world_scheme) \<Rightarrow> comp_queue \<Rightarrow> sub_queue \<Rightarrow> nat
     \<Rightarrow> nat \<Rightarrow> IdentifyDUT list \<Rightarrow> nat list \<Rightarrow> (cmd \<times> ('d, 'm) world_scheme, unit) prog" where
  "golden_cmds E arrive acq asq idMem i [] misComp = ret ()"
| "golden_cmds E arrive acq asq idMem i (g # gs) misComp =
     sq (onl (Identify_SetCNS (id_cns g)))
     (sq (onl (Cmd_SetNSID (id_nsid g)))
     (sq (onr (on_mb idMem (MemBuffer_InitAlignment (su_libc E) 4096 PRP_BUFFER_ALIGNMENT True 0 None)))
     (sq (send_admin E (tnvme_call ''golden'' (''IdCmd'' @ numeral_of 10 i) False) (CALC_TIMEOUT_ms 1) asq acq)
     (sq (onr (modify (arrive i)))
     (bnd (onr (golden_loop idMem (id_raw g) (id_mask g) 0 misComp)) (\<lambda>misComp'.
      sq (throw_if (misComp' \<noteq> misComp) (FrmwkEx ''Golden identify data miscompare''))
         (golden_cmds E arrive acq asq idMem (i + 1) gs misComp')))))))"

definition golden_body ::
  "'d device_env \<Rightarrow> (nat \<Rightarrow> ('d, 'm) world_scheme \<Rightarrow> ('d, 'm) world_scheme) \<Rightarrow> IdentifyDUT list
     \<Rightarrow> comp_queue \<Rightarrow> sub_queue \<Rightarrow> (('d, 'm) world_scheme, unit) prog" where
  "golden_body E arrive golden acq asq =
     bnd (lift_result (Identify_Identify (su_libc E) (su_masks E))) (\<lambda>c.
     bnd new_mb (\<lambda>idMem.
     bnd (with_new c
       (sq (onr (on_mb idMem (MemBuffer_InitAlignment (su_libc E) 4096 PRP_BUFFER_ALIGNMENT True 0 None)))
       (bnd (gets (\<lambda>(c, s). wd_bufs s idMem)) (\<lambda>b.
        sq (onl (PrpData_SetPrpBuffer (MASK_PRP1_PAGE (su_masks E) OR MASK_PRP2_PAGE (su_masks E)) idMem b))
           (golden_cmds E arrive acq asq idMem 0 golden []))))) (\<lambda>_. ret ())))"

definition CompareGolden ::
  "'d device_env \<Rightarrow> (nat \<Rightarrow> ('d, 'm) world_scheme \<Rightarrow> ('d, 'm) world_scheme) \<Rightarrow> IdentifyDUT list
     \<Rightarrow> (('d, 'm) world_scheme, bool) prog" where
  "CompareGolden E arrive golden = admin_session (pending E) (golden_body (pending E) arrive golden)"

section \<open>What a session leaves behind\<close>

lemma pending_simps [simp]:
  "su_drv (pending E) = su_drv E" "su_libc (pending E) = su_libc E" "su_fd (pending E) = su_fd E"
  "su_fuel (pending E) = su_fuel E" "su_masks (pending E) = su_masks E" "set_state (pending E) = set_state E"
  by (simp_all add: pending_def set_state_def fun_eq_iff)

lemma admin_session_disables:
  fixes s t :: "('d, 'm) world_scheme"
  assumes "admin_session E body s = (Inr b, t)"
    and "\<forall>d. 0 \<le> fst (io_device_state (su_drv E) ST_DISABLE_COMPLETELY d)"
  shows "cf_curState t = ST_DISABLE_COMPLETELY"
proof -
  obtain r and u :: "('d, 'm) world_scheme" where "set_state E ST_DISABLE_COMPLETELY u = (Inr r, t)"
    using assms(1) by (auto simp: admin_session_def bnd_Inr_iff)
  from set_state_disables [OF this assms(2)] show ?thesis ..
qed

section \<open>A queue whose initialisation fails\<close>

definition blank :: "'q queue_scheme \<Rightarrow> bool" where
  "blank q \<longleftrightarrow> mContigBuf q = 0 \<and> mDiscontigBuf q = None"

text \<open>\<open>fails_in I m\<close>: when \<open>m\<close> throws, started in \<open>I\<close>, it is still in \<open>I\<close>.\<close>

definition fails_in :: "('s \<Rightarrow> bool) \<Rightarrow> ('s, 'a) prog \<Rightarrow> bool" where
  "fails_in I m \<longleftrightarrow> (\<forall>s e t. I s \<longrightarrow> m s = (Inl e, t) \<longrightarrow> I t)"

lemma fails_in_bnd:
  assumes "keeps I m" and "\<And>x. fails_in I (k x)"
  shows "fails_in I (bnd m k)"
proof (unfold fails_in_def, intro allI impI)
  fix s e t assume s: "I s" and run: "bnd m k s = (Inl e, t)"
  show "I t"
  proof (cases "m s")
    case (Pair r u)
    have u: "I u" using keepsD [OF assms(1) s] Pair by simp
    show ?thesis
    proof (cases r)
      case (Inl e')
      then show ?thesis using run Pair u by (simp add: bnd_apply)
    next
      case (Inr x)
      then have "k x u = (Inl e, t)" using run Pair by (simp add: bnd_apply)
      then show ?thesis using assms(2) [of x] u unfolding fails_in_def by blast
    qed
  qed
qed

lemma fails_in_sq: "keeps I m \<Longrightarrow> fails_in I k \<Longrightarrow> fails_in I (sq m k)"
  unfolding sq_def by (rule fails_in_bnd)

lemma Queue_Init_blank: "keeps blank (Queue_Init qId es n)"
  by (auto simp: keeps_def Queue_Init_def blank_def)

lemma map_queue_fails: "fails_in (blank \<circ> fst)
    (sq (onl (modify (\<lambda>q. q\<lparr>mContigBuf := a\<rparr>))) (throw_if (a = 0) e))"
  by (auto simp: fails_in_def sq_apply blank_def throw_if_def raise_def ret_def split: if_splits)

lemma CQ_Init_fails_blank:
  fixes q :: "'q comp_queue_scheme" and w :: "('d, 'm) world_scheme"
  assumes "CQ_Init C drv qId es n irq vec (q, w) = (Inl e, (q', w'))" and "blank q"
  shows "blank q'"
proof -
  have "fails_in (blank \<circ> fst) (CQ_Init C drv qId es n irq vec :: ('q comp_queue_scheme \<times> ('d, 'm) world_scheme, unit) prog)"
    unfolding CQ_Init_def
    by (rule fails_in_sq, rule keeps_onl, rule Queue_Init_blank, rule fails_in_sq, rule keeps_onl,
        rule keeps_modify, simp add: blank_def, rule fails_in_sq, rule keeps_throw_if, rule fails_in_bnd,
        rule keeps_gets, rule fails_in_sq, rule keeps_onr, rule fails_in_bnd, rule keeps_onr, rule map_queue_fails)
  then show ?thesis using assms unfolding fails_in_def comp_def by (metis fst_conv)
qed

lemma CQ_CQ_blank: "CQ_CQ fd ty = Inr q \<Longrightarrow> blank q"
  by (auto simp: CQ_CQ_def Queue_Queue_def blank_def queue.extend_def split: sum.splits if_splits)

lemma destroy_blank: "blank q \<Longrightarrow> \<exists>e. destroy_q drv (q, w) = (Inl e, (q, w))"
  by (auto simp: destroy_q_def Queue_destroy_def Queue_GetIsContig_def blank_def bnd_apply)

lemma failed_ACQ_ends:
  fixes s u u' :: "('d, 'm) world_scheme"
  assumes "set_state E ST_DISABLE_COMPLETELY s = (Inr True, u)" and "CQ_CQ (su_fd E) OBJ_ACQ = Inr q0"
    and "ACQ_Init (su_libc E) (su_drv E) 2 (q0, u) = (Inl (FrmwkEx m), (q', u'))"
  shows "admin_session E body s = (Inl (UB ''terminate: exception thrown while unwinding''), u')"
proof -
  have "blank q'" by (rule CQ_Init_fails_blank [OF assms(3) [unfolded ACQ_Init_def] CQ_CQ_blank [OF assms(2)]])
  then obtain e where "destroy_q (su_drv E) (q', u') = (Inl e, (q', u'))" using destroy_blank by blast
  then have "with_acq E k u = (Inl (UB ''terminate: exception thrown while unwinding''), u')" for k
    using assms(2,3) by (simp add: with_acq_def bnd_apply sq_apply with_new_def scoped_def unwinding_def caught_def)
  then show ?thesis
    using assms(1) by (simp add: admin_session_def session_body_def try_catch_def bnd_apply sq_apply caught_def)
qed

section \<open>The comparison\<close>

lemma golden_loop_run:
  assumes "mRealBaseAddr (wd_bufs w r) = Some m" and "j + length raw \<le> length m - mVirOff (wd_bufs w r)"
    and "j + length raw \<le> length msk" and "length mc + length raw \<le> 4096"
  shows "golden_loop r raw msk j mc w =
    (Inr (mc @ filter (\<lambda>i. raw ! (i - j) AND msk ! i \<noteq> m ! (mVirOff (wd_bufs w r) + i) AND msk ! i) [j..<j + length raw]), w)"
  using assms
proof (induction raw arbitrary: j mc)
  case Nil
  then show ?case by simp
next
  case (Cons g raw)
  let ?o = "mVirOff (wd_bufs w r)"
  have ld: "on_mb r (MemBuffer_GetAt j) w = (Inr (m ! (?o + j)), w)"
    using Cons.prems(1,2) by (auto simp: on_mb_def zoom_apply MemBuffer_GetAt_def)
  have up: "[j..<Suc (j + length raw)] = j # [Suc j..<Suc (j + length raw)]" by (simp add: upt_rec)
  have eq: "filter (\<lambda>i. (g # raw) ! (i - j) AND msk ! i \<noteq> m ! (?o + i) AND msk ! i) [Suc j..<Suc (j + length raw)] =
      filter (\<lambda>i. raw ! (i - Suc j) AND msk ! i \<noteq> m ! (?o + i) AND msk ! i) [Suc j..<Suc (j + length raw)]"
    by (intro filter_cong) (auto simp: nth_Cons')
  have f: "filter (\<lambda>i. (g # raw) ! (i - j) AND msk ! i \<noteq> m ! (?o + i) AND msk ! i) [j..<Suc (j + length raw)] =
      (if g AND msk ! j \<noteq> m ! (?o + j) AND msk ! j then [j] else []) @
      filter (\<lambda>i. raw ! (i - Suc j) AND msk ! i \<noteq> m ! (?o + i) AND msk ! i) [Suc j..<Suc (j + length raw)]"
    unfolding up filter.simps eq by simp
  show ?case
    using Cons.prems Cons.IH [of "Suc j"] ld f by (simp add: bnd_apply del: upt_Suc)
qed

section \<open>Examples\<close>

definition ex_format :: FormatDUT where
  "ex_format = \<lparr>fd_nsid = 1, fd_ses = 0, fd_pi = 0, fd_lbaf = 1, fd_pil = False, fd_ms = False\<rparr>"

lemma FormatDevice_runs: "fst (FormatDevice dut_env [] io_world) = Inr True"
  by code_simp

section \<open>Properties\<close>



text \<open>C16: The comparison with golden data finds exactly the offsets at which the bits of the mask differ between the
  expected bytes and the buffer the device has written, and changes nothing, as long as buffer and mask are
  as long as the expected bytes and these are at most 4096.\<close>

theorem golden_comparison_exact:
  assumes "mRealBaseAddr (wd_bufs w r) = Some m" and "length raw \<le> length m - mVirOff (wd_bufs w r)"
    and "length raw \<le> length msk" and "length raw \<le> 4096"
  shows "golden_loop r raw msk 0 [] w =
    (Inr (filter (\<lambda>i. raw ! i AND msk ! i \<noteq> m ! (mVirOff (wd_bufs w r) + i) AND msk ! i) [0..<length raw]), w)"
  using golden_loop_run [where j = 0 and mc = "[]"] assms by simp


text \<open>A driver that disables the controller and cannot create admin queues.\<close>

definition refusing_env :: "nat device_env" where
  "refusing_env = dut_env\<lparr>su_drv := dut_dnvme\<lparr>io_create_admn_q := (\<lambda>n t d. (- 1, d))\<rparr>\<rparr>"

definition ex_acq :: comp_queue where
  "ex_acq = projr (CQ_CQ 3 OBJ_ACQ)"

lemma refused:
  "CQ_CQ 3 OBJ_ACQ = Inr ex_acq"
  "fst (set_state refusing_env ST_DISABLE_COMPLETELY io_world) = Inr True"
  "fst (ACQ_Init ex_libc (su_drv refusing_env) 2 (ex_acq, snd (set_state refusing_env ST_DISABLE_COMPLETELY io_world))) =
     Inl (FrmwkEx ''Q Creation failed by dnvme with error: 0x%02X'')"
  by code_simp+


theorem golden_comparison_exact_witness:
  "golden_loop 0 [0, 1, 2] [255, 1, 0] 0 [] io_world = (Inr [1], io_world)"
proof -
  have m: "mRealBaseAddr (wd_bufs io_world 0) = Some (replicate 64 0)" "mVirOff (wd_bufs io_world 0) = 0"
    by (simp_all add: io_world_def)
  show ?thesis
    using golden_comparison_exact [OF m(1), of "[0, 1, 2]" "[255, 1, 0]"] m(2) by (simp add: upt_rec nth_Cons')
qed

end
