(* ===== verification/Xml_Parsers.thy ===== *)
theory Xml_Parsers
  imports Device_Helpers Parsers
begin

text \<open>
  The parsers of the XML files of \<open>--golden\<close> and \<open>--format\<close> (tnvmeParsers.cpp). The files are read with
  \<open>xmlpp::TextReader\<close> of the library libxml++, which delivers the nodes of a document one by one, in
  document order. The sequence of these nodes, and whether the reader throws after the last of them
  (the file is malformed there), is the argument of the parsers.
\<close>

section \<open>The reader\<close>

datatype XmlNodeType = XmlElement | XmlEndElement | XmlText | XmlComment | XmlSignificantWhitespace | XmlOther

record AttribXML =
  at_name :: string
  at_value :: string

record xml_node =
  xn_type :: XmlNodeType
  xn_name :: string
  xn_depth :: nat
  xn_value :: string
  xn_attr :: "AttribXML list"

text \<open>What is left to read, and whether reading past it throws.\<close>

record text_reader =
  tr_nodes :: "xml_node list"
  tr_throws :: bool

text \<open>
  \<open>SeekSpecificXMLNode\<close>: the node found, and the nodes after it. An exception of the reader is caught and
  counts as not found; nothing is left then, and the reader throws again.
\<close>

fun SeekSpecificXMLNode :: "string \<Rightarrow> nat \<Rightarrow> xml_node list \<Rightarrow> xml_node option \<times> xml_node list" where
  "SeekSpecificXMLNode nodeName nodeDepth [] = (None, [])"
| "SeekSpecificXMLNode nodeName nodeDepth (n # ns) =
     (if xn_name n = nodeName then
        (if xn_type n = XmlEndElement then SeekSpecificXMLNode nodeName nodeDepth ns
         else if xn_depth n = nodeDepth then (Some n, ns)
         else SeekSpecificXMLNode nodeName nodeDepth ns)
      else SeekSpecificXMLNode nodeName nodeDepth ns)"

section \<open>Values\<close>

text \<open>What the extraction functions share: the node after an element of a known name has to be text.\<close>

type_synonym 'c field_table = "string \<Rightarrow> (string \<Rightarrow> 'c \<Rightarrow> 'c) option"

definition format_fields :: "FormatDUT field_table" where
  "format_fields nodeName =
     (let hex = (\<lambda>v. fst (strtoul 16 v)) in
      if nodeName = ''ses'' then Some (\<lambda>v c. c\<lparr>fd_ses := of_nat (hex v)\<rparr>)
      else if nodeName = ''pil'' then Some (\<lambda>v c. c\<lparr>fd_pil := hex v \<noteq> 0\<rparr>)
      else if nodeName = ''pi'' then Some (\<lambda>v c. c\<lparr>fd_pi := of_nat (hex v)\<rparr>)
      else if nodeName = ''ms'' then Some (\<lambda>v c. c\<lparr>fd_ms := hex v \<noteq> 0\<rparr>)
      else if nodeName = ''lbaf'' then Some (\<lambda>v c. c\<lparr>fd_lbaf := of_nat (hex v)\<rparr>)
      else None)"

definition identify_fields :: "IdentifyDUT field_table" where
  "identify_fields nodeName =
     (if nodeName = ''nsid'' then Some (\<lambda>v c. c\<lparr>id_nsid := of_nat (fst (strtoul 10 v))\<rparr>)
      else if nodeName = ''cns'' then Some (\<lambda>v c. c\<lparr>id_cns := of_nat (fst (strtoul 16 v))\<rparr>)
      else None)"

text \<open>
  The loop over the values within an element, up to its end tag. \<open>None\<close>: the parser returns false (a node of
  another type, an unknown name, an exception of the reader). An element is followed by a \<open>read()\<close> of its text.
\<close>

fun xml_value_loop :: "string \<Rightarrow> 'c field_table \<Rightarrow> bool \<Rightarrow> xml_node list \<Rightarrow> 'c \<Rightarrow> ('c \<times> xml_node list) option" where
  "xml_value_loop endName tbl throws [] cmd = (if throws then None else Some (cmd, []))"
| "xml_value_loop endName tbl throws (n # ns) cmd =
     (case xn_type n of
        XmlComment \<Rightarrow> xml_value_loop endName tbl throws ns cmd
      | XmlSignificantWhitespace \<Rightarrow> xml_value_loop endName tbl throws ns cmd
      | XmlElement \<Rightarrow>
          (case tbl (xn_name n) of
             None \<Rightarrow> None
           | Some setter \<Rightarrow>
               (case ns of
                  [] \<Rightarrow> None
                | m # ms \<Rightarrow>
                    if xn_type m = XmlText then xml_value_loop endName tbl throws ms (setter (xn_value m) cmd) else None))
      | XmlEndElement \<Rightarrow> if xn_name n = endName then Some (cmd, ns) else xml_value_loop endName tbl throws ns cmd
      | _ \<Rightarrow> None)"

text \<open>
  The bytes of a payload. \<open>endPtr\<close> points into a temporary string, which is taken to be intact. The loop
  appends the number read before it looks for the next one: a first number that is no number counts as zero, and
  the last one counts only when something follows it.
\<close>

lemma read_digits_shorter: "length (snd (read_digits b acc s)) \<le> length s"
  by (induction b acc s rule: read_digits.induct) (auto split: option.splits)

lemma skip_0x_shorter: "length (skip_0x b s) \<le> length s"
  by (auto simp: skip_0x_def split: list.splits if_splits)

lemma read_sign_shorter: "length (snd (read_sign s)) \<le> length s"
  by (cases s) auto

lemma strtoul_progress: "snd (strtoul b s) = s \<or> length (snd (strtoul b s)) < length s"
proof -
  obtain neg s1 where sg: "read_sign (dropWhile is_space s) = (neg, s1)" by fastforce
  have l1: "length s1 \<le> length s"
    using read_sign_shorter [of "dropWhile is_space s"] sg length_dropWhile_le [of is_space s] by simp
  let ?s2 = "skip_0x b s1"
  show ?thesis
  proof (cases "?s2 \<noteq> [] \<and> digit_val b (hd ?s2) \<noteq> None")
    case True
    then obtain c cs d where c: "?s2 = c # cs" "digit_val b c = Some d" by (cases ?s2) auto
    then have "length (snd (read_digits b 0 ?s2)) < length ?s2"
      using read_digits_shorter [of b d cs] by simp
    then show ?thesis
      using True sg l1 skip_0x_shorter [of b s1] by (auto simp: strtoul_def strto_def Let_def split: prod.splits)
  next
    case False
    then show ?thesis using sg by (auto simp: strtoul_def strto_def Let_def)
  qed
qed

lemma strtoul_rest: "(w, e) = strtoul b s \<Longrightarrow> e = s \<or> length e < length s"
  using strtoul_progress [of b s] by (metis snd_conv)

function payload_loop :: "nat \<Rightarrow> string \<Rightarrow> string option \<Rightarrow> u8 list \<Rightarrow> u8 list" where
  "payload_loop work endPtr startPtr raw =
     (if endPtr \<noteq> [] \<and> startPtr \<noteq> Some endPtr
      then (case strtoul 16 endPtr of (w, e) \<Rightarrow> payload_loop w e (Some endPtr) (raw @ [of_nat work]))
      else raw)"
  by pat_completeness auto
termination
  by (relation "measure (\<lambda>(w, e, st, raw). 2 * length e + (if st = Some e then 0 else 1))") (auto dest!: strtoul_rest)

declare payload_loop.simps [simp del]

definition payload_bytes :: "string \<Rightarrow> u8 list \<Rightarrow> u8 list" where
  "payload_bytes v raw = (case strtoul 16 v of (work, endPtr) \<Rightarrow> payload_loop work endPtr None raw)"

text \<open>The loop over the text of a payload; the bytes are appended to what is there, 4096 are required after each text.\<close>

fun payload_text :: "string \<Rightarrow> bool \<Rightarrow> xml_node list \<Rightarrow> u8 list \<Rightarrow> (u8 list \<times> xml_node list) option" where
  "payload_text endName throws [] raw = (if throws then None else Some (raw, []))"
| "payload_text endName throws (n # ns) raw =
     (case xn_type n of
        XmlComment \<Rightarrow> payload_text endName throws ns raw
      | XmlSignificantWhitespace \<Rightarrow> payload_text endName throws ns raw
      | XmlEndElement \<Rightarrow> if xn_name n = endName then Some (raw, ns) else payload_text endName throws ns raw
      | XmlText \<Rightarrow>
          (let raw' = payload_bytes (xn_value n) raw in
           if length raw' \<noteq> 4096 then None else payload_text endName throws ns raw')
      | _ \<Rightarrow> None)"

section \<open>The file of --format\<close>

lemma seek_shorter: "SeekSpecificXMLNode name d ns = (r, ms) \<Longrightarrow> length ms \<le> length ns \<and> (r \<noteq> None \<longrightarrow> length ms < length ns)"
  by (induction name d ns rule: SeekSpecificXMLNode.induct) (auto split: if_splits)

lemma value_loop_shorter: "xml_value_loop e tbl throws ns c = Some (c', ms) \<Longrightarrow> length ms \<le> length ns"
  by (induction e tbl throws ns c rule: xml_value_loop.induct)
    (auto intro: le_SucI split: XmlNodeType.splits option.splits list.splits if_splits)

lemma payload_text_shorter: "payload_text e throws ns raw = Some (raw', ms) \<Longrightarrow> length ms \<le> length ns"
  by (induction e throws ns raw rule: payload_text.induct) (auto simp: Let_def split: XmlNodeType.splits if_splits)

definition format_zero :: FormatDUT where
  "format_zero = \<lparr>fd_nsid = 0, fd_ses = 0, fd_pi = 0, fd_lbaf = 0, fd_pil = False, fd_ms = False\<rparr>"

text \<open>The loop over the namespaces; the result is \<open>format.cmds\<close> with \<open>allOK\<close>, or \<open>None\<close> for \<open>return false\<close>.\<close>

function format_namespaces :: "bool \<Rightarrow> xml_node list \<Rightarrow> FormatDUT list \<Rightarrow> bool \<Rightarrow> (FormatDUT list \<times> bool) option" where
  "format_namespaces throws ns cmds allOK =
     (case SeekSpecificXMLNode ''namespace'' 1 ns of
        (None, _) \<Rightarrow> Some (cmds, allOK)
      | (Some n, ns1) \<Rightarrow>
          (case xn_attr n of
             [a] \<Rightarrow>
               if at_name a \<noteq> ''id'' then None
               else let cmd = format_zero\<lparr>fd_nsid := of_nat (fst (strtoul 10 (at_value a)))\<rparr> in
                 (case SeekSpecificXMLNode ''cmd'' 2 ns1 of
                    (None, ns2) \<Rightarrow> format_namespaces throws ns2 cmds allOK
                  | (Some _, ns2) \<Rightarrow>
                      (case SeekSpecificXMLNode ''dw10'' 3 ns2 of
                         (None, ns3) \<Rightarrow> format_namespaces throws ns3 cmds allOK
                       | (Some _, ns3) \<Rightarrow>
                           (case xml_value_loop ''dw10'' format_fields throws ns3 cmd of
                              None \<Rightarrow> None
                            | Some (cmd', ns4) \<Rightarrow> format_namespaces throws ns4 (cmds @ [cmd']) True)))
           | _ \<Rightarrow> None))"
  by pat_completeness auto
termination
  by (relation "measure (\<lambda>(t, ns, c, a). length ns)")
    (auto dest!: seek_shorter [OF sym] value_loop_shorter)

declare format_namespaces.simps [simp del]

record Format =
  fmt_req :: bool
  fmt_cmds :: "FormatDUT list"

text \<open>\<open>None\<close> as the file: the constructor of the reader throws. What \<open>cmds\<close> holds after a failure is left out: the caller exits.\<close>

definition ParseFormatCmdLine :: "text_reader option \<Rightarrow> bool \<times> Format" where
  "ParseFormatCmdLine xmlFile =
     (let failed = (False, \<lparr>fmt_req = False, fmt_cmds = []\<rparr>) in
      case xmlFile of
        None \<Rightarrow> failed
      | Some r \<Rightarrow>
          (case SeekSpecificXMLNode ''format'' 0 (tr_nodes r) of
             (None, _) \<Rightarrow> failed
           | (Some _, ns) \<Rightarrow>
               (case format_namespaces (tr_throws r) ns [] False of
                  None \<Rightarrow> failed
                | Some (cmds, allOK) \<Rightarrow> if \<not> allOK then failed else (True, \<lparr>fmt_req = True, fmt_cmds = cmds\<rparr>))))"


section \<open>The file of --golden\<close>

text \<open>\<open>memset\<close> of a structure that contains vectors: they become empty (undefined in C++, so in this library).\<close>

definition identify_zero :: IdentifyDUT where
  "identify_zero = \<lparr>id_nsid = 0, id_cns = 0, id_raw = [], id_mask = []\<rparr>"

text \<open>A part of a command: when its element is found, its contents are read.\<close>

definition golden_values :: "string \<Rightarrow> bool \<Rightarrow> xml_node list \<Rightarrow> IdentifyDUT \<Rightarrow> (IdentifyDUT \<times> xml_node list) option" where
  "golden_values name throws ns cmd =
     (case SeekSpecificXMLNode name 2 ns of
        (None, ns1) \<Rightarrow> Some (cmd, ns1)
      | (Some _, ns1) \<Rightarrow> xml_value_loop name identify_fields throws ns1 cmd)"

definition golden_payload :: "string \<Rightarrow> bool \<Rightarrow> xml_node list \<Rightarrow> u8 list \<Rightarrow> (u8 list \<times> xml_node list) option" where
  "golden_payload name throws ns raw =
     (case SeekSpecificXMLNode name 2 ns of
        (None, ns1) \<Rightarrow> Some (raw, ns1)
      | (Some _, ns1) \<Rightarrow> payload_text name throws ns1 raw)"

definition golden_cmd :: "bool \<Rightarrow> xml_node list \<Rightarrow> (IdentifyDUT \<times> xml_node list) option" where
  "golden_cmd throws ns =
     (case golden_values ''dw1'' throws ns identify_zero of
        None \<Rightarrow> None
      | Some (c1, ns1) \<Rightarrow>
          (case golden_values ''dw10'' throws ns1 c1 of
             None \<Rightarrow> None
           | Some (c2, ns2) \<Rightarrow>
               (case golden_payload ''prp'' throws ns2 (id_raw c2) of
                  None \<Rightarrow> None
                | Some (raw, ns3) \<Rightarrow>
                    (case golden_payload ''mask'' throws ns3 (id_mask c2) of
                       None \<Rightarrow> None
                     | Some (msk, ns4) \<Rightarrow> Some (c2\<lparr>id_raw := raw, id_mask := msk\<rparr>, ns4)))))"

lemma golden_cmd_shorter: "golden_cmd throws ns = Some (c, ms) \<Longrightarrow> length ms \<le> length ns"
proof -
  have v: "length ms \<le> length ns" if "golden_values name throws ns c = Some (c', ms)" for name ns ms c c'
    using that by (auto simp: golden_values_def dest!: seek_shorter value_loop_shorter split: prod.splits option.splits)
  have p: "length ms \<le> length ns" if "golden_payload name throws ns c = Some (c', ms)" for name ns ms c c'
    using that by (auto simp: golden_payload_def dest!: seek_shorter payload_text_shorter split: prod.splits option.splits)
  show "golden_cmd throws ns = Some (c, ms) \<Longrightarrow> length ms \<le> length ns"
    by (auto simp: golden_cmd_def dest!: v p split: prod.splits option.splits)
qed

function golden_cmds_loop :: "bool \<Rightarrow> xml_node list \<Rightarrow> IdentifyDUT list \<Rightarrow> bool \<Rightarrow> (IdentifyDUT list \<times> bool) option" where
  "golden_cmds_loop throws ns cmds allOK =
     (case SeekSpecificXMLNode ''cmd'' 1 ns of
        (None, _) \<Rightarrow> Some (cmds, allOK)
      | (Some _, ns1) \<Rightarrow>
          (case golden_cmd throws ns1 of
             None \<Rightarrow> None
           | Some (cmd, ns2) \<Rightarrow> golden_cmds_loop throws ns2 (cmds @ [cmd]) True))"
  by pat_completeness auto
termination
  by (relation "measure (\<lambda>(t, ns, c, a). length ns)") (auto dest!: seek_shorter [OF sym] golden_cmd_shorter)

declare golden_cmds_loop.simps [simp del]

record Golden =
  gd_req :: bool
  gd_outputFile :: string
  gd_cmds :: "IdentifyDUT list"

text \<open>The names of the input and the output file: the first colon separates them unless it is the first character.\<close>

definition golden_files :: "string \<Rightarrow> string \<times> string option" where
  "golden_files optarg =
     (if CHR '':'' \<in> set (tl optarg) \<and> hd optarg \<noteq> CHR '':''
      then (takeWhile (\<lambda>c. c \<noteq> CHR '':'') optarg, Some (tl (dropWhile (\<lambda>c. c \<noteq> CHR '':'') optarg)))
      else (optarg, None))"

definition ParseGoldenCmdLine :: "(string \<Rightarrow> text_reader option) \<Rightarrow> string \<Rightarrow> Golden \<Rightarrow> bool \<times> Golden" where
  "ParseGoldenCmdLine open_xml optarg golden =
     (case golden_files optarg of (inFileName, out) \<Rightarrow>
      let g = golden\<lparr>gd_outputFile := (case out of None \<Rightarrow> gd_outputFile golden | Some f \<Rightarrow> f), gd_req := False, gd_cmds := []\<rparr> in
      case open_xml inFileName of
        None \<Rightarrow> (False, g)
      | Some r \<Rightarrow>
          (case SeekSpecificXMLNode ''identify'' 0 (tr_nodes r) of
             (None, _) \<Rightarrow> (False, g)
           | (Some _, ns) \<Rightarrow>
               (case golden_cmds_loop (tr_throws r) ns [] False of
                  None \<Rightarrow> (False, g)
                | Some (cmds, allOK) \<Rightarrow> if \<not> allOK then (False, g) else (True, g\<lparr>gd_req := True, gd_cmds := cmds\<rparr>))))"


section \<open>Files as they are meant to be written\<close>

definition xelem :: "string \<Rightarrow> nat \<Rightarrow> AttribXML list \<Rightarrow> xml_node" where
  "xelem name d attr = \<lparr>xn_type = XmlElement, xn_name = name, xn_depth = d, xn_value = [], xn_attr = attr\<rparr>"

definition xend :: "string \<Rightarrow> nat \<Rightarrow> xml_node" where
  "xend name d = \<lparr>xn_type = XmlEndElement, xn_name = name, xn_depth = d, xn_value = [], xn_attr = []\<rparr>"

definition xtext :: "string \<Rightarrow> nat \<Rightarrow> xml_node" where
  "xtext v d = \<lparr>xn_type = XmlText, xn_name = ''#text'', xn_depth = d, xn_value = v, xn_attr = []\<rparr>"

text \<open>Comments and white space, which may stand between any two elements.\<close>

definition noise :: "xml_node \<Rightarrow> bool" where
  "noise n \<longleftrightarrow> (xn_type n = XmlComment \<and> xn_name n = ''#comment'') \<or> (xn_type n = XmlSignificantWhitespace \<and> xn_name n = ''#text'')"

definition print_field :: "xml_node list \<Rightarrow> string \<Rightarrow> nat \<Rightarrow> xml_node list" where
  "print_field w name v = w @ [xelem name 4 [], xtext (numeral_of 16 v) 5, xend name 4]"

definition print_dw10 :: "xml_node list \<Rightarrow> FormatDUT \<Rightarrow> xml_node list" where
  "print_dw10 w f =
     print_field w ''ses'' (unat (fd_ses f)) @ print_field w ''pil'' (if fd_pil f then 1 else 0) @
     print_field w ''pi'' (unat (fd_pi f)) @ print_field w ''ms'' (if fd_ms f then 1 else 0) @
     print_field w ''lbaf'' (unat (fd_lbaf f))"

definition print_id :: "xml_node list \<Rightarrow> u32 \<Rightarrow> xml_node list" where
  "print_id w nsid = w @ [xelem ''namespace'' 1 [\<lparr>at_name = ''id'', at_value = numeral_of 10 (unat nsid)\<rparr>]]"

definition print_namespace :: "xml_node list \<Rightarrow> FormatDUT \<Rightarrow> xml_node list" where
  "print_namespace w f =
     print_id w (fd_nsid f) @ w @ [xelem ''cmd'' 2 []] @ w @ [xelem ''dw10'' 3 []] @ print_dw10 w f @
     w @ [xend ''dw10'' 3] @ w @ [xend ''cmd'' 2] @ w @ [xend ''namespace'' 1]"

definition print_format :: "xml_node list \<Rightarrow> FormatDUT list \<Rightarrow> xml_node list" where
  "print_format w fs = w @ [xelem ''format'' 0 []] @ concat (map (print_namespace w) fs) @ w @ [xend ''format'' 0] @ w"

lemmas xml_defs = xelem_def xend_def xtext_def

lemma xelem_attr [simp]: "xn_attr (xelem n d a) = a"
  by (simp add: xelem_def)

lemma noise_cases: "noise n \<Longrightarrow> (xn_type n = XmlComment \<or> xn_type n = XmlSignificantWhitespace) \<and> hd (xn_name n) = CHR ''#''"
  by (auto simp: noise_def)

lemma seek_noise [simp]:
  "list_all noise w \<Longrightarrow> hd name \<noteq> CHR ''#'' \<Longrightarrow> SeekSpecificXMLNode name d (w @ ns) = SeekSpecificXMLNode name d ns"
  by (induction w) (auto dest: noise_cases)

lemma seek_elem [simp]: "SeekSpecificXMLNode name d (xelem n d' a # ns) =
    (if n = name \<and> d' = d then (Some (xelem n d' a), ns) else SeekSpecificXMLNode name d ns)"
  by (simp add: xml_defs)

lemma seek_end [simp]: "SeekSpecificXMLNode name d (xend n d' # ns) = SeekSpecificXMLNode name d ns"
  by (simp add: xml_defs)

lemma seek_text [simp]: "hd name \<noteq> CHR ''#'' \<Longrightarrow> SeekSpecificXMLNode name d (xtext v d' # ns) = SeekSpecificXMLNode name d ns"
  by (auto simp: xml_defs)

lemma seek_nothing [simp]: "list_all noise w \<Longrightarrow> hd name \<noteq> CHR ''#'' \<Longrightarrow> SeekSpecificXMLNode name d w = (None, [])"
  using seek_noise [of w name d "[]"] by simp

declare SeekSpecificXMLNode.simps(2) [simp del]

lemma values_noise [simp]: "list_all noise w \<Longrightarrow> xml_value_loop e tbl b (w @ ns) c = xml_value_loop e tbl b ns c"
  by (induction w) (auto dest: noise_cases)

lemma values_field:
  assumes "list_all noise w" and "tbl name = Some st" and "name \<noteq> e"
  shows "xml_value_loop e tbl b (print_field w name v @ ns) c = xml_value_loop e tbl b ns (st (numeral_of 16 v) c)"
  using assms by (simp add: print_field_def xml_defs)

lemma hex_numeral: "n \<le> ULONG_MAX \<Longrightarrow> fst (strtoul 16 (numeral_of 16 n)) = n"
  using strtoul_numeral [of "[]" n] by (simp add: ends_number_def)

lemma dec_numeral: "n \<le> ULONG_MAX \<Longrightarrow> fst (strtoul 10 (numeral_of 10 n)) = n"
  using strto_numeral [of 10 "[]" n] by (simp add: ends_number_def strtoul_def)

lemma small_numerals [simp]: "unat (b :: u8) \<le> ULONG_MAX" "unat (n :: u32) \<le> ULONG_MAX"
proof -
  have "unat b < 2 ^ 8" "unat n < 2 ^ 32" using unsigned_less [of b] unsigned_less [of n] by simp_all
  then show "unat b \<le> ULONG_MAX" "unat n \<le> ULONG_MAX" by (simp_all add: ULONG_MAX_def)
qed

lemma dw10_read:
  assumes w: "list_all noise w"
  shows "xml_value_loop ''dw10'' format_fields b (print_dw10 w f @ w @ xend ''dw10'' 3 # ns) (format_zero\<lparr>fd_nsid := n\<rparr>) =
    Some (f\<lparr>fd_nsid := n\<rparr>, ns)"
proof -
  have "fst (strtoul 16 (numeral_of 16 (if x then 1 else 0))) = (if x then 1 else 0)" for x
    by (rule hex_numeral) (simp add: ULONG_MAX_def)
  then show ?thesis
    unfolding print_dw10_def append_assoc
    by (subst values_field [OF w], simp add: format_fields_def, simp)+
      (simp add: w hex_numeral format_zero_def xend_def)
qed


text \<open>An id, whatever follows up to the next command, and that command: the id is the one of the command that is read.\<close>

lemma namespace_read:
  assumes w: "list_all noise w" and gap: "\<And>ns. SeekSpecificXMLNode ''cmd'' 2 (gap @ ns) = SeekSpecificXMLNode ''cmd'' 2 ns"
  shows "format_namespaces b (print_id w n @ gap @ xelem ''cmd'' 2 [] # w @ xelem ''dw10'' 3 [] # print_dw10 w f @
      w @ xend ''dw10'' 3 # ns) cmds ok = format_namespaces b ns (cmds @ [f\<lparr>fd_nsid := n\<rparr>]) True"
  by (subst format_namespaces.simps) (simp add: print_id_def w gap dec_numeral dw10_read [OF w] Let_def)

lemma format_skip_end:
  "list_all noise w \<Longrightarrow> format_namespaces b (w @ xend name d # ns) cmds ok = format_namespaces b ns cmds ok"
  by (simp add: format_namespaces.simps [of b "w @ xend name d # ns"] format_namespaces.simps [of b ns])

lemma namespaces_read:
  assumes w: "list_all noise w"
  shows "format_namespaces b (concat (map (print_namespace w) fs) @ ns) cmds ok = format_namespaces b ns (cmds @ fs) (ok \<or> fs \<noteq> [])"
proof (induction fs arbitrary: cmds ok)
  case Nil
  then show ?case by simp
next
  case (Cons f fs)
  let ?rest = "concat (map (print_namespace w) fs) @ ns"
  have "format_namespaces b (print_namespace w f @ ?rest) cmds ok = format_namespaces b ?rest (cmds @ [f]) True"
    using namespace_read [OF w, of w b "fd_nsid f" f "w @ xend ''cmd'' 2 # w @ xend ''namespace'' 1 # ?rest" cmds ok]
    by (simp add: print_namespace_def format_skip_end w)
  then show ?case using Cons.IH by simp
qed

lemma format_end:
  assumes "list_all noise w"
  shows "format_namespaces b w cmds ok = Some (cmds, ok)"
    and "format_namespaces b (w @ xend ''format'' 0 # w) cmds ok = Some (cmds, ok)"
  using assms by (subst format_namespaces.simps, simp)+

section \<open>Payloads\<close>

definition print_bytes :: "char \<Rightarrow> u8 list \<Rightarrow> string" where
  "print_bytes c bs = concat (map (\<lambda>b. numeral_of 16 (unat b) @ [c]) bs)"

lemma numeral_not_nil [simp]: "numeral_of 16 n \<noteq> []"
  using numeral_plain [of 16 n] by simp

lemma spaces_then_number:
  assumes "is_space c" and "ends_number r" and "n \<le> ULONG_MAX"
  shows "strtoul 16 (c # numeral_of 16 n @ r) = (n, r)"
proof -
  have "strto 16 (c # numeral_of 16 n @ r) = ((False, n), r)"
    using strto_numeral [of 16 r n] assms(1,2)
    by (auto simp: strto_def Let_def split: if_splits prod.splits)
  then show ?thesis using assms(3) by (simp add: strtoul_def)
qed


text \<open>The loop, when it stands at a space after a number: what is left are bytes that are each followed by a space, and
  possibly a last one that is not.\<close>

lemma payload_rest:
  assumes c: "is_space c" and z: "z = [] \<or> (\<exists>b :: u8. z = numeral_of 16 (unat b))"
  shows "st \<noteq> Some (c # print_bytes c bs @ z) \<Longrightarrow> payload_loop (unat (b :: u8)) (c # print_bytes c bs @ z) st raw = raw @ b # bs"
proof (induction bs arbitrary: b st raw)
  case Nil
  have sp: "ends_number (c # r)" for r using c by (simp add: ends_number_def)
  show ?case
  proof (cases "z = []")
    case True
    have "strtoul 16 [c] = (0, [c])"
      using c by (simp add: strtoul_def strto_def skip_0x_def)
    then show ?thesis
      using Nil True payload_loop.simps [of 0 "[c]" "Some [c]"] by (simp add: payload_loop.simps [of "unat b"] print_bytes_def)
  next
    case False
    then obtain d :: u8 where d: "z = numeral_of 16 (unat d)" using z by blast
    have "strtoul 16 (c # z) = (unat d, [])"
      using spaces_then_number [OF c, of "[]" "unat d"] d by (simp add: ends_number_def)
    then show ?thesis
      using Nil payload_loop.simps [of "unat d" "[]"] by (simp add: payload_loop.simps [of "unat b"] print_bytes_def)
  qed
next
  case (Cons d bs)
  let ?r = "c # print_bytes c bs @ z"
  have sp: "ends_number ?r" using c by (simp add: ends_number_def)
  have "strtoul 16 (c # print_bytes c (d # bs) @ z) = (unat d, ?r)"
    using spaces_then_number [OF c sp, of "unat d"] by (simp add: print_bytes_def)
  moreover have "Some (c # print_bytes c (d # bs) @ z) \<noteq> Some ?r" by (simp add: print_bytes_def)
  ultimately show ?case
    using Cons.prems Cons.IH [of "Some (c # print_bytes c (d # bs) @ z)" d "raw @ [b]"]
    by (simp add: payload_loop.simps [of "unat b"])
qed

lemma payload_text_length:
  "payload_text e throws ns raw = Some (raw', ms) \<Longrightarrow> length raw \<in> {0, 4096} \<Longrightarrow> length raw' \<in> {0, 4096}"
  by (induction e throws ns raw rule: payload_text.induct) (auto simp: Let_def split: XmlNodeType.splits if_splits)

lemma identify_fields_keep: "identify_fields name = Some st \<Longrightarrow> id_raw (st v c) = id_raw c \<and> id_mask (st v c) = id_mask c"
  by (auto simp: identify_fields_def split: if_splits)

lemma values_keep: "xml_value_loop e identify_fields throws ns c = Some (c', ms) \<Longrightarrow> id_raw c' = id_raw c \<and> id_mask c' = id_mask c"
  by (induction e "identify_fields" throws ns c rule: xml_value_loop.induct)
    (auto dest: identify_fields_keep split: XmlNodeType.splits option.splits list.splits if_splits)

definition payload_sizes :: "IdentifyDUT \<Rightarrow> bool" where
  "payload_sizes c \<longleftrightarrow> length (id_raw c) \<in> {0, 4096} \<and> length (id_mask c) \<in> {0, 4096}"

lemma golden_cmd_sizes: "golden_cmd throws ns = Some (c, ms) \<Longrightarrow> payload_sizes c"
proof -
  have v: "id_raw c' = id_raw c \<and> id_mask c' = id_mask c" if "golden_values name throws ns c = Some (c', ms)" for name ns ms c c'
    using that by (auto simp: golden_values_def dest!: values_keep split: prod.splits option.splits)
  have p: "length raw \<in> {0, 4096} \<Longrightarrow> length raw' \<in> {0, 4096}" if "golden_payload name throws ns raw = Some (raw', ms)" for name ns ms raw raw'
    using that by (auto simp: golden_payload_def dest!: payload_text_length split: prod.splits option.splits)
  assume "golden_cmd throws ns = Some (c, ms)"
  then obtain c1 n1 c2 n2 r n3 m n4 where "golden_values ''dw1'' throws ns identify_zero = Some (c1, n1)"
    "golden_values ''dw10'' throws n1 c1 = Some (c2, n2)" "golden_payload ''prp'' throws n2 (id_raw c2) = Some (r, n3)"
    "golden_payload ''mask'' throws n3 (id_mask c2) = Some (m, n4)" "c = c2\<lparr>id_raw := r, id_mask := m\<rparr>"
    by (auto simp: golden_cmd_def split: prod.splits option.splits)
  then show ?thesis using v p by (fastforce simp: payload_sizes_def identify_zero_def)
qed

lemma golden_loop_sizes:
  "golden_cmds_loop throws ns cmds ok = Some (cmds', ok') \<Longrightarrow> list_all payload_sizes cmds \<Longrightarrow> (ok \<longrightarrow> cmds \<noteq> []) \<Longrightarrow>
    list_all payload_sizes cmds' \<and> (ok' \<longrightarrow> cmds' \<noteq> [])"
proof (induction throws ns cmds ok rule: golden_cmds_loop.induct)
  case (1 throws ns cmds ok)
  obtain r ns1 where seek: "SeekSpecificXMLNode ''cmd'' 1 ns = (r, ns1)" by fastforce
  show ?case
  proof (cases r)
    case None
    then show ?thesis using 1(2-4) seek by (simp add: golden_cmds_loop.simps [of throws ns cmds ok])
  next
    case (Some n)
    then obtain c ns2 where c: "golden_cmd throws ns1 = Some (c, ns2)" "golden_cmds_loop throws ns2 (cmds @ [c]) True = Some (cmds', ok')"
      using 1(2) seek by (auto simp: golden_cmds_loop.simps [of throws ns cmds ok] split: option.splits)
    then show ?thesis using 1(1) [OF seek [symmetric] Some c(1) refl] golden_cmd_sizes [OF c(1)] 1(3) by simp
  qed
qed

section \<open>Properties\<close>


definition ex_noise :: "xml_node list" where
  "ex_noise = [\<lparr>xn_type = XmlComment, xn_name = ''#comment'', xn_depth = 1, xn_value = ''base 16'', xn_attr = []\<rparr>]"

definition ex_dut :: FormatDUT where
  "ex_dut = \<lparr>fd_nsid = 12, fd_ses = 1, fd_pi = 2, fd_lbaf = 10, fd_pil = True, fd_ms = False\<rparr>"


text \<open>C22: A namespace without a command takes the command of the next one: of two namespaces of which only the second has a
  command, one command results, and it formats the first namespace with the values meant for the second.\<close>

theorem ParseFormat_misassigns:
  assumes w: "list_all noise w"
  shows "ParseFormatCmdLine (Some \<lparr>tr_nodes = w @ [xelem ''format'' 0 []] @ print_id w n @ w @ [xend ''namespace'' 1] @
      print_namespace w f @ w @ [xend ''format'' 0] @ w, tr_throws = b\<rparr>) =
    (True, \<lparr>fmt_req = True, fmt_cmds = [f\<lparr>fd_nsid := n\<rparr>]\<rparr>)"
proof -
  let ?tail = "w @ xend ''cmd'' 2 # w @ xend ''namespace'' 1 # w @ xend ''format'' 0 # w"
  have "SeekSpecificXMLNode ''cmd'' 2 ((w @ [xend ''namespace'' 1] @ print_id w (fd_nsid f) @ w) @ ns) = SeekSpecificXMLNode ''cmd'' 2 ns"
    for ns by (simp add: print_id_def w)
  from namespace_read [OF w this, of b n f ?tail "[]" False] show ?thesis
    by (simp add: ParseFormatCmdLine_def print_namespace_def w format_skip_end format_end)
qed

theorem ParseFormat_misassigns_witness:
  "fmt_cmds (snd (ParseFormatCmdLine (Some \<lparr>tr_nodes = [] @ [xelem ''format'' 0 []] @ print_id [] 1 @ [] @ [xend ''namespace'' 1] @
      print_namespace [] ex_dut @ [] @ [xend ''format'' 0] @ [], tr_throws = False\<rparr>))) = [ex_dut\<lparr>fd_nsid := 1\<rparr>]"
  by (subst ParseFormat_misassigns) simp_all

text \<open>The bytes of a payload are read back in their order when each is followed by a space; a last byte that is not
  followed by one is dropped.\<close>

theorem payload_bytes_read:
  assumes c: "is_space c"
  shows "payload_bytes (print_bytes c bs) [] = bs \<and> payload_bytes (print_bytes c bs @ numeral_of 16 (unat (z :: u8))) [] = bs"
proof -
  have "payload_bytes (print_bytes c bs @ r) [] = bs" if r: "r = [] \<or> (\<exists>b :: u8. r = numeral_of 16 (unat b))" for r
  proof (cases bs)
    case Nil
    have "snd (strtoul 16 r) = []"
      using r strtoul_numeral [of "[]"] by (auto simp: ends_number_def) (simp add: strtoul_def strto_def skip_0x_def)
    then show ?thesis
      by (cases "strtoul 16 r") (simp add: Nil print_bytes_def payload_bytes_def payload_loop.simps)
  next
    case (Cons d ds)
    have "ends_number (c # print_bytes c ds @ r)" using c by (simp add: ends_number_def)
    from strtoul_numeral [OF this, of "unat d"] have "strtoul 16 (print_bytes c bs @ r) = (unat d, c # print_bytes c ds @ r)"
      by (simp add: Cons print_bytes_def)
    then show ?thesis using payload_rest [OF c r, of None ds d "[]"] by (simp add: payload_bytes_def Cons)
  qed
  from this [of "[]"] this [of "numeral_of 16 (unat z)"] show ?thesis by auto
qed

theorem payload_bytes_read_witness:
  "payload_bytes (print_bytes CHR '' '' [0x86, 0x80]) [] = [0x86, 0x80]"
  using payload_bytes_read [of "CHR '' ''" "[0x86, 0x80]" 0] by (simp add: is_space_def)

text \<open>C29: In the commands of an accepted file of golden data the payload and the mask have 4096 bytes each, or are missing.\<close>

theorem ParseGolden_sizes:
  assumes "ParseGoldenCmdLine open_xml optarg golden = (True, g)"
  shows "gd_req g \<and> gd_cmds g \<noteq> [] \<and>
    (\<forall>c \<in> set (gd_cmds g). length (id_raw c) \<in> {0, 4096} \<and> length (id_mask c) \<in> {0, 4096})"
  using assms
  by (auto simp: ParseGoldenCmdLine_def Let_def list_all_iff payload_sizes_def dest!: golden_loop_sizes
      split: prod.splits option.splits if_splits)

definition ex_golden :: text_reader where
  "ex_golden = \<lparr>tr_nodes = [xelem ''identify'' 0 [], xelem ''cmd'' 1 [], xelem ''dw1'' 2 [], xelem ''nsid'' 3 [], xtext ''1'' 4,
     xend ''nsid'' 3, xend ''dw1'' 2, xend ''cmd'' 1, xend ''identify'' 0], tr_throws = False\<rparr>"

theorem ParseGolden_sizes_witness:
  "\<exists>g. ParseGoldenCmdLine (\<lambda>f. Some ex_golden) ''in.xml:out.xml'' \<lparr>gd_req = False, gd_outputFile = [], gd_cmds = []\<rparr> = (True, g) \<and>
     gd_outputFile g = ''out.xml'' \<and> (\<forall>c \<in> set (gd_cmds g). length (id_mask c) \<in> {0, 4096})"
proof -
  let ?p = "ParseGoldenCmdLine (\<lambda>f. Some ex_golden) ''in.xml:out.xml'' \<lparr>gd_req = False, gd_outputFile = [], gd_cmds = []\<rparr>"
  let ?cmds = "[xelem ''cmd'' 1 [], xelem ''dw1'' 2 [], xelem ''nsid'' 3 [], xtext ''1'' 4,
     xend ''nsid'' 3, xend ''dw1'' 2, xend ''cmd'' 1, xend ''identify'' 0]"
  have "golden_cmd False (tl ?cmds) = Some (identify_zero\<lparr>id_nsid := of_nat (fst (strtoul 10 ''1''))\<rparr>, [])"
    by (simp add: golden_cmd_def golden_values_def golden_payload_def identify_fields_def identify_zero_def xml_defs
        SeekSpecificXMLNode.simps)
  then have "golden_cmds_loop False ?cmds [] False = Some ([identify_zero\<lparr>id_nsid := of_nat (fst (strtoul 10 ''1''))\<rparr>], True)"
    by (subst golden_cmds_loop.simps) (simp add: golden_cmds_loop.simps [of False "[]"])
  then have "fst ?p \<and> gd_outputFile (snd ?p) = ''out.xml''"
    by (simp add: ParseGoldenCmdLine_def golden_files_def ex_golden_def)
  then obtain g where g: "?p = (True, g)" "gd_outputFile g = ''out.xml''" by (cases ?p) auto
  then show ?thesis using ParseGolden_sizes [OF g(1)] by blast
qed

end
