(* ===== verification/Cmd_Line.thy ===== *)
theory Cmd_Line
  imports Xml_Parsers
begin

text \<open>
  The command line of tnvme (tnvme.cpp, \<open>main\<close> up to the start of the work): the defaults, the devices that are
  offered, and the loop over the options. \<open>getopt_long\<close> is a function of the C library; the sequence of
  options and arguments it delivers, and whether arguments are left over, is the input here. What is printed is
  not modelled.
\<close>

section \<open>State\<close>

record CmdLine =
  cl_summary :: bool
  cl_ignore :: bool
  cl_reset :: bool
  cl_restore :: bool
  cl_postfail :: bool
  cl_rsvdfields :: bool
  cl_preserve :: bool
  cl_setAD :: bool
  cl_loop :: nat
  cl_rev :: SpecRev
  cl_detail :: TestTarget
  cl_test :: TestTarget
  cl_device :: string
  cl_skiptest :: "TestRef list"
  cl_format :: Format
  cl_golden :: Golden
  cl_fwImage :: FWImage
  cl_rmmap :: RmmapIo
  cl_wmmap :: WmmapIo
  cl_numQueues :: NumQueues
  cl_errRegs :: ErrorRegs
  cl_dump :: string

text \<open>The local variables of \<open>main\<close> that the options set.\<close>

record opt_state =
  os_cl :: CmdLine
  os_devices :: "string list"
  os_deviceFound :: bool
  os_accessingHdw :: bool

text \<open>The files the parsers read: \<open>None\<close> when a file cannot be opened.\<close>

record file_reader =
  fr_text :: "string \<Rightarrow> string option"
  fr_bytes :: "string \<Rightarrow> (u8 list \<times> bool) option"
  fr_xml :: "string \<Rightarrow> text_reader option"

section \<open>Defaults\<close>

definition NO_DEVICES :: string where "NO_DEVICES = ''no devices found''"
definition BASE_DUMP_DIR :: string where "BASE_DUMP_DIR = ''./Logs''"

text \<open>\<open>gCmdLine\<close> is a global variable, so everything else starts as zero.\<close>

definition default_target :: TestTarget where
  "default_target = \<lparr>tt_req = False, tt_t = TestRef_Init 0 0 0 0\<rparr>"

definition default_cl :: "string list \<Rightarrow> CmdLine" where
  "default_cl devices =
     \<lparr>cl_summary = False, cl_ignore = False, cl_reset = False, cl_restore = False, cl_postfail = False, cl_rsvdfields = False,
      cl_preserve = False, cl_setAD = False, cl_loop = 1, cl_rev = SPECREV_10b, cl_detail = default_target, cl_test = default_target,
      cl_device = (if devices = [] then NO_DEVICES else hd devices), cl_skiptest = [], cl_format = \<lparr>fmt_req = False, fmt_cmds = []\<rparr>,
      cl_golden = \<lparr>gd_req = False, gd_outputFile = [], gd_cmds = []\<rparr>, cl_fwImage = \<lparr>fw_req = False, fw_data = []\<rparr>,
      cl_rmmap = \<lparr>rm_req = False, rm_space = None, rm_offset = 0, rm_size = 0, rm_acc = None\<rparr>,
      cl_wmmap = \<lparr>rm_req = False, rm_space = None, rm_offset = 0, rm_size = 0, rm_acc = None, wm_value = 0\<rparr>,
      cl_numQueues = \<lparr>nq_req = False, nq_ncqr = 0, nq_nsqr = 0\<rparr>,
      cl_errRegs = \<lparr>er_sts = 0x4000 OR 0x0800 OR 0x2000 OR 0x1000, er_pxds = 0x40 OR 0x04, er_aeruces = 0, er_csts = 0x02\<rparr>,
      cl_dump = BASE_DUMP_DIR\<rparr>"

fun occurs_in :: "string \<Rightarrow> string \<Rightarrow> bool" where
  "occurs_in p s = (take (length p) s = p \<or> (case s of [] \<Rightarrow> False | _ # t \<Rightarrow> occurs_in p t))"

declare occurs_in.simps [simp del]

definition seek_devices :: "string list \<Rightarrow> string list" where
  "seek_devices entries = map (\<lambda>work. ''/dev/'' @ work) (filter (occurs_in ''nvme'') entries)"

section \<open>Options\<close>

text \<open>\<open>Inl n\<close>: the program exits with code \<open>n\<close>.\<close>

definition exit_if :: "bool \<Rightarrow> int \<Rightarrow> opt_state \<Rightarrow> int + opt_state" where
  "exit_if b n s = (if b then Inl n else Inr s)"

definition parse_rev :: "string \<Rightarrow> SpecRev \<Rightarrow> SpecRev" where
  "parse_rev arg rv =
     (if arg \<in> {''1.0'', ''1.0a'', ''1.0b''} then SPECREV_10b
      else if arg \<in> {''1.1'', ''1.1b''} then SPECREV_11
      else if arg = ''1.2'' then SPECREV_12
      else if arg \<in> {''1.2.1'', ''121'', ''1.21''} then SPECREV_121
      else if arg \<in> {''1.3'', ''13''} then SPECREV_13
      else rv)"

definition parse_device :: "string \<Rightarrow> opt_state \<Rightarrow> int + opt_state" where
  "parse_device work s =
     (let s1 = (if work \<in> set (os_devices s)
                then s\<lparr>os_cl := (os_cl s)\<lparr>cl_device := work\<rparr>, os_deviceFound := True\<rparr> else s) in
      exit_if (\<not> os_deviceFound s1) 1 s1)"

definition parse_loop_count :: "string \<Rightarrow> opt_state \<Rightarrow> int + opt_state" where
  "parse_loop_count arg s =
     (case strtol 10 arg of (tmp, e) \<Rightarrow>
        if e \<noteq> [] then Inl 1
        else if tmp \<le> 0 then Inl 1
        else Inr (s\<lparr>os_cl := (os_cl s)\<lparr>cl_loop := nat tmp\<rparr>\<rparr>))"

text \<open>Options with an argument; it is optional for \<open>a\<close> and \<open>t\<close>.\<close>

definition process_arg :: "file_reader \<Rightarrow> char \<Rightarrow> string \<Rightarrow> opt_state \<Rightarrow> int + opt_state" where
  "process_arg F c arg s =
     (let cl = os_cl s; keep = (\<lambda>cl'. s\<lparr>os_cl := cl'\<rparr>) in
      if c = CHR ''v'' then Inr (keep (cl\<lparr>cl_rev := parse_rev arg (cl_rev cl)\<rparr>))
      else if c = CHR ''k'' then
        (case ParseSkipTestCmdLine (fr_text F arg) (cl_skiptest cl) of
           None \<Rightarrow> Inl 1 | Some l \<Rightarrow> Inr (keep (cl\<lparr>cl_skiptest := l\<rparr>)))
      else if c = CHR ''g'' then
        (case ParseGoldenCmdLine (fr_xml F) arg (cl_golden cl) of (ok, g) \<Rightarrow> exit_if (\<not> ok) 1 (keep (cl\<lparr>cl_golden := g\<rparr>)))
      else if c = CHR ''m'' then
        (case ParseFWImageCmdLine (fr_bytes F arg) (cl_fwImage cl) of (ok, f) \<Rightarrow> exit_if (\<not> ok) 1 (keep (cl\<lparr>cl_fwImage := f\<rparr>)))
      else if c = CHR ''f'' then
        (case ParseFormatCmdLine (fr_xml F arg) of (ok, f) \<Rightarrow> exit_if (\<not> ok) 1 (keep (cl\<lparr>cl_format := f\<rparr>)))
      else if c = CHR ''r'' then
        (case ParseRmmapCmdLine arg of (ok, r) \<Rightarrow> exit_if (\<not> ok) 1 (keep (cl\<lparr>cl_rmmap := r\<rparr>)))
      else if c = CHR ''w'' then
        (case ParseWmmapCmdLine arg of (ok, r) \<Rightarrow> exit_if (\<not> ok) 1 (keep (cl\<lparr>cl_wmmap := r\<rparr>)))
      else if c = CHR ''e'' then
        (case ParseErrorCmdLine arg of (ok, r) \<Rightarrow> exit_if (\<not> ok) 1 (keep (cl\<lparr>cl_errRegs := r\<rparr>)))
      else if c = CHR ''d'' then parse_device arg s
      else if c = CHR ''o'' then parse_loop_count arg s
      else if c = CHR ''q'' then
        (case ParseQueuesCmdLine arg of (ok, q) \<Rightarrow> exit_if (\<not> ok) 1 (keep (cl\<lparr>cl_numQueues := q\<rparr>)))
      else if c = CHR ''u'' then Inr (keep (cl\<lparr>cl_dump := arg\<rparr>))
      else Inl 0)"

definition process_flag :: "char \<Rightarrow> opt_state \<Rightarrow> int + opt_state" where
  "process_flag c s =
     (let cl = os_cl s; keep = (\<lambda>cl'. Inr (s\<lparr>os_cl := cl'\<rparr>)) in
      if c = CHR ''s'' then Inr (s\<lparr>os_cl := cl\<lparr>cl_summary := True\<rparr>, os_accessingHdw := False\<rparr>)
      else if c = CHR ''?'' then Inl 1
      else if c = CHR ''z'' then keep (cl\<lparr>cl_reset := True\<rparr>)
      else if c = CHR ''i'' then keep (cl\<lparr>cl_ignore := True\<rparr>)
      else if c = CHR ''p'' then keep (cl\<lparr>cl_preserve := True\<rparr>)
      else if c = CHR ''n'' then keep (cl\<lparr>cl_postfail := True\<rparr>)
      else if c = CHR ''b'' then keep (cl\<lparr>cl_rsvdfields := True\<rparr>)
      else if c = CHR ''c'' then keep (cl\<lparr>cl_setAD := True\<rparr>)
      else if c = CHR ''y'' then keep (cl\<lparr>cl_restore := True\<rparr>)
      else Inl 0)"

definition process_opt :: "file_reader \<Rightarrow> char \<times> string option \<Rightarrow> opt_state \<Rightarrow> int + opt_state" where
  "process_opt F = (\<lambda>(c, optarg) s.
     if c = CHR ''a'' then
       (case ParseTargetCmdLine optarg of (ok, t) \<Rightarrow>
          exit_if (\<not> ok) 1 (s\<lparr>os_cl := (os_cl s)\<lparr>cl_detail := t\<rparr>, os_accessingHdw := False\<rparr>))
     else if c = CHR ''t'' then
       (case ParseTargetCmdLine optarg of (ok, t) \<Rightarrow> exit_if (\<not> ok) 1 (s\<lparr>os_cl := (os_cl s)\<lparr>cl_test := t\<rparr>\<rparr>))
     else (case optarg of Some arg \<Rightarrow> process_arg F c arg s | None \<Rightarrow> process_flag c s))"

fun parse_opts :: "file_reader \<Rightarrow> (char \<times> string option) list \<Rightarrow> opt_state \<Rightarrow> int + opt_state" where
  "parse_opts F [] s = Inr s"
| "parse_opts F (opt # opts) s = (case process_opt F opt s of Inl n \<Rightarrow> Inl n | Inr s' \<Rightarrow> parse_opts F opts s')"

text \<open>\<open>argc\<close>; \<open>opts\<close>, \<open>extra\<close>: what \<open>getopt_long\<close> delivers, and whether arguments are left; \<open>dev\<close>: the entries of /dev.\<close>

definition main_options ::
  "file_reader \<Rightarrow> nat \<Rightarrow> string list option \<Rightarrow> (char \<times> string option) list \<Rightarrow> bool \<Rightarrow> int + opt_state" where
  "main_options F argc dev opts extra =
     (if argc = 1 then Inl 0
      else case dev of
        None \<Rightarrow> Inl 1
      | Some entries \<Rightarrow>
          let devices = seek_devices entries in
          (case parse_opts F opts \<lparr>os_cl = default_cl devices, os_devices = devices, os_deviceFound = False, os_accessingHdw = True\<rparr> of
             Inl n \<Rightarrow> Inl n
           | Inr s \<Rightarrow> exit_if extra 1 s))"


section \<open>What the options do\<close>

lemma process_arg_keeps:
  assumes "process_arg F c arg s = Inr t"
  shows "os_accessingHdw t = os_accessingHdw s \<and> os_devices t = os_devices s \<and> cl_summary (os_cl t) = cl_summary (os_cl s) \<and>
    (c \<noteq> CHR ''d'' \<longrightarrow> cl_device (os_cl t) = cl_device (os_cl s) \<and> os_deviceFound t = os_deviceFound s)"
  using assms
  by (auto simp: process_arg_def parse_device_def parse_loop_count_def exit_if_def Let_def
      split: if_splits prod.splits option.splits)

lemma process_flag_keeps:
  assumes "process_flag c s = Inr t"
  shows "os_accessingHdw t = (os_accessingHdw s \<and> c \<noteq> CHR ''s'') \<and> os_devices t = os_devices s \<and>
    cl_device (os_cl t) = cl_device (os_cl s) \<and> os_deviceFound t = os_deviceFound s"
  using assms by (auto simp: process_flag_def Let_def split: if_splits)

lemma process_opt_hdw:
  "process_opt F (c, a) s = Inr t \<Longrightarrow>
    os_accessingHdw t = (os_accessingHdw s \<and> \<not> (c = CHR ''a'' \<or> c = CHR ''s'' \<and> a = None)) \<and> os_devices t = os_devices s"
  by (auto simp: process_opt_def exit_if_def dest: process_arg_keeps process_flag_keeps split: if_splits prod.splits option.splits)

lemma parse_opts_hdw:
  "parse_opts F opts s = Inr t \<Longrightarrow>
    os_accessingHdw t = (os_accessingHdw s \<and> \<not> (\<exists>(c, a) \<in> set opts. c = CHR ''a'' \<or> c = CHR ''s'' \<and> a = None)) \<and> os_devices t = os_devices s"
proof (induction opts arbitrary: s)
  case Nil
  then show ?case by simp
next
  case (Cons opt opts)
  obtain c a where opt: "opt = (c, a)" by fastforce
  then obtain u where "process_opt F (c, a) s = Inr u" "parse_opts F opts u = Inr t"
    using Cons.prems by (auto split: sum.splits)
  then show ?case using Cons.IH process_opt_hdw [of F c a s u] opt by auto
qed


text \<open>The device is one of those that are offered, or there is none.\<close>

definition device_ok :: "opt_state \<Rightarrow> bool" where
  "device_ok s \<longleftrightarrow> (if os_devices s = [] then cl_device (os_cl s) = NO_DEVICES else cl_device (os_cl s) \<in> set (os_devices s))"

lemma process_opt_device: "process_opt F (c, a) s = Inr t \<Longrightarrow> device_ok s \<Longrightarrow> device_ok t"
proof -
  assume run: "process_opt F (c, a) s = Inr t" and s: "device_ok s"
  consider "c = CHR ''a''" | "c = CHR ''t''" | "c = CHR ''d''" "a \<noteq> None"
    | "c \<noteq> CHR ''a''" "c \<noteq> CHR ''t''" "c \<noteq> CHR ''d'' \<or> a = None" by blast
  then show ?thesis
  proof cases
    case 3
    then show ?thesis
      using run s by (auto simp: process_opt_def process_arg_def parse_device_def exit_if_def device_ok_def Let_def split: if_splits)
  next
    case 4
    then show ?thesis
      using run s process_arg_keeps [of F c _ s t] process_flag_keeps [of c s t]
      by (auto simp: process_opt_def device_ok_def split: option.splits)
  qed (use run s in \<open>auto simp: process_opt_def exit_if_def device_ok_def split: prod.splits if_splits\<close>)
qed

lemma parse_opts_device: "parse_opts F opts s = Inr t \<Longrightarrow> device_ok s \<Longrightarrow> device_ok t"
proof (induction opts arbitrary: s)
  case Nil
  then show ?case by simp
next
  case (Cons opt opts)
  then show ?case using process_opt_device [of F "fst opt" "snd opt" s] by (auto split: sum.splits)
qed

section \<open>Properties\<close>

text \<open>C25: When \<open>main\<close> goes on to its work, the device is one of the entries of /dev that were found, and it is a placeholder only
  when there is none; and the hardware is accessed unless a summary or a description was asked for, whatever other
  options there are.\<close>

theorem options_choose_offered_device:
  assumes "main_options F argc (Some entries) opts extra = Inr s"
  shows "(if seek_devices entries = [] then cl_device (os_cl s) = NO_DEVICES else cl_device (os_cl s) \<in> set (seek_devices entries)) \<and>
    (os_accessingHdw s \<longleftrightarrow> \<not> (\<exists>(c, a) \<in> set opts. c = CHR ''a'' \<or> c = CHR ''s'' \<and> a = None))"
proof -
  let ?devices = "seek_devices entries"
  let ?s0 = "\<lparr>os_cl = default_cl ?devices, os_devices = ?devices, os_deviceFound = False, os_accessingHdw = True\<rparr>"
  have run: "parse_opts F opts ?s0 = Inr s"
    using assms by (auto simp: main_options_def exit_if_def Let_def split: if_splits sum.splits)
  have "device_ok ?s0" by (simp add: device_ok_def default_cl_def)
  then have "device_ok s" by (rule parse_opts_device [OF run])
  moreover have "os_devices s = ?devices" using parse_opts_hdw [OF run] by simp
  moreover have "os_accessingHdw s \<longleftrightarrow> \<not> (\<exists>(c, a) \<in> set opts. c = CHR ''a'' \<or> c = CHR ''s'' \<and> a = None)"
    using parse_opts_hdw [OF run] by (simp only: opt_state.simps simp_thms)
  ultimately show ?thesis by (simp add: device_ok_def split: if_splits)
qed

definition no_files :: file_reader where
  "no_files = \<lparr>fr_text = (\<lambda>_. None), fr_bytes = (\<lambda>_. None), fr_xml = (\<lambda>_. None)\<rparr>"

definition ex_opts :: "(char \<times> string option) list" where
  "ex_opts = [(CHR ''d'', Some ''/dev/nvme1''), (CHR ''s'', None)]"

lemma ex_seek: "seek_devices [''null'', ''nvme0'', ''nvme1''] = [''/dev/nvme0'', ''/dev/nvme1'']"
  by (simp add: seek_devices_def occurs_in.simps)

lemma ex_parse: "\<exists>s. main_options no_files 4 (Some [''null'', ''nvme0'', ''nvme1'']) ex_opts False = Inr s"
  by (simp add: main_options_def ex_seek ex_opts_def process_opt_def process_arg_def process_flag_def parse_device_def exit_if_def Let_def)

theorem options_choose_offered_device_witness:
  "\<exists>s. main_options no_files 4 (Some [''null'', ''nvme0'', ''nvme1'']) ex_opts False = Inr s \<and>
     cl_device (os_cl s) \<in> {''/dev/nvme0'', ''/dev/nvme1''} \<and> \<not> os_accessingHdw s"
proof -
  obtain s where s: "main_options no_files 4 (Some [''null'', ''nvme0'', ''nvme1'']) ex_opts False = Inr s" using ex_parse by blast
  from options_choose_offered_device [OF s] have "cl_device (os_cl s) \<in> {''/dev/nvme0'', ''/dev/nvme1''}" "\<not> os_accessingHdw s"
    by (simp_all add: ex_seek ex_opts_def)
  then show ?thesis using s by blast
qed

text \<open>Once a \<open>--device\<close> option has named a device that is offered, a later one that names none is ignored without a message.\<close>

theorem later_wrong_device_ignored:
  assumes "good \<in> set (os_devices s)" and "bad \<notin> set (os_devices s)"
  shows "parse_opts F [(CHR ''d'', Some good), (CHR ''d'', Some bad)] s = parse_opts F [(CHR ''d'', Some good)] s \<and>
    parse_opts F [(CHR ''d'', Some bad)] (s\<lparr>os_deviceFound := False\<rparr>) = Inl 1"
  using assms by (simp add: process_opt_def process_arg_def parse_device_def exit_if_def Let_def)

theorem later_wrong_device_ignored_witness:
  "parse_opts no_files [(CHR ''d'', Some ''/dev/nvme0''), (CHR ''d'', Some ''/dev/nvme7'')]
      \<lparr>os_cl = default_cl [''/dev/nvme0''], os_devices = [''/dev/nvme0''], os_deviceFound = False, os_accessingHdw = True\<rparr> \<noteq> Inl 1"
  by (subst conjunct1 [OF later_wrong_device_ignored]) (simp_all add: process_opt_def process_arg_def parse_device_def exit_if_def Let_def)

end
