(* ===== verification/Nvm_Cmds.thy ===== *)
theory Nvm_Cmds
  imports Admin_Cmds
begin

text \<open>
  The NVM command classes (directory Cmds): constructors, and the setters and getters of their
  fields, with the masks and checks of the code. What a setter only logs is not modelled. The theory
  ends with what all constructors of the library, admin and NVM, have in common.
\<close>

section \<open>NVMCmd, Flush\<close>

definition NVMCmd_Init :: "libc \<Rightarrow> u8 \<Rightarrow> u16 \<Rightarrow> unit cmd_prog" where
  "NVMCmd_Init C opcode cmdSize = Cmd_Init C opcode DATADIR_NONE cmdSize"

definition Flush_Flush :: "libc \<Rightarrow> ex + cmd" where
  "Flush_Flush C = new_cmd_plain C OBJ_FLUSH 0x00 DATADIR_NONE"

section \<open>DatasetMgmt\<close>

definition DatasetMgmt_DatasetMgmt :: "libc \<Rightarrow> send_masks \<Rightarrow> ex + cmd" where
  "DatasetMgmt_DatasetMgmt C M = new_cmd C M OBJ_DATASETMGMT 0x09 DATADIR_TO_DEVICE 64 (MASK_PRP1_PAGE M OR MASK_PRP2_PAGE M)"

definition DatasetMgmt_SetNR :: "u8 \<Rightarrow> unit cmd_prog" where
  "DatasetMgmt_SetNR v = Cmd_SetByte v 10 0"

definition DatasetMgmt_GetNR :: "u8 cmd_prog" where
  "DatasetMgmt_GetNR = Cmd_GetByte 10 0"

definition DatasetMgmt_SetAD :: "bool \<Rightarrow> unit cmd_prog" where
  "DatasetMgmt_SetAD v = Cmd_SetBit v 11 2"

definition DatasetMgmt_GetAD :: "bool cmd_prog" where
  "DatasetMgmt_GetAD = Cmd_GetBit 11 2"

definition DatasetMgmt_SetIDW :: "bool \<Rightarrow> unit cmd_prog" where
  "DatasetMgmt_SetIDW v = Cmd_SetBit v 11 1"

definition DatasetMgmt_GetIDW :: "bool cmd_prog" where
  "DatasetMgmt_GetIDW = Cmd_GetBit 11 1"

definition DatasetMgmt_SetIDR :: "bool \<Rightarrow> unit cmd_prog" where
  "DatasetMgmt_SetIDR v = Cmd_SetBit v 11 0"

definition DatasetMgmt_GetIDR :: "bool cmd_prog" where
  "DatasetMgmt_GetIDR = Cmd_GetBit 11 0"

section \<open>Read\<close>

definition Read_Read :: "libc \<Rightarrow> send_masks \<Rightarrow> ex + cmd" where
  "Read_Read C M = new_cmd C M OBJ_READ 0x02 DATADIR_FROM_DEVICE 64 (MASK_PRP1_PAGE M OR MASK_PRP2_PAGE M OR MASK_PRP2_LIST M)"

definition Read_SetSLBA :: "u64 \<Rightarrow> unit cmd_prog" where
  "Read_SetSLBA lba = sq (Cmd_SetDword (ucast lba) 10) (Cmd_SetDword (ucast (drop_bit 32 lba)) 11)"

definition Read_GetSLBA :: "u64 cmd_prog" where
  "Read_GetSLBA =
     bnd (Cmd_GetDword 10) (\<lambda>lo.
     bnd (Cmd_GetDword 11) (\<lambda>hi. ret (ucast lo OR push_bit 32 (ucast hi))))"

definition Read_SetLR :: "bool \<Rightarrow> unit cmd_prog" where
  "Read_SetLR v = Cmd_SetBit v 12 31"

definition Read_GetLR :: "bool cmd_prog" where
  "Read_GetLR = Cmd_GetBit 12 31"

definition Read_SetFUA :: "bool \<Rightarrow> unit cmd_prog" where
  "Read_SetFUA v = Cmd_SetBit v 12 30"

definition Read_GetFUA :: "bool cmd_prog" where
  "Read_GetFUA = Cmd_GetBit 12 30"

definition Read_SetPRINFO :: "u8 \<Rightarrow> unit cmd_prog" where
  "Read_SetPRINFO v = sq (throw_if (v > 0x0f) (FrmwkEx ''Value to large; must fit within 4 bits'')) (rmw_word 0x3C00 (push_bit 10 (ucast v)) 12 1)"

text \<open>The getter does not mask the word: FUA and LR come with the field.\<close>

definition Read_GetPRINFO :: "u8 cmd_prog" where
  "Read_GetPRINFO = bnd (Cmd_GetWord 12 1) (\<lambda>x. ret (ucast (drop_bit 10 x)))"

definition Read_SetNLB :: "u16 \<Rightarrow> unit cmd_prog" where
  "Read_SetNLB v = Cmd_SetWord v 12 0"

definition Read_GetNLB :: "u16 cmd_prog" where
  "Read_GetNLB = Cmd_GetWord 12 0"

definition Read_SetDSMIncompress :: "bool \<Rightarrow> unit cmd_prog" where
  "Read_SetDSMIncompress v = Cmd_SetBit v 13 7"

definition Read_GetDSMIncompress :: "bool cmd_prog" where
  "Read_GetDSMIncompress = Cmd_GetBit 13 7"

definition Read_SetDSMSeqRequest :: "bool \<Rightarrow> unit cmd_prog" where
  "Read_SetDSMSeqRequest v = Cmd_SetBit v 13 6"

definition Read_GetDSMSeqRequest :: "bool cmd_prog" where
  "Read_GetDSMSeqRequest = Cmd_GetBit 13 6"

definition Read_SetDSMAccessLatent :: "u8 \<Rightarrow> unit cmd_prog" where
  "Read_SetDSMAccessLatent v = sq (throw_if (v > 0x03) (FrmwkEx ''Value to large; must fit within 2 bits'')) (rmw_byte 0x30 (push_bit 4 v) 13 0)"

definition Read_GetDSMAccessLatent :: "u8 cmd_prog" where
  "Read_GetDSMAccessLatent = bnd (Cmd_GetByte 13 0) (\<lambda>x. ret (drop_bit 4 x AND 0x03))"

definition Read_SetDSMAccessFreq :: "u8 \<Rightarrow> unit cmd_prog" where
  "Read_SetDSMAccessFreq v = sq (throw_if (v > 0x0f) (FrmwkEx ''Value to large; must fit within 4 bits'')) (rmw_byte 0x0f v 13 0)"

definition Read_GetDSMAccessFreq :: "u8 cmd_prog" where
  "Read_GetDSMAccessFreq = bnd (Cmd_GetByte 13 0) (\<lambda>x. ret (x AND 0x0f))"

text \<open>The setter writes DWORD 14, the getter reads DWORD 13.\<close>

definition Read_SetEILBRT :: "u32 \<Rightarrow> unit cmd_prog" where
  "Read_SetEILBRT v = Cmd_SetDword v 14"

definition Read_GetEILBRT :: "u32 cmd_prog" where
  "Read_GetEILBRT = Cmd_GetDword 13"

definition Read_SetELBATM :: "u16 \<Rightarrow> unit cmd_prog" where
  "Read_SetELBATM v = Cmd_SetWord v 15 1"

definition Read_GetELBATM :: "u16 cmd_prog" where
  "Read_GetELBATM = Cmd_GetWord 15 1"

definition Read_SetELBAT :: "u16 \<Rightarrow> unit cmd_prog" where
  "Read_SetELBAT v = Cmd_SetWord v 15 0"

definition Read_GetELBAT :: "u16 cmd_prog" where
  "Read_GetELBAT = Cmd_GetWord 15 0"

section \<open>Write\<close>

definition Write_Write :: "libc \<Rightarrow> send_masks \<Rightarrow> ex + cmd" where
  "Write_Write C M = new_cmd C M OBJ_WRITE 0x01 DATADIR_TO_DEVICE 64 (MASK_PRP1_PAGE M OR MASK_PRP2_PAGE M OR MASK_PRP2_LIST M)"

definition Write_SetSLBA :: "u64 \<Rightarrow> unit cmd_prog" where
  "Write_SetSLBA lba = sq (Cmd_SetDword (ucast lba) 10) (Cmd_SetDword (ucast (drop_bit 32 lba)) 11)"

definition Write_GetSLBA :: "u64 cmd_prog" where
  "Write_GetSLBA =
     bnd (Cmd_GetDword 10) (\<lambda>lo.
     bnd (Cmd_GetDword 11) (\<lambda>hi. ret (ucast lo OR push_bit 32 (ucast hi))))"

definition Write_SetLR :: "bool \<Rightarrow> unit cmd_prog" where
  "Write_SetLR v = Cmd_SetBit v 12 31"

definition Write_GetLR :: "bool cmd_prog" where
  "Write_GetLR = Cmd_GetBit 12 31"

definition Write_SetFUA :: "bool \<Rightarrow> unit cmd_prog" where
  "Write_SetFUA v = Cmd_SetBit v 12 30"

definition Write_GetFUA :: "bool cmd_prog" where
  "Write_GetFUA = Cmd_GetBit 12 30"

definition Write_SetPRINFO :: "u8 \<Rightarrow> unit cmd_prog" where
  "Write_SetPRINFO v = sq (throw_if (v > 0x0f) (FrmwkEx ''Value to large; must fit within 4 bits'')) (rmw_word 0x3C00 (push_bit 10 (ucast v)) 12 1)"

text \<open>The getter does not mask the word: FUA and LR come with the field.\<close>

definition Write_GetPRINFO :: "u8 cmd_prog" where
  "Write_GetPRINFO = bnd (Cmd_GetWord 12 1) (\<lambda>x. ret (ucast (drop_bit 10 x)))"

definition Write_SetNLB :: "u16 \<Rightarrow> unit cmd_prog" where
  "Write_SetNLB v = Cmd_SetWord v 12 0"

definition Write_GetNLB :: "u16 cmd_prog" where
  "Write_GetNLB = Cmd_GetWord 12 0"

definition Write_SetDSMIncompress :: "bool \<Rightarrow> unit cmd_prog" where
  "Write_SetDSMIncompress v = Cmd_SetBit v 13 7"

definition Write_GetDSMIncompress :: "bool cmd_prog" where
  "Write_GetDSMIncompress = Cmd_GetBit 13 7"

definition Write_SetDSMSeqRequest :: "bool \<Rightarrow> unit cmd_prog" where
  "Write_SetDSMSeqRequest v = Cmd_SetBit v 13 6"

definition Write_GetDSMSeqRequest :: "bool cmd_prog" where
  "Write_GetDSMSeqRequest = Cmd_GetBit 13 6"

definition Write_SetDSMAccessLatent :: "u8 \<Rightarrow> unit cmd_prog" where
  "Write_SetDSMAccessLatent v = sq (throw_if (v > 0x03) (FrmwkEx ''Value to large; must fit within 2 bits'')) (rmw_byte 0x30 (push_bit 4 v) 13 0)"

definition Write_GetDSMAccessLatent :: "u8 cmd_prog" where
  "Write_GetDSMAccessLatent = bnd (Cmd_GetByte 13 0) (\<lambda>x. ret (drop_bit 4 x AND 0x03))"

definition Write_SetDSMAccessFreq :: "u8 \<Rightarrow> unit cmd_prog" where
  "Write_SetDSMAccessFreq v = sq (throw_if (v > 0x0f) (FrmwkEx ''Value to large; must fit within 4 bits'')) (rmw_byte 0x0f v 13 0)"

definition Write_GetDSMAccessFreq :: "u8 cmd_prog" where
  "Write_GetDSMAccessFreq = bnd (Cmd_GetByte 13 0) (\<lambda>x. ret (x AND 0x0f))"

text \<open>The setter writes DWORD 14, the getter reads DWORD 13.\<close>

definition Write_SetILBRT :: "u32 \<Rightarrow> unit cmd_prog" where
  "Write_SetILBRT v = Cmd_SetDword v 14"

definition Write_GetILBRT :: "u32 cmd_prog" where
  "Write_GetILBRT = Cmd_GetDword 13"

definition Write_SetLBATM :: "u16 \<Rightarrow> unit cmd_prog" where
  "Write_SetLBATM v = Cmd_SetWord v 15 1"

definition Write_GetLBATM :: "u16 cmd_prog" where
  "Write_GetLBATM = Cmd_GetWord 15 1"

definition Write_SetLBAT :: "u16 \<Rightarrow> unit cmd_prog" where
  "Write_SetLBAT v = Cmd_SetWord v 15 0"

definition Write_GetLBAT :: "u16 cmd_prog" where
  "Write_GetLBAT = Cmd_GetWord 15 0"

section \<open>Reservations\<close>

text \<open>
  \<open>SetBit(val & 1, dw, lo); SetBit(val & 2, dw, lo + 1); ...\<close>, and the getters that put the bits together
  again.
\<close>

definition set_2_bits :: "u8 \<Rightarrow> u8 \<Rightarrow> u8 \<Rightarrow> unit cmd_prog" where
  "set_2_bits v dw lo = sq (Cmd_SetBit (v AND 0x1 \<noteq> 0) dw lo) (Cmd_SetBit (v AND 0x2 \<noteq> 0) dw (lo + 1))"

definition set_3_bits :: "u8 \<Rightarrow> u8 \<Rightarrow> u8 \<Rightarrow> unit cmd_prog" where
  "set_3_bits v dw lo =
     sq (Cmd_SetBit (v AND 0x1 \<noteq> 0) dw lo)
     (sq (Cmd_SetBit (v AND 0x2 \<noteq> 0) dw (lo + 1))
         (Cmd_SetBit (v AND 0x4 \<noteq> 0) dw (lo + 2)))"

definition get_2_bits :: "u8 \<Rightarrow> u8 \<Rightarrow> u8 cmd_prog" where
  "get_2_bits dw lo =
     bnd (Cmd_GetBit dw lo) (\<lambda>b0.
     bnd (Cmd_GetBit dw (lo + 1)) (\<lambda>b1. ret (of_bool b0 OR push_bit 1 (of_bool b1))))"

definition get_3_bits :: "u8 \<Rightarrow> u8 \<Rightarrow> u8 cmd_prog" where
  "get_3_bits dw lo =
     bnd (Cmd_GetBit dw lo) (\<lambda>b0.
     bnd (Cmd_GetBit dw (lo + 1)) (\<lambda>b1.
     bnd (Cmd_GetBit dw (lo + 2)) (\<lambda>b2.
       ret (of_bool b0 OR push_bit 1 (of_bool b1) OR push_bit 2 (of_bool b2)))))"

text \<open>Reservation Acquire is constructed with the object type of Reservation Register.\<close>

definition ReservationAcquire_ReservationAcquire :: "libc \<Rightarrow> send_masks \<Rightarrow> ex + cmd" where
  "ReservationAcquire_ReservationAcquire C M = new_cmd C M OBJ_RESERVATIONREGISTER 0x11 DATADIR_TO_DEVICE 64 (MASK_PRP1_PAGE M)"

definition ReservationAcquire_SetRTYPE :: "u8 \<Rightarrow> unit cmd_prog" where
  "ReservationAcquire_SetRTYPE v = Cmd_SetByte v 10 1"

definition ReservationAcquire_GetRTYPE :: "u8 cmd_prog" where
  "ReservationAcquire_GetRTYPE = Cmd_GetByte 10 1"

definition ReservationAcquire_SetIEKEY :: "bool \<Rightarrow> unit cmd_prog" where
  "ReservationAcquire_SetIEKEY v = Cmd_SetBit v 10 3"

definition ReservationAcquire_GetIEKEY :: "bool cmd_prog" where
  "ReservationAcquire_GetIEKEY = Cmd_GetBit 10 3"

definition ReservationAcquire_SetRACQA :: "u8 \<Rightarrow> unit cmd_prog" where
  "ReservationAcquire_SetRACQA v = set_3_bits v 10 0"

definition ReservationAcquire_GetRACQA :: "u8 cmd_prog" where
  "ReservationAcquire_GetRACQA = get_3_bits 10 0"

definition ReservationRegister_ReservationRegister :: "libc \<Rightarrow> send_masks \<Rightarrow> ex + cmd" where
  "ReservationRegister_ReservationRegister C M = new_cmd C M OBJ_RESERVATIONREGISTER 0x0D DATADIR_TO_DEVICE 64 (MASK_PRP1_PAGE M OR MASK_PRP2_PAGE M)"

definition ReservationRegister_SetCPTPL :: "u8 \<Rightarrow> unit cmd_prog" where
  "ReservationRegister_SetCPTPL v = set_2_bits v 10 30"

definition ReservationRegister_GetCPTPL :: "u8 cmd_prog" where
  "ReservationRegister_GetCPTPL = get_2_bits 10 30"

definition ReservationRegister_SetIEKEY :: "bool \<Rightarrow> unit cmd_prog" where
  "ReservationRegister_SetIEKEY v = Cmd_SetBit v 10 3"

definition ReservationRegister_GetIEKEY :: "bool cmd_prog" where
  "ReservationRegister_GetIEKEY = Cmd_GetBit 10 3"

definition ReservationRegister_SetRREGA :: "u8 \<Rightarrow> unit cmd_prog" where
  "ReservationRegister_SetRREGA v = set_3_bits v 10 0"

definition ReservationRegister_GetRREGA :: "u8 cmd_prog" where
  "ReservationRegister_GetRREGA = get_3_bits 10 0"

definition ReservationRelease_ReservationRelease :: "libc \<Rightarrow> send_masks \<Rightarrow> ex + cmd" where
  "ReservationRelease_ReservationRelease C M = new_cmd C M OBJ_RESERVATIONRELEASE 0x15 DATADIR_TO_DEVICE 64 (MASK_PRP1_PAGE M)"

definition ReservationRelease_SetCPTPL :: "u8 \<Rightarrow> unit cmd_prog" where
  "ReservationRelease_SetCPTPL v = set_2_bits v 10 30"

definition ReservationRelease_GetCPTPL :: "u8 cmd_prog" where
  "ReservationRelease_GetCPTPL = get_2_bits 10 30"

definition ReservationRelease_SetIEKEY :: "bool \<Rightarrow> unit cmd_prog" where
  "ReservationRelease_SetIEKEY v = Cmd_SetBit v 10 3"

definition ReservationRelease_GetIEKEY :: "bool cmd_prog" where
  "ReservationRelease_GetIEKEY = Cmd_GetBit 10 3"

definition ReservationRelease_SetRREGA :: "u8 \<Rightarrow> unit cmd_prog" where
  "ReservationRelease_SetRREGA v = set_3_bits v 10 0"

definition ReservationRelease_GetRREGA :: "u8 cmd_prog" where
  "ReservationRelease_GetRREGA = get_3_bits 10 0"

definition ReservationReport_ReservationReport :: "libc \<Rightarrow> send_masks \<Rightarrow> ex + cmd" where
  "ReservationReport_ReservationReport C M = new_cmd C M OBJ_RESERVATIONREPORT 0x0E DATADIR_FROM_DEVICE 64 (MASK_PRP1_PAGE M OR MASK_PRP2_PAGE M)"

definition ReservationReport_SetNUMD :: "u32 \<Rightarrow> unit cmd_prog" where
  "ReservationReport_SetNUMD v = Cmd_SetDword v 10"

definition ReservationReport_GetNUMD :: "u32 cmd_prog" where
  "ReservationReport_GetNUMD = Cmd_GetDword 10"

section \<open>The accessors and their fields\<close>

text \<open>
  Setter, getter and field of every pair of accessors that has one; the starting LBA, the protection
  information and the reference tag are treated below.
\<close>

definition nvm_accessors :: "((u32 \<Rightarrow> unit cmd_prog) \<times> u32 cmd_prog \<times> dw_field) list" where
  "nvm_accessors =
     [(via_word DatasetMgmt_SetNR, get_word DatasetMgmt_GetNR, (10, 0, 8)),
      (via_bool DatasetMgmt_SetAD, get_bool DatasetMgmt_GetAD, (11, 2, 1)),
      (via_bool DatasetMgmt_SetIDW, get_bool DatasetMgmt_GetIDW, (11, 1, 1)),
      (via_bool DatasetMgmt_SetIDR, get_bool DatasetMgmt_GetIDR, (11, 0, 1)),
      (via_bool Read_SetLR, get_bool Read_GetLR, (12, 31, 1)),
      (via_bool Read_SetFUA, get_bool Read_GetFUA, (12, 30, 1)),
      (via_word Read_SetNLB, get_word Read_GetNLB, (12, 0, 16)),
      (via_bool Read_SetDSMIncompress, get_bool Read_GetDSMIncompress, (13, 7, 1)),
      (via_bool Read_SetDSMSeqRequest, get_bool Read_GetDSMSeqRequest, (13, 6, 1)),
      (via_word Read_SetDSMAccessLatent, get_word Read_GetDSMAccessLatent, (13, 4, 2)),
      (via_word Read_SetDSMAccessFreq, get_word Read_GetDSMAccessFreq, (13, 0, 4)),
      (via_word Read_SetELBATM, get_word Read_GetELBATM, (15, 16, 16)),
      (via_word Read_SetELBAT, get_word Read_GetELBAT, (15, 0, 16)),
      (via_bool Write_SetLR, get_bool Write_GetLR, (12, 31, 1)),
      (via_bool Write_SetFUA, get_bool Write_GetFUA, (12, 30, 1)),
      (via_word Write_SetNLB, get_word Write_GetNLB, (12, 0, 16)),
      (via_bool Write_SetDSMIncompress, get_bool Write_GetDSMIncompress, (13, 7, 1)),
      (via_bool Write_SetDSMSeqRequest, get_bool Write_GetDSMSeqRequest, (13, 6, 1)),
      (via_word Write_SetDSMAccessLatent, get_word Write_GetDSMAccessLatent, (13, 4, 2)),
      (via_word Write_SetDSMAccessFreq, get_word Write_GetDSMAccessFreq, (13, 0, 4)),
      (via_word Write_SetLBATM, get_word Write_GetLBATM, (15, 16, 16)),
      (via_word Write_SetLBAT, get_word Write_GetLBAT, (15, 0, 16)),
      (via_word ReservationAcquire_SetRTYPE, get_word ReservationAcquire_GetRTYPE, (10, 8, 8)),
      (via_bool ReservationAcquire_SetIEKEY, get_bool ReservationAcquire_GetIEKEY, (10, 3, 1)),
      (via_word ReservationAcquire_SetRACQA, get_word ReservationAcquire_GetRACQA, (10, 0, 3)),
      (via_word ReservationRegister_SetCPTPL, get_word ReservationRegister_GetCPTPL, (10, 30, 2)),
      (via_bool ReservationRegister_SetIEKEY, get_bool ReservationRegister_GetIEKEY, (10, 3, 1)),
      (via_word ReservationRegister_SetRREGA, get_word ReservationRegister_GetRREGA, (10, 0, 3)),
      (via_word ReservationRelease_SetCPTPL, get_word ReservationRelease_GetCPTPL, (10, 30, 2)),
      (via_bool ReservationRelease_SetIEKEY, get_bool ReservationRelease_GetIEKEY, (10, 3, 1)),
      (via_word ReservationRelease_SetRREGA, get_word ReservationRelease_GetRREGA, (10, 0, 3)),
      (ReservationReport_SetNUMD, ReservationReport_GetNUMD, (10, 0, 32))]"

section \<open>Every pair meets the contract of an accessor\<close>

lemmas nvm_bytes_defs =
  DatasetMgmt_SetNR_def DatasetMgmt_GetNR_def ReservationAcquire_SetRTYPE_def
  ReservationAcquire_GetRTYPE_def

lemma nvm_bytes:
  "cmd_accessor (via_word DatasetMgmt_SetNR) (get_word DatasetMgmt_GetNR) (10, 0, 8)"
  "cmd_accessor (via_word ReservationAcquire_SetRTYPE) (get_word ReservationAcquire_GetRTYPE) (10, 8, 8)"
  by ((rule acc_byteI, rule nvm_bytes_defs, rule nvm_bytes_defs, simp_all)+)

lemmas nvm_words_defs =
  Read_SetNLB_def Read_GetNLB_def Read_SetELBATM_def Read_GetELBATM_def Read_SetELBAT_def
  Read_GetELBAT_def Write_SetNLB_def Write_GetNLB_def Write_SetLBATM_def Write_GetLBATM_def
  Write_SetLBAT_def Write_GetLBAT_def

lemma nvm_words:
  "cmd_accessor (via_word Read_SetNLB) (get_word Read_GetNLB) (12, 0, 16)"
  "cmd_accessor (via_word Read_SetELBATM) (get_word Read_GetELBATM) (15, 16, 16)"
  "cmd_accessor (via_word Read_SetELBAT) (get_word Read_GetELBAT) (15, 0, 16)"
  "cmd_accessor (via_word Write_SetNLB) (get_word Write_GetNLB) (12, 0, 16)"
  "cmd_accessor (via_word Write_SetLBATM) (get_word Write_GetLBATM) (15, 16, 16)"
  "cmd_accessor (via_word Write_SetLBAT) (get_word Write_GetLBAT) (15, 0, 16)"
  by ((rule acc_wordI, rule nvm_words_defs, rule nvm_words_defs, simp_all)+)

lemmas nvm_bits_defs =
  DatasetMgmt_SetAD_def DatasetMgmt_GetAD_def DatasetMgmt_SetIDW_def DatasetMgmt_GetIDW_def
  DatasetMgmt_SetIDR_def DatasetMgmt_GetIDR_def Read_SetLR_def Read_GetLR_def Read_SetFUA_def
  Read_GetFUA_def Read_SetDSMIncompress_def Read_GetDSMIncompress_def Read_SetDSMSeqRequest_def
  Read_GetDSMSeqRequest_def Write_SetLR_def Write_GetLR_def Write_SetFUA_def Write_GetFUA_def
  Write_SetDSMIncompress_def Write_GetDSMIncompress_def Write_SetDSMSeqRequest_def
  Write_GetDSMSeqRequest_def ReservationAcquire_SetIEKEY_def ReservationAcquire_GetIEKEY_def
  ReservationRegister_SetIEKEY_def ReservationRegister_GetIEKEY_def
  ReservationRelease_SetIEKEY_def ReservationRelease_GetIEKEY_def

lemma nvm_bits:
  "cmd_accessor (via_bool DatasetMgmt_SetAD) (get_bool DatasetMgmt_GetAD) (11, 2, 1)"
  "cmd_accessor (via_bool DatasetMgmt_SetIDW) (get_bool DatasetMgmt_GetIDW) (11, 1, 1)"
  "cmd_accessor (via_bool DatasetMgmt_SetIDR) (get_bool DatasetMgmt_GetIDR) (11, 0, 1)"
  "cmd_accessor (via_bool Read_SetLR) (get_bool Read_GetLR) (12, 31, 1)"
  "cmd_accessor (via_bool Read_SetFUA) (get_bool Read_GetFUA) (12, 30, 1)"
  "cmd_accessor (via_bool Read_SetDSMIncompress) (get_bool Read_GetDSMIncompress) (13, 7, 1)"
  "cmd_accessor (via_bool Read_SetDSMSeqRequest) (get_bool Read_GetDSMSeqRequest) (13, 6, 1)"
  "cmd_accessor (via_bool Write_SetLR) (get_bool Write_GetLR) (12, 31, 1)"
  "cmd_accessor (via_bool Write_SetFUA) (get_bool Write_GetFUA) (12, 30, 1)"
  "cmd_accessor (via_bool Write_SetDSMIncompress) (get_bool Write_GetDSMIncompress) (13, 7, 1)"
  "cmd_accessor (via_bool Write_SetDSMSeqRequest) (get_bool Write_GetDSMSeqRequest) (13, 6, 1)"
  "cmd_accessor (via_bool ReservationAcquire_SetIEKEY) (get_bool ReservationAcquire_GetIEKEY) (10, 3, 1)"
  "cmd_accessor (via_bool ReservationRegister_SetIEKEY) (get_bool ReservationRegister_GetIEKEY) (10, 3, 1)"
  "cmd_accessor (via_bool ReservationRelease_SetIEKEY) (get_bool ReservationRelease_GetIEKEY) (10, 3, 1)"
  by ((rule acc_bitI, rule nvm_bits_defs, rule nvm_bits_defs, simp_all)+)

lemmas nvm_dwords_defs =
  ReservationReport_SetNUMD_def ReservationReport_GetNUMD_def

lemma nvm_dwords:
  "cmd_accessor ReservationReport_SetNUMD ReservationReport_GetNUMD (10, 0, 32)"
  by ((rule acc_dwordI, rule nvm_dwords_defs, rule nvm_dwords_defs, simp_all)+)

lemma nvm_latency:
  "cmd_accessor (via_word Read_SetDSMAccessLatent) (get_word Read_GetDSMAccessLatent) (13, 4, 2)"
  "cmd_accessor (via_word Write_SetDSMAccessLatent) (get_word Write_GetDSMAccessLatent) (13, 4, 2)"
  by (rule acc_shiftI, rule Read_SetDSMAccessLatent_def Write_SetDSMAccessLatent_def,
      rule Read_GetDSMAccessLatent_def Write_GetDSMAccessLatent_def, rule low_masks,
      simp_all add: mask_eq_exp_minus_1 push_bit_eq_mult)+

lemma nvm_freq:
  "cmd_accessor (via_word Read_SetDSMAccessFreq) (get_word Read_GetDSMAccessFreq) (13, 0, 4)"
  "cmd_accessor (via_word Write_SetDSMAccessFreq) (get_word Write_GetDSMAccessFreq) (13, 0, 4)"
  by (rule acc_low_plainI, rule Read_SetDSMAccessFreq_def Write_SetDSMAccessFreq_def,
      rule Read_GetDSMAccessFreq_def Write_GetDSMAccessFreq_def, rule low_masks, simp_all)+

text \<open>Fields written and read one bit at a time.\<close>

lemma and_power_bit: "(v :: u8) AND push_bit k 1 \<noteq> 0 \<longleftrightarrow> bit v k"
proof
  assume "bit v k"
  then have "bit (v AND push_bit k 1) k" by (auto simp: bit_simps dest: bit_imp_le_length)
  then show "v AND push_bit k 1 \<noteq> 0" by (metis bit_0_eq bot_apply bot_bool_def)
next
  assume "v AND push_bit k 1 \<noteq> 0"
  then obtain i where "bit (v AND push_bit k 1) i" using bit_eqI by (metis bit_0_eq bot_apply bot_bool_def)
  then show "bit v k" by (auto simp: bit_simps)
qed

lemma and_bits: "(v :: u8) AND 0x1 \<noteq> 0 \<longleftrightarrow> bit v 0" "v AND 0x2 \<noteq> 0 \<longleftrightarrow> bit v 1" "v AND 0x4 \<noteq> 0 \<longleftrightarrow> bit v 2"
  using and_power_bit [of v 0] and_power_bit [of v 1] and_power_bit [of v 2] by (simp_all add: push_bit_eq_mult)

text \<open>A field put in two parts, the lower one first, and read in two parts.\<close>

lemma set_dw_twice:
  assumes "cmd_ok c" and "i < cmd_size c" shows "set_dw (set_dw c i x) i y = set_dw c i y"
proof -
  obtain m where "mRealBaseAddr (mCmdBuf c) = Some m" "mVirOff (mCmdBuf c) + 4 * i + 4 \<le> length m"
    using cmd_room [OF assms] by blast
  then show ?thesis by (simp add: set_dw_def Let_def)
qed

lemma dw_put_parts:
  assumes "dw_ok (w, l, n + m) c"
  shows "dw_put (w, l + n, m) (drop_bit n v) (dw_put (w, l, n) v c) = dw_put (w, l, n + m) v c"
proof -
  have "put_field (l + n, m) (drop_bit n v) (put_field (l, n) v x) = put_field (l, n + m) v x" for x
  proof (rule bit_word_eqI)
    fix i assume "i < LENGTH(32)"
    moreover have "n + (i - (l + n)) = i - l" if "l + n \<le> i" using that by simp
    ultimately show "bit (put_field (l + n, m) (drop_bit n v) (put_field (l, n) v x)) i =
        bit (put_field (l, n + m) v x) i"
      using assms by (cases "l + n \<le> i") (auto simp: put_field_def bit_simps dw_ok_def field_ok_def)
  qed
  then show ?thesis using assms by (simp add: dw_put_def dw_ok_def cmd_dw_set_same set_dw_twice)
qed

lemma dw_get_parts: "dw_get (w, l, n + m) c = dw_get (w, l, n) c OR push_bit n (dw_get (w, l + n, m) c)"
  by (rule bit_word_eqI) (auto simp: dw_get_def get_field_def bit_simps add.commute add.left_commute)

lemma dw_ok_part: "dw_ok (w, l, n) c \<Longrightarrow> l \<le> l' \<Longrightarrow> l' + n' \<le> l + n \<Longrightarrow> dw_ok (w, l', n') c"
  by (simp add: dw_ok_def field_ok_def)

lemma dw_put_one_bit: "dw_put (w, l, 1) (if bit v k then 1 else 0) c = dw_put (w, l, 1) (drop_bit k v) c"
proof -
  have "take_bit 1 (if bit v k then 1 else 0) = take_bit 1 (drop_bit k v)"
    by (rule bit_word_eqI) (simp only: bit_take_bit_iff bit_drop_bit_eq, auto simp: bit_1_iff)
  then show ?thesis by (simp add: dw_put_def put_field_def)
qed

lemma dw_get_one_bit: "of_bool (dw_get (w, l, 1) c = 1) = dw_get (w, l, 1) c"
  using one_bit [of "dw_get (w, l, 1) c"] dw_get_narrow [of "(w, l, 1)" c] by auto

lemma SetBit_drop:
  assumes "dw_ok (unat w, unat off, 1) c"
  shows "Cmd_SetBit (bit v k) w off c = (Inr (), dw_put (unat w, unat off, 1) (drop_bit k v) c)"
  using SetBit_put [OF assms, of "bit v k"] assms dw_put_one_bit [of "unat w" "unat off" v k c]
  by (simp add: dw_ok_def field_ok_def del: One_nat_def)

lemma low_bits_u8:
  fixes v :: u32
  shows "(ucast v :: u8) AND 0x1 \<noteq> 0 \<longleftrightarrow> bit v 0" "(ucast v :: u8) AND 0x2 \<noteq> 0 \<longleftrightarrow> bit v 1"
    "(ucast v :: u8) AND 0x4 \<noteq> 0 \<longleftrightarrow> bit v 2"
  unfolding and_bits by (simp_all add: bit_simps)

lemma set_2_bits_put:
  assumes l: "unat lo + 2 \<le> 32" and ok: "dw_ok (unat w, unat lo, 2) c"
  shows "set_2_bits (ucast v) w lo c = (Inr (), dw_put (unat w, unat lo, 2) v c)"
proof -
  have u: "unat (lo + 1) = unat lo + 1" using l by (simp add: unat_word_ariths)
  have ok': "dw_ok (unat w, unat lo, 1) c" "dw_ok (unat w, unat (lo + 1), 1) c"
    using ok by (auto elim: dw_ok_part simp: u)
  show ?thesis
    unfolding set_2_bits_def low_bits_u8 sq_apply
    using dw_put_parts [of "unat w" "unat lo" 1 1 c v] ok ok' SetBit_drop [of w lo c v 0]
      SetBit_drop [of w "lo + 1" "dw_put (unat w, unat lo, 1) v c" v 1]
    by (simp add: u del: One_nat_def flip: one_add_one)
qed

lemma set_3_bits_put:
  assumes l: "unat lo + 3 \<le> 32" and ok: "dw_ok (unat w, unat lo, 3) c"
  shows "set_3_bits (ucast v) w lo c = (Inr (), dw_put (unat w, unat lo, 3) v c)"
proof -
  have u: "unat (lo + 2) = unat lo + 2" using l by (simp add: unat_word_ariths)
  have ok': "dw_ok (unat w, unat lo, 2) c" "dw_ok (unat w, unat (lo + 2), 1) c"
    using ok by (auto elim: dw_ok_part simp: u)
  have "set_3_bits (ucast v) w lo c = sq (set_2_bits (ucast v) w lo) (Cmd_SetBit (bit v 2) w (lo + 2)) c"
    unfolding set_3_bits_def set_2_bits_def low_bits_u8 by (simp add: sq_apply split: sum.split prod.split)
  then show ?thesis
    using dw_put_parts [of "unat w" "unat lo" 2 1 c v] ok ok' l set_2_bits_put [of lo w c v]
    by (simp add: sq_apply SetBit_drop u)
qed

lemma get_3_bits_get:
  assumes l: "unat lo + 3 \<le> 32" and ok: "dw_ok (unat w, unat lo, 3) c"
  shows "get_word (get_3_bits w lo) c = (Inr (dw_get (unat w, unat lo, 3) c), c)"
proof -
  have u: "unat (lo + 1) = unat lo + 1" "unat (lo + 2) = unat lo + 2" using l by (simp_all add: unat_word_ariths)
  have ok': "dw_ok (unat w, unat lo, 1) c" "dw_ok (unat w, unat lo + 1, 1) c" "dw_ok (unat w, unat lo + 2, 1) c"
    using ok by (auto elim: dw_ok_part)
  have "(ucast (of_bool a OR push_bit 1 (of_bool b) OR push_bit 2 (of_bool d) :: u8) :: u32) =
      of_bool a OR push_bit 1 (of_bool b) OR push_bit 2 (of_bool d)" for a b d
    by (cases a; cases b; cases d) simp_all
  moreover have "dw_get (unat w, unat lo, 3) c = dw_get (unat w, unat lo, 1) c OR
      push_bit 1 (dw_get (unat w, unat lo + 1, 1) c) OR push_bit 2 (dw_get (unat w, unat lo + 2, 1) c)"
    using dw_get_parts [of "unat w" "unat lo" 2 1 c] dw_get_parts [of "unat w" "unat lo" 1 1 c]
    by (simp add: or.assoc del: One_nat_def)
  ultimately show ?thesis
    using ok' l dw_get_one_bit [of "unat w" "unat lo" c] dw_get_one_bit [of "unat w" "unat lo + 1" c]
      dw_get_one_bit [of "unat w" "unat lo + 2" c]
    by (simp add: get_word_def get_3_bits_def bnd_apply GetBit_get u del: One_nat_def)
qed

lemma get_2_bits_get:
  assumes l: "unat lo + 2 \<le> 32" and ok: "dw_ok (unat w, unat lo, 2) c"
  shows "get_word (get_2_bits w lo) c = (Inr (dw_get (unat w, unat lo, 2) c), c)"
proof -
  have u: "unat (lo + 1) = unat lo + 1" using l by (simp add: unat_word_ariths)
  have ok': "dw_ok (unat w, unat lo, 1) c" "dw_ok (unat w, unat lo + 1, 1) c"
    using ok by (auto elim: dw_ok_part)
  have "(ucast (of_bool a OR push_bit 1 (of_bool b) :: u8) :: u32) = of_bool a OR push_bit 1 (of_bool b)" for a b
    by (cases a; cases b) simp_all
  then show ?thesis
    using ok' l dw_get_one_bit [of "unat w" "unat lo" c] dw_get_one_bit [of "unat w" "unat lo + 1" c]
      dw_get_parts [of "unat w" "unat lo" 1 1 c]
    by (simp add: get_word_def get_2_bits_def bnd_apply GetBit_get u del: One_nat_def)
qed

lemma acc_2_bitsI:
  assumes "\<And>v. s v = set_2_bits v w lo" and "g = get_2_bits w lo" and "unat lo + 2 \<le> 32"
    and "f = (unat w, unat lo, 2)"
  shows "cmd_accessor (via_word s) (get_word g) f"
  using assms by unfold_locales (simp_all add: via_word_def set_2_bits_put get_2_bits_get)

lemma acc_3_bitsI:
  assumes "\<And>v. s v = set_3_bits v w lo" and "g = get_3_bits w lo" and "unat lo + 3 \<le> 32"
    and "f = (unat w, unat lo, 3)"
  shows "cmd_accessor (via_word s) (get_word g) f"
  using assms by unfold_locales (simp_all add: via_word_def set_3_bits_put get_3_bits_get)

lemma nvm_bit_lists:
  "cmd_accessor (via_word ReservationAcquire_SetRACQA) (get_word ReservationAcquire_GetRACQA) (10, 0, 3)"
  "cmd_accessor (via_word ReservationRegister_SetRREGA) (get_word ReservationRegister_GetRREGA) (10, 0, 3)"
  "cmd_accessor (via_word ReservationRelease_SetRREGA) (get_word ReservationRelease_GetRREGA) (10, 0, 3)"
  "cmd_accessor (via_word ReservationRegister_SetCPTPL) (get_word ReservationRegister_GetCPTPL) (10, 30, 2)"
  "cmd_accessor (via_word ReservationRelease_SetCPTPL) (get_word ReservationRelease_GetCPTPL) (10, 30, 2)"
  by (rule acc_3_bitsI, rule ReservationAcquire_SetRACQA_def, rule ReservationAcquire_GetRACQA_def, simp_all)
    (rule acc_3_bitsI, rule ReservationRegister_SetRREGA_def, rule ReservationRegister_GetRREGA_def, simp_all,
     rule acc_3_bitsI, rule ReservationRelease_SetRREGA_def, rule ReservationRelease_GetRREGA_def, simp_all,
     rule acc_2_bitsI, rule ReservationRegister_SetCPTPL_def, rule ReservationRegister_GetCPTPL_def, simp_all,
     rule acc_2_bitsI, rule ReservationRelease_SetCPTPL_def, rule ReservationRelease_GetCPTPL_def, simp_all)

lemma nvm_accessors_ok: "(s, g, f) \<in> set nvm_accessors \<Longrightarrow> cmd_accessor s g f"
proof -
  have "list_all (\<lambda>(s, g, f). cmd_accessor s g f) nvm_accessors"
    unfolding nvm_accessors_def list.pred_inject split
    by (intro conjI TrueI nvm_bytes nvm_words nvm_bits nvm_dwords nvm_latency nvm_freq nvm_bit_lists) simp
  then show "(s, g, f) \<in> set nvm_accessors \<Longrightarrow> cmd_accessor s g f" by (auto simp: list_all_iff)
qed

section \<open>The starting LBA, the protection information, the reference tag\<close>

lemma lba_halves: "ucast (ucast lba :: u32) OR push_bit 32 (ucast (ucast (drop_bit 32 lba) :: u32)) = (lba :: u64)"
  by (rule bit_word_eqI) (auto simp: bit_simps)

lemma PRINFO_put:
  assumes ok: "dw_ok (12, 26, 4) c" and v: "v \<le> 0x0f"
  shows "rmw_word 0x3C00 (push_bit 10 (ucast (v :: u8))) 12 1 c = (Inr (), dw_put (12, 26, 4) (ucast v) c)"
proof -
  have m: "(0x3C00 :: u16) = push_bit 10 (mask 4)" by (simp add: mask_eq_exp_minus_1 push_bit_eq_mult)
  have "unat v < 2 ^ 4" using v by (simp add: word_le_nat_alt)
  then have "dw_fits (12, 26, 4) (ucast v)"
    by (simp add: dw_fits_def word_unat_eq_iff unsigned_take_bit_eq take_bit_nat_eq_self)
  moreover have "(ucast (ucast v :: u32) :: u16) = ucast v"
    by (rule bit_word_eqI) (auto simp: bit_simps dest: bit_imp_le_length)
  ultimately show ?thesis using rmw_word_put [of 12 1 10 4 c "0x3C00" "push_bit 10 (ucast v)" "ucast v"] ok m by simp
qed

lemma PRINFO_get:
  assumes "dw_ok (12, 26, 6) c"
  shows "bnd (Cmd_GetWord 12 1) (\<lambda>x. ret (ucast (drop_bit 10 x) :: u8)) c = (Inr (ucast (dw_get (12, 26, 6) c)), c)"
proof -
  have ok: "dw_ok (12, 16, 16) c" using assms by (simp add: dw_ok_def field_ok_def)
  have "(ucast (drop_bit 10 (ucast (dw_get (12, 16, 16) c) :: u16)) :: u8) = ucast (dw_get (12, 26, 6) c)"
    by (rule bit_word_eqI) (auto simp: dw_get_def get_field_def bit_simps dest: bit_imp_le_length)
  then show ?thesis using GetWord_get [of 12 1 c] ok by (simp add: bnd_apply)
qed

section \<open>Constructors\<close>

text \<open>Every constructor of a command class with its object type, opcode, direction and allowed PRP fields.\<close>

definition command_table ::
  "libc \<Rightarrow> send_masks \<Rightarrow> ((ex + cmd) \<times> ObjType \<times> u8 \<times> DataDir \<times> u32) list" where
  "command_table C M =
     (let p1 = MASK_PRP1_PAGE M; l1 = MASK_PRP1_LIST M; p2 = MASK_PRP2_PAGE M; l2 = MASK_PRP2_LIST M in
     [(AsyncEventReq_AsyncEventReq C, OBJ_ASYNCEVENTREQ, 0x0c, DATADIR_NONE, 0),
      (GetFeatures_GetFeatures C M, OBJ_GETFEATURES, 0x0a, DATADIR_FROM_DEVICE, p1 OR p2),
      (SetFeatures_SetFeatures C M, OBJ_SETFEATURES, 0x09, DATADIR_TO_DEVICE, p1 OR p2),
      (FormatNVM_FormatNVM C, OBJ_FORMATNVM, 0x80, DATADIR_NONE, 0),
      (FWActivate_FWActivate C, OBJ_FWACTIVATE, 0x10, DATADIR_NONE, 0),
      (FWImgDnld_FWImgDnld C M, OBJ_FWIMGDNLD, 0x11, DATADIR_TO_DEVICE, p1 OR p2 OR l2),
      (GetLogPage_GetLogPage C M, OBJ_GETLOGPAGE, 0x02, DATADIR_FROM_DEVICE, p1 OR p2 OR l2),
      (NamespaceAttach_NamespaceAttach C M, OBJ_NAMESPACEATTACH, 0x15, DATADIR_TO_DEVICE, p1 OR l1 OR p2),
      (NamespaceManagement_NamespaceManagement C M, OBJ_NAMESPACEMANAGEMENT, 0x0D, DATADIR_TO_DEVICE, p1 OR p2),
      (SecurityRcv_SecurityRcv C M, OBJ_SECURITYRCV, 0x82, DATADIR_FROM_DEVICE, p1 OR p2),
      (SecuritySend_SecuritySend C M, OBJ_SECURITYSEND, 0x81, DATADIR_TO_DEVICE, p1 OR p2),
      (CreateIOCQ_CreateIOCQ C M, OBJ_CREATEIOCQ, 0x05, DATADIR_FROM_DEVICE, p1 OR l1),
      (CreateIOSQ_CreateIOSQ C M, OBJ_CREATEIOSQ, 0x01, DATADIR_TO_DEVICE, p1 OR l1),
      (DeleteIOCQ_DeleteIOCQ C, OBJ_DELETEIOCQ, 0x04, DATADIR_NONE, 0),
      (DeleteIOSQ_DeleteIOSQ C, OBJ_DELETEIOSQ, 0x00, DATADIR_NONE, 0),
      (Flush_Flush C, OBJ_FLUSH, 0x00, DATADIR_NONE, 0),
      (DatasetMgmt_DatasetMgmt C M, OBJ_DATASETMGMT, 0x09, DATADIR_TO_DEVICE, p1 OR p2),
      (Read_Read C M, OBJ_READ, 0x02, DATADIR_FROM_DEVICE, p1 OR p2 OR l2),
      (Write_Write C M, OBJ_WRITE, 0x01, DATADIR_TO_DEVICE, p1 OR p2 OR l2),
      (ReservationAcquire_ReservationAcquire C M, OBJ_RESERVATIONREGISTER, 0x11, DATADIR_TO_DEVICE, p1),
      (ReservationRegister_ReservationRegister C M, OBJ_RESERVATIONREGISTER, 0x0D, DATADIR_TO_DEVICE, p1 OR p2),
      (ReservationRelease_ReservationRelease C M, OBJ_RESERVATIONRELEASE, 0x15, DATADIR_TO_DEVICE, p1),
      (ReservationReport_ReservationReport C M, OBJ_RESERVATIONREPORT, 0x0E, DATADIR_FROM_DEVICE, p1 OR p2)])"

text \<open>A fresh command of 64 bytes: well formed, the opcode in byte 0, zeros elsewhere, no data yet.\<close>

definition fresh_command :: "(ex + cmd) \<times> ObjType \<times> u8 \<times> DataDir \<times> u32 \<Rightarrow> bool" where
  "fresh_command row =
     (case row of (r, t, opc, dir, allowed) \<Rightarrow>
        (case r of Inl _ \<Rightarrow> False
         | Inr c \<Rightarrow> cmd_ok c \<and> cmd_size c = 16 \<and> c_type c = t \<and> mDataDir c = dir \<and> mPrpAllowed c = allowed \<and>
             cmd_dw c 0 = ucast opc \<and> list_all (\<lambda>i. cmd_dw c i = 0) [1..<16] \<and>
             mBufRW c = None \<and> mBufRO c = None))"

lemma fresh_Init:
  assumes "Cmd_Cmd t = Inr c0" and "dir \<in> {DATADIR_NONE, DATADIR_TO_DEVICE, DATADIR_FROM_DEVICE}"
    and "\<not> memfail C 64"
  shows "\<exists>c. Cmd_Init C opc dir 64 (c0\<lparr>mPrpAllowed := a\<rparr>) = (Inr (), c) \<and> mPrpAllowed c = a \<and>
    fresh_command (Inr (c\<lparr>mPrpAllowed := allowed\<rparr>), t, opc, dir, allowed)"
proof -
  have c0: "mBufRW c0 = None" "mBufRO c0 = None" "c_type c0 = t"
    using assms(1) by (auto simp: Cmd_Cmd_def Trackable_Trackable_def split: sum.splits if_splits)
  let ?c0 = "c0\<lparr>mPrpAllowed := a\<rparr>"
  obtain c where "Cmd_Init C opc dir 64 ?c0 = (Inr (), c)" "cmd_ok c" "cmd_size c = 16"
    "mDataDir c = dir" "cmd_dw c 0 = ucast opc" "\<forall>i. 0 < i \<and> i < cmd_size c \<longrightarrow> cmd_dw c i = 0"
    "mBufRW c = None" "mBufRO c = None" "c_type c = t" "mPrpAllowed c = a"
    using Init_ok [OF assms(2), of 64 C opc ?c0] assms(3) c0 by auto
  then show ?thesis
    by (auto simp: fresh_command_def list_all_iff cmd_ok_def cmd_size_def cmd_dw_def)
qed

lemma allowed_same: "mPrpAllowed c = a \<Longrightarrow> c\<lparr>mPrpAllowed := a\<rparr> = (c :: cmd)"
  by auto

lemma Cmd_Cmd_allowed: "Cmd_Cmd t = Inr c0 \<Longrightarrow> c0\<lparr>mPrpAllowed := 0\<rparr> = c0"
  by (auto simp: Cmd_Cmd_def split: sum.splits)

lemma fresh_new_cmd:
  assumes "Cmd_Cmd t = Inr c0" and "dir \<in> {DATADIR_NONE, DATADIR_TO_DEVICE, DATADIR_FROM_DEVICE}"
    and "\<not> memfail C 64"
    and "allowed AND NOT (MASK_PRP1_PAGE M OR MASK_PRP1_LIST M OR MASK_PRP2_PAGE M OR MASK_PRP2_LIST M) = 0"
  shows "fresh_command (new_cmd C M t opc dir 64 allowed, t, opc, dir, allowed)"
    and "fresh_command (new_cmd_prp_first C M t opc dir allowed, t, opc, dir, allowed)"
  using fresh_Init [OF assms(1-3), of opc 0 allowed] fresh_Init [OF assms(1-3), of opc allowed allowed] assms(4)
  by (auto simp: new_cmd_def new_cmd_prp_first_def assms(1) sq_apply PrpData_SetPrpAllowed_def
      Cmd_Cmd_allowed [OF assms(1)] allowed_same)

lemma fresh_new_cmd_plain:
  assumes "Cmd_Cmd t = Inr c0" and "dir \<in> {DATADIR_NONE, DATADIR_TO_DEVICE, DATADIR_FROM_DEVICE}"
    and "\<not> memfail C 64"
  shows "fresh_command (new_cmd_plain C t opc dir, t, opc, dir, 0)"
  using fresh_Init [OF assms, of opc 0 0]
  by (auto simp: new_cmd_plain_def assms(1) Cmd_Cmd_allowed [OF assms(1)] allowed_same)

lemma prp_masks_allowed:
  fixes p1 :: "'a::len word"
  shows "p1 AND NOT (p1 OR l1 OR p2 OR l2) = 0" "(p1 OR p2) AND NOT (p1 OR l1 OR p2 OR l2) = 0"
    "(p1 OR l1) AND NOT (p1 OR l1 OR p2 OR l2) = 0" "(p1 OR p2 OR l2) AND NOT (p1 OR l1 OR p2 OR l2) = 0"
    "(p1 OR l1 OR p2) AND NOT (p1 OR l1 OR p2 OR l2) = 0"
  by (rule bit_word_eqI; simp add: bit_simps; blast)+

lemmas command_ctor_defs =
  AsyncEventReq_AsyncEventReq_def GetFeatures_GetFeatures_def SetFeatures_SetFeatures_def
  FormatNVM_FormatNVM_def FWActivate_FWActivate_def FWImgDnld_FWImgDnld_def GetLogPage_GetLogPage_def
  NamespaceAttach_NamespaceAttach_def NamespaceManagement_NamespaceManagement_def
  SecurityRcv_SecurityRcv_def SecuritySend_SecuritySend_def CreateIOCQ_CreateIOCQ_def
  CreateIOSQ_CreateIOSQ_def DeleteIOCQ_DeleteIOCQ_def DeleteIOSQ_DeleteIOSQ_def Flush_Flush_def
  DatasetMgmt_DatasetMgmt_def Read_Read_def Write_Write_def ReservationAcquire_ReservationAcquire_def
  ReservationRegister_ReservationRegister_def ReservationRelease_ReservationRelease_def
  ReservationReport_ReservationReport_def

lemma Cmd_Cmd_total: "t \<noteq> OBJTYPE_FENCE \<Longrightarrow> \<exists>c0. Cmd_Cmd t = Inr c0"
  by (cases t) (simp_all add: Cmd_Cmd_def Trackable_Trackable_def)

lemma fresh_rules:
  assumes "t \<noteq> OBJTYPE_FENCE" and "dir \<in> {DATADIR_NONE, DATADIR_TO_DEVICE, DATADIR_FROM_DEVICE}"
    and "\<not> memfail C 64"
  shows "fresh_command (new_cmd_plain C t opc dir, t, opc, dir, 0)"
    and "allowed AND NOT (MASK_PRP1_PAGE M OR MASK_PRP1_LIST M OR MASK_PRP2_PAGE M OR MASK_PRP2_LIST M) = 0 \<Longrightarrow>
      fresh_command (new_cmd C M t opc dir 64 allowed, t, opc, dir, allowed)"
    and "allowed AND NOT (MASK_PRP1_PAGE M OR MASK_PRP1_LIST M OR MASK_PRP2_PAGE M OR MASK_PRP2_LIST M) = 0 \<Longrightarrow>
      fresh_command (new_cmd_prp_first C M t opc dir allowed, t, opc, dir, allowed)"
proof -
  obtain c0 where c0: "Cmd_Cmd t = Inr c0" using Cmd_Cmd_total [OF assms(1)] by auto
  note r = fresh_new_cmd_plain [OF c0 assms(2,3)] fresh_new_cmd [OF c0 assms(2,3)]
  show "fresh_command (new_cmd_plain C t opc dir, t, opc, dir, 0)" by (rule r(1))
  assume a: "allowed AND NOT (MASK_PRP1_PAGE M OR MASK_PRP1_LIST M OR MASK_PRP2_PAGE M OR MASK_PRP2_LIST M) = 0"
  show "fresh_command (new_cmd C M t opc dir 64 allowed, t, opc, dir, allowed)" by (rule r(2) [OF a])
  show "fresh_command (new_cmd_prp_first C M t opc dir allowed, t, opc, dir, allowed)" by (rule r(3) [OF a])
qed

section \<open>Properties\<close>

text \<open>Whenever the 64 bytes of a command can be allocated, the constructor of every command class returns a well
  formed command: its own object type, opcode, direction and allowed PRP fields, every other DWORD
  zero and no data attached.\<close>

theorem constructors_return_fresh_commands:
  assumes "\<not> memfail C 64"
  shows "list_all fresh_command (command_table C M)"
  unfolding command_table_def command_ctor_defs Let_def list.pred_inject
  by (intro conjI TrueI fresh_rules prp_masks_allowed assms) simp_all

text \<open>Every setter of the NVM commands that has a field writes exactly that field: a value that fits is read back by
  the getter, and no bit outside of the field changes.\<close>

theorem nvm_accessors_roundtrip:
  assumes "(s, g, f) \<in> set nvm_accessors" and "dw_ok f c" and "dw_fits f v"
  shows "\<exists>c'. s v c = (Inr (), c') \<and> g c' = (Inr v, c') \<and>
    (\<forall>f'. dw_ok f' c \<and> dw_apart f f' \<longrightarrow> dw_get f' c' = dw_get f' c)"
  using cmd_accessor.roundtrip [OF nvm_accessors_ok [OF assms(1)] assms(2,3)]
    cmd_accessor.undisturbed [OF nvm_accessors_ok [OF assms(1)] assms(2,3)]
  by (metis snd_conv)

text \<open>The starting LBA of Read and Write, split over two DWORDs, is read back whole for all 64-bit values.\<close>

theorem SLBA_roundtrip:
  assumes "cmd_ok c" and "cmd_size c = 16"
  shows "fst (bnd (Read_SetSLBA lba) (\<lambda>_. Read_GetSLBA) c) = Inr lba \<and>
    fst (bnd (Write_SetSLBA lba) (\<lambda>_. Write_GetSLBA) c) = Inr lba"
  using assms lba_halves [of lba]
  by (simp add: Read_SetSLBA_def Write_SetSLBA_def Read_GetSLBA_def Write_GetSLBA_def bnd_apply sq_apply
      SetDword_ok GetDword_ok cmd_dw_set_same cmd_dw_set_other)

text \<open>The protection information of Read and Write is read back with the FUA and LR bits above it: after a legal
  \<open>SetPRINFO\<close>, \<open>GetPRINFO\<close> returns the value set only when both bits are clear.\<close>

theorem GetPRINFO_leaks:
  assumes "cmd_ok c" and "cmd_size c = 16" and "v \<le> 0x0f"
  shows "fst (bnd (Read_SetPRINFO v) (\<lambda>_. Read_GetPRINFO) c) =
      Inr (v OR push_bit 4 (ucast (dw_get (12, 30, 2) c))) \<and>
    fst (bnd (Write_SetPRINFO v) (\<lambda>_. Write_GetPRINFO) c) =
      Inr (v OR push_bit 4 (ucast (dw_get (12, 30, 2) c)))"
proof -
  have ok: "dw_ok (12, 26, 4) c" "dw_ok (12, 26, 6) c" "dw_ok (12, 30, 2) c"
    using assms by (simp_all add: dw_ok_def field_ok_def)
  let ?c = "dw_put (12, 26, 4) (ucast v) c"
  have n: "unat v < 2 ^ 4" using assms(3) by (simp add: word_le_nat_alt)
  then have "take_bit 4 (ucast v :: u32) = ucast v"
    by (simp add: word_unat_eq_iff unsigned_take_bit_eq take_bit_nat_eq_self)
  then have "dw_get (12, 26, 6) ?c = ucast v OR push_bit 4 (dw_get (12, 30, 2) c)"
    using dw_get_parts [of 12 26 4 2 ?c] dw_get_put_same [OF ok(1)] dw_get_put_apart [OF ok(1,3)]
    by (simp add: dw_apart_def field_apart_def)
  moreover have "(ucast (ucast v OR push_bit 4 x :: u32) :: u8) = v OR push_bit 4 (ucast x)" for x
    by (rule bit_word_eqI) (auto simp: bit_simps dest: bit_imp_le_length)
  ultimately have "(ucast (dw_get (12, 26, 6) ?c) :: u8) = v OR push_bit 4 (ucast (dw_get (12, 30, 2) c))" by simp
  then show ?thesis
    using ok PRINFO_put [OF ok(1) assms(3)] PRINFO_get [of ?c] assms(3)
    by (simp add: Read_SetPRINFO_def Read_GetPRINFO_def Write_SetPRINFO_def Write_GetPRINFO_def
        bnd_apply sq_apply throw_if_def)
qed

text \<open>The reference tags are written to DWORD 14 but read from DWORD 13.\<close>

lemma GetEILBRT_wrong_dword:
  assumes "cmd_ok c" and "cmd_size c = 16"
  shows "fst (bnd (Read_SetEILBRT v) (\<lambda>_. Read_GetEILBRT) c) = Inr (cmd_dw c 13)"
    and "fst (bnd (Write_SetILBRT v) (\<lambda>_. Write_GetILBRT) c) = Inr (cmd_dw c 13)"
  using assms by (simp_all add: Read_SetEILBRT_def Read_GetEILBRT_def Write_SetILBRT_def Write_GetILBRT_def
      bnd_apply SetDword_ok GetDword_ok cmd_dw_set_other)

section \<open>Examples\<close>

lemma constructors_return_fresh_commands_witness: "list_all fresh_command (command_table ex_libc ex_masks)"
  by (rule constructors_return_fresh_commands) (simp add: ex_libc_def)

lemma nvm_accessors_roundtrip_witness:
  "\<exists>c'. via_word ReservationRelease_SetCPTPL 3 ex_cmd = (Inr (), c') \<and>
    get_word ReservationRelease_GetCPTPL c' = (Inr 3, c') \<and>
    (\<forall>f'. dw_ok f' ex_cmd \<and> dw_apart (10, 30, 2) f' \<longrightarrow> dw_get f' c' = dw_get f' ex_cmd)"
  by (rule nvm_accessors_roundtrip)
    (simp_all add: nvm_accessors_def dw_ok_def field_ok_def ex_cmd_ok dw_fits_def take_bit_eq_mod)

lemma SLBA_roundtrip_witness:
  "fst (bnd (Read_SetSLBA 0x123456789abc) (\<lambda>_. Read_GetSLBA) ex_cmd) = Inr 0x123456789abc \<and>
    fst (bnd (Write_SetSLBA 0x123456789abc) (\<lambda>_. Write_GetSLBA) ex_cmd) = Inr 0x123456789abc"
  by (rule SLBA_roundtrip) (rule ex_cmd_ok)+

lemma GetPRINFO_leaks_witness:
  "fst (bnd (Read_SetPRINFO 5) (\<lambda>_. Read_GetPRINFO) (dw_put (12, 30, 1) 1 ex_cmd)) = Inr 0x15"
proof -
  have ok: "dw_ok (12, 30, 1) ex_cmd" by (simp add: dw_ok_def field_ok_def ex_cmd_ok)
  have "cmd_ok (dw_put (12, 30, 1) 1 ex_cmd)" "cmd_size (dw_put (12, 30, 1) 1 ex_cmd) = 16"
    by (simp_all add: dw_put_def ex_cmd_ok)
  moreover have "dw_get (12, 30, 2) (dw_put (12, 30, 1) 1 ex_cmd) = 1" by code_simp
  ultimately show ?thesis using GetPRINFO_leaks [of "dw_put (12, 30, 1) 1 ex_cmd" 5] by simp
qed

end
