(* ===== verification/File_Dumps.thy ===== *)
theory File_Dumps
  imports Device_Helpers
begin

text \<open>
  The dump directories (Utils/fileSystem.cpp) and the dumps of registers and driver metrics
  (Utils/kernelAPI.cpp). What the shell, the file system and the driver's log answer is a parameter; the
  text written to the files is not modelled, the order of the reads and the ways they fail are.
\<close>

section \<open>The operating system\<close>

text \<open>
  \<open>os_open\<close> is \<open>open\<close> of a dump file (whether it succeeds), \<open>os_system\<close> the effect of a shell command (its
  result is never read), \<open>os_exists\<close> is \<open>boost::filesystem::exists\<close>, \<open>os_mark_log\<close> the request
  that writes to the driver's log, \<open>os_dump_metrics\<close> the one that dumps its metrics.
\<close>

record 'd os =
  os_open :: "string \<Rightarrow> 'd \<Rightarrow> bool \<times> 'd"
  os_system :: "string \<Rightarrow> 'd \<Rightarrow> 'd"
  os_exists :: "string \<Rightarrow> 'd \<Rightarrow> bool \<times> 'd"
  os_mark_log :: "string \<Rightarrow> 'd \<Rightarrow> int \<times> 'd"
  os_dump_metrics :: "string \<Rightarrow> 'd \<Rightarrow> int \<times> 'd"

definition shell :: "'d os \<Rightarrow> string \<Rightarrow> (('d, 'm) proc_scheme, unit) prog" where
  "shell os cmd = modify (\<lambda>s. s\<lparr>kern := os_system os cmd (kern s)\<rparr>)"

definition asks :: "('d \<Rightarrow> bool \<times> 'd) \<Rightarrow> (('d, 'm) proc_scheme, bool) prog" where
  "asks f = (\<lambda>s. case f (kern s) of (b, d) \<Rightarrow> (Inr b, s\<lparr>kern := d\<rparr>))"

text \<open>\<open>snprintf\<close> into the local \<open>char work[256]\<close>.\<close>

definition work256 :: "string \<Rightarrow> string" where
  "work256 s = take 255 s"

section \<open>FileSystem\<close>

definition dump_dir :: "file_system \<Rightarrow> string" where
  "dump_dir fs = (if mUseDirInfo fs then mDumpDirInfo fs else mDumpDirPending fs)"

definition FileSystem_SetBaseDumpDir :: "bool \<Rightarrow> file_system \<Rightarrow> file_system" where
  "FileSystem_SetBaseDumpDir useInformative fs = fs\<lparr>mUseDirInfo := useInformative\<rparr>"

text \<open>The existence test is made on the shell command.\<close>

definition FileSystem_CleanDumpDir :: "'d os \<Rightarrow> file_system \<Rightarrow> (('d, 'm) proc_scheme, bool) prog" where
  "FileSystem_CleanDumpDir os fs =
     (let dumpDir = dump_dir fs; work = work256 (''rm -rf '' @ dumpDir @ ''*'') in
      if dumpDir = [] then ret False
      else sq (shell os work) (bnd (asks (os_exists os work)) (\<lambda>ex. ret (\<not> ex))))"

definition FileSystem_SetRootDumpDir ::
  "'d os \<Rightarrow> string \<Rightarrow> file_system \<Rightarrow> (('d, 'm) proc_scheme, bool \<times> file_system) prog" where
  "FileSystem_SetRootDumpDir os dir fs0 =
     (let fs = fs0\<lparr>mDumpDirPending := dir @ ''/GrpPending/'', mDumpDirInfo := dir @ ''/Informative/''\<rparr>;
          fsP = FileSystem_SetBaseDumpDir False fs; fsI = FileSystem_SetBaseDumpDir True fs in
      bnd (asks (os_exists os dir)) (\<lambda>ex.
      if \<not> ex then ret (False, fs)
      else sq (shell os (work256 (''mkdir -p -m 777 '' @ mDumpDirPending fs)))
          (bnd (FileSystem_CleanDumpDir os fsP) (\<lambda>ok.
           if \<not> ok then ret (False, fsP)
           else sq (shell os (work256 (''mkdir -p -m 777 '' @ mDumpDirInfo fs)))
               (bnd (FileSystem_CleanDumpDir os fsI) (\<lambda>ok. ret (ok, fsI)))))))"

definition FileSystem_RotateDumpDir :: "'d os \<Rightarrow> file_system \<Rightarrow> (('d, 'm) proc_scheme, bool) prog" where
  "FileSystem_RotateDumpDir os fs =
     (let dumpDir = dump_dir fs in
      if dumpDir = [] then ret True
      else sq (shell os (work256 (''sudo rm '' @ dumpDir @ ''prev'')))
          (sq (shell os (work256 (''mkdir '' @ dumpDir @ ''prev'')))
          (sq (shell os (work256 (''sudo mv '' @ dumpDir @ ''* '' @ dumpDir @ ''prev/'')))
              (ret True))))"

section \<open>Dumps of registers\<close>

definition KernelAPI_WriteToDnvmeLog :: "'d os \<Rightarrow> string \<Rightarrow> (('d, 'm) proc_scheme, unit) prog" where
  "KernelAPI_WriteToDnvmeLog os log =
     bnd (ioctl1 (os_mark_log os log))
       (\<lambda>rc. throw_if (rc < 0) (FrmwkEx ''Unable to log custom string to dnvme, err = %d''))"

definition KernelAPI_DumpKernelMetrics :: "'d os \<Rightarrow> string \<Rightarrow> (('d, 'm) proc_scheme, unit) prog" where
  "KernelAPI_DumpKernelMetrics os filename =
     bnd (ioctl1 (os_dump_metrics os filename))
       (\<lambda>rc. throw_if (rc < 0) (FrmwkEx ''Unable to dump dnvme metrics, err code = %d''))"

definition opened :: "'d os \<Rightarrow> string \<Rightarrow> (('d, 'm) proc_scheme, unit) prog" where
  "opened os filename = bnd (asks (os_open os filename)) (\<lambda>ok. throw_if (\<not> ok) (FrmwkEx ''file=%s: %s''))"

text \<open>A register longer than eight bytes is read into a fresh array.\<close>

definition read_long ::
  "libc \<Rightarrow> 'd dnvme \<Rightarrow> nvme_io_space \<Rightarrow> u16 \<Rightarrow> u16 \<Rightarrow> (('d, 'm) registers_scheme, unit) prog" where
  "read_long C drv spc rsize roffset =
     bnd (Registers_Read_bytes drv spc rsize roffset (fresh C (unat rsize)))
       (\<lambda>(ok, buffer). throw_if (\<not> ok) (FrmwkEx []))"

text \<open>The registers that are left, and the variable the values are read into; a register that cannot be read
  silently ends the dump.\<close>

fun dump_ctl_loop :: "libc \<Rightarrow> 'd dnvme \<Rightarrow> nat list \<Rightarrow> u64 \<Rightarrow> (('d, 'm) registers_scheme, unit) prog" where
  "dump_ctl_loop C drv [] val = ret ()"
| "dump_ctl_loop C drv (i # is) val =
     bnd (gets (ValidSpecRev (ctl_specRev (ctl_table ! i)))) (\<lambda>valid.
     if \<not> valid then dump_ctl_loop C drv is val
     else if ctl_size (ctl_table ! i) > MAX_SUPPORTED_REG_SIZE
     then sq (read_long C drv NVMEIO_BAR01 (ctl_size (ctl_table ! i)) (ctl_offset (ctl_table ! i)))
            (dump_ctl_loop C drv is val)
     else bnd (Registers_Read_ctl drv i val) (\<lambda>(ok, val').
            if \<not> ok then ret () else dump_ctl_loop C drv is val'))"

definition KernelAPI_DumpCtrlrSpaceRegs ::
  "libc \<Rightarrow> 'd dnvme \<Rightarrow> 'd os \<Rightarrow> string \<Rightarrow> (('d, 'm) registers_scheme, unit) prog" where
  "KernelAPI_DumpCtrlrSpaceRegs C drv os filename =
     sq (opened os filename) (dump_ctl_loop C drv [0..<CTLSPC_FENCE] 0)"

fun dump_hdr_loop :: "'d dnvme \<Rightarrow> nat list \<Rightarrow> u64 \<Rightarrow> (('d, 'm) registers_scheme, u64) prog" where
  "dump_hdr_loop drv [] val = ret val"
| "dump_hdr_loop drv (j # js) val =
     bnd (gets (\<lambda>s. ValidSpecRev (pci_specRev (rg_pci s ! j)) s \<and> pci_cap (rg_pci s ! j) = PCICAP_FENCE)) (\<lambda>sel.
     if \<not> sel then dump_hdr_loop drv js val
     else bnd (Registers_Read_pci drv j val) (\<lambda>(ok, val').
          sq (throw_if (\<not> ok) (FrmwkEx [])) (dump_hdr_loop drv js val')))"

fun dump_cap_loop ::
  "libc \<Rightarrow> 'd dnvme \<Rightarrow> PciCapabilities \<Rightarrow> nat list \<Rightarrow> u64 \<Rightarrow> (('d, 'm) registers_scheme, u64) prog" where
  "dump_cap_loop C drv cap [] val = ret val"
| "dump_cap_loop C drv cap (j # js) val =
     bnd (gets (\<lambda>s. rg_pci s ! j)) (\<lambda>r.
     bnd (gets (ValidSpecRev (pci_specRev r))) (\<lambda>valid.
     if \<not> valid \<or> pci_cap r \<noteq> cap then dump_cap_loop C drv cap js val
     else if pci_size r > MAX_SUPPORTED_REG_SIZE
     then sq (read_long C drv NVMEIO_PCI_HDR (pci_size r) (pci_offset r)) (dump_cap_loop C drv cap js val)
     else bnd (Registers_Read_pci drv j val) (\<lambda>(ok, val').
          sq (throw_if (\<not> ok) (FrmwkEx [])) (dump_cap_loop C drv cap js val'))))"

fun dump_caps_loop ::
  "libc \<Rightarrow> 'd dnvme \<Rightarrow> PciCapabilities list \<Rightarrow> u64 \<Rightarrow> (('d, 'm) registers_scheme, unit) prog" where
  "dump_caps_loop C drv [] val = ret ()"
| "dump_caps_loop C drv (cap # caps) val =
     sq (throw_if (cap = PCICAP_FENCE) (FrmwkEx []))
     (bnd (dump_cap_loop C drv cap [0..<PCISPC_FENCE] val) (dump_caps_loop C drv caps))"

definition KernelAPI_DumpPciSpaceRegs ::
  "libc \<Rightarrow> 'd dnvme \<Rightarrow> 'd os \<Rightarrow> string \<Rightarrow> (('d, 'm) registers_scheme, unit) prog" where
  "KernelAPI_DumpPciSpaceRegs C drv os filename =
     sq (opened os filename)
     (bnd (dump_hdr_loop drv [0..<PCISPC_FENCE] (undef64 C)) (\<lambda>val.
      bnd (gets rg_pciCap) (\<lambda>caps. dump_caps_loop C drv caps val)))"

section \<open>The command that cleans a directory\<close>

lemma asks_apply [prog_simps]: "asks f s = (case f (kern s) of (b, d) \<Rightarrow> (Inr b, s\<lparr>kern := d\<rparr>))"
  by (simp add: asks_def)

text \<open>C20: \<open>CleanDumpDir\<close> removes the contents of the directory only as long as the command fits into 256 bytes. From
  248 characters on it removes, recursively, whatever the first 248 characters of the directory's
  name are the path of; the result depends on the existence of a file named like the command.\<close>

theorem CleanDumpDir_runs:
  assumes "dump_dir fs \<noteq> []"
  shows "FileSystem_CleanDumpDir os fs s =
    (let cmd = (if length (dump_dir fs) < 248 then ''rm -rf '' @ dump_dir fs @ ''*'' else ''rm -rf '' @ take 248 (dump_dir fs))
     in case os_exists os cmd (os_system os cmd (kern s)) of (ex, d) \<Rightarrow> (Inr (\<not> ex), s\<lparr>kern := d\<rparr>))"
proof -
  have "work256 (''rm -rf '' @ dump_dir fs @ ''*'') =
      (if length (dump_dir fs) < 248 then ''rm -rf '' @ dump_dir fs @ ''*'' else ''rm -rf '' @ take 248 (dump_dir fs))"
    by (simp add: work256_def)
  then show ?thesis
    using assms by (simp add: FileSystem_CleanDumpDir_def shell_def bnd_apply asks_apply Let_def split: prod.split)
qed

text \<open>An example: an operating system whose state is the list of the commands it has run.\<close>

definition log_os :: "string list os" where
  "log_os = \<lparr>os_open = (\<lambda>f d. (True, d)), os_system = (\<lambda>c d. d @ [c]), os_exists = (\<lambda>f d. (False, d)),
     os_mark_log = (\<lambda>m d. (0, d)), os_dump_metrics = (\<lambda>f d. (0, d))\<rparr>"

theorem CleanDumpDir_runs_witness:
  "FileSystem_CleanDumpDir log_os \<lparr>mUseDirInfo = True, mDumpDirInfo = ''/tmp/'' @ replicate 242 CHR ''a'' @ ''/Informative/'',
      mDumpDirPending = []\<rparr> \<lparr>kern = [], mmaps = (\<lambda>_. [])\<rparr> =
    (Inr True, \<lparr>kern = [''rm -rf /tmp/'' @ replicate 242 CHR ''a'' @ ''/''], mmaps = (\<lambda>_. [])\<rparr>)"
  by (subst CleanDumpDir_runs) (simp_all add: dump_dir_def log_os_def Let_def eval_nat_numeral)

end
