(* ===== verification/Informative_Init.thy ===== *)
theory Informative_Init
  imports Informative Nvm_Cmds File_Dumps
begin

text \<open>
  How the \<open>Informative\<close> singleton fills its cache (Singletons/informative.cpp): it dumps the registers, asks for
  the number of queues, for the controller structure and for the structure of every namespace. The dump
  directory in use (a static member of \<open>FileSystem\<close>) is part of the state here. What the device stores in
  the buffers of the Identify commands is a parameter.
\<close>

section \<open>State\<close>

record 'd prog_world = "'d world" +
  fsys :: file_system

text \<open>A program that names dump files with the current directory.\<close>

definition with_fs ::
  "'d device_env \<Rightarrow> ('d device_env \<Rightarrow> ('d, 'm) prog_world_scheme \<Rightarrow> (ex + 'a) \<times> ('d, 'm) prog_world_scheme)
     \<Rightarrow> (('d, 'm) prog_world_scheme, 'a) prog" where
  "with_fs E k = bnd (gets fsys) (\<lambda>fs. k (E\<lparr>su_fs := fs\<rparr>))"

definition SetBaseDumpDir :: "bool \<Rightarrow> (('d, 'm) prog_world_scheme, unit) prog" where
  "SetBaseDumpDir useInfo = modify (\<lambda>s. s\<lparr>fsys := FileSystem_SetBaseDumpDir useInfo (fsys s)\<rparr>)"

text \<open>The device's write to a buffer: at most as many bytes as the buffer has.\<close>

definition dma_write :: "u8 list \<Rightarrow> mem_buffer \<Rightarrow> mem_buffer" where
  "dma_write bs b =
     (case mRealBaseAddr b of
        None \<Rightarrow> b
      | Some m \<Rightarrow> b\<lparr>mRealBaseAddr := Some (take (mVirOff b) m @ take (length m - mVirOff b) bs @ drop (mVirOff b + length bs) m)\<rparr>)"

section \<open>The commands\<close>

definition informative_call :: "string \<Rightarrow> bool \<Rightarrow> io_call" where
  "informative_call qualify verbose =
     \<lparr>io_grpName = ''singleton'', io_testName = ''informative'', io_qualify = qualify, io_verbose = verbose\<rparr>"

text \<open>
  \<open>numCE\<close> and \<open>isrCount\<close> are uninitialised before the inquiry. The three dumps of the completion queue have the
  same name.
\<close>

definition reap_num_queues ::
  "'d device_env \<Rightarrow> comp_queue \<Rightarrow> u16 \<Rightarrow> (('d, 'm) world_scheme, unit) prog" where
  "reap_num_queues E acq ms =
     bnd (CQ_ReapInquiryWaitSpecify (su_drv E) (su_fuel E) acq (ucast ms) 1 (ucast (undef64 (su_libc E)), ucast (undef64 (su_libc E))))
       (\<lambda>(found, numCE, isrCount).
     sq (dump_as (su_fs E) (informative_call [] True) ''acq'' ''GetFeat.NumOfQueue'')
    (sq (throw_if (\<not> found) (FrmwkEx ''Unable to see completion of get features cmd''))
    (sq (throw_if (numCE \<noteq> 1) (FrmwkEx []))
    (bnd (CQ_GetQMetrics (su_drv E) acq) (\<lambda>acqMetrics.
     bnd new_mb (\<lambda>ceMemCap.
     bnd (CQ_Reap (su_libc E) (su_drv E) acq ceMemCap numCE True True) (\<lambda>(numReaped, ceRemain, isrCount).
     sq (throw_if (numReaped \<noteq> 1) (FrmwkEx ''Verified there was 1 CE, but reaping produced %d''))
    (sq (CQ_LogCE acq (gq_head_ptr acqMetrics))
    (sq (dump_as (su_fs E) (informative_call [] True) ''CE'' ''GetFeat.NumOfQueue'')
    (bnd (CQ_PeekCE acq (gq_head_ptr acqMetrics)) (\<lambda>_.
     bnd (CQ_PeekCE acq (gq_head_ptr acqMetrics)) (\<lambda>ce.
     sq (lift_result (ProcessCE_Validate ce CESTAT_SUCCESS))
        (modify (\<lambda>s. s\<lparr>mGetFeaturesNumOfQ := ce_dw0 ce\<rparr>))))))))))))))"

definition Informative_SendGetFeaturesNumOfQueues ::
  "'d device_env \<Rightarrow> sub_queue \<Rightarrow> comp_queue \<Rightarrow> u16 \<Rightarrow> (('d, 'm) world_scheme, unit) prog" where
  "Informative_SendGetFeaturesNumOfQueues E asq acq ms =
     bnd (lift_result (GetFeatures_GetFeatures (su_libc E) (su_masks E))) (\<lambda>c.
     bnd (with_new c
       (sq (onl (BaseFeatures_SetFID 0x07))
       (sq (dump_as (su_fs E) (informative_call [] True) ''GetFeat'' ''NumOfQueue'')
       (bnd (sq_Send (su_drv E) (su_masks E) asq) (\<lambda>uniqueId.
        sq (dump_as (su_fs E) (informative_call [] True) ''asq'' ''GetFeat.NumOfQueue'')
       (sq (onr (SQ_Ring (su_drv E) asq))
           (onr (reap_num_queues E acq ms)))))))) (\<lambda>_. ret ()))"

text \<open>
  An Identify command with a fresh buffer; the command is returned. \<open>bs\<close> is what the device writes to the
  buffer, at some time before the completion entry is seen.
\<close>

definition send_identify ::
  "'d device_env \<Rightarrow> io_call \<Rightarrow> u16 \<Rightarrow> sub_queue \<Rightarrow> comp_queue \<Rightarrow> unit cmd_prog \<Rightarrow> u8 list \<Rightarrow> (('d, 'm) world_scheme, cmd) prog" where
  "send_identify E a ms asq acq fill bs =
     bnd (lift_result (Identify_Identify (su_libc E) (su_masks E))) (\<lambda>c0.
     bnd (with_new c0
       (sq (onl fill)
       (bnd (onr new_mb) (\<lambda>mem.
        sq (onr (on_mb mem (MemBuffer_InitAlignment (su_libc E) 4096 PRP_BUFFER_ALIGNMENT True 0 None)))
       (bnd (gets (\<lambda>(c, s). wd_bufs s mem)) (\<lambda>b.
        sq (onl (PrpData_SetPrpBuffer (MASK_PRP1_PAGE (su_masks E) OR MASK_PRP2_PAGE (su_masks E)) mem b))
       (sq (send_admin E a (ucast ms) asq acq)
           (onr (on_mb mem (modify (dma_write bs)))))))))))
       (\<lambda>(_, c). ret c))"

definition Informative_SendIdentifyCtrlrStruct ::
  "'d device_env \<Rightarrow> (nat \<Rightarrow> u8 list) \<Rightarrow> sub_queue \<Rightarrow> comp_queue \<Rightarrow> u16 \<Rightarrow> (('d, 'm) world_scheme, unit) prog" where
  "Informative_SendIdentifyCtrlrStruct E device asq acq ms =
     bnd (send_identify E (informative_call ''IdCtrlStruct'' True) ms asq acq (Identify_SetCNS CNS_Controller) (device 0))
       (\<lambda>c. modify (\<lambda>s. s\<lparr>mIdentifyCmdCtrlr := Some c\<rparr>))"

text \<open>The loop from namespace \<open>i\<close>; \<open>n\<close> are left.\<close>

fun namspc_loop ::
  "'d device_env \<Rightarrow> (nat \<Rightarrow> u8 list) \<Rightarrow> sub_queue \<Rightarrow> comp_queue \<Rightarrow> u16 \<Rightarrow> nat \<Rightarrow> nat \<Rightarrow> (('d, 'm) world_scheme, unit) prog" where
  "namspc_loop E device asq acq ms i 0 = ret ()"
| "namspc_loop E device asq acq ms i (Suc n) =
     bnd (send_identify E (informative_call (take 19 (''idCmdNamSpc-'' @ numeral_of 10 i)) True) ms asq acq
            (sq (Identify_SetCNS CNS_Namespace) (Cmd_SetNSID (of_nat i))) (device i))
       (\<lambda>c. sq (modify (\<lambda>s. s\<lparr>mIdentifyCmdNamspc := mIdentifyCmdNamspc s @ [Some c]\<rparr>))
              (namspc_loop E device asq acq ms (i + 1) n))"

definition Informative_SendIdentifyNamespaceStruct ::
  "'d device_env \<Rightarrow> (nat \<Rightarrow> u8 list) \<Rightarrow> sub_queue \<Rightarrow> comp_queue \<Rightarrow> u16 \<Rightarrow> (('d, 'm) world_scheme, unit) prog" where
  "Informative_SendIdentifyNamespaceStruct E device asq acq ms =
     bnd Informative_GetIdentifyCmdCtrlr (\<lambda>idCmdCtrlr.
     bnd (Identify_GetValue_ctrlr idCmdCtrlr IDCTRLRCAP_NN) (\<lambda>numNamSpc.
     sq (throw_if (numNamSpc = 0) (FrmwkEx ''Required to support >= 1 namespace''))
        (namspc_loop E device asq acq ms 1 (unat numNamSpc))))"

section \<open>Filling the cache\<close>

definition informative_dumps :: "'d device_env \<Rightarrow> 'd os \<Rightarrow> (('d, 'm) world_scheme, unit) prog" where
  "informative_dumps E os =
     bnd (lift_result (PrepDumpFile (su_fs E) ''singleton'' ''informative'' ''pci'' ''regs'')) (\<lambda>f.
     sq (KernelAPI_DumpPciSpaceRegs (su_libc E) (su_drv E) os f)
    (bnd (lift_result (PrepDumpFile (su_fs E) ''singleton'' ''informative'' ''ctrl'' ''regs'')) (\<lambda>f.
         KernelAPI_DumpCtrlrSpaceRegs (su_libc E) (su_drv E) os f)))"

text \<open>What \<open>Reinit\<close> and \<open>ReinitNSSafe\<close> share; the argument is the collection of the namespaces.\<close>

definition reinit ::
  "'d device_env \<Rightarrow> 'd os \<Rightarrow> (nat \<Rightarrow> u8 list) \<Rightarrow> sub_queue \<Rightarrow> comp_queue \<Rightarrow> u16
     \<Rightarrow> ('d device_env \<Rightarrow> ('d, 'm) prog_world_scheme \<Rightarrow> (ex + unit) \<times> ('d, 'm) prog_world_scheme)
     \<Rightarrow> (('d, 'm) prog_world_scheme, bool) prog" where
  "reinit E os device asq acq ms namespaces =
     sq (SetBaseDumpDir True)
    (bnd (with_fs E (\<lambda>E. FileSystem_RotateDumpDir os (su_fs E))) (\<lambda>ok.
     sq (throw_if (\<not> ok) (FrmwkEx []))
    (sq Informative_Clear
    (sq (with_fs E (\<lambda>E. informative_dumps E os))
    (sq (with_fs E (\<lambda>E. Informative_SendGetFeaturesNumOfQueues E asq acq ms))
    (sq (with_fs E (\<lambda>E. Informative_SendIdentifyCtrlrStruct E device asq acq ms))
    (sq (with_fs E namespaces)
    (sq (SetBaseDumpDir False) (ret True)))))))))"

definition Informative_Reinit ::
  "'d device_env \<Rightarrow> 'd os \<Rightarrow> (nat \<Rightarrow> u8 list) \<Rightarrow> sub_queue \<Rightarrow> comp_queue \<Rightarrow> u16 \<Rightarrow> (('d, 'm) prog_world_scheme, bool) prog" where
  "Informative_Reinit E os device asq acq ms =
     reinit E os device asq acq ms (\<lambda>E. Informative_SendIdentifyNamespaceStruct E device asq acq ms)"

definition Informative_ReinitNSSafe ::
  "'d device_env \<Rightarrow> 'd os \<Rightarrow> (nat \<Rightarrow> u8 list) \<Rightarrow> sub_queue \<Rightarrow> comp_queue \<Rightarrow> u16 \<Rightarrow> (('d, 'm) prog_world_scheme, bool) prog" where
  "Informative_ReinitNSSafe E os device asq acq ms = reinit E os device asq acq ms (\<lambda>E. ret ())"

text \<open>\<open>with_acq\<close> and \<open>with_asq\<close> pass no value on, so what \<open>Reinit\<close> returns is left out: it returns true or throws.\<close>

definition init_body :: "'d device_env \<Rightarrow> 'd os \<Rightarrow> (nat \<Rightarrow> u8 list) \<Rightarrow> (('d, 'm) prog_world_scheme, unit) prog" where
  "init_body E os device =
     sq (SetBaseDumpDir False)
    (bnd (with_fs E (\<lambda>E. FileSystem_CleanDumpDir os (su_fs E))) (\<lambda>ok.
     sq (throw_if (\<not> ok) (FrmwkEx []))
    (sq (SetBaseDumpDir True)
    (bnd (with_fs E (\<lambda>E. FileSystem_CleanDumpDir os (su_fs E))) (\<lambda>ok.
     sq (throw_if (\<not> ok) (FrmwkEx []))
        (session_body E (\<lambda>acq asq. bnd (Informative_Reinit E os device asq acq 10000) (\<lambda>_. ret ()))))))))"

definition Informative_Init :: "'d device_env \<Rightarrow> 'd os \<Rightarrow> (nat \<Rightarrow> u8 list) \<Rightarrow> (('d, 'm) prog_world_scheme, bool) prog" where
  "Informative_Init E os device =
     bnd (try_catch (sq (init_body E os device) (ret True)) False) (\<lambda>status.
     bnd (set_state E ST_DISABLE_COMPLETELY) (\<lambda>_. ret status))"

section \<open>What a command leaves alone\<close>

text \<open>The Identify data of the cache, and the buffers below \<open>n\<close>.\<close>

definition untouched :: "nat \<Rightarrow> ('d, 'm) world_scheme \<Rightarrow> ('d, 'm) world_scheme \<Rightarrow> bool" where
  "untouched n s t \<longleftrightarrow> n \<le> wd_next t \<and> (\<forall>r<n. wd_bufs t r = wd_bufs s r) \<and> mIdentifyCmdCtrlr t = mIdentifyCmdCtrlr s \<and>
     mIdentifyCmdNamspc t = mIdentifyCmdNamspc s"

lemma untouched_kern: "untouched n s (t\<lparr>kern := d\<rparr>) = untouched n s t"
  by (simp add: untouched_def)

lemma request_untouched:
  "keeps (untouched n s) (ioctl1 f)" "keeps (untouched n s) (ioctl2 g)"
  by (auto simp: keeps_def ioctl1_apply ioctl2_apply untouched_kern split: prod.splits)

lemma only_kern_untouched:
  fixes m :: "(('d, 'm) world_scheme, 'a) prog"
  assumes "\<And>s. keeps (only_kern s) m"
  shows "keeps (untouched n s) m"
proof (rule keeps_frame [OF assms])
  fix a b :: "('d, 'm) world_scheme" assume "only_kern a b" and a: "untouched n s a"
  then have "b = a\<lparr>kern := kern b\<rparr>" by (simp add: only_kern_def)
  then show "untouched n s b" using a untouched_kern by metis
qed

lemma keeps_snd:
  assumes "keeps J m" shows "keeps (J \<circ> snd) (onr m)"
  using assms by (auto simp: keeps_def split: prod.splits)

lemma keeps_snd_onl: "keeps (J \<circ> snd) (onl m)"
  by (auto simp: keeps_def split: prod.splits)

lemma new_mb_untouched:
  assumes "\<And>r. n \<le> r \<Longrightarrow> keeps (untouched n s) (k r)"
  shows "keeps (untouched n s) (bnd new_mb k)"
proof (unfold keeps_def, intro allI impI)
  fix t assume t: "untouched n s t"
  then have "untouched n s (t\<lparr>wd_bufs := (wd_bufs t)(wd_next t := MemBuffer_new), wd_next := wd_next t + 1\<rparr>)" "n \<le> wd_next t"
    by (auto simp: untouched_def)
  then show "untouched n s (snd (bnd new_mb k t))"
    using keepsD [OF assms] by (simp add: new_mb_def bnd_apply)
qed

lemma on_mb_untouched: "n \<le> r \<Longrightarrow> keeps (untouched n s) (on_mb r m)"
  by (auto simp: keeps_def on_mb_def zoom_apply untouched_def split: prod.splits)

lemma load_untouched: "keeps (untouched n (s :: ('d, 'm) world_scheme)) (q_load b p k)"
proof -
  have "snd (q_load b p k t) = t" for t :: "('d, 'm) world_scheme"
    by (cases b) (auto simp: on_mb_def zoom_apply mb_load_def split: option.splits prod.splits)
  then show ?thesis by (simp add: keeps_def)
qed

lemma peek_untouched: "keeps (untouched n s) (peek_loop b w i j k)"
  by (induction k arbitrary: j) (auto intro: load_untouched wf_intros)

named_theorems untouched_intros \<open>what keeps the cache and the older buffers\<close>

lemmas untouched_basics [untouched_intros] =
  request_untouched only_kern_untouched [OF IsStateEnabled_keeps] load_untouched peek_untouched
  keeps_ret keeps_raise keeps_gets keeps_throw_if keeps_lift_result keeps_bnd keeps_sq keeps_if keeps_split keeps_snd keeps_snd_onl

lemma queue_untouched [untouched_intros]:
  "keeps (untouched n s) (CQ_PeekCE q i)" "keeps (untouched n s) (CQ_LogCE q i)"
  "keeps (untouched n s) (CQ_GetQMetrics drv q)" "keeps (untouched n s) (CQ_ReapInquiry drv q)"
  "keeps (untouched n s) (get_time drv)"
  unfolding CQ_LogCE_def CQ_PeekCE_def CQ_GetQMetrics_def CQ_ReapInquiry_def get_time_def
  by (auto intro!: untouched_intros)

lemma poll_untouched: "keeps (untouched n s) (reap_wait_loop drv q ms t0 enough fuel out)"
  by (induction fuel arbitrary: out) (auto simp: CQ_CalcTimeout_def intro!: untouched_intros)

lemma wait_untouched [untouched_intros]: "keeps (untouched n s) (CQ_ReapInquiryWaitSpecify drv fuel q ms k out)"
  unfolding CQ_ReapInquiryWaitSpecify_def CQ_DoReapInquiry_def CQ_log_timeout_def
  by (auto intro!: untouched_intros poll_untouched)

lemma reap_untouched: "n \<le> r \<Longrightarrow> keeps (untouched n s) (CQ_Reap C drv q r k z f)"
  unfolding CQ_Reap_def Let_def by (auto intro!: untouched_intros on_mb_untouched)

lemma dump_untouched [untouched_intros]: "keeps I (dump_as fs a x y)" "keeps I (dump_if b fs a x)"
  unfolding dump_if_def dump_as_def by (auto intro!: wf_intros)

lemma Send_untouched [untouched_intros]: "keeps (untouched n s \<circ> snd) (sq_Send drv M q)"
  unfolding sq_Send_def ASQ_Send_def SQ_Send_def CtrlrConfig_IrqsEnabled_def CtrlrConfig_GetIrqScheme_def
  by (auto intro!: untouched_intros)

lemma Ring_untouched [untouched_intros]: "keeps (untouched n s) (SQ_Ring drv q)"
  unfolding SQ_Ring_def by (auto intro!: untouched_intros)

lemma WaitForReap_untouched [untouched_intros]: "keeps (untouched n s) (IO_WaitForReap drv fuel fs a ms q name out)"
  unfolding IO_WaitForReap_def by (auto intro!: untouched_intros)

lemma RetrieveCE_untouched [untouched_intros]: "keeps (untouched n s) (IO_RetrieveCE C drv fs a q k f)"
  unfolding IO_RetrieveCE_def IO_AttemptRetrieveCE_def
  by (auto intro!: untouched_intros new_mb_untouched reap_untouched)

lemma send_admin_untouched [untouched_intros]: "keeps (untouched n s \<circ> snd) (send_admin E a ms asq acq)"
  unfolding send_admin_def IO_SendAndReapCmd_def IO_SendAndReapCmd_with_def send_and_wait_def IO_SendCmd_def IO_ReapCE_def
  by (auto intro!: untouched_intros)

section \<open>What an Identify command stores\<close>

lemma id_buffer:
  assumes "MemBuffer_InitAlignment C 4096 PRP_BUFFER_ALIGNMENT True 0 None b = (Inr (), b')"
  shows "mRealBaseAddr b' = Some (replicate 4096 0) \<and> mVirOff b' = 0 \<and> mVirBufSize b' = 4096"
proof (cases "memfail C 4096")
  case True
  then show ?thesis
    using assms by (simp add: MemBuffer_InitAlignment_def posix_memalign_def PRP_BUFFER_ALIGNMENT_def sq_apply)
next
  case False
  have "posix_memalign C PRP_BUFFER_ALIGNMENT 4096 = Inr (fresh C (unat (4096 :: u32)))"
    by (rule posix_memalign_128) (simp add: False)
  from InitAlignment_zeroed [OF this, of b] assms show ?thesis by (auto simp: PRP_BUFFER_ALIGNMENT_def)
qed

lemma dma_whole:
  assumes "mRealBaseAddr b = Some m" "mVirOff b = 0" "length m = 4096" "mVirBufSize b = 4096" "length bs = 4096"
  shows "mb_bytes (dma_write bs b) = Some bs"
  using assms by (simp add: mb_bytes_def dma_write_def peek_def)

lemma send_admin_cmd:
  fixes s t :: "('d, 'm) world_scheme"
  assumes "send_admin E a ms asq acq (c, s) = (Inr (), (c', t))" and "cmd_ok c" and "0 < cmd_size c"
  shows "\<exists>v. c' = set_dw c 0 v"
proof -
  obtain st where "IO_SendAndReapCmd (su_libc E) (su_drv E) (su_fuel E) (su_masks E) (su_fs E) a ms asq acq
      [CESTAT_SUCCESS] (c, s) = (Inr st, (c', t))"
    using assms(1) by (auto simp: send_admin_def bnd_Inr_iff)
  from SendAndReapCmd_run [OF this] SetCID_run [OF assms(2,3)] show ?thesis by auto
qed

lemma cmd_ok_data [simp]:
  "cmd_ok (c\<lparr>mBufRW := r, mBufSize := n, mPrpFields := f\<rparr>) = cmd_ok c"
  "cmd_size (c\<lparr>mBufRW := r, mBufSize := n, mPrpFields := f\<rparr>) = cmd_size c"
  "cmd_dw (c\<lparr>mBufRW := r, mBufSize := n, mPrpFields := f\<rparr>) i = cmd_dw c i"
  by (simp_all add: cmd_ok_def cmd_size_def cmd_dw_def)

text \<open>The command returned holds the device's bytes; older buffers and the cache are as before.\<close>

lemma send_identify_stores:
  fixes s t :: "('d, 'm) world_scheme"
  assumes run: "send_identify E a ms asq acq fill bs s = (Inr c, t)" and bs: "length bs = 4096"
    and fill: "\<And>c0. Identify_Identify (su_libc E) (su_masks E) = Inr c0 \<Longrightarrow> \<exists>c1. fill c0 = (Inr (), c1) \<and> cmd_ok c1 \<and> cmd_size c1 = 16 \<and> Q c1"
  shows "\<exists>r c1 v. mBufRW c = Some r \<and> wd_next s \<le> r \<and> r < wd_next t \<and> has_data c bs t \<and> untouched (wd_next s) s t \<and>
    Q c1 \<and> cmd_ok c \<and> cmd_size c = 16 \<and> (\<forall>i. 0 < i \<and> i < 16 \<longrightarrow> cmd_dw c i = cmd_dw c1 i)"
proof -
  let ?r = "wd_next s"
  let ?s = "s\<lparr>wd_bufs := (wd_bufs s)(?r := MemBuffer_new), wd_next := ?r + 1\<rparr>"
  let ?init = "MemBuffer_InitAlignment (su_libc E) 4096 PRP_BUFFER_ALIGNMENT True 0 None"
  obtain c0 where c0: "Identify_Identify (su_libc E) (su_masks E) = Inr c0"
    using run by (auto simp: send_identify_def bnd_Inr_iff split: sum.splits)
  obtain c1 where c1: "fill c0 = (Inr (), c1)" "cmd_ok c1" "cmd_size c1 = 16" "Q c1" using fill [OF c0] by auto
  let ?p = "MASK_PRP1_PAGE (su_masks E) OR MASK_PRP2_PAGE (su_masks E)"
  have "bnd (onr new_mb) (\<lambda>mem. sq (onr (on_mb mem ?init)) (bnd (gets (\<lambda>(c, s). wd_bufs s mem)) (\<lambda>b.
      sq (onl (PrpData_SetPrpBuffer ?p mem b)) (sq (send_admin E a (ucast ms) asq acq) (onr (on_mb mem (modify (dma_write bs)))))))) (c1, s) =
      (Inr (), (c, t))"
    using run c0 c1(1) by (auto simp: send_identify_def bnd_Inr_iff with_new_Inr sq_apply [of "onl fill"])
  then have "sq (onr (on_mb ?r ?init)) (bnd (gets (\<lambda>(c, s). wd_bufs s ?r)) (\<lambda>b.
      sq (onl (PrpData_SetPrpBuffer ?p ?r b)) (sq (send_admin E a (ucast ms) asq acq) (onr (on_mb ?r (modify (dma_write bs))))))) (c1, ?s) =
      (Inr (), (c, t))"
    by (simp add: bnd_apply new_mb_def)
  then obtain u where "on_mb ?r ?init ?s = (Inr (), u)" and rest: "(bnd (gets (\<lambda>(c, s). wd_bufs s ?r)) (\<lambda>b.
      sq (onl (PrpData_SetPrpBuffer ?p ?r b)) (sq (send_admin E a (ucast ms) asq acq) (onr (on_mb ?r (modify (dma_write bs))))))) (c1, u) =
      (Inr (), (c, t))"
    by (auto simp: sq_Inr_iff onr_Inr simp del: onr_apply)
  then obtain b where b: "?init MemBuffer_new = (Inr (), b)" and u: "u = ?s\<lparr>wd_bufs := (wd_bufs ?s)(?r := b)\<rparr>"
    by (auto simp: on_mb_def zoom_apply split: prod.splits)
  let ?s1 = "?s\<lparr>wd_bufs := (wd_bufs ?s)(?r := b)\<rparr>"
  obtain c2 where c2: "PrpData_SetPrpBuffer ?p ?r b c1 = (Inr (), c2)"
    and rest2: "sq (send_admin E a (ucast ms) asq acq) (onr (on_mb ?r (modify (dma_write bs)))) (c2, ?s1) = (Inr (), (c, t))"
    using rest u by (auto simp: sq_Inr_iff onl_Inr simp del: onl_apply onr_apply)
  then obtain t1 where send: "send_admin E a (ucast ms) asq acq (c2, ?s1) = (Inr (), (c, t1))"
    and t: "t = t1\<lparr>wd_bufs := (wd_bufs t1)(?r := dma_write bs (wd_bufs t1 ?r))\<rparr>"
    by (auto simp: sq_Inr_iff onr_Inr on_mb_def zoom_apply simp del: onr_apply)
  note b' = id_buffer [OF b]
  have eq: "c2 = c1\<lparr>mBufRW := Some ?r, mBufSize := 4096, mPrpFields := ?p\<rparr>"
    using c2 b' by (auto simp: PrpData_SetPrpBuffer_def MemBuffer_GetBufSize_def split: if_splits)
  have "untouched (?r + 1) ?s1 ?s1" by (simp add: untouched_def)
  then have u1: "untouched (?r + 1) ?s1 t1"
    using keepsD [OF send_admin_untouched [of "?r + 1" ?s1 E a "ucast ms" asq acq], of "(c2, ?s1)"] send by simp
  then have "wd_bufs t1 ?r = b" by (simp add: untouched_def)
  then have "mb_bytes (wd_bufs t ?r) = Some bs" using t dma_whole [of b _ bs] b' bs by simp
  moreover obtain v where v: "c = set_dw c2 0 v" using send_admin_cmd [OF send] c1 eq by auto
  ultimately have "has_data c bs t" "mBufRW c = Some ?r" using eq bs by (simp_all add: has_data_def)
  moreover have "untouched ?r s t" "?r < wd_next t" using u1 t by (auto simp: untouched_def)
  moreover have "cmd_ok c" "cmd_size c = 16" "\<forall>i. 0 < i \<and> i < 16 \<longrightarrow> cmd_dw c i = cmd_dw c1 i"
    using v eq c1 by (simp_all add: cmd_dw_set_other)
  ultimately show ?thesis using c1(4) by blast
qed

section \<open>The structures of the namespaces\<close>

lemma Identify_built:
  assumes "Identify_Identify C M = Inr c"
  shows "cmd_ok c \<and> cmd_size c = 16"
proof -
  obtain c0 where c0: "Cmd_Cmd OBJ_IDENTIFY = Inr c0" using Cmd_Cmd_total [of OBJ_IDENTIFY] by auto
  have "\<not> memfail C 64"
  proof
    assume m: "memfail C 64"
    have "\<exists>e c1. Cmd_Init C 0x06 DATADIR_FROM_DEVICE 64 c0 = (Inl e, c1)"
      using m by (simp add: Cmd_Init_def sq_apply on_buf_def zoom_apply MemBuffer_InitAlignment_def posix_memalign_def
          PRP_BUFFER_ALIGNMENT_def)
    then show False using assms c0 by (auto simp: Identify_Identify_def new_cmd_def sq_apply)
  qed
  then obtain c' where "new_cmd C M OBJ_IDENTIFY 0x06 DATADIR_FROM_DEVICE 64 (MASK_PRP1_PAGE M OR MASK_PRP2_PAGE M) = Inr c'"
    "cmd_ok c'" "cmd_size c' = 16"
    using new_cmd_ok [OF c0, where C = C and M = M and dir = DATADIR_FROM_DEVICE and opc = "0x06"
        and allowed = "MASK_PRP1_PAGE M OR MASK_PRP2_PAGE M"] prp_masks_allowed(2) by blast
  then show ?thesis using assms by (simp add: Identify_Identify_def)
qed

lemma SetCNS_run:
  assumes "cmd_ok c" and "cmd_size c = 16"
  shows "\<exists>c'. Identify_SetCNS cns c = (Inr (), c') \<and> cmd_ok c' \<and> cmd_size c' = 16 \<and> dw_get (10, 0, 8) c' = ucast cns"
proof -
  have ok: "dw_ok (10, 0, 8) c" using assms by (simp add: dw_ok_def field_ok_def)
  have "take_bit 8 (ucast cns :: u32) = ucast cns"
    by (rule bit_word_eqI) (auto simp: bit_simps dest: bit_imp_le_length)
  moreover have "cmd_ok (dw_put (10, 0, 8) v c)" "cmd_size (dw_put (10, 0, 8) v c) = 16" for v
    using assms by (simp_all add: dw_put_def)
  ultimately show ?thesis
    using SetByte_put [of 10 0 c cns] ok by (simp add: Identify_SetCNS_def dw_get_put_same)
qed

lemma GetCNS_same:
  assumes "cmd_ok c" and "cmd_size c = 16" and "cmd_dw c 10 = cmd_dw c1 10" and "dw_get (10, 0, 8) c1 = ucast cns"
  shows "fst (Identify_GetCNS c) = Inr cns"
proof -
  have "dw_get (10, 0, 8) c = ucast cns" using assms(3,4) by (simp add: dw_get_def)
  moreover have "(ucast (ucast cns :: u32) :: u8) = cns"
    by (rule bit_word_eqI) (auto simp: bit_simps dest: bit_imp_le_length)
  ultimately show ?thesis
    using GetByte_get [of 10 0 c] assms(1,2) by (simp add: Identify_GetCNS_def dw_ok_def field_ok_def)
qed

lemma has_data_later:
  "has_data c bs u \<Longrightarrow> mBufRW c = Some r \<Longrightarrow> wd_bufs t r = wd_bufs u r \<Longrightarrow> has_data c bs t"
  by (simp add: has_data_def)

lemma ctrlr_stored:
  fixes s t :: "('d, 'm) world_scheme"
  assumes "Informative_SendIdentifyCtrlrStruct E device asq acq ms s = (Inr (), t)" and "length (device 0) = 4096"
  shows "\<exists>c r. mIdentifyCmdCtrlr t = Some c \<and> mBufRW c = Some r \<and> r < wd_next t \<and> has_data c (device 0) t \<and>
    fst (Identify_GetCNS c) = Inr CNS_Controller \<and> mIdentifyCmdNamspc t = mIdentifyCmdNamspc s"
proof -
  let ?call = "informative_call ''IdCtrlStruct'' True"
  obtain c u where run: "send_identify E ?call ms asq acq (Identify_SetCNS CNS_Controller) (device 0) s = (Inr c, u)"
    and t: "t = u\<lparr>mIdentifyCmdCtrlr := Some c\<rparr>"
    using assms(1) by (auto simp: Informative_SendIdentifyCtrlrStruct_def bnd_Inr_iff)
  have "\<exists>c1. Identify_SetCNS CNS_Controller c0 = (Inr (), c1) \<and> cmd_ok c1 \<and> cmd_size c1 = 16 \<and> dw_get (10, 0, 8) c1 = ucast CNS_Controller"
    if "Identify_Identify (su_libc E) (su_masks E) = Inr c0" for c0
    using SetCNS_run Identify_built [OF that] by blast
  from send_identify_stores [OF run assms(2) this] obtain r c1 where
    r: "mBufRW c = Some r" "r < wd_next u" "has_data c (device 0) u" "untouched (wd_next s) s u"
    and c: "dw_get (10, 0, 8) c1 = ucast CNS_Controller" "cmd_ok c" "cmd_size c = 16" "cmd_dw c 10 = cmd_dw c1 10" by force
  have "has_data c (device 0) t" using r(3) t by (simp add: has_data_def)
  then show ?thesis using r t GetCNS_same [OF c(2-4) c(1)] by (auto simp: untouched_def)
qed

text \<open>One entry for each namespace, in order; earlier buffers stay as they are.\<close>

lemma namspc_stored:
  fixes s t :: "('d, 'm) world_scheme"
  assumes "namspc_loop E device asq acq ms i n s = (Inr (), t)" and "\<forall>k. length (device k) = 4096"
  shows "\<exists>cs. mIdentifyCmdNamspc t = mIdentifyCmdNamspc s @ map Some cs \<and> length cs = n \<and>
    (\<forall>k<n. has_data (cs ! k) (device (i + k)) t \<and> cmd_dw (cs ! k) 1 = of_nat (i + k)) \<and>
    mIdentifyCmdCtrlr t = mIdentifyCmdCtrlr s \<and> wd_next s \<le> wd_next t \<and> (\<forall>r<wd_next s. wd_bufs t r = wd_bufs s r)"
  using assms(1)
proof (induction n arbitrary: i s)
  case 0
  then show ?case by auto
next
  case (Suc n)
  let ?call = "informative_call (take 19 (''idCmdNamSpc-'' @ numeral_of 10 i)) True"
  let ?fill = "sq (Identify_SetCNS CNS_Namespace) (Cmd_SetNSID (of_nat i))"
  obtain c u where run: "send_identify E ?call ms asq acq ?fill (device i) s = (Inr c, u)"
    and rest: "namspc_loop E device asq acq ms (i + 1) n (u\<lparr>mIdentifyCmdNamspc := mIdentifyCmdNamspc u @ [Some c]\<rparr>) = (Inr (), t)"
    using Suc.prems by (auto simp: bnd_Inr_iff)
  have "\<exists>c1. ?fill c0 = (Inr (), c1) \<and> cmd_ok c1 \<and> cmd_size c1 = 16 \<and> cmd_dw c1 1 = of_nat i"
    if "Identify_Identify (su_libc E) (su_masks E) = Inr c0" for c0
  proof -
    note built = Identify_built [OF that]
    obtain c1 where c1: "Identify_SetCNS CNS_Namespace c0 = (Inr (), c1)" "cmd_ok c1" "cmd_size c1 = 16"
      using SetCNS_run built by blast
    then show ?thesis using SetDword_ok [of c1 1 "of_nat i"] by (simp add: sq_apply Cmd_SetNSID_def cmd_dw_set_same)
  qed
  from send_identify_stores [OF run _ this] assms(2) obtain r c1 where
    r: "mBufRW c = Some r" "wd_next s \<le> r" "r < wd_next u" "has_data c (device i) u" "untouched (wd_next s) s u"
    and c: "cmd_dw c 1 = of_nat i" by force
  from Suc.IH [OF rest] obtain cs where cs:
    "mIdentifyCmdNamspc t = mIdentifyCmdNamspc u @ [Some c] @ map Some cs" "length cs = n"
    "\<forall>k<n. has_data (cs ! k) (device (i + 1 + k)) t \<and> cmd_dw (cs ! k) 1 = of_nat (i + 1 + k)"
    "mIdentifyCmdCtrlr t = mIdentifyCmdCtrlr u" "wd_next u \<le> wd_next t" "\<forall>r<wd_next u. wd_bufs t r = wd_bufs u r" by auto
  have "has_data c (device i) t" by (rule has_data_later [OF r(4,1)]) (use cs(6) r(3) in blast)
  then have "\<forall>k<Suc n. has_data ((c # cs) ! k) (device (i + k)) t \<and> cmd_dw ((c # cs) ! k) 1 = of_nat (i + k)"
    using cs(3) c by (auto simp: less_Suc_eq_0_disj)
  then show ?case using cs r(5) by (intro exI [of _ "c # cs"]) (auto simp: untouched_def)
qed

section \<open>The cache after a run of \<open>Reinit\<close>\<close>

lemma dumps_untouched [untouched_intros]:
  fixes s :: "('d, 'm) world_scheme"
  shows "keeps (untouched n s) (Registers_Read_pci drv j v)" "keeps (untouched n s) (Registers_Read_ctl drv j v)"
    "keeps (untouched n s) (Registers_Read_bytes drv spc sz off b)"
    "keeps (untouched n s) (asks g)" "keeps (untouched n s) (shell os x)"
proof -
  have regs: "keeps (untouched n s) (Registers_Read_value drv spc sz off v)" for spc sz off v
    by (rule only_kern_untouched) (rule Read_value_keeps)
  show "keeps (untouched n s) (Registers_Read_pci drv j v)" "keeps (untouched n s) (Registers_Read_ctl drv j v)"
    by (auto simp: Registers_Read_pci_def Registers_Read_ctl_def keeps_def Let_def intro: keepsD [OF regs])
  show "keeps (untouched n s) (Registers_Read_bytes drv spc sz off b)"
    unfolding Registers_Read_bytes_def by (auto intro!: untouched_intros)
  show "keeps (untouched n s) (asks g)" "keeps (untouched n s) (shell os x)"
    by (auto simp: keeps_def asks_def shell_def untouched_kern split: prod.splits)
qed

lemma loops_untouched [untouched_intros]:
  fixes s :: "('d, 'm) world_scheme"
  shows "keeps (untouched n s) (dump_ctl_loop C drv rs v)" "keeps (untouched n s) (dump_hdr_loop drv js v)"
    "keeps (untouched n s) (dump_cap_loop C drv cap js v)" "keeps (untouched n s) (dump_caps_loop C drv caps v)"
proof -
  show "keeps (untouched n s) (dump_ctl_loop C drv rs v)"
    by (induction rs arbitrary: v) (auto simp: read_long_def intro!: untouched_intros)
  show "keeps (untouched n s) (dump_hdr_loop drv js v)"
    by (induction js arbitrary: v) (auto intro!: untouched_intros)
  have cap: "keeps (untouched n s) (dump_cap_loop C drv cap js v)" for cap js v
    by (induction js arbitrary: v) (auto simp: read_long_def intro!: untouched_intros)
  then show "keeps (untouched n s) (dump_cap_loop C drv cap js v)" .
  show "keeps (untouched n s) (dump_caps_loop C drv caps v)"
    by (induction caps arbitrary: v) (auto intro!: untouched_intros cap)
qed

lemma steps_untouched [untouched_intros]:
  fixes s :: "('d, 'm) world_scheme"
  shows "keeps (untouched n s) (informative_dumps E os)"
    "keeps (untouched n s) (Informative_SendGetFeaturesNumOfQueues E asq acq ms)"
proof -
  show "keeps (untouched n s) (informative_dumps E os)"
    unfolding informative_dumps_def KernelAPI_DumpPciSpaceRegs_def KernelAPI_DumpCtrlrSpaceRegs_def opened_def
    by (auto intro!: untouched_intros)
  have store: "keeps (untouched n s) (modify (\<lambda>s. s\<lparr>mGetFeaturesNumOfQ := v\<rparr>))" for v
    by (simp add: keeps_def untouched_def)
  have reap: "keeps (untouched n s) (reap_num_queues E acq ms)"
    unfolding reap_num_queues_def by (auto intro!: untouched_intros new_mb_untouched reap_untouched store)
  have new: "keeps (untouched n s) (with_new c m)" if "keeps (untouched n s \<circ> snd) m"
    for c and m :: "(cmd \<times> ('d, 'm) world_scheme, unit) prog"
  proof (unfold keeps_def, intro allI impI)
    fix t assume "untouched n s t"
    then have "untouched n s (snd (snd (m (c, t))))" using keepsD [OF that, of "(c, t)"] by simp
    then show "untouched n s (snd (with_new c m t))" by (auto simp: with_new_def split: prod.splits sum.splits)
  qed
  show "keeps (untouched n s) (Informative_SendGetFeaturesNumOfQueues E asq acq ms)"
    unfolding Informative_SendGetFeaturesNumOfQueues_def by (auto intro!: untouched_intros new reap)
qed

lemma with_fs_apply: "with_fs E k s = k (E\<lparr>su_fs := fsys s\<rparr>) s"
  by (simp add: with_fs_def bnd_apply)

lemma has_data_dir [simp]: "has_data c bs (s\<lparr>fsys := f\<rparr>) = has_data c bs s"
  by (simp add: has_data_def)

lemma NN_row: "idt_length (mIdCtrlrCapMetrics ! IDCTRLRCAP_NN) = 4" "idt_offset (mIdCtrlrCapMetrics ! IDCTRLRCAP_NN) = 516"
  by (simp_all add: mIdCtrlrCapMetrics_def psd_table_def mkId_def)

text \<open>From the empty cache on: the controller structure, then as many namespaces as it says.\<close>

lemma identify_all:
  fixes s u t :: "('d, 'm) world_scheme"
  assumes "Informative_SendIdentifyCtrlrStruct E device asq acq ms s = (Inr (), u)"
    and "Informative_SendIdentifyNamespaceStruct E' device asq acq ms u = (Inr (), t)"
    and "\<forall>k. length (device k) = 4096" and "mIdentifyCmdNamspc s = []"
  shows "\<exists>c cs. mIdentifyCmdCtrlr t = Some c \<and> has_data c (device 0) t \<and> fst (Identify_GetCNS c) = Inr CNS_Controller \<and>
    mIdentifyCmdNamspc t = map Some cs \<and> length cs = unat (of_le (take 4 (drop 516 (device 0)))) \<and> cs \<noteq> [] \<and>
    (\<forall>k<length cs. has_data (cs ! k) (device (k + 1)) t \<and> cmd_dw (cs ! k) 1 = of_nat (k + 1))"
proof -
  let ?nn = "of_le (take 4 (drop 516 (device 0)))"
  obtain c r where c: "mIdentifyCmdCtrlr u = Some c" "mBufRW c = Some r" "r < wd_next u" "has_data c (device 0) u"
    "fst (Identify_GetCNS c) = Inr CNS_Controller" "mIdentifyCmdNamspc u = []"
    using ctrlr_stored [OF assms(1)] assms(3,4) by auto
  have "Identify_GetValue_ctrlr c IDCTRLRCAP_NN u = (Inr ?nn, u)"
    using GetValue_ctrlr_decodes [OF c(4,5), of IDCTRLRCAP_NN] NN_row assms(3) by simp
  then have nn: "?nn \<noteq> 0" and loop: "namspc_loop E' device asq acq ms 1 (unat ?nn) u = (Inr (), t)"
    using assms(2) c(1)
    by (auto simp: Informative_SendIdentifyNamespaceStruct_def bnd_apply sq_apply Informative_GetIdentifyCmdCtrlr_def
        throw_if_def raise_def ret_def split: if_splits)
  from namspc_stored [OF loop assms(3)] c(6) obtain cs where
    cs: "mIdentifyCmdNamspc t = map Some cs" "length cs = unat ?nn"
      "\<forall>k<unat ?nn. has_data (cs ! k) (device (1 + k)) t \<and> cmd_dw (cs ! k) 1 = of_nat (1 + k)"
    and t: "mIdentifyCmdCtrlr t = mIdentifyCmdCtrlr u" "\<forall>r<wd_next u. wd_bufs t r = wd_bufs u r" by auto
  have "has_data c (device 0) t" by (rule has_data_later [OF c(4,2)]) (use t(2) c(3) in blast)
  moreover have "cs \<noteq> []" using nn cs(2) by (auto simp: unat_eq_zero)
  ultimately show ?thesis using c(1,5) cs t(1) by (intro exI [of _ c] exI [of _ cs]) (auto simp: add.commute)
qed

end
