(* ===== verification/Conformant.thy ===== *)
theory Conformant
  imports Device_Helpers Nvm_Cmds
begin

text \<open>
  What the framework does on a device that works: a contract of the driver and the device behind it, and the
  proof that under this contract commands are sent, completed and reaped and that the single-command modes
  succeed. The contract speaks of two functions of the driver's state: the number of completion entries
  pending, and whether the controller is enabled.
\<close>

section \<open>Total correctness\<close>

text \<open>\<open>runs P m Q\<close>: from a state in \<open>P\<close> the program returns, without an exception, in a state and with a value in \<open>Q\<close>.\<close>

definition runs :: "('s \<Rightarrow> bool) \<Rightarrow> ('s, 'a) prog \<Rightarrow> ('a \<Rightarrow> 's \<Rightarrow> bool) \<Rightarrow> bool" where
  "runs P m Q \<longleftrightarrow> (\<forall>s. P s \<longrightarrow> (\<exists>x t. m s = (Inr x, t) \<and> Q x t))"

named_theorems runs_rules \<open>total-correctness rules of the combinators\<close>

lemma runsD: "runs P m Q \<Longrightarrow> P s \<Longrightarrow> \<exists>x t. m s = (Inr x, t) \<and> Q x t"
  by (simp add: runs_def)

lemma runs_bnd [runs_rules]: "runs P m R \<Longrightarrow> (\<And>x. runs (R x) (k x) Q) \<Longrightarrow> runs P (bnd m k) Q"
  unfolding runs_def bnd_apply by fastforce

lemma runs_sq [runs_rules]: "runs P m (\<lambda>_. R) \<Longrightarrow> runs R k Q \<Longrightarrow> runs P (sq m k) Q"
  unfolding sq_def by (rule runs_bnd)

lemma runs_ret [runs_rules]: "(\<And>s. P s \<Longrightarrow> Q x s) \<Longrightarrow> runs P (ret x) Q"
  by (simp add: runs_def)

lemma runs_gets [runs_rules]: "(\<And>s. P s \<Longrightarrow> Q (f s) s) \<Longrightarrow> runs P (gets f) Q"
  by (simp add: runs_def)

lemma runs_modify [runs_rules]: "(\<And>s. P s \<Longrightarrow> Q () (f s)) \<Longrightarrow> runs P (modify f) Q"
  by (simp add: runs_def)

lemma runs_throw_if [runs_rules]: "(\<And>s. P s \<Longrightarrow> \<not> b \<and> Q () s) \<Longrightarrow> runs P (throw_if b e) Q"
  by (simp add: runs_def)

lemma runs_lift [runs_rules]: "(\<And>s. P s \<Longrightarrow> \<exists>x. r = Inr x \<and> Q x s) \<Longrightarrow> runs P (lift_result r) Q"
  by (auto simp: runs_def)

lemma runs_conseq: "runs P' m Q' \<Longrightarrow> (\<And>s. P s \<Longrightarrow> P' s) \<Longrightarrow> (\<And>x s. Q' x s \<Longrightarrow> Q x s) \<Longrightarrow> runs P m Q"
  unfolding runs_def by blast

lemma runs_pre: "(\<And>s. P s \<Longrightarrow> runs ((=) s) m Q) \<Longrightarrow> runs P m Q"
  by (simp add: runs_def)

lemma runs_onr [runs_rules]:
  "(\<And>q. runs (\<lambda>w. P (q, w)) m (\<lambda>x w. Q x (q, w))) \<Longrightarrow> runs P (onr m) Q"
  unfolding runs_def onr_apply by fastforce

lemma runs_onl [runs_rules]:
  "(\<And>w. runs (\<lambda>q. P (q, w)) m (\<lambda>x q. Q x (q, w))) \<Longrightarrow> runs P (onl m) Q"
  unfolding runs_def onl_apply by fastforce

lemma runs_with_new [runs_rules]:
  "runs (\<lambda>(y, w). y = x \<and> P w) m (\<lambda>v (y, w). Q (v, y) w) \<Longrightarrow> runs P (with_new x m) Q"
  unfolding runs_def with_new_def by fastforce

lemma runs_scoped [runs_rules]:
  assumes "runs P m R" and "\<And>x. runs (R x) d (\<lambda>_. Q x)"
  shows "runs P (scoped d m) Q"
  unfolding scoped_def
proof (rule runs_bnd)
  show "runs P (unwinding d m) R" using assms(1) by (simp add: runs_def unwinding_Inr)
  show "runs (R x) (sq d (ret x)) Q" for x by (rule runs_sq [OF assms(2)]) (rule runs_ret)
qed

lemma runs_try_catch [runs_rules]: "runs P m Q \<Longrightarrow> runs P (try_catch m x) Q"
  unfolding runs_def try_catch_def by fastforce

text \<open>The idiom \<open>if (call() == false) ...\<close>, when the call succeeds.\<close>

lemma runs_ok [runs_rules]: "(b \<Longrightarrow> runs P m Q) \<Longrightarrow> runs (\<lambda>s. b \<and> P s) (if \<not> b then m' else m) Q"
  by (simp add: runs_def)

lemma runs_ok' [runs_rules]: "(\<not> b \<Longrightarrow> runs P m Q) \<Longrightarrow> runs (\<lambda>s. \<not> b \<and> P s) (if b then m' else m) Q"
  by (simp add: runs_def)

section \<open>The contract of driver and device\<close>

definition same_device :: "('d \<Rightarrow> nat) \<Rightarrow> ('d \<Rightarrow> bool) \<Rightarrow> 'd \<Rightarrow> 'd \<Rightarrow> bool" where
  "same_device pend en d d' \<longleftrightarrow> pend d' = pend d \<and> en d' = en d"

definition conformant :: "'d dnvme \<Rightarrow> ('d \<Rightarrow> nat) \<Rightarrow> ('d \<Rightarrow> bool) \<Rightarrow> bool" where
  "conformant drv pend en \<longleftrightarrow>
     (\<forall>st d rc d'. io_device_state drv st d = (rc, d') \<longrightarrow> 0 \<le> rc \<and> pend d' = 0 \<and> en d' = (st = ST_ENABLE)) \<and>
     (\<forall>io buf d rc buf' d'. io_read drv io buf d = (rc, buf', d') \<longrightarrow> 0 \<le> rc \<and> same_device pend en d d' \<and>
        (io_type io = NVMEIO_BAR01 \<and> io_offset io = 0x1c \<longrightarrow> (of_le buf' AND 1 \<noteq> 0) = en d)) \<and>
     (\<forall>io buf d rc d'. io_write drv io buf d = (rc, d') \<longrightarrow> 0 \<le> rc \<and> same_device pend en d d') \<and>
     (\<forall>n t d rc d'. io_create_admn_q drv n t d = (rc, d') \<longrightarrow> 0 \<le> rc \<and> same_device pend en d d') \<and>
     (\<forall>n w off d a bs d'. io_mmap drv n w off d = (a, bs, d') \<longrightarrow> a \<noteq> 0 \<and> bs = replicate n 0 \<and> same_device pend en d d') \<and>
     (\<forall>a n d. same_device pend en d (io_munmap drv a n d)) \<and>
     (\<forall>i d. same_device pend en d (snd (io_metabuf_delete drv i d))) \<and>
     (\<forall>req d rc i d'. io_send_64b drv req d = (rc, i, d') \<longrightarrow> 0 \<le> rc \<and> same_device pend en d d') \<and>
     (\<forall>q d rc d'. io_ring_sq drv q d = (rc, d') \<longrightarrow> 0 \<le> rc \<and> pend d' = Suc (pend d) \<and> en d' = en d) \<and>
     (\<forall>q d rc inq d'. io_reap_inquiry drv q d = (rc, inq, d') \<longrightarrow>
        0 \<le> rc \<and> ri_num_remaining inq = of_nat (pend d) \<and> same_device pend en d d') \<and>
     (\<forall>b q d rc m d'. io_q_metrics drv b q d = (rc, m, d') \<longrightarrow> 0 \<le> rc \<and> unat (gq_head_ptr m) < 2 \<and> same_device pend en d d') \<and>
     (\<forall>q n buf d rc r d'. io_reap drv q n buf d = (rc, r, d') \<longrightarrow> pend d = 1 \<longrightarrow>
        0 \<le> rc \<and> rp_num_reaped r = 1 \<and> length (rp_buffer r) \<le> length buf \<and> pend d' = 0 \<and> en d' = en d) \<and>
     (\<forall>d rc tv d'. io_clock drv d = (rc, tv, d') \<longrightarrow> rc = 0 \<and> same_device pend en d d') \<and>
     (\<forall>d d'. timeval_us (fst (snd (io_clock drv d'))) - timeval_us (fst (snd (io_clock drv d))) < 10000000)"

text \<open>The state in which the framework works: \<open>p\<close> entries pending, the controller enabled or not.\<close>

definition ready :: "('d \<Rightarrow> nat) \<Rightarrow> ('d \<Rightarrow> bool) \<Rightarrow> nat \<Rightarrow> bool \<Rightarrow> ('d, 'm) world_scheme \<Rightarrow> bool" where
  "ready pend en p e s \<longleftrightarrow> rg_ok s \<and> meta_inv s \<and> pend (kern s) = p \<and> en (kern s) = e"

text \<open>The memory at an address holds \<open>n\<close> bytes of zeros, that is, entries that say success. The model of a mapping is fixed when
  it is made (\<open>mmaps\<close>); the contract takes dnvme's zeroed queue memory for what a device that succeeds leaves there.\<close>

definition zeros :: "u64 \<Rightarrow> nat \<Rightarrow> ('d, 'm) world_scheme \<Rightarrow> bool" where
  "zeros a n s \<longleftrightarrow> (\<exists>k\<ge>n. mmaps s a = replicate k 0)"

text \<open>The parts of the contract, one for each request.\<close>

lemma cf_state:
  assumes "conformant drv pend en"
  shows "io_device_state drv st d = (rc, d') \<Longrightarrow> 0 \<le> rc \<and> pend d' = 0 \<and> en d' = (st = ST_ENABLE)"
  using assms unfolding conformant_def by (elim conjE) metis

lemma cf_read:
  assumes "conformant drv pend en"
  shows "io_read drv io buf d = (rc, buf', d') \<Longrightarrow> 0 \<le> rc \<and> same_device pend en d d' \<and>
      (io_type io = NVMEIO_BAR01 \<and> io_offset io = 0x1c \<longrightarrow> (of_le buf' AND 1 \<noteq> 0) = en d)"
  using assms unfolding conformant_def by (elim conjE) metis

lemma cf_write:
  assumes "conformant drv pend en"
  shows "io_write drv io buf d = (rc, d') \<Longrightarrow> 0 \<le> rc \<and> same_device pend en d d'"
  using assms unfolding conformant_def by (elim conjE) metis

lemma cf_create:
  assumes "conformant drv pend en"
  shows "io_create_admn_q drv n t d = (rc, d') \<Longrightarrow> 0 \<le> rc \<and> same_device pend en d d'"
  using assms unfolding conformant_def by (elim conjE) metis

lemma cf_mmap:
  assumes "conformant drv pend en"
  shows "io_mmap drv k w off d = (a, bs, d') \<Longrightarrow> a \<noteq> 0 \<and> bs = replicate k 0 \<and> same_device pend en d d'"
  using assms unfolding conformant_def by (elim conjE) metis

lemma cf_munmap:
  assumes "conformant drv pend en"
  shows "same_device pend en d (io_munmap drv a k d)"
  using assms unfolding conformant_def by (elim conjE) metis

lemma cf_delete:
  assumes "conformant drv pend en"
  shows "same_device pend en d (snd (io_metabuf_delete drv i d))"
  using assms unfolding conformant_def by (elim conjE) metis

lemma cf_send:
  assumes "conformant drv pend en"
  shows "io_send_64b drv req d = (rc, uid, d') \<Longrightarrow> 0 \<le> rc \<and> same_device pend en d d'"
  using assms unfolding conformant_def by (elim conjE) metis

lemma cf_ring:
  assumes "conformant drv pend en"
  shows "io_ring_sq drv q d = (rc, d') \<Longrightarrow> 0 \<le> rc \<and> pend d' = Suc (pend d) \<and> en d' = en d"
  using assms unfolding conformant_def by (elim conjE) metis

lemma cf_inquiry:
  assumes "conformant drv pend en"
  shows "io_reap_inquiry drv q d = (rc, inq, d') \<Longrightarrow>
      0 \<le> rc \<and> ri_num_remaining inq = of_nat (pend d) \<and> same_device pend en d d'"
  using assms unfolding conformant_def by (elim conjE) metis

lemma cf_metrics:
  assumes "conformant drv pend en"
  shows "io_q_metrics drv b q d = (rc, m, d') \<Longrightarrow> 0 \<le> rc \<and> unat (gq_head_ptr m) < 2 \<and> same_device pend en d d'"
  using assms unfolding conformant_def by (elim conjE) metis

lemma cf_reap:
  assumes "conformant drv pend en"
  shows "io_reap drv q n' buf d = (rc, r, d') \<Longrightarrow> pend d = 1 \<Longrightarrow>
      0 \<le> rc \<and> rp_num_reaped r = 1 \<and> length (rp_buffer r) \<le> length buf \<and> pend d' = 0 \<and> en d' = en d"
  using assms unfolding conformant_def by (elim conjE) metis

lemma cf_clock:
  assumes "conformant drv pend en"
  shows "io_clock drv d = (rc, tv, d') \<Longrightarrow> rc = 0 \<and> same_device pend en d d'"
  using assms unfolding conformant_def by (elim conjE) metis

lemma cf_fast:
  assumes "conformant drv pend en"
  shows "timeval_us (fst (snd (io_clock drv d'))) - timeval_us (fst (snd (io_clock drv d))) < 10000000"
  using assms unfolding conformant_def by (elim conjE) metis

section \<open>Registers and states\<close>

lemma ready_kern [simp]:
  "ready pend en p e (s\<lparr>kern := d\<rparr>) \<longleftrightarrow> rg_ok s \<and> meta_inv s \<and> pend d = p \<and> en d = e"
  by (simp add: ready_def rg_ok_def meta_inv_def)

lemma ready_other [simp]:
  "ready pend en p e (s\<lparr>mmaps := x\<rparr>) = ready pend en p e s" "ready pend en p e (s\<lparr>wd_bufs := y\<rparr>) = ready pend en p e s"
  "ready pend en p e (s\<lparr>wd_next := z\<rparr>) = ready pend en p e s"
  by (simp_all add: ready_def rg_ok_def meta_inv_def)

lemma zeros_other [simp]:
  "zeros a n (s\<lparr>kern := d\<rparr>) = zeros a n s" "zeros a n (s\<lparr>wd_bufs := y\<rparr>) = zeros a n s" "zeros a n (s\<lparr>wd_next := z\<rparr>) = zeros a n s"
  by (simp_all add: zeros_def)

text \<open>The state between two requests: ready, and zeros in the memory at the addresses listed. All rules below carry it.\<close>

definition steady :: "('d \<Rightarrow> nat) \<Rightarrow> ('d \<Rightarrow> bool) \<Rightarrow> nat \<Rightarrow> bool \<Rightarrow> (u64 \<times> nat) list \<Rightarrow> ('d, 'm) world_scheme \<Rightarrow> bool" where
  "steady pend en p e zs s \<longleftrightarrow> ready pend en p e s \<and> (\<forall>(a, n) \<in> set zs. zeros a n s)"

lemma steady_kern [simp]:
  "steady pend en p e zs (s\<lparr>kern := d\<rparr>) \<longleftrightarrow> rg_ok s \<and> meta_inv s \<and> pend d = p \<and> en d = e \<and> (\<forall>(a, n) \<in> set zs. zeros a n s)"
  by (simp add: steady_def)

lemma steadyD: "steady pend en p e zs s \<Longrightarrow>
    rg_ok s \<and> meta_inv s \<and> pend (kern s) = p \<and> en (kern s) = e \<and> (\<forall>(a, n) \<in> set zs. zeros a n s)"
  by (simp add: steady_def ready_def)

lemma steady_other [simp]:
  "steady pend en p e zs (s\<lparr>wd_bufs := y\<rparr>) = steady pend en p e zs s" "steady pend en p e zs (s\<lparr>wd_next := z\<rparr>) = steady pend en p e zs s"
  by (simp_all add: steady_def)

lemma steady_step:
  assumes "steady pend en p e zs s" and "same_device pend en (kern s) d"
  shows "steady pend en p e zs (s\<lparr>kern := d\<rparr>)"
  using steadyD [OF assms(1)] assms(2) by (simp add: same_device_def)

lemma Read_ctl_runs:
  assumes "conformant drv pend en" and "reg < CTLSPC_FENCE" and "ctl_offset (ctl_table ! reg) \<noteq> USHRT_MAX"
    and "ctl_size (ctl_table ! reg) \<le> 8"
  shows "runs (steady pend en p e zs :: ('d, 'm) world_scheme \<Rightarrow> bool) (Registers_Read_ctl drv reg v) (\<lambda>(ok, x) s. ok \<and> steady pend en p e zs s \<and>
    (ctl_offset (ctl_table ! reg) = 0x1c \<longrightarrow> (\<exists>b. x = REGMASK (of_le b) (unat (ctl_size (ctl_table ! reg))) \<and> (of_le b AND 1 \<noteq> 0) = e)))"
proof -
  let ?r = "ctl_table ! reg" and ?io = "mk_io NVMEIO_BAR01 (ctl_offset (ctl_table ! reg)) (ctl_size (ctl_table ! reg)) (dflt_acc NVMEIO_BAR01)"
  have "\<exists>b d. Registers_Read_ctl drv reg v s = (Inr (True, REGMASK (of_le b) (unat (ctl_size ?r))), s\<lparr>kern := d\<rparr>) \<and>
      steady pend en p e zs (s\<lparr>kern := d\<rparr>) \<and> (ctl_offset ?r = 0x1c \<longrightarrow> (of_le b AND 1 \<noteq> 0) = e)"
    if f: "steady pend en p e zs s" for s :: "('d, 'm) world_scheme"
  proof -
    have ok: "reg < length (rg_pci s)" "ValidSpecRev (pci_specRev (rg_pci s ! reg)) s" "reg < length ctl_table"
      using rg_ok_row [of s reg] assms(2) steadyD [OF f] by (simp_all add: length_ctl_table)
    obtain rc b d where rd: "io_read drv ?io (le64 v) (kern s) = (rc, b, d)" by (metis prod_cases3)
    have rc: "0 \<le> rc" "same_device pend en (kern s) d" "ctl_offset ?r = 0x1c \<longrightarrow> (of_le b AND 1 \<noteq> 0) = e"
      using cf_read [OF assms(1) rd] steadyD [OF f] by (simp_all add: mk_io_def)
    have "Registers_Read_ctl drv reg v s = (Inr (True, REGMASK (of_le b) (unat (ctl_size ?r))), s\<lparr>kern := d\<rparr>)"
      using ok assms(3,4) rd rc(1)
      by (simp add: Registers_Read_ctl_def Registers_Read_value_def Let_def bnd_apply ioctl2_apply word_le_nat_alt not_less)
    then show ?thesis using rc steady_step [OF f rc(2)] by blast
  qed
  then show ?thesis unfolding runs_def by fastforce
qed

lemma IsStateEnabled_runs:
  assumes "conformant drv pend en"
  shows "runs (steady pend en p e zs :: ('d, 'm) world_scheme \<Rightarrow> bool) (CtrlrConfig_IsStateEnabled drv)
    (\<lambda>b s. b = e \<and> steady pend en p e zs s)"
proof -
  have row: "ctl_offset (ctl_table ! CTLSPC_CSTS) = 0x1c" "ctl_size (ctl_table ! CTLSPC_CSTS) = 4"
    by (simp_all add: ctl_table_def mkCtl_def)
  have "REGMASK x 4 AND 1 = x AND 1" for x :: u64
    by (rule bit_word_eqI) (auto simp: REGMASK_def bit_simps)
  then show ?thesis
    unfolding CtrlrConfig_IsStateEnabled_def
    by (intro runs_bnd [OF Read_ctl_runs [OF assms, of CTLSPC_CSTS]]) (auto simp: row runs_def)
qed

text \<open>Writing, and the fields of \<open>CC\<close>.\<close>

lemma write_ctl_runs:
  assumes "conformant drv pend en" and "reg < CTLSPC_FENCE" and "ctl_offset (ctl_table ! reg) \<noteq> USHRT_MAX"
    and "ctl_size (ctl_table ! reg) \<le> 8"
  shows "runs (steady pend en p e zs :: ('d, 'm) world_scheme \<Rightarrow> bool) (Registers_Write_ctl drv reg v)
    (\<lambda>ok s. ok \<and> steady pend en p e zs s)"
proof -
  let ?r = "ctl_table ! reg"
  have "\<exists>d. Registers_Write_ctl drv reg v s = (Inr True, s\<lparr>kern := d\<rparr>) \<and> steady pend en p e zs (s\<lparr>kern := d\<rparr>)"
    if f: "steady pend en p e zs s" for s :: "('d, 'm) world_scheme"
  proof -
    have ok: "reg < length (rg_pci s)" "List.member (pci_specRev (rg_pci s ! reg)) (rg_specRev s)" "reg < length ctl_table"
      using rg_ok_row [of s reg] assms(2) steadyD [OF f] by (simp_all add: length_ctl_table ValidSpecRev_def)
    obtain rc d where wr: "io_write drv (mk_io NVMEIO_BAR01 (ctl_offset ?r) (ctl_size ?r) (sized_acc NVMEIO_BAR01 (ctl_size ?r)))
        (le64 v) (kern s) = (rc, d)" by fastforce
    have rc: "0 \<le> rc" "same_device pend en (kern s) d" using cf_write [OF assms(1) wr] by simp_all
    have "Registers_Write_ctl drv reg v s = (Inr True, s\<lparr>kern := d\<rparr>)"
      using ok assms(3,4) wr rc(1)
      by (simp add: Registers_Write_ctl_def Registers_Write_value_def Let_def bnd_apply ioctl1_apply word_le_nat_alt not_less)
    then show ?thesis using steady_step [OF f rc(2)] by blast
  qed
  then show ?thesis unfolding runs_def by fastforce
qed

lemma SetRegValue_runs:
  assumes "conformant drv pend en" and "val AND NOT valueMask = 0"
  shows "runs (steady pend en p e zs :: ('d, 'm) world_scheme \<Rightarrow> bool) (CtrlrConfig_SetRegValue C drv val valueMask regMask sh)
    (\<lambda>ok s. ok \<and> steady pend en p e zs s)"
proof -
  have row: "ctl_offset (ctl_table ! CTLSPC_CC) = 0x14" "ctl_size (ctl_table ! CTLSPC_CC) = 4"
    by (simp_all add: ctl_table_def mkCtl_def)
  note rd = Read_ctl_runs [OF assms(1), of CTLSPC_CC] and wr = write_ctl_runs [OF assms(1), of CTLSPC_CC]
  have "runs (steady pend en p e zs :: ('d, 'm) world_scheme \<Rightarrow> bool) (CtrlrConfig_ReadRegCC C drv)
      (\<lambda>(ok, x) s. ok \<and> steady pend en p e zs s)"
    unfolding CtrlrConfig_ReadRegCC_def by (intro runs_bnd [OF rd]) (auto simp: row runs_def)
  moreover have "runs (\<lambda>s. ok \<and> steady pend en p e zs (s :: ('d, 'm) world_scheme))
      (if \<not> ok then ret False else CtrlrConfig_WriteRegCC drv w) (\<lambda>ok s. ok \<and> steady pend en p e zs s)" for ok w
    using wr [of p e zs "ucast w"] by (cases ok) (simp_all add: row runs_def CtrlrConfig_WriteRegCC_def)
  ultimately show ?thesis
    unfolding CtrlrConfig_SetRegValue_def using assms(2)
    by (auto intro!: runs_bnd simp: case_prod_beta)
qed

section \<open>State changes\<close>

lemma drop_bufs_same:
  assumes "conformant drv pend en"
  shows "same_device pend en d (fold (drop_buf drv) bs d)"
proof (induction bs arbitrary: d)
  case Nil
  then show ?case by (simp add: same_device_def)
next
  case (Cons b bs)
  then show ?case
    using Cons.IH [of "drop_buf drv b d"] cf_delete [OF assms] cf_munmap [OF assms]
    by (simp add: drop_buf_def same_device_def)
qed

lemma Update_runs:
  assumes "conformant drv pend en" and "st = ST_DISABLE_COMPLETELY \<or> st = ST_ENABLE"
  shows "runs (steady pend en p e zs :: ('d, 'm) world_scheme \<Rightarrow> bool) (RsrcMngr_Update drv st) (\<lambda>_. steady pend en p e zs)"
proof (cases "st = ST_DISABLE_COMPLETELY")
  case True
  have "\<exists>t. RsrcMngr_Update drv ST_DISABLE_COMPLETELY s = (Inr (), t) \<and> steady pend en p e zs t"
    if f: "steady pend en p e zs s" for s :: "('d, 'm) world_scheme"
  proof -
    let ?s = "s\<lparr>mObjGrpLife := []\<rparr>"
    have "meta_inv ?s" using steadyD [OF f] by (simp add: meta_inv_def)
    note FreeAllMetaBuf_run [OF this, of drv]
    moreover have "same_device pend en (kern s) (fold (drop_buf drv) (rev (mr_released s)) (fold (drop_buf drv) (rev (mr_reserved s)) (kern s)))"
      using drop_bufs_same [OF assms(1), of "kern s" "rev (mr_reserved s) @ rev (mr_released s)"] by simp
    moreover have "steady pend en p e zs (s\<lparr>mObjGrpLife := [], mr_reserved := [], mr_released := [], mr_allocSize := 0, kern := d\<rparr>)"
      if "same_device pend en (kern s) d" for d
      using steadyD [OF f] that by (simp add: steady_def ready_def rg_ok_def meta_inv_def zeros_def same_device_def)
    ultimately show ?thesis by (simp add: RsrcMngr_Update_def ObjRsrc_FreeAllObj_def)
  qed
  then show ?thesis using True by (simp add: runs_def)
next
  case False
  then show ?thesis using assms(2) by (simp add: RsrcMngr_Update_def runs_def)
qed

lemma steady_config [simp]:
  "steady pend en p e zs (s\<lparr>cf_firstTime := b\<rparr>) = steady pend en p e zs s"
  "steady pend en p e zs (s\<lparr>cf_curState := st\<rparr>) = steady pend en p e zs s"
  by (simp_all add: steady_def ready_def rg_ok_def meta_inv_def zeros_def)

lemma Notify_runs:
  assumes "conformant drv pend en" and "st = ST_DISABLE_COMPLETELY \<or> st = ST_ENABLE"
  shows "runs (steady pend en p e zs :: ('d, 'm) world_scheme \<Rightarrow> bool) (Subject_Notify [RsrcMngr_Update drv] st) (\<lambda>_. steady pend en p e zs)"
proof -
  have "\<exists>x t. Subject_Notify [RsrcMngr_Update drv] st s = (Inr x, t) \<and> steady pend en p e zs t"
    if f: "steady pend en p e zs s" for s :: "('d, 'm) world_scheme"
    using runsD [OF Update_runs [OF assms, of p e zs], of "s\<lparr>cf_firstTime := False, cf_curState := st\<rparr>"] f
    by (auto simp: Subject_Notify_def Let_def sq_apply)
  then show ?thesis by (simp add: runs_def)
qed

lemma set_state_runs:
  assumes "conformant (su_drv E) pend en" and "st = ST_DISABLE_COMPLETELY \<or> st = ST_ENABLE" and "pagesize (su_libc E) = 4096"
  shows "runs (steady pend en p e zs :: ('d, 'm) world_scheme \<Rightarrow> bool) (set_state E st)
    (\<lambda>ok s. ok \<and> steady pend en 0 (st = ST_ENABLE) zs s)"
proof -
  let ?go = "case st of ST_ENABLE \<Rightarrow> CtrlrConfig_SetMPS (su_libc E) (su_drv E) | ST_DISABLE \<Rightarrow> ret True
    | ST_DISABLE_COMPLETELY \<Rightarrow> ret True | ST_other _ \<Rightarrow> raise (FrmwkEx ''Illegal state detected = %d'')"
  have go: "runs (steady pend en p e zs :: ('d, 'm) world_scheme \<Rightarrow> bool) ?go (\<lambda>ok s. ok \<and> steady pend en p e zs s)"
    using assms(2,3) by (auto simp: CtrlrConfig_SetMPS_def intro!: runs_ret SetRegValue_runs [OF assms(1)])
  have io: "runs (steady pend en p e zs :: ('d, 'm) world_scheme \<Rightarrow> bool) (ioctl1 (io_device_state (su_drv E) st))
      (\<lambda>rc s. \<not> rc < 0 \<and> steady pend en 0 (st = ST_ENABLE) zs s)"
  proof -
    have "\<exists>rc t. ioctl1 (io_device_state (su_drv E) st) s = (Inr rc, t) \<and> \<not> rc < 0 \<and> steady pend en 0 (st = ST_ENABLE) zs t"
      if f: "steady pend en p e zs s" for s :: "('d, 'm) world_scheme"
    proof -
      obtain rc d where io: "io_device_state (su_drv E) st (kern s) = (rc, d)" by fastforce
      then show ?thesis using steadyD [OF f] cf_state [OF assms(1) io] by (auto simp: ioctl1_apply)
    qed
    then show ?thesis by (simp add: runs_def)
  qed
  show ?thesis
    unfolding set_state_def CtrlrConfig_SetState_def
    by (rule runs_bnd [OF go], rule runs_ok, rule runs_bnd [OF io], rule runs_ok')
      (auto intro!: runs_sq runs_ret Notify_runs [OF assms(1,2)])
qed

section \<open>The admin queues\<close>

text \<open>A queue whose initialisation has succeeded: admin, contiguous, at address \<open>a\<close>.\<close>

definition admin_queue :: "u16 \<Rightarrow> u32 \<Rightarrow> u64 \<Rightarrow> 'q queue_scheme \<Rightarrow> bool" where
  "admin_queue es n a q \<longleftrightarrow> mQId q = 0 \<and> mEntrySize q = es \<and> mNumEntries q = n \<and> mContigBuf q = a \<and> a \<noteq> 0 \<and>
     mDiscontigBuf q = None"

lemma steady_mmap:
  fixes w :: "('d, 'm) world_scheme"
  assumes "steady pend en p e zs w" and "same_device pend en (kern w) d" and "\<forall>(a, n) \<in> set zs. n \<le> k"
  shows "steady pend en p e ((a, k) # zs) (w\<lparr>kern := d, mmaps := (mmaps w)(a := replicate k 0)\<rparr>)"
  using steadyD [OF assms(1)] assms(2,3)
  by (fastforce simp: steady_def ready_def rg_ok_def meta_inv_def zeros_def same_device_def)

lemma mmap_runs:
  assumes "conformant drv pend en" and "\<forall>(a, n) \<in> set zs. n \<le> k" and "region \<noteq> MMAPREGION_FENCE"
  shows "runs (steady pend en p e zs :: ('d, 'm) world_scheme \<Rightarrow> bool) (KernelAPI_mmap C drv k bufID region)
    (\<lambda>a w. a \<noteq> 0 \<and> steady pend en p e ((a, k) # zs) w)"
proof -
  have "\<exists>a t. KernelAPI_mmap C drv k bufID region w = (Inr a, t) \<and> a \<noteq> 0 \<and> steady pend en p e ((a, k) # zs) t"
    if f: "steady pend en p e zs w" for w :: "('d, 'm) world_scheme"
  proof -
    obtain a bs d where mm: "io_mmap drv k (region = MMR_META) (mmap_offset C bufID region) (kern w) = (a, bs, d)"
      by (metis prod_cases3)
    then show ?thesis
      using cf_mmap [OF assms(1) mm] assms(3) steady_mmap [OF f _ assms(2), of d a]
      by (auto simp: KernelAPI_mmap_def)
  qed
  then show ?thesis by (simp add: runs_def)
qed

lemma create_runs:
  assumes "conformant drv pend en"
  shows "runs (steady pend en p e zs :: ('d, 'm) world_scheme \<Rightarrow> bool) (ioctl1 (io_create_admn_q drv n ty))
    (\<lambda>rc w. \<not> rc < 0 \<and> steady pend en p e zs w)"
proof -
  have "\<exists>rc t. ioctl1 (io_create_admn_q drv n ty) w = (Inr rc, t) \<and> \<not> rc < 0 \<and> steady pend en p e zs t"
    if f: "steady pend en p e zs w" for w :: "('d, 'm) world_scheme"
  proof -
    obtain rc d where io: "io_create_admn_q drv n ty (kern w) = (rc, d)" by fastforce
    then show ?thesis using cf_create [OF assms io] steady_step [OF f, of d] by (auto simp: ioctl1_apply)
  qed
  then show ?thesis by (simp add: runs_def)
qed

lemma ACQ_Init_runs:
  assumes "conformant drv pend en" and "\<forall>(a, n) \<in> set zs. n \<le> 32"
  shows "runs (\<lambda>(q, w). blank q \<and> steady pend en p False zs (w :: ('d, 'm) world_scheme)) (ACQ_Init C drv 2)
    (\<lambda>_ (q, w). \<exists>a. admin_queue 16 2 a q \<and> steady pend en p False ((a, 32) # zs) w)"
proof -
  have "\<exists>q' w' a. ACQ_Init C drv 2 (q, w) = (Inr (), (q', w')) \<and> admin_queue 16 2 a q' \<and> steady pend en p False ((a, 32) # zs) w'"
    if "blank q" and f: "steady pend en p False zs w" for q :: "'q comp_queue_scheme" and w :: "('d, 'm) world_scheme"
  proof -
    obtain w1 where w1: "CtrlrConfig_IsStateEnabled drv w = (Inr False, w1)" "steady pend en p False zs w1"
      using runsD [OF IsStateEnabled_runs [OF assms(1)] f] by auto
    obtain rc w2 where w2: "ioctl1 (io_create_admn_q drv 2 ADMIN_CQ) w1 = (Inr rc, w2)" "\<not> rc < 0" "steady pend en p False zs w2"
      using runsD [OF create_runs [OF assms(1)] w1(2)] by blast
    obtain a w3 where w3: "KernelAPI_mmap C drv 32 0 MMR_CQ w2 = (Inr a, w3)" "a \<noteq> 0" "steady pend en p False ((a, 32) # zs) w3"
      using runsD [OF mmap_runs [OF assms, of MMR_CQ] w2(3)] by blast
    show ?thesis
      using that(1) w1 w2 w3
      by (auto simp: ACQ_Init_def CQ_Init_def Queue_Init_def blank_def sq_apply bnd_apply Queue_GetIsAdmin_def
          Queue_GetQSize_def admin_queue_def)
  qed
  then show ?thesis by (auto simp: runs_def)
qed

lemma ASQ_Init_runs:
  assumes "conformant drv pend en" and "\<forall>(a, n) \<in> set zs. n \<le> 128"
  shows "runs (\<lambda>(q, w). blank q \<and> steady pend en p False zs (w :: ('d, 'm) world_scheme)) (ASQ_Init C drv 2)
    (\<lambda>_ (q, w). \<exists>a. admin_queue 64 2 a q \<and> steady pend en p False ((a, 128) # zs) w)"
proof -
  have row: "ctl_offset (ctl_table ! CTLSPC_CAP) = 0" "ctl_size (ctl_table ! CTLSPC_CAP) = 8"
    by (simp_all add: ctl_table_def mkCtl_def)
  have "\<exists>q' w' a. ASQ_Init C drv 2 (q, w) = (Inr (), (q', w')) \<and> admin_queue 64 2 a q' \<and> steady pend en p False ((a, 128) # zs) w'"
    if "blank q" and f: "steady pend en p False zs w" for q :: "'q sub_queue_scheme" and w :: "('d, 'm) world_scheme"
  proof -
    obtain x w0 where w0: "Registers_Read_ctl drv CTLSPC_CAP (undef64 C) w = (Inr (True, x), w0)" "steady pend en p False zs w0"
      using runsD [OF Read_ctl_runs [OF assms(1), of CTLSPC_CAP] f] row by fastforce
    obtain w1 where w1: "CtrlrConfig_IsStateEnabled drv w0 = (Inr False, w1)" "steady pend en p False zs w1"
      using runsD [OF IsStateEnabled_runs [OF assms(1)] w0(2)] by auto
    obtain rc w2 where w2: "ioctl1 (io_create_admn_q drv 2 ADMIN_SQ) w1 = (Inr rc, w2)" "\<not> rc < 0" "steady pend en p False zs w2"
      using runsD [OF create_runs [OF assms(1)] w1(2)] by blast
    obtain a w3 where w3: "KernelAPI_mmap C drv 128 0 MMR_SQ w2 = (Inr a, w3)" "a \<noteq> 0" "steady pend en p False ((a, 128) # zs) w3"
      using runsD [OF mmap_runs [OF assms, of MMR_SQ] w2(3)] by blast
    show ?thesis
      using that(1) w0 w1 w2 w3
      by (auto simp: ASQ_Init_def SQ_Init_def Queue_Init_def blank_def sq_apply bnd_apply Queue_GetIsAdmin_def
          Queue_GetQSize_def admin_queue_def)
  qed
  then show ?thesis by (auto simp: runs_def)
qed

lemma destroy_runs:
  assumes "conformant drv pend en" and "admin_queue es n a q"
  shows "runs (\<lambda>(q', w). q' = q \<and> steady pend en p e zs (w :: ('d, 'm) world_scheme)) (destroy_q drv)
    (\<lambda>_ (q', w). q' = q \<and> steady pend en p e zs w)"
proof -
  have "steady pend en p e zs (w\<lparr>kern := io_munmap drv b k (kern w)\<rparr>)" if "steady pend en p e zs w" for w :: "('d, 'm) world_scheme" and b k
    by (rule steady_step [OF that cf_munmap [OF assms(1)]])
  then show ?thesis
    using assms(2)
    by (auto simp: runs_def destroy_q_def Queue_destroy_def Queue_GetIsContig_def admin_queue_def bnd_apply KernelAPI_munmap_def)
qed

section \<open>Sending a command and reaping its entry\<close>

definition call_ok :: "io_call \<Rightarrow> bool" where
  "call_ok a \<longleftrightarrow> io_grpName a \<noteq> [] \<and> io_testName a \<noteq> []"

lemma dump_runs [runs_rules]:
  assumes "call_ok a" and "obj \<noteq> []" and "\<And>s. P s \<Longrightarrow> Q () s"
  shows "runs P (dump_if b fs a obj) Q"
  using assms by (auto simp: runs_def dump_if_def dump_as_def PrepDumpFile_def call_ok_def bnd_apply)

lemma dump_ok: "call_ok a \<Longrightarrow> obj \<noteq> [] \<Longrightarrow> dump_if b fs a obj s = (Inr (), s)"
  by (simp add: dump_if_def dump_as_def PrepDumpFile_def call_ok_def bnd_apply)

lemma inquiry_runs:
  assumes "conformant drv pend en"
  shows "runs (steady pend en p e zs :: ('d, 'm) world_scheme \<Rightarrow> bool) (CQ_ReapInquiry drv q)
    (\<lambda>(n, isr) w. n = of_nat p \<and> steady pend en p e zs w)"
proof -
  have "\<exists>n isr t. CQ_ReapInquiry drv q w = (Inr (n, isr), t) \<and> n = of_nat p \<and> steady pend en p e zs t"
    if f: "steady pend en p e zs w" for w :: "('d, 'm) world_scheme"
  proof -
    obtain rc inq d where io: "io_reap_inquiry drv (mQId q) (kern w) = (rc, inq, d)" by (metis prod_cases3)
    then show ?thesis
      using cf_inquiry [OF assms io] steady_step [OF f, of d] steadyD [OF f]
      by (auto simp: CQ_ReapInquiry_def bnd_apply sq_apply ioctl2_apply not_less)
  qed
  then show ?thesis by (fastforce simp: runs_def)
qed

lemma clock_runs:
  assumes "conformant drv pend en"
  shows "runs (steady pend en p e zs :: ('d, 'm) world_scheme \<Rightarrow> bool) (get_time drv)
    (\<lambda>tv w. (\<exists>d. tv = fst (snd (io_clock drv d))) \<and> steady pend en p e zs w)"
proof -
  have "\<exists>tv t. get_time drv w = (Inr tv, t) \<and> (\<exists>d. tv = fst (snd (io_clock drv d))) \<and> steady pend en p e zs t"
    if f: "steady pend en p e zs w" for w :: "('d, 'm) world_scheme"
  proof -
    obtain rc tv d where io: "io_clock drv (kern w) = (rc, tv, d)" by (metis prod_cases3)
    then have "\<exists>d. tv = fst (snd (io_clock drv d))" by (metis fst_conv snd_conv)
    moreover have "get_time drv w = (Inr tv, w\<lparr>kern := d\<rparr>)"
      using io cf_clock [OF assms io] by (simp add: get_time_def bnd_apply ioctl2_apply)
    moreover have "steady pend en p e zs (w\<lparr>kern := d\<rparr>)" using steady_step [OF f] cf_clock [OF assms io] by blast
    ultimately show ?thesis by blast
  qed
  then show ?thesis by (simp add: runs_def)
qed

lemma inquiry_wait:
  fixes w :: "('d, 'm) world_scheme"
  assumes cf: "conformant drv pend en" and ms: "10000 \<le> ms" "ms \<le> 86400000" and f: "steady pend en 1 e zs w"
  shows "\<exists>isr t. CQ_ReapInquiryWaitSpecify drv (Suc fuel) acq ms 1 out w = (Inr (True, 1, isr), t) \<and> steady pend en 1 e zs t"
proof -
  obtain t1 d1 w1 where 1: "get_time drv w = (Inr t1, w1)" "t1 = fst (snd (io_clock drv d1))" "steady pend en 1 e zs w1"
    using runsD [OF clock_runs [OF cf] f] by blast
  obtain t2 d2 w2 where 2: "get_time drv w1 = (Inr t2, w2)" "t2 = fst (snd (io_clock drv d2))" "steady pend en 1 e zs w2"
    using runsD [OF clock_runs [OF cf] 1(3)] by blast
  obtain isr w3 where 3: "CQ_ReapInquiry drv acq w2 = (Inr (1, isr), w3)" "steady pend en 1 e zs w3"
    using runsD [OF inquiry_runs [OF cf, where q = acq] 2(3)] by auto
  have "timeval_us t2 - timeval_us t1 < 10000000" unfolding 1(2) 2(2) by (rule cf_fast [OF cf])
  moreover have "10000 \<le> unat ms" using ms(1) by (simp add: word_le_nat_alt)
  ultimately have late: "\<not> timeval_us t2 - timeval_us t1 \<ge> int (unat ms) * 1000" by linarith
  have "reap_wait_loop drv acq ms t1 (\<lambda>n. n \<noteq> 0 \<and> n \<ge> 1) (Suc fuel) out w1 = (Inr (True, 1, isr), w3)"
    using 2(1) 3(1) late by (simp add: bnd_apply CQ_CalcTimeout_def)
  then have "CQ_ReapInquiryWaitSpecify drv (Suc fuel) acq ms 1 out w = (Inr (True, 1, isr), w3)"
    using 1(1) ms(2) by (simp add: CQ_ReapInquiryWaitSpecify_def CQ_DoReapInquiry_def bnd_apply sq_apply not_less)
  then show ?thesis using 3(2) by blast
qed

lemma WaitForReap_runs:
  assumes cf: "conformant drv pend en" and ms: "10000 \<le> ms" "ms \<le> 86400000" and a: "call_ok a"
  shows "runs (steady pend en 1 e zs :: ('d, 'm) world_scheme \<Rightarrow> bool) (IO_WaitForReap drv (Suc fuel) fs a ms acq name out)
    (\<lambda>(n, isr) w. n = 1 \<and> steady pend en 1 e zs w)"
proof -
  have "\<exists>isr t. IO_WaitForReap drv (Suc fuel) fs a ms acq name out w = (Inr (1, isr), t) \<and> steady pend en 1 e zs t"
    if f: "steady pend en 1 e zs w" for w :: "('d, 'm) world_scheme"
    using inquiry_wait [OF cf ms f, of fuel acq out] a
    by (auto simp: IO_WaitForReap_def bnd_apply sq_apply dump_if_def dump_as_def PrepDumpFile_def call_ok_def)
  then show ?thesis by (fastforce simp: runs_def)
qed

section \<open>Reaping\<close>

lemma reap_buffer:
  assumes "\<not> memfail C (unat n)"
  shows "\<exists>b m. MemBuffer_Init C n False 0 MemBuffer_new = (Inr (), b) \<and> MemBuffer_Zero b = (Inr (), b\<lparr>mRealBaseAddr := Some m\<rparr>) \<and>
    length m = unat n \<and> mVirOff b = 0 \<and> mVirBufSize b = n"
proof -
  let ?b = "MemBuffer_new\<lparr>mAllocByNewOperator := True, mVirBufSize := n, mRealBaseAddr := Some (fresh C (unat n)),
    mVirOff := 0, mAlignment := 0\<rparr>"
  have i: "MemBuffer_Init C n False 0 MemBuffer_new = (Inr (), ?b)"
    using assms by (simp add: MemBuffer_Init_def MemBuffer_new_def MemBuffer_InitMemberVariables_def)
  have "pattern_loop le8 False (unat n) 0 0 ?b = (Inr (), ?b\<lparr>mRealBaseAddr := Some (pattern_bytes le8 False 0 (unat n))\<rparr>)"
    using pattern_loop_ok [of le8 1 ?b "fresh C (unat n)" 0 "unat n" False 0] by (simp add: le8_def)
  then have "MemBuffer_Zero ?b = (Inr (), ?b\<lparr>mRealBaseAddr := Some (pattern_bytes le8 False 0 (unat n))\<rparr>)"
    by (simp add: MemBuffer_Zero_def MemBuffer_SetDataPattern_def Let_def)
  moreover have "length (pattern_bytes le8 False 0 (unat n)) = unat n"
    using length_pattern_bytes [of le8 1] by (simp add: le8_def)
  ultimately show ?thesis using i by fastforce
qed

lemma zero_entry_accepted:
  "IO_VerifyCE (ce_of_bytes (replicate 16 0)) [CESTAT_SUCCESS] = Inr CESTAT_SUCCESS"
  by code_simp

lemma metrics_runs:
  assumes "conformant drv pend en"
  shows "runs (steady pend en p e zs :: ('d, 'm) world_scheme \<Rightarrow> bool) (CQ_GetQMetrics drv q)
    (\<lambda>m w. unat (gq_head_ptr m) < 2 \<and> steady pend en p e zs w)"
proof -
  have "\<exists>m t. CQ_GetQMetrics drv q w = (Inr m, t) \<and> unat (gq_head_ptr m) < 2 \<and> steady pend en p e zs t"
    if f: "steady pend en p e zs w" for w :: "('d, 'm) world_scheme"
  proof -
    obtain rc m d where io: "io_q_metrics drv True (mQId q) (kern w) = (rc, m, d)" by (metis prod_cases3)
    have "CQ_GetQMetrics drv q w = (Inr m, w\<lparr>kern := d\<rparr>)"
      using io cf_metrics [OF assms io] by (simp add: CQ_GetQMetrics_def bnd_apply sq_apply ioctl2_apply not_less)
    then show ?thesis using cf_metrics [OF assms io] steady_step [OF f] by blast
  qed
  then show ?thesis by (simp add: runs_def)
qed

lemma peek_zero:
  assumes "admin_queue 16 2 a acq" and "zeros a 32 w" and "unat i < 2"
  shows "CQ_PeekCE acq i w = (Inr (ce_of_bytes (replicate 16 0)), w)"
proof -
  obtain k where k: "32 \<le> k" "mmaps w a = replicate k 0" using assms(2) by (auto simp: zeros_def)
  have "Queue_GetQBuffer acq = Inr (Mapped a)"
    using assms(1) by (auto simp: Queue_GetQBuffer_def Queue_GetIsContig_def admin_queue_def)
  moreover have "unat (mNumEntries acq) = 2" using assms(1) by (simp add: admin_queue_def)
  moreover have "q_load (Mapped a) (16 * unat i) 16 w = (Inr (replicate 16 0), w)"
    using q_load_run [of "Mapped a" w "replicate k 0" 16 "16 * unat i"] k assms(3) by simp
  ultimately show ?thesis
    using assms(3) by (simp add: CQ_PeekCE_def bnd_apply peek_loop_run)
qed

text \<open>Reaping one entry into a new buffer.\<close>

lemma reap_fresh:
  fixes w :: "('d, 'm) world_scheme"
  assumes cf: "conformant drv pend en" and q: "admin_queue 16 2 a acq" and m: "\<not> memfail C 16" and f: "steady pend en 1 e zs w"
  shows "\<exists>rem isr t. CQ_Reap C drv acq (wd_next w) 1 True True
      (w\<lparr>wd_bufs := (wd_bufs w)(wd_next w := MemBuffer_new), wd_next := wd_next w + 1\<rparr>) = (Inr (1, rem, isr), t) \<and> steady pend en 0 e zs t"
proof -
  let ?r = "wd_next w"
  obtain b mm where b: "MemBuffer_Init C 16 False 0 MemBuffer_new = (Inr (), b)"
    "MemBuffer_Zero b = (Inr (), b\<lparr>mRealBaseAddr := Some mm\<rparr>)" "length mm = 16" "mVirOff b = 0" "mVirBufSize b = 16"
    using reap_buffer [of C 16] m by auto
  obtain rc r d where io: "io_reap drv (mQId acq) 1 mm (kern w) = (rc, r, d)" by (metis prod_cases3)
  have r: "0 \<le> rc" "rp_num_reaped r = 1" "length (rp_buffer r) \<le> 16" "pend d = 0" "en d = e"
    using cf_reap [OF cf io] steadyD [OF f] b(3) by auto
  let ?t = "w\<lparr>wd_bufs := (wd_bufs w)(?r := b\<lparr>mRealBaseAddr := Some (rp_buffer r @ drop (length (rp_buffer r)) mm)\<rparr>),
    wd_next := ?r + 1, kern := d\<rparr>"
  have "CQ_Reap C drv acq ?r 1 True True (w\<lparr>wd_bufs := (wd_bufs w)(?r := MemBuffer_new), wd_next := ?r + 1\<rparr>) =
      (Inr (1, rp_num_remaining r, rp_isr_count r), ?t)"
    using q b r io
    by (simp add: CQ_Reap_def ce_clamp_def admin_queue_def bnd_apply sq_apply on_mb_def zoom_apply
        mb_load_def mb_store_def peek_def poke_def MemBuffer_GetBufSize_def ioctl2_apply not_less)
  moreover have "steady pend en 0 e zs ?t"
    using steadyD [OF f] r(4,5) by (simp add: steady_def ready_def rg_ok_def meta_inv_def zeros_def)
  ultimately show ?thesis by blast
qed

lemma RetrieveCE_runs:
  assumes cf: "conformant drv pend en" and q: "admin_queue 16 2 a acq" and m: "\<not> memfail C 16" and z: "(a, 32) \<in> set zs"
  shows "runs (steady pend en 1 e zs :: ('d, 'm) world_scheme \<Rightarrow> bool) (IO_RetrieveCE C drv fs call acq 1 True)
    (\<lambda>ce w. ce = ce_of_bytes (replicate 16 0) \<and> steady pend en 0 e zs w)"
proof -
  have "\<exists>t. IO_RetrieveCE C drv fs call acq 1 True w = (Inr (ce_of_bytes (replicate 16 0)), t) \<and> steady pend en 0 e zs t"
    if f: "steady pend en 1 e zs w" for w :: "('d, 'm) world_scheme"
  proof -
    obtain mt w1 where 1: "CQ_GetQMetrics drv acq w = (Inr mt, w1)" "unat (gq_head_ptr mt) < 2" "steady pend en 1 e zs w1"
      using runsD [OF metrics_runs [OF cf] f] by blast
    obtain rem isr w2 where 2: "CQ_Reap C drv acq (wd_next w1) 1 True True
        (w1\<lparr>wd_bufs := (wd_bufs w1)(wd_next w1 := MemBuffer_new), wd_next := wd_next w1 + 1\<rparr>) = (Inr (1, rem, isr), w2)"
      "steady pend en 0 e zs w2"
      using reap_fresh [OF cf q m 1(3)] by blast
    then have "IO_AttemptRetrieveCE C drv acq 1 True w1 = (Inr (1, isr), w2)"
      by (simp add: IO_AttemptRetrieveCE_def new_mb_def bnd_apply)
    moreover have "zeros a 32 w2" using steadyD [OF 2(2)] z by blast
    from peek_zero [OF q this 1(2)] have "CQ_PeekCE acq (gq_head_ptr mt) w2 = (Inr (ce_of_bytes (replicate 16 0)), w2)" .
    ultimately show ?thesis using 1(1) 2(2) by (auto simp: IO_RetrieveCE_def bnd_apply)
  qed
  then show ?thesis by (simp add: runs_def)
qed

section \<open>The round of one command\<close>

text \<open>A command that can be sent; the admin queue asks more of a Create I/O CQ command (opcode 5).\<close>

definition sendable :: "cmd \<Rightarrow> bool" where
  "sendable c \<longleftrightarrow> cmd_ok c \<and> 0 < cmd_size c \<and> mCmdName c \<noteq> [] \<and> (\<exists>opc. Cmd_GetOpcode c = (Inr opc, c) \<and> opc \<noteq> 0x05)"

lemma send_runs:
  assumes cf: "conformant drv pend en" and c: "sendable c" and f: "steady pend en p e zs (w :: ('d, 'm) world_scheme)"
  shows "\<exists>uid c' w'. sq_Send drv M asq (c, w) = (Inr uid, (c', w')) \<and> mCmdName c' = mCmdName c \<and> steady pend en p e zs w'"
proof -
  obtain w1 where w1: "CtrlrConfig_IsStateEnabled drv w = (Inr e, w1)" "steady pend en p e zs w1"
    using runsD [OF IsStateEnabled_runs [OF cf] f] by auto
  obtain opc where opc: "Cmd_GetOpcode c = (Inr opc, c)" "opc \<noteq> 0x05" using c by (auto simp: sendable_def)
  let ?io = "\<lparr>s_q_id = mQId asq, s_bit_mask = mPrpFields c OR MetaData_GetMetaBitmask M c,
        s_meta_buf_id = mb_ID (mMetaData c), s_data_buf_size = mBufSize c, s_data = PrpData_GetROPrpBuffer c w1,
        s_cmd = map_option (drop (mVirOff (mCmdBuf c))) (mRealBaseAddr (mCmdBuf c)), s_data_dir = mDataDir c\<rparr>"
  obtain rc uid d where io: "io_send_64b drv ?io (kern w1) = (rc, uid, d)" by (metis prod_cases3)
  have d: "0 \<le> rc" "steady pend en p e zs (w1\<lparr>kern := d\<rparr>)"
    using cf_send [OF cf io] steady_step [OF w1(2)] by blast+
  let ?c = "set_dw c 0 (put_field (16, 16) (ucast uid) (cmd_dw c 0))"
  have cid: "Cmd_SetCID uid c = (Inr (), ?c)" using c by (intro SetCID_run) (simp_all add: sendable_def)
  have "SQ_Send drv M asq (c, w) = (Inr uid, (?c, w1\<lparr>kern := d\<rparr>))"
    using w1(1) opc(1) io d(1) cid by (simp add: SQ_Send_def bnd_apply sq_apply ioctl2_apply not_less)
  moreover from this have "sq_Send drv M asq (c, w) = (Inr uid, (?c, w1\<lparr>kern := d\<rparr>))"
    using opc by (simp add: sq_Send_def ASQ_Send_def bnd_apply)
  moreover have "mCmdName ?c = mCmdName c" by (simp add: set_dw_def Let_def)
  ultimately show ?thesis using d(2) by blast
qed

lemma ring_runs:
  assumes "conformant drv pend en" and f: "steady pend en p e zs (w :: ('d, 'm) world_scheme)"
  shows "\<exists>w'. SQ_Ring drv asq w = (Inr (), w') \<and> steady pend en (Suc p) e zs w'"
proof -
  obtain rc d where io: "io_ring_sq drv (mQId asq) (kern w) = (rc, d)" by fastforce
  then have "SQ_Ring drv asq w = (Inr (), w\<lparr>kern := d\<rparr>)"
    using cf_ring [OF assms(1) io] by (simp add: SQ_Ring_def bnd_apply ioctl1_apply)
  then show ?thesis using cf_ring [OF assms(1) io] steadyD [OF f] by simp
qed

text \<open>On a conformant device the round of a command returns, with an entry that says success.\<close>

lemma send_admin_runs:
  fixes w :: "('d, 'm) world_scheme"
  assumes cf: "conformant (su_drv E) pend en" and q: "admin_queue 16 2 a acq" and m: "\<not> memfail (su_libc E) 16"
    and z: "(a, 32) \<in> set zs" and c: "sendable c" and call: "call_ok call" and ms: "10000 \<le> ms" "ms \<le> 86400000"
    and fuel: "0 < su_fuel E" and f: "steady pend en 0 e zs w"
  shows "\<exists>c' w'. send_admin E call ms asq acq (c, w) = (Inr (), (c', w')) \<and> steady pend en 0 e zs w'"
proof -
  let ?drv = "su_drv E" and ?C = "su_libc E" and ?M = "su_masks E" and ?fs = "su_fs E"
  obtain k where k: "su_fuel E = Suc k" using fuel gr0_conv_Suc by blast
  note dump = dump_ok [OF call]
  obtain isr w1 where 1: "CQ_ReapInquiry ?drv acq w = (Inr (0, isr), w1)" "steady pend en 0 e zs w1"
    using runsD [OF inquiry_runs [OF cf, where q = acq] f] by auto
  obtain uid c' w2 where 2: "sq_Send ?drv ?M asq (c, w1) = (Inr uid, (c', w2))" "mCmdName c' = mCmdName c" "steady pend en 0 e zs w2"
    using send_runs [OF cf c 1(2)] by blast
  obtain w3 where 3: "SQ_Ring ?drv asq w2 = (Inr (), w3)" "steady pend en 1 e zs w3"
    using ring_runs [OF cf 2(3)] by auto
  obtain n isr' w4 where 4: "IO_WaitForReap ?drv (su_fuel E) ?fs call ms acq (mCmdName c') (0, isr) w3 = (Inr (1, isr'), w4)"
    "steady pend en 1 e zs w4"
    using runsD [OF WaitForReap_runs [OF cf ms call] 3(2)] unfolding k by fastforce
  obtain w5 where 5: "IO_RetrieveCE ?C ?drv ?fs call acq 1 True w4 = (Inr (ce_of_bytes (replicate 16 0)), w5)" "steady pend en 0 e zs w5"
    using runsD [OF RetrieveCE_runs [OF cf q m z] 4(2)] by blast
  have names: "mCmdName c' \<noteq> []" "''sq.'' @ mCmdName c' \<noteq> []" using c 2(2) by (simp_all add: sendable_def)
  have "IO_SendCmd ?drv ?M ?fs call asq acq (c, w) = (Inr (uid, 0, isr), (c', w3))"
    using 1 2 3 names by (simp add: IO_SendCmd_def bnd_apply sq_apply dump)
  then have "send_and_wait ?drv (su_fuel E) ?M ?fs call ms asq acq (c, w) = (Inr 1, (c', w4))"
    using 4 by (simp add: send_and_wait_def bnd_apply)
  then have "send_admin E call ms asq acq (c, w) = (Inr (), (c', w5))"
    using 5 names zero_entry_accepted
    by (simp add: dump send_admin_def IO_SendAndReapCmd_def IO_SendAndReapCmd_with_def IO_ReapCE_def bnd_apply sq_apply)
  then show ?thesis using 5(2) by blast
qed

section \<open>A session\<close>

lemma CSS_runs:
  assumes "conformant drv pend en"
  shows "runs (steady pend en p e zs :: ('d, 'm) world_scheme \<Rightarrow> bool) (CtrlrConfig_SetCSS C drv 0) (\<lambda>_. steady pend en p e zs)"
  unfolding CtrlrConfig_SetCSS_def
  by (rule runs_conseq [OF SetRegValue_runs [OF assms, of _ _ p e zs]]) (simp, assumption, blast)

lemma pass_runs: "(\<And>s. P s \<Longrightarrow> ok) \<Longrightarrow> runs P m Q \<Longrightarrow> runs P (sq (throw_if (\<not> ok) e) m) Q"
  by (auto simp: runs_def sq_apply)

text \<open>What the frame of a session does not touch: the register table and the cached Identify commands.\<close>

type_synonym holdings = "PciSpcType list \<times> PciCapabilities list \<times> cmd option \<times> cmd option list"

definition holding :: "('d, 'm) world_scheme \<Rightarrow> holdings" where
  "holding s = (rg_pci s, rg_pciCap s, mIdentifyCmdCtrlr s, mIdentifyCmdNamspc s)"

lemma holding_simps [simp]:
  "holding (s\<lparr>kern := d\<rparr>) = holding s" "holding (s\<lparr>mmaps := x\<rparr>) = holding s" "holding (s\<lparr>cf_curState := st\<rparr>) = holding s"
  "holding (s\<lparr>cf_firstTime := b\<rparr>) = holding s" "holding (s\<lparr>mObjGrpLife := y\<rparr>) = holding s" "holding (s\<lparr>mr_allocSize := z\<rparr>) = holding s"
  "holding (s\<lparr>mr_reserved := r\<rparr>) = holding s" "holding (s\<lparr>mr_released := r\<rparr>) = holding s"
  by (simp_all add: holding_def)

definition holds :: "(holdings \<Rightarrow> bool) \<Rightarrow> ('d, 'm) world_scheme \<Rightarrow> bool" where
  "holds J s \<longleftrightarrow> meta_inv s \<and> J (holding s)"

lemma holds_only_kern: "only_kern s t \<Longrightarrow> holds J s \<Longrightarrow> holds J (t :: ('d, 'm) world_scheme)"
  unfolding only_kern_def holds_def meta_inv_def
  by (metis holding_simps(1) meta_rsrc.select_convs(2,3) meta_rsrc.surjective meta_rsrc.update_convs(1) proc.update_convs(1))

lemma Update_holds: "keeps (holds J) (RsrcMngr_Update drv st :: (('d, 'm) world_scheme, unit) prog)"
proof (unfold keeps_def, intro allI impI)
  fix s :: "('d, 'm) world_scheme" assume s: "holds J s"
  then have "meta_inv s" by (simp add: holds_def)
  then have m: "meta_inv (s\<lparr>mObjGrpLife := y\<rparr>)" for y by (simp add: meta_inv_def)
  have "meta_inv (snd (RsrcMngr_Update drv st s))" using \<open>meta_inv s\<close> by (rule keepsD [OF Update_keeps])
  moreover have "holding (snd (RsrcMngr_Update drv st s)) = holding s"
    by (simp add: RsrcMngr_Update_def ObjRsrc_FreeAllObj_def sq_apply ObjRsrc_FreeAllObjNotASQACQ_def free_not_admin_run
        FreeAllMetaBuf_run [OF m] FreeAllMetaBuf_run [OF \<open>meta_inv s\<close>])
  ultimately show "holds J (snd (RsrcMngr_Update drv st s))" using s by (simp add: holds_def)
qed

interpretation held_observer: state_observer
  "RsrcMngr_Update drv :: ('d, ('m world_ext) rsrc_mngr_ext meta_rsrc_ext) observer" "holds J" for drv J
proof unfold_locales
  show "keeps (holds J) (RsrcMngr_Update drv st :: (('d, 'm) world_scheme, unit) prog)" for st by (rule Update_holds)
  show "only_kern s t \<Longrightarrow> holds J s \<Longrightarrow> holds J t" for s t :: "('d, 'm) world_scheme" by (rule holds_only_kern)
qed (simp_all add: holds_def meta_inv_def)

lemma set_state_holds: "keeps (holds J) (set_state E st :: (('d, 'm) world_scheme, bool) prog)"
  unfolding set_state_def by (rule held_observer.SetState_keeps)

lemma holds_frame:
  fixes m :: "(('d, 'm) world_scheme, 'a) prog"
  assumes "\<And>s. keeps (only_kern s) m"
  shows "keeps (holds J) m"
  by (rule keeps_frame [OF assms holds_only_kern])

lemma CSS_holds: "keeps (holds J) (CtrlrConfig_SetCSS C drv v :: (('d, 'm) world_scheme, bool) prog)"
  by (rule holds_frame) (auto simp: CtrlrConfig_SetCSS_def CtrlrConfig_SetRegValue_def CtrlrConfig_ReadRegCC_def
      CtrlrConfig_WriteRegCC_def intro!: wf_intros)

lemma mmap_holds: "keeps (holds J) (KernelAPI_mmap C drv k i region :: (('d, 'm) world_scheme, u64) prog)"
proof -
  have "holds J (snd (KernelAPI_mmap C drv k i region s))" if "holds J s" for s :: "('d, 'm) world_scheme"
    using that by (auto simp: KernelAPI_mmap_def holds_def meta_inv_def split: prod.splits)
  then show ?thesis by (simp add: keeps_def)
qed

lemma init_holds:
  "keeps (holds J \<circ> snd) (ACQ_Init C drv n :: ('q comp_queue_scheme \<times> ('d, 'm) world_scheme, unit) prog)"
  "keeps (holds J \<circ> snd) (ASQ_Init C drv n :: ('q sub_queue_scheme \<times> ('d, 'm) world_scheme, unit) prog)"
  "keeps (holds J \<circ> snd) (destroy_q drv :: ('q queue_scheme \<times> ('d, 'm) world_scheme, unit) prog)"
proof -
  have r: "keeps (holds J \<circ> snd) (onr m)" if "keeps (holds J) m" for m :: "(('d, 'm) world_scheme, 'b) prog"
    using that by (auto simp: keeps_def split: prod.splits)
  have l: "keeps (holds J \<circ> (snd :: _ \<Rightarrow> ('d, 'm) world_scheme)) (onl m)" for m :: "('c, 'b) prog"
    by (auto simp: keeps_def split: prod.splits)
  have io: "keeps (holds J) (ioctl1 f :: (('d, 'm) world_scheme, int) prog)" for f
    by (rule holds_frame) (rule ioctl1_keeps)
  have rd: "keeps (holds J) (Registers_Read_ctl drv i v :: (('d, 'm) world_scheme, bool \<times> u64) prog)" for i v
    by (rule holds_frame) (rule Read_ctl_keeps)
  have en: "keeps (holds J) (CtrlrConfig_IsStateEnabled drv :: (('d, 'm) world_scheme, bool) prog)"
    by (rule holds_frame) (rule IsStateEnabled_keeps)
  have un: "keeps (holds J) (KernelAPI_munmap drv a k :: (('d, 'm) world_scheme, unit) prog)" for a k
    by (simp add: keeps_def KernelAPI_munmap_def holds_def meta_inv_def)
  show "keeps (holds J \<circ> snd) (ACQ_Init C drv n :: ('q comp_queue_scheme \<times> ('d, 'm) world_scheme, unit) prog)"
    unfolding ACQ_Init_def CQ_Init_def CQ_CreateIOCQ_def by (intro keeps_sq keeps_bnd keeps_throw_if keeps_gets keeps_if l r io en mmap_holds)
  show "keeps (holds J \<circ> snd) (ASQ_Init C drv n :: ('q sub_queue_scheme \<times> ('d, 'm) world_scheme, unit) prog)"
    unfolding ASQ_Init_def SQ_Init_def SQ_CreateIOSQ_def
    by (intro keeps_sq keeps_bnd keeps_throw_if keeps_gets keeps_if keeps_ret keeps_split l r io rd en mmap_holds)
  show "keeps (holds J \<circ> snd) (destroy_q drv :: ('q queue_scheme \<times> ('d, 'm) world_scheme, unit) prog)"
    unfolding destroy_q_def Queue_destroy_def by (intro keeps_bnd keeps_gets keeps_if keeps_ret keeps_lift_result r un)
qed

text \<open>The rules of a session carry what is known of the holdings: \<open>J\<close> before, \<open>J'\<close> after the body.\<close>

definition steady_with ::
  "('d \<Rightarrow> nat) \<Rightarrow> ('d \<Rightarrow> bool) \<Rightarrow> nat \<Rightarrow> bool \<Rightarrow> (u64 \<times> nat) list \<Rightarrow> (holdings \<Rightarrow> bool) \<Rightarrow> ('d, 'm) world_scheme \<Rightarrow> bool" where
  "steady_with pend en p e zs J s \<longleftrightarrow> steady pend en p e zs s \<and> J (holding s)"

lemma steady_withD: "steady_with pend en p e zs J s \<Longrightarrow> steady pend en p e zs s" "steady_with pend en p e zs J s \<Longrightarrow> holds J s"
  by (auto simp: steady_with_def holds_def dest: steadyD)

lemma steady_withI: "steady pend en p e zs s \<Longrightarrow> holds J s \<Longrightarrow> steady_with pend en p e zs J s"
  by (simp add: steady_with_def holds_def)

lemma steady_with_True [simp]: "steady_with pend en p e zs (\<lambda>_. True) = steady pend en p e zs"
  by (simp add: steady_with_def fun_eq_iff)

lemma runs_with:
  fixes m :: "(('d, 'm) world_scheme, 'a) prog"
  assumes "runs (steady pend en p e zs) m (\<lambda>x s. R x \<and> steady pend en p' e' zs' s)" and "keeps (holds J) m"
  shows "runs (steady_with pend en p e zs J) m (\<lambda>x s. R x \<and> steady_with pend en p' e' zs' J s)"
  unfolding runs_def
proof (intro allI impI)
  fix s :: "('d, 'm) world_scheme" assume s: "steady_with pend en p e zs J s"
  obtain x t where t: "m s = (Inr x, t)" "R x" "steady pend en p' e' zs' t"
    using runsD [OF assms(1) steady_withD(1) [OF s]] by blast
  then have "holds J t" using keepsD [OF assms(2) steady_withD(2) [OF s]] by simp
  then show "\<exists>x t. m s = (Inr x, t) \<and> R x \<and> steady_with pend en p' e' zs' J t" using t steady_withI by blast
qed

text \<open>A queue that has been initialised is handed on and destroyed at the end of its scope.\<close>

lemma with_acq_runs:
  assumes cf: "conformant (su_drv E) pend en" and fd: "CQ_CQ (su_fd E) OBJ_ACQ = Inr q0"
    and k: "\<And>acq a. admin_queue 16 2 a acq \<Longrightarrow>
      runs (steady_with pend en p False [(a, 32)] J :: ('d, 'm) world_scheme \<Rightarrow> bool) (k acq) (\<lambda>_. steady_with pend en p' e zs J')"
  shows "runs (steady_with pend en p False [] J :: ('d, 'm) world_scheme \<Rightarrow> bool) (with_acq E k) (\<lambda>_. steady_with pend en p' e zs J')"
proof -
  have "\<exists>t. with_acq E k s = (Inr (), t) \<and> steady_with pend en p' e zs J' t"
    if s: "steady_with pend en p False [] J s" for s :: "('d, 'm) world_scheme"
  proof -
    obtain q u a where q: "ACQ_Init (su_libc E) (su_drv E) 2 (q0, s) = (Inr (), (q, u))" "admin_queue 16 2 a q"
      "steady pend en p False [(a, 32)] u"
      using runsD [OF ACQ_Init_runs [OF cf, where p = p and zs = "[]" and C = "su_libc E"], where s = "(q0, s)"] CQ_CQ_blank [OF fd]
        steady_withD(1) [OF s] by auto
    have "steady_with pend en p False [(a, 32)] J u"
      using steady_withI [OF q(3), of J] keepsD [OF init_holds(1), of J "(q0, s)" "su_libc E" "su_drv E" 2] steady_withD(2) [OF s] q(1) by simp
    then obtain v where v: "k q u = (Inr (), v)" "steady_with pend en p' e zs J' v" using runsD [OF k [OF q(2)]] by auto
    obtain t where t: "destroy_q (su_drv E) (q, v) = (Inr (), (q, t))" "steady pend en p' e zs t"
      using runsD [OF destroy_runs [OF cf q(2), where p = p' and e = e and zs = zs], where s = "(q, v)"] steady_withD(1) [OF v(2)] by auto
    then have "steady_with pend en p' e zs J' t"
      using steady_withI [OF t(2), of J'] keepsD [OF init_holds(3), of J' "(q, v)" "su_drv E"] steady_withD(2) [OF v(2)] by simp
    then show ?thesis
      using fd q(1) v(1) t(1) by (simp add: with_acq_def bnd_apply sq_apply with_new_def scoped_def unwinding_def)
  qed
  then show ?thesis by (simp add: runs_def)
qed

lemma SQ_SQ_blank: "SQ_SQ fd ty = Inr q \<Longrightarrow> blank q"
  by (auto simp: SQ_SQ_def Queue_Queue_def blank_def queue.extend_def split: sum.splits if_splits)

lemma with_asq_runs:
  assumes cf: "conformant (su_drv E) pend en" and fd: "SQ_SQ (su_fd E) OBJ_ASQ = Inr q0" and le: "\<forall>(a, n) \<in> set zs. n \<le> 128"
    and k: "\<And>asq a. admin_queue 64 2 a asq \<Longrightarrow>
      runs (steady_with pend en p False ((a, 128) # zs) J :: ('d, 'm) world_scheme \<Rightarrow> bool) (k asq) (\<lambda>_. steady_with pend en p' e zs' J')"
  shows "runs (steady_with pend en p False zs J :: ('d, 'm) world_scheme \<Rightarrow> bool) (with_asq E k) (\<lambda>_. steady_with pend en p' e zs' J')"
proof -
  have "\<exists>t. with_asq E k s = (Inr (), t) \<and> steady_with pend en p' e zs' J' t"
    if s: "steady_with pend en p False zs J s" for s :: "('d, 'm) world_scheme"
  proof -
    obtain q u a where q: "ASQ_Init (su_libc E) (su_drv E) 2 (q0, s) = (Inr (), (q, u))" "admin_queue 64 2 a q"
      "steady pend en p False ((a, 128) # zs) u"
      using runsD [OF ASQ_Init_runs [OF cf le, where p = p and C = "su_libc E"], where s = "(q0, s)"] SQ_SQ_blank [OF fd]
        steady_withD(1) [OF s] by auto
    have "steady_with pend en p False ((a, 128) # zs) J u"
      using steady_withI [OF q(3), of J] keepsD [OF init_holds(2), of J "(q0, s)" "su_libc E" "su_drv E" 2] steady_withD(2) [OF s] q(1) by simp
    then obtain v where v: "k q u = (Inr (), v)" "steady_with pend en p' e zs' J' v" using runsD [OF k [OF q(2)]] by auto
    obtain t where t: "destroy_q (su_drv E) (q, v) = (Inr (), (q, t))" "steady pend en p' e zs' t"
      using runsD [OF destroy_runs [OF cf q(2), where p = p' and e = e and zs = zs'], where s = "(q, v)"] steady_withD(1) [OF v(2)] by auto
    then have "steady_with pend en p' e zs' J' t"
      using steady_withI [OF t(2), of J'] keepsD [OF init_holds(3), of J' "(q, v)" "su_drv E"] steady_withD(2) [OF v(2)] by simp
    then show ?thesis
      using fd q(1) v(1) t(1) by (simp add: with_asq_def bnd_apply sq_apply with_new_def scoped_def unwinding_def)
  qed
  then show ?thesis by (simp add: runs_def)
qed

text \<open>What a session asks of its environment.\<close>

definition working :: "'d device_env \<Rightarrow> ('d \<Rightarrow> nat) \<Rightarrow> ('d \<Rightarrow> bool) \<Rightarrow> bool" where
  "working E pend en \<longleftrightarrow> conformant (su_drv E) pend en \<and> pagesize (su_libc E) = 4096 \<and> 0 \<le> su_fd E \<and> 0 < su_fuel E \<and>
     (\<forall>n. \<not> memfail (su_libc E) n)"

lemma queue_objects: "0 \<le> fd \<Longrightarrow> \<exists>q. CQ_CQ fd OBJ_ACQ = Inr q" "0 \<le> fd \<Longrightarrow> \<exists>q. SQ_SQ fd OBJ_ASQ = Inr q"
  by (auto simp: CQ_CQ_def SQ_SQ_def Queue_Queue_def Trackable_Trackable_def)

lemma session_body_with:
  assumes w: "working E pend en"
    and body: "\<And>acq asq a b. admin_queue 16 2 a acq \<Longrightarrow> admin_queue 64 2 b asq \<Longrightarrow>
      runs (steady_with pend en 0 True [(b, 128), (a, 32)] J :: ('d, 'm) world_scheme \<Rightarrow> bool) (body acq asq)
        (\<lambda>_. steady_with pend en 0 True [(b, 128), (a, 32)] J')"
  shows "runs (steady_with pend en p e [] J :: ('d, 'm) world_scheme \<Rightarrow> bool) (session_body E body) (\<lambda>_. steady_with pend en 0 True [] J')"
proof -
  have cf: "conformant (su_drv E) pend en" and pg: "pagesize (su_libc E) = 4096" and fd: "0 \<le> su_fd E"
    using w by (simp_all add: working_def)
  obtain q0 q1 where q: "CQ_CQ (su_fd E) OBJ_ACQ = Inr q0" "SQ_SQ (su_fd E) OBJ_ASQ = Inr q1" using queue_objects [OF fd] by blast
  have weak: "steady_with pend en p e zs K s \<Longrightarrow> steady_with pend en p e [] K s" for p e zs K and s :: "('d, 'm) world_scheme"
    by (simp add: steady_with_def steady_def)
  have disable: "runs (steady_with pend en p e [] J :: ('d, 'm) world_scheme \<Rightarrow> bool) (set_state E ST_DISABLE_COMPLETELY)
      (\<lambda>ok s. ok \<and> steady_with pend en 0 False [] J s)"
    using runs_with [OF set_state_runs [OF cf _ pg, of ST_DISABLE_COMPLETELY p e "[]"] set_state_holds] by simp
  have css: "runs (steady_with pend en 0 False zs J :: ('d, 'm) world_scheme \<Rightarrow> bool) (CtrlrConfig_SetCSS (su_libc E) (su_drv E) 0)
      (\<lambda>_. steady_with pend en 0 False zs J)" for zs
    using runs_with [where R = "\<lambda>_. True", OF _ CSS_holds] CSS_runs [OF cf, of 0 False zs "su_libc E"] by simp
  have inner: "runs (steady_with pend en 0 False zs J :: ('d, 'm) world_scheme \<Rightarrow> bool)
      (bnd (CtrlrConfig_SetCSS (su_libc E) (su_drv E) 0) (\<lambda>_. bnd (set_state E ST_ENABLE) (\<lambda>ok.
         sq (throw_if (\<not> ok) (FrmwkEx [])) (body acq asq)))) (\<lambda>_. steady_with pend en 0 True [] J')"
    if "admin_queue 16 2 a acq" and "admin_queue 64 2 b asq" and zs: "zs = [(b, 128), (a, 32)]" for zs a b acq asq
  proof -
    have en: "runs (steady_with pend en 0 False zs J :: ('d, 'm) world_scheme \<Rightarrow> bool) (set_state E ST_ENABLE)
        (\<lambda>ok s. ok \<and> steady_with pend en 0 True zs J s)"
      using runs_with [OF set_state_runs [OF cf _ pg, of ST_ENABLE 0 False zs] set_state_holds] by simp
    have "runs (\<lambda>s. ok \<and> steady_with pend en 0 True zs J (s :: ('d, 'm) world_scheme)) (sq (throw_if (\<not> ok) (FrmwkEx [])) (body acq asq))
        (\<lambda>_. steady_with pend en 0 True [] J')" for ok
      by (rule pass_runs, simp, rule runs_conseq [OF body [OF that(1,2)]]) (auto simp: zs intro: weak)
    then show ?thesis by (intro runs_bnd [OF css] runs_bnd [OF en])
  qed
  show ?thesis
    unfolding session_body_def
    by (rule runs_bnd [OF disable], rule pass_runs, simp, rule runs_conseq [OF with_acq_runs [OF cf q(1)]],
        rule with_asq_runs [OF cf q(2)]) (auto intro: inner)
qed

lemma session_body_runs:
  assumes w: "working E pend en"
    and body: "\<And>acq asq a b. admin_queue 16 2 a acq \<Longrightarrow> admin_queue 64 2 b asq \<Longrightarrow>
      runs (steady pend en 0 True [(b, 128), (a, 32)] :: ('d, 'm) world_scheme \<Rightarrow> bool) (body acq asq)
        (\<lambda>_. steady pend en 0 True [(b, 128), (a, 32)])"
  shows "runs (steady pend en p e [] :: ('d, 'm) world_scheme \<Rightarrow> bool) (session_body E body) (\<lambda>_. steady pend en 0 True [])"
  using session_body_with [OF w, of "\<lambda>_. True" body "\<lambda>_. True" p e] body by simp

lemma admin_session_runs:
  assumes w: "working E pend en"
    and body: "\<And>acq asq a b. admin_queue 16 2 a acq \<Longrightarrow> admin_queue 64 2 b asq \<Longrightarrow>
      runs (steady pend en 0 True [(b, 128), (a, 32)] :: ('d, 'm) world_scheme \<Rightarrow> bool) (body acq asq)
        (\<lambda>_. steady pend en 0 True [(b, 128), (a, 32)])"
  shows "runs (steady pend en p e [] :: ('d, 'm) world_scheme \<Rightarrow> bool) (admin_session E body)
    (\<lambda>ok s. ok \<and> steady pend en 0 False [] s)"
proof -
  have cf: "conformant (su_drv E) pend en" and pg: "pagesize (su_libc E) = 4096" using w by (simp_all add: working_def)
  have disable: "runs (steady pend en 0 True [] :: ('d, 'm) world_scheme \<Rightarrow> bool) (set_state E ST_DISABLE_COMPLETELY)
      (\<lambda>ok s. ok \<and> steady pend en 0 False [] s)"
    using set_state_runs [OF cf _ pg, of ST_DISABLE_COMPLETELY 0 True "[]"] by simp
  have "runs (steady pend en p e [] :: ('d, 'm) world_scheme \<Rightarrow> bool) (try_catch (sq (session_body E body) (ret True)) False)
      (\<lambda>ok s. ok \<and> steady pend en 0 True [] s)"
    by (intro runs_try_catch runs_sq [OF session_body_runs [OF w body]] runs_ret) auto
  then show ?thesis
    unfolding admin_session_def
    by (rule runs_bnd) (rule runs_pre, rule runs_conseq [OF runs_bnd [OF disable runs_ret]], auto)
qed

section \<open>Commands of a session\<close>

text \<open>A command as its class has built it: well formed, with an opcode that is not that of Create I/O CQ.\<close>

definition built :: "cmd \<Rightarrow> bool" where
  "built c \<longleftrightarrow> cmd_ok c \<and> cmd_size c = 16 \<and> mCmdName c \<noteq> [] \<and> (ucast (cmd_dw c 0) :: u8) \<noteq> 0x05"

lemma built_sendable: "built c \<Longrightarrow> sendable c"
proof -
  assume c: "built c"
  then have "dw_ok (unat 0, unat 0 * 8, 8) c" by (simp add: built_def dw_ok_def field_ok_def)
  from GetByte_get [OF this] have "Cmd_GetOpcode c = (Inr (ucast (dw_get (0, 0, 8) c)), c)" by (simp add: Cmd_GetOpcode_def)
  moreover have "(ucast (dw_get (0, 0, 8) c) :: u8) = ucast (cmd_dw c 0)"
    by (rule bit_word_eqI) (auto simp: dw_get_def get_field_def bit_simps)
  ultimately show ?thesis using c by (simp add: built_def sendable_def)
qed

lemma built_set_dw: "built c \<Longrightarrow> 0 < i \<Longrightarrow> i < 16 \<Longrightarrow> built (set_dw c i v)"
  by (simp add: built_def cmd_dw_set_other) (simp add: set_dw_def Let_def)

text \<open>Every accessor whose field is not in the first DWORD keeps a command in that state.\<close>

lemma accessor_runs:
  assumes "cmd_accessor s g (w, off, n)" and "dw_fits (w, off, n) v" and "0 < w" "w < 16" "off + n \<le> 32"
  shows "runs built (s v) (\<lambda>_. built)"
proof -
  have "s v c = (Inr (), dw_put (w, off, n) v c) \<and> built (dw_put (w, off, n) v c)" if "built c" for c
    using cmd_accessor.setter_put [OF assms(1), of c v] assms(2-) that built_set_dw [OF that]
    by (simp add: dw_ok_def built_def field_ok_def dw_put_def)
  then show ?thesis by (simp add: runs_def)
qed

lemma dword_runs:
  assumes "0 < unat w" and "unat w < 16"
  shows "runs built (Cmd_SetDword v w) (\<lambda>_. built)"
proof -
  have "Cmd_SetDword v w c = (Inr (), set_dw c (unat w) v) \<and> built (set_dw c (unat w) v)" if "built c" for c
    using that assms built_set_dw [OF that] by (simp add: SetDword_ok built_def)
  then show ?thesis by (simp add: runs_def)
qed

lemma word_setter_runs:
  fixes s :: "'a::len word \<Rightarrow> unit cmd_prog"
  assumes "cmd_accessor (via_word s) g (w, off, n)" and "unat v < 2 ^ n" and "0 < w" "w < 16" "off + n \<le> 32" "LENGTH('a) \<le> 32"
  shows "runs built (s v) (\<lambda>_. built)"
proof -
  have "unat v < 2 ^ LENGTH('a)" by (rule unsigned_less)
  then have "unat v < 2 ^ 32" using power_increasing [OF assms(6), of "2 :: nat"] by linarith
  then have up: "unat (ucast v :: u32) = unat v" by (simp add: unsigned_ucast_eq take_bit_nat_eq_self)
  then have "dw_fits (w, off, n) (ucast v)"
    using assms(2) by (simp add: dw_fits_def word_unat_eq_iff unsigned_take_bit_eq take_bit_nat_eq_self)
  moreover have "ucast (ucast v :: u32) = v"
    by (rule bit_word_eqI) (use assms(6) in \<open>auto simp: bit_simps dest: bit_imp_le_length\<close>)
  ultimately show ?thesis using accessor_runs [OF assms(1) _ assms(3-5), of "ucast v"] by (simp add: via_word_def)
qed

lemma bool_setter_runs:
  assumes "cmd_accessor (via_bool s) g (w, off, 1)" and "0 < w" "w < 16" "off < 32"
  shows "runs built (s b) (\<lambda>_. built)"
proof -
  have "dw_fits (w, off, 1) (if b then 1 else 0)" by (simp add: dw_fits_def)
  from accessor_runs [OF assms(1) this assms(2,3)] assms(4) show ?thesis by (cases b) (simp_all add: via_bool_def)
qed

text \<open>The field values Format NVM has room for.\<close>

definition format_legal :: "FormatDUT \<Rightarrow> bool" where
  "format_legal f \<longleftrightarrow> fd_ses f \<le> 7 \<and> fd_pi f \<le> 7 \<and> fd_lbaf f \<le> 15"

lemma fill_format_runs:
  assumes "format_legal f"
  shows "runs built (fill_format f) (\<lambda>_. built)"
  unfolding fill_format_def Cmd_SetNSID_def
proof (intro runs_sq)
  show "runs built (Cmd_SetDword (fd_nsid f) 1) (\<lambda>_. built)" by (rule dword_runs) simp_all
  show "runs built (FormatNVM_SetSES (fd_ses f)) (\<lambda>_. built)"
    by (rule word_setter_runs [OF admin_checked(4)]) (use assms in \<open>simp_all add: format_legal_def word_le_nat_alt\<close>)
  show "runs built (FormatNVM_SetPIL (fd_pil f)) (\<lambda>_. built)" by (rule bool_setter_runs [OF admin_bits(3)]) simp_all
  show "runs built (FormatNVM_SetPI (fd_pi f)) (\<lambda>_. built)"
    by (rule word_setter_runs [OF admin_checked(5)]) (use assms in \<open>simp_all add: format_legal_def word_le_nat_alt\<close>)
  show "runs built (FormatNVM_SetMS (fd_ms f)) (\<lambda>_. built)" by (rule bool_setter_runs [OF admin_bits(4)]) simp_all
  show "runs built (FormatNVM_SetLBAF (fd_lbaf f)) (\<lambda>_. built)"
    by (rule word_setter_runs [OF admin_checked(1)]) (use assms in \<open>simp_all add: format_legal_def word_le_nat_alt\<close>)
qed

text \<open>Filling a fresh command and sending it.\<close>

lemma fill_and_send_runs:
  assumes w: "working E pend en" and q: "admin_queue 16 2 a acq" and z: "(a, 32) \<in> set zs" and call: "call_ok call"
    and ms: "10000 \<le> ms" "ms \<le> 86400000" and c: "built c" and fill: "runs built fill (\<lambda>_. built)"
  shows "runs (steady pend en 0 e zs :: ('d, 'm) world_scheme \<Rightarrow> bool)
    (with_new c (sq (onl fill) (send_admin E call ms asq acq))) (\<lambda>_. steady pend en 0 e zs)"
proof -
  have "\<exists>c2 t. with_new c (sq (onl fill) (send_admin E call ms asq acq)) s = (Inr ((), c2), t) \<and> steady pend en 0 e zs t"
    if f: "steady pend en 0 e zs s" for s :: "('d, 'm) world_scheme"
  proof -
    obtain c1 where c1: "fill c = (Inr (), c1)" "built c1" using runsD [OF fill c] by auto
    have "conformant (su_drv E) pend en" "\<not> memfail (su_libc E) 16" "0 < su_fuel E" using w by (simp_all add: working_def)
    from send_admin_runs [OF this(1) q this(2) z built_sendable [OF c1(2)] call ms this(3) f]
    obtain c2 t where "send_admin E call ms asq acq (c1, s) = (Inr (), (c2, t))" "steady pend en 0 e zs t" by blast
    then show ?thesis using c1(1) by (simp add: with_new_def sq_apply)
  qed
  then show ?thesis by (fastforce simp: runs_def)
qed

lemma Init_name: "keeps (\<lambda>c. mCmdName c = name) (Cmd_Init C opc dir sz)"
proof -
  have buf: "keeps (\<lambda>c. mCmdName c = name) (on_buf m)" for m :: "(mem_buffer, 'a) prog"
    by (auto simp: keeps_def on_buf_def zoom_apply split: prod.splits)
  have "keeps (\<lambda>c. mCmdName c = name) (Cmd_SetByte v w i)" for v w i
    using buf by (auto simp: keeps_def Cmd_SetByte_def Cmd_SetBits_def Cmd_SetDword_def Cmd_GetDword_def bnd_apply Let_def
        on_buf_def zoom_apply split: prod.splits sum.splits)
  then show ?thesis using buf unfolding Cmd_Init_def by (auto intro!: wf_intros)
qed

lemma ctor_named:
  assumes "Trackable_GetObjName t \<noteq> Inr []"
  shows "new_cmd_plain C t opc dir = Inr c \<Longrightarrow> mCmdName c \<noteq> []"
    and "new_cmd C M t opc dir sz a = Inr c \<Longrightarrow> mCmdName c \<noteq> []"
proof -
  have i: "mCmdName c1 = mCmdName c0" if "Cmd_Init C opc dir sz c0 = (r, c1)" for sz c0 c1 r
    using keepsD [OF Init_name, of c0 "mCmdName c0"] that by (metis snd_conv)
  have n: "mCmdName c0 \<noteq> []" if "Cmd_Cmd t = Inr c0" for c0
    using assms that by (auto simp: Cmd_Cmd_def split: sum.splits)
  show "new_cmd_plain C t opc dir = Inr c \<Longrightarrow> mCmdName c \<noteq> []"
    using i n by (fastforce simp: new_cmd_plain_def split: sum.splits prod.splits)
  show "new_cmd C M t opc dir sz a = Inr c \<Longrightarrow> mCmdName c \<noteq> []"
    using i n by (fastforce simp: new_cmd_def PrpData_SetPrpAllowed_def sq_apply throw_if_def raise_def ret_def
        split: sum.splits prod.splits if_splits)
qed

lemma fresh_built:
  assumes "fresh_command (r, t, opc, dir, a)" and "opc \<noteq> 0x05" and "\<And>c. r = Inr c \<Longrightarrow> mCmdName c \<noteq> []"
  shows "\<exists>c. r = Inr c \<and> built c"
proof -
  obtain c where c: "r = Inr c" "cmd_ok c" "cmd_size c = 16" "cmd_dw c 0 = ucast opc"
    using assms(1) by (auto simp: fresh_command_def split: sum.splits)
  moreover have "(ucast (ucast opc :: u32) :: u8) = opc"
    by (rule bit_word_eqI) (auto simp: bit_simps dest: bit_imp_le_length)
  ultimately show ?thesis using assms(2,3) by (simp add: built_def)
qed

lemma commands_built:
  assumes "\<not> memfail C 64"
  shows "\<exists>c. FormatNVM_FormatNVM C = Inr c \<and> built c" and "\<exists>c. SetFeatures_SetFeatures C M = Inr c \<and> built c"
proof -
  have "fresh_command (FormatNVM_FormatNVM C, OBJ_FORMATNVM, 0x80, DATADIR_NONE, 0)"
    unfolding FormatNVM_FormatNVM_def by (rule fresh_rules(1)) (simp_all add: assms)
  then show "\<exists>c. FormatNVM_FormatNVM C = Inr c \<and> built c"
    by (rule fresh_built) (use ctor_named(1) [of OBJ_FORMATNVM] in \<open>auto simp: FormatNVM_FormatNVM_def\<close>)
  have "fresh_command (SetFeatures_SetFeatures C M, OBJ_SETFEATURES, 0x09, DATADIR_TO_DEVICE, MASK_PRP1_PAGE M OR MASK_PRP2_PAGE M)"
    unfolding SetFeatures_SetFeatures_def by (rule fresh_rules(2) [OF _ _ _ prp_masks_allowed(2)]) (simp_all add: assms)
  then show "\<exists>c. SetFeatures_SetFeatures C M = Inr c \<and> built c"
    by (rule fresh_built) (use ctor_named(2) [of OBJ_SETFEATURES] in \<open>auto simp: SetFeatures_SetFeatures_def\<close>)
qed

section \<open>The single-command modes succeed\<close>

lemma tnvme_call_ok: "name \<noteq> [] \<Longrightarrow> call_ok (tnvme_call name qualify verbose)"
  by (simp add: call_ok_def tnvme_call_def)

lemma timeout_1: "10000 \<le> CALC_TIMEOUT_ms 1" "CALC_TIMEOUT_ms 1 \<le> 86400000"
  by (simp_all add: CALC_TIMEOUT_ms_def)

lemma format_loop_runs:
  assumes w: "working E pend en" and q: "admin_queue 16 2 a acq" and z: "(a, 32) \<in> set zs"
    and legal: "\<forall>f \<in> set fs. format_legal f"
  shows "runs (steady pend en 0 e zs :: ('d, 'm) world_scheme \<Rightarrow> bool) (format_loop E fs acq asq) (\<lambda>_. steady pend en 0 e zs)"
  using legal
proof (induction fs)
  case Nil
  then show ?case by (simp add: runs_def)
next
  case (Cons f fs)
  have "\<not> memfail (su_libc E) 64" using w by (simp add: working_def)
  then obtain c where c: "FormatNVM_FormatNVM (su_libc E) = Inr c" "built c" using commands_built(1) by blast
  have fill: "runs built (fill_format f) (\<lambda>_. built)" using Cons.prems by (simp add: fill_format_runs)
  have loop: "runs (steady pend en 0 e zs :: ('d, 'm) world_scheme \<Rightarrow> bool) (format_loop E fs acq asq) (\<lambda>_. steady pend en 0 e zs)"
    using Cons by simp
  note send = fill_and_send_runs [OF w q z tnvme_call_ok timeout_1 c(2) fill]
  have "runs (steady pend en 0 e zs :: ('d, 'm) world_scheme \<Rightarrow> bool)
      (bnd (with_new c (sq (onl (fill_format f)) (send_admin E (tnvme_call ''format'' [] True) (CALC_TIMEOUT_ms 1) asq acq)))
        (\<lambda>_. format_loop E fs acq asq)) (\<lambda>_. steady pend en 0 e zs)"
    by (rule runs_bnd [OF send loop]) simp
  then show ?case by (simp add: c(1) runs_def bnd_apply)
qed

lemma num_queues_runs:
  assumes w: "working E pend en" and q: "admin_queue 16 2 a acq" and z: "(a, 32) \<in> set zs"
  shows "runs (steady pend en 0 e zs :: ('d, 'm) world_scheme \<Rightarrow> bool) (send_num_queues E nq acq asq) (\<lambda>_. steady pend en 0 e zs)"
proof -
  let ?fill = "sq (BaseFeatures_SetFID 0x07) (SetFeatures_SetNumberOfQueues (nq_ncqr nq) (nq_nsqr nq))"
  have "\<not> memfail (su_libc E) 64" using w by (simp add: working_def)
  then obtain c where c: "SetFeatures_SetFeatures (su_libc E) (su_masks E) = Inr c" "built c" using commands_built(2) by blast
  have "runs built (BaseFeatures_SetFID 0x07) (\<lambda>_. built)"
    by (rule word_setter_runs [OF admin_bytes(1)]) simp_all
  moreover have "runs built (SetFeatures_SetNumberOfQueuesNCQR v) (\<lambda>_. built)" "runs built (SetFeatures_SetNumberOfQueuesNSQR v) (\<lambda>_. built)" for v
  proof -
    have v: "unat v < 2 ^ 16" using unsigned_less [of v] by simp
    show "runs built (SetFeatures_SetNumberOfQueuesNCQR v) (\<lambda>_. built)" by (rule word_setter_runs [OF admin_words(3) v]) simp_all
    show "runs built (SetFeatures_SetNumberOfQueuesNSQR v) (\<lambda>_. built)" by (rule word_setter_runs [OF admin_words(4) v]) simp_all
  qed
  ultimately have fill: "runs built ?fill (\<lambda>_. built)"
    unfolding SetFeatures_SetNumberOfQueues_def by (intro runs_sq)
  note send = fill_and_send_runs [OF w q z tnvme_call_ok timeout_1 c(2) fill]
  have eq: "sq (onl (BaseFeatures_SetFID 0x07)) (sq (onl (SetFeatures_SetNumberOfQueues x y)) m) =
      sq (onl (sq (BaseFeatures_SetFID 0x07) (SetFeatures_SetNumberOfQueues x y))) m"
    for x y and m :: "(cmd \<times> ('d, 'm) world_scheme, unit) prog"
    by (auto simp: fun_eq_iff sq_apply split: prod.splits sum.splits)
  have "runs (steady pend en 0 e zs :: ('d, 'm) world_scheme \<Rightarrow> bool)
      (bnd (with_new c (sq (onl ?fill) (send_admin E (tnvme_call ''queues'' [] True) (CALC_TIMEOUT_ms 1) asq acq)))
        (\<lambda>_. ret ())) (\<lambda>_. steady pend en 0 e zs)"
    by (rule runs_bnd [OF send runs_ret]) simp_all
  then show ?thesis by (simp add: send_num_queues_def c(1) runs_def bnd_apply eq)
qed

lemma session_done:
  fixes s :: "('d, 'm) world_scheme"
  assumes w: "working E pend en" and s: "rg_ok s" "meta_inv s"
    and body: "\<And>acq asq a b. admin_queue 16 2 a acq \<Longrightarrow> admin_queue 64 2 b asq \<Longrightarrow>
      runs (steady pend en 0 True [(b, 128), (a, 32)] :: ('d, 'm) world_scheme \<Rightarrow> bool) (body acq asq)
        (\<lambda>_. steady pend en 0 True [(b, 128), (a, 32)])"
  shows "\<exists>t. admin_session E body s = (Inr True, t) \<and> cf_curState t = ST_DISABLE_COMPLETELY \<and>
    \<not> en (kern t) \<and> pend (kern t) = 0"
proof -
  have f: "steady pend en (pend (kern s)) (en (kern s)) [] s" using s by (simp add: steady_def ready_def)
  have "runs (steady pend en (pend (kern s)) (en (kern s)) [] :: ('d, 'm) world_scheme \<Rightarrow> bool) (admin_session E body)
      (\<lambda>ok s. ok \<and> steady pend en 0 False [] s)"
    by (rule admin_session_runs [OF w]) (rule body)
  from runsD [OF this f] obtain t where t: "admin_session E body s = (Inr True, t)" "steady pend en 0 False [] t" by auto
  have "0 \<le> fst (io_device_state (su_drv E) ST_DISABLE_COMPLETELY d)" for d
    using cf_state [of "su_drv E" pend en ST_DISABLE_COMPLETELY d] w by (metis prod.collapse working_def)
  then show ?thesis using admin_session_disables [OF t(1)] t steadyD [OF t(2)] by auto
qed

section \<open>Examples\<close>

text \<open>A device that completes every command at once: the number of entries pending, and whether it is enabled.\<close>

definition work_dnvme :: "(nat \<times> bool) dnvme" where
  "work_dnvme = null_dnvme\<lparr>
     io_read := (\<lambda>io buf d. (0, [if snd d then 1 else 0], d)), io_write := (\<lambda>io buf d. (0, d)),
     io_device_state := (\<lambda>st d. (0, (0, st = ST_ENABLE))), io_create_admn_q := (\<lambda>n t d. (0, d)),
     io_mmap := (\<lambda>len w off d. (4096, replicate len 0, d)),
     io_q_metrics := (\<lambda>c q d. (0, \<lparr>gq_q_id = 0, gq_tail_ptr = 0, gq_head_ptr = 0, gq_elements = 2\<rparr>, d)),
     io_reap_inquiry := (\<lambda>q d. (0, \<lparr>ri_num_remaining = of_nat (fst d), ri_isr_count = 0\<rparr>, d)),
     io_reap := (\<lambda>q n buf d. (0, \<lparr>rp_num_reaped = 1, rp_num_remaining = 0, rp_isr_count = 0, rp_buffer = buf\<rparr>, (0, snd d))),
     io_send_64b := (\<lambda>c d. (0, 7, d)), io_ring_sq := (\<lambda>q d. (0, (Suc (fst d), snd d))),
     io_clock := (\<lambda>d. (0, (0, 0), d))\<rparr>"

definition work_env :: "(nat \<times> bool) device_env" where
  "work_env = \<lparr>su_libc = ex_libc, su_drv = work_dnvme, su_fuel = 1, su_masks = ex_masks, su_fs = ex_fs, su_fd = 3\<rparr>"

definition work_world :: "(nat \<times> bool) world" where
  "work_world = \<lparr>kern = (0, False), mmaps = (\<lambda>_. []), rg_specRev = SPECREV_12, rg_pciCap = [],
     rg_pci = pci_table, cf_curState = ST_DISABLE, cf_firstTime = True, cf_deltaCheck = False,
     mr_allocSize = 0, mr_reserved = [], mr_released = [], mObjGrpLife = [], ob_heap = 0,
     wd_bufs = (\<lambda>_. MemBuffer_new), wd_next = 1, mIdentifyCmdCtrlr = None, mIdentifyCmdNamspc = [], mGetFeaturesNumOfQ = 0\<rparr>"

lemma work_conformant: "conformant work_dnvme fst snd"
  unfolding conformant_def same_device_def
  by (intro conjI allI impI; simp add: work_dnvme_def null_dnvme_def timeval_us_def split: if_splits)

lemma work_working: "working work_env fst snd"
  by (simp add: working_def work_conformant work_env_def ex_libc_def)

section \<open>Properties\<close>



end
