(* ===== verification/Informative_Runs.thy ===== *)
theory Informative_Runs
  imports Informative_Init Conformant
begin

text \<open>
  The \<open>Informative\<close> singleton at work (Singletons/informative.cpp): what its cache holds after \<open>Reinit\<close>, and
  that \<open>Reinit\<close> succeeds on a conformant device whose operating system creates the dump files.
\<close>

section \<open>The steps on a conformant device\<close>

text \<open>Files are created, and neither a shell command nor a file disturbs the device.\<close>

definition os_works :: "'d os \<Rightarrow> ('d \<Rightarrow> nat) \<Rightarrow> ('d \<Rightarrow> bool) \<Rightarrow> bool" where
  "os_works os pend en \<longleftrightarrow>
     (\<forall>f d. fst (os_open os f d) \<and> same_device pend en d (snd (os_open os f d))) \<and>
     (\<forall>c d. same_device pend en d (os_system os c d))"

lemma working_fs [simp]: "working (E\<lparr>su_fs := fs\<rparr>) pend en = working E pend en"
  by (simp add: working_def)

lemma steady_fsys [simp]: "steady pend en p e zs (s\<lparr>fsys := x\<rparr>) = steady pend en p e zs s"
  by (simp add: steady_def ready_def rg_ok_def meta_inv_def zeros_def)

lemma steady_cache [simp]:
  "steady pend en p e zs (s\<lparr>mIdentifyCmdCtrlr := x\<rparr>) = steady pend en p e zs s"
  "steady pend en p e zs (s\<lparr>mIdentifyCmdNamspc := y\<rparr>) = steady pend en p e zs s"
  "steady pend en p e zs (s\<lparr>mGetFeaturesNumOfQ := z\<rparr>) = steady pend en p e zs s"
  by (simp_all add: steady_def ready_def rg_ok_def meta_inv_def zeros_def)

lemma built_data [simp]: "built (c\<lparr>mBufRW := r, mBufSize := n, mPrpFields := f\<rparr>) = built c"
  by (simp add: built_def)

text \<open>An Identify command.\<close>

lemma id_buffer_ok:
  assumes "\<not> memfail C 4096"
  shows "\<exists>b. MemBuffer_InitAlignment C 4096 PRP_BUFFER_ALIGNMENT True 0 None MemBuffer_new = (Inr (), b)"
proof -
  have "posix_memalign C PRP_BUFFER_ALIGNMENT 4096 = Inr (fresh C (unat (4096 :: u32)))"
    by (rule posix_memalign_128) (simp add: assms)
  from InitAlignment_zeroed [OF this, of MemBuffer_new] show ?thesis by (auto simp: PRP_BUFFER_ALIGNMENT_def)
qed


text \<open>An Identify command that has room for a buffer.\<close>

definition id_cmd :: "send_masks \<Rightarrow> cmd \<Rightarrow> bool" where
  "id_cmd M c \<longleftrightarrow> built c \<and> mDataDir c \<noteq> DATADIR_NONE \<and> mPrpAllowed c = MASK_PRP1_PAGE M OR MASK_PRP2_PAGE M \<and> mBufRO c = None"

lemma id_cmd_set_dw: "id_cmd M c \<Longrightarrow> 0 < i \<Longrightarrow> i < 16 \<Longrightarrow> id_cmd M (set_dw c i v)"
  by (simp add: id_cmd_def built_set_dw)

lemma Identify_ready:
  assumes "\<not> memfail C 64"
  shows "\<exists>c. Identify_Identify C M = Inr c \<and> id_cmd M c"
proof -
  let ?a = "MASK_PRP1_PAGE M OR MASK_PRP2_PAGE M"
  have f: "fresh_command (Identify_Identify C M, OBJ_IDENTIFY, 0x06, DATADIR_FROM_DEVICE, ?a)"
    unfolding Identify_Identify_def by (rule fresh_rules(2) [OF _ _ _ prp_masks_allowed(2)]) (simp_all add: assms)
  moreover have "\<exists>c. Identify_Identify C M = Inr c \<and> built c"
    by (rule fresh_built [OF f]) (use ctor_named(2) [of OBJ_IDENTIFY] in \<open>auto simp: Identify_Identify_def\<close>)
  ultimately show ?thesis by (auto simp: fresh_command_def id_cmd_def)
qed

lemma SetCNS_runs: "runs (id_cmd M) (Identify_SetCNS cns) (\<lambda>_. id_cmd M)"
proof -
  have "\<exists>c'. Identify_SetCNS cns c = (Inr (), c') \<and> id_cmd M c'" if c: "id_cmd M c" for c
  proof -
    have ok: "dw_ok (10, 0, 8) c" using c by (simp add: id_cmd_def built_def dw_ok_def field_ok_def)
    have "id_cmd M (dw_put (10, 0, 8) v c)" for v using id_cmd_set_dw [OF c, of 10] by (simp add: dw_put_def)
    then show ?thesis using SetByte_put [of 10 0 c cns] ok by (simp add: Identify_SetCNS_def)
  qed
  then show ?thesis by (simp add: runs_def)
qed

lemma SetNSID_runs: "runs (id_cmd M) (Cmd_SetNSID n) (\<lambda>_. id_cmd M)"
proof -
  have "Cmd_SetNSID n c = (Inr (), set_dw c 1 n)" if "id_cmd M c" for c
    using that by (simp add: Cmd_SetNSID_def SetDword_ok id_cmd_def built_def)
  then show ?thesis using id_cmd_set_dw [where i = 1] by (simp add: runs_def)
qed

lemma ms_bounds:
  assumes "10000 \<le> (ms :: u16)"
  shows "10000 \<le> (ucast ms :: u32)" and "(ucast ms :: u32) \<le> 86400000"
proof -
  have "unat ms < 2 ^ 16" using unsigned_less [of ms] by simp
  moreover have u: "unat (ucast ms :: u32) = unat ms" by (simp add: unsigned_ucast_eq take_bit_nat_eq_self)
  ultimately show "(ucast ms :: u32) \<le> 86400000" by (simp add: word_le_nat_alt)
  show "10000 \<le> (ucast ms :: u32)" using assms u by (simp add: word_le_nat_alt)
qed

lemma send_identify_runs:
  assumes w: "working E pend en" and q: "admin_queue 16 2 a acq" and z: "(a, 32) \<in> set zs" and call: "call_ok call"
    and ms: "10000 \<le> ms" and fill: "runs (id_cmd (su_masks E)) fill (\<lambda>_. id_cmd (su_masks E))"
  shows "runs (steady pend en 0 e zs :: ('d, 'm) world_scheme \<Rightarrow> bool) (send_identify E call ms asq acq fill bs) (\<lambda>_. steady pend en 0 e zs)"
proof -
  let ?p = "MASK_PRP1_PAGE (su_masks E) OR MASK_PRP2_PAGE (su_masks E)"
  have cf: "conformant (su_drv E) pend en" "\<not> memfail (su_libc E) 16" "0 < su_fuel E" "\<not> memfail (su_libc E) 64" "\<not> memfail (su_libc E) 4096"
    using w by (simp_all add: working_def)
  note ms' = ms_bounds [OF ms]
  obtain c0 where c0: "Identify_Identify (su_libc E) (su_masks E) = Inr c0" "id_cmd (su_masks E) c0" using Identify_ready cf(4) by blast
  obtain c1 where c1: "fill c0 = (Inr (), c1)" "id_cmd (su_masks E) c1" using runsD [OF fill c0(2)] by auto
  obtain b where b: "MemBuffer_InitAlignment (su_libc E) 4096 PRP_BUFFER_ALIGNMENT True 0 None MemBuffer_new = (Inr (), b)"
    using id_buffer_ok cf(5) by blast
  have "\<exists>c t. send_identify E call ms asq acq fill bs s = (Inr c, t) \<and> steady pend en 0 e zs t"
    if f: "steady pend en 0 e zs s" for s :: "('d, 'm) world_scheme"
  proof -
    let ?r = "wd_next s"
    let ?s = "s\<lparr>wd_next := ?r + 1, wd_bufs := (wd_bufs s)(?r := b)\<rparr>"
    let ?c = "c1\<lparr>mBufRW := Some ?r, mBufSize := 4096, mPrpFields := ?p\<rparr>"
    have "?p AND NOT (MASK_PRP1_PAGE (su_masks E)) AND NOT (MASK_PRP2_PAGE (su_masks E)) = 0"
      by (rule bit_word_eqI) (auto simp: bit_simps)
    then have "PrpData_SetPrpBuffer ?p ?r b c1 = (Inr (), ?c)"
      using c1(2) id_buffer [OF b] by (simp add: PrpData_SetPrpBuffer_def id_cmd_def MemBuffer_GetBufSize_def)
    moreover have "sendable ?c" using c1(2) by (intro built_sendable) (simp add: id_cmd_def)
    from send_admin_runs [OF cf(1) q cf(2) z this call ms' cf(3), of e ?s asq] f
    obtain c2 t where "send_admin E call (ucast ms) asq acq (?c, ?s) = (Inr (), (c2, t))" "steady pend en 0 e zs t" by auto
    ultimately show ?thesis
      using c0 c1 b by (simp add: send_identify_def bnd_apply sq_apply with_new_def new_mb_def on_mb_def zoom_apply)
  qed
  then show ?thesis by (simp add: runs_def)
qed


lemma informative_call_ok [simp]: "call_ok (informative_call qualify verbose)"
  by (simp add: call_ok_def informative_call_def)

lemma namspc_loop_runs:
  assumes w: "working E pend en" and q: "admin_queue 16 2 a acq" and z: "(a, 32) \<in> set zs" and ms: "10000 \<le> ms"
  shows "runs (steady pend en 0 e zs :: ('d, 'm) world_scheme \<Rightarrow> bool) (namspc_loop E device asq acq ms i n) (\<lambda>_. steady pend en 0 e zs)"
proof (induction n arbitrary: i)
  case 0
  then show ?case by (simp add: runs_def)
next
  case (Suc n)
  have step: "runs (steady pend en 0 e zs :: ('d, 'm) world_scheme \<Rightarrow> bool) (modify (\<lambda>s. s\<lparr>mIdentifyCmdNamspc := mIdentifyCmdNamspc s @ [Some c]\<rparr>))
      (\<lambda>_. steady pend en 0 e zs)" for c by (rule runs_modify) simp
  show ?case unfolding namspc_loop.simps
    by (rule runs_bnd [OF send_identify_runs [OF w q z informative_call_ok ms runs_sq [OF SetCNS_runs SetNSID_runs]]])
      (rule runs_sq [OF step Suc.IH])
qed

text \<open>The number of queues.\<close>

lemma zero_entry_valid: "ProcessCE_Validate (ce_of_bytes (replicate 16 0)) CESTAT_SUCCESS = Inr ()"
  by code_simp

lemma reap_num_queues_runs:
  assumes w: "working E pend en" and q: "admin_queue 16 2 a acq" and z: "(a, 32) \<in> set zs" and ms: "10000 \<le> ms"
  shows "runs (steady pend en 1 e zs :: ('d, 'm) world_scheme \<Rightarrow> bool) (reap_num_queues E acq ms) (\<lambda>_. steady pend en 0 e zs)"
proof -
  have cf: "conformant (su_drv E) pend en" "\<not> memfail (su_libc E) 16" "0 < su_fuel E"
    using w by (simp_all add: working_def)
  obtain k where k: "su_fuel E = Suc k" using cf(3) gr0_conv_Suc by blast
  let ?out = "(ucast (undef64 (su_libc E)), ucast (undef64 (su_libc E)))"
  have dump: "o' \<noteq> [] \<Longrightarrow> dump_as (su_fs E) (informative_call [] True) o' n s = (Inr (), s)" for o' n and s :: "('d, 'm) world_scheme"
    by (simp add: dump_as_def PrepDumpFile_def informative_call_def bnd_apply)
  have "\<exists>t. reap_num_queues E acq ms s = (Inr (), t) \<and> steady pend en 0 e zs t"
    if f: "steady pend en 1 e zs s" for s :: "('d, 'm) world_scheme"
  proof -
    obtain isr s1 where 1: "CQ_ReapInquiryWaitSpecify (su_drv E) (su_fuel E) acq (ucast ms) 1 ?out s = (Inr (True, 1, isr), s1)"
      "steady pend en 1 e zs s1"
      using inquiry_wait [OF cf(1) ms_bounds [OF ms] f, of k acq ?out] unfolding k by blast
    obtain mt s2 where 2: "CQ_GetQMetrics (su_drv E) acq s1 = (Inr mt, s2)" "unat (gq_head_ptr mt) < 2" "steady pend en 1 e zs s2"
      using runsD [OF metrics_runs [OF cf(1)] 1(2)] by blast
    obtain rem isr' s3 where 3: "CQ_Reap (su_libc E) (su_drv E) acq (wd_next s2) 1 True True
        (s2\<lparr>wd_bufs := (wd_bufs s2)(wd_next s2 := MemBuffer_new), wd_next := wd_next s2 + 1\<rparr>) = (Inr (1, rem, isr'), s3)"
      "steady pend en 0 e zs s3"
      using reap_fresh [OF cf(1) q cf(2) 2(3)] by blast
    have "zeros a 32 s3" using steadyD [OF 3(2)] z by blast
    from peek_zero [OF q this 2(2)] have "CQ_PeekCE acq (gq_head_ptr mt) s3 = (Inr (ce_of_bytes (replicate 16 0)), s3)" .
    then show ?thesis
      using 1(1) 2(1) 3 zero_entry_valid
      by (simp add: reap_num_queues_def bnd_apply sq_apply dump new_mb_def CQ_LogCE_def)
  qed
  then show ?thesis by (simp add: runs_def)
qed


lemma GetFeatures_ready:
  assumes "\<not> memfail C 64"
  shows "\<exists>c. GetFeatures_GetFeatures C M = Inr c \<and> built c"
proof -
  have "fresh_command (GetFeatures_GetFeatures C M, OBJ_GETFEATURES, 0x0A, DATADIR_FROM_DEVICE, MASK_PRP1_PAGE M OR MASK_PRP2_PAGE M)"
    unfolding GetFeatures_GetFeatures_def by (rule fresh_rules(2) [OF _ _ _ prp_masks_allowed(2)]) (simp_all add: assms)
  then show ?thesis
    by (rule fresh_built) (use ctor_named(2) [of OBJ_GETFEATURES] in \<open>auto simp: GetFeatures_GetFeatures_def\<close>)
qed

lemma SendGetFeatures_runs:
  assumes w: "working E pend en" and q: "admin_queue 16 2 a acq" and z: "(a, 32) \<in> set zs" and ms: "10000 \<le> ms"
  shows "runs (steady pend en 0 e zs :: ('d, 'm) world_scheme \<Rightarrow> bool) (Informative_SendGetFeaturesNumOfQueues E asq acq ms)
    (\<lambda>_. steady pend en 0 e zs)"
proof -
  have cf: "conformant (su_drv E) pend en" "\<not> memfail (su_libc E) 64" using w by (simp_all add: working_def)
  obtain c where c: "GetFeatures_GetFeatures (su_libc E) (su_masks E) = Inr c" "built c" using GetFeatures_ready cf(2) by blast
  have "runs built (BaseFeatures_SetFID 0x07) (\<lambda>_. built)" by (rule word_setter_runs [OF admin_bytes(1)]) simp_all
  then obtain c1 where c1: "BaseFeatures_SetFID 0x07 c = (Inr (), c1)" "built c1" using runsD c(2) by fastforce
  have dump: "o' \<noteq> [] \<Longrightarrow> dump_as (su_fs E) (informative_call [] True) o' n s = (Inr (), s)" for o' n and s :: "'b"
    by (simp add: dump_as_def PrepDumpFile_def informative_call_def bnd_apply)
  have "\<exists>t. Informative_SendGetFeaturesNumOfQueues E asq acq ms s = (Inr (), t) \<and> steady pend en 0 e zs t"
    if f: "steady pend en 0 e zs s" for s :: "('d, 'm) world_scheme"
  proof -
    obtain uid c2 s1 where 1: "sq_Send (su_drv E) (su_masks E) asq (c1, s) = (Inr uid, (c2, s1))" "steady pend en 0 e zs s1"
      using send_runs [OF cf(1) built_sendable [OF c1(2)] f] by blast
    obtain s2 where 2: "SQ_Ring (su_drv E) asq s1 = (Inr (), s2)" "steady pend en 1 e zs s2" using ring_runs [OF cf(1) 1(2)] by auto
    obtain t where "reap_num_queues E acq ms s2 = (Inr (), t)" "steady pend en 0 e zs t"
      using runsD [OF reap_num_queues_runs [OF w q z ms] 2(2)] by auto
    then show ?thesis
      using c(1) c1(1) 1(1) 2(1) by (simp add: Informative_SendGetFeaturesNumOfQueues_def bnd_apply sq_apply with_new_def dump)
  qed
  then show ?thesis by (simp add: runs_def)
qed

section \<open>The dumps of the registers\<close>

text \<open>Every row that is dumped has an offset, and its size is one that can be read.\<close>

definition dumpable :: "('d, 'm) registers_scheme \<Rightarrow> bool" where
  "dumpable s \<longleftrightarrow>
     (\<forall>r \<in> set (rg_pci s). pci_cap r = PCICAP_FENCE \<longrightarrow> pci_offset r \<noteq> USHRT_MAX \<and> pci_size r \<le> MAX_SUPPORTED_REG_SIZE) \<and>
     (\<forall>cap \<in> set (rg_pciCap s). cap \<noteq> PCICAP_FENCE \<and>
        (\<forall>r \<in> set (rg_pci s). pci_cap r = cap \<longrightarrow> pci_size r \<le> MAX_SUPPORTED_REG_SIZE \<longrightarrow> pci_offset r \<noteq> USHRT_MAX))"

lemma read_value_ok:
  fixes s :: "('d, 'm) world_scheme"
  assumes "conformant drv pend en" and "steady pend en p e zs s" and "roffset \<noteq> USHRT_MAX" "rsize \<le> MAX_SUPPORTED_REG_SIZE"
  shows "\<exists>x d. Registers_Read_value drv spc rsize roffset v s = (Inr (True, x), s\<lparr>kern := d\<rparr>) \<and> steady pend en p e zs (s\<lparr>kern := d\<rparr>)"
proof -
  obtain rc b d where io: "io_read drv (mk_io spc roffset rsize (dflt_acc spc)) (le64 v) (kern s) = (rc, b, d)" by (metis prod_cases3)
  then have "0 \<le> rc" "steady pend en p e zs (s\<lparr>kern := d\<rparr>)" using cf_read [OF assms(1) io] steady_step [OF assms(2)] by blast+
  then have "Registers_Read_value drv spc rsize roffset v s = (Inr (True, REGMASK (of_le b) (unat rsize)), s\<lparr>kern := d\<rparr>)"
    using io assms(3,4) by (simp add: Registers_Read_value_def bnd_apply ioctl2_apply not_less)
  then show ?thesis using steady_step [OF assms(2)] cf_read [OF assms(1) io] by blast
qed

lemma read_long_ok:
  fixes s :: "('d, 'm) world_scheme"
  assumes "conformant drv pend en" and "steady pend en p e zs s"
  shows "\<exists>d. read_long C drv spc rsize roffset s = (Inr (), s\<lparr>kern := d\<rparr>) \<and> steady pend en p e zs (s\<lparr>kern := d\<rparr>)"
proof -
  obtain rc b d where io: "io_read drv (mk_io spc roffset rsize (sized_acc spc rsize)) (fresh C (unat rsize)) (kern s) = (rc, b, d)"
    by (metis prod_cases3)
  then have "0 \<le> rc" "steady pend en p e zs (s\<lparr>kern := d\<rparr>)" using cf_read [OF assms(1) io] steady_step [OF assms(2)] by blast+
  then have "read_long C drv spc rsize roffset s = (Inr (), s\<lparr>kern := d\<rparr>)"
    using io by (simp add: read_long_def Registers_Read_bytes_def bnd_apply ioctl2_apply not_less)
  then show ?thesis using steady_step [OF assms(2)] cf_read [OF assms(1) io] by blast
qed


text \<open>Every loop of the dumps changes at most the state of the driver.\<close>

lemma dump_ctl_ok:
  fixes s :: "('d, 'm) world_scheme"
  assumes "conformant drv pend en" and "steady pend en p e zs s" and "\<forall>i \<in> set is. i < CTLSPC_FENCE"
  shows "\<exists>d. dump_ctl_loop C drv is v s = (Inr (), s\<lparr>kern := d\<rparr>) \<and> steady pend en p e zs (s\<lparr>kern := d\<rparr>)"
  using assms(2,3)
proof (induction "is" arbitrary: v s)
  case Nil
  then show ?case by (intro exI [of _ "kern s"]) simp
next
  case (Cons i "is")
  let ?r = "ctl_table ! i"
  have next': "\<exists>d'. dump_ctl_loop C drv is x (s\<lparr>kern := d\<rparr>) = (Inr (), s\<lparr>kern := d'\<rparr>) \<and> steady pend en p e zs (s\<lparr>kern := d'\<rparr>)"
    if "steady pend en p e zs (s\<lparr>kern := d\<rparr>)" for d x using Cons.IH [OF that, of x] Cons.prems(2) by simp
  have i: "i < length (rg_pci s)" "i < length ctl_table"
    using rg_ok_row [of s i] steadyD [OF Cons.prems(1)] Cons.prems(2) by (simp_all add: length_ctl_table)
  consider "\<not> ValidSpecRev (ctl_specRev ?r) s" | "ValidSpecRev (ctl_specRev ?r) s" "ctl_size ?r > MAX_SUPPORTED_REG_SIZE"
    | "ValidSpecRev (ctl_specRev ?r) s" "\<not> ctl_size ?r > MAX_SUPPORTED_REG_SIZE" by blast
  then show ?case
  proof cases
    case 1
    then show ?thesis using Cons.IH [OF Cons.prems(1), of v] Cons.prems(2) by (simp add: bnd_apply)
  next
    case 2
    then show ?thesis
      using read_long_ok [OF assms(1) Cons.prems(1), of C NVMEIO_BAR01 "ctl_size ?r" "ctl_offset ?r"] next'
      by (fastforce simp: bnd_apply sq_apply)
  next
    case 3
    have stay: "\<exists>d. (Inr (), s) = (Inr (), s\<lparr>kern := d\<rparr>) \<and> steady pend en p e zs (s\<lparr>kern := d\<rparr>)"
      using Cons.prems(1) by (intro exI [of _ "kern s"]) simp
    show ?thesis
    proof (cases "ValidSpecRev (pci_specRev (rg_pci s ! i)) s \<and> ctl_offset ?r \<noteq> USHRT_MAX")
      case True
      then obtain x d where "Registers_Read_ctl drv i v s = (Inr (True, x), s\<lparr>kern := d\<rparr>)" "steady pend en p e zs (s\<lparr>kern := d\<rparr>)"
        using read_value_ok [OF assms(1) Cons.prems(1), of "ctl_offset ?r" "ctl_size ?r" NVMEIO_BAR01 v] i 3(2)
        by (auto simp: Registers_Read_ctl_def Let_def not_less)
      then show ?thesis using 3 next' [of d x] by (simp add: bnd_apply)
    next
      case False
      then have "Registers_Read_ctl drv i v s = (Inr (False, v), s)"
        using i by (auto simp: Registers_Read_ctl_def Registers_Read_value_def Let_def)
      then show ?thesis using 3 stay by (simp add: bnd_apply)
    qed
  qed
qed


lemma read_pci_ok:
  fixes s :: "('d, 'm) world_scheme"
  assumes "conformant drv pend en" and f: "steady pend en p e zs s" and j: "j < PCISPC_FENCE"
    and "pci_offset (rg_pci s ! j) \<noteq> USHRT_MAX" and "pci_size (rg_pci s ! j) \<le> MAX_SUPPORTED_REG_SIZE"
  shows "\<exists>x d. Registers_Read_pci drv j v s = (Inr (True, x), s\<lparr>kern := d\<rparr>) \<and> steady pend en p e zs (s\<lparr>kern := d\<rparr>)"
proof -
  have "j < length (rg_pci s)" "ValidSpecRev (pci_specRev (rg_pci s ! j)) s" using rg_ok_row [of s j] steadyD [OF f] j by simp_all
  then show ?thesis using read_value_ok [OF assms(1) f assms(4,5)] by (simp add: Registers_Read_pci_def Let_def)
qed

lemma dump_hdr_ok:
  fixes s :: "('d, 'm) world_scheme"
  assumes "conformant drv pend en" and "steady pend en p e zs s" and "dumpable s" and "\<forall>j \<in> set js. j < PCISPC_FENCE"
  shows "\<exists>x d. dump_hdr_loop drv js v s = (Inr x, s\<lparr>kern := d\<rparr>) \<and> steady pend en p e zs (s\<lparr>kern := d\<rparr>)"
  using assms(2-4)
proof (induction js arbitrary: v s)
  case Nil
  then show ?case by (intro exI [of _ v] exI [of _ "kern s"]) simp
next
  case (Cons j js)
  let ?r = "rg_pci s ! j"
  have row: "?r \<in> set (rg_pci s)" using rg_ok_row [of s j] steadyD [OF Cons.prems(1)] Cons.prems(3) by simp
  show ?case
  proof (cases "ValidSpecRev (pci_specRev ?r) s \<and> pci_cap ?r = PCICAP_FENCE")
    case False
    then show ?thesis using Cons.IH [OF Cons.prems(1,2), of v] Cons.prems(3) by (simp add: bnd_apply)
  next
    case True
    then obtain x d where d: "Registers_Read_pci drv j v s = (Inr (True, x), s\<lparr>kern := d\<rparr>)" "steady pend en p e zs (s\<lparr>kern := d\<rparr>)"
      using read_pci_ok [OF assms(1) Cons.prems(1), of j v] Cons.prems(2,3) row by (auto simp: dumpable_def)
    have "dumpable (s\<lparr>kern := d\<rparr>)" using Cons.prems(2) by (simp add: dumpable_def)
    from Cons.IH [OF d(2) this, of x] show ?thesis using True d(1) Cons.prems(3) by (simp add: bnd_apply sq_apply)
  qed
qed

lemma dump_cap_ok:
  fixes s :: "('d, 'm) world_scheme"
  assumes "conformant drv pend en" and "steady pend en p e zs s" and "dumpable s" and "\<forall>j \<in> set js. j < PCISPC_FENCE"
    and cap: "cap \<in> set (rg_pciCap s)"
  shows "\<exists>x d. dump_cap_loop C drv cap js v s = (Inr x, s\<lparr>kern := d\<rparr>) \<and> steady pend en p e zs (s\<lparr>kern := d\<rparr>)"
  using assms(2-)
proof (induction js arbitrary: v s)
  case Nil
  then show ?case by (intro exI [of _ v] exI [of _ "kern s"]) simp
next
  case (Cons j js)
  let ?r = "rg_pci s ! j"
  have row: "?r \<in> set (rg_pci s)" using rg_ok_row [of s j] steadyD [OF Cons.prems(1)] Cons.prems(3) by simp
  have next': "\<exists>y d'. dump_cap_loop C drv cap js x (s\<lparr>kern := d\<rparr>) = (Inr y, s\<lparr>kern := d'\<rparr>) \<and> steady pend en p e zs (s\<lparr>kern := d'\<rparr>)"
    if "steady pend en p e zs (s\<lparr>kern := d\<rparr>)" for d x
    using Cons.IH [OF that, of x] Cons.prems(2-4) by (simp add: dumpable_def)
  show ?case
  proof (cases "ValidSpecRev (pci_specRev ?r) s \<and> pci_cap ?r = cap")
    case False
    then show ?thesis using Cons.IH [OF Cons.prems(1,2), of v] Cons.prems(3,4) by (auto simp: bnd_apply)
  next
    case sel: True
    show ?thesis
    proof (cases "pci_size ?r > MAX_SUPPORTED_REG_SIZE")
      case True
      then show ?thesis
        using sel read_long_ok [OF assms(1) Cons.prems(1), of C NVMEIO_PCI_HDR "pci_size ?r" "pci_offset ?r"] next'
        by (fastforce simp: bnd_apply sq_apply)
    next
      case False
      then obtain x d where d: "Registers_Read_pci drv j v s = (Inr (True, x), s\<lparr>kern := d\<rparr>)" "steady pend en p e zs (s\<lparr>kern := d\<rparr>)"
        using read_pci_ok [OF assms(1) Cons.prems(1), of j v] sel Cons.prems(2-4) row by (auto simp: dumpable_def not_less)
      then show ?thesis using sel False next' [OF d(2), of x] by (simp add: bnd_apply sq_apply)
    qed
  qed
qed

lemma dump_caps_ok:
  fixes s :: "('d, 'm) world_scheme"
  assumes "conformant drv pend en" and "steady pend en p e zs s" and "dumpable s" and "set caps \<subseteq> set (rg_pciCap s)"
  shows "\<exists>d. dump_caps_loop C drv caps v s = (Inr (), s\<lparr>kern := d\<rparr>) \<and> steady pend en p e zs (s\<lparr>kern := d\<rparr>)"
  using assms(2-)
proof (induction caps arbitrary: v s)
  case Nil
  then show ?case by (intro exI [of _ "kern s"]) simp
next
  case (Cons cap caps)
  have cap: "cap \<in> set (rg_pciCap s)" "cap \<noteq> PCICAP_FENCE" using Cons.prems(2,3) by (auto simp: dumpable_def)
  obtain x d where d: "dump_cap_loop C drv cap [0..<PCISPC_FENCE] v s = (Inr x, s\<lparr>kern := d\<rparr>)" "steady pend en p e zs (s\<lparr>kern := d\<rparr>)"
    using dump_cap_ok [OF assms(1) Cons.prems(1,2) _ cap(1), of "[0..<PCISPC_FENCE]" C v] by auto
  have "dumpable (s\<lparr>kern := d\<rparr>)" using Cons.prems(2) by (simp add: dumpable_def)
  from Cons.IH [OF d(2) this, of x] show ?case using d(1) cap(2) Cons.prems(3) by (simp add: bnd_apply sq_apply)
qed


lemma opened_ok:
  fixes s :: "('d, 'm) world_scheme"
  assumes "os_works os pend en" and "steady pend en p e zs s"
  shows "\<exists>d. opened os f s = (Inr (), s\<lparr>kern := d\<rparr>) \<and> steady pend en p e zs (s\<lparr>kern := d\<rparr>)"
proof -
  obtain b d where io: "os_open os f (kern s) = (b, d)" by fastforce
  then have "b" "same_device pend en (kern s) d" using assms(1) by (metis os_works_def fst_conv snd_conv)+
  then have "opened os f s = (Inr (), s\<lparr>kern := d\<rparr>)" "steady pend en p e zs (s\<lparr>kern := d\<rparr>)"
    using io steady_step [OF assms(2)] by (simp_all add: opened_def bnd_apply asks_apply del: steady_kern)
  then show ?thesis by blast
qed

lemma dumps_runs:
  fixes s :: "('d, 'm) world_scheme"
  assumes cf: "conformant (su_drv E) pend en" and os: "os_works os pend en" and f: "steady pend en p e zs s" and d: "dumpable s"
  shows "\<exists>t. informative_dumps E os s = (Inr (), t) \<and> steady pend en p e zs t"
proof -
  obtain f1 f2 where files: "PrepDumpFile (su_fs E) ''singleton'' ''informative'' ''pci'' ''regs'' = Inr f1"
    "PrepDumpFile (su_fs E) ''singleton'' ''informative'' ''ctrl'' ''regs'' = Inr f2" by (auto simp: PrepDumpFile_def)
  obtain d1 where 1: "opened os f1 s = (Inr (), s\<lparr>kern := d1\<rparr>)" "steady pend en p e zs (s\<lparr>kern := d1\<rparr>)" using opened_ok [OF os f] by blast
  have dump: "dumpable (s\<lparr>kern := k\<rparr>)" for k using d by (simp add: dumpable_def)
  obtain x d2 where 2: "dump_hdr_loop (su_drv E) [0..<PCISPC_FENCE] (undef64 (su_libc E)) (s\<lparr>kern := d1\<rparr>) = (Inr x, s\<lparr>kern := d2\<rparr>)"
    "steady pend en p e zs (s\<lparr>kern := d2\<rparr>)"
    using dump_hdr_ok [OF cf 1(2) dump, of "[0..<PCISPC_FENCE]" "undef64 (su_libc E)"] by auto
  obtain d3 where 3: "dump_caps_loop (su_libc E) (su_drv E) (rg_pciCap s) x (s\<lparr>kern := d2\<rparr>) = (Inr (), s\<lparr>kern := d3\<rparr>)"
    "steady pend en p e zs (s\<lparr>kern := d3\<rparr>)"
    using dump_caps_ok [OF cf 2(2) dump, of "rg_pciCap s" "su_libc E" x] by auto
  obtain d4 where 4: "opened os f2 (s\<lparr>kern := d3\<rparr>) = (Inr (), s\<lparr>kern := d4\<rparr>)" "steady pend en p e zs (s\<lparr>kern := d4\<rparr>)"
    using opened_ok [OF os 3(2)] by fastforce
  obtain d5 where "dump_ctl_loop (su_libc E) (su_drv E) [0..<CTLSPC_FENCE] 0 (s\<lparr>kern := d4\<rparr>) = (Inr (), s\<lparr>kern := d5\<rparr>)"
    "steady pend en p e zs (s\<lparr>kern := d5\<rparr>)"
    using dump_ctl_ok [OF cf 4(2), of "[0..<CTLSPC_FENCE]" "su_libc E" 0] by auto
  then show ?thesis
    using files 1(1) 2(1) 3(1) 4(1)
    by (auto simp: informative_dumps_def KernelAPI_DumpPciSpaceRegs_def KernelAPI_DumpCtrlrSpaceRegs_def bnd_apply sq_apply)
qed

lemma Rotate_runs:
  fixes s :: "('d, 'm) world_scheme"
  assumes "os_works os pend en" and "steady pend en p e zs s"
  shows "\<exists>d. FileSystem_RotateDumpDir os fs s = (Inr True, s\<lparr>kern := d\<rparr>) \<and> steady pend en p e zs (s\<lparr>kern := d\<rparr>)"
proof -
  have step: "same_device pend en d (os_system os c d)" for c d using assms(1) by (simp add: os_works_def)
  have "\<exists>d. FileSystem_RotateDumpDir os fs s = (Inr True, s\<lparr>kern := d\<rparr>) \<and> same_device pend en (kern s) d"
    using step by (cases "dump_dir fs = []")
      (auto simp: FileSystem_RotateDumpDir_def shell_def Let_def sq_apply same_device_def intro: exI [of _ "kern s"])
  then show ?thesis using steady_step [OF assms(2)] by blast
qed

text \<open>The structures of the controller and of its namespaces.\<close>

lemma identify_runs:
  fixes s :: "('d, 'm) world_scheme"
  assumes w: "working E pend en" and q: "admin_queue 16 2 a acq" and z: "(a, 32) \<in> set zs" and ms: "10000 \<le> ms"
    and f: "steady pend en 0 e zs s" and len: "length (device 0) = 4096" and nn: "of_le (take 4 (drop 516 (device 0))) \<noteq> (0 :: u64)"
  shows "\<exists>u. Informative_SendIdentifyCtrlrStruct E device asq acq ms s = (Inr (), u) \<and> steady pend en 0 e zs u \<and>
    (\<forall>E'. working E' pend en \<longrightarrow> (\<exists>t. Informative_SendIdentifyNamespaceStruct E' device asq acq ms u = (Inr (), t) \<and> steady pend en 0 e zs t))"
proof -
  obtain c0 u0 where "send_identify E (informative_call ''IdCtrlStruct'' True) ms asq acq (Identify_SetCNS CNS_Controller) (device 0) s =
      (Inr c0, u0)" "steady pend en 0 e zs u0"
    using runsD [OF send_identify_runs [OF w q z informative_call_ok ms SetCNS_runs] f] by blast
  then obtain u where u: "Informative_SendIdentifyCtrlrStruct E device asq acq ms s = (Inr (), u)" "steady pend en 0 e zs u"
    by (simp add: Informative_SendIdentifyCtrlrStruct_def bnd_apply)
  obtain c where c: "mIdentifyCmdCtrlr u = Some c" "has_data c (device 0) u" "fst (Identify_GetCNS c) = Inr CNS_Controller"
    using ctrlr_stored [OF u(1) len] by blast
  have "Identify_GetValue_ctrlr c IDCTRLRCAP_NN u = (Inr (of_le (take 4 (drop 516 (device 0)))), u)"
    using GetValue_ctrlr_decodes [OF c(2,3), of IDCTRLRCAP_NN] NN_row len by simp
  then have "\<exists>t. Informative_SendIdentifyNamespaceStruct E' device asq acq ms u = (Inr (), t) \<and> steady pend en 0 e zs t"
    if "working E' pend en" for E'
    using runsD [OF namspc_loop_runs [OF that q z ms] u(2)] c(1) nn
    by (simp add: Informative_SendIdentifyNamespaceStruct_def bnd_apply sq_apply Informative_GetIdentifyCmdCtrlr_def)
  then show ?thesis using u by blast
qed


lemma Reinit_runs:
  fixes s :: "('d, 'm) prog_world_scheme"
  assumes w: "working E pend en" and os: "os_works os pend en" and q: "admin_queue 16 2 a acq" and z: "(a, 32) \<in> set zs"
    and ms: "10000 \<le> ms" and f: "steady pend en 0 e zs s" and d: "dumpable s"
    and len: "length (device 0) = 4096" and nn: "of_le (take 4 (drop 516 (device 0))) \<noteq> (0 :: u64)"
  shows "\<exists>t. Informative_Reinit E os device asq acq ms s = (Inr True, t) \<and> steady pend en 0 e zs t"
proof -
  let ?s = "s\<lparr>fsys := FileSystem_SetBaseDumpDir True (fsys s)\<rparr>"
  have w': "working (E\<lparr>su_fs := fs\<rparr>) pend en" "conformant (su_drv (E\<lparr>su_fs := fs\<rparr>)) pend en" for fs
    using w by (simp_all add: working_def)
  have "steady pend en 0 e zs ?s" using f by simp
  from Rotate_runs [OF os this, of "fsys ?s"] obtain s1 where 1: "FileSystem_RotateDumpDir os (fsys ?s) ?s = (Inr True, s1)"
    "steady pend en 0 e zs s1" "dumpable s1" using d by (fastforce simp: dumpable_def)
  obtain u where u: "Informative_Clear s1 = (Inr (), u)" "steady pend en 0 e zs u" "dumpable u"
    using 1(2,3) by (simp add: Informative_Clear_def dumpable_def)
  obtain s2 where 2: "informative_dumps (E\<lparr>su_fs := fsys u\<rparr>) os u = (Inr (), s2)" "steady pend en 0 e zs s2"
    using dumps_runs [OF w'(2) os u(2,3), of "fsys u"] by blast
  obtain s3 where 3: "Informative_SendGetFeaturesNumOfQueues (E\<lparr>su_fs := fsys s2\<rparr>) asq acq ms s2 = (Inr (), s3)" "steady pend en 0 e zs s3"
    using runsD [OF SendGetFeatures_runs [OF w'(1) q z ms] 2(2), of "fsys s2" asq] by auto
  obtain s4 where 4: "Informative_SendIdentifyCtrlrStruct (E\<lparr>su_fs := fsys s3\<rparr>) device asq acq ms s3 = (Inr (), s4)"
    "\<And>E'. working E' pend en \<Longrightarrow>
      \<exists>t. Informative_SendIdentifyNamespaceStruct E' device asq acq ms s4 = (Inr (), t) \<and> steady pend en 0 e zs t"
    using identify_runs [where device = device, OF w'(1) q z ms 3(2) len nn, of "fsys s3" asq] by blast
  obtain t where "Informative_SendIdentifyNamespaceStruct (E\<lparr>su_fs := fsys s4\<rparr>) device asq acq ms s4 = (Inr (), t)" "steady pend en 0 e zs t"
    using 4(2) [OF w'(1)] by blast
  then show ?thesis
    using 1(1) u(1) 2(1) 3(1) 4(1)
    by (simp add: Informative_Reinit_def reinit_def SetBaseDumpDir_def bnd_apply sq_apply with_fs_apply)
qed

section \<open>The cache\<close>

lemma Reinit_cache:
  fixes s t :: "('d, 'm) prog_world_scheme"
  assumes run: "Informative_Reinit E os device asq acq ms s = (Inr ok, t)" and len: "\<forall>k. length (device k) = 4096"
  shows "ok \<and> \<not> mUseDirInfo (fsys t) \<and> (\<exists>c cs. mIdentifyCmdCtrlr t = Some c \<and> has_data c (device 0) t \<and> fst (Identify_GetCNS c) = Inr CNS_Controller \<and>
    mIdentifyCmdNamspc t = map Some cs \<and> length cs = unat (of_le (take 4 (drop 516 (device 0))) :: u64) \<and> cs \<noteq> [] \<and>
    (\<forall>k<length cs. has_data (cs ! k) (device (k + 1)) t \<and> cmd_dw (cs ! k) 1 = of_nat (k + 1)))"
proof -
  let ?nn = "of_le (take 4 (drop 516 (device 0)))"
  obtain s0 s2 s3 u v where s2: "informative_dumps (E\<lparr>su_fs := fsys s0\<rparr>) os (snd (Informative_Clear s0)) = (Inr (), s2)"
    and s3: "Informative_SendGetFeaturesNumOfQueues (E\<lparr>su_fs := fsys s2\<rparr>) asq acq ms s2 = (Inr (), s3)"
    and u: "Informative_SendIdentifyCtrlrStruct (E\<lparr>su_fs := fsys s3\<rparr>) device asq acq ms s3 = (Inr (), u)"
    and v: "Informative_SendIdentifyNamespaceStruct (E\<lparr>su_fs := fsys u\<rparr>) device asq acq ms u = (Inr (), v)"
    and t: "ok" "t = v\<lparr>fsys := FileSystem_SetBaseDumpDir False (fsys v)\<rparr>"
    using run by (auto simp: Informative_Reinit_def reinit_def sq_Inr_iff bnd_Inr_iff with_fs_apply SetBaseDumpDir_def
        Informative_Clear_def split: if_splits)
  let ?s1 = "snd (Informative_Clear s0)"
  have s1: "mIdentifyCmdNamspc ?s1 = []" by (simp add: Informative_Clear_def)
  have "untouched (wd_next ?s1) ?s1 ?s1" by (simp add: untouched_def)
  then have "untouched (wd_next ?s1) ?s1 s3"
    using keepsD [OF steps_untouched(1) [of "wd_next ?s1" ?s1 "E\<lparr>su_fs := fsys s0\<rparr>" os], of ?s1]
      keepsD [OF steps_untouched(2) [of "wd_next ?s1" ?s1 "E\<lparr>su_fs := fsys s2\<rparr>" asq acq ms], of s2] s2 s3 by simp
  then have "mIdentifyCmdNamspc s3 = []" using s1 by (simp add: untouched_def)
  from identify_all [OF u v len this] obtain c cs where
    c: "mIdentifyCmdCtrlr v = Some c" "has_data c (device 0) v" "fst (Identify_GetCNS c) = Inr CNS_Controller"
    and cs: "mIdentifyCmdNamspc v = map Some cs" "length cs = unat ?nn" "cs \<noteq> []"
      "\<forall>k<length cs. has_data (cs ! k) (device (k + 1)) v \<and> cmd_dw (cs ! k) 1 = of_nat (k + 1)" by blast
  show ?thesis
    using c cs t by (auto simp: FileSystem_SetBaseDumpDir_def intro!: exI [of _ c] exI [of _ cs])
qed

section \<open>Examples\<close>

text \<open>A device with one namespace, and a world in which its admin queues exist and its controller is enabled.\<close>

definition ex_ident :: "nat \<Rightarrow> u8 list" where
  "ex_ident k = replicate 516 0 @ [1] @ replicate 3579 0"

lemma ex_ident_NN [simp]: "length (ex_ident k) = 4096" "of_le (take 4 (drop 516 (ex_ident k))) = 1"
  by (simp_all add: ex_ident_def numeral_3_eq_3)

definition quiet_os :: "(nat \<times> bool) os" where
  "quiet_os = \<lparr>os_open = (\<lambda>f d. (True, d)), os_system = (\<lambda>c d. d), os_exists = (\<lambda>f d. (False, d)),
     os_mark_log = (\<lambda>m d. (0, d)), os_dump_metrics = (\<lambda>f d. (0, d))\<rparr>"

definition enabled_world :: "(nat \<times> bool) prog_world" where
  "enabled_world = world.extend (work_world\<lparr>kern := (0, True), mmaps := (\<lambda>_. replicate 32 0)\<rparr>) \<lparr>fsys = ex_fs\<rparr>"

definition ex_acq2 :: comp_queue where
  "ex_acq2 = ex_acq\<lparr>mQId := 0, mEntrySize := 16, mNumEntries := 2, mContigBuf := 4096, mDiscontigBuf := None\<rparr>"

definition ex_asq2 :: sub_queue where
  "ex_asq2 = projr (SQ_SQ 3 OBJ_ASQ)"

lemma ex_queue: "admin_queue 16 2 4096 ex_acq2"
  by (simp add: admin_queue_def ex_acq2_def)

lemma quiet_works: "os_works quiet_os fst snd"
  by (simp add: os_works_def quiet_os_def same_device_def)

lemma enabled_ok:
  "ready fst snd 0 True enabled_world" "zeros 4096 32 enabled_world" "dumpable enabled_world"
proof -
  have "rg_ok work_world" "meta_inv work_world" by code_simp+
  then show "ready fst snd 0 True enabled_world"
    by (simp add: ready_def enabled_world_def world.extend_def rg_ok_def meta_inv_def)
  show "zeros 4096 32 enabled_world" by (auto simp: zeros_def enabled_world_def world.extend_def)
  have "list_all (\<lambda>r. pci_cap r = PCICAP_FENCE \<longrightarrow> pci_offset r \<noteq> USHRT_MAX \<and> pci_size r \<le> MAX_SUPPORTED_REG_SIZE) pci_table"
    by code_simp
  then show "dumpable enabled_world"
    by (simp add: dumpable_def enabled_world_def world.extend_def work_world_def list_all_iff)
qed

lemma enabled_runs:
  "\<exists>t. Informative_Reinit work_env quiet_os ex_ident ex_asq2 ex_acq2 10000 enabled_world = (Inr True, t)"
proof -
  have "steady fst snd 0 True [(4096, 32)] enabled_world" using enabled_ok by (simp add: steady_def)
  from Reinit_runs [OF work_working quiet_works ex_queue _ _ this enabled_ok(3), of 10000 ex_ident ex_asq2]
  show ?thesis by auto
qed

section \<open>Properties\<close>

text \<open>C10: When \<open>Reinit\<close> returns, it returns true and the cache is complete: the structure of the controller, as the device sent it,
  and for every namespace up to the number that structure gives, and at least one, the structure the device sent for
  it, under its identifier; dump files go to the directory of the groups again.\<close>

theorem Reinit_fills_cache:
  fixes s t :: "('d, 'm) prog_world_scheme"
  assumes run: "Informative_Reinit E os device asq acq ms s = (Inr ok, t)" and len: "\<forall>k. length (device k) = 4096"
  shows "ok \<and> \<not> mUseDirInfo (fsys t) \<and>
    (\<exists>c. Informative_GetIdentifyCmdCtrlr t = (Inr c, t) \<and> has_data c (device 0) t \<and>
      Identify_GetValue_ctrlr c IDCTRLRCAP_NN t = (Inr (of_nat (length (mIdentifyCmdNamspc t))), t)) \<and>
    mIdentifyCmdNamspc t \<noteq> [] \<and>
    (\<forall>i. 1 \<le> i \<and> i \<le> length (mIdentifyCmdNamspc t) \<longrightarrow>
      (\<exists>c. Informative_GetIdentifyCmdNamspc (of_nat i) t = (Inr (Some c), t) \<and> has_data c (device i) t \<and> cmd_dw c 1 = of_nat i))"
proof -
  let ?nn = "of_le (take 4 (drop 516 (device 0))) :: u64"
  obtain c cs where ok: "ok" "\<not> mUseDirInfo (fsys t)"
    and c: "mIdentifyCmdCtrlr t = Some c" "has_data c (device 0) t" "fst (Identify_GetCNS c) = Inr CNS_Controller"
    and cs: "mIdentifyCmdNamspc t = map Some cs" "length cs = unat ?nn" "cs \<noteq> []"
      "\<forall>k<length cs. has_data (cs ! k) (device (k + 1)) t \<and> cmd_dw (cs ! k) 1 = of_nat (k + 1)"
    using Reinit_cache [OF run len] by blast
  have "Identify_GetValue_ctrlr c IDCTRLRCAP_NN t = (Inr ?nn, t)"
    using GetValue_ctrlr_decodes [OF _ c(3), of "device 0" t IDCTRLRCAP_NN] NN_row len c(2) by simp
  moreover have "Informative_GetIdentifyCmdNamspc (of_nat i) t = (Inr (Some (cs ! (i - 1))), t)"
    if "1 \<le> i" "i \<le> length cs" for i
  proof -
    have "i < 2 ^ 64" using that(2) cs(2) unsigned_less [where 'a = nat, of ?nn] by simp
    then have "unat (of_nat i :: u64) = i" by (simp add: unat_of_nat take_bit_nat_eq_self)
    moreover from this have "(of_nat i :: u64) \<noteq> 0" using that(1) by (metis unat_0 not_one_le_zero)
    ultimately show ?thesis using that cs(1) by (simp add: Informative_GetIdentifyCmdNamspc_def)
  qed
  moreover have "has_data (cs ! (i - 1)) (device i) t \<and> cmd_dw (cs ! (i - 1)) 1 = of_nat i" if "1 \<le> i" "i \<le> length cs" for i
    using spec [OF cs(4), of "i - 1"] that by simp
  ultimately show ?thesis
    using ok c cs by (auto simp: Informative_GetIdentifyCmdCtrlr_def)
qed


theorem Reinit_fills_cache_witness:
  "\<exists>t c. Informative_Reinit work_env quiet_os ex_ident ex_asq2 ex_acq2 10000 enabled_world = (Inr True, t) \<and>
     Informative_GetIdentifyCmdNamspc 1 t = (Inr (Some c), t) \<and> has_data c (ex_ident 1) t"
proof -
  obtain t where t: "Informative_Reinit work_env quiet_os ex_ident ex_asq2 ex_acq2 10000 enabled_world = (Inr True, t)"
    using enabled_runs by blast
  have "1 \<le> length (mIdentifyCmdNamspc t)" using Reinit_fills_cache [OF t] by (simp add: Suc_le_eq)
  then have "\<exists>c. Informative_GetIdentifyCmdNamspc (of_nat 1) t = (Inr (Some c), t) \<and> has_data c (ex_ident 1) t"
    using Reinit_fills_cache [OF t] by (auto dest!: spec [of _ 1])
  then show ?thesis using t by auto
qed



end
