(* ===== verification/Pci_Discovery.thy ===== *)
theory Pci_Discovery
  imports Regs
begin

text \<open>
  \<open>Registers::DiscoverPciCapabilities\<close>: the walk along the linked list of PCI capabilities, which
  records the capabilities in list order and computes the offsets of their registers, and the
  single extended capability at offset \<open>0x100\<close>. The walk is a loop that follows pointers read
  from the device: it is modelled with fuel, shown to stop when the pointers form a list, and
  shown not to stop when they form a cycle.
\<close>

section \<open>The walk\<close>

text \<open>The switch on the capability ID: the capability and the index of its first register.\<close>

definition cap_of_id :: "u64 \<Rightarrow> (PciCapabilities \<times> nat) option" where
  "cap_of_id capId =
     (if capId = 0x01 then Some (PCICAP_PMCAP, PCISPC_PID)
      else if capId = 0x05 then Some (PCICAP_MSICAP, PCISPC_MID)
      else if capId = 0x10 then Some (PCICAP_PXCAP, PCISPC_PXID)
      else if capId = 0x11 then Some (PCICAP_MSIXCAP, PCISPC_MXID)
      else None)"

text \<open>\<open>mPciSpcMetrics[i].offset = mPciSpcMetrics[i-1].offset + mPciSpcMetrics[i-1].size\<close>.\<close>

definition chain_offset :: "nat \<Rightarrow> PciSpcType list \<Rightarrow> PciSpcType list" where
  "chain_offset i t =
     t[i := (t ! i)\<lparr>pci_offset := pci_offset (t ! (i - 1)) + pci_size (t ! (i - 1))\<rparr>]"

definition set_offset :: "nat \<Rightarrow> u16 \<Rightarrow> PciSpcType list \<Rightarrow> PciSpcType list" where
  "set_offset i off t = t[i := (t ! i)\<lparr>pci_offset := off\<rparr>]"

definition cap_offsets :: "PciCapabilities \<Rightarrow> nat \<Rightarrow> PciSpcType list \<Rightarrow> PciSpcType list" where
  "cap_offsets cap capIdx t =
     fold (\<lambda>i t. if pci_cap (t ! i) = cap then chain_offset i t else t)
       [capIdx + 1..<PCISPC_FENCE] t"

definition discover_cap :: "u64 \<Rightarrow> u16 \<Rightarrow> ('d, 'm) registers_scheme \<Rightarrow> ('d, 'm) registers_scheme" where
  "discover_cap capId capOffset s =
     (case cap_of_id capId of
        None \<Rightarrow> s
      | Some (cap, capIdx) \<Rightarrow>
          s\<lparr>rg_pciCap := rg_pciCap s @ [cap],
            rg_pci := cap_offsets cap capIdx (set_offset capIdx capOffset (rg_pci s))\<rparr>)"

text \<open>
  The \<open>while\<close> loop; \<open>None\<close> when the fuel is used up. The outcome is the last word read, or \<open>None\<close>
  when a failed read made the function return.
\<close>

fun discover_loop ::
  "'d dnvme \<Rightarrow> nat \<Rightarrow> u64 \<Rightarrow> ('d, 'm) registers_scheme
     \<Rightarrow> (u64 option \<times> ('d, 'm) registers_scheme) option" where
  "discover_loop drv 0 nextCap s = None"
| "discover_loop drv (Suc n) nextCap s =
     (let off = REGMASK (drop_bit 8 nextCap) 1 in
      if off = 0 then Some (Some nextCap, s)
      else case io_read drv (mk_io NVMEIO_PCI_HDR (ucast off) 4 BYTE_LEN) (le64 nextCap) (kern s) of
        (rc, buf, d) \<Rightarrow>
          if rc < 0 then Some (None, s\<lparr>kern := d\<rparr>)
          else discover_loop drv n (of_le buf)
                 (discover_cap (REGMASK (of_le buf) 1) (ucast off) (s\<lparr>kern := d\<rparr>)))"

text \<open>The extended capability, after the loop.\<close>

definition discover_extended ::
  "'d dnvme \<Rightarrow> u64 \<Rightarrow> ('d, 'm) registers_scheme \<Rightarrow> ('d, 'm) registers_scheme" where
  "discover_extended drv nextCap s =
     (case io_read drv (mk_io NVMEIO_PCI_HDR 0x100 4 BYTE_LEN) (le64 nextCap) (kern s) of
        (rc, buf, d) \<Rightarrow>
          let s1 = s\<lparr>kern := d\<rparr>; capId = REGMASK (of_le buf) 2 in
          if rc < 0 then s1
          else if capId = 0 then s1
          else if capId = 1 then
            s1\<lparr>rg_pciCap := rg_pciCap s1 @ [PCICAP_AERCAP],
               rg_pci := set_offset PCISPC_AERTLP (0x100 + 0x38)
                 (fold chain_offset [PCISPC_AERUCES..<PCISPC_AERHL + 1]
                   (set_offset PCISPC_AERID 0x100 (rg_pci s1)))\<rparr>
          else s1)"

definition Registers_DiscoverPciCapabilities ::
  "'d dnvme \<Rightarrow> nat \<Rightarrow> ('d, 'm) registers_scheme \<Rightarrow> ('d, 'm) registers_scheme option" where
  "Registers_DiscoverPciCapabilities drv fuel s0 =
     (let s = s0\<lparr>rg_pciCap := []\<rparr> in
      case Registers_Read_pci drv PCISPC_STS 0 s of
        (Inl e, s1) \<Rightarrow> Some s1
      | (Inr (ok, work), s1) \<Rightarrow>
          if \<not> ok then Some s1
          else if work AND 0x0010 = 0 then Some s1
          else case Registers_Read_pci drv PCISPC_CAP 0 s1 of
            (Inl e, s2) \<Rightarrow> Some s2
          | (Inr (ok2, nextCap), s2) \<Rightarrow>
              if \<not> ok2 then Some s2
              else case discover_loop drv fuel (push_bit 8 nextCap) s2 of
                None \<Rightarrow> None
              | Some (None, s3) \<Rightarrow> Some s3
              | Some (Some nc, s3) \<Rightarrow> Some (discover_extended drv nc s3))"

section \<open>Offsets inside a capability\<close>

lemma length_chain_offset [simp]: "length (chain_offset i t) = length t"
  by (simp add: chain_offset_def)

lemma length_set_offset [simp]: "length (set_offset i off t) = length t"
  by (simp add: set_offset_def)

text \<open>Nothing but offsets is ever written.\<close>

lemma chain_offset_other [simp]:
  "j < length t \<Longrightarrow> i \<noteq> j \<Longrightarrow> chain_offset i t ! j = t ! j"
  by (simp add: chain_offset_def)

lemma chain_offset_frame [simp]:
  assumes "j < length t"
  shows "pci_cap (chain_offset i t ! j) = pci_cap (t ! j)"
    and "pci_size (chain_offset i t ! j) = pci_size (t ! j)"
  using assms by (cases "i = j"; simp add: chain_offset_def)+

lemma set_offset_frame [simp]:
  assumes "j < length t"
  shows "pci_cap (set_offset i off t ! j) = pci_cap (t ! j)"
    and "pci_size (set_offset i off t ! j) = pci_size (t ! j)"
  using assms by (cases "i = j"; simp add: set_offset_def)+

definition cap_step :: "PciCapabilities \<Rightarrow> nat \<Rightarrow> PciSpcType list \<Rightarrow> PciSpcType list" where
  "cap_step cap i t = (if pci_cap (t ! i) = cap then chain_offset i t else t)"

lemma length_cap_step [simp]: "length (cap_step cap i t) = length t"
  by (simp add: cap_step_def)

lemma length_fold_cap_step [simp]: "length (fold (cap_step cap) is t) = length t"
  by (induction "is" arbitrary: t) simp_all

lemma fold_cap_step_frame [simp]:
  "j < length t \<Longrightarrow>
     pci_cap (fold (cap_step cap) is t ! j) = pci_cap (t ! j) \<and>
     pci_size (fold (cap_step cap) is t ! j) = pci_size (t ! j)"
  by (induction "is" arbitrary: t) (simp_all add: cap_step_def)

lemma fold_cap_step_untouched:
  "j < length t \<Longrightarrow> j \<notin> set is \<or> pci_cap (t ! j) \<noteq> cap \<Longrightarrow> fold (cap_step cap) is t ! j = t ! j"
proof (induction "is" arbitrary: t)
  case Nil
  then show ?case by simp
next
  case (Cons i "is")
  have "cap_step cap i t ! j = t ! j"
    using Cons.prems by (cases "i = j") (auto simp: cap_step_def)
  then show ?case using Cons.IH [of "cap_step cap i t"] Cons.prems by auto
qed

text \<open>Where the registers of a capability are neighbours, each follows the one before it.\<close>

lemma fold_cap_step_chain:
  assumes len: "n \<le> length t" and "a < n"
    and cap: "\<forall>j. a < j \<and> j \<le> k \<longrightarrow> pci_cap (t ! j) = cap" and "a \<le> k" and "k < n"
  shows "pci_offset (fold (cap_step cap) [Suc a..<n] t ! k) =
    pci_offset (t ! a) + (\<Sum>j = a..<k. pci_size (t ! j))"
  using \<open>a \<le> k\<close> \<open>k < n\<close> cap
proof (induction k rule: dec_induct)
  case base
  have "fold (cap_step cap) [Suc a..<n] t ! a = t ! a"
    by (rule fold_cap_step_untouched) (use len base.prems in auto)
  then show ?case by simp
next
  case (step k)
  let ?u = "fold (cap_step cap) [Suc a..<Suc k] t"
  have split: "fold (cap_step cap) [Suc a..<n] t =
      fold (cap_step cap) [Suc (Suc k)..<n] (cap_step cap (Suc k) ?u)"
  proof -
    have "[Suc a..<n] = [Suc a..<Suc k] @ Suc k # [Suc (Suc k)..<n]"
      using step.hyps step.prems(1) upt_add_eq_append [of "Suc a" "Suc k" "n - Suc k"]
        upt_conv_Cons [of "Suc k" n] by simp
    then show ?thesis by simp
  qed
  have fin: "i \<le> Suc k \<Longrightarrow> fold (cap_step cap) [Suc a..<n] t ! i = cap_step cap (Suc k) ?u ! i" for i
    unfolding split by (rule fold_cap_step_untouched) (use len step.prems in auto)
  have prev: "fold (cap_step cap) [Suc a..<n] t ! k = ?u ! k"
    using fin [of k] len step.prems(1) by (simp add: cap_step_def)
  have IH: "pci_offset (?u ! k) = pci_offset (t ! a) + (\<Sum>j = a..<k. pci_size (t ! j))"
    using step.IH step.prems prev by simp
  have "pci_cap (?u ! Suc k) = cap" and sz: "pci_size (?u ! k) = pci_size (t ! k)"
    using step.prems step.hyps len by (simp_all del: upt_Suc)
  then have "pci_offset (cap_step cap (Suc k) ?u ! Suc k) = pci_offset (?u ! k) + pci_size (?u ! k)"
    using len step.prems(1) by (simp add: cap_step_def chain_offset_def del: upt_Suc)
  then show ?case
    using fin [of "Suc k"] IH sz step.hyps by (simp add: sum.atLeastLessThan_Suc add.assoc)
qed

lemma cap_offsets_fold: "cap_offsets cap a t = fold (cap_step cap) [Suc a..<PCISPC_FENCE] t"
  unfolding cap_offsets_def cap_step_def by simp

text \<open>The registers of the four listed capabilities are neighbours in the table.\<close>

definition same_columns :: "PciSpcType list \<Rightarrow> bool" where
  "same_columns t \<longleftrightarrow> map pci_cap t = map pci_cap pci_table \<and> map pci_size t = map pci_size pci_table"

lemma length_pci_table: "length pci_table = PCISPC_FENCE"
  by (simp add: pci_table_def)

lemma same_columns_length: "same_columns t \<Longrightarrow> length t = PCISPC_FENCE"
  unfolding same_columns_def length_pci_table [symmetric] by (metis length_map)

lemma same_columns_nth:
  "same_columns t \<Longrightarrow> j < PCISPC_FENCE \<Longrightarrow>
     pci_cap (t ! j) = pci_cap (pci_table ! j) \<and> pci_size (t ! j) = pci_size (pci_table ! j)"
  using same_columns_length [of t] length_pci_table
  unfolding same_columns_def by (metis nth_map)

lemma neighbours_code:
  "list_all (\<lambda>(cap, a). list_all (\<lambda>k. map pci_cap pci_table ! k = cap \<longrightarrow>
       list_all (\<lambda>j. map pci_cap pci_table ! j = cap) [a..<Suc k]) [a..<PCISPC_FENCE])
     [(PCICAP_PMCAP, PCISPC_PID), (PCICAP_MSICAP, PCISPC_MID), (PCICAP_PXCAP, PCISPC_PXID),
      (PCICAP_MSIXCAP, PCISPC_MXID)]"
  by code_simp

lemma neighbours:
  assumes "cap_of_id capId = Some (cap, a)" and "a \<le> k" and "k < PCISPC_FENCE"
    and "pci_cap (pci_table ! k) = cap" and "a \<le> j" and "j \<le> k"
  shows "pci_cap (pci_table ! j) = cap"
proof -
  have "(cap, a) \<in> set [(PCICAP_PMCAP, PCISPC_PID), (PCICAP_MSICAP, PCISPC_MID),
      (PCICAP_PXCAP, PCISPC_PXID), (PCICAP_MSIXCAP, PCISPC_MXID)]"
    using assms(1) by (auto simp: cap_of_id_def split: if_splits)
  then have "list_all (\<lambda>k. map pci_cap pci_table ! k = cap \<longrightarrow>
       list_all (\<lambda>j. map pci_cap pci_table ! j = cap) [a..<Suc k]) [a..<PCISPC_FENCE]"
    using neighbours_code unfolding list_all_iff by blast
  then have "map pci_cap pci_table ! k = cap \<longrightarrow>
      list_all (\<lambda>j. map pci_cap pci_table ! j = cap) [a..<Suc k]"
    using assms(2,3) by (simp add: list_all_iff del: upt_Suc)
  then have "list_all (\<lambda>j. map pci_cap pci_table ! j = cap) [a..<Suc k]"
    using assms(3,4) by (simp add: length_pci_table del: upt_Suc)
  then have "map pci_cap pci_table ! j = cap"
    using assms(5,6) by (simp add: list_all_iff del: upt_Suc)
  then show ?thesis using assms(3,6) by (simp add: length_pci_table)
qed

lemma cap_of_id_index: "cap_of_id capId = Some (cap, a) \<Longrightarrow> a < PCISPC_FENCE"
  by (auto simp: cap_of_id_def split: if_splits)

section \<open>A device whose configuration space is a fixed array of bytes\<close>

text \<open>What the PCI read request does, for a configuration space \<open>cfg\<close>.\<close>

definition pci_config :: "'d dnvme \<Rightarrow> (nat \<Rightarrow> u8) \<Rightarrow> bool" where
  "pci_config drv cfg \<longleftrightarrow>
     (\<forall>io buf d. io_type io = NVMEIO_PCI_HDR \<longrightarrow>
        io_read drv io buf d =
          (0, map (\<lambda>i. if i < unat (io_nBytes io) then cfg (unat (io_offset io) + i) else buf ! i)
                [0..<length buf], d))"

text \<open>The pointers form a list from \<open>p\<close> on: they end in 0.\<close>

fun cap_list :: "(nat \<Rightarrow> u8) \<Rightarrow> u8 \<Rightarrow> u8 list \<Rightarrow> bool" where
  "cap_list cfg p [] \<longleftrightarrow> p = 0"
| "cap_list cfg p (q # qs) \<longleftrightarrow> p \<noteq> 0 \<and> q = p \<and> cap_list cfg (cfg (unat p + 1)) qs"

lemma cap_list_unique: "cap_list cfg p ps \<Longrightarrow> cap_list cfg p qs \<Longrightarrow> ps = qs"
proof (induction ps arbitrary: p qs)
  case Nil
  then show ?case by (cases qs) auto
next
  case (Cons x ps)
  then show ?case by (cases qs) auto
qed

lemma cap_list_suffix: "cap_list cfg p (us @ q # vs) \<Longrightarrow> cap_list cfg q (q # vs)"
proof (induction us arbitrary: p)
  case Nil
  then have "q = p" by simp
  with Nil show ?case by simp
next
  case (Cons u us)
  then show ?case by (metis append_Cons cap_list.simps(2))
qed

lemma cap_list_distinct: "cap_list cfg p ps \<Longrightarrow> distinct ps"
proof (induction ps arbitrary: p)
  case Nil
  then show ?case by simp
next
  case (Cons q qs)
  have "q \<notin> set qs"
  proof
    assume "q \<in> set qs"
    then obtain us vs where qs: "qs = us @ q # vs" by (auto dest: split_list)
    have "cap_list cfg q (q # vs)"
      by (rule cap_list_suffix [of cfg p "q # us"]) (use Cons.prems qs in auto)
    moreover have "cap_list cfg q (q # qs)" using Cons.prems by auto
    ultimately have "q # vs = q # qs" by (rule cap_list_unique)
    then show False using qs by simp
  qed
  moreover have "distinct qs" using Cons.prems Cons.IH by auto
  ultimately show ?case by simp
qed

text \<open>A pointer is one byte: a list has at most 256 entries, so 256 is enough fuel.\<close>

lemma cap_list_length: "cap_list cfg p ps \<Longrightarrow> length ps \<le> 255"
proof -
  assume cl: "cap_list cfg p ps"
  have "0 \<notin> set ps"
  proof
    assume "0 \<in> set ps"
    then obtain us vs where "ps = us @ 0 # vs" by (auto dest: split_list)
    then have "cap_list cfg 0 (0 # vs)" using cl cap_list_suffix [of cfg p us 0 vs] by blast
    then show False by simp
  qed
  then have "set ps \<subseteq> UNIV - {0}" by auto
  then have "card (set ps) \<le> card (UNIV - {0 :: u8})" by (intro card_mono) auto
  also have "\<dots> = 255" by (simp add: card_Diff_singleton card_word)
  finally show ?thesis using cap_list_distinct [OF cl] by (simp add: distinct_card)
qed

section \<open>Bytes of the words read\<close>

lemma REGMASK_1: "REGMASK v 1 = ucast (ucast v :: u8)"
proof (rule bit_word_eqI)
  fix n assume "n < LENGTH(64)"
  then show "bit (REGMASK v 1) n = bit (ucast (ucast v :: u8) :: u64) n"
    by (auto simp: REGMASK_def bit_simps)
qed

lemmas REGMASK_Suc_0 [simp] = REGMASK_1 [unfolded One_nat_def]

lemma bit_REGMASK: "b \<le> 8 \<Longrightarrow> bit (REGMASK v b) n \<longleftrightarrow> n < b * 8 \<and> bit v n"
  by (auto simp: REGMASK_def bit_simps dest: bit_imp_le_length)

lemma ucast_of_le: "ucast (of_le (b # bs)) = b"
  by (rule bit_word_eqI) (auto simp: bit_simps)

lemma ucast_drop_of_le: "ucast (drop_bit 8 (of_le (b # bs))) = (ucast (of_le bs) :: u8)"
  by (rule bit_word_eqI) (auto simp: bit_simps dest: bit_imp_le_length)

lemma length_le64 [simp]: "length (le64 v) = 8"
  by (simp add: le64_def)

lemma pci_config_read:
  assumes "pci_config drv cfg" and "2 \<le> unat n"
  shows "\<exists>v. io_read drv (mk_io NVMEIO_PCI_HDR off n acc) (le64 w) d = (0, v, d) \<and>
    ucast (of_le v) = cfg (unat off) \<and> ucast (drop_bit 8 (of_le v)) = cfg (unat off + 1)"
proof -
  let ?f = "\<lambda>i. if i < unat n then cfg (unat off + i) else le64 w ! i"
  have l: "map ?f [0..<8] = ?f 0 # ?f 1 # map ?f [2..<8]"
    by (simp add: upt_conv_Cons numeral_2_eq_2)
  have "io_read drv (mk_io NVMEIO_PCI_HDR off n acc) (le64 w) d = (0, map ?f [0..<8], d)"
    using assms(1) by (simp add: pci_config_def mk_io_def)
  then show ?thesis
    unfolding l using assms(2)
    by (intro exI conjI) (assumption, simp_all only: ucast_drop_of_le ucast_of_le, simp_all)
qed

section \<open>The walk on such a device\<close>

lemma kern_idem [simp]: "s\<lparr>kern := kern s\<rparr> = s"
  by simp

definition visit ::
  "(nat \<Rightarrow> u8) \<Rightarrow> u8 \<Rightarrow> ('d, 'm) registers_scheme \<Rightarrow> ('d, 'm) registers_scheme" where
  "visit cfg p s = discover_cap (ucast (cfg (unat p))) (ucast p) s"

lemma discover_loop_stop:
  "REGMASK (drop_bit 8 nc) 1 = 0 \<Longrightarrow> discover_loop drv (Suc n) nc s = Some (Some nc, s)"
  by (simp add: Let_def)

lemma discover_loop_next:
  assumes cfg: "pci_config drv cfg" and p: "ucast (drop_bit 8 nc) = p" and "p \<noteq> 0"
  shows "\<exists>nc'. discover_loop drv (Suc n) nc s = discover_loop drv n nc' (visit cfg p s) \<and>
    ucast (drop_bit 8 nc') = cfg (unat p + 1)"
proof -
  obtain buf where
    rd: "io_read drv (mk_io NVMEIO_PCI_HDR (ucast p) 4 BYTE_LEN) (le64 nc) (kern s) = (0, buf, kern s)"
    and b0: "ucast (of_le buf) = cfg (unat p)"
    and b1: "ucast (drop_bit 8 (of_le buf)) = cfg (unat p + 1)"
    using pci_config_read [OF cfg, of 4 "ucast p" BYTE_LEN nc "kern s"] by auto
  have "discover_loop drv (Suc n) nc s = discover_loop drv n (of_le buf) (visit cfg p s)"
    using p \<open>p \<noteq> 0\<close> by (simp add: Let_def REGMASK_1 rd b0 visit_def)
  then show ?thesis using b1 by blast
qed

lemma discover_loop_list:
  assumes cfg: "pci_config drv cfg"
  shows "cap_list cfg p ps \<Longrightarrow> ucast (drop_bit 8 nc) = p \<Longrightarrow> length ps < n \<Longrightarrow>
    \<exists>nc'. discover_loop drv n nc s = Some (Some nc', fold (visit cfg) ps s)"
proof (induction ps arbitrary: p nc n s)
  case Nil
  then obtain k where "n = Suc k" by (cases n) auto
  moreover have "REGMASK (drop_bit 8 nc) 1 = 0" using Nil by (simp add: REGMASK_1)
  ultimately have "discover_loop drv n nc s = Some (Some nc, s)"
    by (simp only: discover_loop_stop)
  then show ?case by auto
next
  case (Cons q ps)
  then obtain k where n: "n = Suc k" "length ps < k" by (cases n) auto
  from Cons.prems have "p \<noteq> 0" "q = p" and tl: "cap_list cfg (cfg (unat p + 1)) ps" by auto
  from discover_loop_next [OF cfg Cons.prems(2) \<open>p \<noteq> 0\<close>] obtain nc' where
    st: "discover_loop drv (Suc k) nc s = discover_loop drv k nc' (visit cfg p s)"
    and nx: "ucast (drop_bit 8 nc') = cfg (unat p + 1)" by blast
  show ?case
    using Cons.IH [OF tl nx n(2)] unfolding n(1) st \<open>q = p\<close> by auto
qed

lemma discover_loop_cycle:
  assumes cfg: "pci_config drv cfg" and live: "\<forall>k. ((\<lambda>q :: u8. cfg (unat q + 1)) ^^ k) p \<noteq> 0"
  shows "ucast (drop_bit 8 nc) = p \<Longrightarrow> discover_loop drv n nc s = None"
  using live
proof (induction n arbitrary: p nc s)
  case 0
  then show ?case by simp
next
  case (Suc n)
  have "p \<noteq> 0" using Suc.prems(2) [rule_format, of 0] by (simp only: funpow.simps id_apply) simp
  from discover_loop_next [OF cfg Suc.prems(1) this] obtain nc' where
    st: "discover_loop drv (Suc n) nc s = discover_loop drv n nc' (visit cfg p s)"
    and nx: "ucast (drop_bit 8 nc') = cfg (unat p + 1)" by blast
  have "((\<lambda>q. cfg (unat q + 1)) ^^ k) (cfg (unat p + 1)) \<noteq> 0" for k
    using Suc.prems(2) [rule_format, of "Suc k"] by (simp only: funpow_Suc_right o_apply) simp
  then have "discover_loop drv n nc' (visit cfg p s) = None"
    by (intro Suc.IH [OF nx] allI)
  then show ?case using st by (simp only:)
qed

section \<open>What the walk records\<close>

definition cap_name :: "(nat \<Rightarrow> u8) \<Rightarrow> u8 \<Rightarrow> PciCapabilities option" where
  "cap_name cfg p = map_option fst (cap_of_id (ucast (cfg (unat p))))"

lemma visit_pciCap:
  "rg_pciCap (visit cfg p s) =
     rg_pciCap s @ (case cap_name cfg p of None \<Rightarrow> [] | Some c \<Rightarrow> [c])"
  by (auto simp: visit_def discover_cap_def cap_name_def split: option.splits prod.splits)

lemma visits_pciCap:
  "rg_pciCap (fold (visit cfg) ps s) = rg_pciCap s @ List.map_filter (cap_name cfg) ps"
  by (induction ps arbitrary: s)
    (simp_all add: visit_pciCap map_filter_simps split: option.splits)

lemma pci_table_STS: "pci_table ! PCISPC_STS =
    mkPci PCICAP_FENCE 0x06 2 all_revs 0x4eff 0x6a0 0x10 ''PCI hdr device status register (STS)''"
  by (simp add: pci_table_def)

lemma pci_table_CAP: "\<exists>ro imp dflt desc.
    pci_table ! PCISPC_CAP = mkPci PCICAP_FENCE 0x34 1 all_revs ro imp dflt desc"
  by (auto simp: pci_table_def)

lemma all_revs_valid: "rg_specRev s \<noteq> SPECREVTYPE_FENCE \<Longrightarrow> ValidSpecRev all_revs s"
  by (cases "rg_specRev s") (auto simp: ValidSpecRev_def all_revs_def)

lemma Read_STS_config:
  assumes cfg: "pci_config drv cfg" and t: "rg_pci s = pci_table"
    and rev: "rg_specRev s \<noteq> SPECREVTYPE_FENCE"
  shows "\<exists>v. Registers_Read_pci drv PCISPC_STS w s = (Inr (True, v), s) \<and>
      (v AND 0x0010 = 0 \<longleftrightarrow> \<not> bit (cfg 6) 4)"
proof -
  obtain buf where
    rd: "io_read drv (mk_io NVMEIO_PCI_HDR 6 2 (dflt_acc NVMEIO_PCI_HDR)) (le64 w) (kern s) =
      (0, buf, kern s)" and b0: "ucast (of_le buf) = cfg 6"
    using pci_config_read [OF cfg, of 2 6 "dflt_acc NVMEIO_PCI_HDR" w "kern s"] by auto
  have run: "Registers_Read_pci drv PCISPC_STS w s = (Inr (True, REGMASK (of_le buf) 2), s)"
    using rev by (simp add: Registers_Read_pci_def t length_pci_table pci_table_STS mkPci_def
        all_revs_valid Registers_Read_value_def bnd_apply ioctl2_apply rd Let_def)
  have "REGMASK (of_le buf) 2 AND 2 ^ 4 = 0 \<longleftrightarrow> \<not> bit (REGMASK (of_le buf) 2) 4"
    by (rule and_exp_eq_0_iff_not_bit)
  moreover have "bit (REGMASK (of_le buf) 2) 4 \<longleftrightarrow> bit (ucast (of_le buf) :: u8) 4"
    by (simp add: bit_REGMASK bit_simps)
  ultimately have "REGMASK (of_le buf) 2 AND 0x0010 = 0 \<longleftrightarrow> \<not> bit (cfg 6) 4"
    by (simp add: b0)
  then show ?thesis using run by blast
qed

lemma Read_CAP_config:
  assumes cfg: "pci_config drv cfg" and t: "rg_pci s = pci_table"
    and rev: "rg_specRev s \<noteq> SPECREVTYPE_FENCE"
  shows "Registers_Read_pci drv PCISPC_CAP w s = (Inr (True, ucast (cfg 0x34)), s)"
proof -
  let ?f = "\<lambda>i. if i < 1 then cfg (0x34 + i) else le64 w ! i"
  obtain ro imp dflt desc where
    row: "pci_table ! PCISPC_CAP = mkPci PCICAP_FENCE 0x34 1 all_revs ro imp dflt desc"
    using pci_table_CAP by blast
  have rd: "io_read drv (mk_io NVMEIO_PCI_HDR 0x34 1 (dflt_acc NVMEIO_PCI_HDR)) (le64 w) (kern s) =
      (0, map ?f [0..<8], kern s)"
    using cfg by (simp add: pci_config_def mk_io_def)
  have "map ?f [0..<8] = cfg 0x34 # map ?f [1..<8]"
    by (simp add: upt_conv_Cons)
  then have "ucast (of_le (map ?f [0..<8])) = cfg 0x34"
    by (simp only: ucast_of_le)
  then show ?thesis
    using rev rd by (simp add: Registers_Read_pci_def t length_pci_table row mkPci_def
        all_revs_valid Registers_Read_value_def bnd_apply ioctl2_apply Let_def)
qed

section \<open>Discovery as a whole\<close>

text \<open>The extended part reads offset \<open>0x100\<close>; its ID is the 16-bit word there.\<close>

definition ext_id :: "(nat \<Rightarrow> u8) \<Rightarrow> u64" where
  "ext_id cfg = ucast (cfg 0x100) OR push_bit 8 (ucast (cfg 0x101))"

lemma REGMASK_2_of_le:
  "REGMASK (of_le (b0 # b1 # bs)) 2 = ucast b0 OR push_bit 8 (ucast b1)"
proof (rule bit_word_eqI)
  fix n assume "n < LENGTH(64)"
  then show "bit (REGMASK (of_le (b0 # b1 # bs)) 2) n =
      bit (ucast b0 OR push_bit 8 (ucast b1) :: u64) n"
    by (auto simp: bit_REGMASK bit_simps dest: bit_imp_le_length)
qed

lemma discover_extended_pciCap:
  assumes cfg: "pci_config drv cfg"
  shows "rg_pciCap (discover_extended drv nc s) =
    rg_pciCap s @ (if ext_id cfg = 1 then [PCICAP_AERCAP] else [])"
proof -
  let ?f = "\<lambda>i. if i < 4 then cfg (0x100 + i) else le64 nc ! i"
  have "map ?f [0..<8] = cfg 0x100 # cfg 0x101 # map ?f [2..<8]"
    by (simp add: upt_conv_Cons numeral_2_eq_2)
  then have "REGMASK (of_le (map ?f [0..<8])) 2 = ext_id cfg"
    by (simp only: REGMASK_2_of_le ext_id_def)
  moreover have "io_read drv (mk_io NVMEIO_PCI_HDR 0x100 4 BYTE_LEN) (le64 nc) (kern s) =
      (0, map ?f [0..<8], kern s)"
    using cfg by (simp add: pci_config_def mk_io_def)
  ultimately show ?thesis
    by (simp add: discover_extended_def Let_def)
qed

text \<open>C5: On a device whose capability pointers form a list starting at the capabilities pointer,
  \<open>DiscoverPciCapabilities\<close> returns (256 loop steps are always enough), and \<open>mPciCap\<close> then holds
  exactly the known capabilities of the list, in list order, followed by AERCAP when the
  extended capability at offset 0x100 has ID 1.\<close>

theorem discovery_returns_capabilities:
  assumes cfg: "pci_config drv cfg" and t: "rg_pci s = pci_table"
    and rev: "rg_specRev s \<noteq> SPECREVTYPE_FENCE" and cl: "bit (cfg 6) 4"
    and list: "cap_list cfg (cfg 0x34) ps" and fuel: "256 \<le> fuel"
  shows "\<exists>s'. Registers_DiscoverPciCapabilities drv fuel s = Some s' \<and>
    rg_pciCap s' = List.map_filter (cap_name cfg) ps @
      (if ext_id cfg = 1 then [PCICAP_AERCAP] else [])"
proof -
  let ?s = "s\<lparr>rg_pciCap := []\<rparr>"
  obtain v where sts: "Registers_Read_pci drv PCISPC_STS 0 ?s = (Inr (True, v), ?s)"
    and v: "v AND 0x0010 \<noteq> 0"
    using Read_STS_config [OF cfg, of ?s 0] t rev cl by auto
  have cap: "Registers_Read_pci drv PCISPC_CAP 0 ?s = (Inr (True, ucast (cfg 0x34)), ?s)"
    using Read_CAP_config [OF cfg, of ?s 0] t rev by simp
  have p: "ucast (drop_bit 8 (push_bit 8 (ucast (cfg 0x34) :: u64))) = cfg 0x34"
    by (rule bit_word_eqI) (auto simp: bit_simps)
  have len: "length ps < fuel" using cap_list_length [OF list] fuel by linarith
  obtain nc' where
    "discover_loop drv fuel (push_bit 8 (ucast (cfg 0x34))) ?s = Some (Some nc', fold (visit cfg) ps ?s)"
    using discover_loop_list [OF cfg list p len] by blast
  then have "Registers_DiscoverPciCapabilities drv fuel s =
      Some (discover_extended drv nc' (fold (visit cfg) ps ?s))"
    using v by (simp add: Registers_DiscoverPciCapabilities_def Let_def sts cap)
  then show ?thesis
    by (simp add: discover_extended_pciCap [OF cfg] visits_pciCap)
qed

text \<open>An example: MSI at 0x40, then MSI-X at 0x50.\<close>

definition example_cfg :: "nat \<Rightarrow> u8" where
  "example_cfg = (\<lambda>_. 0)(6 := 0x10, 0x34 := 0x40, 0x40 := 0x05, 0x41 := 0x50, 0x50 := 0x11)"

definition cyclic_cfg :: "nat \<Rightarrow> u8" where
  "cyclic_cfg = (\<lambda>_. 0)(6 := 0x10, 0x34 := 0x40, 0x40 := 0x05, 0x41 := 0x40)"

definition config_dnvme :: "(nat \<Rightarrow> u8) \<Rightarrow> unit dnvme" where
  "config_dnvme cfg = null_dnvme\<lparr>io_read := (\<lambda>io buf d.
     (0, map (\<lambda>i. if i < unat (io_nBytes io) then cfg (unat (io_offset io) + i) else buf ! i)
           [0..<length buf], d))\<rparr>"

definition example_regs :: "unit registers" where
  "example_regs = \<lparr>kern = (), mmaps = (\<lambda>_. []), rg_specRev = SPECREV_12, rg_pciCap = [],
     rg_pci = pci_table\<rparr>"

lemma config_dnvme_config: "pci_config (config_dnvme cfg) cfg"
  by (simp add: pci_config_def config_dnvme_def)

lemma discovery_returns_capabilities_witness:
  "\<exists>s'. Registers_DiscoverPciCapabilities (config_dnvme example_cfg) 256 example_regs = Some s' \<and>
     rg_pciCap s' = [PCICAP_MSICAP, PCICAP_MSIXCAP]"
proof -
  have l: "cap_list example_cfg (example_cfg 0x34) [0x40, 0x50]"
    by (simp add: example_cfg_def)
  have c: "bit (example_cfg 6) 4"
    by (simp add: example_cfg_def)
  have m: "List.map_filter (cap_name example_cfg) [0x40, 0x50] = [PCICAP_MSICAP, PCICAP_MSIXCAP]"
    by (simp add: List.map_filter_simps cap_name_def cap_of_id_def example_cfg_def)
  show ?thesis
    using discovery_returns_capabilities [OF config_dnvme_config _ _ c l, of example_regs 256] m
    by (simp add: example_regs_def ext_id_def example_cfg_def)
qed

text \<open>C40: When the capability pointers never reach 0 (a cycle in the device's list), the walk of
  \<open>DiscoverPciCapabilities\<close> does not return, however many steps it takes.\<close>

theorem discovery_diverges_on_cycle:
  assumes cfg: "pci_config drv cfg" and t: "rg_pci s = pci_table"
    and rev: "rg_specRev s \<noteq> SPECREVTYPE_FENCE" and cl: "bit (cfg 6) 4"
    and live: "\<forall>k. ((\<lambda>q. cfg (unat q + 1)) ^^ k) (cfg 0x34) \<noteq> 0"
  shows "Registers_DiscoverPciCapabilities drv fuel s = None"
proof -
  let ?s = "s\<lparr>rg_pciCap := []\<rparr>"
  obtain v where sts: "Registers_Read_pci drv PCISPC_STS 0 ?s = (Inr (True, v), ?s)"
    and v: "v AND 0x0010 \<noteq> 0"
    using Read_STS_config [OF cfg, of ?s 0] t rev cl by auto
  have cap: "Registers_Read_pci drv PCISPC_CAP 0 ?s = (Inr (True, ucast (cfg 0x34)), ?s)"
    using Read_CAP_config [OF cfg, of ?s 0] t rev by simp
  have p: "ucast (drop_bit 8 (push_bit 8 (ucast (cfg 0x34) :: u64))) = cfg 0x34"
    by (rule bit_word_eqI) (auto simp: bit_simps)
  have "discover_loop drv fuel (push_bit 8 (ucast (cfg 0x34))) ?s = None"
    by (rule discover_loop_cycle [OF cfg live p])
  then show ?thesis
    using v by (simp add: Registers_DiscoverPciCapabilities_def Let_def sts cap)
qed

lemma discovery_diverges_on_cycle_witness:
  "Registers_DiscoverPciCapabilities (config_dnvme cyclic_cfg) 1000 example_regs = None"
proof -
  have "((\<lambda>q :: u8. cyclic_cfg (unat q + 1)) ^^ k) 0x40 = 0x40" for k
    by (induction k) (simp_all add: cyclic_cfg_def)
  then have live: "\<forall>k. ((\<lambda>q :: u8. cyclic_cfg (unat q + 1)) ^^ k) (cyclic_cfg 0x34) \<noteq> 0"
    by (simp add: cyclic_cfg_def)
  have c: "bit (cyclic_cfg 6) 4"
    by (simp add: cyclic_cfg_def)
  show ?thesis
    by (rule discovery_diverges_on_cycle [OF config_dnvme_config _ _ c live])
      (simp_all add: example_regs_def)
qed

text \<open>When a capability is recorded, every register the table lists for it (from its first one
  on) gets the capability's offset plus the sizes of the registers before it.\<close>

theorem capability_register_offsets:
  assumes t: "same_columns (rg_pci s)" and c: "cap_of_id capId = Some (cap, a)"
    and k: "a \<le> k" "k < PCISPC_FENCE" "pci_cap (pci_table ! k) = cap"
  shows "pci_offset (rg_pci (discover_cap capId off s) ! k) =
    off + (\<Sum>j = a..<k. pci_size (pci_table ! j))"
proof -
  let ?t = "set_offset a off (rg_pci s)"
  have len: "length (rg_pci s) = PCISPC_FENCE" by (rule same_columns_length [OF t])
  have a: "a < PCISPC_FENCE" by (rule cap_of_id_index [OF c])
  have caps: "\<forall>j. a < j \<and> j \<le> k \<longrightarrow> pci_cap (?t ! j) = cap"
    using neighbours [OF c k] same_columns_nth [OF t] k len by auto
  have "pci_offset (fold (cap_step cap) [Suc a..<PCISPC_FENCE] ?t ! k) =
      pci_offset (?t ! a) + (\<Sum>j = a..<k. pci_size (?t ! j))"
    by (rule fold_cap_step_chain) (use len a caps k in simp_all)
  moreover have "pci_offset (?t ! a) = off" using a len by (simp add: set_offset_def)
  moreover have "(\<Sum>j = a..<k. pci_size (?t ! j)) = (\<Sum>j = a..<k. pci_size (pci_table ! j))"
    by (rule sum.cong) (use len k same_columns_nth [OF t] in auto)
  ultimately show ?thesis
    using c by (simp add: discover_cap_def cap_offsets_fold)
qed

text \<open>
  The instance for the MSI mask bits register: the code places it 14 bytes into the capability
  (the PCI layout has two reserved bytes after the message data, which the table does not list).
\<close>

lemma capability_register_offsets_witness:
  "pci_offset (rg_pci (discover_cap 0x05 0x40 example_regs) ! PCISPC_MMASK) = 0x40 + 14"
proof -
  have t: "same_columns (rg_pci example_regs)"
    by (simp add: same_columns_def example_regs_def)
  have c: "cap_of_id 0x05 = Some (PCICAP_MSICAP, PCISPC_MID)"
    by (simp add: cap_of_id_def)
  have k: "pci_cap (pci_table ! PCISPC_MMASK) = PCICAP_MSICAP"
    by (simp add: pci_table_def mkPci_def)
  have sum: "(\<Sum>j = PCISPC_MID..<PCISPC_MMASK. pci_size (pci_table ! j)) = 14"
    by (simp add: sum.atLeast_Suc_lessThan pci_table_def mkPci_def numeral_eq_Suc)
  show ?thesis
    using capability_register_offsets [where off = "0x40", OF t c _ _ k] sum by simp
qed

end
