(* ===== verification/Group_Tables.thy ===== *)
theory Group_Tables
  imports Test_Run
begin

text \<open>
  The groups of tests: the constructors of the GrpXxx classes (GrpXxx/grpXxx.cpp), which lay out the matrix of the
  tests of a specification revision, and \<open>InstantiateGroups\<close> (tnvme.cpp). For each test the tables give the macro
  that appends it, its class, and the revision that the constructor of this class passes on to \<open>Test\<close>; what else a
  test object holds is up to \<open>new_test\<close>.
\<close>

section \<open>Constructing a group\<close>

datatype level = X_LEVEL | Y_LEVEL | Z_LEVEL

type_synonym 't test_maker = "string \<Rightarrow> string \<Rightarrow> SpecRev \<Rightarrow> 't"
type_synonym 't group_ctor = "'t test_maker \<Rightarrow> SpecRev \<Rightarrow> nat \<Rightarrow> ex + 't group"
type_synonym test_entry = "level \<times> string \<times> SpecRev"

definition append_test :: "level \<Rightarrow> 't \<Rightarrow> ('t list list list, unit) prog" where
  "append_test l t =
     (case l of X_LEVEL \<Rightarrow> APPEND_TEST_AT_XLEVEL t | Y_LEVEL \<Rightarrow> APPEND_TEST_AT_YLEVEL t | Z_LEVEL \<Rightarrow> APPEND_TEST_AT_ZLEVEL t)"

fun append_tests :: "'t test_maker \<Rightarrow> string \<Rightarrow> test_entry list \<Rightarrow> ('t list list list, unit) prog" where
  "append_tests new_test grpName [] = ret ()"
| "append_tests new_test grpName ((l, testName, rv) # es) =
     sq (append_test l (new_test grpName testName rv)) (append_tests new_test grpName es)"

text \<open>\<open>None\<close>: the revision is unknown.\<close>

definition new_group :: "'t test_maker \<Rightarrow> nat \<Rightarrow> string \<Rightarrow> string \<Rightarrow> test_entry list option \<Rightarrow> ex + 't group" where
  "new_group new_test grpNum grpName desc tests =
     (case tests of
        None \<Rightarrow> Inl (FrmwkEx ''Object created with an unknown SpecRev=%d'')
      | Some es \<Rightarrow>
          (case append_tests new_test grpName es [] of
             (Inl e, _) \<Rightarrow> Inl e
           | (Inr _, m) \<Rightarrow> Inr ((Group_Group grpNum grpName desc)\<lparr>mTests := m\<rparr>)))"

section \<open>The groups\<close>

definition GrpPciRegisters :: "'t group_ctor" where
  "GrpPciRegisters new_test rv grpNum = new_group new_test grpNum ''GrpPciRegisters'' ''PCI registers syntactic'' (
      if rv \<in> {SPECREV_10b, SPECREV_11, SPECREV_12, SPECREV_121, SPECREV_13} then
        Some [(X_LEVEL, ''AllPciRegs_r10b'', SPECREV_10b)]
      else None)"

definition GrpCtrlRegisters :: "'t group_ctor" where
  "GrpCtrlRegisters new_test rv grpNum = new_group new_test grpNum ''GrpCtrlRegisters'' ''Controller registers syntactic'' (
      if rv \<in> {SPECREV_10b} then
        Some [(X_LEVEL, ''AllCtrlRegs_r10b'', SPECREV_10b), (X_LEVEL, ''CtrlrResetDefaults_r10b'', SPECREV_10b)]
      else if rv \<in> {SPECREV_11} then
        Some [(X_LEVEL, ''AllCtrlRegs_r11'', SPECREV_11), (X_LEVEL, ''CtrlrResetDefaults_r10b'', SPECREV_10b)]
      else if rv \<in> {SPECREV_12, SPECREV_121, SPECREV_13} then
        Some [(X_LEVEL, ''AllCtrlRegs_r12'', SPECREV_12), (X_LEVEL, ''CtrlrResetDefaults_r10b'', SPECREV_10b)]
      else None)"

definition GrpBasicInit :: "'t group_ctor" where
  "GrpBasicInit new_test rv grpNum = new_group new_test grpNum ''GrpBasicInit'' ''Basic Initialization'' (
      if rv \<in> {SPECREV_10b, SPECREV_11, SPECREV_12, SPECREV_121, SPECREV_13} then
        Some [(X_LEVEL, ''CreateACQASQ_r10b'', SPECREV_10b), (Z_LEVEL, ''CreateIOQContigPoll_r10b'', SPECREV_10b),
        (Z_LEVEL, ''CreateIOQDiscontigPoll_r10b'', SPECREV_10b), (Z_LEVEL, ''WriteDataPat_r10b'', SPECREV_10b),
        (Z_LEVEL, ''VerifyDataPat_r10b'', SPECREV_10b), (Z_LEVEL, ''DeleteIOQContig_r10b'', SPECREV_10b),
        (Z_LEVEL, ''DeleteIOQDiscontig_r10b'', SPECREV_10b), (Z_LEVEL, ''CreateIOQContigIrq_r10b'', SPECREV_10b),
        (Z_LEVEL, ''CreateIOQDiscontigIrq_r10b'', SPECREV_10b), (Z_LEVEL, ''WriteDataPat_r10b'', SPECREV_10b),
        (Z_LEVEL, ''VerifyDataPat_r10b'', SPECREV_10b), (Z_LEVEL, ''DeleteIOQContig_r10b'', SPECREV_10b),
        (Z_LEVEL, ''DeleteIOQDiscontig_r10b'', SPECREV_10b)]
      else None)"

definition GrpResets :: "'t group_ctor" where
  "GrpResets new_test rv grpNum = new_group new_test grpNum ''GrpResets'' ''All Ctrl'r reset related tests'' (
      if rv \<in> {SPECREV_10b, SPECREV_11, SPECREV_12, SPECREV_121, SPECREV_13} then
        Some [(X_LEVEL, ''CtrlrResetIOQDeleted_r10b'', SPECREV_10b), (X_LEVEL, ''CtrlrResetNotEffectAdminQ_r10b'', SPECREV_10b)]
      else None)"

definition GrpGeneralCmds :: "'t group_ctor" where
  "GrpGeneralCmds new_test rv grpNum = new_group new_test grpNum ''GrpGeneralCmds'' ''General command tests.'' (
      if rv \<in> {SPECREV_10b} then
        Some [(X_LEVEL, ''CreateResources_r10b'', SPECREV_10b), (Y_LEVEL, ''IllegalNVMCmds_r10b'', SPECREV_10b),
        (Y_LEVEL, ''IllegalAdminCmds_r10b'', SPECREV_10b), (Y_LEVEL, ''CIDAcceptedASQ_r10b'', SPECREV_10b),
        (X_LEVEL, ''CIDAcceptedIOSQ_r10b'', SPECREV_10b)]
      else if rv \<in> {SPECREV_11} then
        Some [(X_LEVEL, ''CreateResources_r10b'', SPECREV_10b), (Y_LEVEL, ''IllegalNVMCmds_r11'', SPECREV_11),
        (Y_LEVEL, ''IllegalAdminCmds_r10b'', SPECREV_10b), (Y_LEVEL, ''CIDAcceptedASQ_r10b'', SPECREV_10b),
        (X_LEVEL, ''CIDAcceptedIOSQ_r10b'', SPECREV_10b)]
      else if rv \<in> {SPECREV_12, SPECREV_121, SPECREV_13} then
        Some [(X_LEVEL, ''CreateResources_r10b'', SPECREV_10b), (Y_LEVEL, ''IllegalNVMCmds_r11'', SPECREV_11),
        (Y_LEVEL, ''IllegalAdminCmds_r12'', SPECREV_12), (Y_LEVEL, ''CIDAcceptedASQ_r10b'', SPECREV_10b),
        (X_LEVEL, ''CIDAcceptedIOSQ_r10b'', SPECREV_10b)]
      else None)"

definition GrpQueues :: "'t group_ctor" where
  "GrpQueues new_test rv grpNum = new_group new_test grpNum ''GrpQueues'' ''Validates general queue functionality'' (
      if rv \<in> {SPECREV_10b, SPECREV_11, SPECREV_12, SPECREV_121, SPECREV_13} then
        Some [(X_LEVEL, ''InitialStateAdmin_r10b'', SPECREV_10b), (X_LEVEL, ''AdminQRollChkSame_r10b'', SPECREV_10b),
        (X_LEVEL, ''AdminQRollChkDiff_r10b'', SPECREV_10b), (X_LEVEL, ''AdminQFull_r10b'', SPECREV_10b),
        (X_LEVEL, ''IllegalCreateOrder_r10b'', SPECREV_10b), (X_LEVEL, ''CreateResources_r10b'', SPECREV_10b),
        (Y_LEVEL, ''IOQRollChkSame_r10b'', SPECREV_10b), (Y_LEVEL, ''IOQRollChkDiff_r10b'', SPECREV_10b),
        (Y_LEVEL, ''ManySQtoCQAssoc_r10b'', SPECREV_10b), (Y_LEVEL, ''IOQFull_r10b'', SPECREV_10b),
        (Y_LEVEL, ''ManyCmdSubmit_r10b'', SPECREV_10b), (Y_LEVEL, ''IllegalDeleteQs_r10b'', SPECREV_10b),
        (Y_LEVEL, ''MaxIOQ_r10b'', SPECREV_10b), (Y_LEVEL, ''SQCQSizeMismatch_r10b'', SPECREV_10b),
        (Y_LEVEL, ''QIDVariations_r10b'', SPECREV_10b), (Y_LEVEL, ''IllegalCreateQs_r10b'', SPECREV_10b)]
      else None)"

definition GrpNVMReadCmd :: "'t group_ctor" where
  "GrpNVMReadCmd new_test rv grpNum = new_group new_test grpNum ''GrpNVMReadCmd'' ''NVM cmd set read cmd tests'' (
      if rv \<in> {SPECREV_10b} then
        Some [(X_LEVEL, ''CreateResources_r10b'', SPECREV_10b), (Y_LEVEL, ''LBAOutOfRangeBare_r10b'', SPECREV_10b),
        (Y_LEVEL, ''InvalidNamspc_r10b'', SPECREV_10b), (Y_LEVEL, ''UnsupportRsvdFields_r10b'', SPECREV_10b),
        (Y_LEVEL, ''ProtInfoIgnoreBare_r10b'', SPECREV_10b), (Y_LEVEL, ''IgnoreMetaPtrBare_r10b'', SPECREV_10b),
        (Y_LEVEL, ''FUA_r10b'', SPECREV_10b), (Y_LEVEL, ''LimitedRetry_r10b'', SPECREV_10b),
        (Y_LEVEL, ''IgnoreMetaPtrMeta_r10b'', SPECREV_10b), (X_LEVEL, ''LBAOutOfRangeMeta_r10b'', SPECREV_10b),
        (X_LEVEL, ''ProtInfoIgnoreMeta_r10b'', SPECREV_10b)]
      else if rv \<in> {SPECREV_11} then
        Some [(X_LEVEL, ''CreateResources_r10b'', SPECREV_10b), (Y_LEVEL, ''LBAOutOfRangeBare_r10b'', SPECREV_10b),
        (Y_LEVEL, ''InvalidNamspc_r10b'', SPECREV_10b), (Y_LEVEL, ''UnsupportRsvdFields_r11b'', SPECREV_11),
        (Y_LEVEL, ''ProtInfoIgnoreBare_r10b'', SPECREV_10b), (Y_LEVEL, ''IgnoreMetaPtrBare_r10b'', SPECREV_10b),
        (Y_LEVEL, ''FUA_r10b'', SPECREV_10b), (Y_LEVEL, ''LimitedRetry_r10b'', SPECREV_10b),
        (Y_LEVEL, ''IgnoreMetaPtrMeta_r10b'', SPECREV_10b), (X_LEVEL, ''LBAOutOfRangeMeta_r10b'', SPECREV_10b),
        (X_LEVEL, ''ProtInfoIgnoreMeta_r10b'', SPECREV_10b)]
      else if rv \<in> {SPECREV_12, SPECREV_121, SPECREV_13} then
        Some [(X_LEVEL, ''CreateResources_r10b'', SPECREV_10b), (Y_LEVEL, ''LBAOutOfRangeBare_r12'', SPECREV_12),
        (Y_LEVEL, ''InvalidNamspc_r10b'', SPECREV_10b), (Y_LEVEL, ''UnsupportRsvdFields_r12'', SPECREV_12),
        (Y_LEVEL, ''ProtInfoIgnoreBare_r12'', SPECREV_12), (Y_LEVEL, ''IgnoreMetaPtrBare_r12'', SPECREV_12),
        (Y_LEVEL, ''FUA_r10b'', SPECREV_10b), (Y_LEVEL, ''LimitedRetry_r10b'', SPECREV_10b),
        (Y_LEVEL, ''IgnoreMetaPtrMeta_r12'', SPECREV_12), (X_LEVEL, ''LBAOutOfRangeMeta_r12'', SPECREV_12),
        (X_LEVEL, ''ProtInfoIgnoreMeta_r12'', SPECREV_12)]
      else None)"

definition GrpNVMWriteCmd :: "'t group_ctor" where
  "GrpNVMWriteCmd new_test rv grpNum = new_group new_test grpNum ''GrpNVMWriteCmd'' ''NVM cmd set write cmd tests'' (
      if rv \<in> {SPECREV_10b} then
        Some [(X_LEVEL, ''CreateResources_r10b'', SPECREV_10b), (Y_LEVEL, ''LBAOutOfRangeBare_r10b'', SPECREV_10b),
        (Y_LEVEL, ''InvalidNamspc_r10b'', SPECREV_10b), (Y_LEVEL, ''UnsupportRsvdFields_r10b'', SPECREV_10b),
        (Y_LEVEL, ''IgnoreMetaPtrBare_r10b'', SPECREV_10b), (Y_LEVEL, ''ProtInfoIgnoreBare_r10b'', SPECREV_10b),
        (Y_LEVEL, ''FUA_r10b'', SPECREV_10b), (Y_LEVEL, ''LimitedRetry_r10b'', SPECREV_10b),
        (Y_LEVEL, ''IgnoreMetaPtrMeta_r10b'', SPECREV_10b), (X_LEVEL, ''LBAOutOfRangeMeta_r10b'', SPECREV_10b),
        (X_LEVEL, ''ProtInfoIgnoreMeta_r10b'', SPECREV_10b)]
      else if rv \<in> {SPECREV_11} then
        Some [(X_LEVEL, ''CreateResources_r10b'', SPECREV_10b), (Y_LEVEL, ''LBAOutOfRangeBare_r10b'', SPECREV_10b),
        (Y_LEVEL, ''InvalidNamspc_r10b'', SPECREV_10b), (Y_LEVEL, ''UnsupportRsvdFields_r11b'', SPECREV_11),
        (Y_LEVEL, ''IgnoreMetaPtrBare_r10b'', SPECREV_10b), (Y_LEVEL, ''ProtInfoIgnoreBare_r10b'', SPECREV_10b),
        (Y_LEVEL, ''FUA_r10b'', SPECREV_10b), (Y_LEVEL, ''LimitedRetry_r10b'', SPECREV_10b),
        (Y_LEVEL, ''IgnoreMetaPtrMeta_r10b'', SPECREV_10b), (X_LEVEL, ''LBAOutOfRangeMeta_r10b'', SPECREV_10b),
        (X_LEVEL, ''ProtInfoIgnoreMeta_r10b'', SPECREV_10b)]
      else if rv \<in> {SPECREV_12, SPECREV_121, SPECREV_13} then
        Some [(X_LEVEL, ''CreateResources_r10b'', SPECREV_10b), (Y_LEVEL, ''LBAOutOfRangeBare_r12'', SPECREV_12),
        (Y_LEVEL, ''InvalidNamspc_r10b'', SPECREV_10b), (Y_LEVEL, ''UnsupportRsvdFields_r12'', SPECREV_12),
        (Y_LEVEL, ''ProtInfoIgnoreBare_r12'', SPECREV_12), (Y_LEVEL, ''IgnoreMetaPtrBare_r12'', SPECREV_12),
        (Y_LEVEL, ''FUA_r10b'', SPECREV_10b), (Y_LEVEL, ''LimitedRetry_r10b'', SPECREV_10b),
        (Y_LEVEL, ''IgnoreMetaPtrMeta_r12'', SPECREV_12), (X_LEVEL, ''LBAOutOfRangeMeta_r12'', SPECREV_12),
        (X_LEVEL, ''ProtInfoIgnoreMeta_r12'', SPECREV_12)]
      else None)"

definition GrpNVMWriteReadCombo :: "'t group_ctor" where
  "GrpNVMWriteReadCombo new_test rv grpNum = new_group new_test grpNum ''GrpNVMWriteReadCombo'' ''NVM cmd set write/read combo tests.'' (
      if rv \<in> {SPECREV_10b, SPECREV_11, SPECREV_12, SPECREV_121, SPECREV_13} then
        Some [(X_LEVEL, ''PRPOffsetSinglePgMultiBlk_r10b'', SPECREV_10b), (X_LEVEL, ''PRPOffsetDualPgMultiBlk_r10b'', SPECREV_10b),
        (X_LEVEL, ''PRPOffsetMultiPgMultiBlk_r10b'', SPECREV_10b), (X_LEVEL, ''CreateResources_r10b'', SPECREV_10b),
        (Y_LEVEL, ''PRPOffsetSinglePgSingleBlk_r10b'', SPECREV_10b), (Y_LEVEL, ''StartingLBABare_r10b'', SPECREV_10b),
        (Y_LEVEL, ''NLBABare_r10b'', SPECREV_10b), (Y_LEVEL, ''DatasetMgmt_r10b'', SPECREV_10b),
        (X_LEVEL, ''StartingLBAMeta_r10b'', SPECREV_10b), (X_LEVEL, ''NLBAMeta_r10b'', SPECREV_10b),
        (X_LEVEL, ''PRP2Rsvd_r10b'', SPECREV_10b)]
      else None)"

definition GrpNVMFlushCmd :: "'t group_ctor" where
  "GrpNVMFlushCmd new_test rv grpNum = new_group new_test grpNum ''GrpNVMFlushCmd'' ''Validates NVM cmd set flush cmd tests'' (
      if rv \<in> {SPECREV_10b} then
        Some [(X_LEVEL, ''CreateResources_r10b'', SPECREV_10b), (Y_LEVEL, ''InvalidNamspc_r10b'', SPECREV_10b),
        (Y_LEVEL, ''UnsupportRsvdFields_r10b'', SPECREV_10b), (Y_LEVEL, ''FunctionalityBare_r10b'', SPECREV_10b),
        (X_LEVEL, ''FunctionalityMeta_r10b'', SPECREV_10b)]
      else if rv \<in> {SPECREV_11} then
        Some [(X_LEVEL, ''CreateResources_r10b'', SPECREV_10b), (Y_LEVEL, ''InvalidNamspc_r10b'', SPECREV_10b),
        (Y_LEVEL, ''UnsupportRsvdFields_r11b'', SPECREV_11), (Y_LEVEL, ''FunctionalityBare_r10b'', SPECREV_10b),
        (X_LEVEL, ''FunctionalityMeta_r10b'', SPECREV_10b)]
      else if rv \<in> {SPECREV_12, SPECREV_121, SPECREV_13} then
        Some [(X_LEVEL, ''CreateResources_r10b'', SPECREV_10b), (Y_LEVEL, ''InvalidNamspc_r10b'', SPECREV_10b),
        (Y_LEVEL, ''UnsupportRsvdFields_r12'', SPECREV_12), (Y_LEVEL, ''FunctionalityBare_r10b'', SPECREV_10b),
        (X_LEVEL, ''FunctionalityMeta_r10b'', SPECREV_10b)]
      else None)"

definition GrpInterrupts :: "'t group_ctor" where
  "GrpInterrupts new_test rv grpNum = new_group new_test grpNum ''GrpInterrupts'' ''MSI-single, MSI-multi, MSI-X test cases'' (
      if rv \<in> {SPECREV_10b, SPECREV_11, SPECREV_12, SPECREV_121, SPECREV_13} then
        Some [(X_LEVEL, ''CreateResources_r10b'', SPECREV_10b), (Y_LEVEL, ''InvalidMSIXIRQ_r10b'', SPECREV_10b),
        (Y_LEVEL, ''PartialReapMSIX_r10b'', SPECREV_10b), (Y_LEVEL, ''MaxIOQMSIX1To1_r10b'', SPECREV_10b),
        (Y_LEVEL, ''MaxIOQMSIXManyTo1_r10b'', SPECREV_10b)]
      else None)"

definition GrpNVMWriteUncorrectCmd :: "'t group_ctor" where
  "GrpNVMWriteUncorrectCmd new_test rv grpNum = new_group new_test grpNum ''GrpNVMWriteUncorrectCmd'' ''NVM cmd set write uncorrectable test cases'' (
      if rv \<in> {SPECREV_10b, SPECREV_11, SPECREV_12, SPECREV_121, SPECREV_13} then
        Some []
      else None)"

definition GrpNVMDatasetMgmtCmd :: "'t group_ctor" where
  "GrpNVMDatasetMgmtCmd new_test rv grpNum = new_group new_test grpNum ''GrpNVMDatasetMgmtCmd'' ''NVM cmd set data set mgmt tests'' (
      if rv \<in> {SPECREV_10b} then
        Some [(X_LEVEL, ''CreateResources_r10b'', SPECREV_10b), (Y_LEVEL, ''InvalidNamspc_r10b'', SPECREV_10b),
        (Y_LEVEL, ''UnsupportRsvdFields_r10b'', SPECREV_10b), (Y_LEVEL, ''PRP1PRP2NR_r10b'', SPECREV_10b),
        (Y_LEVEL, ''Attributes_r10b'', SPECREV_10b), (Y_LEVEL, ''VerifyNUSE_r10b'', SPECREV_10b)]
      else if rv \<in> {SPECREV_11} then
        Some [(X_LEVEL, ''CreateResources_r10b'', SPECREV_10b), (Y_LEVEL, ''InvalidNamspc_r10b'', SPECREV_10b),
        (Y_LEVEL, ''UnsupportRsvdFields_r11b'', SPECREV_11), (Y_LEVEL, ''PRP1PRP2NR_r10b'', SPECREV_10b),
        (Y_LEVEL, ''Attributes_r10b'', SPECREV_10b), (Y_LEVEL, ''VerifyNUSE_r10b'', SPECREV_10b)]
      else if rv \<in> {SPECREV_12, SPECREV_121, SPECREV_13} then
        Some [(X_LEVEL, ''CreateResources_r10b'', SPECREV_10b), (Y_LEVEL, ''InvalidNamspc_r10b'', SPECREV_10b),
        (Y_LEVEL, ''UnsupportRsvdFields_r12'', SPECREV_12), (Y_LEVEL, ''PRP1PRP2NR_r10b'', SPECREV_10b),
        (Y_LEVEL, ''Attributes_r10b'', SPECREV_10b), (Y_LEVEL, ''VerifyNUSE_r10b'', SPECREV_10b)]
      else None)"

definition GrpNVMCompareCmd :: "'t group_ctor" where
  "GrpNVMCompareCmd new_test rv grpNum = new_group new_test grpNum ''GrpNVMCompareCmd'' ''NVM cmd set compare test cases'' (
      if rv \<in> {SPECREV_10b, SPECREV_11, SPECREV_12, SPECREV_121, SPECREV_13} then
        Some []
      else None)"

definition GrpAdminDeleteIOCQCmd :: "'t group_ctor" where
  "GrpAdminDeleteIOCQCmd new_test rv grpNum = new_group new_test grpNum ''GrpAdminDeleteIOCQCmd'' ''Admin cmd set delete IOCQ test cases'' (
      if rv \<in> {SPECREV_10b} then
        Some [(X_LEVEL, ''CreateResources_r10b'', SPECREV_10b), (Y_LEVEL, ''UnsupportRsvdFields_r10b'', SPECREV_10b),
        (X_LEVEL, ''InvalidQID_r10b'', SPECREV_10b), (X_LEVEL, ''DeleteAllAtOnce_r10b'', SPECREV_10b),
        (X_LEVEL, ''DeleteFullQ_r10b'', SPECREV_10b)]
      else if rv \<in> {SPECREV_11} then
        Some [(X_LEVEL, ''CreateResources_r10b'', SPECREV_10b), (Y_LEVEL, ''UnsupportRsvdFields_r11b'', SPECREV_10b),
        (X_LEVEL, ''InvalidQID_r10b'', SPECREV_10b), (X_LEVEL, ''DeleteAllAtOnce_r10b'', SPECREV_10b),
        (X_LEVEL, ''DeleteFullQ_r10b'', SPECREV_10b)]
      else if rv \<in> {SPECREV_12, SPECREV_121, SPECREV_13} then
        Some [(X_LEVEL, ''CreateResources_r10b'', SPECREV_10b), (Y_LEVEL, ''UnsupportRsvdFields_r12'', SPECREV_12),
        (X_LEVEL, ''InvalidQID_r10b'', SPECREV_10b), (X_LEVEL, ''DeleteAllAtOnce_r10b'', SPECREV_10b),
        (X_LEVEL, ''DeleteFullQ_r10b'', SPECREV_10b)]
      else None)"

definition GrpAdminDeleteIOSQCmd :: "'t group_ctor" where
  "GrpAdminDeleteIOSQCmd new_test rv grpNum = new_group new_test grpNum ''GrpAdminDeleteIOSQCmd'' ''Admin cmd set delete IOSQ test cases'' (
      if rv \<in> {SPECREV_10b} then
        Some [(X_LEVEL, ''CreateResources_r10b'', SPECREV_10b), (Y_LEVEL, ''UnsupportRsvdFields_r10b'', SPECREV_10b),
        (X_LEVEL, ''InvalidQID_r10b'', SPECREV_10b)]
      else if rv \<in> {SPECREV_11} then
        Some [(X_LEVEL, ''CreateResources_r10b'', SPECREV_10b), (Y_LEVEL, ''UnsupportRsvdFields_r11b'', SPECREV_10b),
        (X_LEVEL, ''InvalidQID_r10b'', SPECREV_10b)]
      else if rv \<in> {SPECREV_12, SPECREV_121, SPECREV_13} then
        Some [(X_LEVEL, ''CreateResources_r10b'', SPECREV_10b), (Y_LEVEL, ''UnsupportRsvdFields_r12'', SPECREV_12),
        (X_LEVEL, ''InvalidQID_r10b'', SPECREV_10b)]
      else None)"

definition GrpAdminCreateIOCQCmd :: "'t group_ctor" where
  "GrpAdminCreateIOCQCmd new_test rv grpNum = new_group new_test grpNum ''GrpAdminCreateIOCQCmd'' ''Admin cmd set create IOCQ test cases'' (
      if rv \<in> {SPECREV_10b} then
        Some [(X_LEVEL, ''CreateResources_r10b'', SPECREV_10b), (Y_LEVEL, ''UnsupportRsvdFields_r10b'', SPECREV_10b),
        (X_LEVEL, ''InvalidQID_r10b'', SPECREV_10b), (X_LEVEL, ''MaxQSizeExceed_r10b'', SPECREV_10b)]
      else if rv \<in> {SPECREV_11} then
        Some [(X_LEVEL, ''CreateResources_r10b'', SPECREV_10b), (Y_LEVEL, ''UnsupportRsvdFields_r11b'', SPECREV_11),
        (X_LEVEL, ''InvalidQID_r10b'', SPECREV_10b), (X_LEVEL, ''MaxQSizeExceed_r10b'', SPECREV_10b)]
      else if rv \<in> {SPECREV_12, SPECREV_121, SPECREV_13} then
        Some [(X_LEVEL, ''CreateResources_r10b'', SPECREV_10b), (Y_LEVEL, ''UnsupportRsvdFields_r12'', SPECREV_12),
        (X_LEVEL, ''InvalidQID_r10b'', SPECREV_10b), (X_LEVEL, ''MaxQSizeExceed_r10b'', SPECREV_10b)]
      else None)"

definition GrpAdminCreateIOSQCmd :: "'t group_ctor" where
  "GrpAdminCreateIOSQCmd new_test rv grpNum = new_group new_test grpNum ''GrpAdminCreateIOSQCmd'' ''Admin cmd set create IOSQ test cases'' (
      if rv \<in> {SPECREV_10b} then
        Some [(X_LEVEL, ''CreateResources_r10b'', SPECREV_10b), (Y_LEVEL, ''UnsupportRsvdFields_r10b'', SPECREV_10b),
        (Y_LEVEL, ''MaxQSizeExceed_r10b'', SPECREV_10b), (Y_LEVEL, ''CompletionQInvalid_r10b'', SPECREV_10b),
        (X_LEVEL, ''InvalidQID_r10b'', SPECREV_10b), (X_LEVEL, ''AcceptQPriority_r10b'', SPECREV_10b)]
      else if rv \<in> {SPECREV_11} then
        Some [(X_LEVEL, ''CreateResources_r10b'', SPECREV_10b), (Y_LEVEL, ''UnsupportRsvdFields_r11b'', SPECREV_10b),
        (Y_LEVEL, ''MaxQSizeExceed_r10b'', SPECREV_10b), (Y_LEVEL, ''CompletionQInvalid_r10b'', SPECREV_10b),
        (X_LEVEL, ''InvalidQID_r10b'', SPECREV_10b), (X_LEVEL, ''AcceptQPriority_r10b'', SPECREV_10b)]
      else if rv \<in> {SPECREV_12, SPECREV_121, SPECREV_13} then
        Some [(X_LEVEL, ''CreateResources_r10b'', SPECREV_10b), (Y_LEVEL, ''UnsupportRsvdFields_r12'', SPECREV_12),
        (Y_LEVEL, ''MaxQSizeExceed_r10b'', SPECREV_10b), (Y_LEVEL, ''CompletionQInvalid_r10b'', SPECREV_10b),
        (X_LEVEL, ''InvalidQID_r10b'', SPECREV_10b), (X_LEVEL, ''AcceptQPriority_r10b'', SPECREV_10b)]
      else None)"

definition GrpAdminCreateIOQCmd :: "'t group_ctor" where
  "GrpAdminCreateIOQCmd new_test rv grpNum = new_group new_test grpNum ''GrpAdminCreateIOQCmd'' ''Admin cmd set common create IOCQ/IOSQ test cases'' (
      if rv \<in> {SPECREV_10b, SPECREV_11, SPECREV_12, SPECREV_121, SPECREV_13} then
        Some [(X_LEVEL, ''PRPLessPageContig_r10b'', SPECREV_10b), (X_LEVEL, ''PRPLessPageDiscontig_r10b'', SPECREV_10b),
        (X_LEVEL, ''PRPSinglePageContig_r10b'', SPECREV_10b), (X_LEVEL, ''PRPSinglePageDiscontig_r10b'', SPECREV_10b),
        (X_LEVEL, ''PRPGreaterPageContig_r10b'', SPECREV_10b), (X_LEVEL, ''PRPGreaterPageDiscontig_r10b'', SPECREV_10b)]
      else None)"

definition GrpAdminGetLogPgCmd :: "'t group_ctor" where
  "GrpAdminGetLogPgCmd new_test rv grpNum = new_group new_test grpNum ''GrpAdminGetLogPgCmd'' ''Admin cmd set get log page test cases'' (
      if rv \<in> {SPECREV_10b} then
        Some [(X_LEVEL, ''CreateResources_r10b'', SPECREV_10b), (Y_LEVEL, ''PRP1_r10b'', SPECREV_10b), (Y_LEVEL, ''PRP1PRP2_r10b'', SPECREV_10b),
        (Y_LEVEL, ''UnsupportRsvdFields_r10b'', SPECREV_10b), (Y_LEVEL, ''NUMDIsAdhered_r10b'', SPECREV_10b),
        (Y_LEVEL, ''InvalidLogPageNVMSet_r10b'', SPECREV_10b), (Y_LEVEL, ''InvalidNamspc_r10b'', SPECREV_10b),
        (Y_LEVEL, ''MandatoryErrInfo_r10b'', SPECREV_10b), (Y_LEVEL, ''MandatorySMART_r10b'', SPECREV_10b),
        (Y_LEVEL, ''MandatoryFW_r10b'', SPECREV_10b)]
      else if rv \<in> {SPECREV_11} then
        Some [(X_LEVEL, ''CreateResources_r10b'', SPECREV_10b), (Y_LEVEL, ''PRP1_r10b'', SPECREV_10b), (Y_LEVEL, ''PRP1PRP2_r10b'', SPECREV_10b),
        (Y_LEVEL, ''UnsupportRsvdFields_r11b'', SPECREV_11), (Y_LEVEL, ''NUMDIsAdhered_r10b'', SPECREV_10b),
        (Y_LEVEL, ''InvalidLogPageNVMSet_r11b'', SPECREV_10b), (Y_LEVEL, ''InvalidNamspc_r11a'', SPECREV_10b),
        (Y_LEVEL, ''MandatoryErrInfo_r10b'', SPECREV_10b), (Y_LEVEL, ''MandatorySMART_r10b'', SPECREV_10b),
        (Y_LEVEL, ''MandatoryFW_r10b'', SPECREV_10b)]
      else if rv \<in> {SPECREV_12, SPECREV_121, SPECREV_13} then
        Some [(X_LEVEL, ''CreateResources_r10b'', SPECREV_10b), (Y_LEVEL, ''PRP1_r10b'', SPECREV_10b), (Y_LEVEL, ''PRP1PRP2_r10b'', SPECREV_10b),
        (Y_LEVEL, ''UnsupportRsvdFields_r12'', SPECREV_12), (Y_LEVEL, ''NUMDIsAdhered_r10b'', SPECREV_10b),
        (Y_LEVEL, ''InvalidLogPageNVMSet_r11b'', SPECREV_10b), (Y_LEVEL, ''InvalidNamspc_r11a'', SPECREV_10b),
        (Y_LEVEL, ''MandatoryErrInfo_r10b'', SPECREV_10b), (Y_LEVEL, ''MandatorySMART_r10b'', SPECREV_10b),
        (Y_LEVEL, ''MandatoryFW_r10b'', SPECREV_10b)]
      else None)"

definition GrpAdminIdentifyCmd :: "'t group_ctor" where
  "GrpAdminIdentifyCmd new_test rv grpNum = new_group new_test grpNum ''GrpAdminIdentifyCmd'' ''Admin cmd set identify test cases'' (
      if rv \<in> {SPECREV_10b} then
        Some [(X_LEVEL, ''CreateResources_r10b'', SPECREV_10b), (Y_LEVEL, ''PRP1_r10b'', SPECREV_10b), (Y_LEVEL, ''PRP1PRP2_r10b'', SPECREV_10b),
        (Y_LEVEL, ''UnsupportRsvdFields_r10b'', SPECREV_10b), (Y_LEVEL, ''InvalidNamspc_r10b'', SPECREV_10b)]
      else if rv \<in> {SPECREV_11} then
        Some [(X_LEVEL, ''CreateResources_r10b'', SPECREV_10b), (Y_LEVEL, ''PRP1_r10b'', SPECREV_10b), (Y_LEVEL, ''PRP1PRP2_r10b'', SPECREV_10b),
        (Y_LEVEL, ''UnsupportRsvdFields_r11b'', SPECREV_10b), (Y_LEVEL, ''InvalidNamspc_r10b'', SPECREV_10b)]
      else if rv \<in> {SPECREV_12, SPECREV_121, SPECREV_13} then
        Some [(X_LEVEL, ''CreateResources_r10b'', SPECREV_10b), (Y_LEVEL, ''PRP1_r10b'', SPECREV_10b), (Y_LEVEL, ''PRP1PRP2_r10b'', SPECREV_10b),
        (Y_LEVEL, ''UnsupportRsvdFields_r12'', SPECREV_12), (Y_LEVEL, ''InvalidNamspc_r10b'', SPECREV_10b)]
      else None)"

definition GrpAdminSetFeatCmd :: "'t group_ctor" where
  "GrpAdminSetFeatCmd new_test rv grpNum = new_group new_test grpNum ''GrpAdminSetFeatCmd'' ''Admin cmd set features test cases w/o get features'' (
      if rv \<in> {SPECREV_10b, SPECREV_11} then
        Some [(X_LEVEL, ''InvalidFieldInCmd_r10b'', SPECREV_10b)]
      else if rv \<in> {SPECREV_12, SPECREV_121, SPECREV_13} then
        Some [(X_LEVEL, ''InvalidFieldInCmd_r12'', SPECREV_12)]
      else None)"

definition GrpAdminGetFeatCmd :: "'t group_ctor" where
  "GrpAdminGetFeatCmd new_test rv grpNum = new_group new_test grpNum ''GrpAdminGetFeatCmd'' ''Admin cmd set features test cases w/o get features'' (
      if rv \<in> {SPECREV_10b} then
        Some [(X_LEVEL, ''CreateResources_r10b'', SPECREV_10b), (Y_LEVEL, ''InvalidFieldInCmd_r10b'', SPECREV_10b),
        (Y_LEVEL, ''UnsupportRsvdFields_r10b'', SPECREV_10b)]
      else if rv \<in> {SPECREV_11} then
        Some [(X_LEVEL, ''CreateResources_r10b'', SPECREV_10b), (Y_LEVEL, ''InvalidFieldInCmd_r11'', SPECREV_11),
        (Y_LEVEL, ''UnsupportRsvdFields_r11b'', SPECREV_10b)]
      else if rv \<in> {SPECREV_12, SPECREV_121, SPECREV_13} then
        Some [(X_LEVEL, ''CreateResources_r10b'', SPECREV_10b), (Y_LEVEL, ''InvalidFieldInCmd_r12'', SPECREV_11),
        (Y_LEVEL, ''UnsupportRsvdFields_r12'', SPECREV_12)]
      else None)"

definition GrpAdminSetGetFeatCombo :: "'t group_ctor" where
  "GrpAdminSetGetFeatCombo new_test rv grpNum = new_group new_test grpNum ''GrpAdminSetGetFeatCombo'' ''Admin cmd set/get features utilizing both cmds for efficiency.'' (
      if rv \<in> {SPECREV_10b} then
        Some [(X_LEVEL, ''FIDArbitration_r10b'', SPECREV_10b), (X_LEVEL, ''FIDPwrMgmt_r10b'', SPECREV_10b),
        (X_LEVEL, ''FIDTempThres_r10b'', SPECREV_10b), (X_LEVEL, ''FIDErrRecovery_r10b'', SPECREV_10b),
        (X_LEVEL, ''FIDVolatileCash_r10b'', SPECREV_10b), (X_LEVEL, ''FIDIRQCoalescing_r10b'', SPECREV_10b),
        (X_LEVEL, ''FIDIRQVec_r10b'', SPECREV_10b), (X_LEVEL, ''FIDWriteAtomicity_r10b'', SPECREV_10b),
        (X_LEVEL, ''FIDAsyncEventCfg_r10b'', SPECREV_10b)]
      else if rv \<in> {SPECREV_11} then
        Some [(X_LEVEL, ''FIDArbitration_r10b'', SPECREV_10b), (X_LEVEL, ''FIDPwrMgmt_r10b'', SPECREV_10b),
        (X_LEVEL, ''FIDTempThres_r10b'', SPECREV_10b), (X_LEVEL, ''FIDErrRecovery_r10b'', SPECREV_10b),
        (X_LEVEL, ''FIDVolatileCash_r10b'', SPECREV_10b), (X_LEVEL, ''FIDIRQCoalescing_r10b'', SPECREV_10b),
        (X_LEVEL, ''FIDIRQVec_r11'', SPECREV_11), (X_LEVEL, ''FIDWriteAtomicity_r10b'', SPECREV_10b),
        (X_LEVEL, ''FIDAsyncEventCfg_r10b'', SPECREV_10b)]
      else if rv \<in> {SPECREV_12, SPECREV_121, SPECREV_13} then
        Some [(X_LEVEL, ''FIDArbitration_r10b'', SPECREV_10b), (X_LEVEL, ''FIDPwrMgmt_r10b'', SPECREV_10b),
        (X_LEVEL, ''FIDTempThres_r10b'', SPECREV_10b), (X_LEVEL, ''FIDErrRecovery_r12'', SPECREV_12),
        (X_LEVEL, ''FIDVolatileCash_r10b'', SPECREV_10b), (X_LEVEL, ''FIDIRQCoalescing_r10b'', SPECREV_10b),
        (X_LEVEL, ''FIDIRQVec_r11'', SPECREV_11), (X_LEVEL, ''FIDWriteAtomicity_r10b'', SPECREV_10b),
        (X_LEVEL, ''FIDAsyncEventCfg_r10b'', SPECREV_10b)]
      else None)"

definition GrpAdminAsyncCmd :: "'t group_ctor" where
  "GrpAdminAsyncCmd new_test rv grpNum = new_group new_test grpNum ''GrpAdminAsyncCmd'' ''Admin cmd set async event request test cases.'' (
      if rv \<in> {SPECREV_10b} then
        Some [(X_LEVEL, ''UnsupportRsvdFields_r10b'', SPECREV_10b), (X_LEVEL, ''AbortByReset_r10b'', SPECREV_10b),
        (X_LEVEL, ''VerifyMaxEvents_r10b'', SPECREV_10b), (X_LEVEL, ''VerifyMasking_r10b'', SPECREV_10b),
        (X_LEVEL, ''VerifyEventQueueing_r10b'', SPECREV_10b)]
      else if rv \<in> {SPECREV_11} then
        Some [(X_LEVEL, ''UnsupportRsvdFields_r11b'', SPECREV_11), (X_LEVEL, ''AbortByReset_r10b'', SPECREV_10b),
        (X_LEVEL, ''VerifyMaxEvents_r10b'', SPECREV_10b), (X_LEVEL, ''VerifyMasking_r10b'', SPECREV_10b),
        (X_LEVEL, ''VerifyEventQueueing_r10b'', SPECREV_10b)]
      else if rv \<in> {SPECREV_12, SPECREV_121, SPECREV_13} then
        Some [(X_LEVEL, ''UnsupportRsvdFields_r12'', SPECREV_12), (X_LEVEL, ''AbortByReset_r10b'', SPECREV_10b),
        (X_LEVEL, ''VerifyMaxEvents_r10b'', SPECREV_10b), (X_LEVEL, ''VerifyMasking_r10b'', SPECREV_10b),
        (X_LEVEL, ''VerifyEventQueueing_r10b'', SPECREV_10b)]
      else None)"

definition GrpReservationsHostA :: "'t group_ctor" where
  "GrpReservationsHostA new_test rv grpNum = new_group new_test grpNum ''GrpReservationsHostA'' ''Reservation Commands HostA'' (
      if rv \<in> {SPECREV_10b} then
        Some []
      else if rv \<in> {SPECREV_11, SPECREV_12, SPECREV_121, SPECREV_13} then
        Some [(X_LEVEL, ''CreateResources_r11'', SPECREV_11), (Y_LEVEL, ''RegisterReservation'', SPECREV_11),
        (Y_LEVEL, ''ReplaceReservation'', SPECREV_11), (Y_LEVEL, ''AcquireReservation'', SPECREV_11),
        (Y_LEVEL, ''ReleaseReservation'', SPECREV_11)]
      else None)"

definition GrpReservationsHostB :: "'t group_ctor" where
  "GrpReservationsHostB new_test rv grpNum = new_group new_test grpNum ''GrpReservationsHostB'' ''Reservation Commands For Second Host (dual port)'' (
      if rv \<in> {SPECREV_10b} then
        Some []
      else if rv \<in> {SPECREV_11, SPECREV_12, SPECREV_121, SPECREV_13} then
        Some [(X_LEVEL, ''CreateResources_r11'', SPECREV_11), (Y_LEVEL, ''RegisterReservation'', SPECREV_11),
        (Y_LEVEL, ''ReadWriteToUnacquiredReservation'', SPECREV_11)]
      else None)"

definition GrpAdminNamespaceManagement :: "'t group_ctor" where
  "GrpAdminNamespaceManagement new_test rv grpNum = new_group new_test grpNum ''GrpAdminNamespaceManagement'' ''Namespace Management'' (
      if rv \<in> {SPECREV_10b, SPECREV_11} then
        Some []
      else if rv \<in> {SPECREV_12, SPECREV_121, SPECREV_13} then
        Some [(X_LEVEL, ''CreateResources_r12'', SPECREV_12), (Y_LEVEL, ''DeleteAllNamespacesAndVerify'', SPECREV_12),
        (Z_LEVEL, ''CreateAndAttachMaxNamespacesAndVerify'', SPECREV_12)]
      else None)"

section \<open>All groups\<close>

fun push_groups :: "'t test_maker \<Rightarrow> SpecRev \<Rightarrow> 't group_ctor list \<Rightarrow> ('t group list, unit) prog" where
  "push_groups new_test rv [] = ret ()"
| "push_groups new_test rv (ctor # ctors) =
     (\<lambda>groups. case ctor new_test rv (length groups) of
        Inl e \<Rightarrow> (Inl e, groups)
      | Inr g \<Rightarrow> push_groups new_test rv ctors (groups @ [g]))"

definition group_ctors :: "'t group_ctor list" where
  "group_ctors =
     [GrpPciRegisters, GrpCtrlRegisters, GrpBasicInit, GrpResets, GrpGeneralCmds, GrpQueues, GrpNVMReadCmd, GrpNVMWriteCmd,
      GrpNVMWriteReadCombo, GrpNVMFlushCmd, GrpInterrupts, GrpNVMWriteUncorrectCmd, GrpNVMDatasetMgmtCmd, GrpNVMCompareCmd,
      GrpAdminDeleteIOCQCmd, GrpAdminDeleteIOSQCmd, GrpAdminCreateIOCQCmd, GrpAdminCreateIOSQCmd, GrpAdminCreateIOQCmd,
      GrpAdminGetLogPgCmd, GrpAdminIdentifyCmd, GrpAdminSetFeatCmd, GrpAdminGetFeatCmd, GrpAdminSetGetFeatCombo,
      GrpAdminAsyncCmd, GrpReservationsHostA, GrpReservationsHostB, GrpAdminNamespaceManagement]"

definition InstantiateGroups :: "'t test_maker \<Rightarrow> SpecRev \<Rightarrow> ('t group list, unit) prog" where
  "InstantiateGroups new_test rv = push_groups new_test rv group_ctors"

section \<open>Laying out the matrix\<close>

text \<open>No level is empty.\<close>

definition filled :: "'t list list list \<Rightarrow> bool" where
  "filled m \<longleftrightarrow> (\<forall>ys \<in> set m. ys \<noteq> [] \<and> [] \<notin> set ys)"

definition in_order :: "'t list list list \<Rightarrow> 't list" where
  "in_order m = concat (concat m)"

text \<open>The tests of the table, as objects.\<close>

definition made :: "'t test_maker \<Rightarrow> string \<Rightarrow> test_entry list \<Rightarrow> 't list" where
  "made new_test grpName es = map (\<lambda>(l, testName, rv). new_test grpName testName rv) es"

lemma concat_butlast: "m \<noteq> [] \<Longrightarrow> concat (butlast m) @ last m = concat m"
  by (metis append_butlast_last_id concat.simps concat_append append_Nil2)

lemma append_test_run:
  assumes "filled m" and "m \<noteq> [] \<or> l = X_LEVEL"
  shows "\<exists>m'. append_test l t m = (Inr (), m') \<and> filled m' \<and> m' \<noteq> [] \<and> in_order m' = in_order m @ [t]"
proof -
  have butlast: "ys \<in> set (butlast m) \<Longrightarrow> ys \<noteq> [] \<and> [] \<notin> set ys" for ys
    using assms(1) in_set_butlastD by (fastforce simp: filled_def)
  have last: "last m \<noteq> []" "[] \<notin> set (last m)" if "m \<noteq> []"
    using assms(1) last_in_set [OF that] by (auto simp: filled_def)
  have split: "concat (concat (butlast m)) @ concat (last m) = concat (concat m)" if "m \<noteq> []"
    using concat_butlast [OF that] by (metis concat_append)
  show ?thesis
  proof (cases l)
    case X_LEVEL
    then show ?thesis
      using assms(1) by (auto simp: append_test_def APPEND_TEST_AT_XLEVEL_def filled_def in_order_def)
  next
    case Y_LEVEL
    then have m: "m \<noteq> []" using assms(2) by simp
    then show ?thesis
      using Y_LEVEL butlast last [OF m] split [OF m] by (auto simp: append_test_def APPEND_TEST_AT_YLEVEL_def filled_def in_order_def)
  next
    case Z_LEVEL
    then have m: "m \<noteq> []" using assms(2) by simp
    have "[] \<notin> set (butlast (last m))" using last(2) [OF m] in_set_butlastD by fastforce
    moreover have "concat (butlast (last m)) @ last (last m) = concat (last m)" using concat_butlast last(1) [OF m] by blast
    ultimately show ?thesis
      using Z_LEVEL m butlast last [OF m] split [OF m]
      by (auto simp: append_test_def APPEND_TEST_AT_ZLEVEL_def filled_def in_order_def)
  qed
qed

lemma append_tests_run:
  assumes "filled m" and "m \<noteq> [] \<or> es = [] \<or> fst (hd es) = X_LEVEL"
  shows "\<exists>m'. append_tests new_test g es m = (Inr (), m') \<and> filled m' \<and> in_order m' = in_order m @ made new_test g es"
  using assms
proof (induction es arbitrary: m)
  case Nil
  then show ?case by (simp add: made_def)
next
  case (Cons e es)
  obtain l n rv where e: "e = (l, n, rv)" by (cases e)
  obtain m1 where m1: "append_test l (new_test g n rv) m = (Inr (), m1)" "filled m1" "m1 \<noteq> []"
      "in_order m1 = in_order m @ [new_test g n rv]"
    using append_test_run [OF Cons.prems(1), of l "new_test g n rv"] Cons.prems(2) e by auto
  from Cons.IH [OF m1(2)] m1(3) obtain m2 where "append_tests new_test g es m1 = (Inr (), m2)" "filled m2"
      "in_order m2 = in_order m1 @ made new_test g es"
    by blast
  then show ?case using m1 by (simp add: e sq_apply made_def)
qed

section \<open>The tables\<close>

fun rev_rank :: "SpecRev \<Rightarrow> nat" where
  "rev_rank SPECREV_10b = 0"
| "rev_rank SPECREV_11 = 1"
| "rev_rank SPECREV_12 = 2"
| "rev_rank SPECREV_121 = 3"
| "rev_rank SPECREV_13 = 4"
| "rev_rank SPECREVTYPE_FENCE = 5"

text \<open>A test that creates the queues that the tests on the levels below it use.\<close>

definition creator :: "string \<Rightarrow> bool" where
  "creator n \<longleftrightarrow> n \<in> {''CreateResources_r10b'', ''CreateResources_r11'', ''CreateResources_r12'', ''CreateACQASQ_r10b''}"

lemma creators [simp]:
  "creator ''CreateResources_r10b''" "creator ''CreateResources_r11''" "creator ''CreateResources_r12''" "creator ''CreateACQASQ_r10b''"
  by (simp_all add: creator_def)

definition prepared :: "test_obj list list list \<Rightarrow> bool" where
  "prepared m \<longleftrightarrow> (\<forall>ys \<in> set m. length ys > 1 \<or> length (hd ys) > 1 \<longrightarrow> creator (mTestName (hd (hd ys))))"

text \<open>The same of a table: \<open>h\<close> is the last test that was appended at level x.\<close>

fun plan_ok :: "SpecRev \<Rightarrow> string \<Rightarrow> test_entry list \<Rightarrow> bool" where
  "plan_ok rv h [] = True"
| "plan_ok rv h ((l, n, r) # es) =
     (rev_rank r \<le> rev_rank rv \<and> (if l = X_LEVEL then plan_ok rv n es else creator h \<and> plan_ok rv h es))"

lemma append_test_prepared:
  assumes run: "append_test l (Test_Test g n r) m = (Inr (), m')" and m: "filled m" "prepared m"
    and h: "l \<noteq> X_LEVEL \<longrightarrow> creator (mTestName (hd (hd (last m))))"
  shows "prepared m' \<and> mTestName (hd (hd (last m'))) = (if l = X_LEVEL then n else mTestName (hd (hd (last m))))"
proof (cases l)
  case X_LEVEL
  then show ?thesis using run m by (auto simp: append_test_def APPEND_TEST_AT_XLEVEL_def prepared_def Test_Test_def)
next
  case Y_LEVEL
  then have "m \<noteq> []" and m': "m' = butlast m @ [last m @ [[Test_Test g n r]]]"
    using run by (auto simp: append_test_def APPEND_TEST_AT_YLEVEL_def split: if_splits)
  then have "last m \<noteq> []" using m(1) by (simp add: filled_def)
  then show ?thesis using Y_LEVEL m h by (auto simp: prepared_def m' dest: in_set_butlastD)
next
  case Z_LEVEL
  then have l: "m \<noteq> []" "last m \<noteq> []" and m': "m' = butlast m @ [butlast (last m) @ [last (last m) @ [Test_Test g n r]]]"
    using run by (auto simp: append_test_def APPEND_TEST_AT_ZLEVEL_def split: if_splits)
  then have "[] \<notin> set (last m)" using m(1) by (simp add: filled_def)
  then have "hd (hd (butlast (last m) @ [last (last m) @ [Test_Test g n r]])) = hd (hd (last m))"
    using l by (cases "last m" rule: rev_cases; cases "butlast (last m)") (auto simp: hd_append)
  then show ?thesis using Z_LEVEL m h by (auto simp: prepared_def m' dest: in_set_butlastD)
qed

lemma append_tests_prepared:
  assumes "append_tests Test_Test g es m = (Inr (), m')" and "filled m" "prepared m"
    and "plan_ok rv h es" and "m \<noteq> [] \<longrightarrow> h = mTestName (hd (hd (last m)))" and "m \<noteq> [] \<or> es = [] \<or> fst (hd es) = X_LEVEL"
  shows "prepared m'"
  using assms
proof (induction es arbitrary: m h)
  case Nil
  then show ?case by simp
next
  case (Cons e es)
  obtain l n r where e: "e = (l, n, r)" by (cases e)
  obtain m1 where m1: "append_test l (Test_Test g n r) m = (Inr (), m1)" "filled m1" "m1 \<noteq> []"
    using append_test_run [OF Cons.prems(2), of l "Test_Test g n r"] Cons.prems(6) e by auto
  have p: "prepared m1 \<and> mTestName (hd (hd (last m1))) = (if l = X_LEVEL then n else mTestName (hd (hd (last m))))"
    by (rule append_test_prepared [OF m1(1) Cons.prems(2,3)]) (use Cons.prems(4-6) e in \<open>auto split: if_splits\<close>)
  have run: "append_tests Test_Test g es m1 = (Inr (), m')" using Cons.prems(1) m1(1) by (simp add: e sq_apply)
  have plan: "plan_ok rv (if l = X_LEVEL then n else h) es" using Cons.prems(4) by (auto simp: e split: if_splits)
  show ?case
    by (rule Cons.IH [OF run m1(2) _ plan]) (use p m1(3) Cons.prems(5,6) e in \<open>auto split: if_splits\<close>)
qed

lemma plan_ok_revs: "plan_ok rv h es \<Longrightarrow> (l, n, r) \<in> set es \<Longrightarrow> rev_rank r \<le> rev_rank rv"
  by (induction rv h es rule: plan_ok.induct) (auto split: if_splits)

text \<open>What a constructor gives.\<close>

definition sound_group :: "SpecRev \<Rightarrow> string \<Rightarrow> nat \<Rightarrow> test_obj group \<Rightarrow> bool" where
  "sound_group rv name n g \<longleftrightarrow> mGrpNum g = n \<and> mGrpName g = name \<and> filled (mTests g) \<and> prepared (mTests g) \<and>
     (\<forall>t \<in> set (in_order (mTests g)). t_grpName t = name \<and> rev_rank (mSpecRev t) \<le> rev_rank rv)"

definition ctor_ok :: "SpecRev \<Rightarrow> test_obj group_ctor \<Rightarrow> string \<Rightarrow> bool" where
  "ctor_ok rv c name \<longleftrightarrow> (\<exists>desc es. (\<forall>n. c Test_Test rv n = new_group Test_Test n name desc (Some es)) \<and>
     (es = [] \<or> fst (hd es) = X_LEVEL) \<and> plan_ok rv [] es)"

lemma ctor_ok_sound:
  assumes "ctor_ok rv c name" shows "\<exists>g. c Test_Test rv n = Inr g \<and> sound_group rv name n g"
proof -
  obtain desc es where c: "c Test_Test rv n = new_group Test_Test n name desc (Some es)"
    and es: "es = [] \<or> fst (hd es) = X_LEVEL" and plan: "plan_ok rv [] es"
    using assms by (auto simp: ctor_ok_def)
  have "filled ([] :: test_obj list list list)" "prepared []" by (simp_all add: filled_def prepared_def)
  from append_tests_run [OF this(1), of es Test_Test name] es
  obtain m where m: "append_tests Test_Test name es [] = (Inr (), m)" "filled m" "in_order m = made Test_Test name es"
    by (auto simp: in_order_def)
  have "prepared m"
    by (rule append_tests_prepared [OF m(1) \<open>filled []\<close> \<open>prepared []\<close> plan]) (use es in auto)
  moreover have "t_grpName t = name \<and> rev_rank (mSpecRev t) \<le> rev_rank rv" if "t \<in> set (in_order m)" for t
    using that m(3) plan_ok_revs [OF plan] by (fastforce simp: made_def Test_Test_def)
  moreover have "c Test_Test rv n = Inr ((Group_Group n name desc)\<lparr>mTests := m\<rparr>)"
    using c m(1) by (simp add: new_group_def)
  ultimately show ?thesis using m(2) by (simp add: sound_group_def Group_Group_def)
qed

definition group_names :: "string list" where
  "group_names =
     [''GrpPciRegisters'', ''GrpCtrlRegisters'', ''GrpBasicInit'', ''GrpResets'', ''GrpGeneralCmds'', ''GrpQueues'',
      ''GrpNVMReadCmd'', ''GrpNVMWriteCmd'', ''GrpNVMWriteReadCombo'', ''GrpNVMFlushCmd'', ''GrpInterrupts'',
      ''GrpNVMWriteUncorrectCmd'', ''GrpNVMDatasetMgmtCmd'', ''GrpNVMCompareCmd'', ''GrpAdminDeleteIOCQCmd'',
      ''GrpAdminDeleteIOSQCmd'', ''GrpAdminCreateIOCQCmd'', ''GrpAdminCreateIOSQCmd'', ''GrpAdminCreateIOQCmd'',
      ''GrpAdminGetLogPgCmd'', ''GrpAdminIdentifyCmd'', ''GrpAdminSetFeatCmd'', ''GrpAdminGetFeatCmd'',
      ''GrpAdminSetGetFeatCombo'', ''GrpAdminAsyncCmd'', ''GrpReservationsHostA'', ''GrpReservationsHostB'',
      ''GrpAdminNamespaceManagement'']"

lemmas ctor_defs = GrpPciRegisters_def GrpCtrlRegisters_def GrpBasicInit_def GrpResets_def GrpGeneralCmds_def GrpQueues_def
  GrpNVMReadCmd_def GrpNVMWriteCmd_def GrpNVMWriteReadCombo_def GrpNVMFlushCmd_def GrpInterrupts_def
  GrpNVMWriteUncorrectCmd_def GrpNVMDatasetMgmtCmd_def GrpNVMCompareCmd_def GrpAdminDeleteIOCQCmd_def
  GrpAdminDeleteIOSQCmd_def GrpAdminCreateIOCQCmd_def GrpAdminCreateIOSQCmd_def GrpAdminCreateIOQCmd_def
  GrpAdminGetLogPgCmd_def GrpAdminIdentifyCmd_def GrpAdminSetFeatCmd_def GrpAdminGetFeatCmd_def
  GrpAdminSetGetFeatCombo_def GrpAdminAsyncCmd_def GrpReservationsHostA_def GrpReservationsHostB_def
  GrpAdminNamespaceManagement_def

lemma ctor_okI:
  assumes "\<And>n. c Test_Test rv n = new_group Test_Test n name desc (Some es)" and "es = [] \<or> fst (hd es) = X_LEVEL" and "plan_ok rv [] es"
  shows "ctor_ok rv c name"
  using assms by (auto simp: ctor_ok_def)

lemmas ctor_eval = ctor_defs insert_iff empty_iff SpecRev.distinct simp_thms if_True if_False

lemmas plan_eval = plan_ok.simps creators rev_rank.simps level.simps list.simps list.sel prod.sel simp_thms if_True if_False le_refl zero_le
    eq_refl one_le_numeral numeral_le_iff semiring_norm

text \<open>One revision at a time.\<close>

lemma ctors_ok_10b: "list_all2 (ctor_ok SPECREV_10b) group_ctors group_names"
  unfolding group_ctors_def group_names_def
  apply (simp only: list.rel_inject list_all2_Cons list_all2_Nil simp_thms)
  apply (intro conjI; rule ctor_okI; ((simp only: ctor_eval)?, (rule refl)?))
  apply (simp_all only: plan_eval)
  done

lemma ctors_ok_11: "list_all2 (ctor_ok SPECREV_11) group_ctors group_names"
  unfolding group_ctors_def group_names_def
  apply (simp only: list.rel_inject list_all2_Cons list_all2_Nil simp_thms)
  apply (intro conjI; rule ctor_okI; ((simp only: ctor_eval)?, (rule refl)?))
  apply (simp_all only: plan_eval)
  done

lemma ctors_ok_12: "list_all2 (ctor_ok SPECREV_12) group_ctors group_names"
  unfolding group_ctors_def group_names_def
  apply (simp only: list.rel_inject list_all2_Cons list_all2_Nil simp_thms)
  apply (intro conjI; rule ctor_okI; ((simp only: ctor_eval)?, (rule refl)?))
  apply (simp_all only: plan_eval)
  done

lemma ctors_ok_121: "list_all2 (ctor_ok SPECREV_121) group_ctors group_names"
  unfolding group_ctors_def group_names_def
  apply (simp only: list.rel_inject list_all2_Cons list_all2_Nil simp_thms)
  apply (intro conjI; rule ctor_okI; ((simp only: ctor_eval)?, (rule refl)?))
  apply (simp_all only: plan_eval)
  done

lemma ctors_ok_13: "list_all2 (ctor_ok SPECREV_13) group_ctors group_names"
  unfolding group_ctors_def group_names_def
  apply (simp only: list.rel_inject list_all2_Cons list_all2_Nil simp_thms)
  apply (intro conjI; rule ctor_okI; ((simp only: ctor_eval)?, (rule refl)?))
  apply (simp_all only: plan_eval)
  done

lemma ctors_ok: "rv \<noteq> SPECREVTYPE_FENCE \<Longrightarrow> list_all2 (ctor_ok rv) group_ctors group_names"
  by (cases rv) (simp_all only: ctors_ok_10b ctors_ok_11 ctors_ok_12 ctors_ok_121 ctors_ok_13 simp_thms)

lemma push_groups_sound:
  assumes "list_all2 (ctor_ok rv) cs names"
  shows "\<exists>gs. push_groups Test_Test rv cs groups = (Inr (), groups @ gs) \<and> length gs = length names \<and>
    (\<forall>i<length names. sound_group rv (names ! i) (length groups + i) (gs ! i))"
  using assms
proof (induction cs names arbitrary: groups rule: list_all2_induct)
  case Nil
  then show ?case by simp
next
  case (Cons c cs name names)
  obtain g where g: "c Test_Test rv (length groups) = Inr g" "sound_group rv name (length groups) g"
    using ctor_ok_sound [OF Cons.hyps(1)] by blast
  obtain gs where gs: "push_groups Test_Test rv cs (groups @ [g]) = (Inr (), (groups @ [g]) @ gs)" "length gs = length names"
      "\<forall>i<length names. sound_group rv (names ! i) (length (groups @ [g]) + i) (gs ! i)"
    using Cons.IH [of "groups @ [g]"] by blast
  have "sound_group rv ((name # names) ! i) (length groups + i) ((g # gs) ! i)" if "i < length (name # names)" for i
    using that g(2) gs(3) by (cases i) auto
  then show ?case using g(1) gs(1,2) by (intro exI [of _ "g # gs"]) simp
qed

lemma InstantiateGroups_runs:
  "rv \<noteq> SPECREVTYPE_FENCE \<Longrightarrow> \<exists>gs. InstantiateGroups Test_Test rv groups = (Inr (), groups @ gs)"
  using push_groups_sound [OF ctors_ok] by (fastforce simp: InstantiateGroups_def)

section \<open>Properties\<close>

text \<open>C30: For every supported revision of the specification the 28 groups are created without an exception; a group has the number of its
  place, no level of its matrix is empty, its tests belong to it, none is of a later revision than the one that is
  tested, and wherever there are tests on the lower levels, the test they depend on is one that creates the queues.\<close>

theorem InstantiateGroups_layout:
  assumes "rv \<noteq> SPECREVTYPE_FENCE"
  shows "\<exists>gs. InstantiateGroups Test_Test rv [] = (Inr (), gs) \<and> length gs = 28 \<and> distinct (map mGrpName gs) \<and>
    (\<forall>i<28. mGrpNum (gs ! i) = i) \<and>
    (\<forall>g \<in> set gs. (\<forall>ys \<in> set (mTests g). ys \<noteq> [] \<and> [] \<notin> set ys \<and>
        (length ys > 1 \<or> length (hd ys) > 1 \<longrightarrow> creator (mTestName (hd (hd ys))))) \<and>
      (\<forall>t \<in> set (concat (concat (mTests g))). t_grpName t = mGrpName g \<and> rev_rank (mSpecRev t) \<le> rev_rank rv))"
proof -
  have names: "length group_names = 28" "distinct group_names" by (simp_all add: group_names_def)
  obtain gs where gs: "push_groups Test_Test rv group_ctors [] = (Inr (), gs)" "length gs = 28"
      and s: "\<forall>i<28. sound_group rv (group_names ! i) i (gs ! i)"
    using push_groups_sound [OF ctors_ok [OF assms], of "[]"] names(1) by auto
  have "map mGrpName gs = group_names"
    using s gs(2) names(1) by (intro nth_equalityI) (auto simp: sound_group_def)
  moreover have "\<forall>g \<in> set gs. \<exists>i name. sound_group rv name i g" using s gs(2) by (metis in_set_conv_nth)
  ultimately show ?thesis
    using gs s names(2) unfolding InstantiateGroups_def
    by (intro exI [of _ gs]) (auto simp: sound_group_def filled_def prepared_def in_order_def)
qed

theorem InstantiateGroups_layout_witness:
  "\<exists>gs. InstantiateGroups Test_Test SPECREV_12 [] = (Inr (), gs) \<and> length gs = 28 \<and> mGrpNum (gs ! 5) = 5"
  using InstantiateGroups_layout [of SPECREV_12] by auto

end
