(* ===== verification/Main_Program.thy ===== *)
theory Main_Program
  imports Cmd_Line Informative_Runs Pci_Discovery Group_Tables
begin

text \<open>
  The program itself (tnvme.cpp): opening the device, creating and destroying the singletons, and \<open>main\<close> after
  the command line has been read: the mode that is run, the exception handler and the exit code. The
  operating system, the driver, the device and the tests are parameters.
\<close>

section \<open>State\<close>

text \<open>
  What the program is given: the C library and the driver; \<open>open\<close> (a descriptor or -1), the lock, \<open>close\<close> and the
  request for the version of the driver; the objects the constructors of the tests make, and the code of the tests;
  what the device stores in the buffers of Identify commands.
\<close>

record ('d, 'm, 't) main_env =
  me_libc :: libc
  me_drv :: "'d dnvme"
  me_fuel :: nat
  me_masks :: send_masks
  me_os :: "'d os"
  me_open :: "string \<Rightarrow> 'd \<Rightarrow> int \<times> 'd"
  me_lock :: "int \<Rightarrow> 'd \<Rightarrow> 'd"
  me_close :: "int \<Rightarrow> 'd \<Rightarrow> 'd"
  me_version :: "'d \<Rightarrow> int \<times> u32 \<times> 'd"
  me_api :: u32
  me_new_test :: "'t test_maker"
  me_class :: "('t, ('d, 'm) world_scheme) test_class"
  me_groupClass :: "nat \<Rightarrow> ('d, 'm) world_scheme group_class"
  me_identify :: "nat \<Rightarrow> u8 list"
  me_arrive :: "nat \<Rightarrow> ('d, 'm) world_scheme \<Rightarrow> ('d, 'm) world_scheme"

text \<open>\<open>gDutFd\<close>, the groups, which singletons exist (\<open>mInstanceFlag\<close>), and the state of the singletons.\<close>

record ('w, 't) main_state =
  mn_world :: 'w
  mn_fd :: int
  mn_groups :: "'t group list"
  mn_regs :: bool
  mn_config :: bool
  mn_rsrc :: bool
  mn_cap :: "ctrlr_cap option"
  mn_info :: bool

definition onw :: "('w, 'a) prog \<Rightarrow> (('w, 't) main_state, 'a) prog" where
  "onw m = zoom mn_world (\<lambda>w s. s\<lparr>mn_world := w\<rparr>) m"

text \<open>A member function of a singleton that does not exist is called on a null pointer.\<close>

definition needs :: "(('w, 't) main_state \<Rightarrow> bool) \<Rightarrow> (('w, 't) main_state, unit) prog" where
  "needs p = bnd (gets p) (\<lambda>b. throw_if (\<not> b) (UB ''call on a null pointer''))"

definition device_env_of :: "('d, 'm, 't) main_env \<Rightarrow> file_system \<Rightarrow> int \<Rightarrow> 'd device_env" where
  "device_env_of N fs fd = \<lparr>su_libc = me_libc N, su_drv = me_drv N, su_fuel = me_fuel N, su_masks = me_masks N, su_fs = fs, su_fd = fd\<rparr>"

text \<open>A program of the singletons, with the current dump directory and descriptor.\<close>

definition onE ::
  "('d, 'm prog_world_ext, 't) main_env \<Rightarrow> ('d device_env \<Rightarrow> (('d, 'm) prog_world_scheme, 'a) prog)
     \<Rightarrow> ((('d, 'm) prog_world_scheme, 't) main_state, 'a) prog" where
  "onE N k = bnd (gets (\<lambda>s. device_env_of N (fsys (mn_world s)) (mn_fd s))) (\<lambda>E. onw (k E))"

section \<open>The singletons\<close>

definition bad_fd :: "(('w, 't) main_state, unit) prog" where
  "bad_fd = bnd (gets mn_fd) (\<lambda>fd. throw_if (fd < 0) (FrmwkEx ''Object created with a bad FD=%d''))"

definition discover :: "'d dnvme \<Rightarrow> nat \<Rightarrow> (('d, 'm) registers_scheme, unit) prog" where
  "discover drv fuel = (\<lambda>s. case Registers_DiscoverPciCapabilities drv fuel s of
     None \<Rightarrow> (Inl Diverges, s) | Some s' \<Rightarrow> (Inr (), s'))"

definition Registers_GetInstance ::
  "('d, 'm prog_world_ext, 't) main_env \<Rightarrow> SpecRev \<Rightarrow> ((('d, 'm) prog_world_scheme, 't) main_state, unit) prog" where
  "Registers_GetInstance N rv =
     bnd (gets mn_regs) (\<lambda>exists. if exists then ret () else
       sq bad_fd
      (sq (onw (modify (\<lambda>w. w\<lparr>rg_specRev := rv\<rparr>)))
      (sq (onw (discover (me_drv N) (me_fuel N)))
          (modify (\<lambda>s. s\<lparr>mn_regs := True\<rparr>)))))"

text \<open>The value of the capabilities register is kept, but never used.\<close>

definition CtrlrConfig_GetInstance ::
  "('d, 'm prog_world_ext, 't) main_env \<Rightarrow> ((('d, 'm) prog_world_scheme, 't) main_state, unit) prog" where
  "CtrlrConfig_GetInstance N =
     bnd (gets mn_config) (\<lambda>exists. if exists then ret () else
       sq (onw (modify (\<lambda>w. w\<lparr>cf_curState := ST_DISABLE_COMPLETELY, cf_firstTime := True, cf_deltaCheck := False\<rparr>)))
      (sq bad_fd
      (sq (needs mn_regs)
      (bnd (onw (Registers_Read_ctl (me_drv N) CTLSPC_CAP (undef64 (me_libc N)))) (\<lambda>_.
           modify (\<lambda>s. s\<lparr>mn_config := True\<rparr>))))))"

definition RsrcMngr_GetInstance :: "((('d, 'm) prog_world_scheme, 't) main_state, unit) prog" where
  "RsrcMngr_GetInstance =
     bnd (gets mn_rsrc) (\<lambda>exists. if exists then ret () else
       sq bad_fd
      (sq (onw (modify (\<lambda>w. w\<lparr>mObjGrpLife := [], mr_allocSize := 0, mr_reserved := [], mr_released := []\<rparr>)))
          (modify (\<lambda>s. s\<lparr>mn_rsrc := True\<rparr>))))"

definition CtrlrCap_GetInstance ::
  "('d, 'm prog_world_ext, 't) main_env \<Rightarrow> SpecRev \<Rightarrow> ((('d, 'm) prog_world_scheme, 't) main_state, unit) prog" where
  "CtrlrCap_GetInstance N rv =
     bnd (gets mn_cap) (\<lambda>exists. if exists \<noteq> None then ret () else
       sq (needs mn_regs)
      (bnd (onw (CtrlrCap_CtrlrCap (me_libc N) (me_drv N) rv)) (\<lambda>c. modify (\<lambda>s. s\<lparr>mn_cap := Some c\<rparr>))))"

text \<open>The result: whether the pointer is not null. A failed \<open>Init\<close> deletes the object again.\<close>

definition Informative_GetInstance ::
  "('d, 'm prog_world_ext, 't) main_env \<Rightarrow> ((('d, 'm) prog_world_scheme, 't) main_state, bool) prog" where
  "Informative_GetInstance N =
     bnd (gets mn_info) (\<lambda>exists. if exists then ret True else
       sq bad_fd
      (sq (onw Informative_Clear)
      (sq (modify (\<lambda>s. s\<lparr>mn_info := True\<rparr>))
      (bnd (onE N (\<lambda>E. Informative_Init E (me_os N) (me_identify N))) (\<lambda>ok.
         if ok then ret True
         else sq (onw Informative_Clear) (sq (modify (\<lambda>s. s\<lparr>mn_info := False\<rparr>)) (ret False)))))))"

definition BuildSingletons ::
  "('d, 'm prog_world_ext, 't) main_env \<Rightarrow> SpecRev \<Rightarrow> ((('d, 'm) prog_world_scheme, 't) main_state, bool) prog" where
  "BuildSingletons N rv =
     sq (Registers_GetInstance N rv)
    (sq (CtrlrConfig_GetInstance N)
    (sq RsrcMngr_GetInstance
    (sq (CtrlrCap_GetInstance N rv)
        (Informative_GetInstance N))))"

text \<open>The descriptor is closed by then, so the request that frees a meta data buffer fails, which is ignored.\<close>

definition closed :: "'d dnvme \<Rightarrow> 'd dnvme" where
  "closed drv = drv\<lparr>io_metabuf_delete := (\<lambda>i d. (- 1, d))\<rparr>"

definition RsrcMngr_KillInstance ::
  "('d, 'm prog_world_ext, 't) main_env \<Rightarrow> ((('d, 'm) prog_world_scheme, 't) main_state, unit) prog" where
  "RsrcMngr_KillInstance N =
     bnd (gets mn_rsrc) (\<lambda>exists. if \<not> exists then ret () else
       sq (modify (\<lambda>s. s\<lparr>mn_rsrc := False\<rparr>))
      (sq (onw (MetaRsrc_FreeAllMetaBuf (closed (me_drv N))))
          (onw (modify (\<lambda>w. w\<lparr>mObjGrpLife := []\<rparr>)))))"

definition Informative_KillInstance :: "((('d, 'm) prog_world_scheme, 't) main_state, unit) prog" where
  "Informative_KillInstance =
     bnd (gets mn_info) (\<lambda>exists. if \<not> exists then ret () else
       sq (modify (\<lambda>s. s\<lparr>mn_info := False\<rparr>)) (onw Informative_Clear))"

definition DestroySingletons ::
  "('d, 'm prog_world_ext, 't) main_env \<Rightarrow> ((('d, 'm) prog_world_scheme, 't) main_state, unit) prog" where
  "DestroySingletons N =
     sq Informative_KillInstance
    (sq (modify (\<lambda>s. s\<lparr>mn_cap := None\<rparr>))
    (sq (RsrcMngr_KillInstance N)
    (sq (modify (\<lambda>s. s\<lparr>mn_config := False\<rparr>))
        (modify (\<lambda>s. s\<lparr>mn_regs := False\<rparr>)))))"

section \<open>The device\<close>

text \<open>The result of \<open>close\<close> is only logged.\<close>

definition DestroyTestFoundation ::
  "('d, 'm prog_world_ext, 't) main_env \<Rightarrow> ((('d, 'm) prog_world_scheme, 't) main_state, unit) prog" where
  "DestroyTestFoundation N =
     sq (modify (\<lambda>s. s\<lparr>mn_groups := DestroyTestFoundation_groups (mn_groups s)\<rparr>))
    (bnd (gets mn_fd) (\<lambda>fd.
     if fd = - 1 then ret ()
     else sq (onw (modify (\<lambda>w. w\<lparr>kern := me_close N fd (kern w)\<rparr>))) (modify (\<lambda>s. s\<lparr>mn_fd := - 1\<rparr>))))"

definition BuildTestFoundation ::
  "('d, 'm prog_world_ext, 't) main_env \<Rightarrow> SpecRev \<Rightarrow> string \<Rightarrow> ((('d, 'm) prog_world_scheme, 't) main_state, bool) prog" where
  "BuildTestFoundation N rv device =
     sq (DestroyTestFoundation N)
    (if device = NO_DEVICES then ret False
     else bnd (onw (ioctl1 (me_open N device))) (\<lambda>fd.
          sq (modify (\<lambda>s. s\<lparr>mn_fd := fd\<rparr>))
         (if fd = - 1 then ret False
          else sq (onw (modify (\<lambda>w. w\<lparr>kern := me_lock N fd (kern w)\<rparr>)))
              (bnd (onw (ioctl2 (me_version N))) (\<lambda>(rc, api_version).
               if rc < 0 then ret False
               else if api_version \<noteq> me_api N then ret False
               else sq (zoom mn_groups (\<lambda>gs s. s\<lparr>mn_groups := gs\<rparr>) (InstantiateGroups (me_new_test N) rv)) (ret True))))))"


section \<open>The modes\<close>

text \<open>How the part of \<open>main\<close> that may throw ends: by a call of \<open>exit\<close>, or by reaching the cleanup with this exit code.\<close>

datatype ended = Exits int | Falls int

definition exit_code :: "bool \<Rightarrow> ended" where
  "exit_code ok = Falls (if ok then 0 else 1)"

text \<open>What accesses the hardware before the mode is run.\<close>

definition check_hardware ::
  "('d, 'm prog_world_ext, 't) main_env \<Rightarrow> CmdLine \<Rightarrow> ((('d, 'm) prog_world_scheme, 't) main_state, ended option) prog" where
  "check_hardware N cl =
     bnd (gets (\<lambda>s. fsys (mn_world s))) (\<lambda>fs.
     bnd (onw (FileSystem_SetRootDumpDir (me_os N) (cl_dump cl) fs)) (\<lambda>(ok, fs').
     sq (onw (modify (\<lambda>w. w\<lparr>fsys := fs'\<rparr>)))
    (if \<not> ok then ret (Some (Exits 1))
     else bnd (BuildSingletons N (cl_rev cl)) (\<lambda>ok.
          if \<not> ok then ret (Some (Exits 1))
          else bnd (onw (Registers_Read_pci (me_drv N) PCISPC_PMCS 0)) (\<lambda>(ok, regVal).
               if \<not> ok then ret (Some (Exits 1)) else ret None)))))"

text \<open>A session of a single command: it starts with \<open>SetBaseDumpDir(false)\<close>.\<close>

definition single_command ::
  "('d, 'm prog_world_ext, 't) main_env \<Rightarrow> ('d device_env \<Rightarrow> (('d, 'm) prog_world_scheme, bool) prog)
     \<Rightarrow> ((('d, 'm) prog_world_scheme, 't) main_state, ended) prog" where
  "single_command N m =
     sq (onw (SetBaseDumpDir False)) (sq (needs mn_config) (bnd (onE N m) (\<lambda>ok. ret (exit_code ok))))"

definition exec_env_of ::
  "('d, 'm prog_world_ext, 't) main_env \<Rightarrow> CmdLine \<Rightarrow> file_system \<Rightarrow> ('d, 'm prog_world_ext, 't) exec_env" where
  "exec_env_of N cl fs =
     \<lparr>xe_drv = me_drv N,
      xe_test = \<lparr>te_errRegs = cl_errRegs cl, te_restore = cl_restore cl, te_fs = fs, te_dump_metrics = os_dump_metrics (me_os N)\<rparr>,
      xe_class = me_class N, xe_groupClass = me_groupClass N, xe_skiptest = cl_skiptest cl, xe_preserve = cl_preserve cl,
      xe_ignore = cl_ignore cl\<rparr>"

definition run_tests ::
  "('d, 'm prog_world_ext, 'x test_obj_scheme) main_env \<Rightarrow> CmdLine
     \<Rightarrow> ((('d, 'm) prog_world_scheme, 'x test_obj_scheme) main_state, bool) prog" where
  "run_tests N cl = (\<lambda>s.
     case ExecuteTests (me_libc N) (exec_env_of N cl (fsys (mn_world s))) (cl_rev cl) (tt_t (cl_test cl)) (cl_loop cl)
            (mn_groups s) (mn_world s) of
       (r, xs) \<Rightarrow> (r, s\<lparr>mn_groups := xs_groups xs, mn_world := xs_world xs\<rparr>))"

text \<open>The results of a register access are not looked at.\<close>

definition read_memory :: "('d, 'm prog_world_ext, 't) main_env \<Rightarrow> RmmapIo \<Rightarrow> ((('d, 'm) prog_world_scheme, 't) main_state, unit) prog" where
  "read_memory N r =
     (case (rm_space r, rm_acc r) of
        (Some spc, Some acc) \<Rightarrow>
          sq (needs mn_regs)
         (bnd (onw (Registers_Read_acc (me_drv N) spc (of_nat (rm_size r)) (of_nat (rm_offset r)) acc (fresh (me_libc N) (rm_size r))))
            (\<lambda>_. ret ()))
      | _ \<Rightarrow> raise (UB ''uninitialised''))"

definition write_memory :: "('d, 'm prog_world_ext, 't) main_env \<Rightarrow> WmmapIo \<Rightarrow> ((('d, 'm) prog_world_scheme, 't) main_state, unit) prog" where
  "write_memory N r =
     (case (rm_space r, rm_acc r) of
        (Some spc, Some acc) \<Rightarrow>
          sq (needs mn_regs)
         (bnd (onw (Registers_Write_acc (me_drv N) spc (of_nat (rm_size r)) (of_nat (rm_offset r)) acc (le64 (of_nat (wm_value r)))))
            (\<lambda>_. ret ()))
      | _ \<Rightarrow> raise (UB ''uninitialised''))"

definition run_mode ::
  "('d, 'm prog_world_ext, 'x test_obj_scheme) main_env \<Rightarrow> CmdLine
     \<Rightarrow> ((('d, 'm) prog_world_scheme, 'x test_obj_scheme) main_state, ended) prog" where
  "run_mode N cl =
     (if gd_req (cl_golden cl) then single_command N (\<lambda>E. CompareGolden E (me_arrive N) (gd_cmds (cl_golden cl)))
      else if fmt_req (cl_format cl) then single_command N (\<lambda>E. FormatDevice E (fmt_cmds (cl_format cl)))
      else if nq_req (cl_numQueues cl) then single_command N (\<lambda>E. SetFeaturesNumberOfQueues E (cl_numQueues cl))
      else if cl_summary cl then ret (Falls 0)
      else if tt_req (cl_detail cl) then ret (Falls 0)
      else if rm_req (cl_rmmap cl) then sq (read_memory N (cl_rmmap cl)) (ret (Falls 0))
      else if rm_req (cl_wmmap cl) then sq (write_memory N (cl_wmmap cl)) (ret (Falls 0))
      else if cl_reset cl then
        sq (needs mn_config) (bnd (onE N (\<lambda>E. set_state E ST_DISABLE_COMPLETELY)) (\<lambda>ok. ret (exit_code ok)))
      else if tt_req (cl_test cl) then sq (needs mn_regs) (bnd (run_tests N cl) (\<lambda>ok. ret (exit_code ok)))
      else ret (Falls 0))"

definition main_try ::
  "('d, 'm prog_world_ext, 'x test_obj_scheme) main_env \<Rightarrow> CmdLine \<Rightarrow> bool
     \<Rightarrow> ((('d, 'm) prog_world_scheme, 'x test_obj_scheme) main_state, ended) prog" where
  "main_try N cl accessingHdw =
     bnd (BuildTestFoundation N (cl_rev cl) (cl_device cl)) (\<lambda>ok.
     if \<not> ok then ret (Exits 1)
     else if \<not> accessingHdw then run_mode N cl
     else bnd (check_hardware N cl) (\<lambda>stop. case stop of Some e \<Rightarrow> ret e | None \<Rightarrow> run_mode N cl))"

text \<open>\<open>exitCode\<close> is assigned when a mode has returned; an exception leaves it as it was, zero. The result is the exit code.\<close>

definition main_work ::
  "('d, 'm prog_world_ext, 'x test_obj_scheme) main_env \<Rightarrow> CmdLine \<Rightarrow> bool
     \<Rightarrow> ((('d, 'm) prog_world_scheme, 'x test_obj_scheme) main_state, int) prog" where
  "main_work N cl accessingHdw =
     bnd (try_catch (main_try N cl accessingHdw) (Falls 0)) (\<lambda>e.
     case e of
       Exits n \<Rightarrow> ret n
     | Falls n \<Rightarrow> sq (DestroyTestFoundation N) (sq (DestroySingletons N) (ret n)))"


section \<open>Cleaning up\<close>

lemma onw_Inr: "onw m s = (Inr x, t) \<longleftrightarrow> (\<exists>w. m (mn_world s) = (Inr x, w) \<and> t = s\<lparr>mn_world := w\<rparr>)"
  by (auto simp: onw_def zoom_apply split: prod.splits)

text \<open>Nothing is open, and no singleton exists.\<close>

definition cleaned :: "('w, 't) main_state \<Rightarrow> bool" where
  "cleaned s \<longleftrightarrow> mn_fd s = - 1 \<and> \<not> mn_regs s \<and> \<not> mn_config s \<and> \<not> mn_rsrc s \<and> mn_cap s = None \<and> \<not> mn_info s"

lemma foundation_destroyed:
  "DestroyTestFoundation N s = (Inr (), t) \<Longrightarrow> mn_fd t = - 1 \<and> mn_groups t = DestroyTestFoundation_groups (mn_groups s)"
  by (auto simp: DestroyTestFoundation_def sq_Inr_iff bnd_Inr_iff onw_Inr split: if_splits)

lemma info_destroyed:
  "Informative_KillInstance s = (Inr (), t) \<Longrightarrow> \<not> mn_info t \<and> mn_fd t = mn_fd s \<and> mn_groups t = mn_groups s"
  by (auto simp: Informative_KillInstance_def sq_Inr_iff onw_Inr split: if_splits)

lemma rsrc_destroyed:
  "RsrcMngr_KillInstance N s = (Inr (), t) \<Longrightarrow>
    \<not> mn_rsrc t \<and> mn_info t = mn_info s \<and> mn_cap t = mn_cap s \<and> mn_fd t = mn_fd s \<and> mn_groups t = mn_groups s"
  by (auto simp: RsrcMngr_KillInstance_def sq_Inr_iff onw_Inr split: if_splits)

lemma singletons_destroyed:
  assumes "DestroySingletons N s = (Inr (), t)" and "mn_fd s = - 1"
  shows "cleaned t \<and> mn_groups t = mn_groups s"
proof -
  obtain u v where "Informative_KillInstance s = (Inr (), u)" "RsrcMngr_KillInstance N (u\<lparr>mn_cap := None\<rparr>) = (Inr (), v)"
    and t: "t = v\<lparr>mn_config := False, mn_regs := False\<rparr>"
    using assms(1) by (auto simp: DestroySingletons_def sq_Inr_iff)
  then show ?thesis using info_destroyed [of s u] rsrc_destroyed [of N "u\<lparr>mn_cap := None\<rparr>" v] assms(2) by (simp add: cleaned_def)
qed

lemma exit_code_Falls [simp]: "exit_code ok \<noteq> Exits n" "exit_code ok = Falls n \<longleftrightarrow> n = (if ok then 0 else 1)"
  by (auto simp: exit_code_def)

lemma mode_ends: "run_mode N cl s = (Inr e, t) \<Longrightarrow> e = Falls 0 \<or> e = Falls 1"
  by (auto simp: run_mode_def single_command_def sq_Inr_iff bnd_Inr_iff exit_code_def split: if_splits)

lemma try_ends: "main_try N cl hw s = (Inr e, t) \<Longrightarrow> e = Exits 1 \<or> e = Falls 0 \<or> e = Falls 1"
proof -
  have "r = None \<or> r = Some (Exits 1)" if "check_hardware N cl u = (Inr r, v)" for r u v
    using that by (auto simp: check_hardware_def sq_Inr_iff bnd_Inr_iff split: if_splits prod.splits)
  then show "main_try N cl hw s = (Inr e, t) \<Longrightarrow> e = Exits 1 \<or> e = Falls 0 \<or> e = Falls 1"
    by (fastforce simp: main_try_def bnd_Inr_iff dest: mode_ends split: if_splits option.splits)
qed

section \<open>Examples\<close>

text \<open>An environment around a device that works.\<close>

definition work_main :: "(nat \<times> bool, unit prog_world_ext, unit test_obj_ext) main_env" where
  "work_main = \<lparr>me_libc = ex_libc, me_drv = work_dnvme, me_fuel = 1, me_masks = ex_masks, me_os = quiet_os,
     me_open = (\<lambda>f d. (3, d)), me_lock = (\<lambda>fd d. d), me_close = (\<lambda>fd d. d), me_version = (\<lambda>d. (0, 0x010203, d)), me_api = 0x010203,
     me_new_test = Test_Test, me_class = \<lparr>RunnableCoreTest = (\<lambda>p. ret RUN_TRUE), RunCoreTest = ret (), Test_Clone = (\<lambda>t. t)\<rparr>,
     me_groupClass = (\<lambda>i. \<lparr>SaveState = ret True, RestoreState = ret True\<rparr>), me_identify = ex_ident, me_arrive = (\<lambda>i w. w)\<rparr>"

definition work_state :: "((nat \<times> bool) prog_world, unit test_obj_ext) main_state" where
  "work_state = \<lparr>mn_world = enabled_world, mn_fd = - 1, mn_groups = [], mn_regs = False, mn_config = False, mn_rsrc = False,
     mn_cap = None, mn_info = False\<rparr>"

text \<open>\<open>--summary --queues\<close> with three completion and four submission queues.\<close>

definition summary_queues :: "(char \<times> string option) list" where
  "summary_queues = [(CHR ''s'', None), (CHR ''q'', Some (print_queues 3 4))]"

definition summary_cl :: CmdLine where
  "summary_cl = (default_cl [''/dev/nvme0''])\<lparr>cl_summary := True\<rparr>"

text \<open>Opening the device creates no singleton.\<close>

lemma on_groups_Inr:
  "zoom mn_groups (\<lambda>gs s. s\<lparr>mn_groups := gs\<rparr>) m s = (Inr x, t) \<longleftrightarrow> (\<exists>gs. m (mn_groups s) = (Inr x, gs) \<and> t = s\<lparr>mn_groups := gs\<rparr>)"
  by (auto simp: zoom_apply split: prod.splits)

lemma foundation_keeps:
  "BuildTestFoundation N rv device s = (Inr True, t) \<Longrightarrow> mn_config t = mn_config s"
  by (auto simp: on_groups_Inr BuildTestFoundation_def DestroyTestFoundation_def sq_Inr_iff bnd_Inr_iff onw_Inr split: if_splits prod.splits)

lemma work_foundation:
  "\<exists>u. BuildTestFoundation work_main SPECREV_10b ''/dev/nvme0'' work_state = (Inr True, u) \<and> mn_fd u = 3 \<and> \<not> mn_info u \<and> \<not> mn_rsrc u"
  using InstantiateGroups_runs [of SPECREV_10b "[]"]
  by (auto simp: prog_simps BuildTestFoundation_def DestroyTestFoundation_def DestroyTestFoundation_groups_def NO_DEVICES_def
      work_main_def work_state_def onw_def ioctl1_def ioctl2_def destroy_loop.simps)

section \<open>Properties\<close>

text \<open>C4: The exit code is 0 or 1, and what it means: it is 0 not only when the mode succeeded, but also whenever an exception ended
  it. With exit code 0 the device has been closed and no singleton is left.\<close>

theorem main_exit_code:
  assumes "main_work N cl hw s = (Inr n, t)"
  shows "(n = 0 \<or> n = 1) \<and>
    (n = 0 \<longleftrightarrow> (\<exists>u. main_try N cl hw s = (Inr (Falls 0), u)) \<or> (\<exists>e u. main_try N cl hw s = (Inl e, u))) \<and>
    (n = 0 \<longrightarrow> mn_fd t = - 1 \<and> \<not> mn_regs t \<and> \<not> mn_config t \<and> \<not> mn_rsrc t \<and> mn_cap t = None \<and> \<not> mn_info t)"
proof -
  obtain r u where run: "main_try N cl hw s = (r, u)" by fastforce
  have ends: "r = Inr (Exits 1) \<or> r = Inr (Falls 0) \<or> r = Inr (Falls 1) \<or> (\<exists>e. r = Inl e)"
    using try_ends [of N cl hw s] run by (cases r) auto
  have clean: "cleaned t" if "sq (DestroyTestFoundation N) (sq (DestroySingletons N) (ret k)) u = (Inr n, t)" for k
    using that by (auto simp: sq_Inr_iff dest!: foundation_destroyed singletons_destroyed)
  show ?thesis
    using assms run ends clean
    by (auto simp: main_work_def try_catch_def bnd_apply sq_Inr_iff cleaned_def split: if_splits)
qed

theorem main_exit_code_witness:
  "\<exists>t. main_work work_main summary_cl False work_state = (Inr 0, t) \<and> mn_fd t = - 1"
proof -
  obtain u where u: "BuildTestFoundation work_main SPECREV_10b ''/dev/nvme0'' work_state = (Inr True, u)" "mn_fd u = 3" "\<not> mn_info u" "\<not> mn_rsrc u"
    using work_foundation by blast
  have "fst (main_work work_main summary_cl False work_state) = Inr 0"
    by (simp add: prog_simps main_work_def main_try_def try_catch_def summary_cl_def default_cl_def u run_mode_def default_target_def
        DestroyTestFoundation_def onw_def DestroySingletons_def Informative_KillInstance_def RsrcMngr_KillInstance_def)
  then obtain t where t: "main_work work_main summary_cl False work_state = (Inr 0, t)" by (metis prod.collapse)
  then show ?thesis using main_exit_code [OF t] by blast
qed

text \<open>C24: A summary or a description together with a single-command mode: the options are accepted, the singletons are not created, but the
  single-command mode is what \<open>main\<close> runs; it calls a member function on a null pointer.\<close>

theorem summary_with_mode_undefined:
  assumes opts: "main_options F argc (Some entries) opts extra = Inr r" and "(CHR ''s'', None) \<in> set opts \<or> (\<exists>a. (CHR ''a'', a) \<in> set opts)"
    and req: "gd_req (cl_golden (os_cl r)) \<or> fmt_req (cl_format (os_cl r)) \<or> nq_req (cl_numQueues (os_cl r))"
    and built: "BuildTestFoundation N (cl_rev (os_cl r)) (cl_device (os_cl r)) s = (Inr True, u)" and "\<not> mn_config s"
  shows "fst (main_work N (os_cl r) (os_accessingHdw r) s) = Inl (UB ''call on a null pointer'')"
proof -
  have "\<not> os_accessingHdw r"
    using opts assms(2) by (fastforce simp: main_options_def exit_if_def Let_def dest: parse_opts_hdw split: if_splits sum.splits)
  moreover have "\<not> mn_config u" using foundation_keeps [OF built] assms(5) by simp
  moreover have null: "\<exists>v. single_command N m u = (Inl (UB ''call on a null pointer''), v)" if "\<not> mn_config u" for m
    using that by (simp add: single_command_def needs_def SetBaseDumpDir_def onw_def sq_apply bnd_apply zoom_apply throw_if_def raise_def)
  ultimately have "\<exists>v. run_mode N (os_cl r) u = (Inl (UB ''call on a null pointer''), v)" using req by (auto simp: run_mode_def)
  then show ?thesis using built \<open>\<not> os_accessingHdw r\<close> by (auto simp: main_work_def main_try_def try_catch_def caught_def bnd_apply)
qed

theorem summary_with_mode_undefined_witness:
  "\<exists>r. main_options no_files 3 (Some [''nvme0'']) summary_queues False = Inr r \<and>
     fst (main_work work_main (os_cl r) (os_accessingHdw r) work_state) = Inl (UB ''call on a null pointer'')"
proof -
  let ?dev = "[''/dev/nvme0'']"
  let ?r = "\<lparr>os_cl = summary_cl\<lparr>cl_numQueues := \<lparr>nq_req = True, nq_ncqr = 3, nq_nsqr = 4\<rparr>\<rparr>, os_devices = ?dev, os_deviceFound = False,
      os_accessingHdw = False\<rparr>"
  have q: "ParseQueuesCmdLine (print_queues 3 4) = (True, \<lparr>nq_req = True, nq_ncqr = 3, nq_nsqr = 4\<rparr>)"
    using ParseQueues_roundtrip [of 3 4] by (simp add: ULONG_MAX_def)
  have "seek_devices [''nvme0''] = ?dev" by (simp add: seek_devices_def occurs_in.simps)
  then have opts: "main_options no_files 3 (Some [''nvme0'']) summary_queues False = Inr ?r"
    by (simp add: main_options_def summary_queues_def process_opt_def process_arg_def process_flag_def q exit_if_def Let_def summary_cl_def)
  obtain u where "BuildTestFoundation work_main (cl_rev (os_cl ?r)) (cl_device (os_cl ?r)) work_state = (Inr True, u)"
    using work_foundation by (auto simp: summary_cl_def default_cl_def)
  from summary_with_mode_undefined [OF opts _ _ this]
  show ?thesis by (intro exI [of _ ?r] conjI opts) (simp add: summary_queues_def work_state_def)
qed

end
