(* ===== verification/Frmwk_Ex.thy ===== *)
theory Frmwk_Ex
  imports File_Dumps
begin

text \<open>
  Constructing a \<open>FrmwkEx\<close> (Exception/frmwkEx.cpp). The constructor of an exception takes a snapshot of the
  device when the user asked for it and disables the controller, so that every \<open>throw\<close> has this effect
  before any handler runs. Requests the constructor makes can throw in turn, which constructs a nested
  exception; a static flag stops the nesting, after the request to the driver's log.
\<close>

section \<open>State and environment\<close>

record 'd ex_world = "'d world" +
  mPrelimProcessingInProgress :: bool

record 'd ex_env =
  xx_dev :: "'d device_env"
  xx_os :: "'d os"
  xx_postfail :: bool

text \<open>\<open>thrown k m\<close>: when \<open>m\<close> throws a \<open>FrmwkEx\<close>, its constructor \<open>k\<close> runs first, and may itself throw.\<close>

definition thrown :: "('s, unit) prog \<Rightarrow> ('s, 'a) prog \<Rightarrow> ('s, 'a) prog" where
  "thrown k m = (\<lambda>s. case m s of
     (Inl e, t) \<Rightarrow> if caught e then sq k (raise e) t else (Inl e, t)
   | (Inr x, t) \<Rightarrow> (Inr x, t))"

section \<open>PreliminaryProcessing\<close>

definition post_call :: io_call where
  "post_call = \<lparr>io_grpName = ''post'', io_testName = ''failure'', io_qualify = [], io_verbose = False\<rparr>"

abbreviation (input) IDCTRLRCAP_ELPE :: nat where "IDCTRLRCAP_ELPE \<equiv> 27"

definition ERRINFO_DATA_SIZE :: u16 where "ERRINFO_DATA_SIZE = 64"

text \<open>The command that reads the error log; the buffer has 64 bytes for each of the \<open>ELPE + 1\<close> entries.\<close>

definition error_log ::
  "'d device_env \<Rightarrow> (('d, 'm) world_scheme, unit) prog \<Rightarrow> comp_queue \<Rightarrow> sub_queue \<Rightarrow> (('d, 'm) world_scheme, unit) prog" where
  "error_log E k acq asq =
     bnd (thrown k (lift_result (GetLogPage_GetLogPage (su_libc E) (su_masks E)))) (\<lambda>c0.
     bnd (with_new c0 (
       sq (thrown (onr k) (onl (GetLogPage_SetLID 1)))
      (bnd (thrown (onr k) (onr (bnd Informative_GetIdentifyCmdCtrlr (\<lambda>c. Identify_GetValue_ctrlr c IDCTRLRCAP_ELPE)))) (\<lambda>elpe.
       let bufSize = ucast (elpe + 1) * ucast ERRINFO_DATA_SIZE :: u32 in
       sq (thrown (onr k) (onl (GetLogPage_SetNUMD (ucast (bufSize div 4)))))
      (bnd (onr new_mb) (\<lambda>mem.
       sq (thrown (onr k) (onr (on_mb mem
             (MemBuffer_InitAlignment (su_libc E) bufSize (word_of_int (pagesize (su_libc E))) True 0 None))))
      (bnd (gets (\<lambda>(c, s). wd_bufs s mem)) (\<lambda>b.
       sq (thrown (onr k) (onl (PrpData_SetPrpBuffer
             (MASK_PRP1_PAGE (su_masks E) OR MASK_PRP2_PAGE (su_masks E) OR MASK_PRP2_LIST (su_masks E)) mem b)))
          (thrown (onr k) (send_admin E post_call (CALC_TIMEOUT_ms 1) asq acq))))))))))
     (\<lambda>_. ret ()))"

text \<open>\<open>k\<close> constructs the exceptions these steps throw; the destructors of the queues throw, too.\<close>

definition post_asq ::
  "'d device_env \<Rightarrow> (('d, 'm) world_scheme, unit) prog \<Rightarrow> (sub_queue \<Rightarrow> (('d, 'm) world_scheme, unit) prog)
     \<Rightarrow> (('d, 'm) world_scheme, unit) prog" where
  "post_asq E k body =
     bnd (thrown k (lift_result (SQ_SQ (su_fd E) OBJ_ASQ))) (\<lambda>asq0.
     bnd (with_new asq0 (scoped (thrown (onr k) (destroy_q (su_drv E)))
       (sq (thrown (onr k) (ASQ_Init (su_libc E) (su_drv E) 2)) (bnd (gets fst) (\<lambda>asq. onr (body asq)))))) (\<lambda>_. ret ()))"

definition post_acq ::
  "'d device_env \<Rightarrow> (('d, 'm) world_scheme, unit) prog \<Rightarrow> (comp_queue \<Rightarrow> (('d, 'm) world_scheme, unit) prog)
     \<Rightarrow> (('d, 'm) world_scheme, unit) prog" where
  "post_acq E k body =
     bnd (thrown k (lift_result (CQ_CQ (su_fd E) OBJ_ACQ))) (\<lambda>acq0.
     bnd (with_new acq0 (scoped (thrown (onr k) (destroy_q (su_drv E)))
       (sq (thrown (onr k) (ACQ_Init (su_libc E) (su_drv E) 2)) (bnd (gets fst) (\<lambda>acq. onr (body acq)))))) (\<lambda>_. ret ()))"

definition dump_file :: "'d device_env \<Rightarrow> string \<Rightarrow> string \<Rightarrow> ('s, string) prog" where
  "dump_file E obj qualifier = lift_result (PrepDumpFile (su_fs E) ''post'' ''failure'' obj qualifier)"

definition FrmwkEx_PreliminaryProcessing ::
  "'d ex_env \<Rightarrow> (('d, 'm) world_scheme, unit) prog \<Rightarrow> (('d, 'm) world_scheme, unit) prog" where
  "FrmwkEx_PreliminaryProcessing X k =
     (let E = xx_dev X; os = xx_os X in
      sq (thrown k (bnd (dump_file E ''kmetrics'' []) (KernelAPI_DumpKernelMetrics os)))
     (sq (thrown k (bnd (dump_file E ''pci'' ''regs'') (KernelAPI_DumpPciSpaceRegs (su_libc E) (su_drv E) os)))
     (sq (thrown k (bnd (dump_file E ''ctrl'' ''regs'') (KernelAPI_DumpCtrlrSpaceRegs (su_libc E) (su_drv E) os)))
     (bnd (thrown k (set_state E ST_DISABLE_COMPLETELY)) (\<lambda>ok.
      sq (thrown k (throw_if (\<not> ok) (FrmwkEx ''Exception handler()'')))
     (post_acq E k (\<lambda>acq. post_asq E k (\<lambda>asq.
        bnd (thrown k (CtrlrConfig_SetCSS (su_libc E) (su_drv E) 0)) (\<lambda>_.
        bnd (thrown k (set_state E ST_ENABLE)) (\<lambda>ok.
        sq (thrown k (throw_if (\<not> ok) (FrmwkEx ''Exception handler()'')))
           (error_log E k acq asq)))))))))))"

section \<open>DumpStateOfTheSystem\<close>

text \<open>
  The constructor. The argument bounds the nesting: at zero the constructors have called each other more often
  than that.
\<close>

fun FrmwkEx_FrmwkEx :: "nat \<Rightarrow> 'd ex_env \<Rightarrow> (('d, 'm) ex_world_scheme, unit) prog" where
  "FrmwkEx_FrmwkEx 0 X = raise Diverges"
| "FrmwkEx_FrmwkEx (Suc n) X =
     sq (thrown (FrmwkEx_FrmwkEx n X)
          (KernelAPI_WriteToDnvmeLog (xx_os X) ''-------START POST FAILURE STATE DUMP-------''))
     (bnd (gets mPrelimProcessingInProgress) (\<lambda>nested.
      if nested then ret ()
      else sq (modify (\<lambda>s. s\<lparr>mPrelimProcessingInProgress := True\<rparr>))
        (if \<not> xx_postfail X
         then bnd (thrown (FrmwkEx_FrmwkEx n X) (set_state (xx_dev X) ST_DISABLE_COMPLETELY)) (\<lambda>ok.
                thrown (FrmwkEx_FrmwkEx n X) (throw_if (\<not> ok) (FrmwkEx ''Exception handler()'')))
         else sq (FrmwkEx_PreliminaryProcessing X (FrmwkEx_FrmwkEx n X))
               (bnd (thrown (FrmwkEx_FrmwkEx n X) (set_state (xx_dev X) ST_DISABLE)) (\<lambda>_. ret ())))))"

definition FrmwkEx_destroy :: "(('d, 'm) ex_world_scheme, unit) prog" where
  "FrmwkEx_destroy = modify (\<lambda>s. s\<lparr>mPrelimProcessingInProgress := False\<rparr>)"

section \<open>What a thrown exception leaves behind\<close>

lemma thrown_Inr [simp]: "m s = (Inr x, t) \<Longrightarrow> thrown k m s = (Inr x, t)"
  by (simp add: thrown_def)

lemma write_log_ok:
  "os_mark_log os m (kern s) = (rc, d) \<Longrightarrow> 0 \<le> rc \<Longrightarrow> KernelAPI_WriteToDnvmeLog os m s = (Inr (), s\<lparr>kern := d\<rparr>)"
  by (simp add: KernelAPI_WriteToDnvmeLog_def bnd_apply ioctl1_apply)

lemma set_state_frees:
  fixes s :: "('d, 'm) world_scheme"
  assumes "meta_inv s" and "\<not> cf_deltaCheck s"
    and "0 \<le> fst (io_device_state (su_drv E) ST_DISABLE_COMPLETELY (kern s))"
  shows "\<exists>d. set_state E ST_DISABLE_COMPLETELY s = (Inr True, s\<lparr>cf_firstTime := False,
    cf_curState := ST_DISABLE_COMPLETELY, mObjGrpLife := [], mr_reserved := [], mr_released := [], mr_allocSize := 0, kern := d\<rparr>)"
proof -
  obtain rc d where io: "io_device_state (su_drv E) ST_DISABLE_COMPLETELY (kern s) = (rc, d)" by fastforce
  let ?t = "s\<lparr>kern := d, cf_firstTime := False, cf_curState := ST_DISABLE_COMPLETELY, mObjGrpLife := []\<rparr>"
  have "meta_inv ?t" using assms(1) by (simp add: meta_inv_def)
  from FreeAllMetaBuf_run [OF this, of "su_drv E"] show ?thesis
    using assms(2,3) io
    by (auto simp: set_state_def CtrlrConfig_SetState_def bnd_apply sq_apply ioctl1_apply Subject_Notify_def Let_def
        RsrcMngr_Update_def ObjRsrc_FreeAllObj_def intro!: exI)
qed

lemma nested_construction:
  assumes "\<forall>m d. 0 \<le> fst (os_mark_log (xx_os X) m d)" and "mPrelimProcessingInProgress s"
  shows "\<exists>d. FrmwkEx_FrmwkEx (Suc n) X s = (Inr (), s\<lparr>kern := d\<rparr>)"
proof -
  obtain rc d where "os_mark_log (xx_os X) ''-------START POST FAILURE STATE DUMP-------'' (kern s) = (rc, d)" by fastforce
  moreover from this have "0 \<le> rc" using assms(1) by (metis fst_conv)
  ultimately have "KernelAPI_WriteToDnvmeLog (xx_os X) ''-------START POST FAILURE STATE DUMP-------'' s = (Inr (), s\<lparr>kern := d\<rparr>)"
    by (rule write_log_ok)
  then show ?thesis using assms(2) by (auto simp: sq_apply bnd_apply)
qed

section \<open>Properties\<close>


text \<open>C19: When the driver refuses the request to its log, the constructor of the exception throws an exception of the
  same kind before it looks at the flag that stops the nesting: the constructors call each other without end.\<close>

theorem log_failure_recurses:
  fixes s :: "('d, 'm) ex_world_scheme"
  assumes "\<forall>m d. fst (os_mark_log (xx_os X) m d) < 0"
  shows "fst (FrmwkEx_FrmwkEx n X s) = Inl Diverges"
proof (induction n arbitrary: s)
  case 0
  then show ?case by simp
next
  case (Suc n)
  obtain rc d where m: "os_mark_log (xx_os X) ''-------START POST FAILURE STATE DUMP-------'' (kern s) = (rc, d)" by fastforce
  then have rc: "rc < 0" using assms by (metis fst_conv)
  obtain t where "FrmwkEx_FrmwkEx n X (s\<lparr>kern := d\<rparr>) = (Inl Diverges, t)"
    using Suc.IH [of "s\<lparr>kern := d\<rparr>"] by (metis prod.collapse)
  then have "thrown (FrmwkEx_FrmwkEx n X)
      (KernelAPI_WriteToDnvmeLog (xx_os X) ''-------START POST FAILURE STATE DUMP-------'') s = (Inl Diverges, t)"
    using m rc by (simp add: sq_apply thrown_def KernelAPI_WriteToDnvmeLog_def bnd_apply ioctl1_apply caught_def)
  then show ?case by (simp add: sq_apply)
qed

text \<open>Examples: the driver's log accepts, or refuses, every line.\<close>

definition ex_env_post :: "int \<Rightarrow> nat ex_env" where
  "ex_env_post rc = \<lparr>xx_dev = dut_env, xx_os = \<lparr>os_open = (\<lambda>f d. (True, d)), os_system = (\<lambda>c d. d),
     os_exists = (\<lambda>f d. (True, d)), os_mark_log = (\<lambda>m d. (rc, d)), os_dump_metrics = (\<lambda>f d. (0, d))\<rparr>,
     xx_postfail = False\<rparr>"

definition ex_thrower :: "nat ex_world" where
  "ex_thrower = world.extend io_world \<lparr>mPrelimProcessingInProgress = False\<rparr>"


theorem log_failure_recurses_witness: "fst (FrmwkEx_FrmwkEx 1000 (ex_env_post (- 1)) ex_thrower) = Inl Diverges"
  by (rule log_failure_recurses) (simp add: ex_env_post_def)

end
