(* ===== verification/Ctrl_Reg_Tests.thy ===== *)
theory Ctrl_Reg_Tests
  imports Device_Helpers File_Dumps Pci_Discovery
begin

text \<open>
  The tests of the controller registers (GrpCtrlRegisters): \<open>AllCtrlRegs\<close>, which validates the read-only bits of
  every register before and after writing to it, in its three revisions, and \<open>CtrlrResetDefaults\<close>, which
  validates that a reset clears the writable bits. The state of a test is its object and the world.
\<close>

section \<open>AllCtrlRegs\<close>

text \<open>The bits that have to have the value of the table.\<close>

definition ctl_fixed :: "CtlSpcType \<Rightarrow> u64 \<Rightarrow> u64" where
  "ctl_fixed r val = val AND NOT (ctl_impSpec r) AND ctl_maskRO r"

definition ctl_expected :: "CtlSpcType \<Rightarrow> u64" where
  "ctl_expected r = ctl_dfltValue r AND ctl_maskRO r"

definition check_bits :: "u64 \<Rightarrow> u64 \<Rightarrow> ('w, unit) prog" where
  "check_bits val expectedValue =
     (if val \<noteq> expectedValue
      then bnd (lift_result (ReportOffendingBitPos val expectedValue)) (\<lambda>_. raise (FrmwkEx ''%s RO bit #%d has incorrect value''))
      else ret ())"

text \<open>The words of a register that is larger than a variable, from word \<open>k\<close>; \<open>val\<close> is what the variable holds.\<close>

fun ctl_words :: "'d dnvme \<Rightarrow> CtlSpcType \<Rightarrow> nat \<Rightarrow> nat \<Rightarrow> u64 \<Rightarrow> (('d, 'm) registers_scheme, unit) prog" where
  "ctl_words drv r k 0 val = ret ()"
| "ctl_words drv r k (Suc n) val =
     bnd (Registers_Read_bytes drv NVMEIO_BAR01 8 (ctl_offset r + of_nat (8 * k)) (le64 val)) (\<lambda>(ok, buf).
     sq (throw_if (\<not> ok) (FrmwkEx []))
    (sq (check_bits (ctl_fixed r (of_le buf)) (ctl_expected r))
        (ctl_words drv r (k + 1) n (ctl_fixed r (of_le buf)))))"

definition ValidateCtlRegisterROAttribute :: "'d dnvme \<Rightarrow> nat \<Rightarrow> (('d, 'm) registers_scheme, unit) prog" where
  "ValidateCtlRegisterROAttribute drv reg =
     (let r = ctl_table ! reg in
      if ctl_size r > MAX_SUPPORTED_REG_SIZE then ctl_words drv r 0 ((unat (ctl_size r) + 7) div 8) 0
      else bnd (Registers_Read_ctl drv reg 0) (\<lambda>(ok, val).
           sq (throw_if (\<not> ok) (FrmwkEx [])) (check_bits (ctl_fixed r val) (ctl_expected r))))"

text \<open>\<open>mSpecRev\<close> is the revision of the test.\<close>

fun default_loop :: "'d dnvme \<Rightarrow> SpecRev \<Rightarrow> nat list \<Rightarrow> (('d, 'm) registers_scheme, unit) prog" where
  "default_loop drv rv [] = ret ()"
| "default_loop drv rv (j # js) =
     (if \<not> List.member (ctl_specRev (ctl_table ! j)) rv then default_loop drv rv js
      else sq (ValidateCtlRegisterROAttribute drv j) (default_loop drv rv js))"

definition ValidateDefaultValues_ctl :: "'d dnvme \<Rightarrow> SpecRev \<Rightarrow> (('d, 'm) registers_scheme, unit) prog" where
  "ValidateDefaultValues_ctl drv rv = default_loop drv rv [0..<CTLSPC_FENCE]"

fun write_loop :: "'d dnvme \<Rightarrow> SpecRev \<Rightarrow> nat list \<Rightarrow> u64 \<Rightarrow> (('d, 'm) registers_scheme, unit) prog" where
  "write_loop drv rv [] origValue = ret ()"
| "write_loop drv rv (j # js) origValue =
     (if \<not> List.member (ctl_specRev (ctl_table ! j)) rv then write_loop drv rv js origValue
      else if j = CTLSPC_RES1 \<or> j = CTLSPC_RES2 \<or> j = CTLSPC_RES3 then write_loop drv rv js origValue
      else bnd (Registers_Read_ctl drv j origValue) (\<lambda>(ok, orig).
           sq (throw_if (\<not> ok) (FrmwkEx []))
          (bnd (Registers_Write_ctl drv j (orig OR ctl_maskRO (ctl_table ! j))) (\<lambda>ok.
           sq (throw_if (\<not> ok) (FrmwkEx []))
          (sq (ValidateCtlRegisterROAttribute drv j)
          (bnd (Registers_Write_ctl drv j (orig AND NOT (ctl_maskRO (ctl_table ! j)))) (\<lambda>ok.
           sq (throw_if (\<not> ok) (FrmwkEx []))
          (sq (ValidateCtlRegisterROAttribute drv j) (write_loop drv rv js orig)))))))))"

definition ValidateROBitsAfterWriting_ctl :: "libc \<Rightarrow> 'd dnvme \<Rightarrow> SpecRev \<Rightarrow> (('d, 'm) registers_scheme, unit) prog" where
  "ValidateROBitsAfterWriting_ctl C drv rv = write_loop drv rv [0..<CTLSPC_FENCE] (undef64 C)"

text \<open>The three classes override \<open>RunCoreTest\<close> with the same statements.\<close>

definition AllCtrlRegs_r10b_RunCoreTest :: "'d device_env \<Rightarrow> ('x test_obj_scheme \<times> ('d, 'm) world_scheme, unit) prog" where
  "AllCtrlRegs_r10b_RunCoreTest E =
     bnd (onr (set_state E ST_DISABLE_COMPLETELY)) (\<lambda>ok.
     sq (throw_if (\<not> ok) (FrmwkEx []))
    (bnd (gets (\<lambda>(t, w). mSpecRev t)) (\<lambda>rv.
     sq (onr (ValidateDefaultValues_ctl (su_drv E) rv))
        (onr (ValidateROBitsAfterWriting_ctl (su_libc E) (su_drv E) rv)))))"

definition AllCtrlRegs_r11_RunCoreTest :: "'d device_env \<Rightarrow> ('x test_obj_scheme \<times> ('d, 'm) world_scheme, unit) prog" where
  "AllCtrlRegs_r11_RunCoreTest E =
     bnd (onr (set_state E ST_DISABLE_COMPLETELY)) (\<lambda>ok.
     sq (throw_if (\<not> ok) (FrmwkEx []))
    (bnd (gets (\<lambda>(t, w). mSpecRev t)) (\<lambda>rv.
     sq (onr (ValidateDefaultValues_ctl (su_drv E) rv))
        (onr (ValidateROBitsAfterWriting_ctl (su_libc E) (su_drv E) rv)))))"

definition AllCtrlRegs_r12_RunCoreTest :: "'d device_env \<Rightarrow> ('x test_obj_scheme \<times> ('d, 'm) world_scheme, unit) prog" where
  "AllCtrlRegs_r12_RunCoreTest E =
     bnd (onr (set_state E ST_DISABLE_COMPLETELY)) (\<lambda>ok.
     sq (throw_if (\<not> ok) (FrmwkEx []))
    (bnd (gets (\<lambda>(t, w). mSpecRev t)) (\<lambda>rv.
     sq (onr (ValidateDefaultValues_ctl (su_drv E) rv))
        (onr (ValidateROBitsAfterWriting_ctl (su_libc E) (su_drv E) rv)))))"

definition never_destructive :: "bool \<Rightarrow> ('t \<times> 'w, RunType) prog" where
  "never_destructive preserve = ret RUN_TRUE"

section \<open>CtrlrResetDefaults\<close>

text \<open>Admin queues of \<open>n\<close> entries that live as long as the test.\<close>

definition with_acq_of ::
  "'d device_env \<Rightarrow> u32 \<Rightarrow> (comp_queue \<Rightarrow> (('d, 'm) world_scheme, unit) prog) \<Rightarrow> (('d, 'm) world_scheme, unit) prog" where
  "with_acq_of E n k =
     bnd (lift_result (CQ_CQ (su_fd E) OBJ_ACQ)) (\<lambda>acq0.
     bnd (with_new acq0 (scoped (destroy_q (su_drv E))
       (sq (ACQ_Init (su_libc E) (su_drv E) n) (bnd (gets fst) (\<lambda>acq. onr (k acq)))))) (\<lambda>_. ret ()))"

definition with_asq_of ::
  "'d device_env \<Rightarrow> u32 \<Rightarrow> (sub_queue \<Rightarrow> (('d, 'm) world_scheme, unit) prog) \<Rightarrow> (('d, 'm) world_scheme, unit) prog" where
  "with_asq_of E n k =
     bnd (lift_result (SQ_SQ (su_fd E) OBJ_ASQ)) (\<lambda>asq0.
     bnd (with_new asq0 (scoped (destroy_q (su_drv E))
       (sq (ASQ_Init (su_libc E) (su_drv E) n) (bnd (gets fst) (\<lambda>asq. onr (k asq)))))) (\<lambda>_. ret ()))"

text \<open>\<open>val\<close> is the variable \<open>value\<close>, \<open>m\<close> the map \<open>ctrlRegsMap\<close>.\<close>

fun modify_loop ::
  "'d dnvme \<Rightarrow> SpecRev \<Rightarrow> nat list \<Rightarrow> u64 \<Rightarrow> (nat \<rightharpoonup> u64) \<Rightarrow> (('d, 'm) registers_scheme, nat \<rightharpoonup> u64) prog" where
  "modify_loop drv rv [] val m = ret m"
| "modify_loop drv rv (j # js) val m =
     (if \<not> List.member (ctl_specRev (ctl_table ! j)) rv then modify_loop drv rv js val m
      else if j = CTLSPC_RES1 \<or> j = CTLSPC_RES2 \<or> j = CTLSPC_RES3 then modify_loop drv rv js val m
      else if j = CTLSPC_INTMC then modify_loop drv rv js val m
      else if j = CTLSPC_AQA \<or> j = CTLSPC_ASQ \<or> j = CTLSPC_ACQ then
        bnd (Registers_Read_ctl drv j val) (\<lambda>(ok, x).
        sq (throw_if (\<not> ok) (FrmwkEx [])) (modify_loop drv rv js x (m(j \<mapsto> x))))
      else bnd (Registers_Write_ctl drv j (NOT (ctl_dfltValue (ctl_table ! j)))) (\<lambda>ok.
           sq (throw_if (\<not> ok) (FrmwkEx [])) (modify_loop drv rv js val m)))"

definition ModifyRWBitsOfCtrlrRegisters :: "'d dnvme \<Rightarrow> SpecRev \<Rightarrow> (('d, 'm) registers_scheme, nat \<rightharpoonup> u64) prog" where
  "ModifyRWBitsOfCtrlrRegisters drv rv = modify_loop drv rv [0..<CTLSPC_FENCE] 0 Map.empty"

text \<open>\<open>ctrlRegsMap[j]\<close> inserts zero for a missing key.\<close>

definition map_at :: "(nat \<rightharpoonup> u64) \<Rightarrow> nat \<Rightarrow> u64" where
  "map_at m j = (case m j of None \<Rightarrow> 0 | Some v \<Rightarrow> v)"

fun reset_loop :: "'d dnvme \<Rightarrow> SpecRev \<Rightarrow> (nat \<rightharpoonup> u64) \<Rightarrow> nat list \<Rightarrow> u64 \<Rightarrow> (('d, 'm) registers_scheme, unit) prog" where
  "reset_loop drv rv m [] val = ret ()"
| "reset_loop drv rv m (j # js) val =
     (if \<not> List.member (ctl_specRev (ctl_table ! j)) rv then reset_loop drv rv m js val
      else if j = CTLSPC_RES1 \<or> j = CTLSPC_RES2 \<or> j = CTLSPC_RES3 then reset_loop drv rv m js val
      else bnd (Registers_Read_ctl drv j val) (\<lambda>(ok, x).
        sq (throw_if (\<not> ok) (FrmwkEx []))
       (if j = CTLSPC_AQA \<or> j = CTLSPC_ASQ \<or> j = CTLSPC_ACQ then
          sq (throw_if (x \<noteq> map_at m j) (FrmwkEx [])) (reset_loop drv rv m js x)
        else let v = x AND NOT (ctl_maskRO (ctl_table ! j)) in
          sq (check_bits v 0) (reset_loop drv rv m js v))))"

definition ValidateCtrlrRWDefaultsAfterReset :: "'d dnvme \<Rightarrow> SpecRev \<Rightarrow> (nat \<rightharpoonup> u64) \<Rightarrow> (('d, 'm) registers_scheme, unit) prog" where
  "ValidateCtrlrRWDefaultsAfterReset drv rv m = reset_loop drv rv m [0..<CTLSPC_FENCE] 0"

definition dump_ctrl_regs ::
  "'d device_env \<Rightarrow> 'd os \<Rightarrow> 'x test_obj_scheme \<Rightarrow> string \<Rightarrow> (('d, 'm) registers_scheme, unit) prog" where
  "dump_ctrl_regs E os t qualifier =
     bnd (lift_result (PrepDumpFile (su_fs E) (t_grpName t) (mTestName t) ''ctrlRegs'' qualifier)) (\<lambda>f.
     KernelAPI_DumpCtrlrSpaceRegs (su_libc E) (su_drv E) os f)"

definition VerifyCtrlrResetDefaults ::
  "'d device_env \<Rightarrow> 'd os \<Rightarrow> 'x test_obj_scheme \<Rightarrow> (('d, 'm) world_scheme, unit) prog" where
  "VerifyCtrlrResetDefaults E os t =
     bnd (set_state E ST_DISABLE_COMPLETELY) (\<lambda>ok.
     sq (throw_if (\<not> ok) (FrmwkEx []))
    (with_acq_of E 5 (\<lambda>acq. with_asq_of E 5 (\<lambda>asq.
       bnd (CtrlrConfig_SetCSS (su_libc E) (su_drv E) 0) (\<lambda>_.
       bnd (set_state E ST_ENABLE) (\<lambda>ok.
       sq (throw_if (\<not> ok) (FrmwkEx []))
      (sq (dump_ctrl_regs E os t ''beforeReset'')
      (bnd (ModifyRWBitsOfCtrlrRegisters (su_drv E) (mSpecRev t)) (\<lambda>m.
       bnd (set_state E ST_DISABLE) (\<lambda>ok.
       sq (throw_if (\<not> ok) (FrmwkEx []))
      (sq (dump_ctrl_regs E os t ''afterReset'')
          (ValidateCtrlrRWDefaultsAfterReset (su_drv E) (mSpecRev t) m))))))))))))"

definition CtrlrResetDefaults_RunCoreTest ::
  "'d device_env \<Rightarrow> 'd os \<Rightarrow> ('x test_obj_scheme \<times> ('d, 'm) world_scheme, unit) prog" where
  "CtrlrResetDefaults_RunCoreTest E os =
     bnd (onr (set_state E ST_DISABLE_COMPLETELY)) (\<lambda>ok.
     sq (throw_if (\<not> ok) (FrmwkEx []))
    (bnd (gets fst) (\<lambda>t. onr (VerifyCtrlrResetDefaults E os t))))"

section \<open>A device whose read-only bits cannot be written\<close>

text \<open>Where the code reads a register: offset and number of bytes.\<close>

definition places :: "CtlSpcType \<Rightarrow> (u16 \<times> u16) list" where
  "places r =
     (if ctl_size r > MAX_SUPPORTED_REG_SIZE then map (\<lambda>k. (ctl_offset r + of_nat (8 * k), 8)) [0..<(unat (ctl_size r) + 7) div 8]
      else [(ctl_offset r, ctl_size r)])"

definition fixed_ok :: "('d \<Rightarrow> u16 \<Rightarrow> u16 \<Rightarrow> u64) \<Rightarrow> 'd \<Rightarrow> CtlSpcType \<Rightarrow> bool" where
  "fixed_ok regs d r \<longleftrightarrow> (\<forall>(off, n) \<in> set (places r). ctl_fixed r (regs d off n) = ctl_expected r)"

text \<open>
  A contract: \<open>regs d off n\<close> is the content of the device; reads deliver it and change nothing, and a write
  changes no bit that is read-only and not implementation specific.
\<close>

definition ctl_device :: "'d dnvme \<Rightarrow> ('d \<Rightarrow> u16 \<Rightarrow> u16 \<Rightarrow> u64) \<Rightarrow> bool" where
  "ctl_device drv regs \<longleftrightarrow>
     (\<forall>r \<in> set ctl_table. \<forall>(off, n) \<in> set (places r). \<forall>acc buf d. length buf = 8 \<longrightarrow>
        (case io_read drv (mk_io NVMEIO_BAR01 off n acc) buf d of (rc, buf', d') \<Rightarrow>
           0 \<le> rc \<and> REGMASK (of_le buf') (unat n) = regs d off n \<and> regs d' = regs d)) \<and>
     (\<forall>r \<in> set ctl_table. \<forall>acc v d. ctl_size r \<le> MAX_SUPPORTED_REG_SIZE \<longrightarrow>
        (case io_write drv (mk_io NVMEIO_BAR01 (ctl_offset r) (ctl_size r) acc) (le64 v) d of (rc, d') \<Rightarrow>
           0 \<le> rc \<and> (\<forall>q \<in> set ctl_table. \<forall>(off, n) \<in> set (places q). ctl_fixed q (regs d' off n) = ctl_fixed q (regs d off n))))"

lemma ctl_deviceD:
  assumes "ctl_device drv regs" and "r \<in> set ctl_table"
  shows "(off, n) \<in> set (places r) \<Longrightarrow> length buf = 8 \<Longrightarrow> io_read drv (mk_io NVMEIO_BAR01 off n acc) buf d = (rc, buf', d') \<Longrightarrow>
      0 \<le> rc \<and> REGMASK (of_le buf') (unat n) = regs d off n \<and> regs d' = regs d"
    and "ctl_size r \<le> MAX_SUPPORTED_REG_SIZE \<Longrightarrow>
      io_write drv (mk_io NVMEIO_BAR01 (ctl_offset r) (ctl_size r) acc) (le64 v) d = (rc', d2) \<Longrightarrow>
      0 \<le> rc' \<and> (\<forall>q \<in> set ctl_table. fixed_ok regs d2 q = fixed_ok regs d q)"
proof -
  have dev: "\<forall>(off, n) \<in> set (places r). \<forall>acc buf d. length buf = 8 \<longrightarrow>
        (case io_read drv (mk_io NVMEIO_BAR01 off n acc) buf d of (rc, buf', d') \<Rightarrow>
           0 \<le> rc \<and> REGMASK (of_le buf') (unat n) = regs d off n \<and> regs d' = regs d)"
    and wr: "\<forall>acc v d. ctl_size r \<le> MAX_SUPPORTED_REG_SIZE \<longrightarrow>
        (case io_write drv (mk_io NVMEIO_BAR01 (ctl_offset r) (ctl_size r) acc) (le64 v) d of (rc, d') \<Rightarrow>
           0 \<le> rc \<and> (\<forall>q \<in> set ctl_table. \<forall>(off, n) \<in> set (places q). ctl_fixed q (regs d' off n) = ctl_fixed q (regs d off n)))"
    by (rule bspec [OF conjunct1 [OF assms(1) [unfolded ctl_device_def]] assms(2)],
      rule bspec [OF conjunct2 [OF assms(1) [unfolded ctl_device_def]] assms(2)])
  show "0 \<le> rc \<and> REGMASK (of_le buf') (unat n) = regs d off n \<and> regs d' = regs d"
    if "(off, n) \<in> set (places r)" "length buf = 8" "io_read drv (mk_io NVMEIO_BAR01 off n acc) buf d = (rc, buf', d')"
    using bspec [OF dev that(1), unfolded prod.case, THEN spec [of _ acc], THEN spec [of _ buf], THEN spec [of _ d], THEN mp, OF that(2)]
      that(3) by simp
  show "0 \<le> rc' \<and> (\<forall>q \<in> set ctl_table. fixed_ok regs d2 q = fixed_ok regs d q)"
    if "ctl_size r \<le> MAX_SUPPORTED_REG_SIZE" "io_write drv (mk_io NVMEIO_BAR01 (ctl_offset r) (ctl_size r) acc) (le64 v) d = (rc', d2)"
  proof -
    have "0 \<le> rc' \<and> (\<forall>q \<in> set ctl_table. \<forall>(off, n) \<in> set (places q). ctl_fixed q (regs d2 off n) = ctl_fixed q (regs d off n))"
      using wr [THEN spec [of _ acc], THEN spec [of _ v], THEN spec [of _ d], THEN mp, OF that(1)] unfolding that(2) prod.case .
    then have rc: "0 \<le> rc'" and same: "\<And>q. q \<in> set ctl_table \<Longrightarrow> \<forall>(off, n) \<in> set (places q). ctl_fixed q (regs d2 off n) = ctl_fixed q (regs d off n)"
      by simp_all
    have "fixed_ok regs d2 q = fixed_ok regs d q" if "q \<in> set ctl_table" for q
      unfolding fixed_ok_def using same [OF that] by (intro ball_cong [OF refl]) (auto dest: bspec)
    then show ?thesis using rc by simp
  qed
qed

lemma ctl_rows:
  assumes "j < CTLSPC_FENCE"
  shows "ctl_table ! j \<in> set ctl_table" and "ctl_offset (ctl_table ! j) \<noteq> USHRT_MAX"
    and "j \<noteq> CTLSPC_RES2 \<Longrightarrow> j \<noteq> CTLSPC_RES3 \<Longrightarrow> ctl_size (ctl_table ! j) \<le> MAX_SUPPORTED_REG_SIZE"
proof -
  show "ctl_table ! j \<in> set ctl_table" using assms by (simp add: length_ctl_table)
  have "list_all (\<lambda>r. ctl_offset r \<noteq> USHRT_MAX) ctl_table" by code_simp
  then show "ctl_offset (ctl_table ! j) \<noteq> USHRT_MAX" using assms by (simp add: list_all_length length_ctl_table)
  have "list_all (\<lambda>j. j = CTLSPC_RES2 \<or> j = CTLSPC_RES3 \<or> ctl_size (ctl_table ! j) \<le> 8) [0..<CTLSPC_FENCE]" by code_simp
  then show "j \<noteq> CTLSPC_RES2 \<Longrightarrow> j \<noteq> CTLSPC_RES3 \<Longrightarrow> ctl_size (ctl_table ! j) \<le> MAX_SUPPORTED_REG_SIZE"
    using assms by (auto simp: list_all_iff)
qed

text \<open>Only the driver's state has changed, and not the registers.\<close>

definition regs_kept :: "('d \<Rightarrow> u16 \<Rightarrow> u16 \<Rightarrow> u64) \<Rightarrow> ('d, 'm) registers_scheme \<Rightarrow> ('d, 'm) registers_scheme \<Rightarrow> bool" where
  "regs_kept regs s t \<longleftrightarrow> rg_ok t = rg_ok s \<and> regs (kern t) = regs (kern s)"

lemma rg_ok_kern [simp]: "rg_ok (s\<lparr>kern := d\<rparr>) = rg_ok s"
  by (simp add: rg_ok_def)

lemma read_reg:
  assumes dev: "ctl_device drv regs" and j: "j < CTLSPC_FENCE" "ctl_size (ctl_table ! j) \<le> MAX_SUPPORTED_REG_SIZE" and s: "rg_ok s"
  shows "\<exists>t. Registers_Read_ctl drv j v s = (Inr (True, regs (kern s) (ctl_offset (ctl_table ! j)) (ctl_size (ctl_table ! j))), t) \<and>
    regs_kept regs s t"
proof -
  let ?r = "ctl_table ! j" and ?io = "mk_io NVMEIO_BAR01 (ctl_offset (ctl_table ! j)) (ctl_size (ctl_table ! j)) (dflt_acc NVMEIO_BAR01)"
  obtain rc b d where rd: "io_read drv ?io (le64 v) (kern s) = (rc, b, d)" by (metis prod_cases3)
  have "(ctl_offset ?r, ctl_size ?r) \<in> set (places ?r)" using j(2) by (simp add: places_def)
  from ctl_deviceD(1) [OF dev ctl_rows(1) [OF j(1)] this _ rd]
  have io: "0 \<le> rc" "REGMASK (of_le b) (unat (ctl_size ?r)) = regs (kern s) (ctl_offset ?r) (ctl_size ?r)" "regs d = regs (kern s)"
    by simp_all
  have "j < length (rg_pci s)" "ValidSpecRev (pci_specRev (rg_pci s ! j)) s" "j < length ctl_table"
    using rg_ok_row [OF s, of j] j(1) by (simp_all add: length_ctl_table)
  then have "Registers_Read_ctl drv j v s = (Inr (True, regs (kern s) (ctl_offset ?r) (ctl_size ?r)), s\<lparr>kern := d\<rparr>)"
    using rd io ctl_rows(2) [OF j(1)] j(2)
    by (simp add: Registers_Read_ctl_def Registers_Read_value_def Let_def bnd_apply ioctl2_apply word_le_nat_alt not_less)
  then show ?thesis using io(3) by (simp add: regs_kept_def)
qed

lemma write_reg:
  assumes dev: "ctl_device drv regs" and j: "j < CTLSPC_FENCE" "ctl_size (ctl_table ! j) \<le> MAX_SUPPORTED_REG_SIZE" and s: "rg_ok s"
  shows "\<exists>t. Registers_Write_ctl drv j v s = (Inr True, t) \<and> rg_ok t \<and>
    (\<forall>q \<in> set ctl_table. fixed_ok regs (kern t) q = fixed_ok regs (kern s) q)"
proof -
  let ?r = "ctl_table ! j"
  obtain rc d where wr: "io_write drv (mk_io NVMEIO_BAR01 (ctl_offset ?r) (ctl_size ?r) (sized_acc NVMEIO_BAR01 (ctl_size ?r))) (le64 v) (kern s) = (rc, d)"
    by fastforce
  from ctl_deviceD(2) [OF dev ctl_rows(1) [OF j(1)] j(2) wr]
  have io: "0 \<le> rc" "\<forall>q \<in> set ctl_table. fixed_ok regs d q = fixed_ok regs (kern s) q" by simp_all
  have "j < length (rg_pci s)" "List.member (pci_specRev (rg_pci s ! j)) (rg_specRev s)" "j < length ctl_table"
    using rg_ok_row [OF s, of j] j(1) by (simp_all add: length_ctl_table ValidSpecRev_def)
  then have "Registers_Write_ctl drv j v s = (Inr True, s\<lparr>kern := d\<rparr>)"
    using wr io(1) ctl_rows(2) [OF j(1)] j(2)
    by (simp add: Registers_Write_ctl_def Registers_Write_value_def Let_def bnd_apply ioctl1_apply word_le_nat_alt not_less)
  then show ?thesis using io(2) s by simp
qed

lemma check_bits_run: "check_bits v v s = (Inr (), s)" "v \<noteq> e \<Longrightarrow> \<exists>x t. check_bits v e s = (Inl x, t)"
  by (auto simp: check_bits_def bnd_apply lift_result_def split: sum.splits)

lemma REGMASK_8 [simp]: "REGMASK v 8 = v"
  by (rule bit_word_eqI) (auto simp: bit_REGMASK)

lemma ctl_words_run:
  assumes dev: "ctl_device drv regs" and r: "r \<in> set ctl_table" "ctl_size r > MAX_SUPPORTED_REG_SIZE"
    and n: "k + n = (unat (ctl_size r) + 7) div 8"
  shows "if \<forall>i. k \<le> i \<and> i < k + n \<longrightarrow> ctl_fixed r (regs (kern s) (ctl_offset r + of_nat (8 * i)) 8) = ctl_expected r
    then \<exists>t. ctl_words drv r k n v s = (Inr (), t) \<and> regs_kept regs s t else \<exists>e t. ctl_words drv r k n v s = (Inl e, t)"
  using n
proof (induction n arbitrary: k v s)
  case 0
  then show ?case by (simp add: regs_kept_def)
next
  case (Suc n)
  let ?off = "ctl_offset r + of_nat (8 * k)"
  let ?x = "regs (kern s) ?off 8"
  obtain rc b d where rd: "io_read drv (mk_io NVMEIO_BAR01 ?off 8 (sized_acc NVMEIO_BAR01 8)) (le64 v) (kern s) = (rc, b, d)"
    by (metis prod_cases3)
  have "(?off, 8) \<in> set (places r)" using r(2) Suc.prems by (auto simp: places_def)
  from ctl_deviceD(1) [OF dev r(1) this _ rd] have io: "0 \<le> rc" "of_le b = ?x" "regs d = regs (kern s)" by simp_all
  then have rd': "Registers_Read_bytes drv NVMEIO_BAR01 8 ?off (le64 v) s = (Inr (True, b), s\<lparr>kern := d\<rparr>)"
    using rd by (simp add: Registers_Read_bytes_def bnd_apply ioctl2_apply not_less)
  have IH: "if \<forall>i. k + 1 \<le> i \<and> i < k + 1 + n \<longrightarrow> ctl_fixed r (regs (kern s) (ctl_offset r + of_nat (8 * i)) 8) = ctl_expected r
    then \<exists>t. ctl_words drv r (k + 1) n (ctl_fixed r ?x) (s\<lparr>kern := d\<rparr>) = (Inr (), t) \<and> regs_kept regs (s\<lparr>kern := d\<rparr>) t
    else \<exists>e t. ctl_words drv r (k + 1) n (ctl_fixed r ?x) (s\<lparr>kern := d\<rparr>) = (Inl e, t)"
    using Suc.IH [of "k + 1" "s\<lparr>kern := d\<rparr>" "ctl_fixed r ?x"] Suc.prems io(3) by simp
  show ?case
  proof (cases "ctl_fixed r ?x = ctl_expected r")
    case True
    have split: "(\<forall>i. k \<le> i \<and> i < k + Suc n \<longrightarrow> P i) \<longleftrightarrow> P k \<and> (\<forall>i. k + 1 \<le> i \<and> i < k + 1 + n \<longrightarrow> P i)" for P
    proof -
      have "{k..<k + Suc n} = insert k {k + 1..<k + 1 + n}" by auto
      then have "(\<forall>i \<in> {k..<k + Suc n}. P i) \<longleftrightarrow> P k \<and> (\<forall>i \<in> {k + 1..<k + 1 + n}. P i)" by simp
      then show ?thesis by (simp only: Ball_def atLeastLessThan_iff)
    qed
    have "ctl_words drv r k (Suc n) v s = ctl_words drv r (k + 1) n (ctl_fixed r ?x) (s\<lparr>kern := d\<rparr>)"
      using rd' io(2) True by (simp add: bnd_apply sq_apply throw_if_def check_bits_run)
    then have run: "ctl_words drv r k (Suc n) v s = ctl_words drv r (k + 1) n (ctl_fixed r ?x) (s\<lparr>kern := d\<rparr>)" .
    let ?P = "\<lambda>i. ctl_fixed r (regs (kern s) (ctl_offset r + of_nat (8 * i)) 8) = ctl_expected r"
    show ?thesis
    proof (cases "\<forall>i. k + 1 \<le> i \<and> i < k + 1 + n \<longrightarrow> ?P i")
      case rest: True
      then have all: "\<forall>i. k \<le> i \<and> i < k + Suc n \<longrightarrow> ?P i" using split [of ?P] True by blast
      have "\<exists>t. ctl_words drv r (k + 1) n (ctl_fixed r ?x) (s\<lparr>kern := d\<rparr>) = (Inr (), t) \<and> regs_kept regs (s\<lparr>kern := d\<rparr>) t"
        using IH unfolding if_P [OF rest] .
      then show ?thesis unfolding if_P [OF all] run using io(3) by (auto simp: regs_kept_def)
    next
      case rest: False
      then have all: "\<not> (\<forall>i. k \<le> i \<and> i < k + Suc n \<longrightarrow> ?P i)" using split [of ?P] by blast
      show ?thesis using IH unfolding if_not_P [OF rest] if_not_P [OF all] run .
    qed
  next
    case False
    then obtain e t where "check_bits (ctl_fixed r ?x) (ctl_expected r) (s\<lparr>kern := d\<rparr>) = (Inl e, t)"
      using check_bits_run(2) [OF False, of "s\<lparr>kern := d\<rparr>"] by blast
    then have run: "ctl_words drv r k (Suc n) v s = (Inl e, t)"
      using rd' io(2) by (simp add: bnd_apply sq_apply throw_if_def)
    have "\<not> (\<forall>i. k \<le> i \<and> i < k + Suc n \<longrightarrow> ctl_fixed r (regs (kern s) (ctl_offset r + of_nat (8 * i)) 8) = ctl_expected r)"
      using False by auto
    then show ?thesis unfolding run by (subst if_not_P) auto
  qed
qed

lemma validate_run:
  assumes dev: "ctl_device drv regs" and j: "j < CTLSPC_FENCE" and s: "rg_ok s"
  shows "if fixed_ok regs (kern s) (ctl_table ! j) then \<exists>t. ValidateCtlRegisterROAttribute drv j s = (Inr (), t) \<and> regs_kept regs s t
    else \<exists>e t. ValidateCtlRegisterROAttribute drv j s = (Inl e, t)"
proof (cases "ctl_size (ctl_table ! j) > MAX_SUPPORTED_REG_SIZE")
  case True
  then show ?thesis
    using ctl_words_run [OF dev ctl_rows(1) [OF j] True, of 0 "(unat (ctl_size (ctl_table ! j)) + 7) div 8" s 0]
    by (auto simp: ValidateCtlRegisterROAttribute_def fixed_ok_def places_def Let_def split: if_splits)
next
  case False
  then have sz: "ctl_size (ctl_table ! j) \<le> MAX_SUPPORTED_REG_SIZE" by simp
  let ?x = "regs (kern s) (ctl_offset (ctl_table ! j)) (ctl_size (ctl_table ! j))"
  obtain t where t: "Registers_Read_ctl drv j 0 s = (Inr (True, ?x), t)" "regs_kept regs s t"
    using read_reg [OF dev j sz s] by blast
  show ?thesis
    using False t check_bits_run(2) [of "ctl_fixed (ctl_table ! j) ?x" "ctl_expected (ctl_table ! j)" t]
    by (auto simp: ValidateCtlRegisterROAttribute_def Let_def fixed_ok_def places_def bnd_apply sq_apply throw_if_def check_bits_run(1))
qed

lemma ctl_all: "(\<forall>r \<in> set ctl_table. P r) \<longleftrightarrow> (\<forall>j \<in> set [0..<CTLSPC_FENCE]. P (ctl_table ! j))"
  using all_set_conv_all_nth [of ctl_table P] unfolding length_ctl_table by (auto simp: Ball_def)

section \<open>The whole test\<close>

lemma fixed_ok_kept: "regs_kept regs s t \<Longrightarrow> fixed_ok regs (kern t) = fixed_ok regs (kern s)"
  by (simp add: regs_kept_def fixed_ok_def fun_eq_iff)

lemma regs_kept_trans: "regs_kept regs s t \<Longrightarrow> regs_kept regs t u \<Longrightarrow> regs_kept regs s u"
  by (simp add: regs_kept_def)

text \<open>The registers of a revision that have to be right.\<close>

definition fixed_all :: "('d \<Rightarrow> u16 \<Rightarrow> u16 \<Rightarrow> u64) \<Rightarrow> SpecRev \<Rightarrow> 'd \<Rightarrow> nat list \<Rightarrow> bool" where
  "fixed_all regs rv d js \<longleftrightarrow> (\<forall>j \<in> set js. rv \<in> set (ctl_specRev (ctl_table ! j)) \<longrightarrow> fixed_ok regs d (ctl_table ! j))"

lemma default_loop_run:
  assumes dev: "ctl_device drv regs" and "\<forall>j \<in> set js. j < CTLSPC_FENCE" and "rg_ok s"
  shows "if fixed_all regs rv (kern s) js then \<exists>t. default_loop drv rv js s = (Inr (), t) \<and> regs_kept regs s t
    else \<exists>e t. default_loop drv rv js s = (Inl e, t)"
  using assms(2,3)
proof (induction js arbitrary: s)
  case Nil
  then show ?case by (simp add: fixed_all_def regs_kept_def)
next
  case (Cons j js)
  show ?case
  proof (cases "rv \<in> set (ctl_specRev (ctl_table ! j))")
    case False
    then show ?thesis using Cons.IH [of s] Cons.prems by (simp add: fixed_all_def)
  next
    case True
    show ?thesis
    proof (cases "fixed_ok regs (kern s) (ctl_table ! j)")
      case ok: True
      then obtain t where t: "ValidateCtlRegisterROAttribute drv j s = (Inr (), t)" "regs_kept regs s t"
        using validate_run [OF dev, of j s] Cons.prems by auto
      then have "rg_ok t" "fixed_all regs rv (kern t) js = fixed_all regs rv (kern s) js"
        using Cons.prems fixed_ok_kept [OF t(2)] by (simp_all add: regs_kept_def fixed_all_def)
      then show ?thesis
        using Cons.IH [of t] Cons.prems t True ok regs_kept_trans [OF t(2)] by (auto simp: fixed_all_def sq_apply split: if_splits)
    next
      case wrong: False
      then obtain e t where "ValidateCtlRegisterROAttribute drv j s = (Inl e, t)"
        using validate_run [OF dev, of j s] Cons.prems by auto
      then show ?thesis using True wrong by (auto simp: fixed_all_def sq_apply)
    qed
  qed
qed

lemma write_loop_run:
  assumes dev: "ctl_device drv regs" and "\<forall>j \<in> set js. j < CTLSPC_FENCE" and "rg_ok s" and "fixed_all regs rv (kern s) [0..<CTLSPC_FENCE]"
  shows "\<exists>t. write_loop drv rv js v s = (Inr (), t)"
  using assms(2-4)
proof (induction js arbitrary: s v)
  case Nil
  then show ?case by simp
next
  case (Cons j js)
  let ?r = "ctl_table ! j"
  show ?case
  proof (cases "rv \<in> set (ctl_specRev ?r) \<and> \<not> (j = CTLSPC_RES1 \<or> j = CTLSPC_RES2 \<or> j = CTLSPC_RES3)")
    case False
    then show ?thesis using Cons by auto
  next
    case True
    have j: "j < CTLSPC_FENCE" "ctl_size ?r \<le> MAX_SUPPORTED_REG_SIZE" using Cons.prems(1) True ctl_rows(3) [of j] by auto
    have step: "fixed_ok regs (kern u) ?r \<and> rg_ok u \<and> fixed_all regs rv (kern u) [0..<CTLSPC_FENCE]"
      if "rg_ok u" "\<forall>q \<in> set ctl_table. fixed_ok regs (kern u) q = fixed_ok regs (kern w) q" "fixed_all regs rv (kern w) [0..<CTLSPC_FENCE]"
      for u w :: "('a, 'b) registers_scheme"
      using that True j(1) ctl_rows(1) by (simp add: fixed_all_def)
    have vd: "\<exists>t. ValidateCtlRegisterROAttribute drv j u = (Inr (), t) \<and> rg_ok t \<and> fixed_all regs rv (kern t) [0..<CTLSPC_FENCE]"
      if "fixed_ok regs (kern u) ?r \<and> rg_ok u \<and> fixed_all regs rv (kern u) [0..<CTLSPC_FENCE]" for u :: "('a, 'b) registers_scheme"
      using validate_run [OF dev j(1), of u] that by (auto simp: regs_kept_def fixed_all_def fixed_ok_def)
    obtain x t1 where t1: "Registers_Read_ctl drv j v s = (Inr (True, x), t1)" "regs_kept regs s t1"
      using read_reg [OF dev j Cons.prems(2)] by blast
    have ok1: "rg_ok t1" "fixed_all regs rv (kern t1) [0..<CTLSPC_FENCE]"
      using t1(2) Cons.prems(2,3) fixed_ok_kept [OF t1(2)] by (simp_all add: regs_kept_def fixed_all_def)
    obtain t2 where t2: "Registers_Write_ctl drv j (x OR ctl_maskRO ?r) t1 = (Inr True, t2)"
        "fixed_ok regs (kern t2) ?r \<and> rg_ok t2 \<and> fixed_all regs rv (kern t2) [0..<CTLSPC_FENCE]"
      using write_reg [OF dev j ok1(1)] step ok1(2) by blast
    obtain t3 where t3: "ValidateCtlRegisterROAttribute drv j t2 = (Inr (), t3)" "rg_ok t3" "fixed_all regs rv (kern t3) [0..<CTLSPC_FENCE]"
      using vd [OF t2(2)] by blast
    obtain t4 where t4: "Registers_Write_ctl drv j (x AND NOT (ctl_maskRO ?r)) t3 = (Inr True, t4)"
        "fixed_ok regs (kern t4) ?r \<and> rg_ok t4 \<and> fixed_all regs rv (kern t4) [0..<CTLSPC_FENCE]"
      using write_reg [OF dev j t3(2)] step t3(3) by blast
    obtain t5 where t5: "ValidateCtlRegisterROAttribute drv j t4 = (Inr (), t5)" "rg_ok t5" "fixed_all regs rv (kern t5) [0..<CTLSPC_FENCE]"
      using vd [OF t4(2)] by blast
    have "write_loop drv rv (j # js) v s = write_loop drv rv js x t5"
      using True t1(1) t2(1) t3(1) t4(1) t5(1) by (simp add: bnd_apply sq_apply throw_if_def)
    then show ?thesis using Cons.IH [of t5 x] Cons.prems(1) t5(2,3) by simp
  qed
qed

section \<open>Examples\<close>

text \<open>A device with revision 1.0b registers; an implementation specific bit of CAP, bit 0, can be written, though it is read-only.\<close>

definition soft_regs :: "bool \<Rightarrow> u16 \<Rightarrow> u16 \<Rightarrow> u64" where
  "soft_regs d off n = (if off = 0 \<and> n = 8 then of_bool d else if off = 8 \<and> n = 4 then 0x10000 else 0)"

definition soft_dnvme :: "bool dnvme" where
  "soft_dnvme = null_dnvme\<lparr>
     io_read := (\<lambda>io buf d. (0, le64 (soft_regs d (io_offset io) (io_nBytes io)), d)),
     io_write := (\<lambda>io buf d. (0, if io_offset io = 0 then odd (unat (hd buf)) else d)),
     io_device_state := (\<lambda>st d. (0, d))\<rparr>"

lemma of_le_le64 [simp]: "of_le (le64 v) = v"
proof -
  have "of_le (map (\<lambda>i. ucast (drop_bit (8 * i) v)) [k..<8]) = drop_bit (8 * k) v" if "k \<le> 8" for k
    using that
  proof (induction "8 - k" arbitrary: k)
    case 0
    then have "drop_bit 64 v = 0" by (intro bit_word_eqI) (auto simp: bit_simps dest: bit_imp_le_length)
    then show ?case using 0 by simp
  next
    case (Suc n)
    then have up: "[k..<8] = k # [k + 1..<8]" by (simp add: upt_rec)
    have "ucast (ucast (drop_bit (8 * k) v) :: u8) OR push_bit 8 (drop_bit (8 * (k + 1)) v) = drop_bit (8 * k) v"
    proof (rule bit_word_eqI)
      fix n :: nat assume "n < LENGTH(64)"
      moreover have "\<not> n < 8 \<Longrightarrow> 8 + 8 * k + (n - 8) = 8 * k + n" by simp
      ultimately show "bit (ucast (ucast (drop_bit (8 * k) v) :: u8) OR push_bit 8 (drop_bit (8 * (k + 1)) v)) n = bit (drop_bit (8 * k) v) n"
        by (cases "n < 8") (auto simp: bit_simps dest: bit_imp_le_length)
    qed
    then show ?case using Suc.hyps(1) [of "k + 1"] Suc.hyps(2) Suc.prems unfolding up by simp
  qed
  from this [of 0] show ?thesis by (simp add: le64_def)
qed

lemma large_zero:
  assumes "r \<in> set ctl_table" "ctl_size r > MAX_SUPPORTED_REG_SIZE" "(off, n) \<in> set (places r)"
  shows "soft_regs d off n = 0" and "ctl_expected r = 0"
proof -
  have rows: "list_all (\<lambda>r. ctl_size r \<le> 8 \<or> ctl_offset r = 0x38 \<and> ctl_size r = 3784 \<and> ctl_dfltValue r = 0 \<or>
      ctl_offset r = 0xf00 \<and> ctl_size r = 256 \<and> ctl_dfltValue r = 0) ctl_table"
    by code_simp
  then have r: "ctl_offset r = 0x38 \<and> ctl_size r = 3784 \<or> ctl_offset r = 0xf00 \<and> ctl_size r = 256" "ctl_dfltValue r = 0"
    using assms(1,2) by (auto simp: list_all_iff)
  obtain k where off: "off = ctl_offset r + of_nat (8 * k)" "n = 8" and k: "k < (unat (ctl_size r) + 7) div 8"
    using assms(2,3) by (auto simp: places_def)
  have lt: "unat (ctl_offset r) + 8 * k < 2 ^ 16" "0 < unat (ctl_offset r)" using r(1) k by auto
  have sum: "unat (b + of_nat m) = unat b + m" if "unat b + m < 2 ^ 16" for b :: u16 and m
    using that by (subst unat_add_lem [THEN iffD1]) (simp_all add: unat_of_nat take_bit_nat_eq_self)
  have "unat off \<noteq> 0" unfolding off(1) sum [OF lt(1)] using lt(2) by simp
  then show "soft_regs d off n = 0" using off(2) by (auto simp: soft_regs_def)
  show "ctl_expected r = 0" using r(2) by (simp add: ctl_expected_def)
qed

lemma soft_small:
  "list_all (\<lambda>r. ctl_size r > 8 \<or> ctl_fixed r (soft_regs True (ctl_offset r) (ctl_size r)) = ctl_fixed r (soft_regs False (ctl_offset r) (ctl_size r)) \<and>
    (SPECREV_10b \<in> set (ctl_specRev r) \<longrightarrow> ctl_fixed r (soft_regs False (ctl_offset r) (ctl_size r)) = ctl_expected r)) ctl_table"
  by code_simp

lemma soft_fixed: "fixed_all soft_regs SPECREV_10b False [0..<CTLSPC_FENCE]"
proof -
  have "fixed_ok soft_regs False r" if r: "r \<in> set ctl_table" "SPECREV_10b \<in> set (ctl_specRev r)" for r
  proof (cases "ctl_size r > 8")
    case True
    then show ?thesis using large_zero [OF r(1) True] by (auto simp: fixed_ok_def ctl_fixed_def)
  next
    case False
    then show ?thesis using soft_small r by (auto simp: fixed_ok_def places_def list_all_iff)
  qed
  then show ?thesis using ctl_rows(1) by (simp add: fixed_all_def)
qed

lemma soft_device: "ctl_device soft_dnvme soft_regs"
proof -
  have m: "REGMASK (soft_regs d off n) (unat n) = soft_regs d off n" for d off n
  proof -
    have "REGMASK 0x10000 4 = 0x10000" "REGMASK 0 k = 0" for k by (code_simp, simp add: REGMASK_def)
    then show ?thesis using REGMASK_8 by (auto simp: soft_regs_def)
  qed
  have f: "ctl_fixed r (soft_regs d' off n) = ctl_fixed r (soft_regs d off n)" if r: "r \<in> set ctl_table" "(off, n) \<in> set (places r)" for r off n d d'
  proof (cases "ctl_size r > 8")
    case True
    then show ?thesis using large_zero [OF r(1) True r(2)] by simp
  next
    case False
    then have "ctl_fixed r (soft_regs True off n) = ctl_fixed r (soft_regs False off n)"
      using soft_small r by (auto simp: places_def list_all_iff)
    then show ?thesis by (cases d; cases d') simp_all
  qed
  show ?thesis
    unfolding ctl_device_def by (auto simp: soft_dnvme_def null_dnvme_def mk_io_def m intro!: f)
qed

definition soft_env :: "bool device_env" where
  "soft_env = \<lparr>su_libc = ex_libc, su_drv = soft_dnvme, su_fuel = 1, su_masks = ex_masks, su_fs = ex_fs, su_fd = 3\<rparr>"

definition soft_world :: "bool world" where
  "soft_world = \<lparr>kern = False, mmaps = (\<lambda>_. []), rg_specRev = SPECREV_10b, rg_pciCap = [],
     rg_pci = pci_table, cf_curState = ST_DISABLE, cf_firstTime = True, cf_deltaCheck = False,
     mr_allocSize = 0, mr_reserved = [], mr_released = [], mObjGrpLife = [], ob_heap = 0,
     wd_bufs = (\<lambda>_. MemBuffer_new), wd_next = 1, mIdentifyCmdCtrlr = None, mIdentifyCmdNamspc = [], mGetFeaturesNumOfQ = 0\<rparr>"

lemma soft_disable:
  "\<exists>w1. set_state soft_env ST_DISABLE_COMPLETELY soft_world = (Inr True, w1) \<and> rg_ok w1 \<and> \<not> kern w1"
proof -
  have "fst (set_state soft_env ST_DISABLE_COMPLETELY soft_world) = Inr True" by code_simp
  moreover have "rg_ok (snd (set_state soft_env ST_DISABLE_COMPLETELY soft_world))" by code_simp
  moreover have "\<not> kern (snd (set_state soft_env ST_DISABLE_COMPLETELY soft_world))" by code_simp
  ultimately show ?thesis by (metis prod.collapse)
qed

section \<open>Properties\<close>



text \<open>What a reset has to leave in a register.\<close>

definition reset_ok :: "('d \<Rightarrow> u16 \<Rightarrow> u16 \<Rightarrow> u64) \<Rightarrow> (nat \<rightharpoonup> u64) \<Rightarrow> 'd \<Rightarrow> nat \<Rightarrow> bool" where
  "reset_ok regs m d j \<longleftrightarrow>
     (let r = ctl_table ! j; x = regs d (ctl_offset r) (ctl_size r) in
      if j = CTLSPC_AQA \<or> j = CTLSPC_ASQ \<or> j = CTLSPC_ACQ then x = map_at m j else x AND NOT (ctl_maskRO r) = 0)"

definition reset_checked :: "SpecRev \<Rightarrow> nat \<Rightarrow> bool" where
  "reset_checked rv j \<longleftrightarrow> rv \<in> set (ctl_specRev (ctl_table ! j)) \<and> j \<noteq> CTLSPC_RES1 \<and> j \<noteq> CTLSPC_RES2 \<and> j \<noteq> CTLSPC_RES3"

lemma reset_loop_run:
  assumes dev: "ctl_device drv regs" and "\<forall>j \<in> set js. j < CTLSPC_FENCE" and "rg_ok s"
  shows "(\<exists>t. reset_loop drv rv m js v s = (Inr (), t)) \<longleftrightarrow> (\<forall>j \<in> set js. reset_checked rv j \<longrightarrow> reset_ok regs m (kern s) j)"
  using assms(2,3)
proof (induction js arbitrary: s v)
  case Nil
  then show ?case by simp
next
  case (Cons j js)
  show ?case
  proof (cases "reset_checked rv j")
    case False
    then show ?thesis using Cons.IH [of s v] Cons.prems by (auto simp: reset_checked_def)
  next
    case True
    let ?r = "ctl_table ! j"
    let ?x = "regs (kern s) (ctl_offset ?r) (ctl_size ?r)"
    have j: "j < CTLSPC_FENCE" "ctl_size ?r \<le> MAX_SUPPORTED_REG_SIZE"
      using Cons.prems(1) True ctl_rows(3) [of j] by (auto simp: reset_checked_def)
    obtain t where t: "Registers_Read_ctl drv j v s = (Inr (True, ?x), t)" "regs_kept regs s t"
      using read_reg [OF dev j Cons.prems(2)] by blast
    have IH: "(\<exists>u. reset_loop drv rv m js w t = (Inr (), u)) \<longleftrightarrow> (\<forall>i \<in> set js. reset_checked rv i \<longrightarrow> reset_ok regs m (kern s) i)" for w
      using Cons.IH [of t w] Cons.prems t(2) by (simp add: regs_kept_def reset_ok_def Let_def)
    have sel: "rv \<in> set (ctl_specRev ?r)" "\<not> (j = CTLSPC_RES1 \<or> j = CTLSPC_RES2 \<or> j = CTLSPC_RES3)"
      using True by (simp_all add: reset_checked_def)
    show ?thesis
    proof (cases "reset_ok regs m (kern s) j")
      case ok: True
      then have "\<exists>w. reset_loop drv rv m (j # js) v s = reset_loop drv rv m js w t"
        using sel t(1) by (auto simp: reset_ok_def Let_def bnd_apply sq_apply throw_if_def check_bits_run(1) split: if_splits)
      then show ?thesis using IH ok by (metis set_ConsD list.set_intros)
    next
      case wrong: False
      then have "\<exists>e u. reset_loop drv rv m (j # js) v s = (Inl e, u)"
        using sel t(1) check_bits_run(2) [of "?x AND NOT (ctl_maskRO ?r)" 0 t]
        by (auto simp: reset_ok_def Let_def bnd_apply sq_apply throw_if_def split: if_splits)
      then show ?thesis using wrong True by auto
    qed
  qed
qed



end
