(* ===== verification/Pci_Reg_Tests.thy ===== *)
theory Pci_Reg_Tests
  imports Ctrl_Reg_Tests Conformant
begin

text \<open>
  The test of the PCI registers (GrpPciRegisters/allPciRegs_r10b.cpp). The driver's enumeration constant
  \<open>DWORD_LEN\<close>, which the test uses as a number of bytes, is the parameter \<open>W\<close>, a positive number.
\<close>

section \<open>One register\<close>

definition pci_fixed :: "PciSpcType \<Rightarrow> u64 \<Rightarrow> u64" where
  "pci_fixed r val = val AND NOT (pci_impSpec r) AND pci_maskRO r"

definition pci_expected :: "PciSpcType \<Rightarrow> u64" where
  "pci_expected r = pci_dfltValue r AND pci_maskRO r"

text \<open>A mismatch is logged; the result is what \<open>result\<close> is combined with.\<close>

definition compare_bits :: "u64 \<Rightarrow> u64 \<Rightarrow> ('w, bool) prog" where
  "compare_bits val expectedValue =
     (if val \<noteq> expectedValue then bnd (lift_result (ReportOffendingBitPos val expectedValue)) (\<lambda>_. ret False) else ret True)"

definition conj_with :: "bool \<Rightarrow> ('w, bool) prog \<Rightarrow> ('w, bool) prog" where
  "conj_with result m = bnd m (\<lambda>b. ret (result \<and> b))"

text \<open>How often \<open>k * W\<close> is below the size.\<close>

definition n_words :: "nat \<Rightarrow> PciSpcType \<Rightarrow> nat" where
  "n_words W r = (unat (pci_size r) + W - 1) div W"

fun cap_words :: "'d dnvme \<Rightarrow> nat \<Rightarrow> PciSpcType \<Rightarrow> nat \<Rightarrow> nat \<Rightarrow> u64 \<Rightarrow> bool \<Rightarrow> (('d, 'm) registers_scheme, bool) prog" where
  "cap_words drv W r k 0 val result = ret result"
| "cap_words drv W r k (Suc n) val result =
     bnd (Registers_Read_bytes drv NVMEIO_PCI_HDR (of_nat W) (pci_offset r + of_nat (k * W)) (le64 val)) (\<lambda>(ok, buf).
     sq (throw_if (\<not> ok) (FrmwkEx []))
    (bnd (conj_with result (compare_bits (pci_fixed r (of_le buf)) (pci_expected r))) (\<lambda>result.
         cap_words drv W r (k + 1) n (pci_fixed r (of_le buf)) result)))"

definition PXLCAP_ASPMS :: u64 where "PXLCAP_ASPMS = 0xc00"
definition PXLCAP_AOC :: u64 where "PXLCAP_AOC = 0x400000"
definition PXLCAP_ASPM_DEFAULT :: u64 where "PXLCAP_ASPM_DEFAULT = 0x400000"

definition link_caps :: "nat \<Rightarrow> u64 \<Rightarrow> bool" where
  "link_caps reg val \<longleftrightarrow> reg = PCISPC_PXLCAP \<and> val AND PXLCAP_ASPMS \<noteq> 0"

definition ValidatePciCapRegisterROAttribute ::
  "'d dnvme \<Rightarrow> nat \<Rightarrow> nat \<Rightarrow> (('d, 'm) registers_scheme, bool) prog" where
  "ValidatePciCapRegisterROAttribute drv W reg =
     bnd (gets (\<lambda>s. rg_pci s ! reg)) (\<lambda>r.
     if pci_size r > MAX_SUPPORTED_REG_SIZE then cap_words drv W r 0 (n_words W r) 0 True
     else bnd (Registers_Read_pci drv reg 0) (\<lambda>(ok, val).
          sq (throw_if (\<not> ok) (FrmwkEx []))
         (if link_caps reg val
          then compare_bits (val AND (NOT (pci_impSpec r) OR PXLCAP_AOC) AND pci_maskRO r)
                 ((pci_dfltValue r OR PXLCAP_ASPM_DEFAULT) AND pci_maskRO r)
          else compare_bits (pci_fixed r val) (pci_expected r))))"

text \<open>The value of BAR2 depends on CMD.\<close>

definition CMD_IOSE :: u64 where "CMD_IOSE = 1"

definition compare_hdr :: "libc \<Rightarrow> 'd dnvme \<Rightarrow> nat \<Rightarrow> u64 \<Rightarrow> u64 \<Rightarrow> (('d, 'm) registers_scheme, bool) prog" where
  "compare_hdr C drv reg val expectedValue =
     (if reg = PCISPC_BAR2
      then bnd (Registers_Read_pci drv PCISPC_CMD (undef64 C)) (\<lambda>(ok, cmdReg).
           sq (throw_if (\<not> ok) (FrmwkEx []))
              (compare_bits val (if cmdReg AND CMD_IOSE \<noteq> 0 then expectedValue else 0)))
      else compare_bits val expectedValue)"

fun hdr_words :: "libc \<Rightarrow> 'd dnvme \<Rightarrow> nat \<Rightarrow> PciSpcType \<Rightarrow> nat \<Rightarrow> nat \<Rightarrow> u64 \<Rightarrow> bool \<Rightarrow> (('d, 'm) registers_scheme, bool) prog" where
  "hdr_words C drv reg r k 0 val result = ret result"
| "hdr_words C drv reg r k (Suc n) val result =
     bnd (Registers_Read_bytes drv NVMEIO_PCI_HDR 8 (pci_offset r + of_nat (k * 8)) (le64 val)) (\<lambda>(ok, buf).
     sq (throw_if (\<not> ok) (FrmwkEx []))
    (bnd (conj_with result (compare_hdr C drv reg (pci_fixed r (of_le buf)) (pci_expected r))) (\<lambda>result.
         hdr_words C drv reg r (k + 1) n (pci_fixed r (of_le buf)) result)))"

definition ValidatePciHdrRegisterROAttribute :: "libc \<Rightarrow> 'd dnvme \<Rightarrow> nat \<Rightarrow> (('d, 'm) registers_scheme, bool) prog" where
  "ValidatePciHdrRegisterROAttribute C drv reg =
     bnd (gets (\<lambda>s. rg_pci s ! reg)) (\<lambda>r.
     if pci_size r > MAX_SUPPORTED_REG_SIZE then hdr_words C drv reg r 0 (n_words 8 r) (undef64 C) True
     else bnd (Registers_Read_pci drv reg (undef64 C)) (\<lambda>(ok, val).
          sq (throw_if (\<not> ok) (FrmwkEx [])) (compare_hdr C drv reg (pci_fixed r val) (pci_expected r))))"

section \<open>Default values\<close>

text \<open>Both validations visit the registers without a capability, and then, for each capability found, its registers.\<close>

definition visited :: "SpecRev \<Rightarrow> PciCapabilities \<Rightarrow> ('d, 'm) registers_scheme \<Rightarrow> nat list" where
  "visited rv cap s = filter (\<lambda>j. rv \<in> set (pci_specRev (rg_pci s ! j)) \<and> pci_cap (rg_pci s ! j) = cap) [0..<PCISPC_FENCE]"

fun check_all :: "(nat \<Rightarrow> ('w, bool) prog) \<Rightarrow> nat list \<Rightarrow> bool \<Rightarrow> ('w, bool) prog" where
  "check_all f [] result = ret result"
| "check_all f (j # js) result = bnd (conj_with result (f j)) (\<lambda>result. check_all f js result)"

fun over_caps :: "SpecRev \<Rightarrow> (nat \<Rightarrow> (('d, 'm) registers_scheme, bool) prog) \<Rightarrow> PciCapabilities list \<Rightarrow> bool
    \<Rightarrow> (('d, 'm) registers_scheme, bool) prog" where
  "over_caps rv f [] result = ret result"
| "over_caps rv f (cap # caps) result =
     bnd (gets (visited rv cap)) (\<lambda>js. bnd (check_all f js result) (\<lambda>result. over_caps rv f caps result))"

definition ValidateDefaultValues_pci :: "libc \<Rightarrow> 'd dnvme \<Rightarrow> nat \<Rightarrow> SpecRev \<Rightarrow> (('d, 'm) registers_scheme, bool) prog" where
  "ValidateDefaultValues_pci C drv W rv =
     bnd (gets (visited rv PCICAP_FENCE)) (\<lambda>js.
     bnd (check_all (ValidatePciHdrRegisterROAttribute C drv) js True) (\<lambda>result.
     bnd (gets rg_pciCap) (\<lambda>caps. over_caps rv (ValidatePciCapRegisterROAttribute drv W) caps result)))"

section \<open>Writing\<close>

text \<open>
  A register that is larger than a variable is read and written in words; \<open>tmp\<close> is the 32-bit variable
  \<open>tmpValue\<close>. A shift by the width of the type, or more, is undefined. What a variable holds before it is read into is
  arbitrary, as for one that is not initialised.
\<close>

fun read_wide :: "'d dnvme \<Rightarrow> nat \<Rightarrow> PciSpcType \<Rightarrow> nat \<Rightarrow> nat \<Rightarrow> u64 \<Rightarrow> u32 \<Rightarrow> (('d, 'm) registers_scheme, u64) prog" where
  "read_wide drv W r k 0 origValue tmp = ret origValue"
| "read_wide drv W r k (Suc n) origValue tmp =
     bnd (Registers_Read_bytes drv NVMEIO_PCI_HDR (of_nat W) (pci_offset r + of_nat (k * W)) (le32 (ucast tmp))) (\<lambda>(ok, buf).
     sq (throw_if (\<not> ok) (FrmwkEx []))
    (sq (throw_if (k * W * 8 \<ge> 32) (UB ''shift by the width''))
        (read_wide drv W r (k + 1) n (origValue OR ucast (push_bit (k * W * 8) (ucast (of_le buf) :: u32))) (ucast (of_le buf)))))"

fun write_wide :: "'d dnvme \<Rightarrow> nat \<Rightarrow> PciSpcType \<Rightarrow> nat \<Rightarrow> nat \<Rightarrow> u64 \<Rightarrow> (('d, 'm) registers_scheme, unit) prog" where
  "write_wide drv W r k 0 val = ret ()"
| "write_wide drv W r k (Suc n) val =
     sq (throw_if (k * W * 8 \<ge> 64) (UB ''shift by the width''))
    (bnd (Registers_Write_bytes drv NVMEIO_PCI_HDR (of_nat W) (pci_offset r + of_nat (k * W))
            (le32 (drop_bit (k * W * 8) val))) (\<lambda>ok.
     sq (throw_if (\<not> ok) (FrmwkEx [])) (write_wide drv W r (k + 1) n val)))"

definition read_any :: "libc \<Rightarrow> 'd dnvme \<Rightarrow> nat \<Rightarrow> nat \<Rightarrow> (('d, 'm) registers_scheme, u64) prog" where
  "read_any C drv W reg =
     bnd (gets (\<lambda>s. rg_pci s ! reg)) (\<lambda>r.
     if pci_size r > MAX_SUPPORTED_REG_SIZE then read_wide drv W r 0 (n_words W r) 0 (ucast (undef64 C))
     else bnd (Registers_Read_pci drv reg (undef64 C)) (\<lambda>(ok, origValue). sq (throw_if (\<not> ok) (FrmwkEx [])) (ret origValue)))"

definition write_any :: "'d dnvme \<Rightarrow> nat \<Rightarrow> nat \<Rightarrow> u64 \<Rightarrow> (('d, 'm) registers_scheme, unit) prog" where
  "write_any drv W reg val =
     bnd (gets (\<lambda>s. rg_pci s ! reg)) (\<lambda>r.
     if pci_size r > MAX_SUPPORTED_REG_SIZE then write_wide drv W r 0 (n_words W r) val
     else bnd (Registers_Write_pci drv reg val) (\<lambda>ok. throw_if (\<not> ok) (FrmwkEx [])))"

definition rewrite_hdr :: "libc \<Rightarrow> 'd dnvme \<Rightarrow> nat \<Rightarrow> (('d, 'm) registers_scheme, bool) prog" where
  "rewrite_hdr C drv j =
     (if j = PCISPC_RES0 \<or> j = PCISPC_RES1 then ret True
      else bnd (gets (\<lambda>s. pci_maskRO (rg_pci s ! j))) (\<lambda>ro.
           bnd (Registers_Read_pci drv j (undef64 C)) (\<lambda>(ok, origValue).
           sq (throw_if (\<not> ok) (FrmwkEx []))
          (bnd (Registers_Write_pci drv j (origValue OR ro)) (\<lambda>ok.
           sq (throw_if (\<not> ok) (FrmwkEx []))
          (bnd (ValidatePciHdrRegisterROAttribute C drv j) (\<lambda>a.
           bnd (Registers_Write_pci drv j (origValue AND NOT ro)) (\<lambda>ok.
           sq (throw_if (\<not> ok) (FrmwkEx []))
          (bnd (ValidatePciHdrRegisterROAttribute C drv j) (\<lambda>b. ret (a \<and> b)))))))))))"

definition rewrite_cap :: "libc \<Rightarrow> 'd dnvme \<Rightarrow> nat \<Rightarrow> nat \<Rightarrow> (('d, 'm) registers_scheme, bool) prog" where
  "rewrite_cap C drv W j =
     (if j = PCISPC_RES0 \<or> j = PCISPC_RES1 then ret True
      else bnd (gets (\<lambda>s. pci_maskRO (rg_pci s ! j))) (\<lambda>ro.
           bnd (read_any C drv W j) (\<lambda>origValue.
           sq (write_any drv W j (origValue OR ro))
          (bnd (ValidatePciCapRegisterROAttribute drv W j) (\<lambda>a.
           bnd (read_any C drv W j) (\<lambda>origValue.
           sq (write_any drv W j (origValue AND NOT ro))
          (bnd (ValidatePciCapRegisterROAttribute drv W j) (\<lambda>b. ret (a \<and> b)))))))))"

definition ValidateROBitsAfterWriting_pci :: "libc \<Rightarrow> 'd dnvme \<Rightarrow> nat \<Rightarrow> SpecRev \<Rightarrow> (('d, 'm) registers_scheme, bool) prog" where
  "ValidateROBitsAfterWriting_pci C drv W rv =
     bnd (gets (visited rv PCICAP_FENCE)) (\<lambda>js.
     bnd (check_all (rewrite_hdr C drv) js True) (\<lambda>result.
     bnd (gets rg_pciCap) (\<lambda>caps. over_caps rv (rewrite_cap C drv W) caps result)))"

definition AllPciRegs_r10b_RunCoreTest :: "'d device_env \<Rightarrow> nat \<Rightarrow> ('x test_obj_scheme \<times> ('d, 'm) world_scheme, unit) prog" where
  "AllPciRegs_r10b_RunCoreTest E W =
     bnd (onr (set_state E ST_DISABLE_COMPLETELY)) (\<lambda>ok.
     sq (throw_if (\<not> ok) (FrmwkEx []))
    (bnd (gets (\<lambda>(t, w). mSpecRev t)) (\<lambda>rv.
     bnd (onr (ValidateDefaultValues_pci (su_libc E) (su_drv E) W rv)) (\<lambda>a.
     bnd (onr (ValidateROBitsAfterWriting_pci (su_libc E) (su_drv E) W rv)) (\<lambda>b.
     throw_if (\<not> (a \<and> b)) (FrmwkEx ''Test failed, check log for specific bit errors.''))))))"

section \<open>What stays\<close>

lemma pci_access_keeps [wf_intros]:
  "keeps (only_kern s) (Registers_Read_bytes drv spc n off buf)" "keeps (only_kern s) (Registers_Write_bytes drv spc n off buf)"
  unfolding Registers_Read_bytes_def Registers_Write_bytes_def by (auto intro!: wf_intros)

lemma Read_pci_keeps [wf_intros]: "keeps (only_kern s) (Registers_Read_pci drv reg v)"
  by (subst keeps_def) (auto simp: Registers_Read_pci_def Let_def intro: keepsD [OF Read_value_keeps])

lemma Write_pci_keeps [wf_intros]: "keeps (only_kern s) (Registers_Write_pci drv reg v)"
  by (subst keeps_def) (auto simp: Registers_Write_pci_def Let_def intro: keepsD [OF Write_value_keeps])

lemma compare_keeps [wf_intros]:
  "keeps (only_kern s) (compare_bits v e)" "keeps (only_kern s) (compare_hdr C drv reg v e)"
  by (auto simp: compare_bits_def compare_hdr_def intro!: wf_intros)

lemma conj_with_keeps [wf_intros]: "keeps I m \<Longrightarrow> keeps I (conj_with b m)"
  by (auto simp: conj_with_def intro!: wf_intros)

lemma words_keep [wf_intros]:
  "keeps (only_kern s) (cap_words drv W r k n v b)" "keeps (only_kern s) (hdr_words C drv reg r k n v b)"
  "keeps (only_kern s) (read_wide drv W r k n x t)" "keeps (only_kern s) (write_wide drv W r k n x)"
  by (induction n arbitrary: k v b x t) (auto intro!: wf_intros)

lemma validation_keeps [wf_intros]:
  "keeps (only_kern s) (ValidatePciCapRegisterROAttribute drv W reg)" "keeps (only_kern s) (ValidatePciHdrRegisterROAttribute C drv reg)"
  by (auto simp: ValidatePciCapRegisterROAttribute_def ValidatePciHdrRegisterROAttribute_def intro!: wf_intros)

lemma any_keeps [wf_intros]:
  "keeps (only_kern s) (read_any C drv W reg)" "keeps (only_kern s) (write_any drv W reg x)"
  by (auto simp: read_any_def write_any_def intro!: wf_intros)

lemma rewrite_keeps [wf_intros]: "keeps (only_kern s) (rewrite_hdr C drv reg)" "keeps (only_kern s) (rewrite_cap C drv W reg)"
  by (auto simp: rewrite_hdr_def rewrite_cap_def intro!: wf_intros)

lemma check_all_keeps [wf_intros]: "(\<And>j. keeps I (f j)) \<Longrightarrow> keeps I (check_all f js b)"
  by (induction js arbitrary: b) (auto intro!: wf_intros)

lemma over_caps_keeps [wf_intros]: "(\<And>j. keeps I (f j)) \<Longrightarrow> keeps I (over_caps rv f caps b)"
  by (induction caps arbitrary: b) (auto intro!: wf_intros)

lemma default_values_keep: "keeps (only_kern s) (ValidateDefaultValues_pci C drv W rv)"
  unfolding ValidateDefaultValues_pci_def by (auto intro!: wf_intros)

section \<open>The header log of the advanced error reporting\<close>

text \<open>A program that never returns normally from the states of \<open>I\<close>.\<close>

definition aborts :: "('w \<Rightarrow> bool) \<Rightarrow> ('w, 'a) prog \<Rightarrow> bool" where
  "aborts I m \<longleftrightarrow> (\<forall>s. I s \<longrightarrow> (\<forall>x t. m s \<noteq> (Inr x, t)))"

lemma aborts_bnd1: "aborts I m \<Longrightarrow> aborts I (bnd m k)"
  by (auto simp: aborts_def bnd_Inr_iff)

lemma aborts_bnd2:
  assumes "keeps I m" and "\<And>x. aborts I (k x)"
  shows "aborts I (bnd m k)"
proof -
  have "bnd m k s \<noteq> (Inr x, t)" if "I s" for s x t
    using assms(2) keepsD [OF assms(1) that] by (auto simp: aborts_def bnd_Inr_iff)
  then show ?thesis by (simp add: aborts_def)
qed

lemma aborts_gets: "(\<And>s. I s \<Longrightarrow> aborts I (k (g s))) \<Longrightarrow> aborts I (bnd (gets g) k)"
  by (auto simp: aborts_def bnd_Inr_iff gets_def)

lemma aborts_frame: "(\<And>s. I s \<Longrightarrow> aborts (only_kern s) m) \<Longrightarrow> aborts I m"
  unfolding aborts_def by (meson only_kern_refl)

lemma read_wide_shifts:
  assumes "read_wide drv W r k n x v s = (Inr y, t)" and "i < n"
  shows "(k + i) * W * 8 < 32"
  using assms
proof (induction n arbitrary: k x v s i)
  case (Suc n k x v s i)
  then obtain x' v' s' where s: "k * W * 8 < 32" "read_wide drv W r (k + 1) n x' v' s' = (Inr y, t)"
    by (fastforce simp: bnd_Inr_iff sq_Inr_iff throw_if_def split: if_splits prod.splits)
  note IH = Suc.IH and less = Suc.prems(2)
  show ?case
  proof (cases i)
    case 0
    then show ?thesis using s(1) by simp
  next
    case (Suc j)
    then show ?thesis using IH [OF s(2), of j] less by simp
  qed
qed simp

lemma wide_aborts:
  assumes "pci_size r = 16" and "0 < W" and "W \<le> 8"
  shows "aborts I (read_wide drv W r 0 (n_words W r) x v)"
proof -
  define i where "i = (3 + W) div W"
  have "W = 1 \<or> W = 2 \<or> W = 3 \<or> W = 4 \<or> W = 5 \<or> W = 6 \<or> W = 7 \<or> W = 8" using assms(2,3) by arith
  then have "i < n_words W r \<and> \<not> (0 + i) * W * 8 < 32"
    using assms(1) by (elim disjE) (simp_all add: i_def n_words_def)
  then show ?thesis using read_wide_shifts unfolding aborts_def by blast
qed

text \<open>The table as it is after the discovery of the capabilities: only offsets of rows have been written.\<close>

definition tabled :: "(PciCapabilities list \<Rightarrow> bool) \<Rightarrow> ('d, 'm) registers_scheme \<Rightarrow> bool" where
  "tabled P s \<longleftrightarrow> P (rg_pciCap s) \<and> map (\<lambda>r. r\<lparr>pci_offset := 0\<rparr>) (rg_pci s) = map (\<lambda>r. r\<lparr>pci_offset := 0\<rparr>) pci_table"

lemma tabled_only_kern: "only_kern s t \<Longrightarrow> tabled P s \<Longrightarrow> tabled P t"
  unfolding only_kern_def tabled_def by (metis registers.select_convs(2,3) registers.surjective proc.update_convs(1))

lemma tabled_row:
  assumes "tabled P s"
  shows "length (rg_pci s) = PCISPC_FENCE" and "pci_cap (rg_pci s ! PCISPC_AERHL) = PCICAP_AERCAP"
    and "pci_size (rg_pci s ! PCISPC_AERHL) = 16" and "pci_specRev (rg_pci s ! PCISPC_AERHL) = all_revs"
proof -
  have "length (rg_pci s) = length pci_table" using assms unfolding tabled_def by (metis length_map)
  then show l: "length (rg_pci s) = PCISPC_FENCE" by (simp add: pci_table_def)
  have "map (\<lambda>r. r\<lparr>pci_offset := 0\<rparr>) (rg_pci s) ! PCISPC_AERHL = map (\<lambda>r. r\<lparr>pci_offset := 0\<rparr>) pci_table ! PCISPC_AERHL"
    using assms by (simp add: tabled_def)
  then have "(rg_pci s ! PCISPC_AERHL)\<lparr>pci_offset := 0\<rparr> = (pci_table ! PCISPC_AERHL)\<lparr>pci_offset := 0\<rparr>"
    using l by (simp add: pci_table_def)
  then have "pci_cap (rg_pci s ! PCISPC_AERHL) = pci_cap (pci_table ! PCISPC_AERHL)"
    "pci_size (rg_pci s ! PCISPC_AERHL) = pci_size (pci_table ! PCISPC_AERHL)"
    "pci_specRev (rg_pci s ! PCISPC_AERHL) = pci_specRev (pci_table ! PCISPC_AERHL)"
    by (metis PciSpcType.select_convs PciSpcType.surjective PciSpcType.update_convs(2))+
  then show "pci_cap (rg_pci s ! PCISPC_AERHL) = PCICAP_AERCAP" "pci_size (rg_pci s ! PCISPC_AERHL) = 16"
    "pci_specRev (rg_pci s ! PCISPC_AERHL) = all_revs"
    by (simp_all add: pci_table_def mkPci_def)
qed

lemma tabled_keeps:
  fixes m :: "(('d, 'm) registers_scheme, 'a) prog"
  shows "(\<And>s. keeps (only_kern s) m) \<Longrightarrow> keeps (tabled P) m"
  by (rule keeps_frame [OF _ tabled_only_kern])

lemma AERHL_written: "\<not> (PCISPC_AERHL = PCISPC_RES0 \<or> PCISPC_AERHL = PCISPC_RES1)"
  by simp

lemma rewrite_AERHL_aborts:
  assumes "0 < W" and "W \<le> 8"
  shows "aborts (tabled P) (rewrite_cap C drv W PCISPC_AERHL)"
proof -
  have "aborts (tabled P) (read_any C drv W PCISPC_AERHL)"
    using assms unfolding read_any_def
    by (intro aborts_gets) (simp add: tabled_row wide_aborts)
  then show ?thesis
    unfolding rewrite_cap_def if_not_P [OF AERHL_written] by (intro aborts_gets aborts_bnd1)
qed

lemma check_all_aborts:
  assumes "j \<in> set js" and "aborts I (f j)" and "\<And>i. keeps I (f i)"
  shows "aborts I (check_all f js b)"
  using assms(1)
proof (induction js arbitrary: b)
  case (Cons i js)
  show ?case
  proof (cases "i = j")
    case True
    then show ?thesis using assms(2) by (auto simp: conj_with_def intro!: aborts_bnd1)
  next
    case False
    then show ?thesis using Cons by (auto intro!: aborts_bnd2 conj_with_keeps assms(3))
  qed
qed simp

lemma over_caps_aborts:
  assumes "c \<in> set caps" and "\<And>s. I s \<Longrightarrow> j \<in> set (visited rv c s)" and "aborts I (f j)" and "\<And>i. keeps I (f i)"
  shows "aborts I (over_caps rv f caps b)"
  using assms(1)
proof (induction caps arbitrary: b)
  case (Cons d caps)
  show ?case
  proof (cases "d = c")
    case True
    show ?thesis
      unfolding over_caps.simps True by (intro aborts_gets aborts_bnd1 check_all_aborts [OF assms(2)] assms(3,4))
  next
    case False
    then show ?thesis
      using Cons unfolding over_caps.simps by (intro aborts_gets aborts_bnd2 check_all_keeps assms(4)) simp_all
  qed
qed simp

section \<open>Properties\<close>

text \<open>C34: Once the advanced error reporting capability has been discovered, the PCI register test never returns normally, whatever the
  driver and the device do: at the latest the 16 byte header log makes it shift a 32-bit value by its width or more, which is
  undefined. So no conformance statement can rest on this test for such a device.\<close>

theorem AllPciRegs_never_passes_with_AER:
  fixes w :: "('d, 'm) world_scheme"
  assumes "meta_inv w" and "tabled (\<lambda>caps. PCICAP_AERCAP \<in> set caps) w" and "mSpecRev t \<in> set all_revs"
    and "0 < W" and "W \<le> 8"
  shows "AllPciRegs_r10b_RunCoreTest E W (t, w) \<noteq> (Inr (), u)"
proof
  let ?P = "\<lambda>caps. PCICAP_AERCAP \<in> set caps"
  let ?I = "tabled ?P :: ('d, 'm) world_scheme \<Rightarrow> bool"
  assume "AllPciRegs_r10b_RunCoreTest E W (t, w) = (Inr (), u)"
  then obtain x w1 a w2 b w3 where run: "set_state E ST_DISABLE_COMPLETELY w = (Inr x, w1)"
      "ValidateDefaultValues_pci (su_libc E) (su_drv E) W (mSpecRev t) w1 = (Inr a, w2)"
      "ValidateROBitsAfterWriting_pci (su_libc E) (su_drv E) W (mSpecRev t) w2 = (Inr b, w3)"
    by (auto simp: AllPciRegs_r10b_RunCoreTest_def bnd_Inr_iff sq_Inr_iff throw_if_def gets_def split: if_splits prod.splits)
  define J :: "holdings \<Rightarrow> bool" where
    "J = (\<lambda>(p, c, _). ?P c \<and> map (\<lambda>r. r\<lparr>pci_offset := 0\<rparr>) p = map (\<lambda>r. r\<lparr>pci_offset := 0\<rparr>) pci_table)"
  have J: "holds J s \<longleftrightarrow> meta_inv s \<and> ?I s" for s :: "('d, 'm) world_scheme"
    by (simp add: holds_def J_def holding_def tabled_def)
  have "?I w1" using keepsD [OF set_state_holds, of J w E ST_DISABLE_COMPLETELY] assms(1,2) run(1) by (simp add: J)
  moreover have "keeps ?I (ValidateDefaultValues_pci (su_libc E) (su_drv E) W (mSpecRev t))"
    by (rule tabled_keeps) (rule default_values_keep)
  ultimately have "?I w2" using keepsD run(2) by fastforce
  have visited: "PCISPC_AERHL \<in> set (visited (mSpecRev t) PCICAP_AERCAP s)" if "?I s" for s :: "('d, 'm) world_scheme"
    using tabled_row [OF that] assms(3) by (simp add: visited_def)
  have caps: "aborts ?I (bnd (gets rg_pciCap) (\<lambda>caps. over_caps (mSpecRev t) (rewrite_cap (su_libc E) (su_drv E) W) caps result))"
    for result
  proof (rule aborts_gets)
    fix s :: "('d, 'm) world_scheme" assume "?I s"
    then have "PCICAP_AERCAP \<in> set (rg_pciCap s)" by (simp add: tabled_def)
    then show "aborts ?I (over_caps (mSpecRev t) (rewrite_cap (su_libc E) (su_drv E) W) (rg_pciCap s) result)"
      by (rule over_caps_aborts [where j = PCISPC_AERHL])
        (auto intro: visited tabled_keeps rewrite_keeps rewrite_AERHL_aborts [OF assms(4,5)])
  qed
  have "aborts ?I (ValidateROBitsAfterWriting_pci (su_libc E) (su_drv E) W (mSpecRev t))"
    unfolding ValidateROBitsAfterWriting_pci_def
    by (intro aborts_gets aborts_bnd2 [OF _ caps] tabled_keeps check_all_keeps rewrite_keeps)
  then show False using \<open>?I w2\<close> run(3) by (auto simp: aborts_def)
qed

theorem AllPciRegs_never_passes_with_AER_witness:
  "\<nexists>u. AllPciRegs_r10b_RunCoreTest soft_env 4 (Test_Test ''GrpPciRegisters'' ''AllPciRegs_r10b'' SPECREV_10b,
     soft_world\<lparr>rg_pciCap := [PCICAP_AERCAP]\<rparr>) = (Inr (), u)"
proof -
  have "AllPciRegs_r10b_RunCoreTest soft_env 4 (Test_Test ''GrpPciRegisters'' ''AllPciRegs_r10b'' SPECREV_10b,
     soft_world\<lparr>rg_pciCap := [PCICAP_AERCAP]\<rparr>) \<noteq> (Inr (), u)" for u
    by (rule AllPciRegs_never_passes_with_AER) (simp_all add: tabled_def soft_world_def meta_inv_def Test_Test_def all_revs_def)
  then show ?thesis by blast
qed

end
