(* ===== verification/Test_Fixture.thy ===== *)
theory Test_Fixture
  imports Ctrl_Reg_Tests Conformant
begin

text \<open>
  What the test cases of the GrpXxx directories share: the queue objects that a group keeps in the registry
  and that its tests look up by name, commands, and the calls that
  send a command and reap its completion entry.
\<close>

abbreviation (input) IDCTRLRCAP_ONCS :: nat where "IDCTRLRCAP_ONCS \<equiv> 52"
abbreviation (input) IDCTRLRCAP_VWC :: nat where "IDCTRLRCAP_VWC \<equiv> 55"
abbreviation (input) IDNAMESPC_NSFEAT :: nat where "IDNAMESPC_NSFEAT \<equiv> 3"
abbreviation (input) CESTAT_INVAL_OPCODE :: nat where "CESTAT_INVAL_OPCODE \<equiv> 1"

lemma fields_of_table:
  "idt_offset (mIdCtrlrCapMetrics ! IDCTRLRCAP_ONCS) = 520" "idt_offset (mIdCtrlrCapMetrics ! IDCTRLRCAP_VWC) = 525"
  "idt_offset (mIdNamespcType ! IDNAMESPC_NSFEAT) = 24" "idt_offset (mIdCtrlrCapMetrics ! IDCTRLRCAP_OACS) = 256"
  by (simp_all add: mIdCtrlrCapMetrics_def mIdNamespcType_def mkId_def)

section \<open>The objects of a group\<close>

text \<open>
  The registry holds types and identities (\<open>mObjGrpLife\<close>); the queue objects are found by identity. A null
  pointer is \<open>None\<close>, and calling a member function through it is undefined.
\<close>

record 'd group_world = "'d world" +
  gw_cqs :: "nat \<Rightarrow> comp_queue"
  gw_sqs :: "nat \<Rightarrow> sub_queue"
  gw_iosqs :: "nat \<Rightarrow> io_sub_queue"

definition null_call :: "('w, 'a) prog" where
  "null_call = raise (UB ''member call through a null shared_ptr'')"

definition AllocObj_at :: "ObjType \<Rightarrow> string \<Rightarrow> (('d, 'm) rsrc_mngr_scheme, nat) prog" where
  "AllocObj_at type lookupName =
     bnd (ObjRsrc_AllocObj type lookupName) (\<lambda>p. case p of None \<Rightarrow> null_call | Some obj \<Rightarrow> ret (tr_addr obj))"

text \<open>A member function of the queue object with the identity \<open>a\<close>.\<close>

definition on_cq :: "nat \<Rightarrow> (comp_queue \<times> ('d, 'm) group_world_scheme, 'a) prog \<Rightarrow> (('d, 'm) group_world_scheme, 'a) prog" where
  "on_cq a m = (\<lambda>s. case m (gw_cqs s a, s) of (r, (q, s')) \<Rightarrow> (r, s'\<lparr>gw_cqs := (gw_cqs s')(a := q)\<rparr>))"

definition on_sq :: "nat \<Rightarrow> (sub_queue \<times> ('d, 'm) group_world_scheme, 'a) prog \<Rightarrow> (('d, 'm) group_world_scheme, 'a) prog" where
  "on_sq a m = (\<lambda>s. case m (gw_sqs s a, s) of (r, (q, s')) \<Rightarrow> (r, s'\<lparr>gw_sqs := (gw_sqs s')(a := q)\<rparr>))"

text \<open>\<open>CAST_TO_ACQ(gRsrcMngr->AllocObj(OBJ_ACQ, name))\<close> and \<open>Init\<close>; the same for the ASQ.\<close>

definition group_acq :: "'d device_env \<Rightarrow> string \<Rightarrow> u32 \<Rightarrow> (('d, 'm) group_world_scheme, comp_queue) prog" where
  "group_acq E name numEntries =
     bnd (lift_result (CQ_CQ (su_fd E) OBJ_ACQ)) (\<lambda>q0.
     bnd (AllocObj_at OBJ_ACQ name) (\<lambda>a.
     sq (modify (\<lambda>s. s\<lparr>gw_cqs := (gw_cqs s)(a := q0)\<rparr>))
    (sq (on_cq a (ACQ_Init (su_libc E) (su_drv E) numEntries)) (gets (\<lambda>s. gw_cqs s a)))))"

definition group_asq :: "'d device_env \<Rightarrow> string \<Rightarrow> u32 \<Rightarrow> (('d, 'm) group_world_scheme, sub_queue) prog" where
  "group_asq E name numEntries =
     bnd (lift_result (SQ_SQ (su_fd E) OBJ_ASQ)) (\<lambda>q0.
     bnd (AllocObj_at OBJ_ASQ name) (\<lambda>a.
     sq (modify (\<lambda>s. s\<lparr>gw_sqs := (gw_sqs s)(a := q0)\<rparr>))
    (sq (on_sq a (ASQ_Init (su_libc E) (su_drv E) numEntries)) (gets (\<lambda>s. gw_sqs s a)))))"

text \<open>\<open>CAST_TO_ACQ(gRsrcMngr->GetObj(name))\<close>: an object of another class is cast to a null pointer.\<close>

definition lookup_as :: "ObjType \<Rightarrow> (('d, 'm) group_world_scheme \<Rightarrow> nat \<Rightarrow> 'q) \<Rightarrow> string
    \<Rightarrow> (('d, 'm) group_world_scheme, 'q option) prog" where
  "lookup_as type objs name =
     bnd (ObjRsrc_GetObj name) (\<lambda>p s.
       (Inr (case p of None \<Rightarrow> None | Some obj \<Rightarrow> if tr_type obj = type then Some (objs s (tr_addr obj)) else None), s))"

definition lookup_acq :: "string \<Rightarrow> (('d, 'm) group_world_scheme, comp_queue option) prog" where
  "lookup_acq = lookup_as OBJ_ACQ gw_cqs"

definition lookup_asq :: "string \<Rightarrow> (('d, 'm) group_world_scheme, sub_queue option) prog" where
  "lookup_asq = lookup_as OBJ_ASQ gw_sqs"

definition lookup_iocq :: "string \<Rightarrow> (('d, 'm) group_world_scheme, comp_queue option) prog" where
  "lookup_iocq = lookup_as OBJ_IOCQ gw_cqs"

definition lookup_iosq :: "string \<Rightarrow> (('d, 'm) group_world_scheme, io_sub_queue option) prog" where
  "lookup_iosq = lookup_as OBJ_IOSQ gw_iosqs"

text \<open>The test that creates the resources of a group is the same in several groups.\<close>

definition create_admin_queues ::
  "'d device_env \<Rightarrow> u16 \<Rightarrow> string \<Rightarrow> string \<Rightarrow> (('d, 'm) group_world_scheme, comp_queue \<times> sub_queue) prog" where
  "create_admin_queues E numIrqs acqGroupId asqGroupId =
     bnd (set_state E ST_DISABLE_COMPLETELY) (\<lambda>ok.
     sq (throw_if (\<not> ok) (FrmwkEx []))
    (bnd (group_acq E acqGroupId 5) (\<lambda>acq.
     bnd (group_asq E asqGroupId 5) (\<lambda>asq.
     sq (IRQ_SetAnySchemeSpecifyNum (su_libc E) (su_drv E) numIrqs)
    (bnd (CtrlrConfig_SetCSS (su_libc E) (su_drv E) 0) (\<lambda>_.
     bnd (set_state E ST_ENABLE) (\<lambda>ok.
     sq (throw_if (\<not> ok) (FrmwkEx [])) (ret (acq, asq)))))))))"

section \<open>Sending\<close>

definition test_call :: "'x test_obj_scheme \<Rightarrow> string \<Rightarrow> bool \<Rightarrow> io_call" where
  "test_call t qualify verbose =
     \<lparr>io_grpName = t_grpName t, io_testName = mTestName t, io_qualify = qualify, io_verbose = verbose\<rparr>"

definition through :: "'q option \<Rightarrow> ('q \<Rightarrow> ('w, 'a) prog) \<Rightarrow> ('w, 'a) prog" where
  "through p f = (case p of None \<Rightarrow> null_call | Some q \<Rightarrow> f q)"

text \<open>\<open>IO::SendAndReapCmd\<close> with the status that is expected, and its variants; the time is \<open>CALC_TIMEOUT_ms(1)\<close>.\<close>

definition send_expect ::
  "'d device_env \<Rightarrow> io_call \<Rightarrow> 'q queue_scheme \<Rightarrow> 'r queue_scheme \<Rightarrow> nat \<Rightarrow> (cmd \<times> ('d, 'm) world_scheme, unit) prog" where
  "send_expect E a subq cq st =
     bnd (IO_SendAndReapCmd (su_libc E) (su_drv E) (su_fuel E) (su_masks E) (su_fs E) a (CALC_TIMEOUT_ms 1) subq cq [st])
       (\<lambda>_. ret ())"

definition send_refuse ::
  "'d device_env \<Rightarrow> io_call \<Rightarrow> 'q queue_scheme \<Rightarrow> 'r queue_scheme \<Rightarrow> nat \<Rightarrow> (cmd \<times> ('d, 'm) world_scheme, unit) prog" where
  "send_refuse E a subq cq st =
     bnd (IO_SendAndReapCmdNot (su_libc E) (su_drv E) (su_fuel E) (su_masks E) (su_fs E) a (CALC_TIMEOUT_ms 1) subq cq [st])
       (\<lambda>_. ret ())"

text \<open>A new command that lives as long as \<open>m\<close>.\<close>

definition with_cmd :: "ex + cmd \<Rightarrow> (cmd \<times> 'w, 'a) prog \<Rightarrow> ('w, 'a) prog" where
  "with_cmd r m = bnd (lift_result r) (\<lambda>c. bnd (with_new c m) (\<lambda>(x, _). ret x))"

fun each :: "('b \<Rightarrow> ('w, unit) prog) \<Rightarrow> 'b list \<Rightarrow> ('w, unit) prog" where
  "each f [] = ret ()"
| "each f (x # xs) = sq (f x) (each f xs)"

text \<open>\<open>work = GetDword(i); work |= bits; SetDword(work, i)\<close>.\<close>

definition set_bits :: "u8 \<Rightarrow> u32 \<Rightarrow> unit cmd_prog" where
  "set_bits i bits = bnd (Cmd_GetDword i) (\<lambda>work. Cmd_SetDword (work OR bits) i)"

definition set_ones :: "u8 list \<Rightarrow> unit cmd_prog" where
  "set_ones = each (Cmd_SetDword 0xffffffff)"

definition ctrlr_value :: "nat \<Rightarrow> (('d, 'm) world_scheme, u64) prog" where
  "ctrlr_value field = bnd Informative_GetIdentifyCmdCtrlr (\<lambda>c. Identify_GetValue_ctrlr c field)"

section \<open>Rules\<close>

lemma each_Inr: "each f xs s = (Inr y, t) \<Longrightarrow> x \<in> set xs \<Longrightarrow> \<exists>u v. f x u = (Inr (), v)"
proof (induction xs arbitrary: s)
  case (Cons z zs)
  then show ?case by (cases "x = z") (fastforce simp: sq_Inr_iff)+
qed simp

lemma each_keeps [wf_intros]: "(\<And>x. keeps I (f x)) \<Longrightarrow> keeps I (each f xs)"
  by (induction xs) (auto intro!: wf_intros)

lemma GetValue_same: "snd (Identify_GetValue_table c field tab s) = s"
proof -
  have "snd (Identify.value_loop c off i n v s) = s" for off i n v
  proof (induction n arbitrary: i v)
    case (Suc n)
    show ?case
      using PrpData_byte_same [of c "off + i" s] Suc by (cases "PrpData_byte c (off + i) s") (auto simp: bnd_apply split: sum.splits)
  qed simp
  then show ?thesis by (simp add: Identify_GetValue_table_def Let_def)
qed

lemma ctrlr_value_same: "snd (ctrlr_value field s) = s"
  by (auto simp: ctrlr_value_def bnd_apply Informative_GetIdentifyCmdCtrlr_def Identify_GetValue_ctrlr_def of_cmd_def
      GetValue_same split: option.splits sum.splits prod.splits)

lemma with_cmd_run: "r = Inr c \<Longrightarrow> with_cmd r m w = (case m (c, w) of (y, (c', w')) \<Rightarrow> (y, w'))"
  by (auto simp: with_cmd_def with_new_def bnd_apply split: prod.splits sum.splits)

section \<open>Examples\<close>

text \<open>A world whose identify data are \<open>bs\<close>, with nothing registered.\<close>

definition ex_group_world :: "u8 list \<Rightarrow> unit group_world" where
  "ex_group_world bs = world.extend ((ex_world bs)\<lparr>mIdentifyCmdCtrlr := Some (ex_id_cmd CNS_Controller)\<rparr>)
     \<lparr>gw_cqs = (\<lambda>_. ex_cq), gw_sqs = (\<lambda>_. ex_sq), gw_iosqs = (\<lambda>_. ex_iosq)\<rparr>"

definition idle_env :: "unit device_env" where
  "idle_env = \<lparr>su_libc = ex_libc, su_drv = null_dnvme, su_fuel = 1, su_masks = ex_masks, su_fs = ex_fs, su_fd = 3\<rparr>"

definition ex_test :: test_obj where
  "ex_test = Test_Test ''group'' ''test'' SPECREV_12"

lemma of_le_zeros: "of_le (replicate n 0) = 0"
  by (induction n) simp_all

lemma ex_ctrlr_value:
  assumes "length bs = 4096" and "f < IDCTRLRCAP_FENCE" and "unat (idt_length (mIdCtrlrCapMetrics ! f)) \<le> 8"
    and "unat (idt_length (mIdCtrlrCapMetrics ! f)) + unat (idt_offset (mIdCtrlrCapMetrics ! f)) < 4096"
  shows "ctrlr_value f (ex_group_world bs) =
    (Inr (of_le (take (unat (idt_length (mIdCtrlrCapMetrics ! f))) (drop (unat (idt_offset (mIdCtrlrCapMetrics ! f))) bs))), ex_group_world bs)"
proof -
  have "has_data (ex_id_cmd CNS_Controller) bs (ex_group_world bs)"
    using assms(1) by (simp add: has_data_def ex_id_cmd_def ex_group_world_def ex_world_def world.defs mb_bytes_def peek_def)
  from GetValue_ctrlr_decodes [OF this ex_id_cns] assms show ?thesis
    by (simp add: ctrlr_value_def bnd_apply Informative_GetIdentifyCmdCtrlr_def) (simp add: ex_group_world_def world.defs)
qed

end
