(* ===== verification/Get_Features_Tests.thy ===== *)
theory Get_Features_Tests
  imports Test_Fixture
begin

text \<open>The tests of the group GrpAdminGetFeatCmd: Get Features with invalid and with reserved fields.\<close>

text \<open>A test runs on its object and the world.\<close>

definition of_test :: "('t \<Rightarrow> ('w, 'a) prog) \<Rightarrow> ('t \<times> 'w, 'a) prog" where
  "of_test f = bnd (gets fst) (\<lambda>t. onr (f t))"

definition GetFeat_CreateResources :: "'d device_env \<Rightarrow> ('x test_obj_scheme \<times> ('d, 'm) group_world_scheme, unit) prog" where
  "GetFeat_CreateResources E = onr (bnd (create_admin_queues E 1 ''ACQ'' ''ASQ'') (\<lambda>_. ret ()))"

section \<open>Invalid feature identifiers\<close>

definition fid_range :: "nat \<Rightarrow> nat \<Rightarrow> u16 list" where
  "fid_range a b = map of_nat [a..<b + 1]"

text \<open>
  The parameter \<open>invalidFIDs\<close> is a vector that is passed by value: the function fills a copy. The result
  below is that copy when the function returns.
\<close>

definition getInvalidFIDs_r10b :: "u16 list \<Rightarrow> (('d, 'm) world_scheme, u16 list) prog" where
  "getInvalidFIDs_r10b invalidFIDs = ret (invalidFIDs @ [0] @ fid_range 0x0c 0x7f @ fid_range 0x81 0xbf)"

definition ONCS_SUP_RSRV :: u64 where "ONCS_SUP_RSRV = 0x20"

definition getInvalidFIDs_r11 :: "u16 list \<Rightarrow> (('d, 'm) world_scheme, u16 list) prog" where
  "getInvalidFIDs_r11 invalidFIDs =
     bnd (ctrlr_value IDCTRLRCAP_ONCS) (\<lambda>oncs.
     ret (invalidFIDs @ [0] @ fid_range 0x0d 0x7f @
          fid_range (if oncs AND ONCS_SUP_RSRV \<noteq> 0 then 0x84 else 0x81) 0xbf))"

definition getInvalidFIDs_r12 :: "u16 list \<Rightarrow> (('d, 'm) world_scheme, u16 list) prog" where
  "getInvalidFIDs_r12 invalidFIDs =
     bnd (ctrlr_value IDCTRLRCAP_ONCS) (\<lambda>oncs.
     ret (invalidFIDs @ [0] @ fid_range 0x0e 0x7f @
          fid_range (if oncs AND ONCS_SUP_RSRV \<noteq> 0 then 0x84 else 0x81) 0xbf))"

text \<open>The virtual function is the argument \<open>fids\<close>; the caller's own vector is still empty after the call.\<close>

definition InvalidFieldInCmd_RunCoreTest ::
  "'d device_env \<Rightarrow> (u16 list \<Rightarrow> (('d, 'm) group_world_scheme, u16 list) prog)
     \<Rightarrow> ('x test_obj_scheme \<times> ('d, 'm) group_world_scheme, unit) prog" where
  "InvalidFieldInCmd_RunCoreTest E fids = of_test (\<lambda>t.
     bnd (lookup_asq ''ASQ'') (\<lambda>asq.
     bnd (lookup_acq ''ACQ'') (\<lambda>acq.
     with_cmd (GetFeatures_GetFeatures (su_libc E) (su_masks E))
       (let invalidFIDs = [] in
        bnd (onr (fids invalidFIDs)) (\<lambda>_.
        each (\<lambda>fid.
          sq (onl (BaseFeatures_SetFID (ucast fid)))
             (through asq (\<lambda>sq. through acq (\<lambda>cq.
                send_expect E (test_call t (''invalidFIDs.'' @ numeral_of 16 (unat fid) @ ''h'') True) sq cq CESTAT_INVAL_FIELD))))
          invalidFIDs)))))"

section \<open>Reserved fields\<close>

definition rsvd_runnable :: "bool \<Rightarrow> bool \<Rightarrow> ('t \<times> 'w, RunType) prog" where
  "rsvd_runnable rsvdfields preserve = ret (if \<not> rsvdfields then RUN_FALSE else RUN_TRUE)"

definition FEATURE_ID :: u8 where "FEATURE_ID = 0x01"

definition GetFeat_RsvdFields_r10b ::
  "'d device_env \<Rightarrow> ('x test_obj_scheme \<times> ('d, 'm) group_world_scheme, unit) prog" where
  "GetFeat_RsvdFields_r10b E = of_test (\<lambda>t.
     bnd (lookup_asq ''ASQ'') (\<lambda>asq.
     bnd (lookup_acq ''ACQ'') (\<lambda>acq.
     with_cmd (GetFeatures_GetFeatures (su_libc E) (su_masks E))
      (sq (onl (BaseFeatures_SetFID FEATURE_ID))
      (sq (onl (set_bits 0 0x0000fc00))
      (sq (onl (set_ones [2, 3, 4, 5, 6, 7, 8, 9]))
      (sq (onl (set_bits 10 0xfffff800))
      (sq (onl (set_ones [12, 13, 14, 15]))
          (through asq (\<lambda>sq. through acq (\<lambda>cq. send_expect E (test_call t ''rsvd.set'' True) sq cq CESTAT_SUCCESS)))))))))))"

definition ONCS_SUP_SV_AND_SLCT_FEATS :: u64 where "ONCS_SUP_SV_AND_SLCT_FEATS = 0x10"

text \<open>DWORD 10 of the commands with the values 4 to 7 of the select field.\<close>

definition select_dwords :: "u32 \<Rightarrow> u32 list" where
  "select_dwords cdw10 = map (\<lambda>sel. cdw10 OR push_bit 8 (of_nat sel)) [4..<8]"

definition fid_dwords :: "u32 \<Rightarrow> nat \<Rightarrow> nat \<Rightarrow> u32 list" where
  "fid_dwords cdw10 a b = map (\<lambda>fid. cdw10 OR of_nat fid) [a..<b + 1]"

definition GetFeat_RsvdFields_r11b ::
  "'d device_env \<Rightarrow> ('x test_obj_scheme \<times> ('d, 'm) group_world_scheme, unit) prog" where
  "GetFeat_RsvdFields_r11b E = of_test (\<lambda>t.
     bnd (lookup_asq ''ASQ'') (\<lambda>asq.
     bnd (lookup_acq ''ACQ'') (\<lambda>acq.
     let on_queues = (\<lambda>f. through asq (\<lambda>sq. through acq (\<lambda>cq. f sq cq))) in
     with_cmd (GetFeatures_GetFeatures (su_libc E) (su_masks E))
      (sq (onl (BaseFeatures_SetFID FEATURE_ID))
      (sq (onl (set_bits 0 0x00007c00))
      (sq (onl (set_ones [2, 3, 4, 5, 6, 7, 8, 9]))
      (sq (onl (set_bits 10 0xffffc000))
      (sq (onl (set_ones [12, 13, 14, 15]))
      (sq (on_queues (\<lambda>sq cq. send_expect E (test_call t ''rsvd.set'' True) sq cq CESTAT_SUCCESS))
      (bnd (onl (Cmd_GetDword 10)) (\<lambda>dw10.
       let cdw10 = dw10 AND NOT 0x3ff in
       bnd (onr (ctrlr_value IDCTRLRCAP_ONCS)) (\<lambda>oncs.
       sq (if drop_bit 4 (oncs AND ONCS_SUP_SV_AND_SLCT_FEATS) \<noteq> 0
           then each (\<lambda>work. sq (onl (Cmd_SetDword work 10))
                  (on_queues (\<lambda>sq cq. send_expect E (test_call t ''rsvd.val.set'' True) sq cq CESTAT_INVAL_FIELD)))
                (select_dwords cdw10)
           else ret ())
          (each (\<lambda>work. sq (onl (Cmd_SetDword work 10))
                  (on_queues (\<lambda>sq cq. send_refuse E (test_call t ''rsvd.val.set'' True) sq cq CESTAT_SUCCESS)))
             (fid_dwords cdw10 0x0d 0x7f))))))))))))))"

definition GetFeat_RsvdFields_r12 ::
  "'d device_env \<Rightarrow> ('x test_obj_scheme \<times> ('d, 'm) group_world_scheme, unit) prog" where
  "GetFeat_RsvdFields_r12 E = of_test (\<lambda>t.
     bnd (lookup_asq ''ASQ'') (\<lambda>asq.
     bnd (lookup_acq ''ACQ'') (\<lambda>acq.
     let on_queues = (\<lambda>f. through asq (\<lambda>sq. through acq (\<lambda>cq. f sq cq))) in
     with_cmd (GetFeatures_GetFeatures (su_libc E) (su_masks E))
      (sq (onl (BaseFeatures_SetFID FEATURE_ID))
      (sq (on_queues (\<lambda>sq cq. send_expect E (test_call t ''rsvd.set'' True) sq cq CESTAT_SUCCESS))
      (sq (onl (set_bits 0 0x00003c00))
      (sq (onl (set_ones [2, 3, 4, 5]))
      (sq (onl (set_bits 10 0xfffff800))
      (sq (onl (set_ones [12, 13, 14, 15]))
      (sq (on_queues (\<lambda>sq cq. send_expect E (test_call t ''rsvd.set'' True) sq cq CESTAT_SUCCESS))
      (bnd (onl (Cmd_GetDword 10)) (\<lambda>dw10.
       let cdw10 = dw10 AND NOT 0x7ff in
       bnd (onr (ctrlr_value IDCTRLRCAP_ONCS)) (\<lambda>oncs.
       sq (if drop_bit 4 (oncs AND ONCS_SUP_SV_AND_SLCT_FEATS) \<noteq> 0
           then each (\<lambda>work. sq (onl (Cmd_SetDword work 10))
                  (on_queues (\<lambda>sq cq. send_expect E (test_call t ''rsvd.val.set'' True) sq cq CESTAT_INVAL_FIELD)))
                (select_dwords cdw10)
           else ret ())
          (each (\<lambda>work. sq (onl (Cmd_SetDword work 10))
                  (on_queues (\<lambda>sq cq. send_refuse E (test_call t ''rsvd.val.set'' True) sq cq CESTAT_SUCCESS)))
             (fid_dwords cdw10 0 0 @ fid_dwords cdw10 0x0e 0x0e @ fid_dwords cdw10 0x10 0x77 @
              fid_dwords cdw10 0x78 0x7d @ fid_dwords cdw10 0x84 0xbf)))))))))))))))"

text \<open>Without the command line option the test of revision 1.2 runs all the same.\<close>

definition rsvd_runnable_r12 :: "bool \<Rightarrow> ('t \<times> 'w, RunType) prog" where
  "rsvd_runnable_r12 preserve = ret RUN_TRUE"

section \<open>Properties\<close>

lemma GetFeatures_built: "\<not> memfail C 64 \<Longrightarrow> \<exists>c. GetFeatures_GetFeatures C M = Inr c"
proof -
  assume "\<not> memfail C 64"
  moreover obtain c0 where "Cmd_Cmd OBJ_GETFEATURES = Inr c0" by (simp add: Cmd_Cmd_def Trackable_Trackable_def)
  moreover have "(a OR b) AND NOT (a OR l OR b OR m) = 0" for a b l m :: u32 by (simp add: bit_eq_iff bit_simps) blast
  ultimately show ?thesis
    using new_cmd_ok [where t = OBJ_GETFEATURES and dir = DATADIR_FROM_DEVICE and C = C and M = M
        and allowed = "MASK_PRP1_PAGE M OR MASK_PRP2_PAGE M" and opc = "0x0a"]
    by (auto simp: GetFeatures_GetFeatures_def)
qed

lemma lookup_Inr: "\<exists>p. lookup_as ty objs name s = (Inr p, s)"
  by (simp add: lookup_as_def bnd_apply ObjRsrc_GetObj_def)

lemma fids_same: "snd (getInvalidFIDs_r10b v s) = s" "snd (getInvalidFIDs_r11 v s) = s" "snd (getInvalidFIDs_r12 v s) = s"
  using ctrlr_value_same [of IDCTRLRCAP_ONCS s]
  by (auto simp: getInvalidFIDs_r10b_def getInvalidFIDs_r11_def getInvalidFIDs_r12_def bnd_apply split: prod.splits sum.splits)

lemma sends_nothing:
  fixes s :: "('d, 'm) group_world_scheme"
  assumes "\<not> memfail (su_libc E) 64" and "fids [] s = (Inr v, s)"
  shows "InvalidFieldInCmd_RunCoreTest E fids (t, s) = (Inr (), (t, s))"
proof -
  obtain c where "GetFeatures_GetFeatures (su_libc E) (su_masks E) = Inr c" using GetFeatures_built [OF assms(1)] by blast
  moreover obtain p where "lookup_asq ''ASQ'' s = (Inr p, s)" unfolding lookup_asq_def using lookup_Inr by blast
  moreover obtain q where "lookup_acq ''ACQ'' s = (Inr q, s)" unfolding lookup_acq_def using lookup_Inr by blast
  ultimately show ?thesis
    using assms(2) by (simp add: InvalidFieldInCmd_RunCoreTest_def of_test_def bnd_apply with_cmd_run)
qed

text \<open>C32: The test of invalid feature identifiers passes on every device without sending a single command, even when
  there are no queues to send one through: the list of identifiers is built in a copy of the vector. This holds in
  each of the three revisions, provided the identify data can be read.\<close>

theorem InvalidFieldInCmd_tests_nothing:
  fixes s :: "('d, 'm) group_world_scheme"
  assumes "\<not> memfail (su_libc E) 64" and "ctrlr_value IDCTRLRCAP_ONCS s = (Inr oncs, s)"
  shows "InvalidFieldInCmd_RunCoreTest E getInvalidFIDs_r10b (t, s) = (Inr (), (t, s)) \<and>
    InvalidFieldInCmd_RunCoreTest E getInvalidFIDs_r11 (t, s) = (Inr (), (t, s)) \<and>
    InvalidFieldInCmd_RunCoreTest E getInvalidFIDs_r12 (t, s) = (Inr (), (t, s))"
proof (intro conjI)
  show "InvalidFieldInCmd_RunCoreTest E getInvalidFIDs_r10b (t, s) = (Inr (), (t, s))"
    by (rule sends_nothing [OF assms(1)]) (simp add: getInvalidFIDs_r10b_def)
  show "InvalidFieldInCmd_RunCoreTest E getInvalidFIDs_r11 (t, s) = (Inr (), (t, s))"
    by (rule sends_nothing [OF assms(1)]) (simp add: getInvalidFIDs_r11_def bnd_apply assms(2))
  show "InvalidFieldInCmd_RunCoreTest E getInvalidFIDs_r12 (t, s) = (Inr (), (t, s))"
    by (rule sends_nothing [OF assms(1)]) (simp add: getInvalidFIDs_r12_def bnd_apply assms(2))
qed

theorem InvalidFieldInCmd_tests_nothing_witness:
  "InvalidFieldInCmd_RunCoreTest idle_env getInvalidFIDs_r12 (ex_test, ex_group_world (replicate 4096 0)) =
    (Inr (), (ex_test, ex_group_world (replicate 4096 0)))"
proof -
  have "\<not> memfail (su_libc idle_env) 64" by (simp add: idle_env_def ex_libc_def)
  moreover have "ctrlr_value IDCTRLRCAP_ONCS (ex_group_world (replicate 4096 0)) = (Inr 0, ex_group_world (replicate 4096 0))"
    by (subst ex_ctrlr_value) (simp_all add: mIdCtrlrCapMetrics_def mkId_def of_le_zeros)
  ultimately show ?thesis
    using InvalidFieldInCmd_tests_nothing [where E = idle_env and s = "ex_group_world (replicate 4096 0)" and t = ex_test and oncs = 0]
    by blast
qed

text \<open>The values 4 to 7 of the select field, which are reserved, are only ever tried with the feature identifier zero, which is
  reserved itself: the bits of DWORD 10 are cleared together with those of the select field. A device that
  ignores the select field passes, as it has to refuse the identifier anyway.\<close>

theorem select_only_with_reserved_FID:
  "(\<forall>v \<in> set (select_dwords (dw10 AND NOT 0x3ff)). (ucast v :: u8) = 0) \<and>
    (\<forall>v \<in> set (select_dwords (dw10 AND NOT 0x7ff)). (ucast v :: u8) = 0)"
proof -
  have "(ucast ((dw10 AND NOT m) OR push_bit 8 w) :: u8) = 0" if "m AND 0xff = 0xff" for m w :: u32
  proof (rule bit_word_eqI)
    fix n :: nat assume n: "n < LENGTH(8)"
    have "bit (mask 8 :: u32) n" by (subst bit_mask_iff) (use n in simp)
    moreover have "(mask 8 :: u32) = 0xff" by (simp add: mask_eq_exp_minus_1)
    ultimately have "bit (0xff :: u32) n" by (rule back_subst)
    then have "bit m n" using that by (metis bit_and_iff)
    then show "bit (ucast ((dw10 AND NOT m) OR push_bit 8 w) :: u8) n = bit 0 n" using n by (auto simp: bit_simps)
  qed
  then have "\<forall>v \<in> set (select_dwords (dw10 AND NOT m)). (ucast v :: u8) = 0" if "m AND 0xff = 0xff" for m
    using that unfolding select_dwords_def set_map by blast
  from this [of "0x3ff"] this [of "0x7ff"] show ?thesis by simp
qed

end
