(* ===== verification/Identify_Tests.thy ===== *)
theory Identify_Tests
  imports Get_Features_Tests
begin

text \<open>The tests of the group GrpAdminIdentifyCmd: Identify with one or two PRPs, for illegal namespaces, with reserved fields.\<close>

abbreviation (input) CESTAT_INVAL_NAMSPC :: nat where "CESTAT_INVAL_NAMSPC \<equiv> 11"

definition Identify_CreateResources :: "'d device_env \<Rightarrow> ('x test_obj_scheme \<times> ('d, 'm) group_world_scheme, unit) prog" where
  "Identify_CreateResources E = onr (bnd (create_admin_queues E 1 ''ACQ'' ''ASQ'') (\<lambda>_. ret ()))"

text \<open>
  The command of all these tests: an Identify for a namespace. \<open>nsid\<close> is the identifier, if one is set before the buffer is made, and
  \<open>offset\<close> the constant \<open>PRP_BUFFER_OFFSET\<close> of the test: the buffer starts a page in all of them but prp1PRP2.
\<close>

definition PRP_BUFFER_OFFSET :: u32 where "PRP_BUFFER_OFFSET = 0"

definition PRP_BUFFER_OFFSET_prp1PRP2 :: u32 where "PRP_BUFFER_OFFSET_prp1PRP2 = 0x800"

definition namspc_cmd :: "'d device_env \<Rightarrow> u32 \<Rightarrow> u32 option \<Rightarrow> u32 \<Rightarrow> (cmd \<times> ('d, 'm) world_scheme, unit) prog" where
  "namspc_cmd E offset nsid prps =
     sq (onl (Identify_SetCNS CNS_Namespace))
    (sq (case nsid of None \<Rightarrow> ret () | Some i \<Rightarrow> onl (Cmd_SetNSID i))
    (bnd (onr new_mb) (\<lambda>idMemNamSpc.
     sq (onr (on_mb idMemNamSpc (MemBuffer_InitOffset1stPage (su_libc E) 4096 offset True 0)))
    (bnd (gets (\<lambda>(c, s). wd_bufs s idMemNamSpc)) (\<lambda>b.
     onl (PrpData_SetPrpBuffer prps idMemNamSpc b))))))"

section \<open>Illegal namespaces\<close>

text \<open>
  The values of \<open>i\<close> in \<open>for (i = (nn + 1), inc = 1; i <= 0xffffffff; i += (2 * inc), inc += 1327)\<close>. Both variables have 64 bits,
  and with \<open>inc\<close> starting at one neither comes near \<open>2 ^ 64\<close> before the loop ends; \<open>nn + 1\<close> is a 32-bit sum.
\<close>

function illegal_ids :: "nat \<Rightarrow> nat \<Rightarrow> nat list" where
  "illegal_ids i inc = (if i \<le> 0xffffffff then i # illegal_ids (i + 2 * inc) (inc + 1327) else [])"
  by auto
termination
  by (relation "measure (\<lambda>(i, inc). 2 * (0x100000000 - i) + (if inc = 0 then 1 else 0))") auto

declare illegal_ids.simps [simp del]

definition InvalidNamspc_r10b_RunCoreTest ::
  "'d device_env \<Rightarrow> ('x test_obj_scheme \<times> ('d, 'm) group_world_scheme, unit) prog" where
  "InvalidNamspc_r10b_RunCoreTest E = of_test (\<lambda>t.
     bnd (lookup_asq ''ASQ'') (\<lambda>asq.
     bnd (lookup_acq ''ACQ'') (\<lambda>acq.
     with_cmd (Identify_Identify (su_libc E) (su_masks E))
      (sq (namspc_cmd E PRP_BUFFER_OFFSET None (MASK_PRP1_PAGE (su_masks E)))
      (bnd (onr (ctrlr_value IDCTRLRCAP_NN)) (\<lambda>nn.
       each (\<lambda>i.
          sq (onl (Cmd_SetNSID (of_nat i)))
             (through asq (\<lambda>sq. through acq (\<lambda>cq.
                send_expect E (test_call t (''namspc'' @ numeral_of 10 i) True) sq cq CESTAT_INVAL_NAMSPC))))
         (illegal_ids (unat (ucast nn + 1 :: u32)) 1)))))))"

section \<open>PRPs\<close>

definition require_namspc :: "(('d, 'm) world_scheme, unit) prog" where
  "require_namspc = bnd (ctrlr_value IDCTRLRCAP_NN) (\<lambda>nn. throw_if (nn = 0) (FrmwkEx ''Required to support >= 1 namespace''))"

definition both_pages :: "send_masks \<Rightarrow> u32" where
  "both_pages M = MASK_PRP1_PAGE M OR MASK_PRP2_PAGE M"

definition PRP1PRP2_r10b_RunCoreTest ::
  "'d device_env \<Rightarrow> ('x test_obj_scheme \<times> ('d, 'm) group_world_scheme, unit) prog" where
  "PRP1PRP2_r10b_RunCoreTest E = of_test (\<lambda>t.
     bnd (lookup_asq ''ASQ'') (\<lambda>asq.
     bnd (lookup_acq ''ACQ'') (\<lambda>acq.
     sq require_namspc
    (with_cmd (Identify_Identify (su_libc E) (su_masks E))
      (sq (namspc_cmd E PRP_BUFFER_OFFSET_prp1PRP2 (Some 1) (both_pages (su_masks E)))
          (through asq (\<lambda>sq. through acq (\<lambda>cq. send_expect E (test_call t ''prp1Prp2'' True) sq cq CESTAT_SUCCESS))))))))"

definition PRP1_r10b_RunCoreTest ::
  "'d device_env \<Rightarrow> ('x test_obj_scheme \<times> ('d, 'm) group_world_scheme, unit) prog" where
  "PRP1_r10b_RunCoreTest E = of_test (\<lambda>t.
     bnd (lookup_asq ''ASQ'') (\<lambda>asq.
     bnd (lookup_acq ''ACQ'') (\<lambda>acq.
     sq require_namspc
    (with_cmd (Identify_Identify (su_libc E) (su_masks E))
      (sq (namspc_cmd E PRP_BUFFER_OFFSET (Some 1) (MASK_PRP1_PAGE (su_masks E)))
          (through asq (\<lambda>sq. through acq (\<lambda>cq. send_expect E (test_call t ''prp1_only'' True) sq cq CESTAT_SUCCESS))))))))"

section \<open>Reserved fields\<close>

text \<open>What the three revisions have in common; \<open>dw0\<close> and \<open>dw10\<close> are the reserved bits that are set.\<close>

definition rsvd_identify ::
  "'d device_env \<Rightarrow> 'x test_obj_scheme \<Rightarrow> (sub_queue option \<Rightarrow> comp_queue option \<Rightarrow> (cmd \<times> ('d, 'm) group_world_scheme, unit) prog)
     \<Rightarrow> u32 \<Rightarrow> u32 \<Rightarrow> (('d, 'm) group_world_scheme, unit) prog" where
  "rsvd_identify E t rest dw0 dw10 =
     bnd (lookup_asq ''ASQ'') (\<lambda>asq.
     bnd (lookup_acq ''ACQ'') (\<lambda>acq.
     sq require_namspc
    (with_cmd (Identify_Identify (su_libc E) (su_masks E))
      (sq (namspc_cmd E PRP_BUFFER_OFFSET (Some 1) (both_pages (su_masks E)))
      (sq (through asq (\<lambda>sq. through acq (\<lambda>cq. send_expect E (test_call t ''rsvdnone.set'' True) sq cq CESTAT_SUCCESS)))
      (sq (onl (set_bits 0 dw0))
      (sq (onl (set_ones [2, 3, 4, 5]))
      (sq (onl (set_bits 10 dw10))
      (sq (onl (set_ones [11, 12, 13, 14, 15]))
      (sq (through asq (\<lambda>sq. through acq (\<lambda>cq. send_expect E (test_call t ''rsvdall.set'' True) sq cq CESTAT_SUCCESS)))
          (rest asq acq)))))))))))"

definition Identify_RsvdFields_r10b ::
  "'d device_env \<Rightarrow> ('x test_obj_scheme \<times> ('d, 'm) group_world_scheme, unit) prog" where
  "Identify_RsvdFields_r10b E = of_test (\<lambda>t. rsvd_identify E t (\<lambda>_ _. ret ()) 0x0000fc00 0xfffffffe)"

text \<open>A value of the CNS field that has to be refused.\<close>

definition refuse_cns ::
  "'d device_env \<Rightarrow> 'x test_obj_scheme \<Rightarrow> sub_queue option \<Rightarrow> comp_queue option \<Rightarrow> u32 \<Rightarrow> (cmd \<times> ('d, 'm) world_scheme, unit) prog" where
  "refuse_cns E t asq acq work =
     sq (onl (Cmd_SetDword work 10))
        (through asq (\<lambda>sq. through acq (\<lambda>cq. send_refuse E (test_call t ''rsvdall.val.set'' True) sq cq CESTAT_SUCCESS)))"

definition Identify_RsvdFields_r11b ::
  "'d device_env \<Rightarrow> ('x test_obj_scheme \<times> ('d, 'm) group_world_scheme, unit) prog" where
  "Identify_RsvdFields_r11b E = of_test (\<lambda>t. rsvd_identify E t (\<lambda>asq acq.
     bnd (onl (Cmd_GetDword 10)) (\<lambda>cdw10. refuse_cns E t asq acq (cdw10 OR 0x3))) 0x00007c00 0xfffffffc)"

definition cnsNonRsvdVal :: "u32 list" where
  "cnsNonRsvdVal = [0x00, 0x01, 0x02, 0x10, 0x11, 0x12, 0x13]"

definition rsvd_cns :: "u32 list" where
  "rsvd_cns = filter (\<lambda>v. v \<notin> set cnsNonRsvdVal) (map of_nat [0..<256])"

definition Identify_RsvdFields_r12 ::
  "'d device_env \<Rightarrow> ('x test_obj_scheme \<times> ('d, 'm) group_world_scheme, unit) prog" where
  "Identify_RsvdFields_r12 E = of_test (\<lambda>t. rsvd_identify E t (\<lambda>asq acq.
     bnd (onl (Cmd_GetDword 10)) (\<lambda>cdw10.
       each (\<lambda>cnsVal. refuse_cns E t asq acq (cdw10 OR cnsVal)) rsvd_cns)) 0x00003c00 0x0000ff00)"

section \<open>The identifiers the test sends\<close>

lemma illegal_ids_above: "x \<in> set (illegal_ids i inc) \<Longrightarrow> i \<le> x \<and> x \<le> 0xffffffff"
proof (induction i inc rule: illegal_ids.induct)
  case (1 i inc)
  then show ?case by (subst (asm) illegal_ids.simps) (auto split: if_splits)
qed

text \<open>After \<open>k\<close> steps from \<open>i\<close>, \<open>inc\<close> the variable has the value \<open>i + 2 * k * inc + 1327 * k * (k - 1)\<close>.\<close>

lemma illegal_ids_nth:
  "k < length (illegal_ids i inc) \<Longrightarrow> illegal_ids i inc ! k = i + 2 * k * inc + 1327 * (k * (k - 1))"
proof (induction k arbitrary: i inc)
  case 0
  then show ?case by (subst illegal_ids.simps) (subst (asm) illegal_ids.simps, auto split: if_splits)
next
  case (Suc k)
  then have i: "i \<le> 0xffffffff" by (subst (asm) (2) illegal_ids.simps) (auto split: if_splits)
  then have "k < length (illegal_ids (i + 2 * inc) (inc + 1327))"
    using Suc.prems by (subst (asm) illegal_ids.simps) simp
  from Suc.IH [OF this] i show ?case
    by (subst illegal_ids.simps) (cases k, auto simp: algebra_simps)
qed

lemma illegal_ids_length: "length (illegal_ids i 1) \<le> 1800"
proof (rule ccontr)
  assume "\<not> ?thesis"
  then have k: "1800 < length (illegal_ids i 1)" by simp
  from illegal_ids_nth [OF this] have "illegal_ids i 1 ! 1800 > 0xffffffff" by simp
  moreover have "illegal_ids i 1 ! 1800 \<le> 0xffffffff" using illegal_ids_above nth_mem [OF k] by blast
  ultimately show False by simp
qed

lemma illegal_ids_sorted: "0 < inc \<Longrightarrow> sorted_wrt (<) (illegal_ids i inc)"
proof (induction i inc rule: illegal_ids.induct)
  case (1 i inc)
  show ?case
  proof (cases "i \<le> 0xffffffff")
    case True
    then have "\<forall>x \<in> set (illegal_ids (i + 2 * inc) (inc + 1327)). i < x"
      using illegal_ids_above 1(2) by fastforce
    then show ?thesis using 1 True by (subst illegal_ids.simps) simp
  next
    case False
    then show ?thesis by (subst illegal_ids.simps) simp
  qed
qed

section \<open>Properties\<close>

text \<open>C36: The loop over illegal namespaces ends after at most 1800 commands. Its identifiers are strictly increasing and have 32 bits;
  all are above the number of namespaces \<open>NN\<close>, and \<open>NN + 1\<close> is among them. The exception is \<open>NN = 0xffffffff\<close>: the sum \<open>NN + 1\<close> wraps
  to zero, and the test demands that the legal namespace 2 is refused.\<close>

theorem InvalidNamspc_ids:
  fixes nn :: u32
  shows "length (illegal_ids (unat (nn + 1)) 1) \<le> 1800 \<and> sorted_wrt (<) (illegal_ids (unat (nn + 1)) 1) \<and>
    (\<forall>i. i \<in> set (illegal_ids (unat (nn + 1)) 1) \<longrightarrow> i \<le> 0xffffffff) \<and>
    (if nn = 0xffffffff then {0, 2} \<subseteq> set (illegal_ids (unat (nn + 1)) 1)
     else Min (set (illegal_ids (unat (nn + 1)) 1)) = unat nn + 1)"
proof (intro conjI)
  show "length (illegal_ids (unat (nn + 1)) 1) \<le> 1800" by (rule illegal_ids_length)
  show "sorted_wrt (<) (illegal_ids (unat (nn + 1)) 1)" by (rule illegal_ids_sorted) simp
  show "\<forall>i. i \<in> set (illegal_ids (unat (nn + 1)) 1) \<longrightarrow> i \<le> 0xffffffff" using illegal_ids_above by blast
  have first: "i \<in> set (illegal_ids i inc)" if "i \<le> 0xffffffff" for i inc
    using that by (subst illegal_ids.simps) simp
  show "if nn = 0xffffffff then {0, 2} \<subseteq> set (illegal_ids (unat (nn + 1)) 1)
     else Min (set (illegal_ids (unat (nn + 1)) 1)) = unat nn + 1"
  proof (cases "nn = 0xffffffff")
    case True
    then have "unat (nn + 1) = 0" by simp
    moreover have "illegal_ids 0 1 = 0 # illegal_ids 2 1328" by (subst illegal_ids.simps) (simp add: numeral_2_eq_2)
    ultimately show ?thesis using True first [of 2 1328] by simp
  next
    case False
    have "(0xffffffff :: u32) = - 1" by simp
    then have "nn + 1 \<noteq> 0" using False by (metis eq_neg_iff_add_eq_0)
    then have next1: "unat (nn + 1) = unat nn + 1" by (simp add: unat_eq_zero unatSuc add.commute)
    have "unat (nn + 1) < 2 ^ 32" using unsigned_less [of "nn + 1"] by simp
    then have "unat (nn + 1) \<in> set (illegal_ids (unat (nn + 1)) 1)" by (intro first) simp
    then have "Min (set (illegal_ids (unat (nn + 1)) 1)) = unat (nn + 1)"
      by (intro Min_eqI) (auto dest: illegal_ids_above)
    with False next1 show ?thesis by simp
  qed
qed

theorem InvalidNamspc_ids_witness:
  "Min (set (illegal_ids 5 1)) = 5 \<and> {0, 2} \<subseteq> set (illegal_ids 0 1)"
  using InvalidNamspc_ids [of 4] InvalidNamspc_ids [of "0xffffffff"] by simp

end
