(* ===== verification/General_Tests.thy ===== *)
theory General_Tests
  imports Get_Features_Tests
begin

text \<open>
  The tests of the group GrpGeneralCmds: illegal opcodes on the admin queue and on an I/O queue, and the identifiers the
  driver gives to the commands of the admin submission queue.
\<close>

section \<open>Resources of the group\<close>

definition CAP_MQES :: u64 where "CAP_MQES = 0xffff"

text \<open>Queues with group lifetime that a function of \<open>Queues\<close> has created are found in the registry.\<close>

definition keep_iocq :: "string \<Rightarrow> comp_queue \<Rightarrow> (('d, 'm) group_world_scheme, unit) prog" where
  "keep_iocq name q =
     bnd (ObjRsrc_GetObj name) (\<lambda>p.
     through p (\<lambda>obj. modify (\<lambda>s. s\<lparr>gw_cqs := (gw_cqs s)(tr_addr obj := q)\<rparr>)))"

definition keep_iosq :: "string \<Rightarrow> io_sub_queue \<Rightarrow> (('d, 'm) group_world_scheme, unit) prog" where
  "keep_iosq name q =
     bnd (ObjRsrc_GetObj name) (\<lambda>p.
     through p (\<lambda>obj. modify (\<lambda>s. s\<lparr>gw_iosqs := (gw_iosqs s)(tr_addr obj := q)\<rparr>)))"

text \<open>Memory for a queue that is not contiguous: \<open>InitOffset1stPage(numEntries * (1 << es), 0, true)\<close>.\<close>

definition queue_memory :: "'d device_env \<Rightarrow> u32 \<Rightarrow> u8 \<Rightarrow> (('d, 'm) world_scheme, nat) prog" where
  "queue_memory E numEntries es =
     bnd new_mb (\<lambda>mem.
     sq (on_mb mem (MemBuffer_InitOffset1stPage (su_libc E) (numEntries * push_bit (unat es) 1) 0 True 0)) (ret mem))"

text \<open>\<open>numEntriesIOQ\<close> is a static member; the result is its new value.\<close>

definition General_CreateResources ::
  "'d device_env \<Rightarrow> u32 \<Rightarrow> ('x test_obj_scheme \<times> ('d, 'm) group_world_scheme, u32) prog" where
  "General_CreateResources E numEntriesIOQ = of_test (\<lambda>t.
     let call = test_call t [] True; ms = ucast (CALC_TIMEOUT_ms 1) in
     bnd (create_admin_queues E 2 ''ACQ'' ''ASQ'') (\<lambda>(acq, asq).
     bnd (Registers_Read_ctl (su_drv E) CTLSPC_CAP (undef64 (su_libc E))) (\<lambda>(ok, cap).
     sq (throw_if (\<not> ok) (FrmwkEx ''Unable to determine MQES''))
    (let maxIOQEntries = (cap AND CAP_MQES) + 1;
         n = (if maxIOQEntries < ucast numEntriesIOQ then ucast maxIOQEntries else numEntriesIOQ) in
     bnd (ctrlr_value IDCTRLRCAP_CQES) (\<lambda>cqes.
     bnd (ctrlr_value IDCTRLRCAP_SQES) (\<lambda>sqes.
     let iocqes = ucast (cqes AND 0xf) :: u8; iosqes = ucast (sqes AND 0xf) :: u8 in
     bnd (CtrlrConfig_SetIOCQES (su_libc E) (su_drv E) iocqes) (\<lambda>_.
     bnd (CtrlrConfig_SetIOSQES (su_libc E) (su_drv E) iosqes) (\<lambda>_.
     bnd (SupportDiscontigIOQ E) (\<lambda>discontig.
     if discontig
     then bnd (queue_memory E n iocqes) (\<lambda>iocqMem.
          bnd (CreateIOCQDiscontigToHdw E call ms asq acq 1 n True ''IOCQ'' True 1 iocqMem) (\<lambda>iocq.
          sq (keep_iocq ''IOCQ'' iocq)
         (bnd (queue_memory E n iosqes) (\<lambda>iosqMem.
          bnd (CreateIOSQDiscontigToHdw E call ms asq acq 1 n True ''IOSQ'' 1 0 iosqMem) (\<lambda>iosq.
          sq (keep_iosq ''IOSQ'' iosq) (ret n))))))
     else bnd (CreateIOCQContigToHdw E call ms asq acq 1 n True ''IOCQ'' True 1) (\<lambda>iocq.
          sq (keep_iocq ''IOCQ'' iocq)
         (bnd (CreateIOSQContigToHdw E call ms asq acq 1 n True ''IOSQ'' 1 0) (\<lambda>iosq.
          sq (keep_iosq ''IOSQ'' iosq) (ret n)))))))))))))"

section \<open>Illegal opcodes\<close>

definition opcodes :: "nat \<Rightarrow> nat \<Rightarrow> u8 list" where
  "opcodes a b = map of_nat [a..<b]"

text \<open>\<open>list::remove\<close> of each of \<open>vs\<close>, if \<open>b\<close>.\<close>

definition removed :: "bool \<Rightarrow> u8 list \<Rightarrow> u8 list \<Rightarrow> u8 list" where
  "removed b vs xs = (if b then foldl (\<lambda>xs v. removeAll v xs) xs vs else xs)"

definition IllegalAdmin_GetIllegalOpcodes_r10b :: "(('d, 'm) world_scheme, u8 list) prog" where
  "IllegalAdmin_GetIllegalOpcodes_r10b =
     bnd (ctrlr_value IDCTRLRCAP_OACS) (\<lambda>v.
     let optAdminCmds = ucast v :: u8 in
     ret (removed (optAdminCmds AND 0x04 \<noteq> 0) [0x10, 0x11]
         (removed (optAdminCmds AND 0x02 \<noteq> 0) [0x80]
         (removed (optAdminCmds AND 0x01 \<noteq> 0) [0x81, 0x82]
         ([0x03, 0x07, 0x0b] @ opcodes 0x0d 0xc0)))))"

definition IllegalAdmin_GetIllegalOpcodes_r12 :: "(('d, 'm) world_scheme, u8 list) prog" where
  "IllegalAdmin_GetIllegalOpcodes_r12 =
     bnd IllegalAdmin_GetIllegalOpcodes_r10b (\<lambda>illegalOpCodes.
     bnd (ctrlr_value IDCTRLRCAP_OACS) (\<lambda>v.
     let optAdminCmds = ucast v :: u8 in
     ret (removed (optAdminCmds AND 0x08 \<noteq> 0) [0x0d, 0x15] illegalOpCodes)))"

definition IllegalNVM_GetIllegalOpcodes_r10b :: "(('d, 'm) world_scheme, u8 list) prog" where
  "IllegalNVM_GetIllegalOpcodes_r10b =
     bnd (ctrlr_value IDCTRLRCAP_ONCS) (\<lambda>v.
     let optNVMCmds = ucast v :: u8 in
     ret (removed (optNVMCmds AND 0x08 \<noteq> 0) [0x08]
         (removed (optNVMCmds AND 0x04 \<noteq> 0) [0x09]
         (removed (optNVMCmds AND 0x02 \<noteq> 0) [0x04]
         (removed (optNVMCmds AND 0x01 \<noteq> 0) [0x05] (opcodes 0x03 0x80))))))"

definition IllegalNVM_GetIllegalOpcodes_r11 :: "(('d, 'm) world_scheme, u8 list) prog" where
  "IllegalNVM_GetIllegalOpcodes_r11 =
     bnd IllegalNVM_GetIllegalOpcodes_r10b (\<lambda>illegalOpCodes.
     bnd (ctrlr_value IDCTRLRCAP_ONCS) (\<lambda>v.
     let optNVMCmds = ucast v :: u8 in
     ret (removed (optNVMCmds AND 0x20 \<noteq> 0) [0x0d, 0x0e, 0x11, 0x15] illegalOpCodes)))"

text \<open>The virtual function \<open>GetIllegalOpcodes\<close> is the argument \<open>getOps\<close>.\<close>

definition IllegalAdminCmds_RunCoreTest ::
  "'d device_env \<Rightarrow> (('d, 'm) group_world_scheme, u8 list) prog \<Rightarrow> ('x test_obj_scheme \<times> ('d, 'm) group_world_scheme, unit) prog" where
  "IllegalAdminCmds_RunCoreTest E getOps = of_test (\<lambda>t.
     bnd getOps (\<lambda>illegalOpCodes.
     bnd (lookup_asq ''ASQ'') (\<lambda>asq.
     bnd (lookup_acq ''ACQ'') (\<lambda>acq.
     with_cmd (Cmd_Cmd OBJ_ADMINCMD)
       (each (\<lambda>opCode.
          sq (onl (AdminCmd_Init (su_libc E) opCode 64))
             (through asq (\<lambda>sq. through acq (\<lambda>cq.
                send_expect E (test_call t (''IllegalOpcode.'' @ numeral_of 10 (unat opCode)) True) sq cq CESTAT_INVAL_OPCODE))))
          illegalOpCodes)))))"

definition IllegalNVMCmds_RunCoreTest ::
  "'d device_env \<Rightarrow> (('d, 'm) group_world_scheme, u8 list) prog \<Rightarrow> ('x test_obj_scheme \<times> ('d, 'm) group_world_scheme, unit) prog" where
  "IllegalNVMCmds_RunCoreTest E getOps = of_test (\<lambda>t.
     bnd getOps (\<lambda>illegalOpCodes.
     bnd (lookup_iosq ''IOSQ'') (\<lambda>iosq.
     bnd (lookup_iocq ''IOCQ'') (\<lambda>iocq.
     with_cmd (Cmd_Cmd OBJ_NVMCMD)
       (each (\<lambda>opCode.
          sq (onl (NVMCmd_Init (su_libc E) opCode 64))
         (sq (onl (Cmd_SetNSID 1))
             (through iosq (\<lambda>sq. through iocq (\<lambda>cq.
                send_expect E (test_call t (''IllegalOpcode.'' @ numeral_of 10 (unat opCode)) True) sq cq CESTAT_INVAL_OPCODE)))))
          illegalOpCodes)))))"

section \<open>Command identifiers\<close>

definition MAX_CMDS :: nat where "MAX_CMDS = 65536 + 1"

definition fail_dump :: "'d device_env \<Rightarrow> 'x test_obj_scheme \<Rightarrow> string \<Rightarrow> ('s, unit) prog" where
  "fail_dump E t name = dump_as (su_fs E) (test_call t [] True) name []"

text \<open>The output parameters \<open>numCE\<close> and \<open>isrCount\<close> are not initialised.\<close>

definition ReapVerifyCID_ASQ ::
  "'d device_env \<Rightarrow> 'x test_obj_scheme \<Rightarrow> 'r queue_scheme \<Rightarrow> u16 \<Rightarrow> (('d, 'm) world_scheme, unit) prog" where
  "ReapVerifyCID_ASQ E t acq currCID =
     (let u = ucast (undef64 (su_libc E)) :: u32 in
      bnd (CQ_ReapInquiryWaitSpecify (su_drv E) (su_fuel E) acq (CALC_TIMEOUT_ms 1) 1 (u, u)) (\<lambda>(found, numCE, isrCount).
      sq (if found then ret () else sq (fail_dump E t ''acq.fail'') (raise (FrmwkEx ''Unable to see CEs for issued cmd'')))
     (bnd new_mb (\<lambda>ceMem.
      bnd (CQ_Reap (su_libc E) (su_drv E) acq ceMem numCE True True) (\<lambda>(numReaped, ceRemain, isrCount).
      sq (if numReaped = 1 then ret () else sq (fail_dump E t ''acq.fail'') (raise (FrmwkEx ''Unable to reap on ACQ'')))
     (bnd (on_mb ceMem (mb_load 0 16)) (\<lambda>bs.
      let ce = ce_of_bytes bs in
      sq (lift_result (ProcessCE_Validate ce CESTAT_SUCCESS))
         (if ce_CID ce = currCID then ret ()
          else sq (fail_dump E t ''asq.fail'') (sq (fail_dump E t ''acq.fail'')
              (raise (FrmwkEx ''Received CID %d but expected %d'')))))))))))"

text \<open>The loop over \<open>nCmds\<close>, of which \<open>n\<close> iterations are left; the result is the last identifier.\<close>

fun cid_accept_loop ::
  "'d device_env \<Rightarrow> 'x test_obj_scheme \<Rightarrow> 'q queue_scheme \<Rightarrow> 'r queue_scheme \<Rightarrow> nat \<Rightarrow> u16
     \<Rightarrow> (cmd \<times> ('d, 'm) world_scheme, u16) prog" where
  "cid_accept_loop E t asq acq 0 prevCID = ret prevCID"
| "cid_accept_loop E t asq acq (Suc n) prevCID =
     sq (onr (SQ_Ring (su_drv E) asq))
    (sq (onr (ReapVerifyCID_ASQ E t acq prevCID))
    (bnd (sq_Send (su_drv E) (su_masks E) asq) (\<lambda>currCID.
     if currCID \<noteq> prevCID + 1
     then sq (fail_dump E t ''asq.fail'') (sq (fail_dump E t ''acq.fail'')
            (raise (FrmwkEx ''Current CID(%d) != prev + 1(%d)'')))
     else cid_accept_loop E t asq acq n currCID)))"

text \<open>The Identify command for the controller data, with its buffer.\<close>

definition ctrlr_cmd :: "'d device_env \<Rightarrow> (cmd \<times> ('d, 'm) world_scheme, unit) prog" where
  "ctrlr_cmd E =
     sq (onl (Identify_SetCNS CNS_Controller))
    (bnd (onr new_mb) (\<lambda>idMemCap.
     sq (onr (on_mb idMemCap (MemBuffer_InitAlignment (su_libc E) 4096 PRP_BUFFER_ALIGNMENT False 0 None)))
    (bnd (gets (\<lambda>(c, s). wd_bufs s idMemCap)) (\<lambda>b.
     onl (PrpData_SetPrpBuffer (MASK_PRP1_PAGE (su_masks E) OR MASK_PRP2_PAGE (su_masks E)) idMemCap b)))))"

definition CIDAcceptedASQ_RunCoreTest ::
  "'d device_env \<Rightarrow> ('x test_obj_scheme \<times> ('d, 'm) group_world_scheme, unit) prog" where
  "CIDAcceptedASQ_RunCoreTest E = of_test (\<lambda>t.
     bnd (lookup_asq ''ASQ'') (\<lambda>asq.
     bnd (lookup_acq ''ACQ'') (\<lambda>acq.
     through acq (\<lambda>cq.
     bnd (CQ_ReapInquiry (su_drv E) cq) (\<lambda>(numCE, isrCount).
     sq (if numCE = 0 then ret ()
         else sq (dump_as (su_fs E) (test_call t [] True) ''acq'' ''notEmpty'')
                 (raise (FrmwkEx ''The ACQ should not have any CE's waiting before testing'')))
    (with_cmd (Identify_Identify (su_libc E) (su_masks E))
      (sq (ctrlr_cmd E)
          (through asq (\<lambda>sq.
             bnd (sq_Send (su_drv E) (su_masks E) sq) (\<lambda>currCID.
             bnd (cid_accept_loop E t sq cq MAX_CMDS currCID) (\<lambda>_. ret ())))))))))))"

section \<open>Sets of opcodes\<close>

lemma set_removed: "set (removed b vs xs) = set xs - (if b then set vs else {})"
proof -
  have "set (foldl (\<lambda>xs v. removeAll v xs) xs vs) = set xs - set vs" for xs
    by (induction vs arbitrary: xs) auto
  then show ?thesis by (simp add: removed_def)
qed

lemma set_opcodes:
  assumes "b \<le> 255"
  shows "set (opcodes a b) = {op. a \<le> unat op \<and> unat op < b}"
proof -
  have "op \<in> set (opcodes a b)" if "a \<le> unat op" "unat op < b" for op :: u8
    using that unfolding opcodes_def by (auto intro: image_eqI [of _ _ "unat op"])
  moreover have "a \<le> unat op \<and> unat op < b" if "op \<in> set (opcodes a b)" for op
    using that assms by (auto simp: opcodes_def unat_of_nat take_bit_nat_eq_self)
  ultimately show ?thesis by blast
qed

lemma masked_bit: "(w :: u8) AND 0x01 \<noteq> 0 \<longleftrightarrow> bit w 0" "w AND 0x02 \<noteq> 0 \<longleftrightarrow> bit w 1" "w AND 0x04 \<noteq> 0 \<longleftrightarrow> bit w 2"
  "w AND 0x08 \<noteq> 0 \<longleftrightarrow> bit w 3" "w AND 0x20 \<noteq> 0 \<longleftrightarrow> bit w 5"
proof -
  have m: "w AND 2 ^ n \<noteq> 0 \<longleftrightarrow> bit w n" for n
    by (simp add: and_exp_eq_0_iff_not_bit)
  show "w AND 0x01 \<noteq> 0 \<longleftrightarrow> bit w 0" "w AND 0x02 \<noteq> 0 \<longleftrightarrow> bit w 1" "w AND 0x04 \<noteq> 0 \<longleftrightarrow> bit w 2"
    "w AND 0x08 \<noteq> 0 \<longleftrightarrow> bit w 3" "w AND 0x20 \<noteq> 0 \<longleftrightarrow> bit w 5"
    using m [of 0] m [of 1] m [of 2] m [of 3] m [of 5] by simp_all
qed

text \<open>The opcodes of the optional commands, with the bit of OACS or ONCS that announces them.\<close>

definition optional_admin :: "(u8 \<times> nat) list" where
  "optional_admin = [(0x10, 2), (0x11, 2), (0x80, 1), (0x81, 0), (0x82, 0), (0x0d, 3), (0x15, 3)]"

definition optional_nvm :: "(u8 \<times> nat) list" where
  "optional_nvm = [(0x05, 0), (0x04, 1), (0x09, 2), (0x08, 3), (0x0d, 5), (0x0e, 5), (0x11, 5), (0x15, 5)]"

definition announced :: "(u8 \<times> nat) list \<Rightarrow> u64 \<Rightarrow> u8 \<Rightarrow> bool" where
  "announced opt v op \<longleftrightarrow> (\<exists>(opc, b) \<in> set opt. op = opc \<and> bit v b)"

section \<open>The identifiers of the commands\<close>

text \<open>When the loop of the test of command identifiers comes to its end, the driver has given the commands consecutive identifiers,
  modulo \<open>2 ^ 16\<close>: after the 65537 commands of the test every identifier has been in use.\<close>

lemma cid_accept_loop_consecutive:
  fixes s :: "cmd \<times> ('d, 'm) world_scheme"
  assumes "cid_accept_loop E t asq acq n prev s = (Inr final, u)"
  shows "final = prev + of_nat n \<and>
    (\<forall>k < n. \<exists>(v :: cmd \<times> ('d, 'm) world_scheme) w. sq_Send (su_drv E) (su_masks E) asq v = (Inr (prev + of_nat k + 1), w)) \<and>
    (n = MAX_CMDS \<longrightarrow> (\<forall>cid. \<exists>(v :: cmd \<times> ('d, 'm) world_scheme) w. sq_Send (su_drv E) (su_masks E) asq v = (Inr cid, w)))"
proof -
  have run: "final = prev + of_nat n \<and> (\<forall>k < n. \<exists>(v :: cmd \<times> ('d, 'm) world_scheme) w. sq_Send (su_drv E) (su_masks E) asq v = (Inr (prev + of_nat k + 1), w))"
    using assms
  proof (induction n arbitrary: prev s)
    case (Suc n)
    from Suc.prems obtain v w where send: "sq_Send (su_drv E) (su_masks E) asq v = (Inr (prev + 1), w)"
      and rest: "cid_accept_loop E t asq acq n (prev + 1) w = (Inr final, u)"
      by (fastforce simp: bnd_Inr_iff sq_Inr_iff split: if_splits)
    show ?case
    proof (intro conjI allI impI)
      show "final = prev + of_nat (Suc n)" using Suc.IH [OF rest] by simp
      fix k assume k: "k < Suc n"
      show "\<exists>(v :: cmd \<times> ('d, 'm) world_scheme) w. sq_Send (su_drv E) (su_masks E) asq v = (Inr (prev + of_nat k + 1), w)"
      proof (cases k)
        case 0
        then show ?thesis using send by (intro exI [of _ v] exI [of _ w]) simp
      next
        case (Suc j)
        then show ?thesis using conjunct2 [OF Suc.IH [OF rest]] k by (auto simp: add.assoc)
      qed
    qed
  qed simp
  moreover have "\<exists>(v :: cmd \<times> ('d, 'm) world_scheme) w. sq_Send (su_drv E) (su_masks E) asq v = (Inr cid, w)" if "n = MAX_CMDS" for cid
  proof -
    have "unat (cid - prev - 1) < 2 ^ 16" by (rule order_less_le_trans [OF unsigned_less]) simp
    then have "unat (cid - prev - 1) < n" using that by (simp add: MAX_CMDS_def)
    with run have "\<exists>(v :: cmd \<times> ('d, 'm) world_scheme) w. sq_Send (su_drv E) (su_masks E) asq v = (Inr (prev + of_nat (unat (cid - prev - 1)) + 1), w)" by blast
    then show ?thesis by simp
  qed
  ultimately show ?thesis by blast
qed

section \<open>Properties\<close>

text \<open>C33: The opcodes that the tests of the later revisions send are exactly those below the vendor specific ones that belong to no mandatory
  command and to no optional command that the controller announces.\<close>

theorem illegal_opcodes_exact:
  assumes "ctrlr_value IDCTRLRCAP_OACS s = (Inr oacs, s)" and "ctrlr_value IDCTRLRCAP_ONCS s = (Inr oncs, s)"
  shows "(\<exists>ops. IllegalAdmin_GetIllegalOpcodes_r12 s = (Inr ops, s) \<and>
      set ops = {op. op < 0xc0 \<and> op \<notin> {0, 1, 2, 4, 5, 6, 8, 9, 0x0a, 0x0c} \<and> \<not> announced optional_admin oacs op}) \<and>
    (\<exists>ops. IllegalNVM_GetIllegalOpcodes_r11 s = (Inr ops, s) \<and>
      set ops = {op. op < 0x80 \<and> op \<notin> {0, 1, 2} \<and> \<not> announced optional_nvm oncs op})"
proof -
  have low: "bit (ucast v :: u8) n \<longleftrightarrow> bit v n" if "n < 8" for v :: u64 and n
    using that by (simp add: bit_simps)
  have legal: "set ([0x03, 0x07, 0x0b] @ opcodes 0x0d 0xc0) = {op. op < 0xc0 \<and> op \<notin> {0, 1, 2, 4, 5, 6, 8, 9, 0x0a, 0x0c}}"
    "set (opcodes 0x03 0x80) = {op. op < 0x80 \<and> op \<notin> {0, 1, 2}}"
    by (auto simp: set_opcodes word_unat_eq_iff word_less_nat_alt, arith+)
  let ?admin = "\<lambda>b0 b1 b2 b3. removed b3 [0x0d, 0x15] (removed b2 [0x10, 0x11] (removed b1 [0x80] (removed b0 [0x81, 0x82]
      ([0x03, 0x07, 0x0b] @ opcodes 0x0d 0xc0))))"
  let ?nvm = "\<lambda>b0 b1 b2 b3 b5. removed b5 [0x0d, 0x0e, 0x11, 0x15] (removed b3 [0x08] (removed b2 [0x09] (removed b1 [0x04]
      (removed b0 [0x05] (opcodes 0x03 0x80)))))"
  have "op \<in> set (?admin (bit oacs 0) (bit oacs 1) (bit oacs 2) (bit oacs 3)) \<longleftrightarrow>
      op < 0xc0 \<and> op \<notin> {0, 1, 2, 4, 5, 6, 8, 9, 0x0a, 0x0c} \<and> \<not> announced optional_admin oacs op" for op
    unfolding set_removed legal(1) announced_def optional_admin_def by auto
  then have "IllegalAdmin_GetIllegalOpcodes_r12 s = (Inr (?admin (bit oacs 0) (bit oacs 1) (bit oacs 2) (bit oacs 3)), s) \<and>
      set (?admin (bit oacs 0) (bit oacs 1) (bit oacs 2) (bit oacs 3)) =
        {op. op < 0xc0 \<and> op \<notin> {0, 1, 2, 4, 5, 6, 8, 9, 0x0a, 0x0c} \<and> \<not> announced optional_admin oacs op}"
    by (auto simp: IllegalAdmin_GetIllegalOpcodes_r12_def IllegalAdmin_GetIllegalOpcodes_r10b_def bnd_apply Let_def masked_bit low assms(1))
  moreover have "op \<in> set (?nvm (bit oncs 0) (bit oncs 1) (bit oncs 2) (bit oncs 3) (bit oncs 5)) \<longleftrightarrow>
      op < 0x80 \<and> op \<notin> {0, 1, 2} \<and> \<not> announced optional_nvm oncs op" for op
    unfolding set_removed legal(2) announced_def optional_nvm_def by auto
  then have "IllegalNVM_GetIllegalOpcodes_r11 s = (Inr (?nvm (bit oncs 0) (bit oncs 1) (bit oncs 2) (bit oncs 3) (bit oncs 5)), s) \<and>
      set (?nvm (bit oncs 0) (bit oncs 1) (bit oncs 2) (bit oncs 3) (bit oncs 5)) =
        {op. op < 0x80 \<and> op \<notin> {0, 1, 2} \<and> \<not> announced optional_nvm oncs op}"
    by (auto simp: IllegalNVM_GetIllegalOpcodes_r11_def IllegalNVM_GetIllegalOpcodes_r10b_def bnd_apply Let_def masked_bit low assms(2))
  ultimately show ?thesis by blast
qed

theorem illegal_opcodes_exact_witness:
  "(\<exists>ops. IllegalAdmin_GetIllegalOpcodes_r12 (ex_group_world (replicate 4096 0)) = (Inr ops, ex_group_world (replicate 4096 0)) \<and>
      set ops = {op. op < 0xc0 \<and> op \<notin> {0, 1, 2, 4, 5, 6, 8, 9, 0x0a, 0x0c} \<and> \<not> announced optional_admin 0 op}) \<and>
    (\<exists>ops. IllegalNVM_GetIllegalOpcodes_r11 (ex_group_world (replicate 4096 0)) = (Inr ops, ex_group_world (replicate 4096 0)) \<and>
      set ops = {op. op < 0x80 \<and> op \<notin> {0, 1, 2} \<and> \<not> announced optional_nvm 0 op})"
proof -
  have "ctrlr_value IDCTRLRCAP_OACS (ex_group_world (replicate 4096 0)) = (Inr 0, ex_group_world (replicate 4096 0))"
    "ctrlr_value IDCTRLRCAP_ONCS (ex_group_world (replicate 4096 0)) = (Inr 0, ex_group_world (replicate 4096 0))"
    by (subst ex_ctrlr_value; simp add: mIdCtrlrCapMetrics_def mkId_def of_le_zeros)+
  from illegal_opcodes_exact [OF this] show ?thesis .
qed

end
