(* ===== verification/Spec2Isabelle.thy ===== *)
theory Spec2Isabelle
  imports Main_Program Frmwk_Ex Pci_Reg_Tests Identify_Tests General_Tests
begin

text \<open>
  A model of tnvme, the NVMe compliance test framework, in HOL. tnvme drives an NVMe device through the
  kernel driver dnvme: it reads and writes registers, enables and disables the controller, creates queues
  and commands as objects of a resource manager, sends commands, reaps completion entries and decides from
  them whether a test passed. The theories follow the code from its lowest layer to its main loop.

  \<^bold>\<open>Programs.\<close> A member function that can fail or that changes state is a function
  \<open>'s \<Rightarrow> (ex + 'a) \<times> 's\<close> (type \<open>prog\<close> of Prelude), composed by \<open>bnd\<close>, \<open>sq\<close>, \<open>gets\<close>, \<open>modify\<close> and \<open>zoom\<close>.
  An exception is a value of \<open>ex\<close>: \<open>FrmwkEx\<close> for the class of that name, \<open>FrmwkExPtr\<close> for a thrown pointer,
  \<open>BadAlloc\<close>-like failures, and \<open>UB\<close> for what the C++ standard leaves undefined (an access outside of a
  buffer, a shift by the width, the increment of an invalid iterator), so that undefined behaviour is an
  outcome a theorem has to rule out and never a HOL default value. Fixed-width integers are words; the sizes
  and indices of containers are natural numbers.

  \<^bold>\<open>Parameters.\<close> The ioctls and mappings of dnvme are the record \<open>dnvme\<close> of functions on an abstract driver state \<open>'d\<close>
  (Dnvme); the parts of the C library whose result the program cannot predict (allocation, page size, clock)
  are the record \<open>libc\<close>; shell and file system are the record \<open>os\<close> (File_Dumps); what libxml++ and
  getopt_long deliver are lists of nodes and of options. For the machinery that runs tests, the core test of a test case, whether it is
  runnable, and the hooks of a group are parameters of Test_Run; the test cases that are modelled have definitions of that type. Nothing is assumed of them unless a theorem says so.

  \<^bold>\<open>Theories and sources\<close> (under src/).
  Prelude: programs, exceptions, lemmas on words and lists.
  Mem_Buffer: Singletons/memBuffer (allocation, alignment, data patterns, comparison).
  Dnvme: Utils/kernelAPI (mmap, munmap) and the driver interface.
  Regs and Pci_Discovery: Singletons/registers and regDefs.h (tables, reads and writes, the walk of the
  capability lists).
  Ctrlr_Cap and Ctrlr_Config: Singletons/ctrlrCap and ctrlrConfig, subject.h, observer.h (CAP and CC fields, interrupt schemes,
  state changes and the observers they notify).
  Meta_Rsrc: Singletons/metaRsrc (unique ids of meta data buffers).
  Obj_Rsrc: Singletons/objRsrc, rsrcMngr, trackable (the registry of named objects).
  World: the singletons together. Its records extend each other, so that an operation of one component applies
  unchanged to the state of all.
  Bit_Fields and Cmd_Fields: fields of DWORDs, the contract of a pair of accessors.
  Cmd: Cmds/cmd, prpData, metaData. Admin_Cmds and Nvm_Cmds: all command classes of Cmds/.
  Identify, Informative and Informative_Init: Cmds/identify, identifyDefs.h, Singletons/informative (accessors; the commands that
  fill the cache). Informative_Runs: what these achieve.
  Comp_Entry: Queues/ce, ceDefs.h. Queues: Queues/queue, sq, cq, iosq, iocq, asq, acq.
  Test_Groups: testRef, group (the matrix of tests, dependency sets, skipping). Test_Run: test, testResults,
  Group::RunTest, ExecuteTests of tnvme.cpp. Parsers and Xml_Parsers: tnvmeParsers.cpp, the latter the XML files.
  Cmd_Line: the options of main. Main_Program: opening the device, the singletons' creation and destruction, main.
  Io: Utils/io, irq, Queues/backdoor (sending a command and reaping its entry). Device_Setup: Utils/queues (creating
  and deleting queues in the hardware). Device_Helpers: tnvmeHelpers.cpp (the single-command modes).
  Conformant: a contract of driver and device, and what the framework achieves on it. File_Dumps: Utils/fileSystem
  and the dumps of Utils/kernelAPI. Frmwk_Ex: Exception/frmwkEx (what constructing an exception does).
  Group_Tables: InstantiateGroups of tnvme.cpp and the constructors of the groups GrpXxx/grpXxx.cpp, which say what tests there are.
  Test cases, that is RunCoreTest, RunnableCoreTest and the helpers of their classes: Ctrl_Reg_Tests (GrpCtrlRegisters), Pci_Reg_Tests
  (GrpPciRegisters), Get_Features_Tests (GrpAdminGetFeatCmd), Identify_Tests (GrpAdminIdentifyCmd) and General_Tests (GrpGeneralCmds).
  Test_Fixture: what these share, above all the queue objects that the first test of a group leaves in the registry for the others.
  A definition has the name of the class and the member function it models, as in \<open>CQ_Reap\<close>.

  \<^bold>\<open>Interfaces.\<close> What one component relies on is a locale, interpreted on the definitions of the component that
  provides it: accessors of a command field (Cmd_Fields, interpreted for every field in Admin_Cmds and
  Nvm_Cmds), queue initialisation (Queues), the pool of meta data ids (Meta_Rsrc), the register file, and
  others in the theories that declare them.

  \<^bold>\<open>What is shown.\<close> Buffers: stores stay inside the buffer. Registers: the capability walk returns exactly the capabilities of a
  well-formed list, and never returns on a cyclic one. Configuration: fields read back, state changes notify
  every observer once when the driver accepted them and none otherwise, disabling completely empties the
  registry. Meta data: ids are never handed out twice. Commands: constructors give fresh commands, every
  accessor pair writes and reads exactly its field. Completion entries: validation accepts exactly the
  expected status. Queues: initialisation happens once and with the geometry asked for, a polling loop
  ends, sending stores the driver's unique id in the command. Groups: iterators enumerate the tests in order,
  dependency sets are what the numbering prescribes, a failure or a skipped test takes its dependents with
  it. Running: the loop over a group refines the schedule \<open>schedule\<close> of Test_Run, loses no test from its
  counters and ends. Parsers: printed targets, skip lists, queue counts and format files are read back. Main: which options
  access the hardware, which device is chosen, what the exit code says of the run and of what is left behind. The groups that are
  created: their numbers, and that no test is of a later revision than the one asked for. Test cases: what a test accepts and what it cannot detect. The
  register tests pass on a device exactly if certain bits have their values; the test of illegal opcodes sends exactly the illegal ones;
  the test of illegal namespaces ends and sends only illegal ones, with one exception; the test of invalid feature identifiers
  sends nothing at all, and a test of the PCI registers cannot pass on a device with the AER capability.

  \<^bold>\<open>Loops and their ends.\<close> Loops over containers are structural; the others are total functions with a measure: the
  distance to the end of the enumeration (\<open>seek_loop\<close>), the tests left (\<open>group_loop\<close>), the rest of the text
  (\<open>skip_lines\<close>). The capability walk may run forever: it has fuel, and the value that it has not ended; more fuel
  than the list has entries is shown to be enough, and on a cycle no fuel is. Freeing the released meta data buffers
  (\<open>free_released\<close>, \<open>free_reserved\<close>) follows the lists. A polling loop runs as many rounds as the driver's clock grants before the
  timeout; its fuel is an argument (\<open>su_fuel\<close>), and one round is shown to be enough on a conformant device. The constructors of
  exceptions can call each other; the argument of \<open>FrmwkEx_FrmwkEx\<close> bounds that nesting.

  \<^bold>\<open>Not modelled.\<close> Log messages, descriptions and the text of dump files. An exception is a value; the effects of
  constructing it are the subject of Frmwk_Ex and are not part of the other theories, so that a statement about the state after an
  exception speaks of the state before that constructor has run. Usage, the summaries and reports of main, which only
  print; the test cases of the Grp directories other than those named above, among them CIDAcceptedIOSQ of GrpGeneralCmds.
\<close>

end
